(* ===== verification/Rust_Prelude.thy ===== *)
theory Rust_Prelude
  imports
    Main
    "HOL-Library.List_Lexorder"
    "HOL-Library.Char_ord"
    "HOL-Library.Product_Lexorder"
    "HOL-Library.Option_ord"
    "HOL-Library.Multiset"
begin

text \<open>
  What every component of the development uses of Rust and of its standard library.

  A Rust \<open>String\<close> is modelled by the list of its UTF-8 bytes, an Isabelle \<open>string\<close>: equality,
  \<open>len\<close>, the byte-wise order of \<open>Ord for str\<close>, searching and splitting at ASCII characters are then
  the list operations, and the operations that look at Unicode scalar values (\<open>trim\<close>,
  \<open>char::is_control\<close>, \<open>is_char_boundary\<close>) are written out on the encodings.
  A \<open>Result\<close> is a sum with the error on the left, \<open>sort_by_key\<close> and \<open>dedup\<close> are the stable
  \<open>sort_key\<close> and \<open>remdups_adj\<close> of the HOL library, and \<open>usize\<close> values are natural numbers
  together with the bound at which the code saturates.
\<close>

section \<open>Collections of facts\<close>

named_theorems str_simps \<open>string searching, splitting and joining\<close>
named_theorems issue_simps \<open>when a validation step leaves the issue list empty\<close>
named_theorems store_simps \<open>effect of the statements on the tables of the graph store\<close>

section \<open>Results and machine integers\<close>

type_synonym ('e, 'a) result = "'e + 'a"

abbreviation Ok :: "'a \<Rightarrow> ('e, 'a) result" where
  "Ok \<equiv> Inr"

abbreviation Err :: "'e \<Rightarrow> ('e, 'a) result" where
  "Err \<equiv> Inl"

text \<open>The \<open>?\<close> operator: go on with the value, or return the error.\<close>

definition try_with :: "('e, 'a) result \<Rightarrow> ('a \<Rightarrow> ('e, 'b) result) \<Rightarrow> ('e, 'b) result" where
  "try_with r f = (case r of Inl e \<Rightarrow> Inl e | Inr x \<Rightarrow> f x)"

definition map_err :: "('e \<Rightarrow> 'f) \<Rightarrow> ('e, 'a) result \<Rightarrow> ('f, 'a) result" where
  "map_err g r = (case r of Inl e \<Rightarrow> Inl (g e) | Inr x \<Rightarrow> Inr x)"

definition ok_or :: "'e \<Rightarrow> 'a option \<Rightarrow> ('e, 'a) result" where
  "ok_or e r = (case r of None \<Rightarrow> Inl e | Some x \<Rightarrow> Inr x)"

text \<open>\<open>collect::<Result<Vec<_>, _>>\<close>: the first error stops the iteration.\<close>

fun collect_results :: "('e, 'a) result list \<Rightarrow> ('e, 'a list) result" where
  "collect_results [] = Inr []"
| "collect_results (Inl e # _) = Inl e"
| "collect_results (Inr x # rs) =
     (case collect_results rs of Inl e \<Rightarrow> Inl e | Inr xs \<Rightarrow> Inr (x # xs))"

lemma try_with_simps [simp]:
  "try_with (Inl e) f = Inl e"
  "try_with (Inr x) f = f x"
  by (simp_all add: try_with_def)

lemma try_with_Ok_iff:
  "try_with r f = Inr y \<longleftrightarrow> (\<exists>x. r = Inr x \<and> f x = Inr y)"
  by (cases r) simp_all

lemma try_with_Err_iff:
  "try_with r f = Inl e \<longleftrightarrow> r = Inl e \<or> (\<exists>x. r = Inr x \<and> f x = Inl e)"
  by (cases r) simp_all

lemma map_err_simps [simp]:
  "map_err g (Inl e) = Inl (g e)"
  "map_err g (Inr x) = Inr x"
  by (simp_all add: map_err_def)

lemma map_err_Ok_iff [simp]: "map_err g r = Inr x \<longleftrightarrow> r = Inr x"
  by (cases r) simp_all

lemma ok_or_simps [simp]:
  "ok_or e None = Inl e"
  "ok_or e (Some x) = Inr x"
  by (simp_all add: ok_or_def)

lemma ok_or_Ok_iff [simp]: "ok_or e r = Inr x \<longleftrightarrow> r = Some x"
  by (cases r) simp_all

lemma collect_results_Ok_iff:
  "collect_results rs = Inr xs \<longleftrightarrow> rs = map Inr xs"
proof (induction rs arbitrary: xs rule: collect_results.induct)
  case (3 x rs)
  show ?case
  proof (cases "collect_results rs")
    case (Inl e)
    then have "rs \<noteq> map Inr ys" for ys using "3.IH"[of ys] by auto
    with Inl show ?thesis by (cases xs) auto
  next
    case (Inr ys)
    then show ?thesis using "3.IH"[of ys] by (cases xs) auto
  qed
qed auto

text \<open>
  Bounds of the machine integers on the 64-bit targets the project is released for.
\<close>

definition usize_MAX :: nat where "usize_MAX = 2 ^ 64 - 1"
definition u32_MAX :: nat where "u32_MAX = 2 ^ 32 - 1"
definition i64_MAX :: nat where "i64_MAX = 2 ^ 63 - 1"

definition saturating_add :: "nat \<Rightarrow> nat \<Rightarrow> nat" where
  "saturating_add a b = min (a + b) usize_MAX"

lemma saturating_add_le: "saturating_add a b \<le> usize_MAX"
  by (simp add: saturating_add_def)

lemma saturating_add_exact: "a + b \<le> usize_MAX \<Longrightarrow> saturating_add a b = a + b"
  by (simp add: saturating_add_def)

lemma saturating_add_1_gt: "n < usize_MAX \<Longrightarrow> saturating_add n 1 = Suc n"
  by (simp add: saturating_add_def)

text \<open>Unsigned subtraction, which panics below zero: \<open>None\<close> is the panic.\<close>

definition checked_sub :: "nat \<Rightarrow> nat \<Rightarrow> nat option" where
  "checked_sub a b = (if b \<le> a then Some (a - b) else None)"

lemma checked_sub_Some [simp]: "b \<le> a \<Longrightarrow> checked_sub a b = Some (a - b)"
  by (simp add: checked_sub_def)

section \<open>Strings\<close>

subsection \<open>Splitting and joining\<close>

text \<open>\<open>str::split\<close> at a character, and its inverse, the separator written between the parts.\<close>

fun split_on :: "char \<Rightarrow> string \<Rightarrow> string list" where
  "split_on c [] = [[]]"
| "split_on c (x # xs) =
     (if x = c then [] # split_on c xs
      else (case split_on c xs of [] \<Rightarrow> [[x]] | p # ps \<Rightarrow> (x # p) # ps))"

fun join_with :: "string \<Rightarrow> string list \<Rightarrow> string" where
  "join_with sep [] = []"
| "join_with sep [p] = p"
| "join_with sep (p # q # ps) = p @ sep @ join_with sep (q # ps)"

lemma split_on_not_Nil [simp]: "split_on c xs \<noteq> []"
  by (cases xs) (auto split: list.splits)

lemma split_on_free: "c \<notin> set p \<Longrightarrow> split_on c p = [p]"
  by (induction p) auto

lemma split_on_append_sep:
  "c \<notin> set p \<Longrightarrow> split_on c (p @ c # rest) = p # split_on c rest"
  by (induction p) auto

lemma split_on_join [str_simps]:
  assumes "ps \<noteq> []" and "\<And>p. p \<in> set ps \<Longrightarrow> c \<notin> set p"
  shows "split_on c (join_with [c] ps) = ps"
  using assms
proof (induction "[c]" ps rule: join_with.induct)
  case (2 p)
  then show ?case by (simp add: split_on_free)
next
  case (3 p q ps)
  then show ?case by (simp add: split_on_append_sep)
qed simp

lemma set_join_with:
  "set (join_with sep ps) = \<Union> (set ` set ps) \<union> (if length ps \<le> 1 then {} else set sep)"
  by (induction sep ps rule: join_with.induct) auto

lemma set_join_subset: "p \<in> set ps \<Longrightarrow> set p \<subseteq> set (join_with sep ps)"
  by (auto simp: set_join_with)

text \<open>\<open>str::split_once\<close> at a character.\<close>

fun split_once :: "char \<Rightarrow> string \<Rightarrow> (string \<times> string) option" where
  "split_once c [] = None"
| "split_once c (x # xs) =
     (if x = c then Some ([], xs)
      else map_option (\<lambda>(p, q). (x # p, q)) (split_once c xs))"

lemma split_once_Some_iff:
  "split_once c s = Some (p, q) \<longleftrightarrow> s = p @ c # q \<and> c \<notin> set p"
proof (induction s arbitrary: p)
  case (Cons x xs)
  then show ?case by (cases p) auto
qed simp

lemma split_once_None_iff: "split_once c s = None \<longleftrightarrow> c \<notin> set s"
  by (induction s) auto

text \<open>\<open>str::strip_prefix\<close>, \<open>str::starts_with\<close> and \<open>str::contains\<close>.\<close>

fun strip_prefix :: "string \<Rightarrow> string \<Rightarrow> string option" where
  "strip_prefix [] s = Some s"
| "strip_prefix (p # ps) [] = None"
| "strip_prefix (p # ps) (x # xs) = (if p = x then strip_prefix ps xs else None)"

lemma strip_prefix_Some_iff: "strip_prefix p s = Some r \<longleftrightarrow> s = p @ r"
  by (induction p s rule: strip_prefix.induct) auto

lemma strip_prefix_append [simp]: "strip_prefix p (p @ s) = Some s"
  by (simp add: strip_prefix_Some_iff)

definition starts_with :: "string \<Rightarrow> string \<Rightarrow> bool" where
  "starts_with s p = (strip_prefix p s \<noteq> None)"

fun contains_str :: "string \<Rightarrow> string \<Rightarrow> bool" where
  "contains_str [] p = (p = [])"
| "contains_str (x # xs) p = (starts_with (x # xs) p \<or> contains_str xs p)"

lemma starts_with_iff: "starts_with s p \<longleftrightarrow> (\<exists>r. s = p @ r)"
proof (cases "strip_prefix p s")
  case None
  then show ?thesis
    by (metis not_None_eq starts_with_def strip_prefix_append)
next
  case (Some r)
  then show ?thesis by (auto simp: starts_with_def strip_prefix_Some_iff)
qed

lemma contains_str_iff: "contains_str s p \<longleftrightarrow> (\<exists>u v. s = u @ p @ v)"
proof (induction s p rule: contains_str.induct)
  case (2 x xs p)
  show ?case
  proof
    assume "contains_str (x # xs) p"
    then consider "starts_with (x # xs) p" | "contains_str xs p" by auto
    then show "\<exists>u v. x # xs = u @ p @ v"
    proof cases
      case 1
      then show ?thesis by (metis append_Nil starts_with_iff)
    next
      case 2
      then show ?thesis using "2.IH" by (metis append_Cons)
    qed
  next
    assume "\<exists>u v. x # xs = u @ p @ v"
    then obtain u v where uv: "x # xs = u @ p @ v" by blast
    show "contains_str (x # xs) p"
    proof (cases u)
      case Nil
      with uv have "starts_with (x # xs) p" by (auto simp: starts_with_iff)
      then show ?thesis by simp
    next
      case (Cons y us)
      with uv "2.IH" show ?thesis by auto
    qed
  qed
qed auto

text \<open>\<open>str::replace\<close> of a non-empty pattern, from left to right without overlaps.\<close>

function replace_str :: "string \<Rightarrow> string \<Rightarrow> string \<Rightarrow> string" where
  "replace_str pat rep s =
     (if pat = [] then s
      else (case strip_prefix pat s of
              Some rest \<Rightarrow> rep @ replace_str pat rep rest
            | None \<Rightarrow> (case s of [] \<Rightarrow> [] | c # cs \<Rightarrow> c # replace_str pat rep cs)))"
  by pat_completeness auto
termination
  by (relation "measure (\<lambda>(pat, rep, s). length s)") (auto simp: strip_prefix_Some_iff)

declare replace_str.simps [simp del]

subsection \<open>White space, control characters, ASCII case\<close>

text \<open>
  The UTF-8 encodings of the characters with the Unicode property \<open>White_Space\<close>, which is what
  \<open>str::trim\<close> removes. No encoding is a proper suffix of another character's encoding, so removing
  a matching byte sequence at either end removes exactly one character.
\<close>

definition white_space :: "string list" where
  "white_space =
     [[CHR 0x09], [CHR 0x0A], [CHR 0x0B], [CHR 0x0C], [CHR 0x0D], [CHR 0x20],
      [CHR 0xC2, CHR 0x85], [CHR 0xC2, CHR 0xA0], [CHR 0xE1, CHR 0x9A, CHR 0x80],
      [CHR 0xE2, CHR 0x80, CHR 0x80], [CHR 0xE2, CHR 0x80, CHR 0x81],
      [CHR 0xE2, CHR 0x80, CHR 0x82], [CHR 0xE2, CHR 0x80, CHR 0x83],
      [CHR 0xE2, CHR 0x80, CHR 0x84], [CHR 0xE2, CHR 0x80, CHR 0x85],
      [CHR 0xE2, CHR 0x80, CHR 0x86], [CHR 0xE2, CHR 0x80, CHR 0x87],
      [CHR 0xE2, CHR 0x80, CHR 0x88], [CHR 0xE2, CHR 0x80, CHR 0x89],
      [CHR 0xE2, CHR 0x80, CHR 0x8A], [CHR 0xE2, CHR 0x80, CHR 0xA8],
      [CHR 0xE2, CHR 0x80, CHR 0xA9], [CHR 0xE2, CHR 0x80, CHR 0xAF],
      [CHR 0xE2, CHR 0x81, CHR 0x9F], [CHR 0xE3, CHR 0x80, CHR 0x80]]"

text \<open>Remove one of the given sequences from the front, as often as one is there.\<close>

fun strip_any :: "string list \<Rightarrow> string \<Rightarrow> string option" where
  "strip_any [] s = None"
| "strip_any (w # ws) s =
     (case strip_prefix w s of
        Some r \<Rightarrow> if w = [] then strip_any ws s else Some r
      | None \<Rightarrow> strip_any ws s)"

lemma strip_any_shorter: "strip_any ws s = Some r \<Longrightarrow> length r < length s"
  by (induction ws s rule: strip_any.induct)
    (auto simp: strip_prefix_Some_iff split: option.splits if_splits)

function strip_all :: "string list \<Rightarrow> string \<Rightarrow> string" where
  "strip_all ws s = (case strip_any ws s of None \<Rightarrow> s | Some r \<Rightarrow> strip_all ws r)"
  by pat_completeness auto
termination
  by (relation "measure (\<lambda>(ws, s). length s)") (auto dest: strip_any_shorter)

declare strip_all.simps [simp del]

definition trim_start :: "string \<Rightarrow> string" where
  "trim_start s = strip_all white_space s"

definition trim_end :: "string \<Rightarrow> string" where
  "trim_end s = rev (strip_all (map rev white_space) (rev s))"

definition trim :: "string \<Rightarrow> string" where
  "trim s = trim_end (trim_start s)"

text \<open>\<open>s.trim().is_empty()\<close>\<close>

definition blank :: "string \<Rightarrow> bool" where
  "blank s = (trim s = [])"

lemma strip_all_Nil [simp]: "strip_all ws [] = []"
proof -
  have "strip_any ws [] = None"
    by (metis strip_any_shorter length_0_conv not_None_eq not_less_zero)
  then show ?thesis by (simp add: strip_all.simps)
qed

lemma blank_Nil [simp]: "blank []"
  by (simp add: blank_def trim_def trim_start_def trim_end_def)

text \<open>\<open>char::is_control\<close>: the category \<open>Cc\<close>, U+0000 to U+001F and U+007F to U+009F.\<close>

fun has_control :: "string \<Rightarrow> bool" where
  "has_control [] = False"
| "has_control (c # cs) =
     ((of_char c :: nat) < 32 \<or> (of_char c :: nat) = 127
      \<or> (c = CHR 0xC2 \<and> (case cs of [] \<Rightarrow> False
           | d # _ \<Rightarrow> 128 \<le> (of_char d :: nat) \<and> (of_char d :: nat) \<le> 159))
      \<or> has_control cs)"

definition ascii_upper :: "char \<Rightarrow> bool" where
  "ascii_upper c = (65 \<le> (of_char c :: nat) \<and> (of_char c :: nat) \<le> 90)"

definition ascii_lower :: "char \<Rightarrow> bool" where
  "ascii_lower c = (97 \<le> (of_char c :: nat) \<and> (of_char c :: nat) \<le> 122)"

definition ascii_digit :: "char \<Rightarrow> bool" where
  "ascii_digit c = (48 \<le> (of_char c :: nat) \<and> (of_char c :: nat) \<le> 57)"

definition to_ascii_lowercase :: "string \<Rightarrow> string" where
  "to_ascii_lowercase s = map (\<lambda>c. if ascii_upper c then char_of ((of_char c :: nat) + 32) else c) s"

definition to_ascii_uppercase :: "string \<Rightarrow> string" where
  "to_ascii_uppercase s = map (\<lambda>c. if ascii_lower c then char_of ((of_char c :: nat) - 32) else c) s"

definition eq_ignore_ascii_case :: "string \<Rightarrow> string \<Rightarrow> bool" where
  "eq_ignore_ascii_case a b = (to_ascii_lowercase a = to_ascii_lowercase b)"

subsection \<open>Decimal numbers\<close>

text \<open>\<open>Display\<close> of an unsigned integer.\<close>

fun show_nat :: "nat \<Rightarrow> string" where
  "show_nat n =
     (if n < 10 then [char_of (48 + n)] else show_nat (n div 10) @ [char_of (48 + n mod 10)])"

declare show_nat.simps [simp del]

section \<open>Sorting and removing duplicates\<close>

lemma sorted_remdups_adj_key: "sorted (map f xs) \<Longrightarrow> sorted (map f (remdups_adj xs))"
  by (induction xs rule: remdups_adj.induct) auto

lemma sort_key_sorted_id: "sorted (map f xs) \<Longrightarrow> sort_key f xs = xs"
  by (induction xs) (auto simp: insort_is_Cons)

lemma sort_key_idem [simp]: "sort_key f (sort_key f xs) = sort_key f xs"
  by (rule sort_key_sorted_id) simp

lemma sort_key_remdups_adj_sort_key [simp]:
  "sort_key f (remdups_adj (sort_key f xs)) = remdups_adj (sort_key f xs)"
  by (rule sort_key_sorted_id) (simp add: sorted_remdups_adj_key)

lemma sort_key_map_sort_key:
  assumes "\<And>x. f (g x) = f x"
  shows "sort_key f (map g (sort_key f xs)) = map g (sort_key f xs)"
  by (rule sort_key_sorted_id) (simp add: comp_def assms)

lemma remdups_adj_idem [simp]: "remdups_adj (remdups_adj xs) = remdups_adj xs"
  using distinct_adj_altdef distinct_adj_remdups_adj by blast

lemma distinct_remdups_adj_sorted_key:
  assumes "inj_on f (set xs)" and "sorted (map f xs)"
  shows "distinct (remdups_adj xs)"
  using assms
proof (induction xs rule: remdups_adj.induct)
  case (3 x y xs)
  show ?case
  proof (cases "x = y")
    case True
    with 3 show ?thesis by (auto simp: inj_on_def)
  next
    case False
    have le: "f y \<le> f z" if "z \<in> set (y # xs)" for z
      using "3.prems" that by auto
    have neq: "f x \<noteq> f y"
      using "3.prems"(1) False by (auto simp: inj_on_def)
    have "f x < f y" using "3.prems"(2) neq by auto
    with le have "x \<notin> set (y # xs)" by (metis less_le_not_le)
    moreover have "distinct (remdups_adj (y # xs))"
      using 3 False by (auto simp: inj_on_def)
    ultimately show ?thesis using False by simp
  qed
qed auto

lemma length_filter_map_sum:
  "sum_list (map (\<lambda>x. if P x then (1::nat) else 0) xs) = length (filter P xs)"
  by (induction xs) auto

section \<open>Loops that may return early\<close>

text \<open>A \<open>for\<close> loop over a list whose body updates a state and may leave the function with an error.\<close>

fun try_fold :: "('a \<Rightarrow> 's \<Rightarrow> ('e, 's) result) \<Rightarrow> 'a list \<Rightarrow> 's \<Rightarrow> ('e, 's) result" where
  "try_fold f [] s = Ok s"
| "try_fold f (x # xs) s = try_with (f x s) (\<lambda>s. try_fold f xs s)"

lemma try_fold_append: "try_fold f (xs @ ys) s = try_with (try_fold f xs s) (try_fold f ys)"
proof (induction xs arbitrary: s)
  case (Cons x xs)
  then show ?case by (cases "f x s") simp_all
qed simp

text \<open>Three ways to read off what a finished loop has done: a condition every round keeps, a number every
  round adds to, and a list every round appends to.\<close>

lemma try_fold_inv:
  assumes "try_fold f xs s = Ok s'" and "P s"
    and "\<And>x s s'. x \<in> set xs \<Longrightarrow> f x s = Ok s' \<Longrightarrow> P s \<Longrightarrow> P s'"
  shows "P s'"
  using assms
proof (induction xs arbitrary: s)
  case (Cons x xs)
  then obtain t where t: "f x s = Ok t" "try_fold f xs t = Ok s'" by (auto simp: try_with_Ok_iff)
  have "P t" using Cons.prems(3)[OF _ t(1) Cons.prems(2)] by simp
  with t(2) show ?case by (rule Cons.IH) (use Cons.prems(3) in auto)
qed simp

lemma try_fold_sum:
  fixes m :: "'s \<Rightarrow> nat"
  assumes "try_fold f xs s = Ok s'"
    and "\<And>x s s'. x \<in> set xs \<Longrightarrow> f x s = Ok s' \<Longrightarrow> m s' = m s + w x"
  shows "m s' = m s + sum_list (map w xs)"
  using assms
proof (induction xs arbitrary: s)
  case (Cons x xs)
  then obtain t where t: "f x s = Ok t" "try_fold f xs t = Ok s'" by (auto simp: try_with_Ok_iff)
  have "m s' = m t + sum_list (map w xs)" using Cons.IH[OF t(2)] Cons.prems(2) by auto
  with Cons.prems(2)[OF _ t(1)] show ?case by simp
qed simp

lemma try_fold_concat:
  assumes "try_fold f xs s = Ok s'"
    and "\<And>x s s'. x \<in> set xs \<Longrightarrow> f x s = Ok s' \<Longrightarrow> m s' = m s @ w x"
  shows "m s' = m s @ concat (map w xs)"
  using assms
proof (induction xs arbitrary: s)
  case (Cons x xs)
  then obtain t where t: "f x s = Ok t" "try_fold f xs t = Ok s'" by (auto simp: try_with_Ok_iff)
  have "m s' = m t @ concat (map w xs)" using Cons.IH[OF t(2)] Cons.prems(2) by auto
  with Cons.prems(2)[OF _ t(1)] show ?case by simp
qed simp

text \<open>\<open>Display\<close> of a signed integer.\<close>

definition show_int :: "int \<Rightarrow> string" where
  "show_int i = (if i < 0 then CHR ''-'' # show_nat (nat (- i)) else show_nat (nat i))"

section \<open>Texts and numbers in decimal\<close>

lemma strip_any_keeps:
  "strip_any ws s = Some r \<Longrightarrow> c \<in> set s \<Longrightarrow> c \<notin> set (concat ws) \<Longrightarrow> c \<in> set r"
  by (induction ws s rule: strip_any.induct) (auto simp: strip_prefix_Some_iff split: option.splits if_splits)

lemma strip_all_keeps: "c \<in> set s \<Longrightarrow> c \<notin> set (concat ws) \<Longrightarrow> c \<in> set (strip_all ws s)"
proof (induction ws s rule: strip_all.induct)
  case (1 ws s)
  then show ?case by (cases "strip_any ws s") (auto simp: strip_all.simps[of ws s] dest: strip_any_keeps)
qed

lemma not_blank:
  assumes "s \<noteq> []" and "hd s \<notin> set (concat white_space)"
  shows "\<not> blank s"
proof -
  have "hd s \<in> set (trim s)"
    unfolding trim_def trim_end_def trim_start_def set_rev
    by (intro strip_all_keeps) (use assms in \<open>auto simp: strip_all_keeps\<close>)
  then show ?thesis by (auto simp: blank_def)
qed

definition printable :: "char \<Rightarrow> bool" where
  "printable c = (32 \<le> (of_char c :: nat) \<and> (of_char c :: nat) < 127)"

lemma printable_no_control: "list_all printable s \<Longrightarrow> \<not> has_control s"
  by (induction s) (auto simp: printable_def)

lemma show_nat_printable: "list_all printable (show_nat n)"
proof (induction n rule: show_nat.induct)
  case (1 n)
  have "printable (char_of (48 + k))" if "k < 10" for k :: nat using that by (simp add: printable_def)
  with 1 show ?case by (subst show_nat.simps) simp
qed

lemma show_nat_length: "n < 10 ^ Suc k \<Longrightarrow> length (show_nat n) \<le> Suc k"
proof (induction k arbitrary: n)
  case 0
  then show ?case by (subst show_nat.simps) simp
next
  case (Suc k)
  then have "n div 10 < 10 ^ Suc k" by (simp add: div_less_iff_less_mult mult.commute)
  from Suc.IH[OF this] show ?case by (subst show_nat.simps) simp
qed

lemma show_int_i64:
  assumes "- (2 ^ 63) \<le> v" and "v < 2 ^ 63"
  shows "list_all printable (show_int v) \<and> length (show_int v) \<le> 20"
proof -
  have "nat v < 10 ^ Suc 18" "nat (- v) < 10 ^ Suc 18"
    using assms by (simp_all add: nat_less_iff)
  from this[THEN show_nat_length] show ?thesis
    by (auto simp: show_int_def show_nat_printable printable_def)
qed

lemma show_nat_digits: "c \<in> set (show_nat n) \<Longrightarrow> (48::nat) \<le> of_char c"
proof (induction n rule: show_nat.induct)
  case (1 n)
  have "(48::nat) \<le> of_char (char_of (48 + k))" if "k < 10" for k :: nat using that by simp
  with 1 show ?case by (subst (asm) (2) show_nat.simps) (auto split: if_splits)
qed

text \<open>The number read back from its digits.\<close>

definition digits_value :: "string \<Rightarrow> nat" where
  "digits_value s = fold (\<lambda>c n. 10 * n + (of_char c - 48)) s 0"

lemma digits_value_show: "digits_value (show_nat n) = n"
proof (induction n rule: show_nat.induct)
  case (1 n)
  then show ?case by (subst show_nat.simps) (auto simp: digits_value_def)
qed

lemma show_nat_inject: "show_nat a = show_nat b \<Longrightarrow> a = b"
  by (metis digits_value_show)

lemma replace_str_set: "c \<in> set (replace_str pat rep s) \<Longrightarrow> c \<in> set s \<or> c \<in> set rep"
proof (induction pat rep s rule: replace_str.induct)
  case (1 pat rep s)
  note IH = "1.IH" and prem = "1.prems"[unfolded replace_str.simps[of pat rep s]]
  show ?case
  proof (cases "pat = []")
    case False
    show ?thesis
    proof (cases "strip_prefix pat s")
      case None
      with prem False IH(1)[OF False None] show ?thesis by (cases s) auto
    next
      case (Some rest)
      with prem False IH(2)[OF False Some] show ?thesis by (auto simp: strip_prefix_Some_iff)
    qed
  qed (use prem in simp)
qed

lemma to_ascii_lowercase_lower: "c \<in> set (to_ascii_lowercase s) \<Longrightarrow> \<not> ascii_upper c"
  by (auto simp: to_ascii_lowercase_def ascii_upper_def)

section \<open>Sums over lists\<close>

lemma concat_map_single: "concat (map (\<lambda>x. [f x]) xs) = map f xs"
  by (induction xs) simp_all

lemma map_snd_enumerate: "map (\<lambda>entry. f (snd entry)) (enumerate n xs) = map f xs"
proof -
  have "map f (map snd (enumerate n xs)) = map f xs" by simp
  then show ?thesis by (simp only: map_map comp_def)
qed

lemma sum_list_concat_map: "sum_list (map w (concat xss)) = sum_list (map (\<lambda>xs. sum_list (map w xs)) xss)"
  for w :: "'a \<Rightarrow> nat"
  by (induction xss) simp_all

lemma sum_list_single:
  fixes n :: nat
  assumes "distinct (map f rs)" and "x \<in> f ` set rs"
  shows "sum_list (map (\<lambda>r. if x = f r then n else 0) rs) = n"
  using assms
proof (induction rs)
  case (Cons r rs)
  show ?case
  proof (cases "x = f r")
    case True
    then have "sum_list (map (\<lambda>r. if x = f r then n else 0) rs) = 0"
      using Cons.prems(1) by (auto simp: sum_list_eq_0_iff)
    with True show ?thesis by simp
  qed (use Cons in auto)
qed simp

text \<open>Summing per owner over the items it owns is summing over all items, when every item has one owner.\<close>

lemma sum_list_matching:
  fixes w :: "'i \<Rightarrow> nat"
  assumes "distinct (map f rs)" and "\<forall>i\<in>set items. g i \<in> f ` set rs"
  shows "sum_list (map (\<lambda>r. sum_list (map w (filter (\<lambda>i. g i = f r) items))) rs) = sum_list (map w items)"
  using assms(2)
proof (induction items)
  case (Cons i items)
  have "(\<lambda>r. sum_list (map w (filter (\<lambda>i. g i = f r) (i # items)))) =
      (\<lambda>r. (if g i = f r then w i else 0) + sum_list (map w (filter (\<lambda>i. g i = f r) items)))" by auto
  then show ?case
    using Cons sum_list_single[OF assms(1), of "g i" "w i"] by (simp add: sum_list_addf)
qed simp

lemma length_filter_concat: "length (filter P (concat xss)) = sum_list (map (\<lambda>xs. length (filter P xs)) xss)"
  by (induction xss) simp_all

lemma count_list_sum: "count_list (map f xs) c = sum_list (map (\<lambda>x. if f x = c then 1 else 0) xs)"
  by (induction xs) auto

lemma count_list_sorted: "count_list (map f (sort_key g xs)) c = count_list (map f xs) c"
proof -
  have "mset (map f (sort_key g xs)) = mset (map f xs)" by simp
  then show ?thesis by (metis count_mset)
qed

lemma sum_list_sorted: "sum_list (map w (sort_key g xs)) = sum_list (map w xs)" for w :: "'a \<Rightarrow> nat"
  by (metis mset_map mset_sort sum_mset_sum_list)

lemma length_filter_sorted: "length (filter P (sort_key g xs)) = length (filter P xs)"
  by (metis mset_filter mset_sort size_mset)

lemmas sorted_sums = count_list_sorted sum_list_sorted length_filter_sorted

end
