(* ===== verification/Btree.thy ===== *)
theory Btree
  imports Rust_Prelude
begin

text \<open>
  \<open>BTreeMap\<close> and \<open>BTreeSet\<close> of the Rust standard library, as sorted association lists: iteration is
  in key order, \<open>insert\<close> overwrites and \<open>entry().or_insert_with()\<close> keeps what is there. The locale
  \<open>ordered_map\<close> is the contract the validators and the schema diff rely on; it is interpreted on the
  sorted lists, and the clients use the interpreted facts \<open>bt.\<dots>\<close>.
\<close>

section \<open>Sorted association lists\<close>

type_synonym ('k, 'v) btree = "('k \<times> 'v) list"

fun bt_insert :: "'k::linorder \<Rightarrow> 'v \<Rightarrow> ('k, 'v) btree \<Rightarrow> ('k, 'v) btree" where
  "bt_insert k v [] = [(k, v)]"
| "bt_insert k v ((k', v') # m) =
     (if k < k' then (k, v) # (k', v') # m
      else if k = k' then (k, v) # m
      else (k', v') # bt_insert k v m)"

definition bt_get :: "('k, 'v) btree \<Rightarrow> 'k \<Rightarrow> 'v option" where
  "bt_get m k = map_of m k"

definition bt_contains_key :: "('k, 'v) btree \<Rightarrow> 'k \<Rightarrow> bool" where
  "bt_contains_key m k = (bt_get m k \<noteq> None)"

definition bt_or_insert :: "'k::linorder \<Rightarrow> 'v \<Rightarrow> ('k, 'v) btree \<Rightarrow> ('k, 'v) btree" where
  "bt_or_insert k v m = (if bt_contains_key m k then m else bt_insert k v m)"

definition bt_keys :: "('k, 'v) btree \<Rightarrow> 'k list" where
  "bt_keys m = map fst m"

definition bt_values :: "('k, 'v) btree \<Rightarrow> 'v list" where
  "bt_values m = map snd m"

definition bt_inv :: "('k::linorder, 'v) btree \<Rightarrow> bool" where
  "bt_inv m = sorted_wrt (<) (map fst m)"

text \<open>A set is a map to the unit type; \<open>insert\<close> returns whether the element is new.\<close>

type_synonym 'k bset = "('k, unit) btree"

definition bs_insert :: "'k::linorder \<Rightarrow> 'k bset \<Rightarrow> 'k bset" where
  "bs_insert k s = bt_insert k () s"

definition bs_contains :: "'k bset \<Rightarrow> 'k \<Rightarrow> bool" where
  "bs_contains s k = bt_contains_key s k"

section \<open>The contract of an ordered map\<close>

locale ordered_map =
  fixes empty_map :: "'m"
    and insert_map :: "'k::linorder \<Rightarrow> 'v \<Rightarrow> 'm \<Rightarrow> 'm"
    and get_map :: "'m \<Rightarrow> 'k \<Rightarrow> 'v option"
    and keys_map :: "'m \<Rightarrow> 'k list"
    and inv_map :: "'m \<Rightarrow> bool"
  assumes get_empty: "get_map empty_map k = None"
    and get_insert: "get_map (insert_map k v m) k' = (if k' = k then Some v else get_map m k')"
    and inv_empty: "inv_map empty_map"
    and inv_insert: "inv_map m \<Longrightarrow> inv_map (insert_map k v m)"
    and keys_sorted: "inv_map m \<Longrightarrow> sorted_wrt (<) (keys_map m)"
    and keys_get: "k \<in> set (keys_map m) \<longleftrightarrow> get_map m k \<noteq> None"
begin

text \<open>Inserting the entries of a list from left to right, the later ones winning.\<close>

definition insert_all :: "('k \<times> 'v) list \<Rightarrow> 'm \<Rightarrow> 'm" where
  "insert_all = fold (\<lambda>(k, v). insert_map k v)"

lemma get_insert_all:
  "get_map (insert_all kvs m) k =
     (case map_of (rev kvs) k of None \<Rightarrow> get_map m k | Some v \<Rightarrow> Some v)"
  unfolding insert_all_def
  by (induction kvs arbitrary: m) (auto simp: get_insert map_add_def split: option.splits)

lemma inv_insert_all: "inv_map m \<Longrightarrow> inv_map (insert_all kvs m)"
  unfolding insert_all_def
  by (induction kvs arbitrary: m) (auto simp: inv_insert)

lemma keys_distinct: "inv_map m \<Longrightarrow> distinct (keys_map m)"
  by (meson keys_sorted strict_sorted_iff)

lemma set_keys_insert: "set (keys_map (insert_map k v m)) = insert k (set (keys_map m))"
  by (auto simp: keys_get get_insert split: if_splits)

lemma set_keys_insert_all:
  "set (keys_map (insert_all kvs m)) = set (map fst kvs) \<union> set (keys_map m)"
  unfolding insert_all_def
  by (induction kvs arbitrary: m) (auto simp: set_keys_insert)

text \<open>Two maps with the same lookups list the same keys, whatever the order of the insertions.\<close>

lemma keys_determined:
  assumes "inv_map m" and "inv_map m'" and "\<And>k. get_map m k = get_map m' k"
  shows "keys_map m = keys_map m'"
proof -
  have "set (keys_map m) = set (keys_map m')" using assms(3) by (auto simp: keys_get)
  moreover have "sorted (keys_map m)" "distinct (keys_map m)"
    "sorted (keys_map m')" "distinct (keys_map m')"
    using assms(1,2) keys_sorted strict_sorted_iff by blast+
  ultimately show ?thesis by (simp add: sorted_distinct_set_unique)
qed

end

lemma bt_keys_get: "k \<in> fst ` set m \<longleftrightarrow> map_of m k \<noteq> None"
  by (simp add: map_of_eq_None_iff)

lemma map_of_bt_insert: "map_of (bt_insert k v m) k' = (if k' = k then Some v else map_of m k')"
  by (induction k v m rule: bt_insert.induct) auto

lemma fst_set_bt_insert: "fst ` set (bt_insert k v m) = insert k (fst ` set m)"
  by (induction k v m rule: bt_insert.induct) auto

lemma bt_inv_insert: "bt_inv m \<Longrightarrow> bt_inv (bt_insert k v m)"
proof -
  have "fst ` set (bt_insert k v m) = insert k (fst ` set m)" for m :: "('a, 'b) btree"
    by (rule fst_set_bt_insert)
  then show "bt_inv m \<Longrightarrow> ?thesis"
    unfolding bt_inv_def
    by (induction k v m rule: bt_insert.induct) fastforce+
qed

interpretation bt: ordered_map "[]" bt_insert bt_get bt_keys bt_inv
  by unfold_locales
    (simp_all add: bt_get_def map_of_bt_insert bt_inv_insert bt_keys_def bt_keys_get,
      simp_all add: bt_inv_def)

lemma bt_contains_iff: "bt_contains_key m (k :: 'k::linorder) \<longleftrightarrow> k \<in> set (bt_keys m)"
  by (simp add: bt_contains_key_def bt.keys_get)

lemma bt_get_or_insert:
  "bt_get (bt_or_insert k v m) k' =
     (if k' = k \<and> bt_get m k = None then Some v else bt_get m k')"
  by (auto simp: bt_or_insert_def bt_contains_key_def bt.get_insert)

lemma set_keys_or_insert: "set (bt_keys (bt_or_insert k v m)) = insert k (set (bt_keys m))"
  by (auto simp: bt_or_insert_def bt_contains_iff bt.set_keys_insert)

lemma bs_contains_insert [simp]: "bs_contains (bs_insert k s) k' \<longleftrightarrow> k' = k \<or> bs_contains s k'"
  by (auto simp: bs_contains_def bs_insert_def bt_contains_key_def bt.get_insert)

lemma bs_contains_empty [simp]: "\<not> bs_contains [] k"
  by (simp add: bs_contains_def bt_contains_key_def bt_get_def)

lemma bt_inv_Nil [simp]: "bt_inv []"
  by (rule bt.inv_empty)

lemma bt_values_get:
  "bt_inv m \<Longrightarrow> v \<in> set (bt_values m) \<longleftrightarrow> (\<exists>k. bt_get m k = Some v)"
proof -
  assume "bt_inv m"
  then have "distinct (map fst m)" using bt.keys_distinct bt_keys_def by metis
  then show ?thesis
    by (force simp: bt_values_def bt_get_def)
qed

lemma length_bt_keys: "bt_inv m \<Longrightarrow> length m = card (set (bt_keys m))"
  using bt.keys_distinct[of m] distinct_card[of "map fst m"] by (simp add: bt_keys_def)

lemma sum_list_bt_values:
  fixes w :: "'v \<Rightarrow> nat"
  assumes "bt_inv m" and "distinct names" and "set names = set (bt_keys m)" and "w e = 0"
  shows "sum_list (map (\<lambda>n. w (case bt_get m n of None \<Rightarrow> e | Some v \<Rightarrow> v)) names) = sum_list (map w (bt_values m))"
proof -
  have keys: "distinct (map fst m)" using bt.keys_distinct[OF assms(1)] by (simp add: bt_keys_def)
  have "mset names = mset (map fst m)"
    using set_eq_iff_mset_eq_distinct[OF assms(2) keys] assms(3) by (simp add: bt_keys_def)
  then have "sum_list (map h names) = sum_list (map h (map fst m))" for h :: "'a \<Rightarrow> nat"
    by (metis mset_map sum_mset_sum_list)
  also have "sum_list (map (\<lambda>n. w (case bt_get m n of None \<Rightarrow> e | Some v \<Rightarrow> v)) (map fst m)) = sum_list (map (\<lambda>kv. w (snd kv)) m)"
    using keys by (auto simp: bt_get_def comp_def intro!: arg_cong[of _ _ sum_list])
  finally show ?thesis by (simp add: bt_values_def comp_def)
qed

end
