(* ===== verification/Object_Model.thy ===== *)
theory Object_Model
  imports Btree
begin

text \<open>
  The data model of \<open>crates/database-memory-core/src/lib.rs\<close>: the object kinds, the stable object key
  with its printed form and its parser, the typed schema objects and the schema snapshot, and the
  capability warnings. The lemmas show that the printed form of a key determines the key, and for
  which keys parsing the printed form gives the key back.
\<close>

section \<open>Object kinds and keys\<close>

datatype ObjectKind =
    Database
  | Schema
  | Table
  | Column
  | PrimaryKey
  | ForeignKey
  | UniqueConstraint
  | CheckConstraint
  | Index
  | View
  | ViewColumn
  | Trigger
  | Routine
  | MaterializedView
  | Sequence
  | RoutineParameter
  | UserDefinedType
  | Domain
  | EnumValue
  | Synonym
  | ExclusionConstraint
  | Event
  | Package
  | Principal
  | Policy
  | Extension

text \<open>The struct fields carry the prefix \<open>ok_\<close>, since several structs share field names.\<close>

record ObjectKey =
  ok_source_kind :: string
  ok_connection_alias :: string
  ok_database :: string
  ok_schema :: string
  ok_object_kind :: ObjectKind
  ok_object_name :: string
  ok_sub_object :: "string option"

datatype ObjectKeyParseError = ObjectKeyParseError

fun kind_to_string :: "ObjectKind \<Rightarrow> string" where
  "kind_to_string Database = ''database''"
| "kind_to_string Schema = ''schema''"
| "kind_to_string Table = ''table''"
| "kind_to_string Column = ''column''"
| "kind_to_string PrimaryKey = ''primary_key''"
| "kind_to_string ForeignKey = ''foreign_key''"
| "kind_to_string UniqueConstraint = ''unique_constraint''"
| "kind_to_string CheckConstraint = ''check_constraint''"
| "kind_to_string Index = ''index''"
| "kind_to_string View = ''view''"
| "kind_to_string ViewColumn = ''view_column''"
| "kind_to_string Trigger = ''trigger''"
| "kind_to_string Routine = ''routine''"
| "kind_to_string MaterializedView = ''materialized_view''"
| "kind_to_string Sequence = ''sequence''"
| "kind_to_string RoutineParameter = ''routine_parameter''"
| "kind_to_string UserDefinedType = ''user_defined_type''"
| "kind_to_string Domain = ''domain''"
| "kind_to_string EnumValue = ''enum_value''"
| "kind_to_string Synonym = ''synonym''"
| "kind_to_string ExclusionConstraint = ''exclusion_constraint''"
| "kind_to_string Event = ''event''"
| "kind_to_string Package = ''package''"
| "kind_to_string Principal = ''principal''"
| "kind_to_string Policy = ''policy''"
| "kind_to_string Extension = ''extension''"

definition kind_from_str :: "string \<Rightarrow> (ObjectKeyParseError, ObjectKind) result" where
  "kind_from_str value =
     (if value = ''database'' then Ok Database
      else if value = ''schema'' then Ok Schema
      else if value = ''table'' then Ok Table
      else if value = ''column'' then Ok Column
      else if value = ''primary_key'' then Ok PrimaryKey
      else if value = ''foreign_key'' then Ok ForeignKey
      else if value = ''unique_constraint'' then Ok UniqueConstraint
      else if value = ''check_constraint'' then Ok CheckConstraint
      else if value = ''index'' then Ok Index
      else if value = ''view'' then Ok View
      else if value = ''view_column'' then Ok ViewColumn
      else if value = ''trigger'' then Ok Trigger
      else if value = ''routine'' then Ok Routine
      else if value = ''materialized_view'' then Ok MaterializedView
      else if value = ''sequence'' then Ok Sequence
      else if value = ''routine_parameter'' then Ok RoutineParameter
      else if value = ''user_defined_type'' then Ok UserDefinedType
      else if value = ''domain'' then Ok Domain
      else if value = ''enum_value'' then Ok EnumValue
      else if value = ''synonym'' then Ok Synonym
      else if value = ''exclusion_constraint'' then Ok ExclusionConstraint
      else if value = ''event'' then Ok Event
      else if value = ''package'' then Ok Package
      else if value = ''principal'' then Ok Principal
      else if value = ''policy'' then Ok Policy
      else if value = ''extension'' then Ok Extension
      else Err ObjectKeyParseError)"

subsection \<open>Printing\<close>

definition key_parts :: "ObjectKey \<Rightarrow> string list" where
  "key_parts k =
     [ok_source_kind k, ok_connection_alias k, ok_database k, ok_schema k,
      kind_to_string (ok_object_kind k), ok_object_name k]
     @ (case ok_sub_object k of None \<Rightarrow> [] | Some sub_object \<Rightarrow> [sub_object])"

definition reserved_part :: "string \<Rightarrow> bool" where
  "reserved_part part = (CHR '':'' \<in> set part \<or> CHR ''%'' \<in> set part)"

fun write_object_key_part :: "string \<Rightarrow> string" where
  "write_object_key_part [] = []"
| "write_object_key_part (c # cs) =
     (if c = CHR ''%'' then ''%25'' else if c = CHR '':'' then ''%3A'' else [c])
     @ write_object_key_part cs"

definition versioned_key :: "ObjectKey \<Rightarrow> bool" where
  "versioned_key k = list_ex reserved_part (key_parts k)"

definition key_to_string :: "ObjectKey \<Rightarrow> string" where
  "key_to_string k =
     (if versioned_key k
      then ''v2:'' @ join_with '':'' (map write_object_key_part (key_parts k))
      else join_with '':'' (key_parts k))"

subsection \<open>Parsing\<close>

fun decode_object_key_part :: "string \<Rightarrow> (ObjectKeyParseError, string) result" where
  "decode_object_key_part [] = Ok []"
| "decode_object_key_part (c # cs) =
     (if c \<noteq> CHR ''%'' then
        (case decode_object_key_part cs of Inl e \<Rightarrow> Err e | Inr r \<Rightarrow> Ok (c # r))
      else
        (case cs of
           a # b # rest \<Rightarrow>
             (if a = CHR ''2'' \<and> b = CHR ''5'' then
                (case decode_object_key_part rest of Inl e \<Rightarrow> Err e | Inr r \<Rightarrow> Ok (CHR ''%'' # r))
              else if a = CHR ''3'' \<and> (b = CHR ''A'' \<or> b = CHR ''a'') then
                (case decode_object_key_part rest of Inl e \<Rightarrow> Err e | Inr r \<Rightarrow> Ok (CHR '':'' # r))
              else Err ObjectKeyParseError)
         | _ \<Rightarrow> Err ObjectKeyParseError))"

definition key_from_parts :: "string list \<Rightarrow> (ObjectKeyParseError, ObjectKey) result" where
  "key_from_parts parts =
     (if list_ex (\<lambda>part. part = []) parts then Err ObjectKeyParseError
      else try_with (kind_from_str (parts ! 4))
        (\<lambda>kind. Ok \<lparr>ok_source_kind = parts ! 0, ok_connection_alias = parts ! 1,
                   ok_database = parts ! 2, ok_schema = parts ! 3, ok_object_kind = kind,
                   ok_object_name = parts ! 5,
                   ok_sub_object = (if length parts > 6 then Some (parts ! 6) else None)\<rparr>))"

definition parse_object_key_parts ::
  "string \<Rightarrow> bool \<Rightarrow> (ObjectKeyParseError, ObjectKey) result" where
  "parse_object_key_parts value encoded =
     (let raw_parts = split_on CHR '':'' value in
      if \<not> (length raw_parts = 6 \<or> length raw_parts = 7) \<or> list_ex (\<lambda>part. part = []) raw_parts
      then Err ObjectKeyParseError
      else try_with
        (collect_results
          (map (\<lambda>part. if encoded then decode_object_key_part part else Ok part) raw_parts))
        key_from_parts)"

definition parse_object_key :: "string \<Rightarrow> (ObjectKeyParseError, ObjectKey) result" where
  "parse_object_key value =
     (case strip_prefix ''v2:'' value of
        Some rest \<Rightarrow> parse_object_key_parts rest True
      | None \<Rightarrow> parse_object_key_parts value False)"

section \<open>Schema objects\<close>

record DatabaseObject =
  db_key :: ObjectKey
  db_name :: string

record SchemaObject =
  sch_key :: ObjectKey
  sch_database_key :: ObjectKey
  sch_name :: string

datatype TableKind =
  BaseTable | Temporary | Foreign | Partitioned | Partition | Virtual | Shadow

record TableObject =
  tbl_key :: ObjectKey
  tbl_schema_key :: ObjectKey
  tbl_name :: string
  tbl_kind :: TableKind

record ColumnObject =
  col_key :: ObjectKey
  col_table_key :: ObjectKey
  col_name :: string
  col_ordinal_position :: nat
  col_data_type :: string
  col_is_nullable :: bool
  col_default_value :: "string option"
  col_is_generated :: bool

datatype ConstraintKind = PrimaryKey | ForeignKey | Unique | Check

record ConstraintObject =
  con_key :: ObjectKey
  con_table_key :: ObjectKey
  con_name :: string
  con_kind :: ConstraintKind
  con_columns :: "ObjectKey list"
  con_referenced_table_key :: "ObjectKey option"
  con_referenced_columns :: "ObjectKey list"
  con_expression :: "string option"

record IndexObject =
  idx_key :: ObjectKey
  idx_table_key :: ObjectKey
  idx_name :: string
  idx_columns :: "ObjectKey list"
  idx_is_unique :: bool
  idx_is_primary :: bool
  idx_predicate :: "string option"
  idx_expression :: "string option"

record ViewObject =
  view_key :: ObjectKey
  view_schema_key :: ObjectKey
  view_name :: string
  view_definition :: "string option"
  view_depends_on :: "ObjectKey list"

record TriggerObject =
  trg_key :: ObjectKey
  trg_table_key :: ObjectKey
  trg_name :: string
  trg_timing :: "string option"
  trg_events :: "string list"
  trg_definition :: "string option"
  trg_executes_routine_key :: "ObjectKey option"

datatype RoutineKind = Function | Procedure

record RoutineObject =
  rtn_key :: ObjectKey
  rtn_schema_key :: ObjectKey
  rtn_name :: string
  rtn_kind :: RoutineKind
  rtn_definition :: "string option"
  rtn_depends_on :: "ObjectKey list"

datatype CapabilitySupport = Supported | Partial | Unsupported | Unknown

record AdapterCapabilities =
  cap_source_kind :: string
  cap_metadata_only :: bool
  cap_schemas :: bool
  cap_tables :: bool
  cap_columns :: bool
  cap_constraints :: bool
  cap_indexes :: bool
  cap_views :: CapabilitySupport
  cap_triggers :: CapabilitySupport
  cap_routines :: CapabilitySupport
  cap_dependencies :: CapabilitySupport
  cap_limitations :: "string list"
  cap_notes :: "string list"

record SchemaSnapshot =
  snap_source_kind :: string
  snap_connection_alias :: string
  snap_database :: DatabaseObject
  snap_schemas :: "SchemaObject list"
  snap_tables :: "TableObject list"
  snap_columns :: "ColumnObject list"
  snap_constraints :: "ConstraintObject list"
  snap_indexes :: "IndexObject list"
  snap_views :: "ViewObject list"
  snap_triggers :: "TriggerObject list"
  snap_routines :: "RoutineObject list"
  snap_capabilities :: AdapterCapabilities

section \<open>Capability warnings\<close>

definition push_capability_warning ::
  "string \<Rightarrow> string \<Rightarrow> CapabilitySupport \<Rightarrow> string list \<Rightarrow> string list" where
  "push_capability_warning source_kind capability support warnings =
     (case support of
        Supported \<Rightarrow> warnings
      | Partial \<Rightarrow> warnings @
          [capability @ '' is partially tracked by the '' @ source_kind @ '' adapter.'']
      | Unsupported \<Rightarrow> warnings @
          [capability @ '' is not tracked by the '' @ source_kind @ '' adapter.'']
      | Unknown \<Rightarrow> warnings @
          [capability @ '' support is unknown for the '' @ source_kind @ '' adapter.''])"

definition capability_warnings :: "AdapterCapabilities \<Rightarrow> string list" where
  "capability_warnings c =
     (let warnings = push_capability_warning (cap_source_kind c) ''view dependency metadata''
            (cap_views c) [];
          warnings = push_capability_warning (cap_source_kind c) ''trigger dependency metadata''
            (cap_triggers c) warnings;
          warnings = push_capability_warning (cap_source_kind c) ''routine dependency metadata''
            (cap_routines c) warnings;
          warnings = push_capability_warning (cap_source_kind c)
            ''cross-object dependency metadata'' (cap_dependencies c) warnings
      in warnings @ cap_limitations c)"

section \<open>Facts about keys\<close>

lemma kind_from_str_to_string [simp]: "kind_from_str (kind_to_string kind) = Ok kind"
  by (cases kind) (simp_all add: kind_from_str_def)

lemma kind_to_string_inject [simp]: "kind_to_string a = kind_to_string b \<longleftrightarrow> a = b"
  by (metis kind_from_str_to_string sum.inject(2))

lemma kind_to_string_plain [simp]:
  "CHR '':'' \<notin> set (kind_to_string kind)"
  "CHR ''%'' \<notin> set (kind_to_string kind)"
  "kind_to_string kind \<noteq> []"
  by (cases kind; simp)+

subsection \<open>The escape of reserved characters\<close>

lemma write_part_no_colon [simp]: "CHR '':'' \<notin> set (write_object_key_part part)"
  by (induction part) auto

lemma decode_write_part [simp]: "decode_object_key_part (write_object_key_part part) = Ok part"
  by (induction part) auto

lemma write_part_Nil_iff [simp]: "write_object_key_part part = [] \<longleftrightarrow> part = []"
  by (cases part) auto

lemma write_part_percent: "reserved_part part \<Longrightarrow> CHR ''%'' \<in> set (write_object_key_part part)"
  by (induction part) (auto simp: reserved_part_def)

lemma write_part_inject [simp]: "write_object_key_part a = write_object_key_part b \<longleftrightarrow> a = b"
  by (metis decode_write_part sum.inject(2))

subsection \<open>The printed form determines the key\<close>

lemma length_key_parts: "length (key_parts k) = (if ok_sub_object k = None then 6 else 7)"
  by (simp add: key_parts_def split: option.splits)

lemma key_parts_not_Nil [simp]: "key_parts k \<noteq> []"
  by (simp add: key_parts_def)

lemma key_parts_inject [simp]: "key_parts a = key_parts b \<longleftrightarrow> a = b"
  by (auto simp: key_parts_def intro: ObjectKey.equality split: option.splits)

lemma plain_parts:
  "\<not> versioned_key k \<Longrightarrow> p \<in> set (key_parts k) \<Longrightarrow> CHR '':'' \<notin> set p \<and> CHR ''%'' \<notin> set p"
  by (auto simp: versioned_key_def reserved_part_def list_ex_iff)

lemma versioned_key_percent: "CHR ''%'' \<in> set (key_to_string k) \<longleftrightarrow> versioned_key k"
proof (cases "versioned_key k")
  case True
  then obtain p where p: "p \<in> set (key_parts k)" "reserved_part p"
    by (auto simp: versioned_key_def list_ex_iff)
  then have "CHR ''%'' \<in> set (join_with '':'' (map write_object_key_part (key_parts k)))"
    using set_join_subset[of "write_object_key_part p" "map write_object_key_part (key_parts k)"]
      write_part_percent by auto
  with True show ?thesis by (simp add: key_to_string_def)
next
  case False
  then show ?thesis by (auto simp: key_to_string_def set_join_with dest: plain_parts)
qed

lemma split_printed_parts:
  "split_on CHR '':'' (join_with '':'' (map write_object_key_part (key_parts k))) =
     map write_object_key_part (key_parts k)"
  "\<not> versioned_key k \<Longrightarrow> split_on CHR '':'' (join_with '':'' (key_parts k)) = key_parts k"
  by (auto intro!: split_on_join dest: plain_parts)

lemma key_to_string_inject [simp]: "key_to_string a = key_to_string b \<longleftrightarrow> a = b"
proof
  assume eq: "key_to_string a = key_to_string b"
  then have v: "versioned_key a \<longleftrightarrow> versioned_key b"
    by (metis versioned_key_percent)
  show "a = b"
  proof (cases "versioned_key a")
    case True
    with eq v have "join_with '':'' (map write_object_key_part (key_parts a)) =
        join_with '':'' (map write_object_key_part (key_parts b))"
      by (simp add: key_to_string_def)
    then have "map write_object_key_part (key_parts a) = map write_object_key_part (key_parts b)"
      by (metis split_printed_parts(1))
    then have "key_parts a = key_parts b"
      by (simp add: inj_map_eq_map inj_def)
    then show ?thesis by simp
  next
    case False
    with eq v have "join_with '':'' (key_parts a) = join_with '':'' (key_parts b)"
      by (simp add: key_to_string_def)
    with False v have "key_parts a = key_parts b"
      by (metis split_printed_parts(2))
    then show ?thesis by simp
  qed
qed simp

lemma inj_key_to_string: "inj key_to_string"
  by (simp add: inj_def)

subsection \<open>Parsing a printed key\<close>

text \<open>Every component of the key is non-empty.\<close>

definition nonempty_key :: "ObjectKey \<Rightarrow> bool" where
  "nonempty_key k = (\<forall>p \<in> set (key_parts k). p \<noteq> [])"

lemma collect_map_decode:
  "collect_results (map (\<lambda>p. decode_object_key_part p) (map write_object_key_part ps)) = Ok ps"
  by (induction ps) auto

lemma collect_map_Ok: "collect_results (map (\<lambda>p. Ok p) ps) = Ok ps"
  by (induction ps) auto

lemma kind_from_str_Ok: "kind_from_str s = Ok kind \<Longrightarrow> kind_to_string kind = s"
  by (simp add: kind_from_str_def split: if_splits)

lemma key_from_key_parts: "nonempty_key k \<Longrightarrow> key_from_parts (key_parts k) = Ok k"
  by (cases "ok_sub_object k") (simp_all add: key_from_parts_def nonempty_key_def key_parts_def)

lemma key_parts_key_from_parts:
  assumes "key_from_parts parts = Ok k" and "length parts = 6 \<or> length parts = 7"
  shows "key_parts k = parts" and "nonempty_key k"
proof -
  have full: "\<not> list_ex (\<lambda>p. p = []) parts"
    using assms(1) by (auto simp: key_from_parts_def split: if_splits)
  obtain kind where kind: "kind_from_str (parts ! 4) = Ok kind"
      and k: "k = \<lparr>ok_source_kind = parts ! 0, ok_connection_alias = parts ! 1,
        ok_database = parts ! 2, ok_schema = parts ! 3, ok_object_kind = kind,
        ok_object_name = parts ! 5,
        ok_sub_object = (if length parts > 6 then Some (parts ! 6) else None)\<rparr>"
    using assms(1) full by (auto simp: key_from_parts_def try_with_Ok_iff split del: if_split)
  show parts: "key_parts k = parts"
    using assms(2) kind_from_str_Ok[OF kind]
    by (auto simp: k key_parts_def intro!: nth_equalityI simp: less_Suc_eq numeral_eq_Suc)
  show "nonempty_key k"
    using full by (auto simp: nonempty_key_def parts list_ex_iff)
qed

lemma parse_encoded_parts:
  assumes "nonempty_key k"
  shows "parse_object_key_parts (join_with '':'' (map write_object_key_part (key_parts k))) True = Ok k"
proof -
  have "length (key_parts k) = 6 \<or> length (key_parts k) = 7"
    by (simp add: length_key_parts)
  moreover have "\<not> list_ex (\<lambda>p. p = []) (map write_object_key_part (key_parts k))"
    using assms by (auto simp: list_ex_iff nonempty_key_def) (metis write_part_Nil_iff)
  ultimately show ?thesis
    unfolding parse_object_key_parts_def Let_def split_printed_parts
    by (simp add: collect_map_decode[simplified] key_from_key_parts assms)
qed

lemma parse_plain_parts:
  assumes "nonempty_key k" and "\<not> versioned_key k"
  shows "parse_object_key_parts (join_with '':'' (key_parts k)) False = Ok k"
proof -
  have "length (key_parts k) = 6 \<or> length (key_parts k) = 7"
    by (simp add: length_key_parts)
  moreover have "\<not> list_ex (\<lambda>p. p = []) (key_parts k)"
    using assms by (auto simp: nonempty_key_def list_ex_iff)
  ultimately show ?thesis
    using assms
    unfolding parse_object_key_parts_def Let_def
    by (simp add: collect_map_Ok key_from_key_parts split_printed_parts(2))
qed

lemma strip_v2_join:
  assumes "CHR '':'' \<notin> set p" and "p \<noteq> ''v2''"
  shows "strip_prefix ''v2:'' (join_with '':'' (p # q # ps)) = None"
proof (rule ccontr)
  assume "strip_prefix ''v2:'' (join_with '':'' (p # q # ps)) \<noteq> None"
  then obtain r where r: "p @ '':'' @ join_with '':'' (q # ps) = ''v2:'' @ r"
    by (auto simp: strip_prefix_Some_iff)
  have "split_once CHR '':'' (p @ '':'' @ join_with '':'' (q # ps)) =
      Some (p, join_with '':'' (q # ps))"
    using assms(1) by (simp add: split_once_Some_iff)
  moreover have "split_once CHR '':'' (''v2:'' @ r) = Some (''v2'', r)" by simp
  ultimately show False using r assms(2) by simp
qed

lemma parse_key_to_string:
  assumes "nonempty_key k" and "versioned_key k \<or> ok_source_kind k \<noteq> ''v2''"
  shows "parse_object_key (key_to_string k) = Ok k"
proof (cases "versioned_key k")
  case True
  have "strip_prefix ''v2:'' (key_to_string k) =
      Some (join_with '':'' (map write_object_key_part (key_parts k)))"
    using True by (simp add: key_to_string_def strip_prefix_Some_iff)
  then show ?thesis
    by (simp add: parse_object_key_def parse_encoded_parts assms(1))
next
  case False
  have src: "CHR '':'' \<notin> set (ok_source_kind k)"
    using False plain_parts[of k "ok_source_kind k"] by (simp add: key_parts_def)
  obtain q ps where parts: "key_parts k = ok_source_kind k # q # ps"
    by (simp add: key_parts_def)
  have "strip_prefix ''v2:'' (key_to_string k) = None"
    using strip_v2_join[OF src, of q ps] False assms(2)
    by (simp only: key_to_string_def parts if_False simp_thms)
  then show ?thesis
    using False by (simp add: parse_object_key_def parse_plain_parts assms(1) key_to_string_def)
qed

subsection \<open>What the parser accepts\<close>

lemma parse_object_key_nonempty:
  assumes "parse_object_key s = Ok k"
  shows "nonempty_key k"
proof -
  obtain body encoded where "parse_object_key_parts body encoded = Ok k"
    using assms by (auto simp: parse_object_key_def split: option.splits)
  then obtain parts where
      parts: "map (\<lambda>p. if encoded then decode_object_key_part p else Ok p)
        (split_on CHR '':'' body) = map Ok parts"
      and len: "length (split_on CHR '':'' body) = 6 \<or> length (split_on CHR '':'' body) = 7"
      and k: "key_from_parts parts = Ok k"
    unfolding parse_object_key_parts_def Let_def
    by (auto simp: try_with_Ok_iff collect_results_Ok_iff split: if_split_asm)
  have "length parts = 6 \<or> length parts = 7"
    using len parts by (metis length_map)
  with k show ?thesis by (rule key_parts_key_from_parts)
qed

section \<open>Properties\<close>

text \<open>C21: printing is injective. Two object keys have the same printed form exactly when they are
  the same key, whatever characters their components contain; so the printed form can serve as the
  primary key of the store and as the key of every map the program builds.\<close>

theorem object_key_print_injective: "key_to_string a = key_to_string b \<longleftrightarrow> a = b"
  by (rule key_to_string_inject)


definition sample_key :: "string \<Rightarrow> string \<Rightarrow> ObjectKey" where
  "sample_key source name =
     \<lparr>ok_source_kind = source, ok_connection_alias = ''a'', ok_database = ''d'', ok_schema = ''s'',
       ok_object_kind = Table, ok_object_name = name, ok_sub_object = None\<rparr>"



text \<open>Whatever text the parser accepts, the key it returns has no empty component, so that it
  satisfies the first hypothesis of the round trip.\<close>

lemma parsed_key_components:
  assumes "parse_object_key t = Ok k"
  shows "nonempty_key k"
  using assms by (rule parse_object_key_nonempty)

end
