(* ===== verification/Canonical.thy ===== *)
theory Canonical
  imports Object_Model
begin

text \<open>
  The canonical metadata of \<open>crates/database-memory-core/src/canonical.rs\<close>: metadata objects,
  annotations and relationships beside the typed schema, their deterministic ordering, and the edge
  names of the relationship kinds. Normalization is shown to be idempotent, to keep the contents of
  every collection and to leave the collections sorted.
\<close>

section \<open>Canonical metadata\<close>

datatype MetadataValue =
    Boolean bool
  | Integer int
  | Unsigned nat
  | String string
  | StringList "string list"

datatype MetadataRelationshipKind =
    DependsOn
  | UsesType
  | UsesSequence
  | PartitionOf
  | InheritsFrom
  | SynonymFor
  | HasParameter
  | ReturnsType
  | OwnedBy
  | Materializes
  | Invokes
  | IncludesColumn
  | ExcludesWith
  | Extension string

type_synonym Properties = "(string, MetadataValue) btree"

record MetadataObject =
  mo_key :: ObjectKey
  mo_parent_key :: "ObjectKey option"
  mo_name :: string
  mo_extension_kind :: "string option"
  mo_definition :: "string option"
  mo_properties :: Properties

record ObjectAnnotation =
  an_object_key :: ObjectKey
  an_definition :: "string option"
  an_properties :: Properties

record MetadataRelationship =
  rel_kind :: MetadataRelationshipKind
  rel_from_key :: ObjectKey
  rel_to_key :: ObjectKey
  rel_ordinal :: "nat option"
  rel_properties :: Properties

record CanonicalMetadata =
  md_objects :: "MetadataObject list"
  md_annotations :: "ObjectAnnotation list"
  md_relationships :: "MetadataRelationship list"

record CanonicalSchemaSnapshot =
  can_schema :: SchemaSnapshot
  can_metadata :: CanonicalMetadata

definition default_metadata :: CanonicalMetadata where
  "default_metadata = \<lparr>md_objects = [], md_annotations = [], md_relationships = []\<rparr>"

definition canonical_from_schema :: "SchemaSnapshot \<Rightarrow> CanonicalSchemaSnapshot" where
  "canonical_from_schema schema = \<lparr>can_schema = schema, can_metadata = default_metadata\<rparr>"

definition metadata_is_empty :: "CanonicalMetadata \<Rightarrow> bool" where
  "metadata_is_empty m = (md_objects m = [] \<and> md_annotations m = [] \<and> md_relationships m = [])"

fun graph_edge_type :: "MetadataRelationshipKind \<Rightarrow> string" where
  "graph_edge_type DependsOn = ''DEPENDS_ON''"
| "graph_edge_type UsesType = ''USES_TYPE''"
| "graph_edge_type UsesSequence = ''USES_SEQUENCE''"
| "graph_edge_type PartitionOf = ''PARTITION_OF''"
| "graph_edge_type InheritsFrom = ''INHERITS_FROM''"
| "graph_edge_type SynonymFor = ''SYNONYM_FOR''"
| "graph_edge_type HasParameter = ''HAS_PARAMETER''"
| "graph_edge_type ReturnsType = ''RETURNS_TYPE''"
| "graph_edge_type OwnedBy = ''OWNED_BY''"
| "graph_edge_type Materializes = ''MATERIALIZES''"
| "graph_edge_type Invokes = ''INVOKES''"
| "graph_edge_type IncludesColumn = ''INCLUDES_COLUMN''"
| "graph_edge_type ExcludesWith = ''EXCLUDES_WITH''"
| "graph_edge_type (Extension name) = ''EXTENSION:'' @ name"

subsection \<open>The derived order of the relationship kinds\<close>

text \<open>
  \<open>#[derive(Ord)]\<close> compares the variants by their position, and two \<open>Extension\<close> kinds by their names.
\<close>

fun rel_kind_rank :: "MetadataRelationshipKind \<Rightarrow> nat \<times> string" where
  "rel_kind_rank DependsOn = (0, [])"
| "rel_kind_rank UsesType = (1, [])"
| "rel_kind_rank UsesSequence = (2, [])"
| "rel_kind_rank PartitionOf = (3, [])"
| "rel_kind_rank InheritsFrom = (4, [])"
| "rel_kind_rank SynonymFor = (5, [])"
| "rel_kind_rank HasParameter = (6, [])"
| "rel_kind_rank ReturnsType = (7, [])"
| "rel_kind_rank OwnedBy = (8, [])"
| "rel_kind_rank Materializes = (9, [])"
| "rel_kind_rank Invokes = (10, [])"
| "rel_kind_rank IncludesColumn = (11, [])"
| "rel_kind_rank ExcludesWith = (12, [])"
| "rel_kind_rank (Extension name) = (13, name)"

lemma rel_kind_rank_inject [simp]: "rel_kind_rank a = rel_kind_rank b \<longleftrightarrow> a = b"
  by (cases a; cases b) simp_all

instantiation MetadataRelationshipKind :: linorder
begin

definition less_eq_MetadataRelationshipKind ::
  "MetadataRelationshipKind \<Rightarrow> MetadataRelationshipKind \<Rightarrow> bool" where
  "a \<le> b = (rel_kind_rank a \<le> rel_kind_rank b)"

definition less_MetadataRelationshipKind ::
  "MetadataRelationshipKind \<Rightarrow> MetadataRelationshipKind \<Rightarrow> bool" where
  "a < b = (rel_kind_rank a < rel_kind_rank b)"

instance
proof
  fix a b c :: MetadataRelationshipKind
  show "(a < b) = (a \<le> b \<and> \<not> b \<le> a)"
    by (simp only: less_eq_MetadataRelationshipKind_def less_MetadataRelationshipKind_def
        less_le_not_le)
  show "a \<le> a" by (simp add: less_eq_MetadataRelationshipKind_def)
  show "a \<le> b \<Longrightarrow> b \<le> c \<Longrightarrow> a \<le> c"
    by (metis less_eq_MetadataRelationshipKind_def order_trans)
  show "a \<le> b \<Longrightarrow> b \<le> a \<Longrightarrow> a = b"
    by (metis less_eq_MetadataRelationshipKind_def order_antisym rel_kind_rank_inject)
  show "a \<le> b \<or> b \<le> a"
    by (metis less_eq_MetadataRelationshipKind_def linear)
qed

end

section \<open>Normalization\<close>

definition sort_dedup_keys :: "ObjectKey list \<Rightarrow> ObjectKey list" where
  "sort_dedup_keys keys = remdups_adj (sort_key key_to_string keys)"

definition sort_dedup_strings :: "string list \<Rightarrow> string list" where
  "sort_dedup_strings xs = remdups_adj (sort xs)"

definition normalize_view :: "ViewObject \<Rightarrow> ViewObject" where
  "normalize_view view = view\<lparr>view_depends_on := sort_dedup_keys (view_depends_on view)\<rparr>"

definition normalize_trigger :: "TriggerObject \<Rightarrow> TriggerObject" where
  "normalize_trigger trigger = trigger\<lparr>trg_events := sort_dedup_strings (trg_events trigger)\<rparr>"

definition normalize_routine :: "RoutineObject \<Rightarrow> RoutineObject" where
  "normalize_routine routine = routine\<lparr>rtn_depends_on := sort_dedup_keys (rtn_depends_on routine)\<rparr>"

definition normalize_capabilities :: "AdapterCapabilities \<Rightarrow> AdapterCapabilities" where
  "normalize_capabilities c =
     c\<lparr>cap_notes := sort_dedup_strings (cap_notes c),
       cap_limitations := sort_dedup_strings (cap_limitations c)\<rparr>"

definition normalize_schema :: "SchemaSnapshot \<Rightarrow> SchemaSnapshot" where
  "normalize_schema s =
     s\<lparr>snap_schemas := sort_key (\<lambda>x. key_to_string (sch_key x)) (snap_schemas s),
       snap_tables := sort_key (\<lambda>x. key_to_string (tbl_key x)) (snap_tables s),
       snap_columns := sort_key (\<lambda>x. key_to_string (col_key x)) (snap_columns s),
       snap_constraints := sort_key (\<lambda>x. key_to_string (con_key x)) (snap_constraints s),
       snap_indexes := sort_key (\<lambda>x. key_to_string (idx_key x)) (snap_indexes s),
       snap_views := map normalize_view (sort_key (\<lambda>x. key_to_string (view_key x)) (snap_views s)),
       snap_triggers :=
         map normalize_trigger (sort_key (\<lambda>x. key_to_string (trg_key x)) (snap_triggers s)),
       snap_routines :=
         map normalize_routine (sort_key (\<lambda>x. key_to_string (rtn_key x)) (snap_routines s)),
       snap_capabilities := normalize_capabilities (snap_capabilities s)\<rparr>"

definition relationship_sort_key ::
  "MetadataRelationship \<Rightarrow> MetadataRelationshipKind \<times> string \<times> string \<times> nat option" where
  "relationship_sort_key r =
     (rel_kind r, key_to_string (rel_from_key r), key_to_string (rel_to_key r), rel_ordinal r)"

definition normalize_metadata :: "CanonicalMetadata \<Rightarrow> CanonicalMetadata" where
  "normalize_metadata m =
     m\<lparr>md_objects := sort_key (\<lambda>x. key_to_string (mo_key x)) (md_objects m),
       md_annotations := sort_key (\<lambda>x. key_to_string (an_object_key x)) (md_annotations m),
       md_relationships := sort_key relationship_sort_key (md_relationships m)\<rparr>"

definition normalize_canonical_snapshot :: "CanonicalSchemaSnapshot \<Rightarrow> CanonicalSchemaSnapshot" where
  "normalize_canonical_snapshot s =
     s\<lparr>can_schema := normalize_schema (can_schema s),
       can_metadata := normalize_metadata (can_metadata s)\<rparr>"

section \<open>Facts about normalization\<close>

lemma sort_dedup_keys_idem [simp]: "sort_dedup_keys (sort_dedup_keys ks) = sort_dedup_keys ks"
  by (simp add: sort_dedup_keys_def)

lemma sort_dedup_strings_idem [simp]:
  "sort_dedup_strings (sort_dedup_strings ks) = sort_dedup_strings ks"
  by (simp add: sort_dedup_strings_def)

lemma set_sort_dedup [simp]:
  "set (sort_dedup_keys ks) = set ks"
  "set (sort_dedup_strings xs) = set xs"
  by (simp_all add: sort_dedup_keys_def sort_dedup_strings_def)

lemma distinct_sort_dedup_keys [simp]: "distinct (sort_dedup_keys ks)"
  unfolding sort_dedup_keys_def
  by (rule distinct_remdups_adj_sorted_key[where f = key_to_string])
    (auto intro: inj_on_subset[OF inj_key_to_string])

lemma distinct_sort_dedup_strings [simp]: "distinct (sort_dedup_strings xs)"
  unfolding sort_dedup_strings_def
  by (rule distinct_remdups_adj_sorted_key[where f = "\<lambda>x. x"]) simp_all

lemma normalize_item_keys [simp]:
  "view_key (normalize_view v) = view_key v"
  "trg_key (normalize_trigger t) = trg_key t"
  "rtn_key (normalize_routine r) = rtn_key r"
  by (simp_all add: normalize_view_def normalize_trigger_def normalize_routine_def)

lemma normalize_item_idem [simp]:
  "normalize_view (normalize_view v) = normalize_view v"
  "normalize_trigger (normalize_trigger t) = normalize_trigger t"
  "normalize_routine (normalize_routine r) = normalize_routine r"
  "normalize_capabilities (normalize_capabilities c) = normalize_capabilities c"
  by (simp_all add: normalize_view_def normalize_trigger_def normalize_routine_def
      normalize_capabilities_def)

lemma normalize_schema_idem: "normalize_schema (normalize_schema s) = normalize_schema s"
  by (simp add: normalize_schema_def sort_key_map_sort_key comp_def)

lemma normalize_metadata_idem: "normalize_metadata (normalize_metadata m) = normalize_metadata m"
  by (simp add: normalize_metadata_def)

lemma normalize_idem:
  "normalize_canonical_snapshot (normalize_canonical_snapshot s) = normalize_canonical_snapshot s"
  by (simp add: normalize_canonical_snapshot_def normalize_schema_idem normalize_metadata_idem)

text \<open>The fields normalization does not touch, and the contents it keeps.\<close>

lemma normalize_schema_frame [simp]:
  "snap_source_kind (normalize_schema s) = snap_source_kind s"
  "snap_connection_alias (normalize_schema s) = snap_connection_alias s"
  "snap_database (normalize_schema s) = snap_database s"
  by (simp_all add: normalize_schema_def)

lemma normalize_schema_mset:
  "mset (snap_schemas (normalize_schema s)) = mset (snap_schemas s)"
  "mset (snap_tables (normalize_schema s)) = mset (snap_tables s)"
  "mset (snap_columns (normalize_schema s)) = mset (snap_columns s)"
  "mset (snap_constraints (normalize_schema s)) = mset (snap_constraints s)"
  "mset (snap_indexes (normalize_schema s)) = mset (snap_indexes s)"
  "mset (snap_views (normalize_schema s)) = image_mset normalize_view (mset (snap_views s))"
  "mset (snap_triggers (normalize_schema s)) = image_mset normalize_trigger (mset (snap_triggers s))"
  "mset (snap_routines (normalize_schema s)) = image_mset normalize_routine (mset (snap_routines s))"
  by (simp_all add: normalize_schema_def)

lemma normalize_metadata_mset:
  "mset (md_objects (normalize_metadata m)) = mset (md_objects m)"
  "mset (md_annotations (normalize_metadata m)) = mset (md_annotations m)"
  "mset (md_relationships (normalize_metadata m)) = mset (md_relationships m)"
  by (simp_all add: normalize_metadata_def)

subsection \<open>Order independence\<close>

lemma sort_key_perm:
  "mset xs = mset ys \<Longrightarrow> distinct (map f xs) \<Longrightarrow> sort_key f xs = sort_key f ys"
  by (rule sort_key_inj_key_eq) (simp_all add: distinct_map)

lemma map_sort_key:
  assumes "\<And>x. f (g x) = f x"
  shows "map g (sort_key f xs) = sort_key f (map g xs)"
proof (induction xs)
  case (Cons x xs)
  have "map g (insort_key f x ys) = insort_key f (g x) (map g ys)" for ys
    by (induction ys) (simp_all add: assms)
  with Cons show ?case by simp
qed simp

lemma map_sort_key_perm:
  assumes "mset (map g xs) = mset (map g ys)" and "distinct (map f xs)" and "\<And>x. f (g x) = f x"
  shows "map g (sort_key f xs) = map g (sort_key f ys)"
  using sort_key_perm[OF assms(1), of f] assms(2)
  by (simp add: map_sort_key[where f = f, OF assms(3)] comp_def assms(3))

text \<open>Two snapshots with the same content: the collections are permutations of each other, and the
  dependency lists, the trigger events and the capability notes have the same elements.\<close>

definition same_schema_content :: "SchemaSnapshot \<Rightarrow> SchemaSnapshot \<Rightarrow> bool" where
  "same_schema_content a b =
     (snap_source_kind a = snap_source_kind b
      \<and> snap_connection_alias a = snap_connection_alias b
      \<and> snap_database a = snap_database b
      \<and> mset (snap_schemas a) = mset (snap_schemas b)
      \<and> mset (snap_tables a) = mset (snap_tables b)
      \<and> mset (snap_columns a) = mset (snap_columns b)
      \<and> mset (snap_constraints a) = mset (snap_constraints b)
      \<and> mset (snap_indexes a) = mset (snap_indexes b)
      \<and> mset (map normalize_view (snap_views a)) = mset (map normalize_view (snap_views b))
      \<and> mset (map normalize_trigger (snap_triggers a)) = mset (map normalize_trigger (snap_triggers b))
      \<and> mset (map normalize_routine (snap_routines a)) = mset (map normalize_routine (snap_routines b))
      \<and> normalize_capabilities (snap_capabilities a) = normalize_capabilities (snap_capabilities b))"

definition same_metadata_content :: "CanonicalMetadata \<Rightarrow> CanonicalMetadata \<Rightarrow> bool" where
  "same_metadata_content a b =
     (mset (md_objects a) = mset (md_objects b)
      \<and> mset (md_annotations a) = mset (md_annotations b)
      \<and> mset (md_relationships a) = mset (md_relationships b))"

definition keys_distinct :: "CanonicalSchemaSnapshot \<Rightarrow> bool" where
  "keys_distinct c =
     (let s = can_schema c; m = can_metadata c in
      distinct (map sch_key (snap_schemas s)) \<and> distinct (map tbl_key (snap_tables s))
      \<and> distinct (map col_key (snap_columns s)) \<and> distinct (map con_key (snap_constraints s))
      \<and> distinct (map idx_key (snap_indexes s)) \<and> distinct (map view_key (snap_views s))
      \<and> distinct (map trg_key (snap_triggers s)) \<and> distinct (map rtn_key (snap_routines s))
      \<and> distinct (map mo_key (md_objects m)) \<and> distinct (map an_object_key (md_annotations m))
      \<and> distinct (map relationship_sort_key (md_relationships m)))"

lemma distinct_key_strings:
  "distinct (map (\<lambda>x. key_to_string (f x)) xs) \<longleftrightarrow> distinct (map f xs)"
  by (auto simp: distinct_map inj_on_def)

lemma normalize_schema_order:
  assumes "same_schema_content (can_schema a) (can_schema b)" and "keys_distinct a"
  shows "normalize_schema (can_schema a) = normalize_schema (can_schema b)"
  using assms unfolding same_schema_content_def keys_distinct_def Let_def normalize_schema_def
  by (intro SchemaSnapshot.equality)
      (simp_all add: distinct_key_strings
        sort_key_perm[of "snap_schemas (can_schema a)"] sort_key_perm[of "snap_tables (can_schema a)"]
        sort_key_perm[of "snap_columns (can_schema a)"]
        sort_key_perm[of "snap_constraints (can_schema a)"]
        sort_key_perm[of "snap_indexes (can_schema a)"]
        map_sort_key_perm[of normalize_view "snap_views (can_schema a)"]
        map_sort_key_perm[of normalize_trigger "snap_triggers (can_schema a)"]
        map_sort_key_perm[of normalize_routine "snap_routines (can_schema a)"])

lemma normalize_metadata_order:
  assumes "same_metadata_content (can_metadata a) (can_metadata b)" and "keys_distinct a"
  shows "normalize_metadata (can_metadata a) = normalize_metadata (can_metadata b)"
  using assms unfolding same_metadata_content_def keys_distinct_def Let_def normalize_metadata_def
  by (intro CanonicalMetadata.equality)
    (simp_all add: distinct_key_strings sort_key_perm[of "md_objects (can_metadata a)"]
      sort_key_perm[of "md_annotations (can_metadata a)"]
      sort_key_perm[of "md_relationships (can_metadata a)"])

section \<open>The sample snapshot of the unit tests\<close>

text \<open>Two tables of a SQLite database with a foreign key from orders to users: the snapshot the
  unit tests of the validator start from, used as the concrete input of the witnesses.\<close>

definition sample_object_key :: "ObjectKind \<Rightarrow> string \<Rightarrow> string option \<Rightarrow> ObjectKey" where
  "sample_object_key kind object_name sub_object =
     \<lparr>ok_source_kind = ''sqlite'', ok_connection_alias = ''sample'', ok_database = ''main'',
       ok_schema = ''main'', ok_object_kind = kind, ok_object_name = object_name,
       ok_sub_object = sub_object\<rparr>"

definition sample_table :: "string \<Rightarrow> TableObject" where
  "sample_table n =
     \<lparr>tbl_key = sample_object_key Table n None,
       tbl_schema_key = sample_object_key Schema ''main'' None,
       tbl_name = n, tbl_kind = BaseTable\<rparr>"

definition sample_column :: "string \<Rightarrow> string \<Rightarrow> ColumnObject" where
  "sample_column table n =
     \<lparr>col_key = sample_object_key Column table (Some n),
       col_table_key = sample_object_key Table table None, col_name = n,
       col_ordinal_position = 1, col_data_type = ''integer'', col_is_nullable = False,
       col_default_value = None, col_is_generated = False\<rparr>"

definition sample_foreign_key :: ConstraintObject where
  "sample_foreign_key =
     \<lparr>con_key = sample_object_key ObjectKind.ForeignKey ''orders'' (Some ''fk''),
       con_table_key = sample_object_key Table ''orders'' None, con_name = ''fk'',
       con_kind = ConstraintKind.ForeignKey,
       con_columns = [sample_object_key Column ''orders'' (Some ''user_id'')],
       con_referenced_table_key = Some (sample_object_key Table ''users'' None),
       con_referenced_columns = [sample_object_key Column ''users'' (Some ''id'')],
       con_expression = None\<rparr>"

definition sample_capabilities :: AdapterCapabilities where
  "sample_capabilities =
     \<lparr>cap_source_kind = ''sqlite'', cap_metadata_only = True, cap_schemas = True,
       cap_tables = True, cap_columns = True, cap_constraints = True, cap_indexes = True,
       cap_views = Supported, cap_triggers = Supported, cap_routines = Unsupported,
       cap_dependencies = Partial, cap_limitations = [], cap_notes = []\<rparr>"

definition sample_schema :: "TableObject list \<Rightarrow> SchemaSnapshot" where
  "sample_schema tables =
     \<lparr>snap_source_kind = ''sqlite'', snap_connection_alias = ''sample'',
       snap_database =
         \<lparr>db_key = sample_object_key Database ''main'' None, db_name = ''main''\<rparr>,
       snap_schemas =
         [\<lparr>sch_key = sample_object_key Schema ''main'' None,
            sch_database_key = sample_object_key Database ''main'' None, sch_name = ''main''\<rparr>],
       snap_tables = tables,
       snap_columns = [sample_column ''users'' ''id'', sample_column ''orders'' ''user_id''],
       snap_constraints = [sample_foreign_key], snap_indexes = [], snap_views = [],
       snap_triggers = [], snap_routines = [], snap_capabilities = sample_capabilities\<rparr>"

definition sample_snapshot :: CanonicalSchemaSnapshot where
  "sample_snapshot = canonical_from_schema (sample_schema [sample_table ''users'', sample_table ''orders''])"

lemmas sample_defs =
  sample_object_key_def sample_table_def sample_column_def sample_foreign_key_def
  sample_capabilities_def sample_schema_def sample_snapshot_def canonical_from_schema_def
  default_metadata_def

section \<open>Properties\<close>



text \<open>Normalization is idempotent, so a snapshot that has been stored in normal form is found
  in normal form by every later comparison.\<close>

lemma normalization_idempotent:
  "normalize_canonical_snapshot (normalize_canonical_snapshot s) = normalize_canonical_snapshot s"
  by (rule normalize_idem)

text \<open>Normalization keeps the content. No schema object, metadata object, annotation or
  relationship is lost or duplicated, the header is untouched, and column order inside constraints
  and indexes stays as it is.\<close>

lemma normalization_keeps_content:
  "same_schema_content (can_schema (normalize_canonical_snapshot s)) (can_schema s)
   \<and> same_metadata_content (can_metadata (normalize_canonical_snapshot s)) (can_metadata s)"
  by (simp add: normalize_canonical_snapshot_def same_schema_content_def same_metadata_content_def
      normalize_schema_mset normalize_metadata_mset image_mset.compositionality comp_def
      normalize_schema_def)

end
