(* ===== verification/Issue_Collector.thy ===== *)
theory Issue_Collector
  imports Btree
begin

text \<open>
  The contract shared by the three validators (\<open>snapshot_validation.rs\<close>, \<open>canonical_validation.rs\<close>,
  \<open>certification.rs\<close>): a state with a list of issues to which checks only append. A check is clean
  when it appends nothing; the locale gives the conditions under which a conditional report, a loop of
  checks and a loop that also tracks already seen identities leave the issue list empty. Each
  validator interprets it on its own state.
\<close>

locale issue_collector =
  fixes issues :: "'s \<Rightarrow> 'i list"
    and context_of :: "'s \<Rightarrow> 'c"
    and push :: "'i \<Rightarrow> 's \<Rightarrow> 's"
  assumes issues_push: "issues (push i s) = issues s @ [i]"
    and context_push: "context_of (push i s) = context_of s"
begin

lemma push_dirty: "issues (push i s) \<noteq> []"
  by (simp add: issues_push)

lemma clean_if_push: "issues (if c then push i s else s) = [] \<longleftrightarrow> issues s = [] \<and> \<not> c"
  by (simp add: issues_push)

lemma context_if_push: "context_of (if c then push i s else s) = context_of s"
  by (simp add: context_push)

text \<open>A loop of checks that do not change the context.\<close>

lemma context_fold:
  assumes "\<And>x s. context_of (f x s) = context_of s"
  shows "context_of (fold f xs s) = context_of s"
  using assms by (induction xs arbitrary: s) simp_all

lemma clean_fold:
  assumes "\<And>x s. context_of (f x s) = context_of s"
    and "\<And>x s. issues (f x s) = [] \<longleftrightarrow> issues s = [] \<and> P x (context_of s)"
  shows "issues (fold f xs s) = [] \<longleftrightarrow> issues s = [] \<and> (\<forall>x\<in>set xs. P x (context_of s))"
  using assms by (induction xs arbitrary: s) auto

text \<open>A loop that reports an identity it has met before.\<close>

lemma context_fold_seen:
  assumes "\<And>x s seen. context_of (fst (h x (s, seen))) = context_of s"
  shows "context_of (fst (fold h xs (s, seen))) = context_of s"
  using assms
proof (induction xs arbitrary: s seen)
  case (Cons x xs)
  then show ?case by (cases "h x (s, seen)") (metis fold_simps(2) fst_conv)
qed simp

lemma snd_fold_seen:
  assumes "\<And>x s seen. snd (h x (s, seen)) = bs_insert (f x) seen"
  shows "bs_contains (snd (fold h xs (s, seen))) y \<longleftrightarrow> y \<in> f ` set xs \<or> bs_contains seen y"
  using assms
proof (induction xs arbitrary: s seen)
  case (Cons x xs)
  obtain s' seen' where h: "h x (s, seen) = (s', seen')" by fastforce
  then have "seen' = bs_insert (f x) seen" using Cons.prems by (metis snd_conv)
  with h Cons show ?case by auto
qed simp

lemma clean_fold_seen:
  assumes ctx: "\<And>x s seen. context_of (fst (h x (s, seen))) = context_of s"
    and seen: "\<And>x s seen. snd (h x (s, seen)) = bs_insert (f x) seen"
    and clean: "\<And>x s seen. issues (fst (h x (s, seen))) = [] \<longleftrightarrow>
      issues s = [] \<and> P x (context_of s) \<and> \<not> bs_contains seen (f x)"
  shows "issues (fst (fold h xs (s, seen))) = [] \<longleftrightarrow>
    issues s = [] \<and> (\<forall>x\<in>set xs. P x (context_of s)) \<and> distinct (map f xs)
    \<and> (\<forall>x\<in>set xs. \<not> bs_contains seen (f x))"
proof (induction xs arbitrary: s seen)
  case (Cons x xs)
  obtain s' seen' where h: "h x (s, seen) = (s', seen')" by fastforce
  have s': "context_of s' = context_of s"
    "issues s' = [] \<longleftrightarrow> issues s = [] \<and> P x (context_of s) \<and> \<not> bs_contains seen (f x)"
    and seen': "seen' = bs_insert (f x) seen"
    using ctx[of x s seen] clean[of x s seen] assms(2)[of x s seen] h by simp_all
  show ?case using Cons.IH[of s' seen'] by (auto simp: h s' seen' image_def)
qed simp

text \<open>The issue list only grows: a clean result has clean intermediate states.\<close>

lemma clean_before:
  assumes "\<And>x s. \<exists>new. issues (f x s) = issues s @ new" and "issues (fold f xs s) = []"
  shows "issues s = []"
  using assms
proof (induction xs arbitrary: s)
  case (Cons x xs)
  then have "issues (f x s) = []" by (metis fold_simps(2))
  with Cons.prems(1)[of x s] show ?case by auto
qed simp

end

end
