(* ===== verification/Snapshot_Validation.thy ===== *)
theory Snapshot_Validation
  imports Canonical Issue_Collector
begin

text \<open>
  The structural validator of \<open>crates/database-memory-core/src/snapshot_validation.rs\<close>: the
  \<open>SnapshotValidator\<close> with its registry and its issues, one definition per method and one per loop of
  \<open>validate_schema_snapshot\<close>, in source order. The main result characterises the accepted snapshots by
  a declarative well-formedness predicate.
\<close>

section \<open>Issues and the validator state\<close>

record SnapshotValidationIssue =
  iss_code :: string
  iss_object_key :: string
  iss_message :: string

record SnapshotValidationError =
  err_issues :: "SnapshotValidationIssue list"

definition MAX_METADATA_TEXT_BYTES :: nat where
  "MAX_METADATA_TEXT_BYTES = 1048576"

definition validation_error_to_string :: "SnapshotValidationError \<Rightarrow> string" where
  "validation_error_to_string err =
     ''schema snapshot validation failed with '' @ show_nat (length (err_issues err)) @ '' issue(s)''
     @ (case err_issues err of
          [] \<Rightarrow> []
        | issue # _ \<Rightarrow> '': '' @ iss_message issue @ '' ['' @ iss_object_key issue @ '']'')"

record SnapshotValidator =
  val_objects :: "(string, ObjectKey) btree"
  val_issues :: "SnapshotValidationIssue list"

definition default_validator :: SnapshotValidator where
  "default_validator = \<lparr>val_objects = [], val_issues = []\<rparr>"

definition push_validator_issue ::
  "SnapshotValidationIssue \<Rightarrow> SnapshotValidator \<Rightarrow> SnapshotValidator" where
  "push_validator_issue i v = v\<lparr>val_issues := val_issues v @ [i]\<rparr>"

definition issue :: "string \<Rightarrow> ObjectKey \<Rightarrow> string \<Rightarrow> SnapshotValidator \<Rightarrow> SnapshotValidator" where
  "issue code object_key message v =
     push_validator_issue
       \<lparr>iss_code = code, iss_object_key = key_to_string object_key, iss_message = message\<rparr> v"

section \<open>Helper functions\<close>

fun any_duplicate :: "'a::linorder bset \<Rightarrow> 'a list \<Rightarrow> bool" where
  "any_duplicate seen [] = False"
| "any_duplicate seen (x # xs) = (bs_contains seen x \<or> any_duplicate (bs_insert x seen) xs)"

definition has_duplicate_keys :: "ObjectKey list \<Rightarrow> bool" where
  "has_duplicate_keys keys = any_duplicate [] (map key_to_string keys)"

definition has_duplicate_strings :: "string list \<Rightarrow> bool" where
  "has_duplicate_strings values = any_duplicate [] values"

definition validate_bounded_text ::
  "ObjectKey \<Rightarrow> string option \<Rightarrow> string \<Rightarrow> SnapshotValidator \<Rightarrow> SnapshotValidator" where
  "validate_bounded_text key value code v =
     (if (case value of None \<Rightarrow> False | Some text \<Rightarrow> length text > MAX_METADATA_TEXT_BYTES)
      then issue code key ''metadata text exceeds the canonical size limit'' v else v)"

fun constraint_object_kind :: "ConstraintKind \<Rightarrow> ObjectKind" where
  "constraint_object_kind ConstraintKind.PrimaryKey = ObjectKind.PrimaryKey"
| "constraint_object_kind ConstraintKind.ForeignKey = ObjectKind.ForeignKey"
| "constraint_object_kind Unique = UniqueConstraint"
| "constraint_object_kind Check = CheckConstraint"

section \<open>Methods of the validator\<close>

definition register :: "ObjectKey \<Rightarrow> ObjectKind \<Rightarrow> SnapshotValidator \<Rightarrow> SnapshotValidator" where
  "register key expected_kind v =
     (let v = (if ok_object_kind key \<noteq> expected_kind
               then issue ''object_kind_mismatch'' key
                 (''object kind is '' @ kind_to_string (ok_object_kind key) @ '', expected ''
                  @ kind_to_string expected_kind) v
               else v);
          stable_key = key_to_string key;
          occupied = bt_contains_key (val_objects v) stable_key;
          v = v\<lparr>val_objects := bt_insert stable_key key (val_objects v)\<rparr>
      in if occupied then issue ''duplicate_object_key'' key ''stable object key is duplicated'' v
         else v)"

definition validate_identity ::
  "ObjectKey \<Rightarrow> string \<Rightarrow> string \<Rightarrow> string option \<Rightarrow> SnapshotValidator \<Rightarrow> SnapshotValidator" where
  "validate_identity key connection_alias object_name sub_object v =
     (let v = (if ok_connection_alias key \<noteq> connection_alias
               then issue ''connection_alias_mismatch'' key
                 ''object connection alias differs from the snapshot alias'' v
               else v)
      in if ok_object_name key \<noteq> object_name \<or> ok_sub_object key \<noteq> sub_object
         then issue ''object_identity_mismatch'' key
           ''stable object identity differs from the object payload'' v
         else v)"

definition validate_key_scope ::
  "string \<Rightarrow> ObjectKey \<Rightarrow> ObjectKey \<Rightarrow> SnapshotValidator \<Rightarrow> SnapshotValidator" where
  "validate_key_scope connection_alias database key v =
     (let v = (if ok_connection_alias key \<noteq> connection_alias
               then issue ''connection_alias_mismatch'' key
                 ''object connection alias differs from the snapshot alias'' v
               else v);
          v = (if blank (ok_source_kind key) \<or> blank (ok_database key)
                  \<or> blank (ok_schema key) \<or> blank (ok_object_name key)
               then issue ''object_identity_incomplete'' key
                 ''stable object identity contains an empty required component'' v
               else v)
      in if ok_source_kind key \<noteq> ok_source_kind database \<or> ok_database key \<noteq> ok_database database
         then issue ''object_source_scope_mismatch'' key
           ''object source and database scope differ from the snapshot database identity'' v
         else v)"

definition validate_registered_scope ::
  "string \<Rightarrow> ObjectKey \<Rightarrow> SnapshotValidator \<Rightarrow> SnapshotValidator" where
  "validate_registered_scope connection_alias database v =
     fold (validate_key_scope connection_alias database) (bt_values (val_objects v)) v"

definition require_any :: "ObjectKey \<Rightarrow> ObjectKey \<Rightarrow> SnapshotValidator \<Rightarrow> SnapshotValidator" where
  "require_any target owner v =
     (if \<not> bt_contains_key (val_objects v) (key_to_string target)
      then issue ''relationship_target_missing'' owner
        (''relationship target '' @ key_to_string target @ '' is not present in the snapshot'') v
      else v)"

definition require_one_of ::
  "ObjectKey \<Rightarrow> ObjectKind list \<Rightarrow> ObjectKey \<Rightarrow> SnapshotValidator \<Rightarrow> SnapshotValidator" where
  "require_one_of target kinds owner v =
     (case bt_get (val_objects v) (key_to_string target) of
        Some actual \<Rightarrow>
          (if ok_object_kind actual \<in> set kinds then v
           else issue ''relationship_target_kind_mismatch'' owner
             (''relationship target '' @ key_to_string target @ '' has kind ''
              @ kind_to_string (ok_object_kind actual) @ '', expected one of ''
              @ join_with '', '' (map kind_to_string kinds)) v)
      | None \<Rightarrow>
          issue ''relationship_target_missing'' owner
            (''relationship target '' @ key_to_string target @ '' is not present in the snapshot'') v)"

definition require_kind ::
  "ObjectKey \<Rightarrow> ObjectKind \<Rightarrow> ObjectKey \<Rightarrow> SnapshotValidator \<Rightarrow> SnapshotValidator" where
  "require_kind target kind owner v = require_one_of target [kind] owner v"

definition require_child_of ::
  "ObjectKey \<Rightarrow> ObjectKey \<Rightarrow> ObjectKey \<Rightarrow> SnapshotValidator \<Rightarrow> SnapshotValidator" where
  "require_child_of child parent owner v =
     (if ok_database child \<noteq> ok_database parent \<or> ok_schema child \<noteq> ok_schema parent
      then issue ''object_scope_mismatch'' owner
        (''child '' @ key_to_string child @ '' and parent '' @ key_to_string parent
         @ '' have different scopes'') v
      else v)"

definition require_column_of ::
  "ObjectKey \<Rightarrow> ObjectKey \<Rightarrow> ObjectKey \<Rightarrow> SnapshotValidator \<Rightarrow> SnapshotValidator" where
  "require_column_of column table owner v =
     (let v = require_kind column Column owner v
      in if ok_database column \<noteq> ok_database table \<or> ok_schema column \<noteq> ok_schema table
            \<or> ok_object_name column \<noteq> ok_object_name table
         then issue ''column_owner_mismatch'' owner
           (''column '' @ key_to_string column @ '' does not belong to table ''
            @ key_to_string table) v
         else v)"

section \<open>The loops of validate\_schema\_snapshot\<close>

definition validate_header :: "SchemaSnapshot \<Rightarrow> SnapshotValidator \<Rightarrow> SnapshotValidator" where
  "validate_header snapshot v =
     (let v = (if blank (snap_source_kind snapshot)
               then issue ''snapshot_source_missing'' (db_key (snap_database snapshot))
                 ''snapshot source kind must not be empty'' v
               else v);
          v = (if blank (snap_connection_alias snapshot)
               then issue ''connection_alias_missing'' (db_key (snap_database snapshot))
                 ''snapshot connection alias must not be empty'' v
               else v)
      in if cap_source_kind (snap_capabilities snapshot) \<noteq> snap_source_kind snapshot
         then issue ''capability_source_mismatch'' (db_key (snap_database snapshot))
           ''capability source kind must match the snapshot source kind'' v
         else v)"

definition register_all :: "SchemaSnapshot \<Rightarrow> SnapshotValidator \<Rightarrow> SnapshotValidator" where
  "register_all snapshot v =
     (let v = register (db_key (snap_database snapshot)) Database v;
          v = fold (\<lambda>x. register (sch_key x) Schema) (snap_schemas snapshot) v;
          v = fold (\<lambda>x. register (tbl_key x) Table) (snap_tables snapshot) v;
          v = fold (\<lambda>x. register (col_key x) Column) (snap_columns snapshot) v;
          v = fold (\<lambda>x. register (con_key x) (constraint_object_kind (con_kind x)))
                (snap_constraints snapshot) v;
          v = fold (\<lambda>x. register (idx_key x) Index) (snap_indexes snapshot) v;
          v = fold (\<lambda>x. register (view_key x) View) (snap_views snapshot) v;
          v = fold (\<lambda>x. register (trg_key x) Trigger) (snap_triggers snapshot) v
      in fold (\<lambda>x. register (rtn_key x) Routine) (snap_routines snapshot) v)"

definition validate_database ::
  "string \<Rightarrow> DatabaseObject \<Rightarrow> SnapshotValidator \<Rightarrow> SnapshotValidator" where
  "validate_database connection_alias database v =
     (let v = validate_identity (db_key database) connection_alias (db_name database) None v
      in if ok_database (db_key database) \<noteq> db_name database
         then issue ''database_identity_mismatch'' (db_key database)
           ''database key scope must match the database name'' v
         else v)"

definition validate_schema ::
  "string \<Rightarrow> SchemaObject \<Rightarrow> SnapshotValidator \<Rightarrow> SnapshotValidator" where
  "validate_schema connection_alias schema v =
     (let v = require_kind (sch_database_key schema) Database (sch_key schema) v;
          v = validate_identity (sch_key schema) connection_alias (sch_name schema) None v
      in if ok_schema (sch_key schema) \<noteq> sch_name schema
         then issue ''schema_identity_mismatch'' (sch_key schema)
           ''schema key scope must match the schema name'' v
         else v)"

definition validate_table ::
  "string \<Rightarrow> TableObject \<Rightarrow> SnapshotValidator \<Rightarrow> SnapshotValidator" where
  "validate_table connection_alias table v =
     (let v = require_kind (tbl_schema_key table) Schema (tbl_key table) v;
          v = validate_identity (tbl_key table) connection_alias (tbl_name table) None v
      in if tbl_kind table = Temporary \<and> ok_schema (tbl_key table) = []
         then issue ''invalid_table_scope'' (tbl_key table)
           ''temporary table is missing a schema identity'' v
         else v)"

definition validate_column ::
  "string \<Rightarrow> ColumnObject \<Rightarrow> SnapshotValidator \<times> (string \<times> nat) bset
   \<Rightarrow> SnapshotValidator \<times> (string \<times> nat) bset" where
  "validate_column connection_alias column = (\<lambda>(v, column_ordinals).
     (let v = require_kind (col_table_key column) Table (col_key column) v;
          v = require_child_of (col_key column) (col_table_key column) (col_key column) v;
          v = validate_identity (col_key column) connection_alias
                (ok_object_name (col_table_key column)) (Some (col_name column)) v;
          v = (if col_ordinal_position column = 0
               then issue ''invalid_column_ordinal'' (col_key column)
                 ''column ordinal position must be at least 1'' v
               else v);
          ordinal = (key_to_string (col_table_key column), col_ordinal_position column);
          v = (if bs_contains column_ordinals ordinal
               then issue ''duplicate_column_ordinal'' (col_key column)
                 ''two columns in the same table share an ordinal position'' v
               else v);
          v = validate_bounded_text (col_key column) (col_default_value column)
                ''column_default_too_large'' v
      in (v, bs_insert ordinal column_ordinals)))"

definition optional_text_blank :: "string option \<Rightarrow> bool" where
  "optional_text_blank text = (case text of None \<Rightarrow> True | Some t \<Rightarrow> blank t)"

definition validate_foreign_key ::
  "ConstraintObject \<Rightarrow> SnapshotValidator \<Rightarrow> SnapshotValidator" where
  "validate_foreign_key con v =
     (let v = (if con_columns con = []
               then issue ''foreign_key_columns_missing'' (con_key con)
                 ''foreign key has no resolved source columns'' v
               else v);
          v = (case con_referenced_table_key con of
                 Some table_key \<Rightarrow>
                   fold (\<lambda>column. require_column_of column table_key (con_key con))
                     (con_referenced_columns con) (require_kind table_key Table (con_key con) v)
               | None \<Rightarrow> issue ''foreign_key_target_missing'' (con_key con)
                   ''foreign key has no resolved target table'' v)
      in if length (con_columns con) \<noteq> length (con_referenced_columns con)
         then issue ''foreign_key_cardinality_mismatch'' (con_key con)
           ''foreign key source and target column counts differ'' v
         else v)"

definition validate_constraint_kind ::
  "ConstraintObject \<Rightarrow> SnapshotValidator \<Rightarrow> SnapshotValidator" where
  "validate_constraint_kind con v =
     (if con_kind con = ConstraintKind.PrimaryKey \<or> con_kind con = Unique then
        (let v = (if con_columns con = []
                  then issue ''constraint_columns_missing'' (con_key con)
                    ''key constraint has no resolved columns'' v
                  else v)
         in if con_referenced_table_key con \<noteq> None \<or> con_referenced_columns con \<noteq> []
            then issue ''unexpected_constraint_reference'' (con_key con)
              ''non-foreign-key constraint contains a referenced target'' v
            else v)
      else if con_kind con = ConstraintKind.ForeignKey then validate_foreign_key con v
      else
        (if optional_text_blank (con_expression con)
         then issue ''check_expression_missing'' (con_key con)
           ''check constraint has no expression'' v
         else v))"

definition validate_constraint ::
  "string \<Rightarrow> ConstraintObject \<Rightarrow> SnapshotValidator \<Rightarrow> SnapshotValidator" where
  "validate_constraint connection_alias con v =
     (let v = require_kind (con_table_key con) Table (con_key con) v;
          v = require_child_of (con_key con) (con_table_key con) (con_key con) v;
          v = validate_identity (con_key con) connection_alias
                (ok_object_name (con_table_key con)) (Some (con_name con)) v;
          v = fold (\<lambda>column. require_column_of column (con_table_key con) (con_key con))
                (con_columns con) v;
          v = (if has_duplicate_keys (con_columns con)
               then issue ''duplicate_constraint_column'' (con_key con)
                 ''constraint contains the same source column more than once'' v
               else v);
          v = (if has_duplicate_keys (con_referenced_columns con)
               then issue ''duplicate_constraint_reference_column'' (con_key con)
                 ''constraint contains the same referenced column more than once'' v
               else v);
          v = validate_bounded_text (con_key con) (con_expression con)
                ''constraint_expression_too_large'' v
      in validate_constraint_kind con v)"

definition validate_index ::
  "string \<Rightarrow> IndexObject \<Rightarrow> SnapshotValidator \<Rightarrow> SnapshotValidator" where
  "validate_index connection_alias idx v =
     (let v = require_kind (idx_table_key idx) Table (idx_key idx) v;
          v = require_child_of (idx_key idx) (idx_table_key idx) (idx_key idx) v;
          v = validate_identity (idx_key idx) connection_alias
                (ok_object_name (idx_table_key idx)) (Some (idx_name idx)) v;
          v = fold (\<lambda>column. require_column_of column (idx_table_key idx) (idx_key idx))
                (idx_columns idx) v;
          v = (if has_duplicate_keys (idx_columns idx)
               then issue ''duplicate_index_column'' (idx_key idx)
                 ''index contains the same resolved column more than once'' v
               else v);
          v = (if idx_columns idx = [] \<and> optional_text_blank (idx_expression idx)
               then issue ''index_definition_missing'' (idx_key idx)
                 ''index has neither resolved columns nor an expression'' v
               else v);
          v = validate_bounded_text (idx_key idx) (idx_predicate idx)
                ''index_predicate_too_large'' v
      in validate_bounded_text (idx_key idx) (idx_expression idx) ''index_expression_too_large'' v)"

definition validate_view ::
  "string \<Rightarrow> ViewObject \<Rightarrow> SnapshotValidator \<Rightarrow> SnapshotValidator" where
  "validate_view connection_alias view v =
     (let v = require_kind (view_schema_key view) Schema (view_key view) v;
          v = validate_identity (view_key view) connection_alias (view_name view) None v;
          v = fold (\<lambda>dependency. require_any dependency (view_key view)) (view_depends_on view) v;
          v = (if has_duplicate_keys (view_depends_on view)
               then issue ''duplicate_view_dependency'' (view_key view)
                 ''view dependency is duplicated'' v
               else v)
      in validate_bounded_text (view_key view) (view_definition view)
           ''view_definition_too_large'' v)"

definition validate_trigger ::
  "string \<Rightarrow> TriggerObject \<Rightarrow> SnapshotValidator \<Rightarrow> SnapshotValidator" where
  "validate_trigger connection_alias trigger v =
     (let v = require_one_of (trg_table_key trigger) [Table, View] (trg_key trigger) v;
          v = require_child_of (trg_key trigger) (trg_table_key trigger) (trg_key trigger) v;
          v = validate_identity (trg_key trigger) connection_alias
                (ok_object_name (trg_table_key trigger)) (Some (trg_name trigger)) v;
          v = (if trg_events trigger = []
               then issue ''trigger_events_missing'' (trg_key trigger)
                 ''trigger must declare at least one event'' v
               else v);
          v = (if has_duplicate_strings (trg_events trigger)
               then issue ''duplicate_trigger_event'' (trg_key trigger)
                 ''trigger event is duplicated'' v
               else v);
          v = validate_bounded_text (trg_key trigger) (trg_definition trigger)
                ''trigger_definition_too_large'' v
      in (case trg_executes_routine_key trigger of
            Some routine_key \<Rightarrow> require_kind routine_key Routine (trg_key trigger) v
          | None \<Rightarrow> v))"

definition validate_routine ::
  "string \<Rightarrow> RoutineObject \<Rightarrow> SnapshotValidator \<Rightarrow> SnapshotValidator" where
  "validate_routine connection_alias routine v =
     (let v = require_kind (rtn_schema_key routine) Schema (rtn_key routine) v;
          v = validate_identity (rtn_key routine) connection_alias (rtn_name routine)
                (ok_sub_object (rtn_key routine)) v;
          v = fold (\<lambda>dependency. require_any dependency (rtn_key routine))
                (rtn_depends_on routine) v;
          v = (if has_duplicate_keys (rtn_depends_on routine)
               then issue ''duplicate_routine_dependency'' (rtn_key routine)
                 ''routine dependency is duplicated'' v
               else v)
      in validate_bounded_text (rtn_key routine) (rtn_definition routine)
           ''routine_definition_too_large'' v)"

definition run_validator :: "SchemaSnapshot \<Rightarrow> SnapshotValidator" where
  "run_validator snapshot =
     (let connection_alias = snap_connection_alias snapshot;
          v = validate_header snapshot default_validator;
          v = register_all snapshot v;
          v = validate_registered_scope connection_alias (db_key (snap_database snapshot)) v;
          v = validate_database connection_alias (snap_database snapshot) v;
          v = fold (validate_schema connection_alias) (snap_schemas snapshot) v;
          v = fold (validate_table connection_alias) (snap_tables snapshot) v;
          v = fst (fold (validate_column connection_alias) (snap_columns snapshot) (v, []));
          v = fold (validate_constraint connection_alias) (snap_constraints snapshot) v;
          v = fold (validate_index connection_alias) (snap_indexes snapshot) v;
          v = fold (validate_view connection_alias) (snap_views snapshot) v;
          v = fold (validate_trigger connection_alias) (snap_triggers snapshot) v
      in fold (validate_routine connection_alias) (snap_routines snapshot) v)"

definition validate_schema_snapshot ::
  "SchemaSnapshot \<Rightarrow> (SnapshotValidationError, unit) result" where
  "validate_schema_snapshot snapshot =
     (let validator = run_validator snapshot
      in if val_issues validator = [] then Ok ()
         else Err \<lparr>err_issues = val_issues validator\<rparr>)"

section \<open>When a step is clean\<close>

interpretation sv: issue_collector val_issues val_objects push_validator_issue
  by unfold_locales (simp_all add: push_validator_issue_def)

lemma issue_simps_validator [simp]:
  "val_issues (issue c k m v) \<noteq> []"
  "val_objects (issue c k m v) = val_objects v"
  by (simp_all add: issue_def sv.push_dirty sv.context_push)

lemma any_duplicate_iff:
  "any_duplicate seen xs \<longleftrightarrow> \<not> distinct xs \<or> (\<exists>x\<in>set xs. bs_contains seen x)"
  by (induction seen xs rule: any_duplicate.induct) auto

lemma has_duplicate_keys_iff [simp]: "has_duplicate_keys ks \<longleftrightarrow> \<not> distinct ks"
  by (auto simp: has_duplicate_keys_def any_duplicate_iff distinct_map
      intro: inj_on_subset[OF inj_key_to_string])

lemma has_duplicate_strings_iff [simp]: "has_duplicate_strings xs \<longleftrightarrow> \<not> distinct xs"
  by (simp add: has_duplicate_strings_def any_duplicate_iff)

definition within_text_limit :: "string option \<Rightarrow> bool" where
  "within_text_limit text =
     (case text of None \<Rightarrow> True | Some t \<Rightarrow> length t \<le> MAX_METADATA_TEXT_BYTES)"

lemma validate_bounded_text_clean [issue_simps]:
  "val_issues (validate_bounded_text k t c v) = [] \<longleftrightarrow> val_issues v = [] \<and> within_text_limit t"
  "val_objects (validate_bounded_text k t c v) = val_objects v"
  by (simp_all add: validate_bounded_text_def within_text_limit_def not_less split: option.splits)

lemma validate_identity_clean [issue_simps]:
  "val_issues (validate_identity k a n s v) = [] \<longleftrightarrow>
     val_issues v = [] \<and> ok_connection_alias k = a \<and> ok_object_name k = n \<and> ok_sub_object k = s"
  "val_objects (validate_identity k a n s v) = val_objects v"
  by (auto simp: validate_identity_def Let_def)

lemma require_any_clean [issue_simps]:
  "val_issues (require_any t k v) = [] \<longleftrightarrow>
     val_issues v = [] \<and> bt_get (val_objects v) (key_to_string t) \<noteq> None"
  "val_objects (require_any t k v) = val_objects v"
  by (auto simp: require_any_def bt_contains_key_def)

definition registered_as :: "(string, ObjectKey) btree \<Rightarrow> ObjectKey \<Rightarrow> ObjectKind set \<Rightarrow> bool" where
  "registered_as objects target kinds =
     (case bt_get objects (key_to_string target) of
        None \<Rightarrow> False | Some actual \<Rightarrow> ok_object_kind actual \<in> kinds)"

lemma require_one_of_clean [issue_simps]:
  "val_issues (require_one_of t kinds k v) = [] \<longleftrightarrow>
     val_issues v = [] \<and> registered_as (val_objects v) t (set kinds)"
  "val_objects (require_one_of t kinds k v) = val_objects v"
  by (simp_all add: require_one_of_def registered_as_def split: option.splits)

lemma require_kind_clean [issue_simps]:
  "val_issues (require_kind t kind k v) = [] \<longleftrightarrow>
     val_issues v = [] \<and> registered_as (val_objects v) t {kind}"
  "val_objects (require_kind t kind k v) = val_objects v"
  by (simp_all add: require_kind_def issue_simps)

definition same_scope :: "ObjectKey \<Rightarrow> ObjectKey \<Rightarrow> bool" where
  "same_scope child parent =
     (ok_database child = ok_database parent \<and> ok_schema child = ok_schema parent)"

lemma require_child_of_clean [issue_simps]:
  "val_issues (require_child_of c p k v) = [] \<longleftrightarrow> val_issues v = [] \<and> same_scope c p"
  "val_objects (require_child_of c p k v) = val_objects v"
  by (simp_all add: require_child_of_def same_scope_def)

definition column_of :: "ObjectKey \<Rightarrow> ObjectKey \<Rightarrow> bool" where
  "column_of column table =
     (same_scope column table \<and> ok_object_name column = ok_object_name table)"

lemma require_column_of_clean [issue_simps]:
  "val_issues (require_column_of c t k v) = [] \<longleftrightarrow>
     val_issues v = [] \<and> registered_as (val_objects v) c {Column} \<and> column_of c t"
  "val_objects (require_column_of c t k v) = val_objects v"
  by (auto simp: require_column_of_def Let_def issue_simps column_of_def same_scope_def)

lemma fold_require_column_of_clean [issue_simps]:
  "val_issues (fold (\<lambda>c. require_column_of c t k) cs v) = [] \<longleftrightarrow>
     val_issues v = [] \<and> (\<forall>c\<in>set cs. registered_as (val_objects v) c {Column} \<and> column_of c t)"
  "val_objects (fold (\<lambda>c. require_column_of c t k) cs v) = val_objects v"
  by (rule sv.clean_fold sv.context_fold; simp add: issue_simps)+

lemma fold_require_any_clean [issue_simps]:
  "val_issues (fold (\<lambda>t. require_any t k) ts v) = [] \<longleftrightarrow>
     val_issues v = [] \<and> (\<forall>t\<in>set ts. bt_get (val_objects v) (key_to_string t) \<noteq> None)"
  "val_objects (fold (\<lambda>t. require_any t k) ts v) = val_objects v"
  by (rule sv.clean_fold sv.context_fold; simp add: issue_simps)+

section \<open>Well-formed schema objects\<close>

text \<open>
  The declarative counterpart of the loops. \<open>res t kinds\<close> says that the key \<open>t\<close> resolves to an object
  of the snapshot of one of the given kinds.
\<close>

type_synonym resolver = "ObjectKey \<Rightarrow> ObjectKind set \<Rightarrow> bool"

definition identity_matches :: "ObjectKey \<Rightarrow> string \<Rightarrow> string \<Rightarrow> string option \<Rightarrow> bool" where
  "identity_matches key alias name sub =
     (ok_connection_alias key = alias \<and> ok_object_name key = name \<and> ok_sub_object key = sub)"

definition scope_matches :: "string \<Rightarrow> ObjectKey \<Rightarrow> ObjectKey \<Rightarrow> bool" where
  "scope_matches alias database key =
     (ok_connection_alias key = alias
      \<and> \<not> blank (ok_source_kind key) \<and> \<not> blank (ok_database key)
      \<and> \<not> blank (ok_schema key) \<and> \<not> blank (ok_object_name key)
      \<and> ok_source_kind key = ok_source_kind database \<and> ok_database key = ok_database database)"

definition wf_database :: "string \<Rightarrow> DatabaseObject \<Rightarrow> bool" where
  "wf_database alias d =
     (identity_matches (db_key d) alias (db_name d) None \<and> ok_database (db_key d) = db_name d)"

definition wf_schema :: "resolver \<Rightarrow> string \<Rightarrow> SchemaObject \<Rightarrow> bool" where
  "wf_schema res alias x =
     (res (sch_database_key x) {Database} \<and> identity_matches (sch_key x) alias (sch_name x) None
      \<and> ok_schema (sch_key x) = sch_name x)"

definition wf_table :: "resolver \<Rightarrow> string \<Rightarrow> TableObject \<Rightarrow> bool" where
  "wf_table res alias x =
     (res (tbl_schema_key x) {Schema} \<and> identity_matches (tbl_key x) alias (tbl_name x) None
      \<and> \<not> (tbl_kind x = Temporary \<and> ok_schema (tbl_key x) = []))"

definition wf_column :: "resolver \<Rightarrow> string \<Rightarrow> ColumnObject \<Rightarrow> bool" where
  "wf_column res alias x =
     (res (col_table_key x) {Table} \<and> same_scope (col_key x) (col_table_key x)
      \<and> identity_matches (col_key x) alias (ok_object_name (col_table_key x)) (Some (col_name x))
      \<and> col_ordinal_position x \<noteq> 0 \<and> within_text_limit (col_default_value x))"

definition wf_columns_of :: "resolver \<Rightarrow> ObjectKey \<Rightarrow> ObjectKey list \<Rightarrow> bool" where
  "wf_columns_of res table cs = (\<forall>c\<in>set cs. res c {Column} \<and> column_of c table)"

definition wf_constraint_kind :: "resolver \<Rightarrow> ConstraintObject \<Rightarrow> bool" where
  "wf_constraint_kind res x =
     (case con_kind x of
        ConstraintKind.PrimaryKey \<Rightarrow> con_columns x \<noteq> [] \<and> con_referenced_table_key x = None
          \<and> con_referenced_columns x = []
      | Unique \<Rightarrow> con_columns x \<noteq> [] \<and> con_referenced_table_key x = None
          \<and> con_referenced_columns x = []
      | ConstraintKind.ForeignKey \<Rightarrow> con_columns x \<noteq> []
          \<and> (\<exists>t. con_referenced_table_key x = Some t \<and> res t {Table}
               \<and> wf_columns_of res t (con_referenced_columns x))
          \<and> length (con_columns x) = length (con_referenced_columns x)
      | Check \<Rightarrow> \<not> optional_text_blank (con_expression x))"

definition wf_constraint :: "resolver \<Rightarrow> string \<Rightarrow> ConstraintObject \<Rightarrow> bool" where
  "wf_constraint res alias x =
     (res (con_table_key x) {Table} \<and> same_scope (con_key x) (con_table_key x)
      \<and> identity_matches (con_key x) alias (ok_object_name (con_table_key x)) (Some (con_name x))
      \<and> wf_columns_of res (con_table_key x) (con_columns x)
      \<and> distinct (con_columns x) \<and> distinct (con_referenced_columns x)
      \<and> within_text_limit (con_expression x) \<and> wf_constraint_kind res x)"

definition wf_index :: "resolver \<Rightarrow> string \<Rightarrow> IndexObject \<Rightarrow> bool" where
  "wf_index res alias x =
     (res (idx_table_key x) {Table} \<and> same_scope (idx_key x) (idx_table_key x)
      \<and> identity_matches (idx_key x) alias (ok_object_name (idx_table_key x)) (Some (idx_name x))
      \<and> wf_columns_of res (idx_table_key x) (idx_columns x) \<and> distinct (idx_columns x)
      \<and> \<not> (idx_columns x = [] \<and> optional_text_blank (idx_expression x))
      \<and> within_text_limit (idx_predicate x) \<and> within_text_limit (idx_expression x))"

definition wf_view :: "resolver \<Rightarrow> string \<Rightarrow> ViewObject \<Rightarrow> bool" where
  "wf_view res alias x =
     (res (view_schema_key x) {Schema} \<and> identity_matches (view_key x) alias (view_name x) None
      \<and> (\<forall>t\<in>set (view_depends_on x). res t UNIV) \<and> distinct (view_depends_on x)
      \<and> within_text_limit (view_definition x))"

definition wf_trigger :: "resolver \<Rightarrow> string \<Rightarrow> TriggerObject \<Rightarrow> bool" where
  "wf_trigger res alias x =
     (res (trg_table_key x) {Table, View} \<and> same_scope (trg_key x) (trg_table_key x)
      \<and> identity_matches (trg_key x) alias (ok_object_name (trg_table_key x)) (Some (trg_name x))
      \<and> trg_events x \<noteq> [] \<and> distinct (trg_events x) \<and> within_text_limit (trg_definition x)
      \<and> (\<forall>t. trg_executes_routine_key x = Some t \<longrightarrow> res t {Routine}))"

definition wf_routine :: "resolver \<Rightarrow> string \<Rightarrow> RoutineObject \<Rightarrow> bool" where
  "wf_routine res alias x =
     (res (rtn_schema_key x) {Schema}
      \<and> ok_connection_alias (rtn_key x) = alias \<and> ok_object_name (rtn_key x) = rtn_name x
      \<and> (\<forall>t\<in>set (rtn_depends_on x). res t UNIV) \<and> distinct (rtn_depends_on x)
      \<and> within_text_limit (rtn_definition x))"

text \<open>The keys of the typed objects, each with the kind its collection stands for.\<close>

definition schema_keys :: "SchemaSnapshot \<Rightarrow> (ObjectKey \<times> ObjectKind) list" where
  "schema_keys s =
     (db_key (snap_database s), Database)
     # map (\<lambda>x. (sch_key x, Schema)) (snap_schemas s)
     @ map (\<lambda>x. (tbl_key x, Table)) (snap_tables s)
     @ map (\<lambda>x. (col_key x, Column)) (snap_columns s)
     @ map (\<lambda>x. (con_key x, constraint_object_kind (con_kind x))) (snap_constraints s)
     @ map (\<lambda>x. (idx_key x, Index)) (snap_indexes s)
     @ map (\<lambda>x. (view_key x, View)) (snap_views s)
     @ map (\<lambda>x. (trg_key x, Trigger)) (snap_triggers s)
     @ map (\<lambda>x. (rtn_key x, Routine)) (snap_routines s)"

definition refers :: "ObjectKey set \<Rightarrow> resolver" where
  "refers K t kinds = (t \<in> K \<and> ok_object_kind t \<in> kinds)"

definition well_formed_schema :: "SchemaSnapshot \<Rightarrow> bool" where
  "well_formed_schema s =
     (let a = snap_connection_alias s;
          keys = map fst (schema_keys s);
          res = refers (set keys)
      in \<not> blank (snap_source_kind s) \<and> \<not> blank a
         \<and> cap_source_kind (snap_capabilities s) = snap_source_kind s
         \<and> (\<forall>(k, kind)\<in>set (schema_keys s). ok_object_kind k = kind) \<and> distinct keys
         \<and> (\<forall>k\<in>set keys. scope_matches a (db_key (snap_database s)) k)
         \<and> wf_database a (snap_database s)
         \<and> (\<forall>x\<in>set (snap_schemas s). wf_schema res a x)
         \<and> (\<forall>x\<in>set (snap_tables s). wf_table res a x)
         \<and> (\<forall>x\<in>set (snap_columns s). wf_column res a x)
         \<and> distinct (map (\<lambda>x. (col_table_key x, col_ordinal_position x)) (snap_columns s))
         \<and> (\<forall>x\<in>set (snap_constraints s). wf_constraint res a x)
         \<and> (\<forall>x\<in>set (snap_indexes s). wf_index res a x)
         \<and> (\<forall>x\<in>set (snap_views s). wf_view res a x)
         \<and> (\<forall>x\<in>set (snap_triggers s). wf_trigger res a x)
         \<and> (\<forall>x\<in>set (snap_routines s). wf_routine res a x))"

section \<open>Each loop checks its well-formedness condition\<close>

lemma registered_as_UNIV:
  "registered_as m t UNIV \<longleftrightarrow> bt_get m (key_to_string t) \<noteq> None"
  by (simp add: registered_as_def split: option.splits)

lemma validate_key_scope_clean [issue_simps]:
  "val_issues (validate_key_scope a d k v) = [] \<longleftrightarrow> val_issues v = [] \<and> scope_matches a d k"
  "val_objects (validate_key_scope a d k v) = val_objects v"
  by (auto simp: validate_key_scope_def Let_def scope_matches_def)

lemma validate_registered_scope_clean:
  "val_issues (validate_registered_scope a d v) = [] \<longleftrightarrow>
     val_issues v = [] \<and> (\<forall>k\<in>set (bt_values (val_objects v)). scope_matches a d k)"
  "val_objects (validate_registered_scope a d v) = val_objects v"
  unfolding validate_registered_scope_def
  by (rule sv.clean_fold sv.context_fold; simp add: issue_simps)+

lemma validate_header_clean:
  "val_issues (validate_header s v) = [] \<longleftrightarrow>
     val_issues v = [] \<and> \<not> blank (snap_source_kind s) \<and> \<not> blank (snap_connection_alias s)
     \<and> cap_source_kind (snap_capabilities s) = snap_source_kind s"
  "val_objects (validate_header s v) = val_objects v"
  by (auto simp: validate_header_def Let_def)

lemma validate_database_clean [issue_simps]:
  "val_issues (validate_database a d v) = [] \<longleftrightarrow> val_issues v = [] \<and> wf_database a d"
  "val_objects (validate_database a d v) = val_objects v"
  by (auto simp: validate_database_def Let_def issue_simps wf_database_def identity_matches_def)

lemma validate_schema_clean [issue_simps]:
  "val_issues (validate_schema a x v) = [] \<longleftrightarrow>
     val_issues v = [] \<and> wf_schema (registered_as (val_objects v)) a x"
  "val_objects (validate_schema a x v) = val_objects v"
  by (auto simp: validate_schema_def Let_def issue_simps wf_schema_def identity_matches_def)

lemma validate_table_clean [issue_simps]:
  "val_issues (validate_table a x v) = [] \<longleftrightarrow>
     val_issues v = [] \<and> wf_table (registered_as (val_objects v)) a x"
  "val_objects (validate_table a x v) = val_objects v"
  by (auto simp: validate_table_def Let_def issue_simps wf_table_def identity_matches_def)

lemma validate_column_clean [issue_simps]:
  "val_issues (fst (validate_column a x (v, seen))) = [] \<longleftrightarrow>
     val_issues v = [] \<and> wf_column (registered_as (val_objects v)) a x
     \<and> \<not> bs_contains seen (key_to_string (col_table_key x), col_ordinal_position x)"
  "val_objects (fst (validate_column a x (v, seen))) = val_objects v"
  "snd (validate_column a x (v, seen)) =
     bs_insert (key_to_string (col_table_key x), col_ordinal_position x) seen"
  by (auto simp: validate_column_def Let_def issue_simps wf_column_def identity_matches_def)

lemma validate_foreign_key_clean [issue_simps]:
  "val_issues (validate_foreign_key x v) = [] \<longleftrightarrow>
     val_issues v = [] \<and> con_columns x \<noteq> []
     \<and> (\<exists>t. con_referenced_table_key x = Some t \<and> registered_as (val_objects v) t {Table}
          \<and> wf_columns_of (registered_as (val_objects v)) t (con_referenced_columns x))
     \<and> length (con_columns x) = length (con_referenced_columns x)"
  "val_objects (validate_foreign_key x v) = val_objects v"
  by (auto simp: validate_foreign_key_def Let_def issue_simps wf_columns_of_def split: option.splits)

lemma validate_constraint_kind_clean [issue_simps]:
  "val_issues (validate_constraint_kind x v) = [] \<longleftrightarrow>
     val_issues v = [] \<and> wf_constraint_kind (registered_as (val_objects v)) x"
  "val_objects (validate_constraint_kind x v) = val_objects v"
  by (cases "con_kind x";
      auto simp: validate_constraint_kind_def Let_def issue_simps wf_constraint_kind_def)+

lemma validate_constraint_clean [issue_simps]:
  "val_issues (validate_constraint a x v) = [] \<longleftrightarrow>
     val_issues v = [] \<and> wf_constraint (registered_as (val_objects v)) a x"
  "val_objects (validate_constraint a x v) = val_objects v"
  by (auto simp: validate_constraint_def Let_def issue_simps wf_constraint_def wf_columns_of_def
      identity_matches_def)

lemma validate_index_clean [issue_simps]:
  "val_issues (validate_index a x v) = [] \<longleftrightarrow>
     val_issues v = [] \<and> wf_index (registered_as (val_objects v)) a x"
  "val_objects (validate_index a x v) = val_objects v"
  by (auto simp: validate_index_def Let_def issue_simps wf_index_def wf_columns_of_def
      identity_matches_def)

lemma validate_view_clean [issue_simps]:
  "val_issues (validate_view a x v) = [] \<longleftrightarrow>
     val_issues v = [] \<and> wf_view (registered_as (val_objects v)) a x"
  "val_objects (validate_view a x v) = val_objects v"
  by (auto simp: validate_view_def Let_def issue_simps wf_view_def identity_matches_def
      registered_as_UNIV)

lemma validate_trigger_clean [issue_simps]:
  "val_issues (validate_trigger a x v) = [] \<longleftrightarrow>
     val_issues v = [] \<and> wf_trigger (registered_as (val_objects v)) a x"
  "val_objects (validate_trigger a x v) = val_objects v"
  by (auto simp: validate_trigger_def Let_def issue_simps wf_trigger_def identity_matches_def
      split: option.splits)

lemma validate_routine_clean [issue_simps]:
  "val_issues (validate_routine a x v) = [] \<longleftrightarrow>
     val_issues v = [] \<and> wf_routine (registered_as (val_objects v)) a x"
  "val_objects (validate_routine a x v) = val_objects v"
  by (auto simp: validate_routine_def Let_def issue_simps wf_routine_def registered_as_UNIV)

lemma validate_folds_clean [issue_simps]:
  "val_issues (fold (validate_schema a) ss v) = [] \<longleftrightarrow>
     val_issues v = [] \<and> (\<forall>x\<in>set ss. wf_schema (registered_as (val_objects v)) a x)"
  "val_issues (fold (validate_table a) ts v) = [] \<longleftrightarrow>
     val_issues v = [] \<and> (\<forall>x\<in>set ts. wf_table (registered_as (val_objects v)) a x)"
  "val_issues (fold (validate_constraint a) cs v) = [] \<longleftrightarrow>
     val_issues v = [] \<and> (\<forall>x\<in>set cs. wf_constraint (registered_as (val_objects v)) a x)"
  "val_issues (fold (validate_index a) is v) = [] \<longleftrightarrow>
     val_issues v = [] \<and> (\<forall>x\<in>set is. wf_index (registered_as (val_objects v)) a x)"
  "val_issues (fold (validate_view a) vs v) = [] \<longleftrightarrow>
     val_issues v = [] \<and> (\<forall>x\<in>set vs. wf_view (registered_as (val_objects v)) a x)"
  "val_issues (fold (validate_trigger a) gs v) = [] \<longleftrightarrow>
     val_issues v = [] \<and> (\<forall>x\<in>set gs. wf_trigger (registered_as (val_objects v)) a x)"
  "val_issues (fold (validate_routine a) rs v) = [] \<longleftrightarrow>
     val_issues v = [] \<and> (\<forall>x\<in>set rs. wf_routine (registered_as (val_objects v)) a x)"
  by (rule sv.clean_fold; simp add: issue_simps)+

lemma validate_folds_objects [issue_simps]:
  "val_objects (fold (validate_schema a) ss v) = val_objects v"
  "val_objects (fold (validate_table a) ts v) = val_objects v"
  "val_objects (fold (validate_constraint a) cs v) = val_objects v"
  "val_objects (fold (validate_index a) is v) = val_objects v"
  "val_objects (fold (validate_view a) vs v) = val_objects v"
  "val_objects (fold (validate_trigger a) gs v) = val_objects v"
  "val_objects (fold (validate_routine a) rs v) = val_objects v"
  by (rule sv.context_fold; simp add: issue_simps)+

lemma validate_columns_clean [issue_simps]:
  "val_issues (fst (fold (validate_column a) xs (v, []))) = [] \<longleftrightarrow>
     val_issues v = [] \<and> (\<forall>x\<in>set xs. wf_column (registered_as (val_objects v)) a x)
     \<and> distinct (map (\<lambda>x. (col_table_key x, col_ordinal_position x)) xs)"
  "val_objects (fst (fold (validate_column a) xs (v, []))) = val_objects v"
proof -
  have keys: "distinct (map (\<lambda>x. (key_to_string (col_table_key x), col_ordinal_position x)) xs) \<longleftrightarrow>
      distinct (map (\<lambda>x. (col_table_key x, col_ordinal_position x)) xs)"
    by (induction xs) (auto simp: image_iff)
  show "val_issues (fst (fold (validate_column a) xs (v, []))) = [] \<longleftrightarrow>
     val_issues v = [] \<and> (\<forall>x\<in>set xs. wf_column (registered_as (val_objects v)) a x)
     \<and> distinct (map (\<lambda>x. (col_table_key x, col_ordinal_position x)) xs)"
    by (subst sv.clean_fold_seen[where
          f = "\<lambda>x. (key_to_string (col_table_key x), col_ordinal_position x)" and
          P = "\<lambda>x m. wf_column (registered_as m) a x"])
      (simp_all add: issue_simps keys)
  show "val_objects (fst (fold (validate_column a) xs (v, []))) = val_objects v"
    by (rule sv.context_fold_seen) (simp add: issue_simps)
qed

section \<open>The registry\<close>

text \<open>The registry holds exactly the keys \<open>K\<close>, each under its printed form.\<close>

definition registry :: "(string, ObjectKey) btree \<Rightarrow> ObjectKey set \<Rightarrow> bool" where
  "registry m K =
     (bt_inv m \<and> (\<forall>t k. bt_get m t = Some k \<longleftrightarrow> k \<in> K \<and> t = key_to_string k))"

lemma registry_insert:
  "registry m K \<Longrightarrow> registry (bt_insert (key_to_string k) k m) (insert k K)"
  by (auto simp: registry_def bt.get_insert bt_inv_insert)

lemma registry_get:
  "registry m K \<Longrightarrow> bt_get m (key_to_string k) = (if k \<in> K then Some k else None)"
  by (auto simp: registry_def) (metis key_to_string_inject option.exhaust)

lemma registry_values: "registry m K \<Longrightarrow> set (bt_values m) = K"
  by (auto simp: registry_def bt_values_get)

lemma registry_refers: "registry m K \<Longrightarrow> registered_as m = refers K"
  by (intro ext) (simp add: registered_as_def refers_def registry_get)

lemma register_clean:
  "val_issues (register k e v) = [] \<longleftrightarrow>
     val_issues v = [] \<and> ok_object_kind k = e \<and> bt_get (val_objects v) (key_to_string k) = None"
  "val_objects (register k e v) = bt_insert (key_to_string k) k (val_objects v)"
  by (auto simp: register_def Let_def bt_contains_key_def)

lemma fold_register_registry:
  "registry (val_objects v) K \<Longrightarrow>
     registry (val_objects (fold (\<lambda>(k, e). register k e) ks v)) (K \<union> fst ` set ks)"
proof (induction ks arbitrary: v K)
  case (Cons ke ks)
  obtain k e where ke: "ke = (k, e)" by fastforce
  have "registry (val_objects (register k e v)) (insert k K)"
    using Cons.prems by (simp add: register_clean registry_insert)
  from Cons.IH[OF this] show ?case by (simp add: ke)
qed simp

lemma fold_register_clean:
  "registry (val_objects v) K \<Longrightarrow>
     val_issues (fold (\<lambda>(k, e). register k e) ks v) = [] \<longleftrightarrow>
     val_issues v = [] \<and> (\<forall>(k, e)\<in>set ks. ok_object_kind k = e) \<and> distinct (map fst ks)
     \<and> fst ` set ks \<inter> K = {}"
proof (induction ks arbitrary: v K)
  case (Cons ke ks)
  obtain k e where ke: "ke = (k, e)" by fastforce
  have reg: "registry (val_objects (register k e v)) (insert k K)"
    using Cons.prems by (simp add: register_clean registry_insert)
  have "val_issues (register k e v) = [] \<longleftrightarrow> val_issues v = [] \<and> ok_object_kind k = e \<and> k \<notin> K"
    using registry_get[OF Cons.prems] by (simp add: register_clean)
  then show ?case using Cons.IH[OF reg] by (auto simp: ke)
qed simp

lemma register_all_fold: "register_all s v = fold (\<lambda>(k, e). register k e) (schema_keys s) v"
  by (simp add: register_all_def schema_keys_def Let_def fold_map comp_def)

section \<open>The accepted snapshots\<close>

lemma validate_schema_snapshot_Ok_iff:
  "validate_schema_snapshot s = Ok () \<longleftrightarrow> well_formed_schema s"
proof -
  let ?a = "snap_connection_alias s" and ?keys = "map fst (schema_keys s)"
  define v where "v = register_all s (validate_header s default_validator)"
  have empty: "registry (val_objects (validate_header s default_validator)) {}"
    by (simp add: validate_header_clean default_validator_def registry_def bt_get_def)
  have reg: "registry (val_objects v) (set ?keys)"
    using fold_register_registry[OF empty] by (simp add: v_def register_all_fold)
  have clean: "val_issues v = [] \<longleftrightarrow>
      \<not> blank (snap_source_kind s) \<and> \<not> blank ?a
      \<and> cap_source_kind (snap_capabilities s) = snap_source_kind s
      \<and> (\<forall>(k, e)\<in>set (schema_keys s). ok_object_kind k = e) \<and> distinct ?keys"
    using fold_register_clean[OF empty]
    by (auto simp: v_def register_all_fold validate_header_clean default_validator_def)
  have "validate_schema_snapshot s = Ok () \<longleftrightarrow> val_issues (run_validator s) = []"
    by (simp add: validate_schema_snapshot_def Let_def)
  also have "\<dots> \<longleftrightarrow> well_formed_schema s"
    unfolding run_validator_def Let_def v_def[symmetric]
    by (simp add: issue_simps validate_registered_scope_clean registry_refers[OF reg]
        registry_values[OF reg] clean well_formed_schema_def Let_def conj_ac)
  finally show ?thesis .
qed

section \<open>Properties\<close>

text \<open>C2: the validator accepts exactly the well-formed snapshots: the header is filled in and
  consistent, every key has the kind of its collection and occurs once, every key lies in the
  scope of the connection and database, every object carries the name its key spells, and every
  reference (parent, column, referenced table, dependency, executed routine) resolves to an object
  of the snapshot of an admissible kind in the right parent.\<close>

theorem validation_accepts_exactly_well_formed:
  "validate_schema_snapshot s = Ok () \<longleftrightarrow> well_formed_schema s"
  by (rule validate_schema_snapshot_Ok_iff)

end
