(* ===== verification/Canonical_Validation.thy ===== *)
theory Canonical_Validation
  imports Snapshot_Validation
begin

text \<open>
  The validator of the canonical extension, \<open>crates/database-memory-core/src/canonical_validation.rs\<close>:
  metadata objects, annotations and relationships on top of the structural validator. The main
  result characterises the accepted canonical snapshots.
\<close>

section \<open>Limits and reporting\<close>

definition MAX_DEFINITION_BYTES :: nat where "MAX_DEFINITION_BYTES = 1048576"
definition MAX_PROPERTIES_PER_ITEM :: nat where "MAX_PROPERTIES_PER_ITEM = 256"
definition MAX_PROPERTY_KEY_BYTES :: nat where "MAX_PROPERTY_KEY_BYTES = 256"
definition MAX_PROPERTY_STRING_BYTES :: nat where "MAX_PROPERTY_STRING_BYTES = 65536"
definition MAX_PROPERTY_LIST_ITEMS :: nat where "MAX_PROPERTY_LIST_ITEMS = 4096"

type_synonym issues = "SnapshotValidationIssue list"

definition push_issue :: "string \<Rightarrow> string \<Rightarrow> string \<Rightarrow> issues \<Rightarrow> issues" where
  "push_issue code object_key message issues =
     issues @ [\<lparr>iss_code = code, iss_object_key = object_key, iss_message = message\<rparr>]"

definition valid_extension_name :: "string \<Rightarrow> bool" where
  "valid_extension_name value =
     (\<not> blank value \<and> length value \<le> MAX_PROPERTY_KEY_BYTES \<and> \<not> has_control value)"

section \<open>The registry of object keys\<close>

definition register_key :: "ObjectKey \<Rightarrow> (string, ObjectKey) btree \<Rightarrow> (string, ObjectKey) btree" where
  "register_key key keys = bt_or_insert (key_to_string key) key keys"

definition base_object_keys :: "CanonicalSchemaSnapshot \<Rightarrow> (string, ObjectKey) btree" where
  "base_object_keys snapshot =
     (let schema = can_schema snapshot
      in fold register_key
           (map sch_key (snap_schemas schema) @ map tbl_key (snap_tables schema)
            @ map col_key (snap_columns schema) @ map con_key (snap_constraints schema)
            @ map idx_key (snap_indexes schema) @ map view_key (snap_views schema)
            @ map trg_key (snap_triggers schema) @ map rtn_key (snap_routines schema))
           (register_key (db_key (snap_database schema)) []))"

section \<open>Checks\<close>

definition is_canonical_metadata_kind :: "ObjectKind \<Rightarrow> bool" where
  "is_canonical_metadata_kind kind =
     (kind = ObjectKind.PrimaryKey \<or> kind = UniqueConstraint \<or> kind = CheckConstraint
      \<or> kind = Index \<or> kind = Routine \<or> kind = MaterializedView \<or> kind = ViewColumn
      \<or> kind = Sequence \<or> kind = RoutineParameter \<or> kind = UserDefinedType \<or> kind = Domain
      \<or> kind = EnumValue \<or> kind = Synonym \<or> kind = ExclusionConstraint \<or> kind = Event
      \<or> kind = Package \<or> kind = Principal \<or> kind = Policy \<or> kind = Trigger
      \<or> kind = ObjectKind.Extension)"

definition validate_extension_identity ::
  "CanonicalSchemaSnapshot \<Rightarrow> MetadataObject \<Rightarrow> issues \<Rightarrow> issues" where
  "validate_extension_identity snapshot object issues =
     (let stable_key = key_to_string (mo_key object);
          schema = can_schema snapshot;
          issues = (if \<not> is_canonical_metadata_kind (ok_object_kind (mo_key object))
                    then push_issue ''metadata_object_kind_invalid'' stable_key
                      ''typed legacy objects must stay in the canonical schema collections'' issues
                    else issues);
          issues = (if ok_source_kind (mo_key object) \<noteq> ok_source_kind (db_key (snap_database schema))
                       \<or> ok_connection_alias (mo_key object) \<noteq> snap_connection_alias schema
                    then push_issue ''metadata_source_mismatch'' stable_key
                      ''metadata object source and alias must match the snapshot'' issues
                    else issues);
          issues = (if ok_database (mo_key object) \<noteq> ok_database (db_key (snap_database schema))
                    then push_issue ''metadata_database_mismatch'' stable_key
                      ''metadata object database must match the snapshot database'' issues
                    else issues);
          issues = (if blank (mo_name object)
                    then push_issue ''metadata_name_missing'' stable_key
                      ''metadata object name must not be empty'' issues
                    else issues)
      in if ok_object_kind (mo_key object) = ObjectKind.Extension
         then (case mo_extension_kind object of
                 Some name \<Rightarrow>
                   if valid_extension_name name then issues
                   else push_issue ''extension_kind_invalid'' stable_key
                     ''vendor extension objects require a bounded non-control extension kind'' issues
               | None \<Rightarrow> push_issue ''extension_kind_invalid'' stable_key
                   ''vendor extension objects require a bounded non-control extension kind'' issues)
         else if mo_extension_kind object \<noteq> None
         then push_issue ''extension_kind_unexpected'' stable_key
           ''standard metadata objects must not declare an extension kind'' issues
         else issues)"

definition validate_definition :: "string \<Rightarrow> string option \<Rightarrow> issues \<Rightarrow> issues" where
  "validate_definition subject definition issues =
     (if (case definition of None \<Rightarrow> False | Some d \<Rightarrow> length d > MAX_DEFINITION_BYTES)
      then push_issue ''definition_too_large'' subject
        ''metadata definition exceeds the canonical size limit'' issues
      else issues)"

fun property_value_too_large :: "MetadataValue \<Rightarrow> bool" where
  "property_value_too_large (String value) = (length value > MAX_PROPERTY_STRING_BYTES)"
| "property_value_too_large (StringList values) =
     (length values > MAX_PROPERTY_LIST_ITEMS
      \<or> list_ex (\<lambda>value. length value > MAX_PROPERTY_STRING_BYTES) values)"
| "property_value_too_large _ = False"

fun property_too_large_message :: "MetadataValue \<Rightarrow> string" where
  "property_too_large_message (StringList values) =
     ''metadata list property exceeds the canonical size limit''"
| "property_too_large_message _ = ''metadata string property exceeds the canonical size limit''"

definition validate_property :: "string \<Rightarrow> string \<times> MetadataValue \<Rightarrow> issues \<Rightarrow> issues" where
  "validate_property subject property issues =
     (let (name, val) = property;
          issues = (if blank name \<or> length name > MAX_PROPERTY_KEY_BYTES \<or> has_control name
                    then push_issue ''property_name_invalid'' subject
                      ''metadata property names must be bounded and contain no controls'' issues
                    else issues)
      in if property_value_too_large val
         then push_issue ''property_value_too_large'' subject (property_too_large_message val) issues
         else issues)"

definition validate_properties :: "string \<Rightarrow> Properties \<Rightarrow> issues \<Rightarrow> issues" where
  "validate_properties subject properties issues =
     (let issues = (if length properties > MAX_PROPERTIES_PER_ITEM
                    then push_issue ''too_many_properties'' subject
                      ''metadata item exceeds the canonical property count limit'' issues
                    else issues)
      in fold (validate_property subject) properties issues)"

definition require_key ::
  "(string, ObjectKey) btree \<Rightarrow> ObjectKey \<Rightarrow> string \<Rightarrow> issues \<Rightarrow> issues" where
  "require_key keys target subject issues =
     (if \<not> bt_contains_key keys (key_to_string target)
      then push_issue ''relationship_target_missing'' subject
        (''relationship target '' @ key_to_string target @ '' is not present in the snapshot'') issues
      else issues)"

definition require_same_scope :: "ObjectKey \<Rightarrow> ObjectKey \<Rightarrow> string \<Rightarrow> issues \<Rightarrow> issues" where
  "require_same_scope child parent subject issues =
     (if ok_source_kind child \<noteq> ok_source_kind parent
         \<or> ok_connection_alias child \<noteq> ok_connection_alias parent
         \<or> ok_database child \<noteq> ok_database parent
      then push_issue ''metadata_parent_scope_mismatch'' subject
        ''metadata object and parent must belong to the same source and database'' issues
      else issues)"

fun expected_parent_kinds :: "ObjectKind \<Rightarrow> ObjectKind list option" where
  "expected_parent_kinds ViewColumn = Some [View, MaterializedView]"
| "expected_parent_kinds MaterializedView = Some [Schema]"
| "expected_parent_kinds Sequence = Some [Schema]"
| "expected_parent_kinds UserDefinedType = Some [Schema]"
| "expected_parent_kinds Domain = Some [Schema]"
| "expected_parent_kinds Synonym = Some [Schema]"
| "expected_parent_kinds Package = Some [Schema]"
| "expected_parent_kinds ObjectKind.PrimaryKey = Some [MaterializedView]"
| "expected_parent_kinds UniqueConstraint = Some [MaterializedView]"
| "expected_parent_kinds Routine = Some [Package, UserDefinedType]"
| "expected_parent_kinds CheckConstraint = Some [Domain, MaterializedView]"
| "expected_parent_kinds Index = Some [MaterializedView]"
| "expected_parent_kinds Event = Some [Database, Schema]"
| "expected_parent_kinds RoutineParameter = Some [Routine]"
| "expected_parent_kinds EnumValue = Some [UserDefinedType]"
| "expected_parent_kinds ExclusionConstraint = Some [Table]"
| "expected_parent_kinds Principal = Some [Database, Schema]"
| "expected_parent_kinds Policy = Some [Schema, Table, View]"
| "expected_parent_kinds Trigger = Some [Database, Schema, Table, View, MaterializedView]"
| "expected_parent_kinds _ = None"

definition require_metadata_parent_kind ::
  "(string, ObjectKey) btree \<Rightarrow> ObjectKind \<Rightarrow> ObjectKey \<Rightarrow> string \<Rightarrow> issues \<Rightarrow> issues" where
  "require_metadata_parent_kind keys child_kind parent subject issues =
     (case expected_parent_kinds child_kind of
        None \<Rightarrow> issues
      | Some expected \<Rightarrow>
          (case bt_get keys (key_to_string parent) of
             None \<Rightarrow> issues
           | Some actual \<Rightarrow>
               if ok_object_kind actual \<notin> set expected
               then push_issue ''metadata_parent_kind_mismatch'' subject
                 (''metadata parent has kind '' @ kind_to_string (ok_object_kind actual)
                  @ '', expected '' @ join_with '' or '' (map kind_to_string expected)) issues
               else issues))"

fun endpoint_kinds_valid :: "MetadataRelationshipKind \<Rightarrow> ObjectKind \<Rightarrow> ObjectKind \<Rightarrow> bool" where
  "endpoint_kinds_valid DependsOn from to = True"
| "endpoint_kinds_valid (MetadataRelationshipKind.Extension _) from to = True"
| "endpoint_kinds_valid UsesType from to =
     (from \<in> {Column, ViewColumn, Routine, RoutineParameter, Sequence, UserDefinedType,
        ObjectKind.Extension} \<and> to \<in> {UserDefinedType, Domain})"
| "endpoint_kinds_valid UsesSequence from to = (from = Column \<and> to = Sequence)"
| "endpoint_kinds_valid PartitionOf from to = (from = Table \<and> to = Table)"
| "endpoint_kinds_valid InheritsFrom from to =
     ((from = Table \<and> to = Table) \<or> (from = UserDefinedType \<and> to = UserDefinedType))"
| "endpoint_kinds_valid SynonymFor from to = (from = Synonym)"
| "endpoint_kinds_valid HasParameter from to = (from \<in> {Routine, Package} \<and> to = RoutineParameter)"
| "endpoint_kinds_valid ReturnsType from to = (from = Routine \<and> to \<in> {UserDefinedType, Domain})"
| "endpoint_kinds_valid OwnedBy from to = (to = Principal)"
| "endpoint_kinds_valid Materializes from to = (from = MaterializedView \<and> to \<in> {Table, View})"
| "endpoint_kinds_valid Invokes from to = (from \<in> {Routine, Trigger, Event} \<and> to = Routine)"
| "endpoint_kinds_valid IncludesColumn from to = (from = Index \<and> to \<in> {Column, ViewColumn})"
| "endpoint_kinds_valid ExcludesWith from to = (from = ExclusionConstraint \<and> to = Column)"

definition validate_relationship_endpoint_kinds ::
  "(string, ObjectKey) btree \<Rightarrow> MetadataRelationship \<Rightarrow> string \<Rightarrow> issues \<Rightarrow> issues" where
  "validate_relationship_endpoint_kinds keys relationship subject issues =
     (case bt_get keys (key_to_string (rel_from_key relationship)) of
        None \<Rightarrow> issues
      | Some from \<Rightarrow>
          (case bt_get keys (key_to_string (rel_to_key relationship)) of
             None \<Rightarrow> issues
           | Some to \<Rightarrow>
               if \<not> endpoint_kinds_valid (rel_kind relationship) (ok_object_kind from)
                      (ok_object_kind to)
               then push_issue ''metadata_relationship_kind_mismatch'' subject
                 ''relationship endpoint object kinds do not match the canonical relation'' issues
               else issues))"

section \<open>The loops of the validator\<close>

definition register_metadata_object ::
  "CanonicalSchemaSnapshot \<Rightarrow> MetadataObject \<Rightarrow> issues \<times> (string, ObjectKey) btree
    \<Rightarrow> issues \<times> (string, ObjectKey) btree" where
  "register_metadata_object snapshot object st =
     (let (issues, keys) = st;
          stable_key = key_to_string (mo_key object);
          occupied = bt_contains_key keys stable_key;
          keys = bt_insert stable_key (mo_key object) keys;
          issues = (if occupied
                    then push_issue ''duplicate_object_key'' stable_key
                      ''stable object key is duplicated'' issues
                    else issues);
          issues = validate_extension_identity snapshot object issues;
          issues = validate_definition stable_key (mo_definition object) issues
      in (validate_properties stable_key (mo_properties object) issues, keys))"

definition validate_metadata_parent ::
  "(string, ObjectKey) btree \<Rightarrow> MetadataObject \<Rightarrow> issues \<Rightarrow> issues" where
  "validate_metadata_parent keys object issues =
     (let stable_key = key_to_string (mo_key object)
      in case mo_parent_key object of
           Some parent \<Rightarrow>
             (let issues = require_key keys parent stable_key issues;
                  issues = require_same_scope (mo_key object) parent stable_key issues
              in require_metadata_parent_kind keys (ok_object_kind (mo_key object)) parent stable_key
                   issues)
         | None \<Rightarrow> push_issue ''metadata_parent_missing'' stable_key
             ''canonical metadata objects require an explicit parent'' issues)"

definition validate_annotation ::
  "(string, ObjectKey) btree \<Rightarrow> ObjectAnnotation \<Rightarrow> issues \<times> string bset \<Rightarrow> issues \<times> string bset" where
  "validate_annotation keys annotation st =
     (let (issues, annotated) = st;
          stable_key = key_to_string (an_object_key annotation);
          issues = require_key keys (an_object_key annotation) stable_key issues;
          issues = (if bs_contains annotated stable_key
                    then push_issue ''duplicate_object_annotation'' stable_key
                      ''an object may have only one canonical annotation'' issues
                    else issues);
          issues = (if an_definition annotation = None \<and> an_properties annotation = []
                    then push_issue ''empty_object_annotation'' stable_key
                      ''annotation must contain a definition or properties'' issues
                    else issues);
          issues = validate_definition stable_key (an_definition annotation) issues
      in (validate_properties stable_key (an_properties annotation) issues,
          bs_insert stable_key annotated))"

definition validate_annotations ::
  "(string, ObjectKey) btree \<Rightarrow> ObjectAnnotation list \<Rightarrow> issues \<Rightarrow> issues" where
  "validate_annotations keys annotations issues =
     fst (fold (validate_annotation keys) annotations (issues, []))"

type_synonym relationship_identity =
  "MetadataRelationshipKind \<times> string \<times> string \<times> nat option"

definition validate_relationship ::
  "(string, ObjectKey) btree \<Rightarrow> MetadataRelationship \<Rightarrow> issues \<times> relationship_identity bset
    \<Rightarrow> issues \<times> relationship_identity bset" where
  "validate_relationship keys relationship st =
     (let (issues, relationships) = st;
          from = key_to_string (rel_from_key relationship);
          to = key_to_string (rel_to_key relationship);
          subject = graph_edge_type (rel_kind relationship) @ '':'' @ from @ ''->'' @ to;
          issues = require_key keys (rel_from_key relationship) subject issues;
          issues = require_key keys (rel_to_key relationship) subject issues;
          issues = validate_relationship_endpoint_kinds keys relationship subject issues;
          issues = (if rel_ordinal relationship = Some 0
                    then push_issue ''relationship_ordinal_invalid'' subject
                      ''relationship ordinal must be at least 1'' issues
                    else issues);
          issues = (case rel_kind relationship of
                      MetadataRelationshipKind.Extension name \<Rightarrow>
                        if \<not> valid_extension_name name
                        then push_issue ''extension_relationship_invalid'' subject
                          ''vendor relationship names must be bounded and contain no controls'' issues
                        else issues
                    | _ \<Rightarrow> issues);
          identity = (rel_kind relationship, from, to, rel_ordinal relationship);
          issues = (if bs_contains relationships identity
                    then push_issue ''duplicate_metadata_relationship'' subject
                      ''canonical metadata relationship is duplicated'' issues
                    else issues)
      in (validate_properties subject (rel_properties relationship) issues,
          bs_insert identity relationships))"

definition validate_relationships ::
  "CanonicalSchemaSnapshot \<Rightarrow> (string, ObjectKey) btree \<Rightarrow> issues \<Rightarrow> issues" where
  "validate_relationships snapshot keys issues =
     fst (fold (validate_relationship keys) (md_relationships (can_metadata snapshot)) (issues, []))"

definition canonical_issues :: "CanonicalSchemaSnapshot \<Rightarrow> issues" where
  "canonical_issues snapshot =
     (let metadata = can_metadata snapshot;
          issues = (case validate_schema_snapshot (can_schema snapshot) of
                      Inl error \<Rightarrow> err_issues error
                    | Inr _ \<Rightarrow> []);
          (issues, keys) = fold (register_metadata_object snapshot) (md_objects metadata)
                             (issues, base_object_keys snapshot);
          issues = fold (validate_metadata_parent keys) (md_objects metadata) issues;
          issues = validate_annotations keys (md_annotations metadata) issues
      in validate_relationships snapshot keys issues)"

definition validate_canonical_schema_snapshot ::
  "CanonicalSchemaSnapshot \<Rightarrow> (SnapshotValidationError, unit) result" where
  "validate_canonical_schema_snapshot snapshot =
     (let issues = canonical_issues snapshot
      in if issues = [] then Ok () else Err \<lparr>err_issues = issues\<rparr>)"

section \<open>Well-formed canonical snapshots\<close>

definition wf_definition :: "string option \<Rightarrow> bool" where
  "wf_definition d = (case d of None \<Rightarrow> True | Some t \<Rightarrow> length t \<le> MAX_DEFINITION_BYTES)"

fun wf_property :: "string \<times> MetadataValue \<Rightarrow> bool" where
  "wf_property (name, val) = (valid_extension_name name \<and> \<not> property_value_too_large val)"

definition wf_properties :: "Properties \<Rightarrow> bool" where
  "wf_properties ps = (length ps \<le> MAX_PROPERTIES_PER_ITEM \<and> (\<forall>p\<in>set ps. wf_property p))"

definition wf_extension_identity :: "SchemaSnapshot \<Rightarrow> MetadataObject \<Rightarrow> bool" where
  "wf_extension_identity s object =
     (is_canonical_metadata_kind (ok_object_kind (mo_key object))
      \<and> ok_source_kind (mo_key object) = ok_source_kind (db_key (snap_database s))
      \<and> ok_connection_alias (mo_key object) = snap_connection_alias s
      \<and> ok_database (mo_key object) = ok_database (db_key (snap_database s))
      \<and> \<not> blank (mo_name object)
      \<and> (if ok_object_kind (mo_key object) = ObjectKind.Extension
         then \<exists>name. mo_extension_kind object = Some name \<and> valid_extension_name name
         else mo_extension_kind object = None))"

definition wf_metadata_parent :: "ObjectKey set \<Rightarrow> MetadataObject \<Rightarrow> bool" where
  "wf_metadata_parent K object =
     (\<exists>parent\<in>K. mo_parent_key object = Some parent
       \<and> ok_source_kind (mo_key object) = ok_source_kind parent
       \<and> ok_connection_alias (mo_key object) = ok_connection_alias parent
       \<and> ok_database (mo_key object) = ok_database parent
       \<and> (\<forall>expected. expected_parent_kinds (ok_object_kind (mo_key object)) = Some expected
            \<longrightarrow> ok_object_kind parent \<in> set expected))"

definition wf_metadata_object :: "SchemaSnapshot \<Rightarrow> MetadataObject \<Rightarrow> bool" where
  "wf_metadata_object s object =
     (wf_extension_identity s object \<and> wf_definition (mo_definition object)
      \<and> wf_properties (mo_properties object))"

definition wf_annotation :: "ObjectKey set \<Rightarrow> ObjectAnnotation \<Rightarrow> bool" where
  "wf_annotation K a =
     (an_object_key a \<in> K \<and> (an_definition a \<noteq> None \<or> an_properties a \<noteq> [])
      \<and> wf_definition (an_definition a) \<and> wf_properties (an_properties a))"

definition wf_relationship :: "ObjectKey set \<Rightarrow> MetadataRelationship \<Rightarrow> bool" where
  "wf_relationship K r =
     (rel_from_key r \<in> K \<and> rel_to_key r \<in> K
      \<and> endpoint_kinds_valid (rel_kind r) (ok_object_kind (rel_from_key r))
          (ok_object_kind (rel_to_key r))
      \<and> rel_ordinal r \<noteq> Some 0
      \<and> (\<forall>name. rel_kind r = MetadataRelationshipKind.Extension name \<longrightarrow> valid_extension_name name)
      \<and> wf_properties (rel_properties r))"

definition canonical_keys :: "CanonicalSchemaSnapshot \<Rightarrow> ObjectKey list" where
  "canonical_keys c = map fst (schema_keys (can_schema c)) @ map mo_key (md_objects (can_metadata c))"

definition well_formed_canonical :: "CanonicalSchemaSnapshot \<Rightarrow> bool" where
  "well_formed_canonical c =
     (let s = can_schema c; m = can_metadata c; K = set (canonical_keys c) in
      well_formed_schema s
      \<and> distinct (canonical_keys c)
      \<and> (\<forall>object\<in>set (md_objects m). wf_metadata_object s object \<and> wf_metadata_parent K object)
      \<and> (\<forall>a\<in>set (md_annotations m). wf_annotation K a)
      \<and> distinct (map an_object_key (md_annotations m))
      \<and> (\<forall>r\<in>set (md_relationships m). wf_relationship K r)
      \<and> distinct (map relationship_sort_key (md_relationships m)))"

section \<open>When a step is clean\<close>

interpretation cv: issue_collector "\<lambda>i::issues. i" "\<lambda>_. ()" "\<lambda>i s. s @ [i]"
  by unfold_locales simp_all

lemma push_issue_dirty [simp]: "push_issue c k m i \<noteq> []"
  by (simp add: push_issue_def)

lemma validate_extension_identity_clean [issue_simps]:
  "validate_extension_identity c object i = [] \<longleftrightarrow> i = [] \<and> wf_extension_identity (can_schema c) object"
  by (auto simp: validate_extension_identity_def wf_extension_identity_def Let_def
      split: option.splits)

lemma validate_definition_clean [issue_simps]:
  "validate_definition t d i = [] \<longleftrightarrow> i = [] \<and> wf_definition d"
  by (simp add: validate_definition_def wf_definition_def not_less split: option.splits)

lemma validate_property_clean:
  "validate_property t p i = [] \<longleftrightarrow> i = [] \<and> wf_property p"
  by (auto simp: validate_property_def valid_extension_name_def Let_def split: prod.splits)

lemma validate_properties_clean [issue_simps]:
  "validate_properties t ps i = [] \<longleftrightarrow> i = [] \<and> wf_properties ps"
  using cv.clean_fold[of "validate_property t" "\<lambda>p _. wf_property p"]
  by (simp add: validate_properties_def wf_properties_def Let_def validate_property_clean not_less)

lemma require_key_clean [issue_simps]:
  "registry keys K \<Longrightarrow> require_key keys k t i = [] \<longleftrightarrow> i = [] \<and> k \<in> K"
  by (simp add: require_key_def bt_contains_key_def registry_get)

lemma validate_metadata_parent_clean [issue_simps]:
  assumes "registry keys K"
  shows "validate_metadata_parent keys object i = [] \<longleftrightarrow> i = [] \<and> wf_metadata_parent K object"
  by (auto simp: validate_metadata_parent_def Let_def require_same_scope_def
      require_metadata_parent_kind_def wf_metadata_parent_def registry_get[OF assms]
      require_key_clean[OF assms] split: option.splits if_splits)

lemma endpoint_kinds_clean [issue_simps]:
  assumes "registry keys K"
  shows "validate_relationship_endpoint_kinds keys r t i = [] \<longleftrightarrow>
    i = [] \<and> (rel_from_key r \<in> K \<longrightarrow> rel_to_key r \<in> K \<longrightarrow>
      endpoint_kinds_valid (rel_kind r) (ok_object_kind (rel_from_key r)) (ok_object_kind (rel_to_key r)))"
  by (simp add: validate_relationship_endpoint_kinds_def registry_get[OF assms])

lemma validate_annotation_clean:
  assumes "registry keys K"
  shows "fst (validate_annotation keys a (i, seen)) = [] \<longleftrightarrow>
      i = [] \<and> wf_annotation K a \<and> \<not> bs_contains seen (key_to_string (an_object_key a))"
    and "snd (validate_annotation keys a (i, seen)) = bs_insert (key_to_string (an_object_key a)) seen"
  by (auto simp: validate_annotation_def wf_annotation_def Let_def issue_simps
      require_key_clean[OF assms])

lemma validate_annotations_clean:
  assumes "registry keys K"
  shows "validate_annotations keys as i = [] \<longleftrightarrow>
    i = [] \<and> (\<forall>a\<in>set as. wf_annotation K a) \<and> distinct (map an_object_key as)"
  using cv.clean_fold_seen[of "validate_annotation keys" "\<lambda>a. key_to_string (an_object_key a)"
      "\<lambda>a _. wf_annotation K a" as i "[]"]
  by (simp add: validate_annotations_def validate_annotation_clean[OF assms] distinct_key_strings)

lemma validate_relationship_clean:
  assumes "registry keys K"
  shows "fst (validate_relationship keys r (i, seen)) = [] \<longleftrightarrow>
      i = [] \<and> wf_relationship K r \<and> \<not> bs_contains seen (relationship_sort_key r)"
    and "snd (validate_relationship keys r (i, seen)) = bs_insert (relationship_sort_key r) seen"
  by (auto simp: validate_relationship_def wf_relationship_def Let_def issue_simps
      require_key_clean[OF assms] endpoint_kinds_clean[OF assms] relationship_sort_key_def split: MetadataRelationshipKind.splits)

lemma validate_relationships_clean:
  assumes "registry keys K"
  shows "validate_relationships c keys i = [] \<longleftrightarrow>
    i = [] \<and> (\<forall>r\<in>set (md_relationships (can_metadata c)). wf_relationship K r)
    \<and> distinct (map relationship_sort_key (md_relationships (can_metadata c)))"
  using cv.clean_fold_seen[of "validate_relationship keys" relationship_sort_key
      "\<lambda>r _. wf_relationship K r" "md_relationships (can_metadata c)" i "[]"]
  by (simp add: validate_relationships_def validate_relationship_clean[OF assms])

subsection \<open>The registry\<close>

lemma registry_register_key:
  "registry keys K \<Longrightarrow> registry (register_key k keys) (insert k K)"
  unfolding register_key_def bt_or_insert_def bt_contains_key_def
  by (auto simp: registry_get registry_insert insert_absorb)

lemma fold_register_key:
  "registry keys K \<Longrightarrow> registry (fold register_key ks keys) (K \<union> set ks)"
proof (induction ks arbitrary: keys K)
  case (Cons k ks)
  from Cons.IH[OF registry_register_key[OF Cons.prems, of k]] show ?case by simp
qed simp

lemma base_object_keys_registry:
  "registry (base_object_keys c) (fst ` set (schema_keys (can_schema c)))"
proof -
  have "registry [] {}" by (simp add: registry_def bt_get_def)
  note keys = fold_register_key[OF registry_register_key[OF this]]
  show ?thesis
    unfolding base_object_keys_def Let_def
    by (rule back_subst[where P = "registry _", OF keys])
      (simp add: schema_keys_def Let_def image_Un Un_assoc image_image)
qed

lemma register_metadata_object_clean:
  assumes "registry keys K"
  shows "fst (register_metadata_object c object (i, keys)) = [] \<longleftrightarrow>
      i = [] \<and> wf_metadata_object (can_schema c) object \<and> mo_key object \<notin> K"
    and "registry (snd (register_metadata_object c object (i, keys))) (insert (mo_key object) K)"
  using assms
  by (auto simp: register_metadata_object_def Let_def issue_simps wf_metadata_object_def
      bt_contains_key_def registry_get registry_insert)

lemma fold_register_metadata:
  assumes "registry keys K" and "fold (register_metadata_object c) objects (i, keys) = (i', keys')"
  shows "(i' = [] \<longleftrightarrow> i = [] \<and> (\<forall>object\<in>set objects. wf_metadata_object (can_schema c) object)
      \<and> distinct (map mo_key objects) \<and> mo_key ` set objects \<inter> K = {})
    \<and> registry keys' (K \<union> mo_key ` set objects)"
  using assms
proof (induction objects arbitrary: i keys K)
  case (Cons object objects)
  obtain j ks where step: "register_metadata_object c object (i, keys) = (j, ks)" by fastforce
  have j: "j = [] \<longleftrightarrow> i = [] \<and> wf_metadata_object (can_schema c) object \<and> mo_key object \<notin> K"
    and reg: "registry ks (insert (mo_key object) K)"
    using register_metadata_object_clean[OF Cons.prems(1), of c object i] step by simp_all
  have "fold (register_metadata_object c) objects (j, ks) = (i', keys')"
    using Cons.prems(2) step by simp
  from Cons.IH[OF reg this] show ?case by (auto simp: j)
qed simp

section \<open>The accepted canonical snapshots\<close>

lemma well_formed_schema_distinct: "well_formed_schema s \<Longrightarrow> distinct (map fst (schema_keys s))"
  unfolding well_formed_schema_def Let_def by (elim conjE)

lemma validate_canonical_Ok_iff:
  "validate_canonical_schema_snapshot c = Ok () \<longleftrightarrow> well_formed_canonical c"
proof -
  let ?base = "case validate_schema_snapshot (can_schema c) of Inl e \<Rightarrow> err_issues e | Inr _ \<Rightarrow> []"
  have base: "?base = [] \<longleftrightarrow> well_formed_schema (can_schema c)"
    unfolding validate_schema_snapshot_Ok_iff[symmetric]
    by (auto simp: validate_schema_snapshot_def Let_def)
  obtain i keys where loop: "fold (register_metadata_object c) (md_objects (can_metadata c))
      (?base, base_object_keys c) = (i, keys)" by fastforce
  note reg = fold_register_metadata[OF base_object_keys_registry loop]
  have K: "registry keys (set (canonical_keys c))"
    using reg by (simp add: canonical_keys_def)
  have parents: "fold (validate_metadata_parent keys) objects i = [] \<longleftrightarrow>
      i = [] \<and> (\<forall>object\<in>set objects. wf_metadata_parent (set (canonical_keys c)) object)" for objects
    using cv.clean_fold[of "validate_metadata_parent keys"
        "\<lambda>object _. wf_metadata_parent (set (canonical_keys c)) object"]
    by (simp add: validate_metadata_parent_clean[OF K])
  have i: "i = [] \<longleftrightarrow> well_formed_schema (can_schema c) \<and> distinct (canonical_keys c)
      \<and> (\<forall>object\<in>set (md_objects (can_metadata c)). wf_metadata_object (can_schema c) object)"
    using reg base well_formed_schema_distinct[of "can_schema c"]
    by (auto simp: canonical_keys_def)
  have "canonical_issues c = [] \<longleftrightarrow> well_formed_canonical c"
    unfolding canonical_issues_def well_formed_canonical_def Let_def loop prod.case
      validate_relationships_clean[OF K] validate_annotations_clean[OF K] parents i
    by blast
  then show ?thesis
    by (simp add: validate_canonical_schema_snapshot_def Let_def)
qed

section \<open>Normalization keeps snapshots well-formed\<close>

lemma mset_schema_keys_normalize:
  "mset (schema_keys (normalize_schema s)) = mset (schema_keys s)"
proof -
  have "mset (map f (sort_key k xs)) = mset (map f xs)" for f :: "'x \<Rightarrow> 'y" and k :: "'x \<Rightarrow> string" and xs
    by simp
  then show ?thesis
    by (simp add: schema_keys_def normalize_schema_def comp_def)
qed

lemma schema_keys_normalize:
  "set (schema_keys (normalize_schema s)) = set (schema_keys s)"
  "distinct (map fst (schema_keys (normalize_schema s))) \<longleftrightarrow> distinct (map fst (schema_keys s))"
  using mset_schema_keys_normalize[of s]
  by (metis set_mset_mset, metis mset_map mset_eq_imp_distinct_iff)

lemma normalize_schema_sets:
  "set (snap_schemas (normalize_schema s)) = set (snap_schemas s)"
  "set (snap_tables (normalize_schema s)) = set (snap_tables s)"
  "set (snap_columns (normalize_schema s)) = set (snap_columns s)"
  "set (snap_constraints (normalize_schema s)) = set (snap_constraints s)"
  "set (snap_indexes (normalize_schema s)) = set (snap_indexes s)"
  "set (snap_views (normalize_schema s)) = normalize_view ` set (snap_views s)"
  "set (snap_triggers (normalize_schema s)) = normalize_trigger ` set (snap_triggers s)"
  "set (snap_routines (normalize_schema s)) = normalize_routine ` set (snap_routines s)"
  by (simp_all add: normalize_schema_def)

lemma wf_normalized_items:
  "wf_view res a v \<Longrightarrow> wf_view res a (normalize_view v)"
  "wf_trigger res a t \<Longrightarrow> wf_trigger res a (normalize_trigger t)"
  "wf_routine res a r \<Longrightarrow> wf_routine res a (normalize_routine r)"
proof -
  show "wf_view res a v \<Longrightarrow> wf_view res a (normalize_view v)"
    by (simp add: wf_view_def normalize_view_def)
  have "sort_dedup_strings xs = [] \<longleftrightarrow> xs = []" for xs
    by (metis set_sort_dedup(2) set_empty)
  then show "wf_trigger res a t \<Longrightarrow> wf_trigger res a (normalize_trigger t)"
    by (simp add: wf_trigger_def normalize_trigger_def)
  show "wf_routine res a r \<Longrightarrow> wf_routine res a (normalize_routine r)"
    by (simp add: wf_routine_def normalize_routine_def)
qed

lemma distinct_map_sort_key: "distinct (map f (sort_key k xs)) \<longleftrightarrow> distinct (map f xs)"
  by (metis mset_map mset_sort mset_eq_imp_distinct_iff)

lemma well_formed_normalize_schema:
  assumes "well_formed_schema s"
  shows "well_formed_schema (normalize_schema s)"
proof -
  have columns: "distinct (map f (snap_columns (normalize_schema s))) \<longleftrightarrow>
      distinct (map f (snap_columns s))" for f :: "ColumnObject \<Rightarrow> ObjectKey \<times> nat"
    by (simp add: normalize_schema_def distinct_map_sort_key)
  have keys: "set (map fst (schema_keys (normalize_schema s))) = set (map fst (schema_keys s))"
    by (simp add: schema_keys_normalize(1))
  have caps: "cap_source_kind (snap_capabilities (normalize_schema s)) = cap_source_kind (snap_capabilities s)"
    by (simp add: normalize_schema_def normalize_capabilities_def)
  show ?thesis
    using assms
    unfolding well_formed_schema_def Let_def keys schema_keys_normalize columns caps
      normalize_schema_sets normalize_schema_frame
    by (simp add: wf_normalized_items)
qed

lemma canonical_keys_normalize:
  "set (canonical_keys (normalize_canonical_snapshot c)) = set (canonical_keys c)"
  "distinct (canonical_keys (normalize_canonical_snapshot c)) \<longleftrightarrow> distinct (canonical_keys c)"
proof -
  have "mset (canonical_keys (normalize_canonical_snapshot c)) = mset (canonical_keys c)"
    by (simp add: canonical_keys_def normalize_canonical_snapshot_def normalize_metadata_def
        mset_schema_keys_normalize del: image_mset_union)
  then show "set (canonical_keys (normalize_canonical_snapshot c)) = set (canonical_keys c)"
    and "distinct (canonical_keys (normalize_canonical_snapshot c)) \<longleftrightarrow> distinct (canonical_keys c)"
    by (metis set_mset_mset, metis mset_eq_imp_distinct_iff)
qed

lemma well_formed_normalize:
  assumes "well_formed_canonical c"
  shows "well_formed_canonical (normalize_canonical_snapshot c)"
proof -
  have objects: "wf_metadata_object (normalize_schema s) = wf_metadata_object s" for s
    by (intro ext) (simp add: wf_metadata_object_def wf_extension_identity_def)
  show ?thesis
    using assms
    unfolding well_formed_canonical_def Let_def canonical_keys_normalize
    by (auto simp: normalize_canonical_snapshot_def normalize_metadata_def well_formed_normalize_schema
        objects distinct_map_sort_key)
qed

section \<open>Properties\<close>

text \<open>C22: the canonical validator accepts exactly the well-formed canonical snapshots: a well-formed
  schema, metadata objects with fresh keys of an admissible kind in the scope of the snapshot whose
  parents exist and have an admissible kind, at most one non-empty annotation per existing object,
  relationships without repetition between existing objects of admissible kinds, and all texts and
  property maps within the canonical limits.\<close>

theorem canonical_validation_accepts_exactly_well_formed:
  "validate_canonical_schema_snapshot c = Ok () \<longleftrightarrow> well_formed_canonical c"
  by (rule validate_canonical_Ok_iff)

text \<open>Normalization preserves well-formedness, so normalizing a snapshot before validating it
  never makes the validator refuse a snapshot it would have accepted.\<close>

lemma normalization_keeps_valid:
  assumes "validate_canonical_schema_snapshot c = Ok ()"
  shows "validate_canonical_schema_snapshot (normalize_canonical_snapshot c) = Ok ()"
  using assms unfolding validate_canonical_Ok_iff by (rule well_formed_normalize)

lemma sample_texts:
  "\<not> blank ''sqlite''" "\<not> blank ''sample''" "\<not> blank ''main''" "\<not> blank ''users''" "\<not> blank ''orders''"
  by code_simp+

lemma sample_well_formed: "well_formed_canonical sample_snapshot"
  by (simp add: well_formed_canonical_def well_formed_schema_def Let_def canonical_keys_def
      schema_keys_def sample_defs refers_def scope_matches_def wf_database_def identity_matches_def
      wf_schema_def wf_table_def wf_column_def within_text_limit_def same_scope_def wf_constraint_def
      wf_constraint_kind_def wf_columns_of_def column_of_def sample_texts)

end
