(* ===== verification/Certification.thy ===== *)
theory Certification
  imports Canonical_Validation
begin

text \<open>
  The completeness certificate, \<open>crates/database-memory-core/src/certification.rs\<close>: the emitted
  object and relationship counts, the certification of a snapshot against the counts an adapter
  discovered, and the verification of a certificate. Counts are natural numbers: they are lengths of
  vectors held in memory, which are below the range of the 64-bit counters.
\<close>

section \<open>Categories\<close>

datatype ObjectCategory =
    CatDatabase | CatSchema | CatTable | CatColumn | CatPrimaryKey | CatForeignKey |
    CatUniqueConstraint | CatCheckConstraint | CatIndex | CatView | CatViewColumn |
    CatTrigger | CatRoutine | CatMaterializedView | CatSequence | CatRoutineParameter |
    CatUserDefinedType | CatDomain | CatEnumValue | CatSynonym | CatExclusionConstraint |
    CatEvent | CatPackage | CatPrincipal | CatPolicy | CatExtension

definition object_categories :: "ObjectCategory list" where
  "object_categories =
     [CatDatabase, CatSchema, CatTable, CatColumn, CatPrimaryKey, CatForeignKey,
      CatUniqueConstraint, CatCheckConstraint, CatIndex, CatView, CatViewColumn, CatTrigger,
      CatRoutine, CatMaterializedView, CatSequence, CatRoutineParameter, CatUserDefinedType,
      CatDomain, CatEnumValue, CatSynonym, CatExclusionConstraint, CatEvent, CatPackage,
      CatPrincipal, CatPolicy, CatExtension]"

text \<open>The name the derived \<open>Debug\<close> implementation prints.\<close>

fun object_category_debug :: "ObjectCategory \<Rightarrow> string" where
  "object_category_debug CatDatabase = ''Database''"
| "object_category_debug CatSchema = ''Schema''"
| "object_category_debug CatTable = ''Table''"
| "object_category_debug CatColumn = ''Column''"
| "object_category_debug CatPrimaryKey = ''PrimaryKey''"
| "object_category_debug CatForeignKey = ''ForeignKey''"
| "object_category_debug CatUniqueConstraint = ''UniqueConstraint''"
| "object_category_debug CatCheckConstraint = ''CheckConstraint''"
| "object_category_debug CatIndex = ''Index''"
| "object_category_debug CatView = ''View''"
| "object_category_debug CatViewColumn = ''ViewColumn''"
| "object_category_debug CatTrigger = ''Trigger''"
| "object_category_debug CatRoutine = ''Routine''"
| "object_category_debug CatMaterializedView = ''MaterializedView''"
| "object_category_debug CatSequence = ''Sequence''"
| "object_category_debug CatRoutineParameter = ''RoutineParameter''"
| "object_category_debug CatUserDefinedType = ''UserDefinedType''"
| "object_category_debug CatDomain = ''Domain''"
| "object_category_debug CatEnumValue = ''EnumValue''"
| "object_category_debug CatSynonym = ''Synonym''"
| "object_category_debug CatExclusionConstraint = ''ExclusionConstraint''"
| "object_category_debug CatEvent = ''Event''"
| "object_category_debug CatPackage = ''Package''"
| "object_category_debug CatPrincipal = ''Principal''"
| "object_category_debug CatPolicy = ''Policy''"
| "object_category_debug CatExtension = ''Extension''"

text \<open>The derived order is the order of declaration.\<close>

definition object_category_rank :: "ObjectCategory \<Rightarrow> nat" where
  "object_category_rank c = length (takeWhile (\<lambda>d. d \<noteq> c) object_categories)"

lemma object_categories_nth_rank: "object_categories ! object_category_rank c = c"
  by (cases c) (simp_all add: object_categories_def object_category_rank_def)

lemma object_category_rank_inject [simp]: "object_category_rank a = object_category_rank b \<longleftrightarrow> a = b"
  by (metis object_categories_nth_rank)

lemma set_object_categories: "set object_categories = UNIV"
proof -
  have "c \<in> set object_categories" for c by (cases c) (simp_all add: object_categories_def)
  then show ?thesis by auto
qed

lemma distinct_object_categories: "distinct object_categories"
  by (simp add: object_categories_def)

instantiation ObjectCategory :: linorder
begin

definition less_eq_ObjectCategory :: "ObjectCategory \<Rightarrow> ObjectCategory \<Rightarrow> bool" where
  "less_eq_ObjectCategory a b = (object_category_rank a \<le> object_category_rank b)"

definition less_ObjectCategory :: "ObjectCategory \<Rightarrow> ObjectCategory \<Rightarrow> bool" where
  "less_ObjectCategory a b = (object_category_rank a < object_category_rank b)"

instance
  by standard (auto simp: less_eq_ObjectCategory_def less_ObjectCategory_def)

end

datatype RelationshipCategory =
    DatabaseHasSchema | SchemaHasTable | TableHasColumn | TableHasConstraint |
    ConstraintColumn | ForeignKeyColumnPair | TableHasIndex | IndexColumn | SchemaHasView |
    ViewDependency | TriggerTarget | TriggerRoutine | SchemaHasRoutine | RoutineDependency |
    MetadataParent | CatMetadataRelationship

definition relationship_categories :: "RelationshipCategory list" where
  "relationship_categories =
     [DatabaseHasSchema, SchemaHasTable, TableHasColumn, TableHasConstraint, ConstraintColumn,
      ForeignKeyColumnPair, TableHasIndex, IndexColumn, SchemaHasView, ViewDependency,
      TriggerTarget, TriggerRoutine, SchemaHasRoutine, RoutineDependency, MetadataParent,
      CatMetadataRelationship]"

text \<open>The name the derived \<open>Debug\<close> implementation prints.\<close>

fun relationship_category_debug :: "RelationshipCategory \<Rightarrow> string" where
  "relationship_category_debug DatabaseHasSchema = ''DatabaseHasSchema''"
| "relationship_category_debug SchemaHasTable = ''SchemaHasTable''"
| "relationship_category_debug TableHasColumn = ''TableHasColumn''"
| "relationship_category_debug TableHasConstraint = ''TableHasConstraint''"
| "relationship_category_debug ConstraintColumn = ''ConstraintColumn''"
| "relationship_category_debug ForeignKeyColumnPair = ''ForeignKeyColumnPair''"
| "relationship_category_debug TableHasIndex = ''TableHasIndex''"
| "relationship_category_debug IndexColumn = ''IndexColumn''"
| "relationship_category_debug SchemaHasView = ''SchemaHasView''"
| "relationship_category_debug ViewDependency = ''ViewDependency''"
| "relationship_category_debug TriggerTarget = ''TriggerTarget''"
| "relationship_category_debug TriggerRoutine = ''TriggerRoutine''"
| "relationship_category_debug SchemaHasRoutine = ''SchemaHasRoutine''"
| "relationship_category_debug RoutineDependency = ''RoutineDependency''"
| "relationship_category_debug MetadataParent = ''MetadataParent''"
| "relationship_category_debug CatMetadataRelationship = ''MetadataRelationship''"

text \<open>The derived order is the order of declaration.\<close>

definition relationship_category_rank :: "RelationshipCategory \<Rightarrow> nat" where
  "relationship_category_rank c = length (takeWhile (\<lambda>d. d \<noteq> c) relationship_categories)"

lemma relationship_categories_nth_rank: "relationship_categories ! relationship_category_rank c = c"
  by (cases c) (simp_all add: relationship_categories_def relationship_category_rank_def)

lemma relationship_category_rank_inject [simp]: "relationship_category_rank a = relationship_category_rank b \<longleftrightarrow> a = b"
  by (metis relationship_categories_nth_rank)

lemma set_relationship_categories: "set relationship_categories = UNIV"
proof -
  have "c \<in> set relationship_categories" for c by (cases c) (simp_all add: relationship_categories_def)
  then show ?thesis by auto
qed

lemma distinct_relationship_categories: "distinct relationship_categories"
  by (simp add: relationship_categories_def)

instantiation RelationshipCategory :: linorder
begin

definition less_eq_RelationshipCategory :: "RelationshipCategory \<Rightarrow> RelationshipCategory \<Rightarrow> bool" where
  "less_eq_RelationshipCategory a b = (relationship_category_rank a \<le> relationship_category_rank b)"

definition less_RelationshipCategory :: "RelationshipCategory \<Rightarrow> RelationshipCategory \<Rightarrow> bool" where
  "less_RelationshipCategory a b = (relationship_category_rank a < relationship_category_rank b)"

instance
  by standard (auto simp: less_eq_RelationshipCategory_def less_RelationshipCategory_def)

end

fun object_category_from_kind :: "ObjectKind \<Rightarrow> ObjectCategory" where
  "object_category_from_kind Database = CatDatabase"
| "object_category_from_kind Schema = CatSchema"
| "object_category_from_kind Table = CatTable"
| "object_category_from_kind Column = CatColumn"
| "object_category_from_kind ObjectKind.PrimaryKey = CatPrimaryKey"
| "object_category_from_kind ObjectKind.ForeignKey = CatForeignKey"
| "object_category_from_kind UniqueConstraint = CatUniqueConstraint"
| "object_category_from_kind CheckConstraint = CatCheckConstraint"
| "object_category_from_kind Index = CatIndex"
| "object_category_from_kind View = CatView"
| "object_category_from_kind ViewColumn = CatViewColumn"
| "object_category_from_kind Trigger = CatTrigger"
| "object_category_from_kind Routine = CatRoutine"
| "object_category_from_kind MaterializedView = CatMaterializedView"
| "object_category_from_kind Sequence = CatSequence"
| "object_category_from_kind RoutineParameter = CatRoutineParameter"
| "object_category_from_kind UserDefinedType = CatUserDefinedType"
| "object_category_from_kind Domain = CatDomain"
| "object_category_from_kind EnumValue = CatEnumValue"
| "object_category_from_kind Synonym = CatSynonym"
| "object_category_from_kind ExclusionConstraint = CatExclusionConstraint"
| "object_category_from_kind Event = CatEvent"
| "object_category_from_kind Package = CatPackage"
| "object_category_from_kind Principal = CatPrincipal"
| "object_category_from_kind Policy = CatPolicy"
| "object_category_from_kind ObjectKind.Extension = CatExtension"

section \<open>Certificates\<close>

datatype CompletionStatus = Complete

record AdapterIdentity =
  adp_name :: string
  adp_version :: string

record ServerIdentity =
  srv_product :: string
  srv_version :: string

record IntrospectionScope =
  sco_catalogs :: "string list"
  sco_schemas :: "string list"

text \<open>The two reconciliation structures have the same fields and differ in the category.\<close>

record 'c Reconciliation =
  cnt_category :: 'c
  cnt_discovered :: nat
  cnt_emitted :: nat
  cnt_evidence :: string

type_synonym CountReconciliation = "ObjectCategory Reconciliation"
type_synonym RelationshipCountReconciliation = "RelationshipCategory Reconciliation"

record DiscoveredCount =
  dsc_count :: nat
  dsc_evidence :: string

record DiscoveryCounts =
  dis_objects :: "(ObjectCategory, DiscoveredCount) btree"
  dis_relationships :: "(RelationshipCategory, DiscoveredCount) btree"

record CapabilityCheck =
  chk_name :: string
  chk_evidence :: string

record CompletenessProof =
  prf_status :: CompletionStatus
  prf_adapter :: AdapterIdentity
  prf_server :: ServerIdentity
  prf_scope :: IntrospectionScope
  prf_object_counts :: "CountReconciliation list"
  prf_relationship_counts :: "RelationshipCountReconciliation list"
  prf_capability_checks :: "CapabilityCheck list"

record CertifiedSchemaSnapshot =
  cert_contract_version :: nat
  cert_snapshot :: CanonicalSchemaSnapshot
  cert_completeness :: CompletenessProof

record CertificationIssue =
  cis_code :: string
  cis_subject :: string
  cis_message :: string

record CertificationError =
  cer_issues :: "CertificationIssue list"

definition COMPLETE_CONTRACT_VERSION :: nat where "COMPLETE_CONTRACT_VERSION = 2"
definition MAX_PROOF_TEXT_BYTES :: nat where "MAX_PROOF_TEXT_BYTES = 16384"
definition MAX_SCOPE_VALUE_BYTES :: nat where "MAX_SCOPE_VALUE_BYTES = 1024"

type_synonym cissues = "CertificationIssue list"

definition cert_issue :: "string \<Rightarrow> string \<Rightarrow> string \<Rightarrow> cissues \<Rightarrow> cissues" where
  "cert_issue code subject message issues =
     issues @ [\<lparr>cis_code = code, cis_subject = subject, cis_message = message\<rparr>]"

definition certification_error_to_string :: "CertificationError \<Rightarrow> string" where
  "certification_error_to_string err =
     ''schema snapshot certification failed with '' @ show_nat (length (cer_issues err))
     @ '' issue(s)''
     @ (case cer_issues err of
          [] \<Rightarrow> []
        | first # _ \<Rightarrow> '': '' @ cis_message first @ '' ['' @ cis_subject first @ '']'')"

section \<open>Emitted counts\<close>

text \<open>\<open>*counts.entry(c).or_default() += n\<close>\<close>

definition bt_add :: "'c::linorder \<Rightarrow> nat \<Rightarrow> ('c, nat) btree \<Rightarrow> ('c, nat) btree" where
  "bt_add c n counts =
     bt_insert c ((case bt_get counts c of None \<Rightarrow> 0 | Some m \<Rightarrow> m) + n) counts"

fun constraint_category :: "ConstraintKind \<Rightarrow> ObjectCategory" where
  "constraint_category ConstraintKind.PrimaryKey = CatPrimaryKey"
| "constraint_category ConstraintKind.ForeignKey = CatForeignKey"
| "constraint_category Unique = CatUniqueConstraint"
| "constraint_category Check = CatCheckConstraint"

definition emitted_object_counts :: "CanonicalSchemaSnapshot \<Rightarrow> (ObjectCategory, nat) btree" where
  "emitted_object_counts snapshot =
     (let schema = can_schema snapshot;
          counts = fold (\<lambda>c. bt_insert c 0) object_categories [];
          counts = bt_insert CatDatabase 1 counts;
          counts = bt_insert CatSchema (length (snap_schemas schema)) counts;
          counts = bt_insert CatTable (length (snap_tables schema)) counts;
          counts = bt_insert CatColumn (length (snap_columns schema)) counts;
          counts = bt_insert CatIndex (length (snap_indexes schema)) counts;
          counts = bt_insert CatView (length (snap_views schema)) counts;
          counts = bt_insert CatTrigger (length (snap_triggers schema)) counts;
          counts = bt_insert CatRoutine (length (snap_routines schema)) counts;
          counts = fold (\<lambda>x. bt_add (constraint_category (con_kind x)) 1)
                     (snap_constraints schema) counts
      in fold (\<lambda>x. bt_add (object_category_from_kind (ok_object_kind (mo_key x))) 1)
           (md_objects (can_metadata snapshot)) counts)"

definition constraint_column_counts :: "ConstraintObject list \<Rightarrow> nat \<times> nat" where
  "constraint_column_counts constraints =
     fold (\<lambda>x (constraint_columns, foreign_key_pairs).
         if con_kind x = ConstraintKind.ForeignKey
         then (constraint_columns, foreign_key_pairs + length (con_columns x))
         else (constraint_columns + length (con_columns x), foreign_key_pairs))
       constraints (0, 0)"

definition emitted_relationship_counts ::
  "CanonicalSchemaSnapshot \<Rightarrow> (RelationshipCategory, nat) btree" where
  "emitted_relationship_counts snapshot =
     (let schema = can_schema snapshot;
          metadata = can_metadata snapshot;
          counts = fold (\<lambda>c. bt_insert c 0) relationship_categories [];
          counts = bt_insert DatabaseHasSchema (length (snap_schemas schema)) counts;
          counts = bt_insert SchemaHasTable (length (snap_tables schema)) counts;
          counts = bt_insert TableHasColumn (length (snap_columns schema)) counts;
          counts = bt_insert TableHasConstraint (length (snap_constraints schema)) counts;
          counts = bt_insert TableHasIndex (length (snap_indexes schema)) counts;
          counts = bt_insert IndexColumn
            (sum_list (map (\<lambda>index. length (idx_columns index)) (snap_indexes schema))) counts;
          counts = bt_insert SchemaHasView (length (snap_views schema)) counts;
          counts = bt_insert ViewDependency
            (sum_list (map (\<lambda>view. length (view_depends_on view)) (snap_views schema))) counts;
          counts = bt_insert TriggerTarget (length (snap_triggers schema)) counts;
          counts = bt_insert TriggerRoutine
            (length (filter (\<lambda>trigger. trg_executes_routine_key trigger \<noteq> None)
              (snap_triggers schema))) counts;
          counts = bt_insert SchemaHasRoutine (length (snap_routines schema)) counts;
          counts = bt_insert RoutineDependency
            (sum_list (map (\<lambda>routine. length (rtn_depends_on routine)) (snap_routines schema)))
            counts;
          (constraint_columns, foreign_key_pairs) =
            constraint_column_counts (snap_constraints schema);
          counts = bt_insert ConstraintColumn constraint_columns counts;
          counts = bt_insert ForeignKeyColumnPair foreign_key_pairs counts;
          counts = bt_insert MetadataParent
            (length (filter (\<lambda>object. mo_parent_key object \<noteq> None) (md_objects metadata))) counts
      in bt_insert CatMetadataRelationship (length (md_relationships metadata)) counts)"

section \<open>Checks of a certificate\<close>

definition certification_issue_from_validation :: "SnapshotValidationIssue \<Rightarrow> CertificationIssue" where
  "certification_issue_from_validation i =
     \<lparr>cis_code = iss_code i, cis_subject = iss_object_key i, cis_message = iss_message i\<rparr>"

definition snapshot_issues :: "CanonicalSchemaSnapshot \<Rightarrow> cissues" where
  "snapshot_issues snapshot =
     (case validate_canonical_schema_snapshot snapshot of
        Inl error \<Rightarrow> map certification_issue_from_validation (err_issues error)
      | Inr _ \<Rightarrow> [])"

definition require_discovery_evidence :: "string \<Rightarrow> string \<Rightarrow> cissues \<Rightarrow> cissues" where
  "require_discovery_evidence subject evidence issues =
     (if blank evidence \<or> length evidence > MAX_PROOF_TEXT_BYTES \<or> has_control evidence
      then cert_issue ''discovery_evidence_missing'' subject
        ''discovered counts require bounded non-control catalog evidence'' issues
      else issues)"

definition require_non_empty :: "string \<Rightarrow> string \<Rightarrow> cissues \<Rightarrow> cissues" where
  "require_non_empty subject val issues =
     (if blank val \<or> length val > MAX_PROOF_TEXT_BYTES \<or> has_control val
      then cert_issue ''proof_value_missing'' subject
        ''certification proof value must be bounded, non-empty, and contain no controls'' issues
      else issues)"

definition normalize_scope :: "IntrospectionScope \<Rightarrow> IntrospectionScope" where
  "normalize_scope scope =
     scope\<lparr>sco_catalogs := sort_dedup_strings (sco_catalogs scope),
           sco_schemas := sort_dedup_strings (sco_schemas scope)\<rparr>"

definition require_scope_values :: "string \<Rightarrow> string \<Rightarrow> string list \<Rightarrow> cissues \<Rightarrow> cissues" where
  "require_scope_values subject message values issues =
     (if values = [] then cert_issue ''scope_missing'' subject message issues else issues)"

definition validate_canonical_scope_values :: "string \<Rightarrow> string list \<Rightarrow> cissues \<Rightarrow> cissues" where
  "validate_canonical_scope_values subject values issues =
     (let issues = (if list_ex (\<lambda>v. blank v \<or> length v > MAX_SCOPE_VALUE_BYTES \<or> has_control v) values
                    then cert_issue ''scope_value_missing'' subject
                      ''scope values must be bounded, non-empty, and contain no controls'' issues
                    else issues)
      in if sort_dedup_strings values \<noteq> values
         then cert_issue ''scope_not_canonical'' subject
           ''scope values must be sorted and unique'' issues
         else issues)"

definition require_scope :: "IntrospectionScope \<Rightarrow> cissues \<Rightarrow> cissues" where
  "require_scope scope issues =
     require_scope_values ''scope.schemas'' ''at least one schema must be declared''
       (sco_schemas scope)
       (require_scope_values ''scope.catalogs'' ''at least one catalog/database must be declared''
         (sco_catalogs scope) issues)"

definition validate_scope :: "IntrospectionScope \<Rightarrow> cissues \<Rightarrow> cissues" where
  "validate_scope scope issues =
     validate_canonical_scope_values ''scope.schemas'' (sco_schemas scope)
       (validate_canonical_scope_values ''scope.catalogs'' (sco_catalogs scope)
         (require_scope scope issues))"

definition require_capability :: "string \<times> bool \<Rightarrow> cissues \<Rightarrow> cissues" where
  "require_capability entry issues =
     (let (name, supported) = entry
      in if \<not> supported
         then cert_issue ''required_capability_missing'' (''capabilities.'' @ name)
           ''certified adapters must prove this metadata category'' issues
         else issues)"

definition require_support :: "string \<times> CapabilitySupport \<Rightarrow> cissues \<Rightarrow> cissues" where
  "require_support entry issues =
     (let (name, support) = entry
      in if support \<noteq> Supported
         then cert_issue ''required_capability_incomplete'' (''capabilities.'' @ name)
           ''certified adapters must support or prove absence of this metadata category'' issues
         else issues)"

definition validate_capabilities :: "CertifiedSchemaSnapshot \<Rightarrow> cissues \<Rightarrow> cissues" where
  "validate_capabilities certified issues =
     (let schema = can_schema (cert_snapshot certified);
          capabilities = snap_capabilities schema;
          issues = (if cap_source_kind capabilities \<noteq> snap_source_kind schema
                    then cert_issue ''capability_source_mismatch'' ''capabilities.source_kind''
                      ''capability source must match snapshot source'' issues
                    else issues);
          issues = (if \<not> cap_metadata_only capabilities
                    then cert_issue ''metadata_only_required'' ''capabilities.metadata_only''
                      ''certified indexing must be metadata-only'' issues
                    else issues);
          issues = fold require_capability
            [(''schemas'', cap_schemas capabilities), (''tables'', cap_tables capabilities),
             (''columns'', cap_columns capabilities), (''constraints'', cap_constraints capabilities),
             (''indexes'', cap_indexes capabilities)] issues;
          issues = fold require_support
            [(''views'', cap_views capabilities), (''triggers'', cap_triggers capabilities),
             (''routines'', cap_routines capabilities),
             (''dependencies'', cap_dependencies capabilities)] issues
      in if cap_limitations capabilities \<noteq> []
         then cert_issue ''adapter_limitations_present'' ''capabilities.limitations''
           ''a certified complete snapshot cannot retain unmodeled metadata limitations'' issues
         else issues)"

definition validate_capability_check ::
  "CapabilityCheck \<Rightarrow> cissues \<times> string bset \<Rightarrow> cissues \<times> string bset" where
  "validate_capability_check check st =
     (let (issues, names) = st;
          issues = require_non_empty ''capability.name'' (chk_name check) issues;
          issues = require_non_empty ''capability.evidence'' (chk_evidence check) issues
      in if blank (chk_name check) then (issues, names)
         else if bs_contains names (chk_name check)
         then (cert_issue ''duplicate_capability_check'' (''capability_checks.'' @ chk_name check)
                 ''capability check names must be unique'' issues, bs_insert (chk_name check) names)
         else (issues, bs_insert (chk_name check) names))"

definition require_capability_checks :: "CapabilityCheck list \<Rightarrow> cissues \<Rightarrow> cissues" where
  "require_capability_checks checks issues =
     (if checks = []
      then cert_issue ''capability_proof_missing'' ''capability_checks''
        ''at least one metadata capability check is required'' issues
      else issues)"

definition validate_capability_checks :: "CapabilityCheck list \<Rightarrow> cissues \<Rightarrow> cissues" where
  "validate_capability_checks checks issues =
     fst (fold validate_capability_check checks (require_capability_checks checks issues, []))"

definition sort_capability_checks :: "CapabilityCheck list \<Rightarrow> CapabilityCheck list" where
  "sort_capability_checks checks = sort_key (\<lambda>c. (chk_name c, chk_evidence c)) checks"

subsection \<open>Count reconciliation\<close>

text \<open>The object and the relationship loop have the same shape; they differ in the categories, in
  the prefix of the subject and in the texts of the issues.\<close>

record reconcile_texts =
  rt_prefix :: string
  rt_duplicate_code :: string
  rt_duplicate_message :: string
  rt_mismatch_code :: string
  rt_missing_code :: string
  rt_missing_message :: string

definition object_texts :: reconcile_texts where
  "object_texts =
     \<lparr>rt_prefix = ''object_counts.'', rt_duplicate_code = ''duplicate_object_count'',
       rt_duplicate_message = ''each object category must have exactly one reconciliation'',
       rt_mismatch_code = ''object_count_mismatch'', rt_missing_code = ''object_count_missing'',
       rt_missing_message = ''every object category requires a reconciliation''\<rparr>"

definition relationship_texts :: reconcile_texts where
  "relationship_texts =
     \<lparr>rt_prefix = ''relationship_counts.'', rt_duplicate_code = ''duplicate_relationship_count'',
       rt_duplicate_message = ''each relationship category must have exactly one reconciliation'',
       rt_mismatch_code = ''relationship_count_mismatch'',
       rt_missing_code = ''relationship_count_missing'',
       rt_missing_message = ''every relationship category requires a reconciliation''\<rparr>"

definition emitted_of :: "('c, nat) btree \<Rightarrow> 'c \<Rightarrow> nat" where
  "emitted_of counts c = (case bt_get counts c of None \<Rightarrow> 0 | Some n \<Rightarrow> n)"

definition reconcile_count ::
  "reconcile_texts \<Rightarrow> ('c::linorder \<Rightarrow> string) \<Rightarrow> ('c, nat) btree \<Rightarrow> 'c Reconciliation
    \<Rightarrow> cissues \<times> 'c bset \<Rightarrow> cissues \<times> 'c bset" where
  "reconcile_count texts debug emitted_counts c st =
     (let (issues, seen) = st;
          subject = rt_prefix texts @ debug (cnt_category c);
          issues = require_discovery_evidence subject (cnt_evidence c) issues
      in if bs_contains seen (cnt_category c)
         then (cert_issue (rt_duplicate_code texts) subject (rt_duplicate_message texts) issues,
               bs_insert (cnt_category c) seen)
         else
           (let actual = emitted_of emitted_counts (cnt_category c);
                issues = (if cnt_discovered c \<noteq> cnt_emitted c \<or> cnt_emitted c \<noteq> actual
                          then cert_issue (rt_mismatch_code texts) subject
                            (''discovered '' @ show_nat (cnt_discovered c)
                             @ '', declared emitted '' @ show_nat (cnt_emitted c)
                             @ '', actual emitted '' @ show_nat actual) issues
                          else issues)
            in (issues, bs_insert (cnt_category c) seen)))"

definition require_category ::
  "reconcile_texts \<Rightarrow> ('c::linorder \<Rightarrow> string) \<Rightarrow> 'c bset \<Rightarrow> 'c \<Rightarrow> cissues \<Rightarrow> cissues" where
  "require_category texts debug seen category issues =
     (if \<not> bs_contains seen category
      then cert_issue (rt_missing_code texts) (rt_prefix texts @ debug category)
        (rt_missing_message texts) issues
      else issues)"

definition reconcile_counts ::
  "reconcile_texts \<Rightarrow> ('c::linorder \<Rightarrow> string) \<Rightarrow> 'c list \<Rightarrow> ('c, nat) btree
    \<Rightarrow> 'c Reconciliation list \<Rightarrow> cissues \<Rightarrow> cissues" where
  "reconcile_counts texts debug categories emitted_counts counts issues =
     (let (issues, seen) = fold (reconcile_count texts debug emitted_counts) counts (issues, [])
      in fold (require_category texts debug seen) categories issues)"

definition validate_count_reconciliation :: "CertifiedSchemaSnapshot \<Rightarrow> cissues \<Rightarrow> cissues" where
  "validate_count_reconciliation certified issues =
     (let proof = cert_completeness certified;
          issues = reconcile_counts object_texts object_category_debug object_categories
            (emitted_object_counts (cert_snapshot certified)) (prf_object_counts proof) issues
      in reconcile_counts relationship_texts relationship_category_debug relationship_categories
           (emitted_relationship_counts (cert_snapshot certified)) (prf_relationship_counts proof)
           issues)"

section \<open>Verification of a certificate\<close>

definition require_identities :: "AdapterIdentity \<Rightarrow> ServerIdentity \<Rightarrow> cissues \<Rightarrow> cissues" where
  "require_identities adapter server issues =
     (let issues = require_non_empty ''adapter.name'' (adp_name adapter) issues;
          issues = require_non_empty ''adapter.version'' (adp_version adapter) issues;
          issues = require_non_empty ''server.product'' (srv_product server) issues
      in require_non_empty ''server.version'' (srv_version server) issues)"

definition verification_issues :: "CertifiedSchemaSnapshot \<Rightarrow> cissues" where
  "verification_issues certified =
     (let snapshot = cert_snapshot certified;
          proof = cert_completeness certified;
          issues = snapshot_issues snapshot;
          issues = (if cert_contract_version certified \<noteq> COMPLETE_CONTRACT_VERSION
                    then cert_issue ''unsupported_contract_version'' ''contract_version''
                      (''expected contract version '' @ show_nat COMPLETE_CONTRACT_VERSION
                       @ '', got '' @ show_nat (cert_contract_version certified)) issues
                    else issues);
          issues = (if normalize_canonical_snapshot snapshot \<noteq> snapshot
                    then cert_issue ''snapshot_not_canonical'' ''snapshot''
                      ''certified snapshot collections must use deterministic canonical ordering''
                      issues
                    else issues);
          issues = require_identities (prf_adapter proof) (prf_server proof) issues;
          issues = validate_scope (prf_scope proof) issues;
          issues = validate_capabilities certified issues;
          issues = validate_capability_checks (prf_capability_checks proof) issues;
          issues = (if sort_capability_checks (prf_capability_checks proof) \<noteq> prf_capability_checks proof
                    then cert_issue ''capability_checks_not_canonical'' ''capability_checks''
                      ''capability checks must use deterministic ordering'' issues
                    else issues)
      in validate_count_reconciliation certified issues)"

definition verify_certified_schema_snapshot ::
  "CertifiedSchemaSnapshot \<Rightarrow> (CertificationError, unit) result" where
  "verify_certified_schema_snapshot certified =
     (let issues = verification_issues certified
      in if issues = [] then Ok () else Err \<lparr>cer_issues = issues\<rparr>)"

section \<open>Certification\<close>

record certify_texts =
  ct_prefix :: string
  ct_noun :: string
  ct_mismatch_code :: string
  ct_missing_code :: string
  ct_missing_message :: string

definition certify_object_texts :: certify_texts where
  "certify_object_texts =
     \<lparr>ct_prefix = ''object_counts.'', ct_noun = ''object(s)'',
       ct_mismatch_code = ''object_count_mismatch'', ct_missing_code = ''discovered_count_missing'',
       ct_missing_message = ''adapter did not report a discovered count for this category''\<rparr>"

definition certify_relationship_texts :: certify_texts where
  "certify_relationship_texts =
     \<lparr>ct_prefix = ''relationship_counts.'', ct_noun = ''relation(s)'',
       ct_mismatch_code = ''relationship_count_mismatch'',
       ct_missing_code = ''discovered_relationship_count_missing'',
       ct_missing_message =
         ''adapter did not report a discovered count for this relationship category''\<rparr>"

definition certify_count ::
  "certify_texts \<Rightarrow> ('c::linorder \<Rightarrow> string) \<Rightarrow> ('c, nat) btree \<Rightarrow> ('c, DiscoveredCount) btree \<Rightarrow> 'c
    \<Rightarrow> cissues \<times> 'c Reconciliation list \<Rightarrow> cissues \<times> 'c Reconciliation list" where
  "certify_count texts debug emitted_counts discovered_counts category st =
     (let (issues, counts) = st;
          emitted = emitted_of emitted_counts category;
          subject = ct_prefix texts @ debug category
      in case bt_get discovered_counts category of
           Some discovery \<Rightarrow>
             (let discovered = dsc_count discovery;
                  issues = require_discovery_evidence subject (dsc_evidence discovery) issues;
                  issues = (if discovered \<noteq> emitted
                            then cert_issue (ct_mismatch_code texts) subject
                              (''discovered '' @ show_nat discovered @ '' '' @ ct_noun texts
                               @ '', emitted '' @ show_nat emitted) issues
                            else issues)
              in (issues, counts @ [\<lparr>cnt_category = category, cnt_discovered = discovered,
                    cnt_emitted = emitted, cnt_evidence = dsc_evidence discovery\<rparr>]))
         | None \<Rightarrow> (cert_issue (ct_missing_code texts) subject (ct_missing_message texts) issues,
                    counts))"

definition require_check_texts :: "CapabilityCheck \<Rightarrow> cissues \<Rightarrow> cissues" where
  "require_check_texts check issues =
     require_non_empty ''capability.evidence'' (chk_evidence check)
       (require_non_empty ''capability.name'' (chk_name check) issues)"

definition certify_schema_snapshot ::
  "CanonicalSchemaSnapshot \<Rightarrow> AdapterIdentity \<Rightarrow> ServerIdentity \<Rightarrow> IntrospectionScope
    \<Rightarrow> DiscoveryCounts \<Rightarrow> CapabilityCheck list
    \<Rightarrow> (CertificationError, CertifiedSchemaSnapshot) result" where
  "certify_schema_snapshot snapshot adapter server scope discovered_counts capability_checks =
     (let snapshot = normalize_canonical_snapshot snapshot;
          capability_checks = sort_capability_checks capability_checks;
          issues = snapshot_issues snapshot;
          issues = require_identities adapter server issues;
          scope = normalize_scope scope;
          issues = require_scope scope issues;
          issues = require_capability_checks capability_checks issues;
          issues = fold require_check_texts capability_checks issues;
          (issues, object_counts) =
            fold (certify_count certify_object_texts object_category_debug
                (emitted_object_counts snapshot) (dis_objects discovered_counts))
              object_categories (issues, []);
          (issues, relationship_counts) =
            fold (certify_count certify_relationship_texts relationship_category_debug
                (emitted_relationship_counts snapshot) (dis_relationships discovered_counts))
              relationship_categories (issues, [])
      in if issues \<noteq> [] then Err \<lparr>cer_issues = issues\<rparr>
         else
           (let certified =
              \<lparr>cert_contract_version = COMPLETE_CONTRACT_VERSION, cert_snapshot = snapshot,
                cert_completeness =
                  \<lparr>prf_status = Complete, prf_adapter = adapter, prf_server = server,
                    prf_scope = scope, prf_object_counts = object_counts,
                    prf_relationship_counts = relationship_counts,
                    prf_capability_checks = capability_checks\<rparr>\<rparr>
            in try_with (verify_certified_schema_snapshot certified) (\<lambda>_. Ok certified)))"

section \<open>Complete certificates\<close>

definition proof_text :: "string \<Rightarrow> bool" where
  "proof_text t = (\<not> blank t \<and> length t \<le> MAX_PROOF_TEXT_BYTES \<and> \<not> has_control t)"

definition scope_text :: "string \<Rightarrow> bool" where
  "scope_text t = (\<not> blank t \<and> length t \<le> MAX_SCOPE_VALUE_BYTES \<and> \<not> has_control t)"

definition wf_scope :: "string list \<Rightarrow> bool" where
  "wf_scope values = (values \<noteq> [] \<and> (\<forall>v\<in>set values. scope_text v) \<and> sort_dedup_strings values = values)"

definition full_capabilities :: "SchemaSnapshot \<Rightarrow> bool" where
  "full_capabilities s =
     (let c = snap_capabilities s in
      cap_source_kind c = snap_source_kind s \<and> cap_metadata_only c \<and> cap_schemas c \<and> cap_tables c
      \<and> cap_columns c \<and> cap_constraints c \<and> cap_indexes c \<and> cap_views c = Supported
      \<and> cap_triggers c = Supported \<and> cap_routines c = Supported \<and> cap_dependencies c = Supported
      \<and> cap_limitations c = [])"

definition wf_checks :: "CapabilityCheck list \<Rightarrow> bool" where
  "wf_checks checks =
     (checks \<noteq> [] \<and> (\<forall>c\<in>set checks. proof_text (chk_name c) \<and> proof_text (chk_evidence c))
      \<and> distinct (map chk_name checks) \<and> sort_capability_checks checks = checks)"

text \<open>Exactly one reconciliation for every category, all three numbers equal.\<close>

definition reconciled :: "('c, nat) btree \<Rightarrow> 'c Reconciliation list \<Rightarrow> bool" where
  "reconciled emitted counts =
     (distinct (map cnt_category counts) \<and> cnt_category ` set counts = UNIV
      \<and> (\<forall>c\<in>set counts. cnt_discovered c = cnt_emitted c
            \<and> cnt_emitted c = emitted_of emitted (cnt_category c) \<and> proof_text (cnt_evidence c)))"

definition complete_certificate :: "CertifiedSchemaSnapshot \<Rightarrow> bool" where
  "complete_certificate c =
     (let s = cert_snapshot c; p = cert_completeness c in
      well_formed_canonical s \<and> cert_contract_version c = COMPLETE_CONTRACT_VERSION
      \<and> normalize_canonical_snapshot s = s
      \<and> proof_text (adp_name (prf_adapter p)) \<and> proof_text (adp_version (prf_adapter p))
      \<and> proof_text (srv_product (prf_server p)) \<and> proof_text (srv_version (prf_server p))
      \<and> wf_scope (sco_catalogs (prf_scope p)) \<and> wf_scope (sco_schemas (prf_scope p))
      \<and> full_capabilities (can_schema s) \<and> wf_checks (prf_capability_checks p)
      \<and> reconciled (emitted_object_counts s) (prf_object_counts p)
      \<and> reconciled (emitted_relationship_counts s) (prf_relationship_counts p))"

subsection \<open>Each check\<close>

interpretation ce: issue_collector "\<lambda>i::cissues. i" "\<lambda>_. ()" "\<lambda>i s. s @ [i]"
  by unfold_locales simp_all

lemma cert_issue_dirty [simp]: "cert_issue c k m i \<noteq> []"
  by (simp add: cert_issue_def)

lemma snapshot_issues_clean [issue_simps]: "snapshot_issues s = [] \<longleftrightarrow> well_formed_canonical s"
  unfolding validate_canonical_Ok_iff[symmetric]
  by (auto simp: snapshot_issues_def validate_canonical_schema_snapshot_def Let_def)

lemma require_text_clean [issue_simps]:
  "require_discovery_evidence t e i = [] \<longleftrightarrow> i = [] \<and> proof_text e"
  "require_non_empty t e i = [] \<longleftrightarrow> i = [] \<and> proof_text e"
  by (auto simp: require_discovery_evidence_def require_non_empty_def proof_text_def)

lemma require_scope_clean [issue_simps]:
  "require_scope s i = [] \<longleftrightarrow> i = [] \<and> sco_catalogs s \<noteq> [] \<and> sco_schemas s \<noteq> []"
  by (auto simp: require_scope_def require_scope_values_def)

lemma validate_scope_values_clean [issue_simps]:
  "validate_canonical_scope_values t values i = [] \<longleftrightarrow>
     i = [] \<and> (\<forall>v\<in>set values. scope_text v) \<and> sort_dedup_strings values = values"
  by (auto simp: validate_canonical_scope_values_def scope_text_def list_ex_iff Let_def not_less)
    (metis not_less)

lemma validate_scope_clean [issue_simps]:
  "validate_scope s i = [] \<longleftrightarrow> i = [] \<and> wf_scope (sco_catalogs s) \<and> wf_scope (sco_schemas s)"
  by (auto simp: validate_scope_def wf_scope_def issue_simps)

lemma validate_capabilities_clean [issue_simps]:
  "validate_capabilities c i = [] \<longleftrightarrow> i = [] \<and> full_capabilities (can_schema (cert_snapshot c))"
  by (auto simp: validate_capabilities_def full_capabilities_def require_capability_def
      require_support_def Let_def)

lemma require_capability_checks_clean [issue_simps]:
  "require_capability_checks cs i = [] \<longleftrightarrow> i = [] \<and> cs \<noteq> []"
  by (simp add: require_capability_checks_def)

lemma require_identities_clean [issue_simps]:
  "require_identities a s i = [] \<longleftrightarrow>
     i = [] \<and> proof_text (adp_name a) \<and> proof_text (adp_version a)
     \<and> proof_text (srv_product s) \<and> proof_text (srv_version s)"
  by (auto simp: require_identities_def issue_simps Let_def)

text \<open>A blank name is not recorded in the set of seen names, but it is an issue already.\<close>

lemma validate_capability_check_blank:
  "\<not> proof_text (chk_name c) \<Longrightarrow> fst (validate_capability_check c st) \<noteq> []"
  by (cases st) (auto simp: validate_capability_check_def Let_def issue_simps)

lemma validate_capability_check_dirty:
  "i \<noteq> [] \<Longrightarrow> fst (fold validate_capability_check cs (i, names)) \<noteq> []"
proof (induction cs arbitrary: i names)
  case (Cons c cs)
  obtain j ns where st: "validate_capability_check c (i, names) = (j, ns)" by fastforce
  have "j \<noteq> []" using st Cons.prems
    by (auto simp: validate_capability_check_def Let_def issue_simps split: if_splits)
  from Cons.IH[OF this] show ?case by (simp add: st)
qed simp

lemma validate_capability_checks_fold:
  "fst (fold validate_capability_check cs (i, names)) = [] \<longleftrightarrow>
     i = [] \<and> (\<forall>c\<in>set cs. proof_text (chk_name c) \<and> proof_text (chk_evidence c))
     \<and> distinct (map chk_name cs) \<and> (\<forall>c\<in>set cs. \<not> bs_contains names (chk_name c))"
proof (induction cs arbitrary: i names)
  case (Cons c cs)
  obtain j ns where st: "validate_capability_check c (i, names) = (j, ns)" by fastforce
  show ?case
  proof (cases "i = [] \<and> proof_text (chk_name c) \<and> proof_text (chk_evidence c)
      \<and> \<not> bs_contains names (chk_name c)")
    case True
    then have "validate_capability_check c ([], names) = ([], bs_insert (chk_name c) names)"
      by (simp add: validate_capability_check_def Let_def proof_text_def require_non_empty_def)
    with True Cons.IH[of "[]" "bs_insert (chk_name c) names"] show ?thesis
      by (auto simp: image_iff)
  next
    case False
    then have "j \<noteq> []" using st validate_capability_check_blank[of c "(i, names)"]
      by (auto simp: validate_capability_check_def Let_def issue_simps proof_text_def
          split: if_splits)
    from validate_capability_check_dirty[OF this]
    have "fst (fold validate_capability_check (c # cs) (i, names)) \<noteq> []" by (simp add: st)
    with False show ?thesis by auto
  qed
qed simp

lemma validate_capability_checks_clean [issue_simps]:
  "validate_capability_checks cs i = [] \<longleftrightarrow>
     i = [] \<and> cs \<noteq> [] \<and> (\<forall>c\<in>set cs. proof_text (chk_name c) \<and> proof_text (chk_evidence c))
     \<and> distinct (map chk_name cs)"
  by (auto simp: validate_capability_checks_def validate_capability_checks_fold issue_simps)

lemma reconcile_counts_clean [issue_simps]:
  assumes "set categories = UNIV"
  shows "reconcile_counts texts debug categories emitted counts i = [] \<longleftrightarrow>
    i = [] \<and> reconciled emitted counts"
proof -
  let ?step = "reconcile_count texts debug emitted"
  let ?P = "\<lambda>c _::unit. cnt_discovered c = cnt_emitted c
    \<and> cnt_emitted c = emitted_of emitted (cnt_category c) \<and> proof_text (cnt_evidence c)"
  obtain j seen where loop: "fold ?step counts (i, []) = (j, seen)" by fastforce
  have step: "snd (?step c (i, s)) = bs_insert (cnt_category c) s"
    "fst (?step c (i, s)) = [] \<longleftrightarrow> i = [] \<and> ?P c () \<and> \<not> bs_contains s (cnt_category c)" for c i s
    by (auto simp: reconcile_count_def Let_def issue_simps)
  have j: "j = [] \<longleftrightarrow> i = [] \<and> (\<forall>c\<in>set counts. ?P c ()) \<and> distinct (map cnt_category counts)"
    using ce.clean_fold_seen[of ?step cnt_category ?P counts i "[]"] step by (simp add: loop)
  have seen: "bs_contains seen y \<longleftrightarrow> y \<in> cnt_category ` set counts" for y
    using ce.snd_fold_seen[of ?step cnt_category counts i "[]" y] step by (simp add: loop)
  have "fold (require_category texts debug seen) categories j = [] \<longleftrightarrow>
      j = [] \<and> (\<forall>c\<in>set categories. bs_contains seen c)"
    using ce.clean_fold[of "require_category texts debug seen" "\<lambda>c _. bs_contains seen c"]
    by (simp add: require_category_def)
  then show ?thesis
    by (auto simp: reconcile_counts_def loop j seen reconciled_def assms)
qed

lemma verification_issues_clean: "verification_issues c = [] \<longleftrightarrow> complete_certificate c"
  unfolding verification_issues_def validate_count_reconciliation_def Let_def complete_certificate_def
  by (simp add: issue_simps set_object_categories set_relationship_categories wf_checks_def
      conj_ac)

lemma verify_Ok_iff: "verify_certified_schema_snapshot c = Ok () \<longleftrightarrow> complete_certificate c"
  by (simp add: verify_certified_schema_snapshot_def verification_issues_clean Let_def)

subsection \<open>The certificate that certification builds\<close>

definition reconciliation_of ::
  "('c, nat) btree \<Rightarrow> 'c \<Rightarrow> DiscoveredCount \<Rightarrow> 'c Reconciliation" where
  "reconciliation_of emitted c d =
     \<lparr>cnt_category = c, cnt_discovered = dsc_count d, cnt_emitted = emitted_of emitted c,
       cnt_evidence = dsc_evidence d\<rparr>"

definition discovered_reconciliations ::
  "('c, nat) btree \<Rightarrow> ('c, DiscoveredCount) btree \<Rightarrow> 'c list \<Rightarrow> 'c Reconciliation list" where
  "discovered_reconciliations emitted discovered categories =
     concat (map (\<lambda>c. case bt_get discovered c of
         None \<Rightarrow> [] | Some d \<Rightarrow> [reconciliation_of emitted c d]) categories)"

definition discovery_agrees ::
  "('c, nat) btree \<Rightarrow> ('c, DiscoveredCount) btree \<Rightarrow> 'c \<Rightarrow> bool" where
  "discovery_agrees emitted discovered c =
     (\<exists>d. bt_get discovered c = Some d \<and> proof_text (dsc_evidence d) \<and> dsc_count d = emitted_of emitted c)"

lemma discovered_reconciliations_Cons:
  "discovered_reconciliations emitted discovered (c # cs) =
     discovered_reconciliations emitted discovered [c] @ discovered_reconciliations emitted discovered cs"
  by (simp add: discovered_reconciliations_def)

lemma fold_certify_count:
  assumes "fold (certify_count texts debug emitted discovered) categories (i, acc) = (i', counts)"
  shows "counts = acc @ discovered_reconciliations emitted discovered categories
    \<and> (i' = [] \<longleftrightarrow> i = [] \<and> (\<forall>c\<in>set categories. discovery_agrees emitted discovered c))"
  using assms
proof (induction categories arbitrary: i acc)
  case (Cons c categories)
  obtain j a where step: "certify_count texts debug emitted discovered c (i, acc) = (j, a)" by fastforce
  have a: "a = acc @ discovered_reconciliations emitted discovered [c]"
    and j: "j = [] \<longleftrightarrow> i = [] \<and> discovery_agrees emitted discovered c"
    using step by (auto simp: certify_count_def discovered_reconciliations_def discovery_agrees_def
        reconciliation_of_def Let_def issue_simps split: option.splits if_splits)
  have "fold (certify_count texts debug emitted discovered) categories (j, a) = (i', counts)"
    using Cons.prems step by simp
  from Cons.IH[OF this] show ?case
    by (simp add: a j discovered_reconciliations_Cons[of emitted discovered c categories])
qed (simp add: discovered_reconciliations_def)

lemma reconciliation_of_simps [simp]:
  "cnt_category (reconciliation_of emitted c d) = c"
  "cnt_discovered (reconciliation_of emitted c d) = dsc_count d"
  "cnt_emitted (reconciliation_of emitted c d) = emitted_of emitted c"
  "cnt_evidence (reconciliation_of emitted c d) = dsc_evidence d"
  by (simp_all add: reconciliation_of_def)

lemma in_discovered_reconciliations:
  "r \<in> set (discovered_reconciliations emitted discovered categories) \<longleftrightarrow>
     (\<exists>c\<in>set categories. \<exists>d. bt_get discovered c = Some d \<and> r = reconciliation_of emitted c d)"
proof -
  have "r \<in> set (case bt_get discovered c of None \<Rightarrow> [] | Some d \<Rightarrow> [reconciliation_of emitted c d])
      \<longleftrightarrow> (\<exists>d. bt_get discovered c = Some d \<and> r = reconciliation_of emitted c d)" for c
    by (cases "bt_get discovered c") simp_all
  then show ?thesis by (simp add: discovered_reconciliations_def)
qed

lemma distinct_discovered_reconciliations:
  "distinct categories \<Longrightarrow>
     distinct (map cnt_category (discovered_reconciliations emitted discovered categories))"
proof (induction categories)
  case (Cons c categories)
  have "cnt_category ` set (discovered_reconciliations emitted discovered categories) \<subseteq> set categories"
    by (auto simp: in_discovered_reconciliations)
  with Cons show ?case
    by (auto simp: discovered_reconciliations_def split: option.splits)
qed (simp add: discovered_reconciliations_def)

lemma reconciled_discovered:
  assumes "set categories = UNIV" and "distinct categories"
  shows "reconciled emitted (discovered_reconciliations emitted discovered categories) \<longleftrightarrow>
    (\<forall>c. discovery_agrees emitted discovered c)"
proof
  let ?counts = "discovered_reconciliations emitted discovered categories"
  assume rec: "reconciled emitted ?counts"
  show "\<forall>c. discovery_agrees emitted discovered c"
  proof
    fix c
    obtain r where r: "r \<in> set ?counts" "cnt_category r = c"
      using rec unfolding reconciled_def by (metis UNIV_I imageE)
    then obtain d where d: "bt_get discovered c = Some d" "r = reconciliation_of emitted c d"
      unfolding in_discovered_reconciliations by auto
    have "cnt_discovered r = cnt_emitted r" "proof_text (cnt_evidence r)"
      using rec r(1) unfolding reconciled_def by blast+
    with d show "discovery_agrees emitted discovered c" by (simp add: discovery_agrees_def)
  qed
next
  let ?counts = "discovered_reconciliations emitted discovered categories"
  assume agree: "\<forall>c. discovery_agrees emitted discovered c"
  have "c \<in> cnt_category ` set ?counts" for c
  proof -
    obtain d where "bt_get discovered c = Some d"
      using agree unfolding discovery_agrees_def by blast
    then have "reconciliation_of emitted c d \<in> set ?counts"
      by (auto simp: in_discovered_reconciliations assms(1))
    then show ?thesis by (metis reconciliation_of_simps(1) image_eqI)
  qed
  moreover have "cnt_discovered r = cnt_emitted r
      \<and> cnt_emitted r = emitted_of emitted (cnt_category r) \<and> proof_text (cnt_evidence r)"
    if "r \<in> set ?counts" for r
  proof -
    obtain c d where d: "bt_get discovered c = Some d" "r = reconciliation_of emitted c d"
      using \<open>r \<in> set ?counts\<close> unfolding in_discovered_reconciliations by blast
    with agree[THEN spec, of c] show ?thesis by (auto simp: discovery_agrees_def)
  qed
  ultimately show "reconciled emitted ?counts"
    using distinct_discovered_reconciliations[OF assms(2)] unfolding reconciled_def by blast
qed

definition certificate_for ::
  "CanonicalSchemaSnapshot \<Rightarrow> AdapterIdentity \<Rightarrow> ServerIdentity \<Rightarrow> IntrospectionScope
    \<Rightarrow> DiscoveryCounts \<Rightarrow> CapabilityCheck list \<Rightarrow> CertifiedSchemaSnapshot" where
  "certificate_for snapshot adapter server scope discovered checks =
     (let s = normalize_canonical_snapshot snapshot in
      \<lparr>cert_contract_version = COMPLETE_CONTRACT_VERSION, cert_snapshot = s,
        cert_completeness =
          \<lparr>prf_status = Complete, prf_adapter = adapter, prf_server = server,
            prf_scope = normalize_scope scope,
            prf_object_counts = discovered_reconciliations (emitted_object_counts s)
              (dis_objects discovered) object_categories,
            prf_relationship_counts = discovered_reconciliations (emitted_relationship_counts s)
              (dis_relationships discovered) relationship_categories,
            prf_capability_checks = sort_capability_checks checks\<rparr>\<rparr>)"

lemma certify_Ok_iff:
  "certify_schema_snapshot snapshot adapter server scope discovered checks = Ok cert \<longleftrightarrow>
     cert = certificate_for snapshot adapter server scope discovered checks \<and> complete_certificate cert"
proof -
  let ?s = "normalize_canonical_snapshot snapshot" and ?checks = "sort_capability_checks checks"
  let ?cert = "certificate_for snapshot adapter server scope discovered checks"
  define i0 where "i0 = fold require_check_texts ?checks (require_capability_checks ?checks
      (require_scope (normalize_scope scope) (require_identities adapter server (snapshot_issues ?s))))"
  obtain i1 oc where o: "fold (certify_count certify_object_texts object_category_debug
        (emitted_object_counts ?s) (dis_objects discovered)) object_categories (i0, []) = (i1, oc)"
    by fastforce
  obtain i2 rc where r: "fold (certify_count certify_relationship_texts relationship_category_debug
        (emitted_relationship_counts ?s) (dis_relationships discovered)) relationship_categories
        (i1, []) = (i2, rc)" by fastforce
  note counts = fold_certify_count[OF o] fold_certify_count[OF r]
  have "fold require_check_texts cs i = [] \<longleftrightarrow>
      i = [] \<and> (\<forall>c\<in>set cs. proof_text (chk_name c) \<and> proof_text (chk_evidence c))" for cs i
    using ce.clean_fold[of require_check_texts
        "\<lambda>c _. proof_text (chk_name c) \<and> proof_text (chk_evidence c)"]
    by (simp add: require_check_texts_def issue_simps conj_ac)
  then have clean: "complete_certificate ?cert \<Longrightarrow> i2 = []"
    using counts unfolding i0_def complete_certificate_def certificate_for_def Let_def
    by (auto simp: issue_simps reconciled_discovered set_object_categories distinct_object_categories
        set_relationship_categories distinct_relationship_categories wf_scope_def wf_checks_def)
  have "certify_schema_snapshot snapshot adapter server scope discovered checks =
      (if i2 \<noteq> [] then Err \<lparr>cer_issues = i2\<rparr>
       else try_with (verify_certified_schema_snapshot ?cert) (\<lambda>_. Ok ?cert))"
    using o r counts
    by (simp add: certify_schema_snapshot_def Let_def i0_def certificate_for_def)
  then show ?thesis
    using clean by (auto simp: try_with_Ok_iff verify_Ok_iff)
qed

subsection \<open>What the counts count\<close>

text \<open>The categories of the objects of a snapshot, by collection.\<close>

definition emitted_categories :: "CanonicalSchemaSnapshot \<Rightarrow> ObjectCategory list" where
  "emitted_categories c =
     map (\<lambda>(k, kind). object_category_from_kind kind) (schema_keys (can_schema c))
     @ map (\<lambda>x. object_category_from_kind (ok_object_kind (mo_key x))) (md_objects (can_metadata c))"

lemma bt_get_add [simp]:
  "emitted_of (bt_add c n m) d = emitted_of m d + (if d = c then n else 0)"
  by (simp add: emitted_of_def bt_add_def bt.get_insert)

lemma emitted_of_insert [simp]:
  "emitted_of (bt_insert c n m) d = (if d = c then n else emitted_of m d)"
  by (simp add: emitted_of_def bt.get_insert)

lemma emitted_of_fold_add:
  "emitted_of (fold (\<lambda>x. bt_add (f x) (Suc 0)) xs m) d = emitted_of m d + count_list (map f xs) d"
  by (induction xs arbitrary: m) auto

lemma emitted_of_fold_zero:
  "emitted_of (fold (\<lambda>c. bt_insert c 0) cs m) d = (if d \<in> set cs then 0 else emitted_of m d)"
  by (induction cs arbitrary: m) auto

lemma count_list_const: "count_list (map (\<lambda>x. c) xs) d = (if d = c then length xs else 0)"
  by (induction xs) auto

lemma constraint_category_kind:
  "object_category_from_kind (constraint_object_kind kind) = constraint_category kind"
  by (cases kind) simp_all

lemma emitted_object_counts_categories:
  "emitted_of (emitted_object_counts c) cat = count_list (emitted_categories c) cat"
  unfolding emitted_object_counts_def emitted_categories_def schema_keys_def Let_def
  by (simp add: emitted_of_fold_add emitted_of_fold_zero set_object_categories count_list_append
      comp_def case_prod_unfold count_list_const constraint_category_kind)

lemma well_formed_categories:
  assumes "well_formed_canonical c"
  shows "emitted_categories c = map (\<lambda>k. object_category_from_kind (ok_object_kind k)) (canonical_keys c)"
proof -
  have "\<forall>(k, kind)\<in>set (schema_keys (can_schema c)). ok_object_kind k = kind"
    using assms unfolding well_formed_canonical_def well_formed_schema_def Let_def by (elim conjE)
  then show ?thesis
    by (auto simp: emitted_categories_def canonical_keys_def)
qed

lemma complete_certificate_counts:
  assumes "complete_certificate c" and "r \<in> set (prf_object_counts (cert_completeness c))"
  shows "cnt_discovered r = length (filter (\<lambda>k. object_category_from_kind (ok_object_kind k)
    = cnt_category r) (canonical_keys (cert_snapshot c)))"
proof -
  have "well_formed_canonical (cert_snapshot c)"
    and rec: "reconciled (emitted_object_counts (cert_snapshot c)) (prf_object_counts (cert_completeness c))"
    using assms(1) by (simp_all add: complete_certificate_def Let_def)
  have "cnt_discovered r = emitted_of (emitted_object_counts (cert_snapshot c)) (cnt_category r)"
    using rec assms(2) by (simp add: reconciled_def)
  also have "\<dots> = count_list (map (\<lambda>k. object_category_from_kind (ok_object_kind k))
      (canonical_keys (cert_snapshot c))) (cnt_category r)"
    by (simp only: emitted_object_counts_categories well_formed_categories[OF \<open>well_formed_canonical _\<close>])
  also have "\<dots> = length (filter (\<lambda>k. object_category_from_kind (ok_object_kind k) = cnt_category r)
      (canonical_keys (cert_snapshot c)))"
    by (induction "canonical_keys (cert_snapshot c)" rule: rev_induct)
      (simp_all add: count_list_eq_length_filter filter_map comp_def eq_commute)
  finally show ?thesis .
qed

section \<open>The sample certificate\<close>

definition sample_discovery :: "('c::linorder) list \<Rightarrow> ('c, nat) btree \<Rightarrow> ('c, DiscoveredCount) btree" where
  "sample_discovery categories counts =
     fold (\<lambda>c. bt_insert c \<lparr>dsc_count = emitted_of counts c, dsc_evidence = ''e''\<rparr>) categories []"

definition sample_certificate :: "SchemaSnapshot \<Rightarrow> CertifiedSchemaSnapshot" where
  "sample_certificate schema =
     (let s = canonical_from_schema schema in
      certificate_for s \<lparr>adp_name = ''a'', adp_version = ''1''\<rparr>
        \<lparr>srv_product = ''p'', srv_version = ''1''\<rparr>
        \<lparr>sco_catalogs = [''main''], sco_schemas = [''main'']\<rparr>
        \<lparr>dis_objects = sample_discovery object_categories
            (emitted_object_counts (normalize_canonical_snapshot s)),
          dis_relationships = sample_discovery relationship_categories
            (emitted_relationship_counts (normalize_canonical_snapshot s))\<rparr>
        [\<lparr>chk_name = ''c'', chk_evidence = ''e''\<rparr>])"

definition sample_full_capabilities :: AdapterCapabilities where
  "sample_full_capabilities =
     sample_capabilities\<lparr>cap_routines := Supported, cap_dependencies := Supported\<rparr>"

definition sample_full_schema :: SchemaSnapshot where
  "sample_full_schema = (sample_schema [sample_table ''users'', sample_table ''orders''])
     \<lparr>snap_capabilities := sample_full_capabilities\<rparr>"

definition sample_certified :: CertifiedSchemaSnapshot where
  "sample_certified = sample_certificate sample_full_schema"

lemma sample_discovery_agrees:
  assumes "set categories = UNIV" and "emitted_of counts = emitted_of counts'"
  shows "discovery_agrees counts (sample_discovery categories counts') c"
proof -
  let ?ins = "fold (\<lambda>c. bt_insert c \<lparr>dsc_count = emitted_of counts' c, dsc_evidence = ''e''\<rparr>)"
  have "c \<in> set cs \<or> bt_get m c = Some \<lparr>dsc_count = emitted_of counts' c, dsc_evidence = ''e''\<rparr> \<Longrightarrow>
      bt_get (?ins cs m) c = Some \<lparr>dsc_count = emitted_of counts' c, dsc_evidence = ''e''\<rparr>" for cs m
    by (induction cs arbitrary: m) (auto simp: bt.get_insert)
  moreover have "\<not> blank ''e''" "\<not> has_control ''e''" by code_simp+
  ultimately show ?thesis
    using assms
    by (simp add: discovery_agrees_def sample_discovery_def proof_text_def MAX_PROOF_TEXT_BYTES_def)
qed

lemma sample_full_well_formed: "well_formed_canonical (canonical_from_schema sample_full_schema)"
proof -
  have "well_formed_canonical (c\<lparr>can_schema := (can_schema c)\<lparr>snap_capabilities := caps\<rparr>\<rparr>)"
    if "well_formed_canonical c" "cap_source_kind caps = cap_source_kind (snap_capabilities (can_schema c))"
    for c caps
    using that by (simp add: well_formed_canonical_def well_formed_schema_def canonical_keys_def
        schema_keys_def wf_metadata_object_def wf_extension_identity_def Let_def)
  from this[OF sample_well_formed] show ?thesis
    by (simp add: sample_full_schema_def sample_full_capabilities_def sample_snapshot_def
        canonical_from_schema_def sample_schema_def sample_capabilities_def)
qed

lemma sample_certificate_complete:
  assumes "well_formed_canonical (canonical_from_schema schema)"
    and "snap_capabilities schema = sample_full_capabilities" and "snap_source_kind schema = ''sqlite''"
  shows "complete_certificate (sample_certificate schema)"
proof -
  have texts: "\<not> blank ''a''" "\<not> blank ''1''" "\<not> blank ''p''" "\<not> blank ''c''" "\<not> blank ''e''"
    "\<not> has_control ''a''" "\<not> has_control ''1''" "\<not> has_control ''p''" "\<not> has_control ''c''"
    "\<not> has_control ''e''" "\<not> has_control ''main''"
    by code_simp+
  have caps: "full_capabilities (can_schema (normalize_canonical_snapshot (canonical_from_schema schema)))"
    using assms(2,3)
    by (simp add: full_capabilities_def normalize_canonical_snapshot_def normalize_schema_def
        normalize_capabilities_def canonical_from_schema_def sample_full_capabilities_def
        sample_capabilities_def Let_def sort_dedup_strings_def)
  show ?thesis
    unfolding complete_certificate_def sample_certificate_def certificate_for_def Let_def
    by (simp add: assms(1) well_formed_normalize normalize_idem caps
        reconciled_discovered set_object_categories distinct_object_categories
        set_relationship_categories distinct_relationship_categories sample_discovery_agrees
        wf_scope_def scope_text_def proof_text_def normalize_scope_def sort_dedup_strings_def
        wf_checks_def sort_capability_checks_def texts sample_texts MAX_PROOF_TEXT_BYTES_def
        MAX_SCOPE_VALUE_BYTES_def)
qed

lemma sample_certified_complete: "complete_certificate sample_certified"
  unfolding sample_certified_def
  by (rule sample_certificate_complete[OF sample_full_well_formed])
    (simp_all add: sample_full_schema_def sample_schema_def)

section \<open>Properties\<close>

text \<open>Certification is complete and sound. It returns a certificate exactly when the
  certificate built from the normalized snapshot, the declared identities and scope and the
  discovered counts satisfies every condition of a complete certificate; the result is that
  certificate and no other.\<close>

lemma certification_exact:
  "certify_schema_snapshot snapshot adapter server scope discovered checks = Ok cert \<longleftrightarrow>
     cert = certificate_for snapshot adapter server scope discovered checks \<and> complete_certificate cert"
  by (rule certify_Ok_iff)

text \<open>C3: verification accepts exactly the complete certificates: a well-formed snapshot in normal
  form under the current contract version, full capabilities without limitations, bounded proof
  texts, a canonical non-empty scope, distinct sorted capability checks, and for every object and
  relationship category exactly one reconciliation whose discovered, declared and actual counts
  agree.\<close>

theorem verification_exact: "verify_certified_schema_snapshot c = Ok () \<longleftrightarrow> complete_certificate c"
  by (rule verify_Ok_iff)

text \<open>A verified certificate accounts for every object. The count it declares as discovered for
  a category is the number of object keys of that kind in the snapshot.\<close>

lemma verified_counts_are_key_counts:
  assumes "verify_certified_schema_snapshot c = Ok ()"
    and "r \<in> set (prf_object_counts (cert_completeness c))"
  shows "cnt_discovered r = length (filter (\<lambda>k. object_category_from_kind (ok_object_kind k)
    = cnt_category r) (canonical_keys (cert_snapshot c)))"
  using assms unfolding verify_Ok_iff by (rule complete_certificate_counts)

end
