(* ===== verification/Json_Values.thy ===== *)
theory Json_Values
  imports Certification
begin

text \<open>
  JSON values and the serialisation interface. \<open>serde_json\<close> and the derived \<open>Serialize\<close> and
  \<open>Deserialize\<close> implementations are not part of the repository: they are the parameter \<open>serde\<close> of the
  definitions that use them. \<open>to_value\<close> is \<open>serde_json::to_value\<close> on the structures the program stores,
  \<open>to_text\<close> and \<open>parse_value\<close> print and read a JSON value, and \<open>parse_certified\<close> and
  \<open>parse_capabilities\<close> are \<open>serde_json::from_str\<close> at the two structures the store reads back. An object
  is an ordered map, as in \<open>serde_json::Map\<close> without the \<open>preserve_order\<close> feature.
\<close>

datatype json =
    JNull
  | JBool bool
  | JInt int
  | JFloat string
  | JString string
  | JArray "json list"
  | JObject "(string \<times> json) list"

text \<open>The structures that are serialised into a payload.\<close>

datatype payload =
    PDatabase DatabaseObject
  | PSchema SchemaObject
  | PTable TableObject
  | PColumn ColumnObject
  | PConstraint ConstraintObject
  | PIndex IndexObject
  | PView ViewObject
  | PTrigger TriggerObject
  | PRoutine RoutineObject
  | PMetadata MetadataObject
  | PAnnotation ObjectAnnotation
  | PRelationship MetadataRelationship
  | PSnapshot SchemaSnapshot
  | PCertified CertifiedSchemaSnapshot
  | PEdge string

record serde =
  to_value :: "payload \<Rightarrow> json"
  to_text :: "json \<Rightarrow> string"
  parse_value :: "string \<Rightarrow> (string, json) result"
  parse_certified :: "string \<Rightarrow> (string, CertifiedSchemaSnapshot) result"
  parse_capabilities :: "string \<Rightarrow> (string, AdapterCapabilities) result"

fun json_object :: "json \<Rightarrow> (string, (string, json) btree) result" where
  "json_object (JObject members) = Ok members"
| "json_object _ = Err ''invalid type, expected a map''"

fun json_u32 :: "json \<Rightarrow> (string, nat) result" where
  "json_u32 (JInt n) =
     (if 0 \<le> n \<and> n \<le> int u32_MAX then Ok (nat n) else Err ''invalid value, expected u32'')"
| "json_u32 _ = Err ''invalid type, expected u32''"

end
