(* ===== verification/Graph_Store.thy ===== *)
theory Graph_Store
  imports Json_Values
begin

text \<open>
  The graph store, \<open>crates/database-memory-core/src/graph_store.rs\<close>. The three tables of the schema
  that \<open>migrate\<close> creates are lists of rows; every SQL statement of the source is a function on them with
  the primary keys, the foreign keys and the cascades that the schema declares. A connection holds
  the tables as it sees them, the tables as they were when its transaction began, the foreign key
  switch, and the behaviour of the engine: a script of faults for the statements that write and an
  answer for each statement that reads. \<open>durable\<close> is what another connection sees.
\<close>

section \<open>Records and errors\<close>

definition GRAPH_STORE_SCHEMA_VERSION :: int where "GRAPH_STORE_SCHEMA_VERSION = 2"

datatype GraphStoreError =
    Storage string
  | Payload string
  | InvalidSnapshot SnapshotValidationError
  | InvalidCertification CertificationError
  | ProjectionMismatch nat nat nat nat
  | UnsupportedSchemaVersion int

fun graph_store_error_to_string :: "GraphStoreError \<Rightarrow> string" where
  "graph_store_error_to_string (Storage err) = ''graph store storage error: '' @ err"
| "graph_store_error_to_string (Payload err) = ''graph store payload error: '' @ err"
| "graph_store_error_to_string (InvalidSnapshot err) =
     ''graph store rejected invalid snapshot: '' @ validation_error_to_string err"
| "graph_store_error_to_string (InvalidCertification err) =
     ''graph store rejected uncertified snapshot: '' @ certification_error_to_string err"
| "graph_store_error_to_string
     (ProjectionMismatch expected_nodes actual_nodes expected_edges actual_edges) =
     ''certified graph projection count mismatch: nodes expected '' @ show_nat expected_nodes
     @ '', actual '' @ show_nat actual_nodes @ ''; edges expected '' @ show_nat expected_edges
     @ '', actual '' @ show_nat actual_edges"
| "graph_store_error_to_string (UnsupportedSchemaVersion version) =
     ''graph store schema version '' @ show_int version @ '' is newer than supported version ''
     @ show_int GRAPH_STORE_SCHEMA_VERSION"

datatype SnapshotAuthority = AuthorityComplete | LegacyNonAuthoritative

record SnapshotContractStatus =
  scs_authority :: SnapshotAuthority
  scs_contract_version :: "nat option"

record GraphSnapshotRecord =
  gs_snapshot_key :: string
  gs_source :: "string option"
  gs_captured_at_unix_ms :: int
  gs_payload_json :: string

record GraphNodeRecord =
  gn_snapshot_key :: string
  gn_node_key :: string
  gn_label :: string
  gn_display_name :: "string option"
  gn_payload_json :: string

record GraphEdgeRecord =
  ge_snapshot_key :: string
  ge_edge_key :: string
  ge_edge_from :: string
  ge_edge_to :: string
  ge_edge_type :: string
  ge_payload_json :: string

section \<open>The database and the connection\<close>

record GraphDb =
  gd_user_version :: int
  gd_created :: "string list"
  gd_snapshots :: "GraphSnapshotRecord list"
  gd_nodes :: "GraphNodeRecord list"
  gd_edges :: "GraphEdgeRecord list"

text \<open>A fault is an error of the engine; on some errors it also rolls the open transaction back.\<close>

datatype Fault = NoFault | Fault string bool

datatype ReadQuery =
    ReadUserVersion
  | ReadSnapshot string
  | ReadSnapshotPayload string
  | CountSnapshots
  | ListSnapshots
  | ReadNode string string
  | NodesByLabel string string
  | NodesForSnapshot string
  | CountNodes string
  | CountNodesPage string "string option" "string option"
  | NodesPage string "string option" "string option" nat nat
  | ReadEdge string string
  | EdgesForSnapshot string
  | CountEdges string
  | EdgesFrom string string
  | EdgesFromLimited string string nat
  | EdgesFromByTypeLimited string string string nat
  | EdgesTo string string
  | EdgesToLimited string string nat
  | EdgesToByTypeLimited string string string nat
  | EdgesByType string string
  | EdgesByTypeLimited string string nat

record Connection =
  cn_db :: GraphDb
  cn_saved :: "GraphDb option"
  cn_foreign_keys :: bool
  cn_faults :: "Fault list"
  cn_read_fault :: "ReadQuery \<Rightarrow> string option"

definition durable :: "Connection \<Rightarrow> GraphDb" where
  "durable conn = (case cn_saved conn of None \<Rightarrow> cn_db conn | Some db \<Rightarrow> db)"

type_synonym 'a io = "Connection \<Rightarrow> (GraphStoreError, 'a) result \<times> Connection"

text \<open>Statements in sequence; the operator \<open>?\<close> returns at the first error.\<close>

definition io_return :: "'a \<Rightarrow> 'a io" where
  "io_return a conn = (Ok a, conn)"

definition io_bind :: "'a io \<Rightarrow> ('a \<Rightarrow> 'b io) \<Rightarrow> 'b io" where
  "io_bind m f conn =
     (let (r, conn) = m conn in case r of Inl e \<Rightarrow> (Err e, conn) | Inr a \<Rightarrow> f a conn)"

definition io_then :: "unit io \<Rightarrow> 'b io \<Rightarrow> 'b io" where
  "io_then m k = io_bind m (\<lambda>_. k)"

definition io_result :: "(GraphStoreError, 'a) result \<Rightarrow> 'a io" where
  "io_result r conn = (r, conn)"

fun for_each :: "('a \<Rightarrow> unit io) \<Rightarrow> 'a list \<Rightarrow> unit io" where
  "for_each f [] = io_return ()"
| "for_each f (x # xs) = io_then (f x) (for_each f xs)"

definition next_fault :: "Connection \<Rightarrow> Fault \<times> Connection" where
  "next_fault conn =
     (case cn_faults conn of
        [] \<Rightarrow> (NoFault, conn)
      | fault # faults \<Rightarrow> (fault, conn\<lparr>cn_faults := faults\<rparr>))"

definition roll_back :: "Connection \<Rightarrow> Connection" where
  "roll_back conn =
     (case cn_saved conn of
        None \<Rightarrow> conn
      | Some db \<Rightarrow> conn\<lparr>cn_db := db, cn_saved := None\<rparr>)"

text \<open>One statement: the engine may fail, otherwise the statement succeeds or is refused.\<close>

definition with_engine :: "(Connection \<Rightarrow> (string, 'a) result \<times> Connection) \<Rightarrow> 'a io" where
  "with_engine statement conn =
     (let (fault, conn) = next_fault conn
      in case fault of
           Fault err rolled_back \<Rightarrow>
             (Err (Storage err), if rolled_back then roll_back conn else conn)
         | NoFault \<Rightarrow> (let (r, conn) = statement conn in (map_err Storage r, conn)))"

definition execute :: "(bool \<Rightarrow> GraphDb \<Rightarrow> (string, GraphDb) result) \<Rightarrow> unit io" where
  "execute statement =
     with_engine (\<lambda>conn.
       case statement (cn_foreign_keys conn) (cn_db conn) of
         Inl err \<Rightarrow> (Err err, conn)
       | Inr db \<Rightarrow> (Ok (), conn\<lparr>cn_db := db\<rparr>))"

definition begin_immediate :: "unit io" where
  "begin_immediate =
     with_engine (\<lambda>conn.
       case cn_saved conn of
         Some _ \<Rightarrow> (Err ''cannot start a transaction within a transaction'', conn)
       | None \<Rightarrow> (Ok (), conn\<lparr>cn_saved := Some (cn_db conn)\<rparr>))"

definition commit :: "unit io" where
  "commit =
     with_engine (\<lambda>conn.
       case cn_saved conn of
         None \<Rightarrow> (Err ''cannot commit - no transaction is active'', conn)
       | Some _ \<Rightarrow> (Ok (), conn\<lparr>cn_saved := None\<rparr>))"

definition rollback :: "unit io" where
  "rollback =
     with_engine (\<lambda>conn.
       case cn_saved conn of
         None \<Rightarrow> (Err ''cannot rollback - no transaction is active'', conn)
       | Some _ \<Rightarrow> (Ok (), roll_back conn))"

definition read_with :: "ReadQuery \<Rightarrow> (GraphDb \<Rightarrow> 'a) \<Rightarrow> Connection \<Rightarrow> (GraphStoreError, 'a) result" where
  "read_with query answer conn =
     (case cn_read_fault conn query of
        Some err \<Rightarrow> Err (Storage err)
      | None \<Rightarrow> Ok (answer (cn_db conn)))"

section \<open>Opening a store\<close>

definition create_if_not_exists :: "string \<Rightarrow> bool \<Rightarrow> GraphDb \<Rightarrow> (string, GraphDb) result" where
  "create_if_not_exists name foreign_keys db =
     Ok (if name \<in> set (gd_created db) then db else db\<lparr>gd_created := gd_created db @ [name]\<rparr>)"

definition migration_objects :: "string list" where
  "migration_objects =
     [''graph_snapshots'', ''graph_nodes'', ''graph_edges'', ''idx_graph_nodes_key'',
      ''idx_graph_nodes_label'', ''idx_graph_edges_key'', ''idx_graph_edges_from'',
      ''idx_graph_edges_to'', ''idx_graph_edges_type'', ''idx_graph_edges_from_type_key'',
      ''idx_graph_edges_to_type_key'', ''idx_graph_edges_type_key'']"

definition migration_batch :: "unit io" where
  "migration_batch =
     io_then begin_immediate
       (io_then (for_each (\<lambda>name. execute (create_if_not_exists name)) migration_objects)
         (io_then (execute (\<lambda>_ db. Ok (db\<lparr>gd_user_version := 2\<rparr>))) commit))"

definition enable_foreign_keys :: "unit io" where
  "enable_foreign_keys = with_engine (\<lambda>conn. (Ok (), conn\<lparr>cn_foreign_keys := True\<rparr>))"

definition schema_version :: "Connection \<Rightarrow> (GraphStoreError, int) result" where
  "schema_version conn = read_with ReadUserVersion gd_user_version conn"

definition migrate :: "unit io" where
  "migrate =
     io_bind (\<lambda>conn. (schema_version conn, conn)) (\<lambda>version.
       if version > GRAPH_STORE_SCHEMA_VERSION
       then io_result (Err (UnsupportedSchemaVersion version))
       else io_then enable_foreign_keys (\<lambda>conn.
         let (migration, conn) = migration_batch conn
         in case migration of
              Inr _ \<Rightarrow> (Ok (), conn)
            | Inl err \<Rightarrow> (Err err, snd (rollback conn))))"

text \<open>\<open>from_connection\<close>: the store is the connection once it has been migrated.\<close>

definition from_connection :: "Connection \<Rightarrow> (GraphStoreError, Connection) result" where
  "from_connection conn =
     (let (r, store) = migrate conn in try_with r (\<lambda>_. Ok store))"

section \<open>Transactions\<close>

definition with_transaction :: "'a io \<Rightarrow> 'a io" where
  "with_transaction operation =
     io_then begin_immediate (\<lambda>conn.
       let (r, conn) = operation conn
       in case r of
            Inr val \<Rightarrow>
              (let (committed, conn) = commit conn
               in case committed of
                    Inr _ \<Rightarrow> (Ok val, conn)
                  | Inl err \<Rightarrow> (Err err, snd (rollback conn)))
          | Inl err \<Rightarrow> (Err err, snd (rollback conn)))"

section \<open>Statements that write\<close>

text \<open>\<open>INSERT ... ON CONFLICT(key) DO UPDATE\<close> of all the other columns.\<close>

definition upsert :: "('r \<Rightarrow> 'k) \<Rightarrow> 'r \<Rightarrow> 'r list \<Rightarrow> 'r list" where
  "upsert key row rows =
     (if key row \<in> key ` set rows then map (\<lambda>x. if key x = key row then row else x) rows
      else rows @ [row])"

definition node_id :: "GraphNodeRecord \<Rightarrow> string \<times> string" where
  "node_id node = (gn_snapshot_key node, gn_node_key node)"

definition edge_id :: "GraphEdgeRecord \<Rightarrow> string \<times> string" where
  "edge_id edge = (ge_snapshot_key edge, ge_edge_key edge)"

definition edge_source :: "GraphEdgeRecord \<Rightarrow> string \<times> string" where
  "edge_source edge = (ge_snapshot_key edge, ge_edge_from edge)"

definition edge_target :: "GraphEdgeRecord \<Rightarrow> string \<times> string" where
  "edge_target edge = (ge_snapshot_key edge, ge_edge_to edge)"

definition foreign_key_error :: string where
  "foreign_key_error = ''FOREIGN KEY constraint failed''"

definition insert_snapshot_statement ::
  "GraphSnapshotRecord \<Rightarrow> bool \<Rightarrow> GraphDb \<Rightarrow> (string, GraphDb) result" where
  "insert_snapshot_statement snapshot foreign_keys db =
     Ok (db\<lparr>gd_snapshots := upsert gs_snapshot_key snapshot (gd_snapshots db)\<rparr>)"

text \<open>The update of an existing node leaves its foreign key column alone.\<close>

definition insert_node_statement ::
  "GraphNodeRecord \<Rightarrow> bool \<Rightarrow> GraphDb \<Rightarrow> (string, GraphDb) result" where
  "insert_node_statement node foreign_keys db =
     (if foreign_keys \<and> node_id node \<notin> node_id ` set (gd_nodes db)
         \<and> gn_snapshot_key node \<notin> gs_snapshot_key ` set (gd_snapshots db)
      then Err foreign_key_error
      else Ok (db\<lparr>gd_nodes := upsert node_id node (gd_nodes db)\<rparr>))"

definition insert_edge_statement ::
  "GraphEdgeRecord \<Rightarrow> bool \<Rightarrow> GraphDb \<Rightarrow> (string, GraphDb) result" where
  "insert_edge_statement edge foreign_keys db =
     (if foreign_keys
         \<and> \<not> (edge_source edge \<in> node_id ` set (gd_nodes db) \<and> edge_target edge \<in> node_id ` set (gd_nodes db))
      then Err foreign_key_error
      else Ok (db\<lparr>gd_edges := upsert edge_id edge (gd_edges db)\<rparr>))"

definition delete_edges_statement ::
  "(GraphEdgeRecord \<Rightarrow> bool) \<Rightarrow> GraphDb \<Rightarrow> GraphDb" where
  "delete_edges_statement doomed db = db\<lparr>gd_edges := filter (\<lambda>x. \<not> doomed x) (gd_edges db)\<rparr>"

text \<open>\<open>ON DELETE CASCADE\<close>: an edge goes with the node at either end, a node with its snapshot.\<close>

definition delete_nodes_statement ::
  "(GraphNodeRecord \<Rightarrow> bool) \<Rightarrow> bool \<Rightarrow> GraphDb \<Rightarrow> GraphDb" where
  "delete_nodes_statement doomed foreign_keys db =
     (let deleted = node_id ` set (filter doomed (gd_nodes db));
          db = db\<lparr>gd_nodes := filter (\<lambda>x. \<not> doomed x) (gd_nodes db)\<rparr>
      in if foreign_keys
         then delete_edges_statement (\<lambda>x. edge_source x \<in> deleted \<or> edge_target x \<in> deleted) db
         else db)"

definition delete_snapshot_statement ::
  "string \<Rightarrow> bool \<Rightarrow> GraphDb \<Rightarrow> (string, GraphDb) result" where
  "delete_snapshot_statement snapshot_key foreign_keys db =
     (let deleted = gs_snapshot_key ` set (filter (\<lambda>x. gs_snapshot_key x = snapshot_key) (gd_snapshots db));
          db = db\<lparr>gd_snapshots := filter (\<lambda>x. gs_snapshot_key x \<noteq> snapshot_key) (gd_snapshots db)\<rparr>
      in Ok (if foreign_keys
             then delete_nodes_statement (\<lambda>x. gn_snapshot_key x \<in> deleted) True db
             else db))"

subsection \<open>Payload validation\<close>

definition snapshot_contract_version ::
  "serde \<Rightarrow> string \<Rightarrow> (GraphStoreError, nat option) result" where
  "snapshot_contract_version sj payload_json =
     map_err Payload
       (try_with (parse_value sj payload_json) (\<lambda>val.
         try_with (json_object val) (\<lambda>object.
           case bt_get object ''contract_version'' of
             None \<Rightarrow> Ok None
           | Some version \<Rightarrow> try_with (json_u32 version) (\<lambda>n. Ok (Some n)))))"

definition validate_persisted_snapshot_payload ::
  "serde \<Rightarrow> string \<Rightarrow> (GraphStoreError, unit) result" where
  "validate_persisted_snapshot_payload sj payload_json =
     try_with (snapshot_contract_version sj payload_json) (\<lambda>version.
       if version \<noteq> None
       then try_with (map_err Payload (parse_certified sj payload_json)) (\<lambda>certified.
         map_err InvalidCertification (verify_certified_schema_snapshot certified))
       else Ok ())"

subsection \<open>Operations that write\<close>

definition insert_snapshot :: "serde \<Rightarrow> GraphSnapshotRecord \<Rightarrow> unit io" where
  "insert_snapshot sj snapshot =
     io_then (io_result (validate_persisted_snapshot_payload sj (gs_payload_json snapshot)))
       (execute (insert_snapshot_statement snapshot))"

definition delete_snapshot :: "string \<Rightarrow> unit io" where
  "delete_snapshot snapshot_key = execute (delete_snapshot_statement snapshot_key)"

definition store_insert_node :: "GraphNodeRecord \<Rightarrow> unit io" where
  "store_insert_node node = execute (insert_node_statement node)"

definition delete_node :: "string \<Rightarrow> string \<Rightarrow> unit io" where
  "delete_node snapshot_key node_key =
     execute (\<lambda>foreign_keys db.
       Ok (delete_nodes_statement (\<lambda>x. node_id x = (snapshot_key, node_key)) foreign_keys db))"

definition store_insert_edge :: "GraphEdgeRecord \<Rightarrow> unit io" where
  "store_insert_edge edge = execute (insert_edge_statement edge)"

definition delete_edge :: "string \<Rightarrow> string \<Rightarrow> unit io" where
  "delete_edge snapshot_key edge_key =
     execute (\<lambda>_ db. Ok (delete_edges_statement (\<lambda>x. edge_id x = (snapshot_key, edge_key)) db))"

section \<open>Operations that read\<close>

definition find_row :: "('r \<Rightarrow> bool) \<Rightarrow> 'r list \<Rightarrow> 'r option" where
  "find_row p rows = List.find p rows"

definition sqlite_limit :: "nat \<Rightarrow> nat" where
  "sqlite_limit limit = (if limit \<le> i64_MAX then limit else i64_MAX)"

definition sqlite_offset :: "nat \<Rightarrow> nat" where
  "sqlite_offset offset = (if offset \<le> i64_MAX then offset else i64_MAX)"

definition get_snapshot ::
  "string \<Rightarrow> Connection \<Rightarrow> (GraphStoreError, GraphSnapshotRecord option) result" where
  "get_snapshot snapshot_key =
     read_with (ReadSnapshot snapshot_key)
       (\<lambda>db. find_row (\<lambda>x. gs_snapshot_key x = snapshot_key) (gd_snapshots db))"

definition get_snapshot_capabilities ::
  "serde \<Rightarrow> string \<Rightarrow> Connection \<Rightarrow> (GraphStoreError, AdapterCapabilities option) result" where
  "get_snapshot_capabilities sj snapshot_key conn =
     try_with
       (read_with (ReadSnapshotPayload snapshot_key)
         (\<lambda>db. map_option gs_payload_json
           (find_row (\<lambda>x. gs_snapshot_key x = snapshot_key) (gd_snapshots db))) conn)
       (\<lambda>payload_json. case payload_json of
          None \<Rightarrow> Ok None
        | Some t \<Rightarrow> try_with (map_err Payload (parse_capabilities sj t)) (\<lambda>c. Ok (Some c)))"

definition get_snapshot_contract_status ::
  "serde \<Rightarrow> string \<Rightarrow> Connection \<Rightarrow> (GraphStoreError, SnapshotContractStatus option) result" where
  "get_snapshot_contract_status sj snapshot_key conn =
     try_with (get_snapshot snapshot_key conn) (\<lambda>found.
       case found of
         None \<Rightarrow> Ok None
       | Some snapshot \<Rightarrow>
           try_with (snapshot_contract_version sj (gs_payload_json snapshot)) (\<lambda>version.
             case version of
               None \<Rightarrow>
                 Ok (Some \<lparr>scs_authority = LegacyNonAuthoritative, scs_contract_version = None\<rparr>)
             | Some contract_version \<Rightarrow>
                 try_with (map_err Payload (parse_certified sj (gs_payload_json snapshot)))
                   (\<lambda>certified.
                     try_with (map_err InvalidCertification
                         (verify_certified_schema_snapshot certified))
                       (\<lambda>_. Ok (Some \<lparr>scs_authority = AuthorityComplete,
                          scs_contract_version = Some contract_version\<rparr>)))))"

definition get_certified_snapshot ::
  "serde \<Rightarrow> string \<Rightarrow> Connection \<Rightarrow> (GraphStoreError, CertifiedSchemaSnapshot option) result" where
  "get_certified_snapshot sj snapshot_key conn =
     try_with (get_snapshot snapshot_key conn) (\<lambda>found.
       case found of
         None \<Rightarrow> Ok None
       | Some snapshot \<Rightarrow>
           try_with (snapshot_contract_version sj (gs_payload_json snapshot)) (\<lambda>version.
             if version = None then Ok None
             else try_with (map_err Payload (parse_certified sj (gs_payload_json snapshot)))
               (\<lambda>certified.
                 try_with (map_err InvalidCertification (verify_certified_schema_snapshot certified))
                   (\<lambda>_. Ok (Some certified)))))"

definition snapshot_count :: "Connection \<Rightarrow> (GraphStoreError, nat) result" where
  "snapshot_count = read_with CountSnapshots (\<lambda>db. length (gd_snapshots db))"

definition list_snapshots :: "Connection \<Rightarrow> (GraphStoreError, GraphSnapshotRecord list) result" where
  "list_snapshots = read_with ListSnapshots (\<lambda>db. sort_key gs_snapshot_key (gd_snapshots db))"

subsection \<open>Nodes\<close>

definition get_node ::
  "string \<Rightarrow> string \<Rightarrow> Connection \<Rightarrow> (GraphStoreError, GraphNodeRecord option) result" where
  "get_node snapshot_key node_key =
     read_with (ReadNode snapshot_key node_key)
       (\<lambda>db. find_row (\<lambda>x. gn_snapshot_key x = snapshot_key \<and> gn_node_key x = node_key) (gd_nodes db))"

definition nodes_by_label ::
  "string \<Rightarrow> string \<Rightarrow> Connection \<Rightarrow> (GraphStoreError, GraphNodeRecord list) result" where
  "nodes_by_label snapshot_key label =
     read_with (NodesByLabel snapshot_key label)
       (\<lambda>db. sort_key gn_node_key
         (filter (\<lambda>x. gn_snapshot_key x = snapshot_key \<and> gn_label x = label) (gd_nodes db)))"

definition nodes_for_snapshot ::
  "string \<Rightarrow> Connection \<Rightarrow> (GraphStoreError, GraphNodeRecord list) result" where
  "nodes_for_snapshot snapshot_key =
     read_with (NodesForSnapshot snapshot_key)
       (\<lambda>db. sort_key gn_node_key (filter (\<lambda>x. gn_snapshot_key x = snapshot_key) (gd_nodes db)))"

definition node_count_for_snapshot :: "string \<Rightarrow> Connection \<Rightarrow> (GraphStoreError, nat) result" where
  "node_count_for_snapshot snapshot_key =
     read_with (CountNodes snapshot_key)
       (\<lambda>db. length (filter (\<lambda>x. gn_snapshot_key x = snapshot_key) (gd_nodes db)))"

text \<open>\<open>lower\<close> of SQLite folds the ASCII letters; \<open>instr(x, y) > 0\<close> is a substring test.\<close>

definition node_matches_query :: "string \<Rightarrow> GraphNodeRecord \<Rightarrow> bool" where
  "node_matches_query query node =
     (contains_str (to_ascii_lowercase (gn_node_key node)) (to_ascii_lowercase query)
      \<or> contains_str
          (to_ascii_lowercase (case gn_display_name node of None \<Rightarrow> [] | Some n \<Rightarrow> n))
          (to_ascii_lowercase query))"

definition node_in_page ::
  "string \<Rightarrow> string option \<Rightarrow> string option \<Rightarrow> GraphNodeRecord \<Rightarrow> bool" where
  "node_in_page snapshot_key label query node =
     (gn_snapshot_key node = snapshot_key
      \<and> (case label of None \<Rightarrow> True | Some l \<Rightarrow> gn_label node = l)
      \<and> (case query of None \<Rightarrow> True | Some q \<Rightarrow> node_matches_query q node))"

definition normalized_query :: "string option \<Rightarrow> string option" where
  "normalized_query query =
     (case query of
        None \<Rightarrow> None
      | Some q \<Rightarrow> (let q = trim q in if q = [] then None else Some q))"

text \<open>With a label the rows are ordered by key, otherwise by label and key.\<close>

definition find_nodes_page ::
  "string \<Rightarrow> string option \<Rightarrow> string option \<Rightarrow> nat \<Rightarrow> nat \<Rightarrow> Connection
    \<Rightarrow> (GraphStoreError, nat \<times> GraphNodeRecord list) result" where
  "find_nodes_page snapshot_key label query offset limit conn =
     (let query = normalized_query query;
          matching = (\<lambda>db. filter (node_in_page snapshot_key label query) (gd_nodes db));
          ordered = (\<lambda>rows. if label = None then sort_key (\<lambda>x. (gn_label x, gn_node_key x)) rows
                            else sort_key gn_node_key rows)
      in try_with (read_with (CountNodesPage snapshot_key label query)
             (\<lambda>db. length (matching db)) conn)
           (\<lambda>total.
             try_with (read_with (NodesPage snapshot_key label query offset limit)
                 (\<lambda>db. take (sqlite_limit limit) (drop (sqlite_offset offset) (ordered (matching db))))
                 conn)
               (\<lambda>nodes. Ok (total, nodes))))"

subsection \<open>Edges\<close>

definition get_edge ::
  "string \<Rightarrow> string \<Rightarrow> Connection \<Rightarrow> (GraphStoreError, GraphEdgeRecord option) result" where
  "get_edge snapshot_key edge_key =
     read_with (ReadEdge snapshot_key edge_key)
       (\<lambda>db. find_row (\<lambda>x. ge_snapshot_key x = snapshot_key \<and> ge_edge_key x = edge_key) (gd_edges db))"

definition edges_for_snapshot ::
  "string \<Rightarrow> Connection \<Rightarrow> (GraphStoreError, GraphEdgeRecord list) result" where
  "edges_for_snapshot snapshot_key =
     read_with (EdgesForSnapshot snapshot_key)
       (\<lambda>db. sort_key ge_edge_key (filter (\<lambda>x. ge_snapshot_key x = snapshot_key) (gd_edges db)))"

definition edge_count_for_snapshot :: "string \<Rightarrow> Connection \<Rightarrow> (GraphStoreError, nat) result" where
  "edge_count_for_snapshot snapshot_key =
     read_with (CountEdges snapshot_key)
       (\<lambda>db. length (filter (\<lambda>x. ge_snapshot_key x = snapshot_key) (gd_edges db)))"

definition edge_priority :: "string \<Rightarrow> nat" where
  "edge_priority edge_type =
     (if edge_type \<in> {''DATABASE_HAS_SCHEMA'', ''SCHEMA_HAS_TABLE'', ''SCHEMA_HAS_VIEW'',
          ''SCHEMA_HAS_ROUTINE'', ''TABLE_HAS_COLUMN''} then 2
      else if edge_type = ''TABLE_HAS_INDEX'' then 1
      else 0)"

definition edges_from ::
  "string \<Rightarrow> string \<Rightarrow> Connection \<Rightarrow> (GraphStoreError, GraphEdgeRecord list) result" where
  "edges_from snapshot_key from =
     read_with (EdgesFrom snapshot_key from)
       (\<lambda>db. sort_key ge_edge_key
         (filter (\<lambda>x. ge_snapshot_key x = snapshot_key \<and> ge_edge_from x = from) (gd_edges db)))"

definition edges_from_limited ::
  "string \<Rightarrow> string \<Rightarrow> nat \<Rightarrow> Connection \<Rightarrow> (GraphStoreError, GraphEdgeRecord list) result" where
  "edges_from_limited snapshot_key from limit =
     read_with (EdgesFromLimited snapshot_key from limit)
       (\<lambda>db. take (sqlite_limit limit)
         (sort_key (\<lambda>x. (edge_priority (ge_edge_type x), ge_edge_key x))
           (filter (\<lambda>x. ge_snapshot_key x = snapshot_key \<and> ge_edge_from x = from) (gd_edges db))))"

definition edges_from_by_type_limited ::
  "string \<Rightarrow> string \<Rightarrow> string \<Rightarrow> nat \<Rightarrow> Connection \<Rightarrow> (GraphStoreError, GraphEdgeRecord list) result" where
  "edges_from_by_type_limited snapshot_key from edge_type limit =
     read_with (EdgesFromByTypeLimited snapshot_key from edge_type limit)
       (\<lambda>db. take (sqlite_limit limit) (sort_key ge_edge_key
         (filter (\<lambda>x. ge_snapshot_key x = snapshot_key \<and> ge_edge_from x = from
                     \<and> ge_edge_type x = edge_type) (gd_edges db))))"

definition edges_to ::
  "string \<Rightarrow> string \<Rightarrow> Connection \<Rightarrow> (GraphStoreError, GraphEdgeRecord list) result" where
  "edges_to snapshot_key to =
     read_with (EdgesTo snapshot_key to)
       (\<lambda>db. sort_key ge_edge_key
         (filter (\<lambda>x. ge_snapshot_key x = snapshot_key \<and> ge_edge_to x = to) (gd_edges db)))"

definition edges_to_limited ::
  "string \<Rightarrow> string \<Rightarrow> nat \<Rightarrow> Connection \<Rightarrow> (GraphStoreError, GraphEdgeRecord list) result" where
  "edges_to_limited snapshot_key to limit =
     read_with (EdgesToLimited snapshot_key to limit)
       (\<lambda>db. take (sqlite_limit limit)
         (sort_key (\<lambda>x. (edge_priority (ge_edge_type x), ge_edge_key x))
           (filter (\<lambda>x. ge_snapshot_key x = snapshot_key \<and> ge_edge_to x = to) (gd_edges db))))"

definition edges_to_by_type_limited ::
  "string \<Rightarrow> string \<Rightarrow> string \<Rightarrow> nat \<Rightarrow> Connection \<Rightarrow> (GraphStoreError, GraphEdgeRecord list) result" where
  "edges_to_by_type_limited snapshot_key to edge_type limit =
     read_with (EdgesToByTypeLimited snapshot_key to edge_type limit)
       (\<lambda>db. take (sqlite_limit limit) (sort_key ge_edge_key
         (filter (\<lambda>x. ge_snapshot_key x = snapshot_key \<and> ge_edge_to x = to
                     \<and> ge_edge_type x = edge_type) (gd_edges db))))"

definition edges_by_type ::
  "string \<Rightarrow> string \<Rightarrow> Connection \<Rightarrow> (GraphStoreError, GraphEdgeRecord list) result" where
  "edges_by_type snapshot_key edge_type =
     read_with (EdgesByType snapshot_key edge_type)
       (\<lambda>db. sort_key ge_edge_key
         (filter (\<lambda>x. ge_snapshot_key x = snapshot_key \<and> ge_edge_type x = edge_type) (gd_edges db)))"

definition edges_by_type_limited ::
  "string \<Rightarrow> string \<Rightarrow> nat \<Rightarrow> Connection \<Rightarrow> (GraphStoreError, GraphEdgeRecord list) result" where
  "edges_by_type_limited snapshot_key edge_type limit =
     read_with (EdgesByTypeLimited snapshot_key edge_type limit)
       (\<lambda>db. take (sqlite_limit limit) (sort_key ge_edge_key
         (filter (\<lambda>x. ge_snapshot_key x = snapshot_key \<and> ge_edge_type x = edge_type) (gd_edges db))))"

section \<open>Integrity of the tables\<close>

text \<open>Primary keys are unique, every node has its snapshot and every edge both of its ends.\<close>

definition graph_inv :: "GraphDb \<Rightarrow> bool" where
  "graph_inv db =
     (distinct (map gs_snapshot_key (gd_snapshots db))
      \<and> distinct (map node_id (gd_nodes db))
      \<and> distinct (map edge_id (gd_edges db))
      \<and> (\<forall>n\<in>set (gd_nodes db). gn_snapshot_key n \<in> gs_snapshot_key ` set (gd_snapshots db))
      \<and> (\<forall>e\<in>set (gd_edges db). edge_source e \<in> node_id ` set (gd_nodes db)
           \<and> edge_target e \<in> node_id ` set (gd_nodes db)))"

lemma upsert_keys: "key ` set (upsert key row rows) = insert (key row) (key ` set rows)"
  by (auto simp: upsert_def image_iff)

lemma upsert_distinct:
  assumes "distinct (map key rows)"
  shows "distinct (map key (upsert key row rows))"
proof -
  have "map key (map (\<lambda>x. if key x = key row then row else x) rows) = map key rows"
    by simp
  then show ?thesis using assms by (simp add: upsert_def del: map_map)
qed

lemma set_upsert_subset: "set (upsert key row rows) \<subseteq> insert row (set rows)"
  by (auto simp: upsert_def)

lemma set_upsert:
  "x \<in> set (upsert key row rows) \<longleftrightarrow> x = row \<or> x \<in> set rows \<and> key x \<noteq> key row"
  by (auto simp: upsert_def image_iff split: if_splits)

lemma upsert_new: "key row \<notin> key ` set rows \<Longrightarrow> upsert key row rows = rows @ [row]"
  by (simp add: upsert_def)

lemma graph_inv_insert_snapshot:
  "graph_inv db \<Longrightarrow> insert_snapshot_statement r fk db = Ok db' \<Longrightarrow> graph_inv db'"
  by (auto simp: graph_inv_def insert_snapshot_statement_def upsert_keys upsert_distinct)

lemma graph_inv_insert_node:
  assumes "graph_inv db" and "insert_node_statement r True db = Ok db'"
  shows "graph_inv db'"
proof -
  have "node_id r \<in> node_id ` set (gd_nodes db) \<Longrightarrow>
      gn_snapshot_key r \<in> gs_snapshot_key ` set (gd_snapshots db)"
    using assms(1) by (auto simp: graph_inv_def node_id_def)
  then have fk: "gn_snapshot_key r \<in> gs_snapshot_key ` set (gd_snapshots db)"
    using assms(2) by (auto simp: insert_node_statement_def split: if_splits)
  have db': "db' = db\<lparr>gd_nodes := upsert node_id r (gd_nodes db)\<rparr>"
    using assms(2) by (simp add: insert_node_statement_def split: if_splits)
  show ?thesis
    using assms(1) fk
    by (auto simp: graph_inv_def db' upsert_keys upsert_distinct set_upsert)
qed

lemma graph_inv_insert_edge:
  "graph_inv db \<Longrightarrow> insert_edge_statement r True db = Ok db' \<Longrightarrow> graph_inv db'"
  by (auto simp: graph_inv_def insert_edge_statement_def upsert_distinct set_upsert split: if_splits)

lemma graph_inv_delete_edges: "graph_inv db \<Longrightarrow> graph_inv (delete_edges_statement doomed db)"
  by (auto simp: graph_inv_def delete_edges_statement_def distinct_map_filter)

text \<open>The nodes that stay keep their identities: with unique keys no deleted node shares one.\<close>

lemma kept_ids:
  "i \<in> node_id ` set (gd_nodes db) \<Longrightarrow> i \<notin> node_id ` {n \<in> set (gd_nodes db). doomed n} \<Longrightarrow>
     i \<in> node_id ` {n \<in> set (gd_nodes db). \<not> doomed n}"
  by auto

lemma graph_inv_delete_nodes: "graph_inv db \<Longrightarrow> graph_inv (delete_nodes_statement doomed True db)"
  using kept_ids[of _ db doomed]
  by (simp add: graph_inv_def delete_nodes_statement_def delete_edges_statement_def Let_def
      distinct_map_filter)

lemma delete_snapshot_tables:
  assumes "graph_inv db" and "delete_snapshot_statement k True db = Ok db'"
  shows "gd_snapshots db' = filter (\<lambda>x. gs_snapshot_key x \<noteq> k) (gd_snapshots db)"
    and "gd_nodes db' = filter (\<lambda>x. gn_snapshot_key x \<noteq> k) (gd_nodes db)"
    and "gd_edges db' = filter (\<lambda>x. ge_snapshot_key x \<noteq> k) (gd_edges db)"
    and "gd_user_version db' = gd_user_version db" and "gd_created db' = gd_created db"
proof -
  have doomed: "gn_snapshot_key n \<in> gs_snapshot_key ` {x \<in> set (gd_snapshots db). gs_snapshot_key x = k}
      \<longleftrightarrow> gn_snapshot_key n = k" if "n \<in> set (gd_nodes db)" for n
    using assms(1) that by (auto simp: graph_inv_def)
  have ends: "edge_source e \<in> node_id ` {n \<in> set (gd_nodes db). gn_snapshot_key n = k}
      \<or> edge_target e \<in> node_id ` {n \<in> set (gd_nodes db). gn_snapshot_key n = k}
      \<longleftrightarrow> ge_snapshot_key e = k" if e: "e \<in> set (gd_edges db)" for e
  proof -
    obtain n where "n \<in> set (gd_nodes db)" "node_id n = edge_source e"
      using assms(1) e unfolding graph_inv_def by (metis imageE)
    then show ?thesis by (force simp: node_id_def edge_source_def edge_target_def)
  qed
  have db': "db' = delete_nodes_statement
      (\<lambda>x. gn_snapshot_key x \<in> gs_snapshot_key ` {x \<in> set (gd_snapshots db). gs_snapshot_key x = k})
      True (db\<lparr>gd_snapshots := filter (\<lambda>x. gs_snapshot_key x \<noteq> k) (gd_snapshots db)\<rparr>)"
    using assms(2) by (simp add: delete_snapshot_statement_def Let_def)
  show "gd_snapshots db' = filter (\<lambda>x. gs_snapshot_key x \<noteq> k) (gd_snapshots db)"
    and "gd_nodes db' = filter (\<lambda>x. gn_snapshot_key x \<noteq> k) (gd_nodes db)"
    and "gd_edges db' = filter (\<lambda>x. ge_snapshot_key x \<noteq> k) (gd_edges db)"
    and "gd_user_version db' = gd_user_version db" and "gd_created db' = gd_created db"
    unfolding db' delete_nodes_statement_def delete_edges_statement_def Let_def
    using doomed ends by (auto cong: conj_cong filter_cong)
qed

lemma graph_inv_delete_snapshot:
  assumes "graph_inv db" and "delete_snapshot_statement k True db = Ok db'"
  shows "graph_inv db'"
  using assms(1) unfolding graph_inv_def delete_snapshot_tables[OF assms]
  by (auto simp: distinct_map_filter node_id_def edge_source_def edge_target_def image_iff)

section \<open>Transactions are atomic\<close>

text \<open>A transaction body runs inside the transaction it was started in: it never touches what is
  durable, and the transaction is still open if the body succeeds.\<close>

definition transactional :: "'a io \<Rightarrow> bool" where
  "transactional m =
     (\<forall>conn db r conn'. cn_saved conn = Some db \<longrightarrow> m conn = (r, conn') \<longrightarrow>
        durable conn' = db \<and> (\<forall>v. r = Ok v \<longrightarrow> cn_saved conn' = Some db))"

lemma transactionalI:
  assumes "\<And>conn db r conn'. cn_saved conn = Some db \<Longrightarrow> m conn = (r, conn') \<Longrightarrow>
    durable conn' = db \<and> (\<forall>v. r = Ok v \<longrightarrow> cn_saved conn' = Some db)"
  shows "transactional m"
  unfolding transactional_def using assms by blast

lemma transactionalD:
  assumes "transactional m" and "cn_saved conn = Some db" and "m conn = (r, conn')"
  shows "durable conn' = db" and "r = Ok v \<Longrightarrow> cn_saved conn' = Some db"
  using assms unfolding transactional_def by blast+

lemma transactional_return [store_simps]: "transactional (io_return a)"
  by (auto simp: transactional_def io_return_def durable_def)

lemma transactional_result [store_simps]: "transactional (io_result r)"
  by (auto simp: transactional_def io_result_def durable_def)

lemma transactional_bind:
  assumes "transactional m" and "\<And>a. transactional (f a)"
  shows "transactional (io_bind m f)"
proof (rule transactionalI)
  fix conn db r conn'
  assume open_db: "cn_saved conn = Some db" and run: "io_bind m f conn = (r, conn')"
  obtain r1 c1 where m: "m conn = (r1, c1)" by fastforce
  show "durable conn' = db \<and> (\<forall>v. r = Ok v \<longrightarrow> cn_saved conn' = Some db)"
  proof (cases r1)
    case (Inl e)
    then have "r = Err e" "conn' = c1" using m run by (simp_all add: io_bind_def)
    with transactionalD(1)[OF assms(1) open_db m] show ?thesis by simp
  next
    case (Inr a)
    have saved: "cn_saved c1 = Some db" by (rule transactionalD(2)[OF assms(1) open_db m Inr])
    have "f a c1 = (r, conn')" using run m Inr by (simp add: io_bind_def)
    from transactionalD[OF assms(2) saved this] show ?thesis by blast
  qed
qed

lemma transactional_then [store_simps]:
  "transactional m \<Longrightarrow> transactional k \<Longrightarrow> transactional (io_then m k)"
  by (simp add: io_then_def transactional_bind)

lemma transactional_for_each [store_simps]:
  "(\<And>x. x \<in> set xs \<Longrightarrow> transactional (f x)) \<Longrightarrow> transactional (for_each f xs)"
  by (induction xs) (auto simp: store_simps)

lemma next_fault_frame [simp]:
  "next_fault conn = (fault, conn') \<Longrightarrow> cn_saved conn' = cn_saved conn \<and> cn_db conn' = cn_db conn
     \<and> cn_foreign_keys conn' = cn_foreign_keys conn \<and> cn_read_fault conn' = cn_read_fault conn"
  by (auto simp: next_fault_def split: list.splits)

lemma durable_roll_back [simp]: "durable (roll_back conn) = durable conn"
  by (simp add: roll_back_def durable_def split: option.splits)

lemma transactional_execute [store_simps]: "transactional (execute statement)"
proof (rule transactionalI)
  fix conn db r conn'
  assume "cn_saved conn = Some db" and "execute statement conn = (r, conn')"
  then show "durable conn' = db \<and> (\<forall>v. r = Ok v \<longrightarrow> cn_saved conn' = Some db)"
    by (cases "next_fault conn")
      (auto simp: execute_def with_engine_def map_err_def durable_def roll_back_def
        dest!: next_fault_frame split: Fault.splits sum.splits option.splits if_splits)
qed

lemma transactional_read [store_simps]: "transactional (\<lambda>conn. (f conn, conn))"
  by (auto simp: transactional_def durable_def)

lemmas transactional_operations [store_simps] =
  transactional_execute[of "insert_node_statement n" for n, folded store_insert_node_def]
  transactional_execute[of "insert_edge_statement e" for e, folded store_insert_edge_def]
  transactional_execute[of "delete_snapshot_statement k" for k, folded delete_snapshot_def]

lemma transactional_insert_snapshot [store_simps]: "transactional (insert_snapshot sj r)"
  by (simp add: insert_snapshot_def store_simps)

subsection \<open>What begin, commit and rollback do\<close>

lemma begin_durable: "begin_immediate conn = (r, conn') \<Longrightarrow> durable conn' = durable conn"
  by (cases "next_fault conn")
    (auto simp: begin_immediate_def with_engine_def durable_def roll_back_def map_err_def
      dest!: next_fault_frame split: Fault.splits option.splits if_splits)

lemma begin_Ok:
  "begin_immediate conn = (Ok v, conn') \<Longrightarrow>
     cn_saved conn = None \<and> cn_saved conn' = Some (cn_db conn) \<and> cn_db conn' = cn_db conn
     \<and> cn_foreign_keys conn' = cn_foreign_keys conn \<and> cn_read_fault conn' = cn_read_fault conn"
  by (cases "next_fault conn")
    (auto simp: begin_immediate_def with_engine_def map_err_def
      dest!: next_fault_frame split: Fault.splits option.splits if_splits)

lemma rollback_durable: "durable (snd (rollback conn)) = durable conn"
  by (cases "next_fault conn")
    (auto simp: rollback_def with_engine_def durable_def roll_back_def map_err_def
      dest!: next_fault_frame split: Fault.splits option.splits if_splits)

lemma commit_Err: "commit conn = (Err e, conn') \<Longrightarrow> durable conn' = durable conn"
  by (cases "next_fault conn")
    (auto simp: commit_def with_engine_def durable_def roll_back_def map_err_def
      dest!: next_fault_frame split: Fault.splits option.splits if_splits)

lemma commit_Ok:
  "commit conn = (Ok v, conn') \<Longrightarrow>
     cn_saved conn' = None \<and> cn_db conn' = cn_db conn \<and> cn_foreign_keys conn' = cn_foreign_keys conn
     \<and> cn_read_fault conn' = cn_read_fault conn"
  by (cases "next_fault conn")
    (auto simp: commit_def with_engine_def map_err_def
      dest!: next_fault_frame split: Fault.splits option.splits if_splits)

subsection \<open>The contract of a transaction body\<close>

locale transaction_body =
  fixes body :: "'a io"
  assumes body_transactional: "transactional body"
begin

lemma body_durable:
  "cn_saved conn = Some db \<Longrightarrow> body conn = (r, conn') \<Longrightarrow> durable conn' = db"
  using body_transactional by (rule transactionalD)

lemma error_keeps_durable:
  assumes "with_transaction body conn = (Err e, conn')"
  shows "durable conn' = durable conn"
proof -
  obtain r1 c1 where b: "begin_immediate conn = (r1, c1)" by fastforce
  show ?thesis
  proof (cases r1)
    case (Inl err)
    then show ?thesis using assms b begin_durable
      by (auto simp: with_transaction_def io_then_def io_bind_def)
  next
    case (Inr v)
    obtain r2 c2 where o: "body c1 = (r2, c2)" by fastforce
    obtain r3 c3 where c: "commit c2 = (r3, c3)" by fastforce
    have d1: "durable c1 = durable conn" by (rule begin_durable[OF b])
    have "cn_saved c1 = Some (cn_db conn)" using b Inr begin_Ok by blast
    then have d2: "durable c2 = durable c1"
      using body_durable[OF _ o] by (simp add: durable_def)
    show ?thesis
      using assms b Inr o c d1 d2 commit_Err[of c2] rollback_durable[of c2] rollback_durable[of c3]
      by (auto simp: with_transaction_def io_then_def io_bind_def split: sum.splits)
  qed
qed

lemma success_commits_body:
  assumes "with_transaction body conn = (Ok v, conn')"
  obtains c1 c2 where "begin_immediate conn = (Ok (), c1)" and "body c1 = (Ok v, c2)"
    and "commit c2 = (Ok (), conn')" and "durable conn' = cn_db c2"
proof -
  obtain r1 c1 where b: "begin_immediate conn = (r1, c1)" by fastforce
  obtain r2 c2 where o: "body c1 = (r2, c2)" by fastforce
  obtain r3 c3 where c: "commit c2 = (r3, c3)" by fastforce
  have "r1 = Ok ()" "r2 = Ok v" "r3 = Ok ()" "c3 = conn'"
    using assms b o c
    by (auto simp: with_transaction_def io_then_def io_bind_def split: sum.splits)
  with b o c commit_Ok[of c2] show ?thesis
    by (intro that[of c1 c2]) (auto simp: durable_def)
qed

end

section \<open>Every reachable store is consistent\<close>

definition conn_inv :: "Connection \<Rightarrow> bool" where
  "conn_inv conn = (cn_foreign_keys conn \<and> graph_inv (cn_db conn) \<and> graph_inv (durable conn))"

lemma conn_inv_execute:
  assumes "\<And>db db'. graph_inv db \<Longrightarrow> statement True db = Ok db' \<Longrightarrow> graph_inv db'" and "conn_inv conn"
  shows "conn_inv (snd (execute statement conn))"
  using assms
  by (cases "next_fault conn")
    (auto simp: execute_def with_engine_def conn_inv_def durable_def roll_back_def map_err_def
      dest!: next_fault_frame split: Fault.splits sum.splits option.splits if_splits)

lemma conn_inv_then:
  assumes "conn_inv conn" and "conn_inv (snd (m conn))" and "\<And>c. conn_inv c \<Longrightarrow> conn_inv (snd (k c))"
  shows "conn_inv (snd (io_then m k conn))"
  using assms by (cases "m conn") (auto simp: io_then_def io_bind_def split: sum.splits)

lemma conn_inv_control:
  assumes "conn_inv conn"
  shows "conn_inv (snd (begin_immediate conn))" and "conn_inv (snd (commit conn))"
    and "conn_inv (snd (rollback conn))"
  using assms
  by (cases "next_fault conn";
      auto simp: begin_immediate_def commit_def rollback_def with_engine_def conn_inv_def durable_def
        roll_back_def map_err_def dest!: next_fault_frame split: Fault.splits option.splits)+

lemma conn_inv_writes:
  assumes "conn_inv conn"
  shows "conn_inv (snd (insert_snapshot sj r conn))" and "conn_inv (snd (delete_snapshot k conn))"
    and "conn_inv (snd (store_insert_node n conn))" and "conn_inv (snd (store_insert_edge e conn))"
    and "conn_inv (snd (delete_node k i conn))" and "conn_inv (snd (delete_edge k i conn))"
proof -
  have "conn_inv (snd (execute (insert_snapshot_statement r) c))" if "conn_inv c" for c
    by (rule conn_inv_execute[OF graph_inv_insert_snapshot that])
  then show "conn_inv (snd (insert_snapshot sj r conn))"
    unfolding insert_snapshot_def using assms by (intro conn_inv_then) (simp_all add: io_result_def)
  show "conn_inv (snd (delete_snapshot k conn))"
    unfolding delete_snapshot_def by (rule conn_inv_execute[OF graph_inv_delete_snapshot assms])
  show "conn_inv (snd (store_insert_node n conn))"
    unfolding store_insert_node_def by (rule conn_inv_execute[OF graph_inv_insert_node assms])
  show "conn_inv (snd (store_insert_edge e conn))"
    unfolding store_insert_edge_def by (rule conn_inv_execute[OF graph_inv_insert_edge assms])
  show "conn_inv (snd (delete_node k i conn))"
    unfolding delete_node_def using assms
    by (intro conn_inv_execute) (auto intro: graph_inv_delete_nodes)
  show "conn_inv (snd (delete_edge k i conn))"
    unfolding delete_edge_def using assms
    by (intro conn_inv_execute) (auto intro: graph_inv_delete_edges)
qed

subsection \<open>Opening\<close>

definition same_rows :: "GraphDb \<Rightarrow> GraphDb \<Rightarrow> bool" where
  "same_rows a b =
     (gd_snapshots a = gd_snapshots b \<and> gd_nodes a = gd_nodes b \<and> gd_edges a = gd_edges b)"

lemma execute_Ok:
  assumes "execute statement conn = (Ok v, conn')"
  obtains db where "statement (cn_foreign_keys conn) (cn_db conn) = Ok db" and "cn_db conn' = db"
    and "cn_saved conn' = cn_saved conn" and "cn_foreign_keys conn' = cn_foreign_keys conn"
    and "cn_read_fault conn' = cn_read_fault conn"
  using assms
  by (cases "next_fault conn")
    (auto simp: execute_def with_engine_def map_err_def
      dest!: next_fault_frame split: Fault.splits sum.splits)

lemma io_then_assoc: "io_then (io_then a b) k = io_then a (io_then b k)"
  by (intro ext) (auto simp: io_then_def io_bind_def split: prod.splits sum.splits)

lemma io_then_Ok:
  "io_then m k conn = (Ok v, conn') \<Longrightarrow> (\<exists>u c. m conn = (Ok u, c) \<and> k c = (Ok v, conn'))"
  by (cases "m conn") (auto simp: io_then_def io_bind_def split: sum.splits)

lemma create_if_not_exists_rows:
  "create_if_not_exists name fk db = Ok db' \<Longrightarrow> same_rows db' db \<and> gd_user_version db' = gd_user_version db"
  by (auto simp: create_if_not_exists_def same_rows_def split: if_splits)

lemma create_objects_Ok:
  "for_each (\<lambda>name. execute (create_if_not_exists name)) names conn = (Ok v, conn') \<Longrightarrow>
     same_rows (cn_db conn') (cn_db conn) \<and> gd_user_version (cn_db conn') = gd_user_version (cn_db conn)
     \<and> cn_saved conn' = cn_saved conn \<and> cn_foreign_keys conn' = cn_foreign_keys conn"
proof (induction names arbitrary: conn)
  case (Cons name names)
  then obtain u c where c: "execute (create_if_not_exists name) conn = (Ok u, c)"
    and rest: "for_each (\<lambda>name. execute (create_if_not_exists name)) names c = (Ok v, conn')"
    using io_then_Ok by fastforce
  show ?case
    using Cons.IH[OF rest]
    by (rule_tac execute_Ok[OF c]) (auto simp: same_rows_def dest!: create_if_not_exists_rows)
qed (simp add: io_return_def same_rows_def)

lemma migration_batch_Ok:
  assumes "migration_batch conn = (Ok v, conn')"
  shows "cn_saved conn = None \<and> cn_saved conn' = None \<and> cn_foreign_keys conn' = cn_foreign_keys conn
    \<and> same_rows (cn_db conn') (cn_db conn) \<and> gd_user_version (cn_db conn') = 2"
proof -
  obtain u1 c1 u2 c2 u3 c3 where b: "begin_immediate conn = (Ok u1, c1)"
    and o: "for_each (\<lambda>name. execute (create_if_not_exists name)) migration_objects c1 = (Ok u2, c2)"
    and v: "execute (\<lambda>_ db. Ok (db\<lparr>gd_user_version := 2\<rparr>)) c2 = (Ok u3, c3)"
    and c: "commit c3 = (Ok v, conn')"
    using assms unfolding migration_batch_def by (blast dest: io_then_Ok)
  have "cn_db c3 = (cn_db c2)\<lparr>gd_user_version := 2\<rparr> \<and> cn_foreign_keys c3 = cn_foreign_keys c2"
    by (rule execute_Ok[OF v]) simp
  then show ?thesis
    using begin_Ok[OF b] create_objects_Ok[OF o] commit_Ok[OF c] by (auto simp: same_rows_def)
qed

lemma migration_batch_Err:
  assumes "migration_batch conn = (Err e, conn')"
  shows "durable conn' = durable conn"
proof -
  obtain r1 c1 where b: "begin_immediate conn = (r1, c1)" by fastforce
  define work where "work = io_then (for_each (\<lambda>name. execute (create_if_not_exists name)) migration_objects)
      (execute (\<lambda>_ db. Ok (db\<lparr>gd_user_version := 2\<rparr>)))"
  obtain r2 c2 where w: "work c1 = (r2, c2)" by fastforce
  have run: "migration_batch = io_then begin_immediate (io_then work commit)"
    by (simp add: migration_batch_def work_def io_then_assoc)
  show ?thesis
  proof (cases r1)
    case (Inl err)
    then show ?thesis using assms b begin_durable unfolding run by (auto simp: io_then_def io_bind_def)
  next
    case (Inr u)
    have t: "transactional work" by (simp add: work_def store_simps)
    have saved: "cn_saved c1 = Some (cn_db conn)" "cn_saved conn = None"
      using b Inr begin_Ok by blast+
    have d: "durable c2 = durable conn"
      using transactionalD(1)[OF t saved(1) w] saved(2) by (simp add: durable_def)
    show ?thesis
      using assms b Inr w d commit_Err[of c2] unfolding run
      by (cases "commit c2") (auto simp: io_then_def io_bind_def split: sum.splits)
  qed
qed

lemma enable_foreign_keys_frame:
  "enable_foreign_keys conn = (r, conn') \<Longrightarrow>
     durable conn' = durable conn \<and> (\<forall>v. r = Ok v \<longrightarrow> cn_foreign_keys conn' \<and> cn_db conn' = cn_db conn
       \<and> cn_saved conn' = cn_saved conn)"
  by (cases "next_fault conn")
    (auto simp: enable_foreign_keys_def with_engine_def map_err_def durable_def roll_back_def
      dest!: next_fault_frame split: Fault.splits option.splits if_splits)

lemma migrate_Ok:
  assumes "migrate conn = (Ok v, conn')"
  shows "cn_saved conn = None \<and> cn_saved conn' = None \<and> cn_foreign_keys conn'
    \<and> same_rows (cn_db conn') (cn_db conn) \<and> gd_user_version (cn_db conn') = GRAPH_STORE_SCHEMA_VERSION"
proof -
  obtain version where version: "schema_version conn = Ok version" "version \<le> GRAPH_STORE_SCHEMA_VERSION"
    using assms by (auto simp: migrate_def io_bind_def io_result_def split: sum.splits if_splits)
  obtain r c1 where e: "enable_foreign_keys conn = (r, c1)" by fastforce
  obtain m c2 where b: "migration_batch c1 = (m, c2)" by fastforce
  have "r = Ok ()" "m = Ok ()" "c2 = conn'"
    using assms version e b
    by (auto simp: migrate_def io_bind_def io_then_def split: sum.splits if_splits)
  then show ?thesis
    using enable_foreign_keys_frame[OF e] migration_batch_Ok[of c1 "()" conn'] b
    by (auto simp: GRAPH_STORE_SCHEMA_VERSION_def)
qed

lemma migrate_Err:
  assumes "migrate conn = (Err e, conn')"
  shows "durable conn' = durable conn"
proof -
  obtain r c1 where en: "enable_foreign_keys conn = (r, c1)" by fastforce
  obtain m c2 where b: "migration_batch c1 = (m, c2)" by fastforce
  show ?thesis
    using assms en b enable_foreign_keys_frame[OF en] migration_batch_Err[of c1] rollback_durable[of c2]
    by (auto simp: migrate_def io_bind_def io_then_def io_result_def Let_def split: sum.splits if_splits)
qed

lemma conn_inv_opened:
  assumes "from_connection conn = Ok store" and "graph_inv (cn_db conn)"
  shows "conn_inv store"
proof -
  obtain v where "migrate conn = (Ok v, store)"
    using assms(1) by (auto simp: from_connection_def try_with_Ok_iff split: prod.splits)
  from migrate_Ok[OF this] assms(2) show ?thesis
    by (auto simp: conn_inv_def durable_def graph_inv_def same_rows_def)
qed

subsection \<open>Reachable states\<close>

inductive store_step :: "serde \<Rightarrow> Connection \<Rightarrow> Connection \<Rightarrow> bool" for sj where
  step_begin: "store_step sj c (snd (begin_immediate c))"
| step_commit: "store_step sj c (snd (commit c))"
| step_rollback: "store_step sj c (snd (rollback c))"
| step_insert_snapshot: "store_step sj c (snd (insert_snapshot sj r c))"
| step_delete_snapshot: "store_step sj c (snd (delete_snapshot k c))"
| step_insert_node: "store_step sj c (snd (store_insert_node n c))"
| step_delete_node: "store_step sj c (snd (delete_node k i c))"
| step_insert_edge: "store_step sj c (snd (store_insert_edge e c))"
| step_delete_edge: "store_step sj c (snd (delete_edge k i c))"

inductive store_reachable :: "serde \<Rightarrow> GraphDb \<Rightarrow> Connection \<Rightarrow> bool" for sj db where
  opened: "cn_db conn = db \<Longrightarrow> from_connection conn = Ok store \<Longrightarrow> store_reachable sj db store"
| stepped: "store_reachable sj db c \<Longrightarrow> store_step sj c c' \<Longrightarrow> store_reachable sj db c'"

inductive_cases store_stepE: "store_step sj c c'"

lemma store_step_inv: "store_step sj c c' \<Longrightarrow> conn_inv c \<Longrightarrow> conn_inv c'"
  by (auto elim!: store_stepE simp: conn_inv_control conn_inv_writes)

lemma store_reachable_inv:
  "store_reachable sj db c \<Longrightarrow> graph_inv db \<Longrightarrow> conn_inv c"
  by (induction rule: store_reachable.induct) (auto intro: conn_inv_opened store_step_inv)

section \<open>Reading back what was written\<close>

lemma find_row_unique:
  assumes "distinct (map key rows)" and "r \<in> set rows" and "\<And>x. x \<in> set rows \<Longrightarrow> p x \<longleftrightarrow> key x = key r"
  shows "find_row p rows = Some r"
  using assms unfolding find_row_def
  by (induction rows) (auto simp: image_iff)

lemma find_upsert:
  assumes "distinct (map key rows)"
  shows "find_row (\<lambda>x. key x = k) (upsert key row rows) =
    (if k = key row then Some row else find_row (\<lambda>x. key x = k) rows)"
proof (cases "k = key row")
  case True
  then show ?thesis
    using find_row_unique[OF upsert_distinct[OF assms], of row row] by (simp add: set_upsert)
next
  case False
  have "List.find (\<lambda>x. key x = k) (map (\<lambda>x. if key x = key row then row else x) rows) =
      List.find (\<lambda>x. key x = k) rows"
    using False by (induction rows) auto
  moreover have "List.find (\<lambda>x. key x = k) (rows @ [row]) = List.find (\<lambda>x. key x = k) rows"
    using False by (induction rows) auto
  ultimately show ?thesis using False by (simp add: find_row_def upsert_def)
qed

lemma get_node_id:
  "get_node sk nk conn =
     (case cn_read_fault conn (ReadNode sk nk) of
        Some e \<Rightarrow> Err (Storage e)
      | None \<Rightarrow> Ok (find_row (\<lambda>x. node_id x = (sk, nk)) (gd_nodes (cn_db conn))))"
  by (simp add: get_node_def read_with_def node_id_def split: option.split)

lemma insert_statements_Ok:
  "insert_node_statement n fk db = Ok db' \<Longrightarrow> db' = db\<lparr>gd_nodes := upsert node_id n (gd_nodes db)\<rparr>"
  "insert_edge_statement e fk db = Ok db' \<Longrightarrow> db' = db\<lparr>gd_edges := upsert edge_id e (gd_edges db)\<rparr>"
  by (auto simp: insert_node_statement_def insert_edge_statement_def split: if_splits)

lemma inserted_node_rows:
  "store_insert_node n conn = (Ok v, conn') \<Longrightarrow>
     gd_nodes (cn_db conn') = upsert node_id n (gd_nodes (cn_db conn)) \<and> cn_read_fault conn' = cn_read_fault conn"
  unfolding store_insert_node_def
  by (elim execute_Ok) (auto dest!: insert_statements_Ok)

subsection \<open>Pages\<close>

lemma pages_cover:
  "concat (map (\<lambda>i. take l (drop (i * l) xs)) [0..<n]) = take (n * l) xs"
proof (induction n)
  case (Suc n)
  then show ?case using take_add[of "n * l" l xs] by (simp add: add.commute)
qed simp

text \<open>The rows a page request ranges over, in the order of the query.\<close>

definition page_rows :: "string \<Rightarrow> string option \<Rightarrow> string option \<Rightarrow> GraphDb \<Rightarrow> GraphNodeRecord list" where
  "page_rows snapshot_key label query db =
     (let rows = filter (node_in_page snapshot_key label (normalized_query query)) (gd_nodes db)
      in if label = None then sort_key (\<lambda>x. (gn_label x, gn_node_key x)) rows
         else sort_key gn_node_key rows)"

definition page_nodes ::
  "string \<Rightarrow> string option \<Rightarrow> string option \<Rightarrow> nat \<Rightarrow> nat \<Rightarrow> Connection \<Rightarrow> GraphNodeRecord list" where
  "page_nodes snapshot_key label query offset limit conn =
     (case find_nodes_page snapshot_key label query offset limit conn of
        Inl _ \<Rightarrow> [] | Inr (_, nodes) \<Rightarrow> nodes)"

lemma find_nodes_page_answer:
  assumes "\<And>q. cn_read_fault conn q = None"
  shows "find_nodes_page k label query offset limit conn =
    Ok (length (page_rows k label query (cn_db conn)),
        take (sqlite_limit limit) (drop (sqlite_offset offset) (page_rows k label query (cn_db conn))))"
  by (simp add: find_nodes_page_def page_rows_def read_with_def assms Let_def)

lemma mset_page_rows:
  "mset (page_rows k label query db) =
     mset (filter (node_in_page k label (normalized_query query)) (gd_nodes db))"
  by (simp add: page_rows_def Let_def)

section \<open>Properties\<close>

definition empty_db :: GraphDb where
  "empty_db = \<lparr>gd_user_version = 0, gd_created = [], gd_snapshots = [], gd_nodes = [], gd_edges = []\<rparr>"

definition sample_conn :: "GraphDb \<Rightarrow> Connection" where
  "sample_conn db =
     \<lparr>cn_db = db, cn_saved = None, cn_foreign_keys = False, cn_faults = [], cn_read_fault = (\<lambda>_. None)\<rparr>"

definition sample_node :: "string \<Rightarrow> GraphNodeRecord" where
  "sample_node k =
     \<lparr>gn_snapshot_key = ''s'', gn_node_key = k, gn_label = ''Table'', gn_display_name = Some k,
       gn_payload_json = ''{}''\<rparr>"

lemma graph_inv_empty: "graph_inv empty_db"
  by (simp add: graph_inv_def empty_db_def)

lemma empty_store_opens:
  "\<exists>store. from_connection (sample_conn empty_db) = Ok store"
  by (simp add: from_connection_def migrate_def sample_conn_def empty_db_def schema_version_def
      read_with_def io_bind_def io_then_def enable_foreign_keys_def with_engine_def next_fault_def
      GRAPH_STORE_SCHEMA_VERSION_def migration_batch_def migration_objects_def begin_immediate_def
      commit_def execute_def create_if_not_exists_def io_return_def map_err_def try_with_def Let_def)

text \<open>C8: referential integrity. Whatever operations run on an opened store, in whatever order,
  inside or outside transactions, and whatever statements the engine fails, the tables keep unique
  keys, every node belongs to a stored snapshot and every edge connects two stored nodes of its
  snapshot, both in the connection's view and in the durable database.\<close>

theorem store_integrity:
  assumes "store_reachable sj db conn" and "graph_inv db"
  shows "graph_inv (cn_db conn) \<and> graph_inv (durable conn)"
  using store_reachable_inv[OF assms] by (simp add: conn_inv_def)

theorem store_integrity_witness:
  "\<exists>sj conn. store_reachable sj empty_db conn \<and> graph_inv (cn_db conn) \<and> graph_inv (durable conn)"
proof -
  obtain sj :: serde where True by blast
  obtain store where "from_connection (sample_conn empty_db) = Ok store"
    using empty_store_opens by blast
  then have "store_reachable sj empty_db store"
    by (rule store_reachable.opened[rotated]) (simp add: sample_conn_def)
  then have "store_reachable sj empty_db (snd (store_insert_node (sample_node ''a'') store))"
    by (rule store_reachable.stepped) (rule store_step.step_insert_node)
  with store_integrity[OF this graph_inv_empty] show ?thesis by blast
qed

text \<open>C4: atomicity. When a transaction returns an error (the body failed, a statement failed, the
  engine rolled back by itself, the commit or even the rollback failed) the durable database is the
  one from before.\<close>

theorem transaction_error_atomic:
  assumes "transactional operation" and "with_transaction operation conn = (Err e, conn')"
  shows "durable conn' = durable conn"
  by (rule transaction_body.error_keeps_durable[OF transaction_body.intro[OF assms(1)] assms(2)])

theorem transaction_error_atomic_witness:
  "durable (snd (with_transaction (store_insert_node (sample_node ''a''))
     ((sample_conn empty_db)\<lparr>cn_foreign_keys := True\<rparr>))) = empty_db"
proof -
  let ?c = "(sample_conn empty_db)\<lparr>cn_foreign_keys := True\<rparr>"
  have "\<exists>e conn'. with_transaction (store_insert_node (sample_node ''a'')) ?c = (Err e, conn')"
    by (simp add: with_transaction_def io_then_def io_bind_def begin_immediate_def with_engine_def
        next_fault_def sample_conn_def store_insert_node_def execute_def insert_node_statement_def
        empty_db_def map_err_def Let_def)
  then obtain e conn' where run:
    "with_transaction (store_insert_node (sample_node ''a'')) ?c = (Err e, conn')" by blast
  have "transactional (store_insert_node (sample_node ''a''))" by (simp add: store_simps)
  from transaction_error_atomic[OF this run] run show ?thesis
    by (simp add: durable_def sample_conn_def)
qed

text \<open>C28: opening a store. A migration that succeeds leaves the rows alone, sets the supported
  schema version, enables the foreign keys and leaves no transaction open; one that fails, also
  because the file is of a newer version, leaves the durable database untouched.\<close>

theorem migration_outcome:
  "case migrate conn of
     (r, conn') \<Rightarrow>
       (case r of
          Inl e \<Rightarrow> durable conn' = durable conn
        | Inr _ \<Rightarrow> same_rows (durable conn') (durable conn)
            \<and> gd_user_version (durable conn') = GRAPH_STORE_SCHEMA_VERSION
            \<and> cn_foreign_keys conn' \<and> cn_saved conn' = None)"
  using migrate_Ok[of conn] migrate_Err[of conn]
  by (cases "migrate conn") (auto simp: durable_def same_rows_def split: sum.splits)

text \<open>Insert and lookup. After a node was inserted it is found under its key with the inserted
  content, and every other lookup answers as before.\<close>

lemma inserted_node_found:
  assumes "store_insert_node n conn = (Ok (), conn')" and "graph_inv (cn_db conn)"
    and "cn_read_fault conn (ReadNode sk nk) = None"
  shows "get_node sk nk conn' = (if (sk, nk) = node_id n then Ok (Some n) else get_node sk nk conn)"
proof -
  have "distinct (map node_id (gd_nodes (cn_db conn)))" using assms(2) by (simp add: graph_inv_def)
  from find_upsert[OF this, of "(sk, nk)" n] show ?thesis
    using inserted_node_rows[OF assms(1)] assms(3) by (simp add: get_node_id)
qed

text \<open>C29: paging is exact. Reading consecutive pages of a fixed positive size until the reported
  total is covered returns every matching node exactly once, and no page exceeds the limit.\<close>

theorem pages_partition_matches:
  assumes "\<And>q. cn_read_fault conn q = None" and "n * limit \<le> i64_MAX" and "0 < n"
    and "length (page_rows k label query (cn_db conn)) \<le> n * limit"
  shows "mset (concat (map (\<lambda>i. page_nodes k label query (i * limit) limit conn) [0..<n])) =
      mset (filter (node_in_page k label (normalized_query query)) (gd_nodes (cn_db conn)))"
proof -
  have l: "sqlite_limit limit = limit"
    using assms(2,3) by (simp add: sqlite_limit_def) (metis le_trans mult_le_mono1 nat_mult_1 Suc_leI One_nat_def)
  have o: "sqlite_offset (i * limit) = i * limit" if "i < n" for i
    using that assms(2) by (simp add: sqlite_offset_def) (meson le_trans mult_le_mono1 less_imp_le)
  have pages: "map (\<lambda>i. page_nodes k label query (i * limit) limit conn) [0..<n] =
      map (\<lambda>i. take limit (drop (i * limit) (page_rows k label query (cn_db conn)))) [0..<n]"
    by (simp add: page_nodes_def find_nodes_page_answer[OF assms(1)] l o)
  show ?thesis
    unfolding pages pages_cover using assms(4) by (simp add: mset_page_rows)
qed

theorem pages_partition_matches_witness:
  "mset (concat (map (\<lambda>i. page_nodes ''s'' None None (i * 1) 1
      (sample_conn (empty_db\<lparr>gd_nodes := [sample_node ''a'', sample_node ''b'']\<rparr>))) [0..<2])) =
   mset [sample_node ''a'', sample_node ''b'']"
  using pages_partition_matches[of
      "sample_conn (empty_db\<lparr>gd_nodes := [sample_node ''a'', sample_node ''b'']\<rparr>)" 2 1 "''s''" None None]
  by (simp add: sample_conn_def sample_node_def node_in_page_def normalized_query_def page_rows_def
      i64_MAX_def)

end
