(* ===== verification/Graph_Builder.thy ===== *)
theory Graph_Builder
  imports Graph_Store
begin

text \<open>
  The projection of a snapshot into the graph store,
  \<open>crates/database-memory-core/src/graph_builder.rs\<close>: one node per object, one edge per relationship,
  inside one transaction, with the node and edge counts of a certified snapshot checked before the
  commit. The loops of \<open>insert_schema_snapshot_graph_inner\<close> are one definition each.
\<close>

section \<open>Payloads\<close>

definition payload_json :: "serde \<Rightarrow> payload \<Rightarrow> string" where
  "payload_json sj p = to_text sj (to_value sj p)"

definition node_payload_json :: "serde \<Rightarrow> payload \<Rightarrow> ObjectAnnotation option \<Rightarrow> string" where
  "node_payload_json sj p annotation =
     (let val = to_value sj p;
          val = (case (annotation, val) of
                   (Some a, JObject object) \<Rightarrow>
                     JObject (bt_insert ''canonical_annotation'' (to_value sj (PAnnotation a)) object)
                 | _ \<Rightarrow> val)
      in to_text sj val)"

definition edge_payload :: "serde \<Rightarrow> string \<Rightarrow> string" where
  "edge_payload sj edge_type = to_text sj (to_value sj (PEdge edge_type))"

section \<open>Helpers\<close>

fun constraint_label :: "ConstraintKind \<Rightarrow> string" where
  "constraint_label ConstraintKind.PrimaryKey = ''PrimaryKey''"
| "constraint_label ConstraintKind.ForeignKey = ''ForeignKey''"
| "constraint_label Unique = ''UniqueConstraint''"
| "constraint_label Check = ''CheckConstraint''"

definition sorted_by_key :: "('a \<Rightarrow> ObjectKey) \<Rightarrow> 'a list \<Rightarrow> 'a list" where
  "sorted_by_key key items = sort_key (\<lambda>x. key_to_string (key x)) items"

definition sorted_keys :: "ObjectKey list \<Rightarrow> ObjectKey list" where
  "sorted_keys keys = sort_key key_to_string keys"

definition sorted_metadata_objects :: "MetadataObject list \<Rightarrow> MetadataObject list" where
  "sorted_metadata_objects objects = sort_key (\<lambda>x. key_to_string (mo_key x)) objects"

definition annotation_map :: "CanonicalMetadata option \<Rightarrow> (string, ObjectAnnotation) btree" where
  "annotation_map metadata =
     (case metadata of
        None \<Rightarrow> []
      | Some m \<Rightarrow> fold (\<lambda>a. bt_insert (key_to_string (an_object_key a)) a) (md_annotations m) [])"

definition annotation_for ::
  "(string, ObjectAnnotation) btree \<Rightarrow> ObjectKey \<Rightarrow> ObjectAnnotation option" where
  "annotation_for annotations key = bt_get annotations (key_to_string key)"

fun metadata_object_label :: "ObjectKind \<Rightarrow> string" where
  "metadata_object_label MaterializedView = ''MaterializedView''"
| "metadata_object_label ViewColumn = ''ViewColumn''"
| "metadata_object_label Sequence = ''Sequence''"
| "metadata_object_label RoutineParameter = ''RoutineParameter''"
| "metadata_object_label UserDefinedType = ''UserDefinedType''"
| "metadata_object_label Domain = ''Domain''"
| "metadata_object_label EnumValue = ''EnumValue''"
| "metadata_object_label Synonym = ''Synonym''"
| "metadata_object_label ExclusionConstraint = ''ExclusionConstraint''"
| "metadata_object_label Event = ''Event''"
| "metadata_object_label Package = ''Package''"
| "metadata_object_label Principal = ''Principal''"
| "metadata_object_label Policy = ''Policy''"
| "metadata_object_label ObjectKind.Extension = ''Extension''"
| "metadata_object_label _ = ''MetadataObject''"

definition builder_insert_node ::
  "serde \<Rightarrow> string \<Rightarrow> ObjectKey \<Rightarrow> string \<Rightarrow> string \<Rightarrow> payload \<Rightarrow> ObjectAnnotation option \<Rightarrow> unit io" where
  "builder_insert_node sj snapshot_key key label display_name p annotation =
     store_insert_node
       \<lparr>gn_snapshot_key = snapshot_key, gn_node_key = key_to_string key, gn_label = label,
         gn_display_name = Some display_name, gn_payload_json = node_payload_json sj p annotation\<rparr>"

definition builder_insert_edge ::
  "serde \<Rightarrow> string \<Rightarrow> string \<Rightarrow> ObjectKey \<Rightarrow> ObjectKey \<Rightarrow> unit io" where
  "builder_insert_edge sj snapshot_key edge_type from_key to_key =
     (let from = key_to_string from_key; to = key_to_string to_key
      in store_insert_edge
           \<lparr>ge_snapshot_key = snapshot_key, ge_edge_key = edge_type @ '':'' @ from @ ''->'' @ to,
             ge_edge_from = from, ge_edge_to = to, ge_edge_type = edge_type,
             ge_payload_json = edge_payload sj edge_type\<rparr>)"

definition insert_metadata_relationship ::
  "serde \<Rightarrow> string \<Rightarrow> MetadataRelationship \<Rightarrow> unit io" where
  "insert_metadata_relationship sj snapshot_key relationship =
     (let edge_type = graph_edge_type (rel_kind relationship);
          from = key_to_string (rel_from_key relationship);
          to = key_to_string (rel_to_key relationship);
          ordinal = (case rel_ordinal relationship of None \<Rightarrow> [] | Some n \<Rightarrow> show_nat n)
      in store_insert_edge
           \<lparr>ge_snapshot_key = snapshot_key,
             ge_edge_key = edge_type @ '':'' @ from @ ''->'' @ to @ '':'' @ ordinal,
             ge_edge_from = from, ge_edge_to = to, ge_edge_type = edge_type,
             ge_payload_json = payload_json sj (PRelationship relationship)\<rparr>)"

fun constraint_column_edge :: "ConstraintKind \<Rightarrow> string" where
  "constraint_column_edge ConstraintKind.PrimaryKey = ''COLUMN_IN_PRIMARY_KEY''"
| "constraint_column_edge ConstraintKind.ForeignKey = ''FK_FROM_COLUMN''"
| "constraint_column_edge Unique = ''COLUMN_IN_UNIQUE''"
| "constraint_column_edge Check = ''COLUMN_IN_CHECK''"

definition insert_constraint_edges :: "serde \<Rightarrow> string \<Rightarrow> ConstraintObject \<Rightarrow> unit io" where
  "insert_constraint_edges sj snapshot_key constraint =
     io_then (builder_insert_edge sj snapshot_key ''TABLE_HAS_CONSTRAINT'' (con_table_key constraint)
         (con_key constraint))
       (io_then
         (for_each (\<lambda>column_key. builder_insert_edge sj snapshot_key
             (constraint_column_edge (con_kind constraint)) column_key (con_key constraint))
           (sorted_keys (con_columns constraint)))
         (if con_kind constraint = ConstraintKind.ForeignKey
          then for_each (\<lambda>column_key. builder_insert_edge sj snapshot_key ''FK_TO_COLUMN''
              (con_key constraint) column_key)
            (sorted_keys (con_referenced_columns constraint))
          else io_return ()))"

section \<open>The loops of the projection\<close>

definition insert_object_nodes ::
  "serde \<Rightarrow> string \<Rightarrow> (string, ObjectAnnotation) btree \<Rightarrow> SchemaSnapshot \<Rightarrow> unit io" where
  "insert_object_nodes sj snapshot_key annotations snapshot =
     (let node = (\<lambda>key label name p.
            builder_insert_node sj snapshot_key key label name p (annotation_for annotations key))
      in io_then (node (db_key (snap_database snapshot)) ''Database''
             (db_name (snap_database snapshot)) (PDatabase (snap_database snapshot)))
         (io_then (for_each (\<lambda>x. node (sch_key x) ''Schema'' (sch_name x) (PSchema x))
             (sorted_by_key sch_key (snap_schemas snapshot)))
         (io_then (for_each (\<lambda>x. node (tbl_key x) ''Table'' (tbl_name x) (PTable x))
             (sorted_by_key tbl_key (snap_tables snapshot)))
         (io_then (for_each (\<lambda>x. node (col_key x) ''Column'' (col_name x) (PColumn x))
             (sorted_by_key col_key (snap_columns snapshot)))
         (io_then (for_each (\<lambda>x. node (con_key x) (constraint_label (con_kind x)) (con_name x)
               (PConstraint x))
             (sorted_by_key con_key (snap_constraints snapshot)))
         (io_then (for_each (\<lambda>x. node (idx_key x) ''Index'' (idx_name x) (PIndex x))
             (sorted_by_key idx_key (snap_indexes snapshot)))
         (io_then (for_each (\<lambda>x. node (view_key x) ''View'' (view_name x) (PView x))
             (sorted_by_key view_key (snap_views snapshot)))
         (io_then (for_each (\<lambda>x. node (trg_key x) ''Trigger'' (trg_name x) (PTrigger x))
             (sorted_by_key trg_key (snap_triggers snapshot)))
           (for_each (\<lambda>x. node (rtn_key x) ''Routine'' (rtn_name x) (PRoutine x))
             (sorted_by_key rtn_key (snap_routines snapshot)))))))))))"

definition insert_metadata_nodes ::
  "serde \<Rightarrow> string \<Rightarrow> (string, ObjectAnnotation) btree \<Rightarrow> CanonicalMetadata option \<Rightarrow> unit io" where
  "insert_metadata_nodes sj snapshot_key annotations metadata =
     (case metadata of
        None \<Rightarrow> io_return ()
      | Some m \<Rightarrow>
          for_each (\<lambda>x. builder_insert_node sj snapshot_key (mo_key x)
              (metadata_object_label (ok_object_kind (mo_key x))) (mo_name x) (PMetadata x)
              (annotation_for annotations (mo_key x)))
            (sorted_metadata_objects (md_objects m)))"

definition insert_index_edges :: "serde \<Rightarrow> string \<Rightarrow> IndexObject \<Rightarrow> unit io" where
  "insert_index_edges sj snapshot_key index =
     io_then (builder_insert_edge sj snapshot_key ''TABLE_HAS_INDEX'' (idx_table_key index)
         (idx_key index))
       (for_each (\<lambda>column_key. builder_insert_edge sj snapshot_key ''COLUMN_IN_INDEX'' column_key
           (idx_key index))
         (sorted_keys (idx_columns index)))"

fun view_dependency_edge :: "ObjectKind \<Rightarrow> string option" where
  "view_dependency_edge Table = Some ''VIEW_DEPENDS_ON_TABLE''"
| "view_dependency_edge Column = Some ''VIEW_DEPENDS_ON_COLUMN''"
| "view_dependency_edge View = Some ''VIEW_DEPENDS_ON_VIEW''"
| "view_dependency_edge _ = None"

fun routine_dependency_edge :: "ObjectKind \<Rightarrow> string option" where
  "routine_dependency_edge Table = Some ''ROUTINE_DEPENDS_ON_TABLE''"
| "routine_dependency_edge Column = Some ''ROUTINE_DEPENDS_ON_COLUMN''"
| "routine_dependency_edge _ = None"

definition insert_dependency_edge ::
  "serde \<Rightarrow> string \<Rightarrow> (ObjectKind \<Rightarrow> string option) \<Rightarrow> ObjectKey \<Rightarrow> ObjectKey \<Rightarrow> unit io" where
  "insert_dependency_edge sj snapshot_key edge_for owner dependency =
     (case edge_for (ok_object_kind dependency) of
        Some edge_type \<Rightarrow> builder_insert_edge sj snapshot_key edge_type owner dependency
      | None \<Rightarrow> io_return ())"

definition insert_view_edges :: "serde \<Rightarrow> string \<Rightarrow> ViewObject \<Rightarrow> unit io" where
  "insert_view_edges sj snapshot_key view =
     io_then (builder_insert_edge sj snapshot_key ''SCHEMA_HAS_VIEW'' (view_schema_key view)
         (view_key view))
       (for_each (insert_dependency_edge sj snapshot_key view_dependency_edge (view_key view))
         (sorted_keys (view_depends_on view)))"

definition insert_trigger_edges :: "serde \<Rightarrow> string \<Rightarrow> TriggerObject \<Rightarrow> unit io" where
  "insert_trigger_edges sj snapshot_key trigger =
     (let (owner_edge, target_edge) =
            (if ok_object_kind (trg_table_key trigger) = View
             then (''VIEW_HAS_TRIGGER'', ''TRIGGER_ON_VIEW'')
             else (''TABLE_HAS_TRIGGER'', ''TRIGGER_ON_TABLE''))
      in io_then (builder_insert_edge sj snapshot_key owner_edge (trg_table_key trigger)
             (trg_key trigger))
           (io_then (builder_insert_edge sj snapshot_key target_edge (trg_key trigger)
               (trg_table_key trigger))
             (case trg_executes_routine_key trigger of
                Some routine_key \<Rightarrow>
                  builder_insert_edge sj snapshot_key ''TRIGGER_EXECUTES_ROUTINE'' (trg_key trigger)
                    routine_key
              | None \<Rightarrow> io_return ())))"

definition insert_routine_edges :: "serde \<Rightarrow> string \<Rightarrow> RoutineObject \<Rightarrow> unit io" where
  "insert_routine_edges sj snapshot_key routine =
     io_then (builder_insert_edge sj snapshot_key ''SCHEMA_HAS_ROUTINE'' (rtn_schema_key routine)
         (rtn_key routine))
       (for_each (insert_dependency_edge sj snapshot_key routine_dependency_edge (rtn_key routine))
         (sorted_keys (rtn_depends_on routine)))"

definition insert_object_edges :: "serde \<Rightarrow> string \<Rightarrow> SchemaSnapshot \<Rightarrow> unit io" where
  "insert_object_edges sj snapshot_key snapshot =
     io_then (for_each (\<lambda>x. builder_insert_edge sj snapshot_key ''DATABASE_HAS_SCHEMA''
           (sch_database_key x) (sch_key x)) (sorted_by_key sch_key (snap_schemas snapshot)))
     (io_then (for_each (\<lambda>x. builder_insert_edge sj snapshot_key ''SCHEMA_HAS_TABLE''
           (tbl_schema_key x) (tbl_key x)) (sorted_by_key tbl_key (snap_tables snapshot)))
     (io_then (for_each (\<lambda>x. builder_insert_edge sj snapshot_key ''TABLE_HAS_COLUMN''
           (col_table_key x) (col_key x)) (sorted_by_key col_key (snap_columns snapshot)))
     (io_then (for_each (insert_constraint_edges sj snapshot_key)
           (sorted_by_key con_key (snap_constraints snapshot)))
     (io_then (for_each (insert_index_edges sj snapshot_key)
           (sorted_by_key idx_key (snap_indexes snapshot)))
     (io_then (for_each (insert_view_edges sj snapshot_key)
           (sorted_by_key view_key (snap_views snapshot)))
     (io_then (for_each (insert_trigger_edges sj snapshot_key)
           (sorted_by_key trg_key (snap_triggers snapshot)))
       (for_each (insert_routine_edges sj snapshot_key)
           (sorted_by_key rtn_key (snap_routines snapshot)))))))))"

definition insert_metadata_edges ::
  "serde \<Rightarrow> string \<Rightarrow> CanonicalMetadata option \<Rightarrow> unit io" where
  "insert_metadata_edges sj snapshot_key metadata =
     (case metadata of
        None \<Rightarrow> io_return ()
      | Some m \<Rightarrow>
          io_then
            (for_each (\<lambda>x. case mo_parent_key x of
                 Some parent_key \<Rightarrow>
                   builder_insert_edge sj snapshot_key ''METADATA_PARENT'' parent_key (mo_key x)
               | None \<Rightarrow> io_return ())
              (sorted_metadata_objects (md_objects m)))
            (for_each (insert_metadata_relationship sj snapshot_key)
              (sort_key (\<lambda>r. (graph_edge_type (rel_kind r), key_to_string (rel_from_key r),
                  key_to_string (rel_to_key r), rel_ordinal r)) (md_relationships m))))"

definition insert_schema_snapshot_graph_inner ::
  "serde \<Rightarrow> string \<Rightarrow> int \<Rightarrow> SchemaSnapshot \<Rightarrow> payload \<Rightarrow> CanonicalMetadata option \<Rightarrow> unit io" where
  "insert_schema_snapshot_graph_inner sj snapshot_key captured_at_unix_ms snapshot snapshot_payload
     metadata =
     (let annotations = annotation_map metadata
      in io_then (delete_snapshot snapshot_key)
         (io_then (insert_snapshot sj
             \<lparr>gs_snapshot_key = snapshot_key,
               gs_source = Some (snap_source_kind snapshot @ '':'' @ snap_connection_alias snapshot),
               gs_captured_at_unix_ms = captured_at_unix_ms,
               gs_payload_json = payload_json sj snapshot_payload\<rparr>)
         (io_then (insert_object_nodes sj snapshot_key annotations snapshot)
         (io_then (insert_metadata_nodes sj snapshot_key annotations metadata)
         (io_then (insert_object_edges sj snapshot_key snapshot)
           (insert_metadata_edges sj snapshot_key metadata))))))"

section \<open>Entry points\<close>

record CertifiedGraphProjectionCounts =
  prc_objects :: nat
  prc_semantic_relationships :: nat
  prc_graph_edges :: nat

definition certified_graph_projection_counts ::
  "CertifiedSchemaSnapshot \<Rightarrow> CertifiedGraphProjectionCounts" where
  "certified_graph_projection_counts certified =
     (let proof = cert_completeness certified;
          schema = can_schema (cert_snapshot certified);
          objects = sum_list (map cnt_emitted (prf_object_counts proof));
          semantic_relationships = sum_list (map cnt_emitted (prf_relationship_counts proof));
          foreign_key_pairs =
            sum_list (map (\<lambda>constraint. length (con_columns constraint))
              (filter (\<lambda>constraint. con_kind constraint = ConstraintKind.ForeignKey)
                (snap_constraints schema)));
          trigger_targets = length (snap_triggers schema)
      in \<lparr>prc_objects = objects, prc_semantic_relationships = semantic_relationships,
           prc_graph_edges = semantic_relationships + foreign_key_pairs + trigger_targets\<rparr>)"

definition verify_projection_counts :: "string \<Rightarrow> nat \<Rightarrow> nat \<Rightarrow> unit io" where
  "verify_projection_counts snapshot_key expected_nodes expected_edges =
     io_bind (\<lambda>conn. (node_count_for_snapshot snapshot_key conn, conn)) (\<lambda>actual_nodes.
     io_bind (\<lambda>conn. (edge_count_for_snapshot snapshot_key conn, conn)) (\<lambda>actual_edges.
       if actual_nodes \<noteq> expected_nodes \<or> actual_edges \<noteq> expected_edges
       then io_result
         (Err (ProjectionMismatch expected_nodes actual_nodes expected_edges actual_edges))
       else io_return ()))"

definition insert_schema_snapshot_graph ::
  "serde \<Rightarrow> string \<Rightarrow> int \<Rightarrow> SchemaSnapshot \<Rightarrow> unit io" where
  "insert_schema_snapshot_graph sj snapshot_key captured_at_unix_ms snapshot =
     io_then (io_result (map_err InvalidSnapshot (validate_schema_snapshot snapshot)))
       (with_transaction
         (insert_schema_snapshot_graph_inner sj snapshot_key captured_at_unix_ms snapshot
           (PSnapshot snapshot) None))"

definition insert_certified_body ::
  "serde \<Rightarrow> string \<Rightarrow> int \<Rightarrow> CertifiedSchemaSnapshot \<Rightarrow> unit io" where
  "insert_certified_body sj snapshot_key captured_at_unix_ms certified =
     (let counts = certified_graph_projection_counts certified
      in io_then
           (insert_schema_snapshot_graph_inner sj snapshot_key captured_at_unix_ms
             (can_schema (cert_snapshot certified)) (PCertified certified)
             (Some (can_metadata (cert_snapshot certified))))
           (verify_projection_counts snapshot_key (prc_objects counts) (prc_graph_edges counts)))"

definition insert_certified_schema_snapshot_graph ::
  "serde \<Rightarrow> string \<Rightarrow> int \<Rightarrow> CertifiedSchemaSnapshot \<Rightarrow> unit io" where
  "insert_certified_schema_snapshot_graph sj snapshot_key captured_at_unix_ms certified =
     io_then (io_result (map_err InvalidCertification (verify_certified_schema_snapshot certified)))
       (with_transaction (insert_certified_body sj snapshot_key captured_at_unix_ms certified))"

section \<open>The projection as two lists\<close>

subsection \<open>Loops and sequences\<close>

lemma io_then_return [simp]: "io_then (io_return ()) k = k"
  by (simp add: io_then_def io_bind_def io_return_def fun_eq_iff)

lemma io_then_unit [simp]: "io_then m (io_return ()) = m"
  by (intro ext) (auto simp: io_then_def io_bind_def io_return_def split: prod.splits sum.splits)

lemma for_each_append: "for_each f (xs @ ys) = io_then (for_each f xs) (for_each f ys)"
  by (induction xs) (simp_all add: io_then_assoc)

lemma for_each_map: "for_each f (map g xs) = for_each (\<lambda>x. f (g x)) xs"
  by (induction xs) simp_all

lemma for_each_concat: "for_each f (concat (map g xs)) = for_each (\<lambda>x. for_each f (g x)) xs"
  by (induction xs) (simp_all add: for_each_append)

subsection \<open>The rows\<close>

definition node_record ::
  "serde \<Rightarrow> string \<Rightarrow> (string, ObjectAnnotation) btree \<Rightarrow> ObjectKey \<Rightarrow> string \<Rightarrow> string \<Rightarrow> payload
    \<Rightarrow> GraphNodeRecord" where
  "node_record sj sk annotations key label name p =
     \<lparr>gn_snapshot_key = sk, gn_node_key = key_to_string key, gn_label = label,
       gn_display_name = Some name,
       gn_payload_json = node_payload_json sj p (annotation_for annotations key)\<rparr>"

definition projected_nodes ::
  "serde \<Rightarrow> string \<Rightarrow> SchemaSnapshot \<Rightarrow> CanonicalMetadata option \<Rightarrow> GraphNodeRecord list" where
  "projected_nodes sj sk s metadata =
     (let node = node_record sj sk (annotation_map metadata) in
      node (db_key (snap_database s)) ''Database'' (db_name (snap_database s)) (PDatabase (snap_database s))
      # map (\<lambda>x. node (sch_key x) ''Schema'' (sch_name x) (PSchema x)) (sorted_by_key sch_key (snap_schemas s))
      @ map (\<lambda>x. node (tbl_key x) ''Table'' (tbl_name x) (PTable x)) (sorted_by_key tbl_key (snap_tables s))
      @ map (\<lambda>x. node (col_key x) ''Column'' (col_name x) (PColumn x)) (sorted_by_key col_key (snap_columns s))
      @ map (\<lambda>x. node (con_key x) (constraint_label (con_kind x)) (con_name x) (PConstraint x))
          (sorted_by_key con_key (snap_constraints s))
      @ map (\<lambda>x. node (idx_key x) ''Index'' (idx_name x) (PIndex x)) (sorted_by_key idx_key (snap_indexes s))
      @ map (\<lambda>x. node (view_key x) ''View'' (view_name x) (PView x)) (sorted_by_key view_key (snap_views s))
      @ map (\<lambda>x. node (trg_key x) ''Trigger'' (trg_name x) (PTrigger x))
          (sorted_by_key trg_key (snap_triggers s))
      @ map (\<lambda>x. node (rtn_key x) ''Routine'' (rtn_name x) (PRoutine x))
          (sorted_by_key rtn_key (snap_routines s))
      @ (case metadata of
           None \<Rightarrow> []
         | Some m \<Rightarrow> map (\<lambda>x. node (mo_key x) (metadata_object_label (ok_object_kind (mo_key x)))
               (mo_name x) (PMetadata x)) (sorted_metadata_objects (md_objects m))))"

definition edge_record :: "serde \<Rightarrow> string \<Rightarrow> string \<Rightarrow> ObjectKey \<Rightarrow> ObjectKey \<Rightarrow> GraphEdgeRecord" where
  "edge_record sj sk edge_type from to =
     \<lparr>ge_snapshot_key = sk,
       ge_edge_key = edge_type @ '':'' @ key_to_string from @ ''->'' @ key_to_string to,
       ge_edge_from = key_to_string from, ge_edge_to = key_to_string to, ge_edge_type = edge_type,
       ge_payload_json = edge_payload sj edge_type\<rparr>"

definition relationship_record :: "serde \<Rightarrow> string \<Rightarrow> MetadataRelationship \<Rightarrow> GraphEdgeRecord" where
  "relationship_record sj sk r =
     \<lparr>ge_snapshot_key = sk,
       ge_edge_key = graph_edge_type (rel_kind r) @ '':'' @ key_to_string (rel_from_key r) @ ''->''
         @ key_to_string (rel_to_key r) @ '':''
         @ (case rel_ordinal r of None \<Rightarrow> [] | Some n \<Rightarrow> show_nat n),
       ge_edge_from = key_to_string (rel_from_key r), ge_edge_to = key_to_string (rel_to_key r),
       ge_edge_type = graph_edge_type (rel_kind r),
       ge_payload_json = payload_json sj (PRelationship r)\<rparr>"

definition constraint_edges :: "serde \<Rightarrow> string \<Rightarrow> ConstraintObject \<Rightarrow> GraphEdgeRecord list" where
  "constraint_edges sj sk x =
     edge_record sj sk ''TABLE_HAS_CONSTRAINT'' (con_table_key x) (con_key x)
     # map (\<lambda>c. edge_record sj sk (constraint_column_edge (con_kind x)) c (con_key x))
         (sorted_keys (con_columns x))
     @ (if con_kind x = ConstraintKind.ForeignKey
        then map (edge_record sj sk ''FK_TO_COLUMN'' (con_key x)) (sorted_keys (con_referenced_columns x))
        else [])"

definition index_edges :: "serde \<Rightarrow> string \<Rightarrow> IndexObject \<Rightarrow> GraphEdgeRecord list" where
  "index_edges sj sk x =
     edge_record sj sk ''TABLE_HAS_INDEX'' (idx_table_key x) (idx_key x)
     # map (\<lambda>c. edge_record sj sk ''COLUMN_IN_INDEX'' c (idx_key x)) (sorted_keys (idx_columns x))"

definition dependency_edges ::
  "serde \<Rightarrow> string \<Rightarrow> (ObjectKind \<Rightarrow> string option) \<Rightarrow> ObjectKey \<Rightarrow> ObjectKey list \<Rightarrow> GraphEdgeRecord list" where
  "dependency_edges sj sk edge_for owner ds =
     concat (map (\<lambda>d. case edge_for (ok_object_kind d) of
         None \<Rightarrow> [] | Some t \<Rightarrow> [edge_record sj sk t owner d]) (sorted_keys ds))"

definition view_edges :: "serde \<Rightarrow> string \<Rightarrow> ViewObject \<Rightarrow> GraphEdgeRecord list" where
  "view_edges sj sk x =
     edge_record sj sk ''SCHEMA_HAS_VIEW'' (view_schema_key x) (view_key x)
     # dependency_edges sj sk view_dependency_edge (view_key x) (view_depends_on x)"

definition trigger_edges :: "serde \<Rightarrow> string \<Rightarrow> TriggerObject \<Rightarrow> GraphEdgeRecord list" where
  "trigger_edges sj sk x =
     (let on_view = (ok_object_kind (trg_table_key x) = View) in
      edge_record sj sk (if on_view then ''VIEW_HAS_TRIGGER'' else ''TABLE_HAS_TRIGGER'')
        (trg_table_key x) (trg_key x)
      # edge_record sj sk (if on_view then ''TRIGGER_ON_VIEW'' else ''TRIGGER_ON_TABLE'')
          (trg_key x) (trg_table_key x)
      # (case trg_executes_routine_key x of
           None \<Rightarrow> []
         | Some r \<Rightarrow> [edge_record sj sk ''TRIGGER_EXECUTES_ROUTINE'' (trg_key x) r]))"

definition routine_edges :: "serde \<Rightarrow> string \<Rightarrow> RoutineObject \<Rightarrow> GraphEdgeRecord list" where
  "routine_edges sj sk x =
     edge_record sj sk ''SCHEMA_HAS_ROUTINE'' (rtn_schema_key x) (rtn_key x)
     # dependency_edges sj sk routine_dependency_edge (rtn_key x) (rtn_depends_on x)"

definition parent_edges :: "serde \<Rightarrow> string \<Rightarrow> MetadataObject \<Rightarrow> GraphEdgeRecord list" where
  "parent_edges sj sk x =
     (case mo_parent_key x of
        None \<Rightarrow> [] | Some p \<Rightarrow> [edge_record sj sk ''METADATA_PARENT'' p (mo_key x)])"

definition projected_edges ::
  "serde \<Rightarrow> string \<Rightarrow> SchemaSnapshot \<Rightarrow> CanonicalMetadata option \<Rightarrow> GraphEdgeRecord list" where
  "projected_edges sj sk s metadata =
     map (\<lambda>x. edge_record sj sk ''DATABASE_HAS_SCHEMA'' (sch_database_key x) (sch_key x))
       (sorted_by_key sch_key (snap_schemas s))
     @ map (\<lambda>x. edge_record sj sk ''SCHEMA_HAS_TABLE'' (tbl_schema_key x) (tbl_key x))
         (sorted_by_key tbl_key (snap_tables s))
     @ map (\<lambda>x. edge_record sj sk ''TABLE_HAS_COLUMN'' (col_table_key x) (col_key x))
         (sorted_by_key col_key (snap_columns s))
     @ concat (map (constraint_edges sj sk) (sorted_by_key con_key (snap_constraints s)))
     @ concat (map (index_edges sj sk) (sorted_by_key idx_key (snap_indexes s)))
     @ concat (map (view_edges sj sk) (sorted_by_key view_key (snap_views s)))
     @ concat (map (trigger_edges sj sk) (sorted_by_key trg_key (snap_triggers s)))
     @ concat (map (routine_edges sj sk) (sorted_by_key rtn_key (snap_routines s)))
     @ (case metadata of
          None \<Rightarrow> []
        | Some m \<Rightarrow> concat (map (parent_edges sj sk) (sorted_metadata_objects (md_objects m)))
            @ map (relationship_record sj sk)
                (sort_key (\<lambda>r. (graph_edge_type (rel_kind r), key_to_string (rel_from_key r),
                    key_to_string (rel_to_key r), rel_ordinal r)) (md_relationships m)))"

subsection \<open>The loops insert exactly these rows\<close>

lemma builder_rows:
  "builder_insert_node sj sk key label name p (annotation_for anns key) =
     store_insert_node (node_record sj sk anns key label name p)"
  "builder_insert_edge sj sk t from to = store_insert_edge (edge_record sj sk t from to)"
  "insert_metadata_relationship sj sk r = store_insert_edge (relationship_record sj sk r)"
  by (simp_all add: builder_insert_node_def node_record_def builder_insert_edge_def edge_record_def
      insert_metadata_relationship_def relationship_record_def Let_def)

lemmas for_each_rows = for_each_append for_each_map for_each_concat io_then_assoc builder_rows

lemma insert_nodes_rows:
  "io_then (insert_object_nodes sj sk (annotation_map metadata) s)
     (insert_metadata_nodes sj sk (annotation_map metadata) metadata) =
   for_each store_insert_node (projected_nodes sj sk s metadata)"
  by (simp add: insert_object_nodes_def insert_metadata_nodes_def projected_nodes_def for_each_rows Let_def
      split: option.splits)

lemma insert_item_edges_rows:
  "insert_constraint_edges sj sk c = for_each store_insert_edge (constraint_edges sj sk c)"
  "insert_index_edges sj sk i = for_each store_insert_edge (index_edges sj sk i)"
  "insert_trigger_edges sj sk t = for_each store_insert_edge (trigger_edges sj sk t)"
  by (auto simp: insert_constraint_edges_def constraint_edges_def insert_index_edges_def index_edges_def
      insert_trigger_edges_def trigger_edges_def for_each_rows Let_def split: option.splits)

lemma insert_dependency_edge_rows:
  "insert_dependency_edge sj sk edge_for owner d =
     for_each store_insert_edge (case edge_for (ok_object_kind d) of
       None \<Rightarrow> [] | Some t \<Rightarrow> [edge_record sj sk t owner d])"
  by (simp add: insert_dependency_edge_def builder_rows split: option.split)

lemma insert_dependent_edges_rows:
  "insert_view_edges sj sk v = for_each store_insert_edge (view_edges sj sk v)"
  "insert_routine_edges sj sk r = for_each store_insert_edge (routine_edges sj sk r)"
  by (simp_all add: insert_view_edges_def view_edges_def insert_routine_edges_def routine_edges_def
      dependency_edges_def for_each_concat insert_dependency_edge_rows[abs_def] builder_rows)

lemma insert_parent_edge_rows:
  "(case mo_parent_key x of
      Some parent_key \<Rightarrow> builder_insert_edge sj sk ''METADATA_PARENT'' parent_key (mo_key x)
    | None \<Rightarrow> io_return ()) = for_each store_insert_edge (parent_edges sj sk x)"
  by (simp add: parent_edges_def builder_rows split: option.split)

lemma insert_edges_rows:
  "io_then (insert_object_edges sj sk s) (insert_metadata_edges sj sk metadata) =
   for_each store_insert_edge (projected_edges sj sk s metadata)"
proof -
  have objects: "insert_object_edges sj sk s = for_each store_insert_edge (projected_edges sj sk s None)"
    by (simp add: insert_object_edges_def projected_edges_def for_each_rows
        insert_item_edges_rows[abs_def] insert_dependent_edges_rows[abs_def])
  show ?thesis
    by (cases metadata)
      (simp_all add: objects insert_metadata_edges_def projected_edges_def for_each_rows
        builder_rows(3)[abs_def] insert_parent_edge_rows)
qed

lemma inner_rows:
  "insert_schema_snapshot_graph_inner sj sk t s p metadata =
     io_then (delete_snapshot sk)
     (io_then (insert_snapshot sj
       \<lparr>gs_snapshot_key = sk, gs_source = Some (snap_source_kind s @ '':'' @ snap_connection_alias s),
         gs_captured_at_unix_ms = t, gs_payload_json = payload_json sj p\<rparr>)
     (io_then (for_each store_insert_node (projected_nodes sj sk s metadata))
       (for_each store_insert_edge (projected_edges sj sk s metadata))))"
  by (simp add: insert_schema_snapshot_graph_inner_def Let_def insert_nodes_rows[symmetric]
      insert_edges_rows[symmetric] io_then_assoc)

section \<open>The projection is one transaction\<close>

lemma transactional_inner [store_simps]:
  "transactional (insert_schema_snapshot_graph_inner sj sk t s p metadata)"
  by (simp add: inner_rows store_simps)

lemma transactional_counts [store_simps]: "transactional (verify_projection_counts sk n e)"
  unfolding verify_projection_counts_def
  by (intro transactional_bind transactional_read) (simp add: store_simps)

lemma transactional_certified_body [store_simps]: "transactional (insert_certified_body sj sk t c)"
  by (simp add: insert_certified_body_def Let_def store_simps)

interpretation plain: transaction_body "insert_schema_snapshot_graph_inner sj sk t s p metadata"
  for sj sk t s p metadata
  by unfold_locales (rule transactional_inner)

interpretation certified: transaction_body "insert_certified_body sj sk t c" for sj sk t c
  by unfold_locales (rule transactional_certified_body)

lemma guarded_error:
  assumes "io_then (io_result r) (with_transaction body) conn = (Err e, conn')"
    and "\<And>e conn'. with_transaction body conn = (Err e, conn') \<Longrightarrow> durable conn' = durable conn"
  shows "durable conn' = durable conn"
  using assms by (auto simp: io_then_def io_bind_def io_result_def split: sum.splits)

section \<open>The database after the projection\<close>

lemma for_each_nodes_Ok:
  "for_each store_insert_node ns conn = (Ok v, conn') \<Longrightarrow>
     cn_db conn' = (cn_db conn)\<lparr>gd_nodes := fold (upsert node_id) ns (gd_nodes (cn_db conn))\<rparr>
     \<and> cn_foreign_keys conn' = cn_foreign_keys conn"
proof (induction ns arbitrary: conn)
  case (Cons n ns)
  then obtain u c where c: "execute (insert_node_statement n) conn = (Ok u, c)"
    and rest: "for_each store_insert_node ns c = (Ok v, conn')"
    using io_then_Ok unfolding store_insert_node_def by fastforce
  show ?case
    by (rule execute_Ok[OF c]) (auto simp: Cons.IH[OF rest] dest!: insert_statements_Ok)
qed (simp add: io_return_def)

lemma for_each_edges_Ok:
  "for_each store_insert_edge es conn = (Ok v, conn') \<Longrightarrow>
     cn_db conn' = (cn_db conn)\<lparr>gd_edges := fold (upsert edge_id) es (gd_edges (cn_db conn))\<rparr>
     \<and> cn_foreign_keys conn' = cn_foreign_keys conn"
proof (induction es arbitrary: conn)
  case (Cons e es)
  then obtain u c where c: "execute (insert_edge_statement e) conn = (Ok u, c)"
    and rest: "for_each store_insert_edge es c = (Ok v, conn')"
    using io_then_Ok unfolding store_insert_edge_def by fastforce
  show ?case
    by (rule execute_Ok[OF c]) (auto simp: Cons.IH[OF rest] dest!: insert_statements_Ok)
qed (simp add: io_return_def)

lemma upsert_prefix:
  "key r \<notin> key ` set pre \<Longrightarrow> upsert key r (pre @ rows) = pre @ upsert key r rows"
  by (auto simp: upsert_def image_Un image_iff intro!: map_idI)

lemma fold_upsert_prefix:
  "\<forall>r\<in>set rs. key r \<notin> key ` set pre \<Longrightarrow>
     fold (upsert key) rs (pre @ rows) = pre @ fold (upsert key) rs rows"
  by (induction rs arbitrary: rows) (simp_all add: upsert_prefix)

lemma fold_upsert_distinct:
  "distinct (map key (rows @ rs)) \<Longrightarrow> fold (upsert key) rs rows = rows @ rs"
proof (induction rs arbitrary: rows)
  case (Cons r rs)
  then have "upsert key r rows = rows @ [r]" by (intro upsert_new) auto
  with Cons.IH[of "rows @ [r]"] Cons.prems show ?case by simp
qed simp

lemma fold_upsert_keys: "key ` set (fold (upsert key) rs rows) = key ` set rs \<union> key ` set rows"
  by (induction rs arbitrary: rows) (auto simp: upsert_keys)

lemma length_upsert: "length (upsert key r rows) = length rows + (if key r \<in> key ` set rows then 0 else 1)"
  by (simp add: upsert_def)

lemma fold_upsert_length:
  "distinct (map key rows) \<Longrightarrow>
     length (fold (upsert key) rs rows) = card (key ` set rs \<union> key ` set rows)"
proof -
  assume d: "distinct (map key rows)"
  have "distinct (map key (fold (upsert key) rs rows))"
    using d by (induction rs arbitrary: rows) (simp_all add: upsert_distinct)
  from distinct_card[OF this] show ?thesis by (simp add: fold_upsert_keys)
qed

text \<open>The rows of the other snapshots stay, and the rows of the projection come after them.\<close>

definition snapshot_record ::
  "serde \<Rightarrow> string \<Rightarrow> int \<Rightarrow> SchemaSnapshot \<Rightarrow> payload \<Rightarrow> GraphSnapshotRecord" where
  "snapshot_record sj sk t s p =
     \<lparr>gs_snapshot_key = sk, gs_source = Some (snap_source_kind s @ '':'' @ snap_connection_alias s),
       gs_captured_at_unix_ms = t, gs_payload_json = payload_json sj p\<rparr>"

definition project_into ::
  "serde \<Rightarrow> string \<Rightarrow> int \<Rightarrow> SchemaSnapshot \<Rightarrow> payload \<Rightarrow> CanonicalMetadata option \<Rightarrow> GraphDb \<Rightarrow> GraphDb" where
  "project_into sj sk t s p metadata db =
     db\<lparr>gd_snapshots := filter (\<lambda>x. gs_snapshot_key x \<noteq> sk) (gd_snapshots db) @ [snapshot_record sj sk t s p],
        gd_nodes := filter (\<lambda>x. gn_snapshot_key x \<noteq> sk) (gd_nodes db)
          @ fold (upsert node_id) (projected_nodes sj sk s metadata) [],
        gd_edges := filter (\<lambda>x. ge_snapshot_key x \<noteq> sk) (gd_edges db)
          @ fold (upsert edge_id) (projected_edges sj sk s metadata) []\<rparr>"

lemma projected_nodes_snapshot: "n \<in> set (projected_nodes sj sk s metadata) \<Longrightarrow> gn_snapshot_key n = sk"
  by (auto simp: projected_nodes_def node_record_def Let_def split: option.splits)

lemma record_snapshot_keys [simp]:
  "ge_snapshot_key (edge_record sj sk t from to) = sk"
  "ge_snapshot_key (relationship_record sj sk r) = sk"
  by (simp_all add: edge_record_def relationship_record_def)

lemma projected_edges_snapshot: "e \<in> set (projected_edges sj sk s metadata) \<Longrightarrow> ge_snapshot_key e = sk"
  by (auto simp: projected_edges_def constraint_edges_def index_edges_def view_edges_def trigger_edges_def
      routine_edges_def dependency_edges_def parent_edges_def Let_def split: option.splits if_splits)

lemma inner_Ok:
  assumes "insert_schema_snapshot_graph_inner sj sk t s p metadata conn = (Ok v, conn')"
    and "graph_inv (cn_db conn)" and "cn_foreign_keys conn"
  shows "cn_db conn' = project_into sj sk t s p metadata (cn_db conn)"
proof -
  obtain u1 c1 u2 c2 u3 c3 where
    d: "execute (delete_snapshot_statement sk) conn = (Ok u1, c1)"
    and i: "insert_snapshot sj (snapshot_record sj sk t s p) c1 = (Ok u2, c2)"
    and n: "for_each store_insert_node (projected_nodes sj sk s metadata) c2 = (Ok u3, c3)"
    and e: "for_each store_insert_edge (projected_edges sj sk s metadata) c3 = (Ok v, conn')"
    using assms(1) unfolding inner_rows delete_snapshot_def snapshot_record_def[symmetric]
    by (blast dest: io_then_Ok)
  obtain db1 where del: "delete_snapshot_statement sk True (cn_db conn) = Ok db1"
    and db1: "cn_db c1 = db1" and fk: "cn_foreign_keys c1"
    using execute_Ok[OF d] assms(3) by (metis (full_types))
  note tables = delete_snapshot_tables[OF assms(2) del]
  have "execute (insert_snapshot_statement (snapshot_record sj sk t s p)) c1 = (Ok u2, c2)"
    using i by (auto simp: insert_snapshot_def io_then_def io_bind_def io_result_def split: sum.splits)
  then have c2: "cn_db c2 = db1\<lparr>gd_snapshots := upsert gs_snapshot_key (snapshot_record sj sk t s p) (gd_snapshots db1)\<rparr>"
    by (rule execute_Ok) (auto simp: insert_snapshot_statement_def db1)
  have snapshots: "upsert gs_snapshot_key (snapshot_record sj sk t s p) (gd_snapshots db1) =
      gd_snapshots db1 @ [snapshot_record sj sk t s p]"
    by (rule upsert_new) (auto simp: tables snapshot_record_def)
  have nodes: "fold (upsert node_id) (projected_nodes sj sk s metadata) (gd_nodes db1) =
      gd_nodes db1 @ fold (upsert node_id) (projected_nodes sj sk s metadata) []"
  proof -
    have "\<forall>r\<in>set (projected_nodes sj sk s metadata). node_id r \<notin> node_id ` set (gd_nodes db1)"
      by (auto simp: tables node_id_def dest: projected_nodes_snapshot)
    from fold_upsert_prefix[OF this, of "[]"] show ?thesis by simp
  qed
  have edges: "fold (upsert edge_id) (projected_edges sj sk s metadata) (gd_edges db1) =
      gd_edges db1 @ fold (upsert edge_id) (projected_edges sj sk s metadata) []"
  proof -
    have "\<forall>r\<in>set (projected_edges sj sk s metadata). edge_id r \<notin> edge_id ` set (gd_edges db1)"
      by (auto simp: tables edge_id_def dest: projected_edges_snapshot)
    from fold_upsert_prefix[OF this, of "[]"] show ?thesis by simp
  qed
  show ?thesis
    using for_each_nodes_Ok[OF n] for_each_edges_Ok[OF e]
    by (intro GraphDb.equality)
      (simp_all add: c2 snapshots[unfolded tables] nodes[unfolded tables] edges[unfolded tables]
        tables project_into_def)
qed

subsection \<open>One node per object\<close>

definition node_keys :: "SchemaSnapshot \<Rightarrow> CanonicalMetadata option \<Rightarrow> ObjectKey list" where
  "node_keys s metadata =
     map fst (schema_keys s) @ (case metadata of None \<Rightarrow> [] | Some m \<Rightarrow> map mo_key (md_objects m))"

lemma mset_projected_node_keys:
  "mset (map gn_node_key (projected_nodes sj sk s metadata)) = mset (map key_to_string (node_keys s metadata))"
proof -
  have sorted: "mset (map f (sorted_by_key key xs)) = mset (map f xs)"
    "mset (map g (sorted_metadata_objects ms)) = mset (map g ms)"
    for f :: "'x \<Rightarrow> string" and key xs and g :: "MetadataObject \<Rightarrow> string" and ms
    by (simp_all add: sorted_by_key_def sorted_metadata_objects_def)
  show ?thesis
    by (cases metadata)
      (simp_all add: projected_nodes_def node_keys_def schema_keys_def node_record_def Let_def comp_def
        sorted_by_key_def sorted_metadata_objects_def)
qed

lemma projected_nodes_distinct:
  assumes "distinct (node_keys s metadata)"
  shows "distinct (map node_id (projected_nodes sj sk s metadata))"
proof -
  have "distinct (map key_to_string (node_keys s metadata))"
    using assms by (simp add: distinct_map inj_on_subset[OF inj_key_to_string])
  then have "distinct (map gn_node_key (projected_nodes sj sk s metadata))"
    by (metis mset_projected_node_keys mset_eq_imp_distinct_iff)
  then show ?thesis by (auto simp: distinct_map node_id_def inj_on_def)
qed

lemma projected_nodes_fold:
  "distinct (node_keys s metadata) \<Longrightarrow>
     fold (upsert node_id) (projected_nodes sj sk s metadata) [] = projected_nodes sj sk s metadata"
  using fold_upsert_distinct[of node_id "[]"] projected_nodes_distinct by simp

lemma projected_node_ids:
  "node_id ` set (projected_nodes sj sk s metadata) = (\<lambda>k. (sk, key_to_string k)) ` set (node_keys s metadata)"
proof -
  have "gn_node_key ` set (projected_nodes sj sk s metadata) = key_to_string ` set (node_keys s metadata)"
    using arg_cong[OF mset_projected_node_keys, of set_mset] by simp
  then have "Pair sk ` gn_node_key ` set (projected_nodes sj sk s metadata) =
      (\<lambda>k. (sk, key_to_string k)) ` set (node_keys s metadata)" by (simp add: image_image)
  moreover have "node_id ` set (projected_nodes sj sk s metadata) =
      Pair sk ` gn_node_key ` set (projected_nodes sj sk s metadata)"
    by (auto simp: image_image node_id_def projected_nodes_snapshot intro!: image_cong)
  ultimately show ?thesis by simp
qed

subsection \<open>Every edge connects two objects of the snapshot\<close>

definition ends_in :: "ObjectKey set \<Rightarrow> GraphEdgeRecord \<Rightarrow> bool" where
  "ends_in K e = (ge_edge_from e \<in> key_to_string ` K \<and> ge_edge_to e \<in> key_to_string ` K)"

lemma ends_in_records [simp]:
  "ends_in K (edge_record sj sk t from to) \<longleftrightarrow> from \<in> K \<and> to \<in> K"
  "ends_in K (relationship_record sj sk r) \<longleftrightarrow> rel_from_key r \<in> K \<and> rel_to_key r \<in> K"
  by (auto simp: ends_in_def edge_record_def relationship_record_def)

lemma set_sorted [simp]:
  "set (sorted_by_key key xs) = set xs" "set (sorted_keys ks) = set ks"
  "set (sorted_metadata_objects ms) = set ms"
  by (simp_all add: sorted_by_key_def sorted_keys_def sorted_metadata_objects_def)

lemma wf_item_edges:
  assumes "set (map fst (schema_keys s)) \<subseteq> K"
  defines "res \<equiv> refers (set (map fst (schema_keys s)))"
  shows "x1 \<in> set (snap_schemas s) \<Longrightarrow> wf_schema res a x1 \<Longrightarrow> sch_database_key x1 \<in> K \<and> sch_key x1 \<in> K"
    and "x2 \<in> set (snap_tables s) \<Longrightarrow> wf_table res a x2 \<Longrightarrow> tbl_schema_key x2 \<in> K \<and> tbl_key x2 \<in> K"
    and "x3 \<in> set (snap_columns s) \<Longrightarrow> wf_column res a x3 \<Longrightarrow> col_table_key x3 \<in> K \<and> col_key x3 \<in> K"
    and "x4 \<in> set (snap_constraints s) \<Longrightarrow> wf_constraint res a x4 \<Longrightarrow>
      \<forall>e\<in>set (constraint_edges sj sk x4). ends_in K e"
    and "x5 \<in> set (snap_indexes s) \<Longrightarrow> wf_index res a x5 \<Longrightarrow> \<forall>e\<in>set (index_edges sj sk x5). ends_in K e"
    and "x6 \<in> set (snap_views s) \<Longrightarrow> wf_view res a x6 \<Longrightarrow> \<forall>e\<in>set (view_edges sj sk x6). ends_in K e"
    and "x7 \<in> set (snap_triggers s) \<Longrightarrow> wf_trigger res a x7 \<Longrightarrow>
      \<forall>e\<in>set (trigger_edges sj sk x7). ends_in K e"
    and "x8 \<in> set (snap_routines s) \<Longrightarrow> wf_routine res a x8 \<Longrightarrow>
      \<forall>e\<in>set (routine_edges sj sk x8). ends_in K e"
proof -
  have keys: "\<And>x. x \<in> set (snap_schemas s) \<Longrightarrow> sch_key x \<in> K" "\<And>x. x \<in> set (snap_tables s) \<Longrightarrow> tbl_key x \<in> K"
    "\<And>x. x \<in> set (snap_columns s) \<Longrightarrow> col_key x \<in> K" "\<And>x. x \<in> set (snap_constraints s) \<Longrightarrow> con_key x \<in> K"
    "\<And>x. x \<in> set (snap_indexes s) \<Longrightarrow> idx_key x \<in> K" "\<And>x. x \<in> set (snap_views s) \<Longrightarrow> view_key x \<in> K"
    "\<And>x. x \<in> set (snap_triggers s) \<Longrightarrow> trg_key x \<in> K" "\<And>x. x \<in> set (snap_routines s) \<Longrightarrow> rtn_key x \<in> K"
    using assms(1) by (auto simp: schema_keys_def)
  have res: "res k kinds \<Longrightarrow> k \<in> K" for k kinds
    using assms(1) by (auto simp: res_def refers_def)
  have cols: "wf_columns_of res t cs \<Longrightarrow> c \<in> set cs \<Longrightarrow> c \<in> K" for t cs c
    using res unfolding wf_columns_of_def by blast
  have deps: "\<forall>t\<in>set ds. res t UNIV \<Longrightarrow> set ds \<subseteq> K" for ds
    using res by blast
  show "x1 \<in> set (snap_schemas s) \<Longrightarrow> wf_schema res a x1 \<Longrightarrow> sch_database_key x1 \<in> K \<and> sch_key x1 \<in> K"
    by (auto simp: keys wf_schema_def intro: res)
  show "x2 \<in> set (snap_tables s) \<Longrightarrow> wf_table res a x2 \<Longrightarrow> tbl_schema_key x2 \<in> K \<and> tbl_key x2 \<in> K"
    by (auto simp: keys wf_table_def intro: res)
  show "x3 \<in> set (snap_columns s) \<Longrightarrow> wf_column res a x3 \<Longrightarrow> col_table_key x3 \<in> K \<and> col_key x3 \<in> K"
    by (auto simp: keys wf_column_def intro: res)
  show "x4 \<in> set (snap_constraints s) \<Longrightarrow> wf_constraint res a x4 \<Longrightarrow>
      \<forall>e\<in>set (constraint_edges sj sk x4). ends_in K e"
    by (auto simp: keys wf_constraint_def constraint_edges_def
        wf_constraint_kind_def intro: res cols split: ConstraintKind.splits)
  show "x5 \<in> set (snap_indexes s) \<Longrightarrow> wf_index res a x5 \<Longrightarrow> \<forall>e\<in>set (index_edges sj sk x5). ends_in K e"
    by (auto simp: keys wf_index_def index_edges_def intro: res cols)
  show "x6 \<in> set (snap_views s) \<Longrightarrow> wf_view res a x6 \<Longrightarrow> \<forall>e\<in>set (view_edges sj sk x6). ends_in K e"
    by (auto simp: keys wf_view_def view_edges_def dependency_edges_def intro: res dest!: deps
        split: option.splits)
  show "x7 \<in> set (snap_triggers s) \<Longrightarrow> wf_trigger res a x7 \<Longrightarrow>
      \<forall>e\<in>set (trigger_edges sj sk x7). ends_in K e"
    by (cases "trg_executes_routine_key x7")
      (auto simp: keys wf_trigger_def trigger_edges_def Let_def intro: res)
  show "x8 \<in> set (snap_routines s) \<Longrightarrow> wf_routine res a x8 \<Longrightarrow>
      \<forall>e\<in>set (routine_edges sj sk x8). ends_in K e"
    by (auto simp: keys wf_routine_def routine_edges_def dependency_edges_def intro: res dest!: deps
        split: option.splits)
qed

lemma projected_schema_ends:
  assumes "well_formed_schema s" and "set (map fst (schema_keys s)) \<subseteq> K"
  shows "\<forall>e\<in>set (projected_edges sj sk s None). ends_in K e"
proof -
  let ?res = "refers (set (map fst (schema_keys s)))" and ?a = "snap_connection_alias s"
  note items = wf_item_edges[OF assms(2)]
  have wf: "\<forall>x\<in>set (snap_schemas s). wf_schema ?res ?a x" "\<forall>x\<in>set (snap_tables s). wf_table ?res ?a x"
    "\<forall>x\<in>set (snap_columns s). wf_column ?res ?a x" "\<forall>x\<in>set (snap_constraints s). wf_constraint ?res ?a x"
    "\<forall>x\<in>set (snap_indexes s). wf_index ?res ?a x" "\<forall>x\<in>set (snap_views s). wf_view ?res ?a x"
    "\<forall>x\<in>set (snap_triggers s). wf_trigger ?res ?a x" "\<forall>x\<in>set (snap_routines s). wf_routine ?res ?a x"
    using assms(1) unfolding well_formed_schema_def Let_def by blast+
  note ends = items(1)[OF _ bspec[OF wf(1)]] items(2)[OF _ bspec[OF wf(2)]]
    items(3)[OF _ bspec[OF wf(3)]]
  note loops = items(4)[OF _ bspec[OF wf(4)], THEN bspec] items(5)[OF _ bspec[OF wf(5)], THEN bspec]
    items(6)[OF _ bspec[OF wf(6)], THEN bspec] items(7)[OF _ bspec[OF wf(7)], THEN bspec]
    items(8)[OF _ bspec[OF wf(8)], THEN bspec]
  show ?thesis
    unfolding projected_edges_def by (auto simp: ends intro: loops)
qed

lemma projected_metadata_ends:
  assumes "well_formed_canonical c"
  shows "\<forall>e\<in>set (projected_edges sj sk (can_schema c) (Some (can_metadata c))).
    ends_in (set (canonical_keys c)) e"
proof -
  have schema: "\<forall>e\<in>set (projected_edges sj sk (can_schema c) None). ends_in (set (canonical_keys c)) e"
    using assms by (intro projected_schema_ends)
      (auto simp: well_formed_canonical_def Let_def canonical_keys_def)
  have parents: "\<forall>x\<in>set (md_objects (can_metadata c)). \<forall>e\<in>set (parent_edges sj sk x).
      ends_in (set (canonical_keys c)) e"
  proof
    fix x assume x: "x \<in> set (md_objects (can_metadata c))"
    then have "wf_metadata_parent (set (canonical_keys c)) x"
      using assms unfolding well_formed_canonical_def Let_def by blast
    moreover have "mo_key x \<in> set (canonical_keys c)" using x by (simp add: canonical_keys_def)
    ultimately show "\<forall>e\<in>set (parent_edges sj sk x). ends_in (set (canonical_keys c)) e"
      by (auto simp: wf_metadata_parent_def parent_edges_def)
  qed
  have relationships: "\<forall>r\<in>set (md_relationships (can_metadata c)).
      ends_in (set (canonical_keys c)) (relationship_record sj sk r)"
    using assms by (simp add: well_formed_canonical_def Let_def wf_relationship_def)
  show ?thesis
    using schema parents relationships by (simp add: projected_edges_def ball_Un)
qed

section \<open>Without engine faults the projection succeeds\<close>

lemma execute_quiet:
  "cn_faults conn = [] \<Longrightarrow> execute statement conn =
     (case statement (cn_foreign_keys conn) (cn_db conn) of
        Inl e \<Rightarrow> (Err (Storage e), conn) | Inr db \<Rightarrow> (Ok (), conn\<lparr>cn_db := db\<rparr>))"
  by (simp add: execute_def with_engine_def next_fault_def map_err_def split: sum.splits)

lemma for_each_nodes_quiet:
  "cn_faults conn = [] \<Longrightarrow> \<forall>n\<in>set ns. gn_snapshot_key n \<in> gs_snapshot_key ` set (gd_snapshots (cn_db conn)) \<Longrightarrow>
     for_each store_insert_node ns conn =
       (Ok (), conn\<lparr>cn_db := (cn_db conn)\<lparr>gd_nodes := fold (upsert node_id) ns (gd_nodes (cn_db conn))\<rparr>\<rparr>)"
proof (induction ns arbitrary: conn)
  case (Cons n ns)
  let ?c = "conn\<lparr>cn_db := (cn_db conn)\<lparr>gd_nodes := upsert node_id n (gd_nodes (cn_db conn))\<rparr>\<rparr>"
  have "store_insert_node n conn = (Ok (), ?c)"
    using Cons.prems by (simp add: store_insert_node_def execute_quiet insert_node_statement_def)
  then show ?case
    using Cons.IH[of ?c] Cons.prems by (simp add: io_then_def io_bind_def)
qed (simp add: io_return_def)

lemma for_each_edges_quiet:
  "cn_faults conn = [] \<Longrightarrow>
     \<forall>e\<in>set es. edge_source e \<in> node_id ` set (gd_nodes (cn_db conn))
       \<and> edge_target e \<in> node_id ` set (gd_nodes (cn_db conn)) \<Longrightarrow>
     for_each store_insert_edge es conn =
       (Ok (), conn\<lparr>cn_db := (cn_db conn)\<lparr>gd_edges := fold (upsert edge_id) es (gd_edges (cn_db conn))\<rparr>\<rparr>)"
proof (induction es arbitrary: conn)
  case (Cons e es)
  let ?c = "conn\<lparr>cn_db := (cn_db conn)\<lparr>gd_edges := upsert edge_id e (gd_edges (cn_db conn))\<rparr>\<rparr>"
  have "store_insert_edge e conn = (Ok (), ?c)"
    using Cons.prems by (simp add: store_insert_edge_def execute_quiet insert_edge_statement_def)
  then show ?case
    using Cons.IH[of ?c] Cons.prems by (simp add: io_then_def io_bind_def)
qed (simp add: io_return_def)

lemma inner_quiet:
  assumes "cn_faults conn = []" and "cn_foreign_keys conn" and "graph_inv (cn_db conn)"
    and "validate_persisted_snapshot_payload sj (payload_json sj p) = Ok ()"
    and "\<forall>e\<in>set (projected_edges sj sk s metadata). ends_in (set (node_keys s metadata)) e"
  shows "insert_schema_snapshot_graph_inner sj sk t s p metadata conn =
    (Ok (), conn\<lparr>cn_db := project_into sj sk t s p metadata (cn_db conn)\<rparr>)"
proof -
  obtain db1 where del: "delete_snapshot_statement sk True (cn_db conn) = Ok db1"
    by (simp add: delete_snapshot_statement_def Let_def)
  let ?c1 = "conn\<lparr>cn_db := db1\<rparr>"
  let ?c2 = "conn\<lparr>cn_db := db1\<lparr>gd_snapshots := upsert gs_snapshot_key (snapshot_record sj sk t s p) (gd_snapshots db1)\<rparr>\<rparr>"
  have d: "delete_snapshot sk conn = (Ok (), ?c1)"
    using assms(1,2) del by (simp add: delete_snapshot_def execute_quiet)
  have i: "insert_snapshot sj (snapshot_record sj sk t s p) ?c1 = (Ok (), ?c2)"
    using assms(1,4) by (simp add: insert_snapshot_def io_then_def io_bind_def io_result_def execute_quiet
        insert_snapshot_statement_def snapshot_record_def)
  have "\<forall>n\<in>set (projected_nodes sj sk s metadata). gn_snapshot_key n \<in>
      gs_snapshot_key ` set (gd_snapshots (cn_db ?c2))"
    by (auto simp: projected_nodes_snapshot upsert_keys snapshot_record_def)
  note n = for_each_nodes_quiet[of ?c2, OF _ this]
  let ?c3 = "?c2\<lparr>cn_db := (cn_db ?c2)\<lparr>gd_nodes := fold (upsert node_id) (projected_nodes sj sk s metadata)
      (gd_nodes (cn_db ?c2))\<rparr>\<rparr>"
  have "\<forall>e\<in>set (projected_edges sj sk s metadata). edge_source e \<in> node_id ` set (gd_nodes (cn_db ?c3))
      \<and> edge_target e \<in> node_id ` set (gd_nodes (cn_db ?c3))"
    using assms(5)
    by (auto simp: fold_upsert_keys projected_node_ids ends_in_def edge_source_def edge_target_def
        projected_edges_snapshot)
  note e = for_each_edges_quiet[of ?c3, OF _ this]
  have "\<exists>conn'. insert_schema_snapshot_graph_inner sj sk t s p metadata conn = (Ok (), conn')
      \<and> (\<exists>db. conn' = conn\<lparr>cn_db := db\<rparr>)"
    using d i n e assms(1) unfolding inner_rows snapshot_record_def[symmetric]
    by (simp add: io_then_def io_bind_def) blast
  then obtain db where run: "insert_schema_snapshot_graph_inner sj sk t s p metadata conn = (Ok (), conn\<lparr>cn_db := db\<rparr>)"
    by blast
  from inner_Ok[OF run assms(3,2)] have "db = project_into sj sk t s p metadata (cn_db conn)" by simp
  with run show ?thesis by simp
qed

lemma transaction_quiet:
  assumes "cn_faults conn = []" and "cn_saved conn = None"
    and "body (conn\<lparr>cn_saved := Some (cn_db conn)\<rparr>) = (r, conn\<lparr>cn_saved := Some (cn_db conn), cn_db := db\<rparr>)"
  shows "with_transaction body conn =
    (case r of Inl e \<Rightarrow> (Err e, conn) | Inr v \<Rightarrow> (Ok v, conn\<lparr>cn_db := db\<rparr>))"
  using assms
  by (auto simp: with_transaction_def io_then_def io_bind_def begin_immediate_def commit_def rollback_def
      with_engine_def next_fault_def map_err_def roll_back_def Let_def split: sum.splits)

subsection \<open>The count check\<close>

definition unprojected_dependencies :: "(ObjectKind \<Rightarrow> string option) \<Rightarrow> ObjectKey list \<Rightarrow> nat" where
  "unprojected_dependencies edge_for ds = length (filter (\<lambda>d. edge_for (ok_object_kind d) = None) ds)"

text \<open>The dependencies for which the projection has no edge type.\<close>

definition skipped_dependencies :: "SchemaSnapshot \<Rightarrow> nat" where
  "skipped_dependencies s =
     sum_list (map (\<lambda>v. unprojected_dependencies view_dependency_edge (view_depends_on v)) (snap_views s))
     + sum_list (map (\<lambda>r. unprojected_dependencies routine_dependency_edge (rtn_depends_on r))
         (snap_routines s))"

lemma mset_eq_sum_list_eq: "mset xs = mset ys \<Longrightarrow> sum_list xs = (sum_list ys :: nat)"
  by (metis sum_mset_sum_list)

lemma sum_list_sort_key: "sum_list (map f (sort_key key xs)) = (sum_list (map f xs) :: nat)"
proof -
  have "mset (map f (sort_key key xs)) = mset (map f xs)" by simp
  then show ?thesis by (rule mset_eq_sum_list_eq)
qed

lemma sum_sorted_by_key:
  "sum_list (map f (sorted_by_key key xs)) = (sum_list (map f xs) :: nat)"
  "sum_list (map g (sorted_metadata_objects ms)) = (sum_list (map g ms) :: nat)"
  "sum_list (map h (sorted_keys ks)) = (sum_list (map h ks) :: nat)"
  by (simp_all add: sorted_by_key_def sorted_metadata_objects_def sorted_keys_def sum_list_sort_key)

lemma length_dependency_edges:
  "length (dependency_edges sj sk edge_for owner ds) + unprojected_dependencies edge_for ds = length ds"
proof -
  have "length (dependency_edges sj sk edge_for owner ds) =
      sum_list (map (\<lambda>d. length (case edge_for (ok_object_kind d) of
        None \<Rightarrow> [] | Some t \<Rightarrow> [edge_record sj sk t owner d])) ds)"
    by (simp add: dependency_edges_def length_concat comp_def sum_sorted_by_key)
  also have "\<dots> + unprojected_dependencies edge_for ds = length ds"
    by (induction ds) (auto simp: unprojected_dependencies_def split: option.splits)
  finally show ?thesis .
qed

lemma length_sorted [simp]:
  "length (sorted_by_key key xs) = length xs" "length (sorted_keys ks) = length ks"
  by (simp_all add: sorted_by_key_def sorted_keys_def)

lemma constraint_column_counts_sums:
  "constraint_column_counts cs =
     (sum_list (map (\<lambda>x. if con_kind x = ConstraintKind.ForeignKey then 0 else length (con_columns x)) cs),
      sum_list (map (\<lambda>x. if con_kind x = ConstraintKind.ForeignKey then length (con_columns x) else 0) cs))"
proof -
  have "fold (\<lambda>x (a, b). if con_kind x = ConstraintKind.ForeignKey then (a, b + length (con_columns x))
        else (a + length (con_columns x), b)) cs (a, b) =
      (a + sum_list (map (\<lambda>x. if con_kind x = ConstraintKind.ForeignKey then 0 else length (con_columns x)) cs),
       b + sum_list (map (\<lambda>x. if con_kind x = ConstraintKind.ForeignKey then length (con_columns x) else 0) cs))"
    for a b
    by (induction cs arbitrary: a b) auto
  then show ?thesis by (simp add: constraint_column_counts_def)
qed

lemma reconciled_sum:
  assumes "reconciled E counts" and "set categories = UNIV" and "distinct categories"
  shows "sum_list (map cnt_emitted counts) = sum_list (map (emitted_of E) categories)"
proof -
  have "map cnt_emitted counts = map (emitted_of E) (map cnt_category counts)"
    using assms(1) by (auto simp: reconciled_def)
  moreover have "mset (map cnt_category counts) = mset categories"
    using assms by (intro set_eq_iff_mset_eq_distinct[THEN iffD1]) (auto simp: reconciled_def)
  ultimately show ?thesis by (metis mset_map mset_eq_sum_list_eq)
qed

text \<open>The expected number of edges is the number of projected edges plus the skipped dependencies.\<close>

lemma sum_list_Suc: "sum_list (map (\<lambda>x. Suc (f x)) xs) = length xs + sum_list (map f xs)"
  by (induction xs) auto

lemma emitted_relationship_sum:
  "sum_list (map (emitted_of (emitted_relationship_counts c)) relationship_categories) =
     (let s = can_schema c; m = can_metadata c in
      length (snap_schemas s) + length (snap_tables s) + length (snap_columns s)
      + sum_list (map (\<lambda>x. 1 + length (con_columns x)) (snap_constraints s))
      + sum_list (map (\<lambda>x. 1 + length (idx_columns x)) (snap_indexes s))
      + sum_list (map (\<lambda>x. 1 + length (view_depends_on x)) (snap_views s))
      + length (snap_triggers s) + length (filter (\<lambda>x. trg_executes_routine_key x \<noteq> None) (snap_triggers s))
      + sum_list (map (\<lambda>x. 1 + length (rtn_depends_on x)) (snap_routines s))
      + length (filter (\<lambda>x. mo_parent_key x \<noteq> None) (md_objects m)) + length (md_relationships m))"
proof -
  have split: "sum_list (map (\<lambda>x. if p x then 0 else f x) xs) + sum_list (map (\<lambda>x. if p x then f x else 0) xs) =
      sum_list (map f xs)" for f :: "ConstraintObject \<Rightarrow> nat" and p xs
    by (induction xs) auto
  note split[of "\<lambda>x. con_kind x = ConstraintKind.ForeignKey" "\<lambda>x. length (con_columns x)"
      "snap_constraints (can_schema c)"]
  then show ?thesis
    unfolding emitted_relationship_counts_def Let_def constraint_column_counts_sums prod.case
    by (simp add: relationship_categories_def sum_list_Suc)
qed

lemma length_item_edges:
  "length (constraint_edges sj sk c) =
     Suc (length (con_columns c) + (if con_kind c = ConstraintKind.ForeignKey then length (con_referenced_columns c) else 0))"
  "length (index_edges sj sk i) = Suc (length (idx_columns i))"
  "length (trigger_edges sj sk t) = Suc (Suc (if trg_executes_routine_key t \<noteq> None then 1 else 0))"
  "length (parent_edges sj sk x) = (if mo_parent_key x \<noteq> None then 1 else 0)"
  by (auto simp: constraint_edges_def index_edges_def trigger_edges_def parent_edges_def Let_def
      split: option.splits)

lemma length_dependent_edges:
  "length (view_edges sj sk v) + unprojected_dependencies view_dependency_edge (view_depends_on v) =
     Suc (length (view_depends_on v))"
  "length (routine_edges sj sk r) + unprojected_dependencies routine_dependency_edge (rtn_depends_on r) =
     Suc (length (rtn_depends_on r))"
  using length_dependency_edges[of sj sk view_dependency_edge "view_key v" "view_depends_on v"]
    length_dependency_edges[of sj sk routine_dependency_edge "rtn_key r" "rtn_depends_on r"]
  by (simp_all add: view_edges_def routine_edges_def)

lemma sum_list_plus: "sum_list (map f xs) + sum_list (map g xs) = (sum_list (map (\<lambda>x. f x + g x) xs) :: nat)"
  by (simp add: sum_list_addf)

lemma sum_if_filter: "sum_list (map (\<lambda>x. if p x then 1 else 0) xs) = length (filter p xs)"
  by (induction xs) auto

lemma sum_filter: "sum_list (map f (filter p xs)) = (sum_list (map (\<lambda>x. if p x then f x else 0) xs) :: nat)"
  by (induction xs) auto

lemma length_projected_edges:
  "length (projected_edges sj sk s (Some m)) + skipped_dependencies s =
     length (snap_schemas s) + length (snap_tables s) + length (snap_columns s)
     + sum_list (map (\<lambda>x. Suc (length (con_columns x) + (if con_kind x = ConstraintKind.ForeignKey
         then length (con_referenced_columns x) else 0))) (snap_constraints s))
     + sum_list (map (\<lambda>x. Suc (length (idx_columns x))) (snap_indexes s))
     + sum_list (map (\<lambda>x. Suc (length (view_depends_on x))) (snap_views s))
     + (2 * length (snap_triggers s) + length (filter (\<lambda>x. trg_executes_routine_key x \<noteq> None) (snap_triggers s)))
     + sum_list (map (\<lambda>x. Suc (length (rtn_depends_on x))) (snap_routines s))
     + length (filter (\<lambda>x. mo_parent_key x \<noteq> None) (md_objects m)) + length (md_relationships m)"
proof -
  have views: "sum_list (map (\<lambda>v. length (view_edges sj sk v)) (snap_views s))
      + sum_list (map (\<lambda>v. unprojected_dependencies view_dependency_edge (view_depends_on v)) (snap_views s)) =
      sum_list (map (\<lambda>x. Suc (length (view_depends_on x))) (snap_views s))"
    by (simp add: sum_list_plus length_dependent_edges)
  have routines: "sum_list (map (\<lambda>v. length (routine_edges sj sk v)) (snap_routines s))
      + sum_list (map (\<lambda>v. unprojected_dependencies routine_dependency_edge (rtn_depends_on v)) (snap_routines s)) =
      sum_list (map (\<lambda>x. Suc (length (rtn_depends_on x))) (snap_routines s))"
    by (simp add: sum_list_plus length_dependent_edges)
  have triggers: "sum_list (map (\<lambda>t. length (trigger_edges sj sk t)) (snap_triggers s)) =
      2 * length (snap_triggers s) + length (filter (\<lambda>x. trg_executes_routine_key x \<noteq> None) (snap_triggers s))"
    by (simp add: length_item_edges sum_list_Suc sum_if_filter[simplified])
  have parents: "sum_list (map (\<lambda>x. length (parent_edges sj sk x)) (md_objects m)) =
      length (filter (\<lambda>x. mo_parent_key x \<noteq> None) (md_objects m))"
    by (simp add: length_item_edges sum_if_filter[simplified])
  show ?thesis
    using views routines triggers parents
    by (simp add: projected_edges_def length_concat comp_def sum_sorted_by_key skipped_dependencies_def
        length_item_edges(1,2))
qed

lemma expected_edges:
  assumes "complete_certificate c"
  defines "s \<equiv> can_schema (cert_snapshot c)"
  shows "prc_graph_edges (certified_graph_projection_counts c) =
    length (projected_edges sj sk s (Some (can_metadata (cert_snapshot c)))) + skipped_dependencies s"
proof -
  let ?fk = "\<lambda>x. con_kind x = ConstraintKind.ForeignKey"
  have rec: "reconciled (emitted_relationship_counts (cert_snapshot c)) (prf_relationship_counts (cert_completeness c))"
    and wf: "well_formed_schema s"
    using assms by (simp_all add: complete_certificate_def well_formed_canonical_def Let_def)
  have "wf_constraint (refers (set (map fst (schema_keys s)))) (snap_connection_alias s) x"
    if "x \<in> set (snap_constraints s)" for x
    using wf that unfolding well_formed_schema_def Let_def by blast
  then have same: "length (con_referenced_columns x) = length (con_columns x)"
    if "x \<in> set (snap_constraints s)" "?fk x" for x
    using that by (force simp: wf_constraint_def wf_constraint_kind_def)
  have "sum_list (map (\<lambda>x. Suc (length (con_columns x) + (if ?fk x then length (con_referenced_columns x) else 0)))
        (snap_constraints s)) =
      sum_list (map (\<lambda>x. Suc (length (con_columns x))) (snap_constraints s))
      + sum_list (map (\<lambda>x. if ?fk x then length (con_columns x) else 0) (snap_constraints s))"
    unfolding sum_list_plus using same by (auto intro!: arg_cong[where f = sum_list])
  then show ?thesis
    using reconciled_sum[OF rec set_relationship_categories distinct_relationship_categories]
      emitted_relationship_sum[of "cert_snapshot c"] length_projected_edges[of sj sk s "can_metadata (cert_snapshot c)"]
    by (simp add: certified_graph_projection_counts_def Let_def sum_filter s_def)
qed

lemma sum_count_list:
  assumes "set categories = UNIV" and "distinct categories"
  shows "sum_list (map (count_list xs) categories) = length xs"
proof -
  have "sum_list (map (count_list xs) categories) = sum (count_list xs) (UNIV :: 'a set)"
    using assms sum_list_distinct_conv_sum_set[of categories "count_list xs"] by simp
  also have "\<dots> = sum (count_list xs) (set xs)"
    using assms(1) by (intro sum.mono_neutral_right) (auto simp: count_list_0_iff finite_set[of categories, unfolded assms(1)])
  finally show ?thesis by (simp add: sum_count_set)
qed

lemma expected_nodes:
  assumes "complete_certificate c"
  shows "prc_objects (certified_graph_projection_counts c) = length (canonical_keys (cert_snapshot c))"
proof -
  have rec: "reconciled (emitted_object_counts (cert_snapshot c)) (prf_object_counts (cert_completeness c))"
    and wf: "well_formed_canonical (cert_snapshot c)"
    using assms by (simp_all add: complete_certificate_def Let_def)
  have "prc_objects (certified_graph_projection_counts c) =
      sum_list (map (count_list (emitted_categories (cert_snapshot c))) object_categories)"
    using reconciled_sum[OF rec set_object_categories distinct_object_categories]
    by (simp add: certified_graph_projection_counts_def Let_def
        ext[of "emitted_of _", OF emitted_object_counts_categories])
  then show ?thesis
    by (simp add: sum_count_list set_object_categories distinct_object_categories well_formed_categories[OF wf])
qed

definition edges_of :: "serde \<Rightarrow> string \<Rightarrow> CertifiedSchemaSnapshot \<Rightarrow> GraphEdgeRecord list" where
  "edges_of sj sk c =
     projected_edges sj sk (can_schema (cert_snapshot c)) (Some (can_metadata (cert_snapshot c)))"

definition nodes_of :: "serde \<Rightarrow> string \<Rightarrow> CertifiedSchemaSnapshot \<Rightarrow> GraphNodeRecord list" where
  "nodes_of sj sk c =
     projected_nodes sj sk (can_schema (cert_snapshot c)) (Some (can_metadata (cert_snapshot c)))"

definition certified_into :: "serde \<Rightarrow> string \<Rightarrow> int \<Rightarrow> CertifiedSchemaSnapshot \<Rightarrow> GraphDb \<Rightarrow> GraphDb" where
  "certified_into sj sk t c =
     project_into sj sk t (can_schema (cert_snapshot c)) (PCertified c) (Some (can_metadata (cert_snapshot c)))"

lemma certified_node_keys:
  assumes "complete_certificate c"
  shows "distinct (node_keys (can_schema (cert_snapshot c)) (Some (can_metadata (cert_snapshot c))))"
    and "length (nodes_of sj sk c) = length (canonical_keys (cert_snapshot c))"
proof -
  have keys: "node_keys (can_schema (cert_snapshot c)) (Some (can_metadata (cert_snapshot c))) =
      canonical_keys (cert_snapshot c)"
    by (simp add: node_keys_def canonical_keys_def)
  show "distinct (node_keys (can_schema (cert_snapshot c)) (Some (can_metadata (cert_snapshot c))))"
    using assms unfolding keys by (simp add: complete_certificate_def well_formed_canonical_def Let_def)
  show "length (nodes_of sj sk c) = length (canonical_keys (cert_snapshot c))"
    using arg_cong[OF mset_projected_node_keys, of size] keys unfolding nodes_of_def
    by (metis length_map size_mset)
qed

lemma projected_counts:
  assumes "complete_certificate c"
  shows "length (filter (\<lambda>x. gn_snapshot_key x = sk) (gd_nodes (certified_into sj sk t c db))) =
      length (canonical_keys (cert_snapshot c))"
    and "length (filter (\<lambda>x. ge_snapshot_key x = sk) (gd_edges (certified_into sj sk t c db))) =
      card (ge_edge_key ` set (edges_of sj sk c))"
proof -
  have none: "filter (\<lambda>x. f x = sk) (filter (\<lambda>x. f x \<noteq> sk) xs) = []" for f :: "'x \<Rightarrow> string" and xs
    by (simp add: filter_empty_conv)
  have all: "(\<forall>x\<in>set xs. f x = sk) \<Longrightarrow> filter (\<lambda>x. f x = sk) xs = xs" for f :: "'x \<Rightarrow> string" and xs
    by simp
  have nodes: "fold (upsert node_id) (nodes_of sj sk c) [] = nodes_of sj sk c"
    unfolding nodes_of_def by (rule projected_nodes_fold[OF certified_node_keys(1)[OF assms]])
  show "length (filter (\<lambda>x. gn_snapshot_key x = sk) (gd_nodes (certified_into sj sk t c db))) =
      length (canonical_keys (cert_snapshot c))"
  proof -
    have "\<forall>n\<in>set (nodes_of sj sk c). gn_snapshot_key n = sk"
      by (simp add: nodes_of_def projected_nodes_snapshot)
    note all[OF this]
    moreover have "gd_nodes (certified_into sj sk t c db) =
        filter (\<lambda>x. gn_snapshot_key x \<noteq> sk) (gd_nodes db) @ nodes_of sj sk c"
      by (simp add: certified_into_def project_into_def nodes[unfolded nodes_of_def] nodes_of_def)
    ultimately show ?thesis
      by (simp only: filter_append none append_Nil certified_node_keys(2)[OF assms])
  qed
  have "\<forall>e\<in>set (fold (upsert edge_id) (edges_of sj sk c) []). ge_snapshot_key e = sk"
  proof
    fix e assume "e \<in> set (fold (upsert edge_id) (edges_of sj sk c) [])"
    then have "edge_id e \<in> edge_id ` set (fold (upsert edge_id) (edges_of sj sk c) [])" by (rule imageI)
    then have "edge_id e \<in> edge_id ` set (edges_of sj sk c)" by (simp add: fold_upsert_keys)
    then show "ge_snapshot_key e = sk"
      by (auto simp: edge_id_def edges_of_def dest: projected_edges_snapshot)
  qed
  note all[OF this]
  moreover have "gd_edges (certified_into sj sk t c db) =
      filter (\<lambda>x. ge_snapshot_key x \<noteq> sk) (gd_edges db) @ fold (upsert edge_id) (edges_of sj sk c) []"
    by (simp add: certified_into_def project_into_def edges_of_def)
  ultimately have "length (filter (\<lambda>x. ge_snapshot_key x = sk) (gd_edges (certified_into sj sk t c db))) =
      card (edge_id ` set (edges_of sj sk c))"
    using fold_upsert_length[of edge_id "[]" "edges_of sj sk c"]
    by (simp only: filter_append none append_Nil) simp
  also have "edge_id ` set (edges_of sj sk c) = Pair sk ` ge_edge_key ` set (edges_of sj sk c)"
    by (auto simp: image_image edge_id_def edges_of_def projected_edges_snapshot intro!: image_cong)
  finally show "length (filter (\<lambda>x. ge_snapshot_key x = sk) (gd_edges (certified_into sj sk t c db))) =
      card (ge_edge_key ` set (edges_of sj sk c))"
    by (simp add: card_image inj_on_def)
qed

text \<open>The counts agree exactly when no dependency is skipped and no two edges share a key.\<close>

definition projectable :: "serde \<Rightarrow> string \<Rightarrow> CertifiedSchemaSnapshot \<Rightarrow> bool" where
  "projectable sj sk c =
     (skipped_dependencies (can_schema (cert_snapshot c)) = 0 \<and> distinct (map ge_edge_key (edges_of sj sk c)))"

lemma edge_counts_agree:
  assumes "complete_certificate c"
  shows "card (ge_edge_key ` set (edges_of sj sk c)) = prc_graph_edges (certified_graph_projection_counts c)
    \<longleftrightarrow> projectable sj sk c"
proof -
  have "card (ge_edge_key ` set (edges_of sj sk c)) \<le> length (edges_of sj sk c)"
    by (metis card_length length_map list.set_map)
  moreover have "card (ge_edge_key ` set (edges_of sj sk c)) = length (edges_of sj sk c) \<longleftrightarrow>
      distinct (map ge_edge_key (edges_of sj sk c))"
    by (metis card_distinct distinct_card length_map list.set_map)
  ultimately show ?thesis
    using expected_edges[OF assms, of sj sk] by (auto simp: projectable_def edges_of_def)
qed

section \<open>Outcomes\<close>

lemma certified_body_Ok:
  assumes "insert_certified_body sj sk t c conn = (Ok v, conn')"
    and "graph_inv (cn_db conn)" and "cn_foreign_keys conn" and "complete_certificate c"
  shows "cn_db conn' = certified_into sj sk t c (cn_db conn) \<and> projectable sj sk c"
proof -
  let ?counts = "certified_graph_projection_counts c"
  obtain u c1 where run: "insert_schema_snapshot_graph_inner sj sk t (can_schema (cert_snapshot c))
      (PCertified c) (Some (can_metadata (cert_snapshot c))) conn = (Ok u, c1)"
    and check: "verify_projection_counts sk (prc_objects ?counts) (prc_graph_edges ?counts) c1 = (Ok v, conn')"
    using assms(1) unfolding insert_certified_body_def Let_def by (blast dest: io_then_Ok)
  have db: "cn_db c1 = certified_into sj sk t c (cn_db conn)"
    using inner_Ok[OF run assms(2,3)] by (simp add: certified_into_def)
  have "conn' = c1" and "length (filter (\<lambda>x. ge_snapshot_key x = sk) (gd_edges (cn_db c1))) = prc_graph_edges ?counts"
    using check
    by (auto simp: verify_projection_counts_def io_bind_def io_result_def io_return_def
        node_count_for_snapshot_def edge_count_for_snapshot_def read_with_def
        split: sum.splits option.splits if_splits)
  then show ?thesis
    using db projected_counts(2)[OF assms(4)] edge_counts_agree[OF assms(4)] by simp
qed

lemma guarded_Ok:
  "io_then (io_result (map_err f r)) m conn = (Ok v, conn') \<Longrightarrow> r = Ok () \<and> m conn = (Ok v, conn')"
  by (auto simp: io_then_def io_bind_def io_result_def map_err_def split: sum.splits)

lemma certified_Ok:
  assumes "insert_certified_schema_snapshot_graph sj sk t c conn = (Ok (), conn')" and "conn_inv conn"
  shows "complete_certificate c \<and> projectable sj sk c \<and> durable conn' = certified_into sj sk t c (durable conn)
    \<and> cn_saved conn' = None"
proof -
  have c: "complete_certificate c"
    and run: "with_transaction (insert_certified_body sj sk t c) conn = (Ok (), conn')"
    using guarded_Ok[OF assms(1)[unfolded insert_certified_schema_snapshot_graph_def]]
    by (simp_all add: verify_Ok_iff)
  obtain c1 c2 where b: "begin_immediate conn = (Ok (), c1)" and o: "insert_certified_body sj sk t c c1 = (Ok (), c2)"
    and commit: "commit c2 = (Ok (), conn')" and d: "durable conn' = cn_db c2"
    using certified.success_commits_body[OF run] by metis
  note b' = begin_Ok[OF b]
  have "cn_db c2 = certified_into sj sk t c (cn_db c1) \<and> projectable sj sk c"
    using certified_body_Ok[OF o] b' assms(2) c by (simp add: conn_inv_def)
  then show ?thesis using b' c d commit_Ok[OF commit] by (simp add: durable_def)
qed

lemma plain_Ok:
  assumes "insert_schema_snapshot_graph sj sk t s conn = (Ok (), conn')" and "conn_inv conn"
  shows "well_formed_schema s \<and> durable conn' = project_into sj sk t s (PSnapshot s) None (durable conn)"
proof -
  have wf: "well_formed_schema s"
    and run: "with_transaction (insert_schema_snapshot_graph_inner sj sk t s (PSnapshot s) None) conn = (Ok (), conn')"
    using guarded_Ok[OF assms(1)[unfolded insert_schema_snapshot_graph_def]]
    by (simp_all add: validate_schema_snapshot_Ok_iff)
  obtain c1 c2 where b: "begin_immediate conn = (Ok (), c1)"
    and o: "insert_schema_snapshot_graph_inner sj sk t s (PSnapshot s) None c1 = (Ok (), c2)"
    and d: "durable conn' = cn_db c2"
    using plain.success_commits_body[OF run] by metis
  note b' = begin_Ok[OF b]
  have "cn_db c2 = project_into sj sk t s (PSnapshot s) None (cn_db c1)"
    using inner_Ok[OF o] b' assms(2) by (simp add: conn_inv_def)
  then show ?thesis using b' wf d by (simp add: durable_def)
qed

text \<open>A connection at rest on which the engine does not fail.\<close>

definition quiet :: "Connection \<Rightarrow> bool" where
  "quiet conn = (cn_faults conn = [] \<and> cn_saved conn = None \<and> cn_read_fault conn = (\<lambda>_. None) \<and> conn_inv conn)"

lemma plain_quiet:
  assumes "quiet conn" and "well_formed_schema s"
    and "validate_persisted_snapshot_payload sj (payload_json sj (PSnapshot s)) = Ok ()"
  shows "insert_schema_snapshot_graph sj sk t s conn =
    (Ok (), conn\<lparr>cn_db := project_into sj sk t s (PSnapshot s) None (cn_db conn)\<rparr>)"
proof -
  let ?c = "conn\<lparr>cn_saved := Some (cn_db conn)\<rparr>"
  have ends: "\<forall>e\<in>set (projected_edges sj sk s None). ends_in (set (node_keys s None)) e"
    using projected_schema_ends[OF assms(2)] by (simp add: node_keys_def)
  have "insert_schema_snapshot_graph_inner sj sk t s (PSnapshot s) None ?c =
      (Ok (), ?c\<lparr>cn_db := project_into sj sk t s (PSnapshot s) None (cn_db ?c)\<rparr>)"
    using assms(1) by (intro inner_quiet[OF _ _ _ assms(3) ends]) (simp_all add: quiet_def conn_inv_def)
  then show ?thesis
    using transaction_quiet[of conn _ "Ok ()"] assms(1,2)
    by (simp add: insert_schema_snapshot_graph_def io_then_def io_bind_def io_result_def map_err_def
        validate_schema_snapshot_Ok_iff[THEN iffD2] quiet_def)
qed

lemma certified_quiet:
  assumes "quiet conn" and "complete_certificate c"
    and "validate_persisted_snapshot_payload sj (payload_json sj (PCertified c)) = Ok ()"
  shows "insert_certified_schema_snapshot_graph sj sk t c conn =
    (if projectable sj sk c then (Ok (), conn\<lparr>cn_db := certified_into sj sk t c (cn_db conn)\<rparr>)
     else (Err (ProjectionMismatch (length (canonical_keys (cert_snapshot c))) (length (canonical_keys (cert_snapshot c)))
        (prc_graph_edges (certified_graph_projection_counts c)) (card (ge_edge_key ` set (edges_of sj sk c)))), conn))"
proof -
  let ?c = "conn\<lparr>cn_saved := Some (cn_db conn)\<rparr>"
  let ?c' = "?c\<lparr>cn_db := certified_into sj sk t c (cn_db ?c)\<rparr>"
  let ?counts = "certified_graph_projection_counts c"
  have wf: "well_formed_canonical (cert_snapshot c)"
    using assms(2) by (simp add: complete_certificate_def Let_def)
  have ends: "\<forall>e\<in>set (projected_edges sj sk (can_schema (cert_snapshot c)) (Some (can_metadata (cert_snapshot c)))).
      ends_in (set (node_keys (can_schema (cert_snapshot c)) (Some (can_metadata (cert_snapshot c))))) e"
    using projected_metadata_ends[OF wf] by (simp add: node_keys_def canonical_keys_def)
  have inner: "insert_schema_snapshot_graph_inner sj sk t (can_schema (cert_snapshot c)) (PCertified c)
      (Some (can_metadata (cert_snapshot c))) ?c = (Ok (), ?c')"
    unfolding certified_into_def using assms(1)
    by (intro inner_quiet[OF _ _ _ assms(3) ends]) (simp_all add: quiet_def conn_inv_def)
  have check: "verify_projection_counts sk (prc_objects ?counts) (prc_graph_edges ?counts) ?c' =
      (if projectable sj sk c then Ok ()
       else Err (ProjectionMismatch (length (canonical_keys (cert_snapshot c))) (length (canonical_keys (cert_snapshot c)))
         (prc_graph_edges ?counts) (card (ge_edge_key ` set (edges_of sj sk c)))), ?c')"
    using assms(1) edge_counts_agree[OF assms(2), of sj sk]
    by (simp add: verify_projection_counts_def io_bind_def io_result_def io_return_def read_with_def
        node_count_for_snapshot_def edge_count_for_snapshot_def quiet_def
        projected_counts[OF assms(2)] expected_nodes[OF assms(2)])
  have "insert_certified_body sj sk t c ?c = (if projectable sj sk c then Ok ()
       else Err (ProjectionMismatch (length (canonical_keys (cert_snapshot c))) (length (canonical_keys (cert_snapshot c)))
         (prc_graph_edges ?counts) (card (ge_edge_key ` set (edges_of sj sk c)))), ?c')"
    unfolding insert_certified_body_def Let_def io_then_def io_bind_def inner using check by simp
  then show ?thesis
    using transaction_quiet[of conn "insert_certified_body sj sk t c"] assms(1,2)
    by (simp add: insert_certified_schema_snapshot_graph_def io_then_def io_bind_def io_result_def map_err_def
        verify_Ok_iff[THEN iffD2] quiet_def)
qed

lemma edges_fold:
  assumes "distinct (map ge_edge_key (edges_of sj sk c))"
  shows "fold (upsert edge_id) (edges_of sj sk c) [] = edges_of sj sk c"
proof -
  have "distinct (map edge_id (edges_of sj sk c))"
    using assms by (auto simp: distinct_map edge_id_def inj_on_def)
  then show ?thesis using fold_upsert_distinct[of edge_id "[]"] by simp
qed

lemma split_rows:
  "(\<forall>x\<in>set new. key x = sk) \<Longrightarrow>
     filter (\<lambda>x. key x = sk) (filter (\<lambda>x. key x \<noteq> sk) old @ new) = new
     \<and> filter (\<lambda>x. key x \<noteq> sk) (filter (\<lambda>x. key x \<noteq> sk) old @ new) = filter (\<lambda>x. key x \<noteq> sk) old"
  by (simp add: filter_empty_conv)

section \<open>The sample projections\<close>

text \<open>A serialiser that prints every value as one text which reads back as a certificate.\<close>

definition sample_serde :: "CertifiedSchemaSnapshot \<Rightarrow> serde" where
  "sample_serde c =
     \<lparr>to_value = (\<lambda>_. JNull), to_text = (\<lambda>_. ''{}''),
       parse_value = (\<lambda>_. Ok (JObject [(''contract_version'', JInt 2)])),
       parse_certified = (\<lambda>_. Ok c), parse_capabilities = (\<lambda>_. Err ''unsupported'')\<rparr>"

definition sample_legacy_serde :: serde where
  "sample_legacy_serde = (sample_serde sample_certified)\<lparr>parse_value := (\<lambda>_. Ok (JObject []))\<rparr>"

definition sample_store :: Connection where
  "sample_store = (sample_conn empty_db)\<lparr>cn_foreign_keys := True\<rparr>"

lemma sample_store_quiet: "quiet sample_store"
  by (simp add: quiet_def sample_store_def sample_conn_def conn_inv_def durable_def graph_inv_empty)

lemma sample_payload_accepted:
  "complete_certificate c \<Longrightarrow>
     validate_persisted_snapshot_payload (sample_serde c) (payload_json (sample_serde c) (PCertified c)) = Ok ()"
  by (simp add: validate_persisted_snapshot_payload_def snapshot_contract_version_def sample_serde_def
      bt_get_def u32_MAX_def map_err_def verify_Ok_iff[THEN iffD2])

definition sample_routine :: RoutineObject where
  "sample_routine =
     \<lparr>rtn_key = sample_object_key Routine ''users'' None,
       rtn_schema_key = sample_object_key Schema ''main'' None, rtn_name = ''users'',
       rtn_kind = Function, rtn_definition = None, rtn_depends_on = []\<rparr>"

definition sample_view :: ViewObject where
  "sample_view =
     \<lparr>view_key = sample_object_key View ''orders'' None,
       view_schema_key = sample_object_key Schema ''main'' None, view_name = ''orders'',
       view_definition = None, view_depends_on = [sample_object_key Routine ''users'' None]\<rparr>"

definition sample_routine_view :: SchemaSnapshot where
  "sample_routine_view =
     (sample_schema [])\<lparr>snap_columns := [], snap_constraints := [], snap_views := [sample_view],
       snap_routines := [sample_routine], snap_capabilities := sample_full_capabilities\<rparr>"

lemma sample_routine_view_well_formed: "well_formed_canonical (canonical_from_schema sample_routine_view)"
  by (simp add: well_formed_canonical_def well_formed_schema_def Let_def canonical_keys_def
      schema_keys_def sample_defs refers_def scope_matches_def wf_database_def identity_matches_def
      wf_schema_def wf_view_def wf_routine_def within_text_limit_def sample_texts sample_routine_view_def
      sample_view_def sample_routine_def sample_full_capabilities_def)

lemma sample_routine_view_complete: "complete_certificate (sample_certificate sample_routine_view)"
  by (rule sample_certificate_complete[OF sample_routine_view_well_formed])
    (simp_all add: sample_routine_view_def sample_schema_def)

definition sample_routine_only :: SchemaSnapshot where
  "sample_routine_only = sample_routine_view\<lparr>snap_views := []\<rparr>"

definition sample_projectable :: CertifiedSchemaSnapshot where
  "sample_projectable = sample_certificate sample_routine_only"

lemma sample_routine_only_well_formed: "well_formed_canonical (canonical_from_schema sample_routine_only)"
  by (simp add: well_formed_canonical_def well_formed_schema_def Let_def canonical_keys_def
      schema_keys_def sample_defs refers_def scope_matches_def wf_database_def identity_matches_def
      wf_schema_def wf_routine_def within_text_limit_def sample_texts sample_routine_view_def
      sample_routine_only_def sample_routine_def sample_full_capabilities_def)

lemma sample_projectable_complete: "complete_certificate sample_projectable"
  unfolding sample_projectable_def
  by (rule sample_certificate_complete[OF sample_routine_only_well_formed])
    (simp_all add: sample_routine_only_def sample_routine_view_def sample_schema_def)

lemma sample_projectable: "projectable sj sk sample_projectable"
  by (simp add: projectable_def edges_of_def projected_edges_def sample_projectable_def
      sample_certificate_def certificate_for_def normalize_canonical_snapshot_def normalize_schema_def
      canonical_from_schema_def sample_routine_only_def sample_routine_view_def sample_schema_def
      sample_routine_def Let_def skipped_dependencies_def routine_edges_def normalize_metadata_def
      normalize_routine_def default_metadata_def dependency_edges_def edge_record_def sorted_by_key_def
      sort_dedup_keys_def sorted_keys_def sorted_metadata_objects_def unprojected_dependencies_def)

lemma sample_projectable_stored:
  "insert_certified_schema_snapshot_graph (sample_serde sample_projectable) ''k'' 0 sample_projectable sample_store =
     (Ok (), sample_store\<lparr>cn_db := certified_into (sample_serde sample_projectable) ''k'' 0 sample_projectable empty_db\<rparr>)"
  using certified_quiet[OF sample_store_quiet sample_projectable_complete
      sample_payload_accepted[OF sample_projectable_complete], of "''k''" 0]
  by (simp add: sample_projectable sample_store_def sample_conn_def)

text \<open>The durable rows after a success.\<close>

lemma certified_effect:
  assumes "insert_certified_schema_snapshot_graph sj sk t c conn = (Ok (), conn')" and "conn_inv conn"
  shows "filter (\<lambda>x. gs_snapshot_key x = sk) (gd_snapshots (durable conn')) =
      [snapshot_record sj sk t (can_schema (cert_snapshot c)) (PCertified c)]
    \<and> filter (\<lambda>x. gn_snapshot_key x = sk) (gd_nodes (durable conn')) = nodes_of sj sk c
    \<and> filter (\<lambda>x. ge_snapshot_key x = sk) (gd_edges (durable conn')) = edges_of sj sk c
    \<and> mset (map gn_node_key (nodes_of sj sk c)) = mset (map key_to_string (canonical_keys (cert_snapshot c)))
    \<and> filter (\<lambda>x. gs_snapshot_key x \<noteq> sk) (gd_snapshots (durable conn')) =
        filter (\<lambda>x. gs_snapshot_key x \<noteq> sk) (gd_snapshots (durable conn))
    \<and> filter (\<lambda>x. gn_snapshot_key x \<noteq> sk) (gd_nodes (durable conn')) =
        filter (\<lambda>x. gn_snapshot_key x \<noteq> sk) (gd_nodes (durable conn))
    \<and> filter (\<lambda>x. ge_snapshot_key x \<noteq> sk) (gd_edges (durable conn')) =
        filter (\<lambda>x. ge_snapshot_key x \<noteq> sk) (gd_edges (durable conn))
    \<and> complete_certificate c \<and> skipped_dependencies (can_schema (cert_snapshot c)) = 0"
proof -
  have c: "complete_certificate c" and p: "projectable sj sk c"
    and d: "durable conn' = certified_into sj sk t c (durable conn)"
    using certified_Ok[OF assms] by blast+
  have nodes: "fold (upsert node_id) (nodes_of sj sk c) [] = nodes_of sj sk c"
    unfolding nodes_of_def by (rule projected_nodes_fold[OF certified_node_keys(1)[OF c]])
  have edges: "fold (upsert edge_id) (edges_of sj sk c) [] = edges_of sj sk c"
    using p by (intro edges_fold) (simp add: projectable_def)
  have keys: "mset (map gn_node_key (nodes_of sj sk c)) = mset (map key_to_string (canonical_keys (cert_snapshot c)))"
    unfolding nodes_of_def mset_projected_node_keys by (simp add: node_keys_def canonical_keys_def)
  have "\<forall>x\<in>set (nodes_of sj sk c). gn_snapshot_key x = sk" "\<forall>x\<in>set (edges_of sj sk c). ge_snapshot_key x = sk"
    "\<forall>x\<in>set [snapshot_record sj sk t (can_schema (cert_snapshot c)) (PCertified c)]. gs_snapshot_key x = sk"
    by (auto simp: nodes_of_def edges_of_def projected_nodes_snapshot projected_edges_snapshot snapshot_record_def)
  note rows = this[THEN split_rows]
  have "gd_snapshots (durable conn') = filter (\<lambda>x. gs_snapshot_key x \<noteq> sk) (gd_snapshots (durable conn))
      @ [snapshot_record sj sk t (can_schema (cert_snapshot c)) (PCertified c)]"
    "gd_nodes (durable conn') = filter (\<lambda>x. gn_snapshot_key x \<noteq> sk) (gd_nodes (durable conn)) @ nodes_of sj sk c"
    "gd_edges (durable conn') = filter (\<lambda>x. ge_snapshot_key x \<noteq> sk) (gd_edges (durable conn)) @ edges_of sj sk c"
    by (simp_all add: d certified_into_def project_into_def nodes[unfolded nodes_of_def]
        edges[unfolded edges_of_def] nodes_of_def edges_of_def)
  with rows keys c p show ?thesis by (simp add: projectable_def)
qed

section \<open>Properties\<close>

text \<open>C5: what a stored certified snapshot is. After a success the durable database has, under the
  snapshot key, exactly one snapshot row, one node per object of the certificate and the projected
  edges, each once; the rows of every other snapshot are untouched; and the certificate was complete
  with every dependency projected.\<close>

theorem certified_insert_effect:
  assumes "insert_certified_schema_snapshot_graph sj sk t c conn = (Ok (), conn')" and "conn_inv conn"
  shows "filter (\<lambda>x. gs_snapshot_key x = sk) (gd_snapshots (durable conn')) =
      [snapshot_record sj sk t (can_schema (cert_snapshot c)) (PCertified c)]
    \<and> filter (\<lambda>x. gn_snapshot_key x = sk) (gd_nodes (durable conn')) = nodes_of sj sk c
    \<and> filter (\<lambda>x. ge_snapshot_key x = sk) (gd_edges (durable conn')) = edges_of sj sk c
    \<and> mset (map gn_node_key (nodes_of sj sk c)) = mset (map key_to_string (canonical_keys (cert_snapshot c)))
    \<and> filter (\<lambda>x. gs_snapshot_key x \<noteq> sk) (gd_snapshots (durable conn')) =
        filter (\<lambda>x. gs_snapshot_key x \<noteq> sk) (gd_snapshots (durable conn))
    \<and> filter (\<lambda>x. gn_snapshot_key x \<noteq> sk) (gd_nodes (durable conn')) =
        filter (\<lambda>x. gn_snapshot_key x \<noteq> sk) (gd_nodes (durable conn))
    \<and> filter (\<lambda>x. ge_snapshot_key x \<noteq> sk) (gd_edges (durable conn')) =
        filter (\<lambda>x. ge_snapshot_key x \<noteq> sk) (gd_edges (durable conn))
    \<and> complete_certificate c \<and> skipped_dependencies (can_schema (cert_snapshot c)) = 0"
  by (rule certified_effect[OF assms])

theorem certified_insert_effect_witness:
  "\<exists>conn'. insert_certified_schema_snapshot_graph (sample_serde sample_projectable) ''k'' 0
      sample_projectable sample_store = (Ok (), conn')
    \<and> filter (\<lambda>x. gn_snapshot_key x = ''k'') (gd_nodes (durable conn')) =
        nodes_of (sample_serde sample_projectable) ''k'' sample_projectable"
proof -
  have "conn_inv sample_store" using sample_store_quiet by (simp add: quiet_def)
  from certified_insert_effect[OF sample_projectable_stored this] sample_projectable_stored
  show ?thesis by blast
qed

text \<open>C1: the outcome on a working engine. A complete certificate whose own payload passes the
  store's validation is stored exactly when every view and routine dependency has an edge type and
  no two edges share a key; otherwise the only possible error is the edge count mismatch, the node
  counts always agree, and nothing changes.\<close>

theorem certified_insert_outcome:
  assumes "quiet conn" and "complete_certificate c"
    and "validate_persisted_snapshot_payload sj (payload_json sj (PCertified c)) = Ok ()"
  shows "insert_certified_schema_snapshot_graph sj sk t c conn =
    (if projectable sj sk c then (Ok (), conn\<lparr>cn_db := certified_into sj sk t c (cn_db conn)\<rparr>)
     else (Err (ProjectionMismatch (length (canonical_keys (cert_snapshot c))) (length (canonical_keys (cert_snapshot c)))
        (prc_graph_edges (certified_graph_projection_counts c)) (card (ge_edge_key ` set (edges_of sj sk c)))), conn))"
  by (rule certified_quiet[OF assms])

theorem certified_insert_outcome_witness:
  "insert_certified_schema_snapshot_graph (sample_serde sample_projectable) ''k'' 0 sample_projectable sample_store =
   (Ok (), sample_store\<lparr>cn_db := certified_into (sample_serde sample_projectable) ''k'' 0 sample_projectable empty_db\<rparr>)"
  using certified_insert_outcome[OF sample_store_quiet sample_projectable_complete
      sample_payload_accepted[OF sample_projectable_complete], of "''k''" 0]
  by (simp add: sample_projectable sample_store_def sample_conn_def)

text \<open>C27: a valid snapshot is always stored. On a working engine the projection of a snapshot that
  passes validation never violates a foreign key: it succeeds, and the database is the old one with
  the rows of the snapshot replaced by its projection.\<close>

theorem valid_snapshot_stored:
  assumes "quiet conn" and "well_formed_schema s"
    and "validate_persisted_snapshot_payload sj (payload_json sj (PSnapshot s)) = Ok ()"
  shows "insert_schema_snapshot_graph sj sk t s conn =
    (Ok (), conn\<lparr>cn_db := project_into sj sk t s (PSnapshot s) None (cn_db conn)\<rparr>)"
  by (rule plain_quiet[OF assms])

theorem valid_snapshot_stored_witness:
  "fst (insert_schema_snapshot_graph sample_legacy_serde ''k'' 0 (can_schema sample_snapshot) sample_store) = Ok ()"
proof -
  have "well_formed_schema (can_schema sample_snapshot)"
    using sample_well_formed by (simp add: well_formed_canonical_def Let_def)
  moreover have "validate_persisted_snapshot_payload sample_legacy_serde
      (payload_json sample_legacy_serde (PSnapshot (can_schema sample_snapshot))) = Ok ()"
    by (simp add: validate_persisted_snapshot_payload_def snapshot_contract_version_def
        sample_legacy_serde_def sample_serde_def bt_get_def map_err_def)
  ultimately show ?thesis
    using valid_snapshot_stored[OF sample_store_quiet] by simp
qed

text \<open>C31: a dependency without an edge type blocks the snapshot. A view that depends on an object
  other than a table, a column or a view passes validation and certification, but the certified
  snapshot can never be stored, because the dependency is counted and not projected.\<close>

theorem unprojected_dependency_never_stored:
  assumes "conn_inv conn" and "v \<in> set (snap_views (can_schema (cert_snapshot c)))"
    and "d \<in> set (view_depends_on v)" and "ok_object_kind d \<notin> {Table, Column, View}"
  shows "fst (insert_certified_schema_snapshot_graph sj sk t c conn) \<noteq> Ok ()"
proof
  assume "fst (insert_certified_schema_snapshot_graph sj sk t c conn) = Ok ()"
  then obtain conn' where "insert_certified_schema_snapshot_graph sj sk t c conn = (Ok (), conn')"
    by (metis prod.collapse)
  from certified_Ok[OF this assms(1)] have none: "skipped_dependencies (can_schema (cert_snapshot c)) = 0"
    by (simp add: projectable_def)
  have "view_dependency_edge (ok_object_kind d) = None"
    using assms(4) by (cases "ok_object_kind d") simp_all
  then have "unprojected_dependencies view_dependency_edge (view_depends_on v) \<noteq> 0"
    using assms(3) by (auto simp: unprojected_dependencies_def filter_empty_conv)
  then show False
    using none assms(2) by (auto simp: skipped_dependencies_def sum_list_eq_0_iff)
qed

theorem unprojected_dependency_never_stored_witness:
  "verify_certified_schema_snapshot (sample_certificate sample_routine_view) = Ok ()
   \<and> fst (insert_certified_schema_snapshot_graph (sample_serde (sample_certificate sample_routine_view)) ''k'' 0
        (sample_certificate sample_routine_view) sample_store) \<noteq> Ok ()"
proof -
  have "normalize_view sample_view \<in>
      set (snap_views (can_schema (cert_snapshot (sample_certificate sample_routine_view))))"
    by (simp add: sample_certificate_def certificate_for_def normalize_canonical_snapshot_def normalize_schema_def
        canonical_from_schema_def sample_routine_view_def Let_def)
  moreover have "sample_object_key Routine ''users'' None \<in> set (view_depends_on (normalize_view sample_view))"
    by (simp add: normalize_view_def sample_view_def)
  moreover have "conn_inv sample_store" using sample_store_quiet by (simp add: quiet_def)
  ultimately show ?thesis
    using unprojected_dependency_never_stored[of sample_store "normalize_view sample_view"]
      sample_routine_view_complete
    by (simp add: verify_Ok_iff sample_object_key_def)
qed

end
