(* ===== verification/Search_Spec.thy ===== *)
theory Search_Spec
  imports Rust_Prelude
begin

text \<open>
  What a breadth-first search promises, independent of the store: \<open>reach\<close> and \<open>at_depth\<close> say which
  nodes lie at which distance from a start node, \<open>bfs_inv\<close> relates the discovered nodes and the queue
  of a search in progress, and the lemmas show that each kind of iteration of the loops in
  \<open>impact_analysis.rs\<close> and \<open>graph_query.rs\<close> keeps it.
\<close>

section \<open>Distances\<close>

definition reach :: "('a \<Rightarrow> 'a \<Rightarrow> bool) \<Rightarrow> 'a \<Rightarrow> nat \<Rightarrow> 'a \<Rightarrow> bool" where
  "reach adj start n k = (adj ^^ n) start k"

definition at_depth :: "('a \<Rightarrow> 'a \<Rightarrow> bool) \<Rightarrow> 'a \<Rightarrow> nat \<Rightarrow> 'a \<Rightarrow> bool" where
  "at_depth adj start d k = (reach adj start d k \<and> (\<forall>m<d. \<not> reach adj start m k))"

lemma reach_0 [simp]: "reach adj start 0 k \<longleftrightarrow> k = start"
  by (auto simp: reach_def)

lemma reach_Suc: "reach adj start (Suc n) k \<longleftrightarrow> (\<exists>p. reach adj start n p \<and> adj p k)"
  by (auto simp: reach_def)

lemma at_depth_0 [simp]: "at_depth adj start 0 k \<longleftrightarrow> k = start"
  by (simp add: at_depth_def)

lemma at_depth_unique: "at_depth adj start d k \<Longrightarrow> at_depth adj start d' k \<Longrightarrow> d = d'"
  unfolding at_depth_def by (meson linorder_neqE_nat)

lemma at_depth_exists: "reach adj start n k \<Longrightarrow> \<exists>d\<le>n. at_depth adj start d k"
  unfolding at_depth_def
  by (induction n rule: less_induct) (meson less_imp_le order_trans order_refl)

section \<open>A search in progress\<close>

text \<open>\<open>D\<close> lists the discovered nodes with their depths, \<open>Q\<close> the discovered ones still to be expanded.\<close>

definition bfs_sound :: "('a \<Rightarrow> 'a \<Rightarrow> bool) \<Rightarrow> 'a \<Rightarrow> nat \<Rightarrow> ('a \<times> nat) list \<Rightarrow> bool" where
  "bfs_sound adj start bound D =
     (distinct (map fst D) \<and> (start, 0) \<in> set D
      \<and> (\<forall>(k, d)\<in>set D. d \<le> bound \<and> at_depth adj start d k))"

definition bfs_closed :: "('a \<Rightarrow> 'a \<Rightarrow> bool) \<Rightarrow> nat \<Rightarrow> ('a \<times> nat) list \<Rightarrow> ('a \<times> nat) list \<Rightarrow> bool" where
  "bfs_closed adj bound D Q =
     (\<forall>(k, d)\<in>set D. d < bound \<longrightarrow>
        (k, d) \<in> set Q \<or> (\<forall>k'. adj k k' \<longrightarrow> (\<exists>d'\<le>Suc d. (k', d') \<in> set D)))"

definition bfs_inv ::
  "('a \<Rightarrow> 'a \<Rightarrow> bool) \<Rightarrow> 'a \<Rightarrow> nat \<Rightarrow> ('a \<times> nat) list \<Rightarrow> ('a \<times> nat) list \<Rightarrow> bool" where
  "bfs_inv adj start bound D Q =
     (bfs_sound adj start bound D \<and> set Q \<subseteq> set D \<and> sorted (map snd Q)
      \<and> (\<forall>q\<in>set Q. \<forall>x\<in>set D. snd x \<le> Suc (snd q)) \<and> bfs_closed adj bound D Q)"

lemma bfs_init: "bfs_inv adj start bound [(start, 0)] [(start, 0)]"
  by (auto simp: bfs_inv_def bfs_sound_def bfs_closed_def)

lemma bfs_skip:
  "bfs_inv adj start bound D ((k, bound) # Q) \<Longrightarrow> bfs_inv adj start bound D Q"
  by (fastforce simp: bfs_inv_def bfs_closed_def)

lemma bfs_levels:
  assumes "bfs_inv adj start bound D Q" and "\<forall>q\<in>set Q. d \<le> snd q" and "d \<le> bound"
  shows "m \<le> d \<Longrightarrow> reach adj start m k \<Longrightarrow> \<exists>d'\<le>m. (k, d') \<in> set D"
proof (induction m arbitrary: k)
  case 0
  then show ?case using assms(1) by (auto simp: bfs_inv_def bfs_sound_def)
next
  case (Suc m)
  then obtain p where p: "reach adj start m p" "adj p k" by (auto simp: reach_Suc)
  then obtain d' where d': "d' \<le> m" "(p, d') \<in> set D" using Suc by fastforce
  moreover have "(p, d') \<notin> set Q" using assms(2) Suc.prems(1) d'(1) by force
  ultimately have "\<exists>e\<le>Suc d'. (k, e) \<in> set D"
    using assms(1,3) p(2) Suc.prems(1) unfolding bfs_inv_def bfs_closed_def by fastforce
  then show ?case using d'(1) by (meson Suc_le_mono le_trans)
qed

text \<open>Expanding the head of the queue discovers only nodes one level deeper, also when the expansion
  stops before all neighbours are known.\<close>

lemma bfs_expand_sound:
  assumes inv: "bfs_inv adj start bound D ((k, d) # Q)" and d: "d < bound" and N: "distinct N"
    and new: "\<And>x. x \<in> set N \<Longrightarrow> adj k x \<and> x \<notin> fst ` set D"
  shows "bfs_sound adj start bound (D @ map (\<lambda>x. (x, Suc d)) N)"
proof -
  have low: "\<forall>q\<in>set ((k, d) # Q). d \<le> snd q" using inv by (auto simp: bfs_inv_def)
  have "reach adj start d k" using inv by (force simp: bfs_inv_def bfs_sound_def at_depth_def)
  then have "at_depth adj start (Suc d) x" if "x \<in> set N" for x
    using new[OF that] bfs_levels[OF inv low less_imp_le[OF d]]
    unfolding at_depth_def reach_Suc by (force simp: less_Suc_eq_le)
  then show ?thesis
    using inv N new d by (auto simp: bfs_inv_def bfs_sound_def comp_def distinct_map)
qed

lemma bfs_expand:
  assumes inv: "bfs_inv adj start bound D ((k, d) # Q)" and d: "d < bound" and N: "distinct N"
    and new: "\<And>x. x \<in> set N \<Longrightarrow> adj k x \<and> x \<notin> fst ` set D"
    and all: "\<And>x. adj k x \<Longrightarrow> x \<in> fst ` set D \<union> set N"
    and push: "P = map (\<lambda>x. (x, Suc d)) N \<or> Suc d = bound \<and> P = []"
  shows "bfs_inv adj start bound (D @ map (\<lambda>x. (x, Suc d)) N) (Q @ P)"
proof -
  let ?N = "map (\<lambda>x. (x, Suc d)) N"
  have D: "snd x \<le> Suc d" if "x \<in> set D" for x using inv that by (auto simp: bfs_inv_def)
  have Q: "set Q \<subseteq> set D" "sorted (map snd Q)" "\<And>q. q \<in> set Q \<Longrightarrow> d \<le> snd q"
    using inv by (auto simp: bfs_inv_def)
  have P: "set P \<subseteq> set ?N" "sorted (map snd P)" using push by (auto simp: comp_def map_replicate_const)
  have sorted: "sorted (map snd (Q @ P))"
    using Q P D by (fastforce simp: sorted_append)
  have bound: "snd x \<le> Suc (snd q)" if "q \<in> set (Q @ P)" "x \<in> set (D @ ?N)" for q x
    using that Q(3) P(1) D by fastforce
  have succ: "\<exists>d'\<le>Suc d. (x, d') \<in> set (D @ ?N)" if "adj k x" for x
    using all[OF that] D by fastforce
  have "bfs_closed adj bound (D @ ?N) (Q @ P)"
    unfolding bfs_closed_def
  proof (intro ballI, clarify)
    fix a e k'
    assume ae: "(a, e) \<in> set (D @ ?N)" "e < bound" "(a, e) \<notin> set (Q @ P)" "adj a k'"
    show "\<exists>d'\<le>Suc e. (k', d') \<in> set (D @ ?N)"
    proof (cases "(a, e) = (k, d)")
      case True
      then show ?thesis using succ ae(4) by simp
    next
      case False
      with ae push have "(a, e) \<in> set D" "(a, e) \<notin> set ((k, d) # Q)" by auto
      then show ?thesis using inv ae(2,4) by (fastforce simp: bfs_inv_def bfs_closed_def)
    qed
  qed
  then show ?thesis
    using bfs_expand_sound[OF inv d N new] sorted bound Q(1) P(1) by (auto simp: bfs_inv_def)
qed

text \<open>A finished search knows exactly the nodes within the bound, each with its distance.\<close>

lemma bfs_done:
  assumes "bfs_inv adj start bound D []"
  shows "(k, d) \<in> set D \<longleftrightarrow> d \<le> bound \<and> at_depth adj start d k"
proof
  assume "(k, d) \<in> set D"
  then show "d \<le> bound \<and> at_depth adj start d k" using assms by (auto simp: bfs_inv_def bfs_sound_def)
next
  assume a: "d \<le> bound \<and> at_depth adj start d k"
  then obtain d' where "(k, d') \<in> set D"
    using bfs_levels[OF assms, of d d k] by (auto simp: at_depth_def)
  moreover then have "at_depth adj start d' k" using assms by (auto simp: bfs_inv_def bfs_sound_def)
  ultimately show "(k, d) \<in> set D" using a at_depth_unique by metis
qed

end
