(* ===== verification/Impact_Analysis.thy ===== *)
theory Impact_Analysis
  imports Graph_Store Search_Spec
begin

text \<open>
  \<open>impact_analysis.rs\<close>: the edges next to a node with a budget (\<open>next_edges_bounded\<close>, also used by the
  relationship trace and the graph query) and the breadth-first impact analysis over them.
  The contract of a bounded source of edges is the locale \<open>bounded_edges\<close>.
\<close>

section \<open>Types\<close>

datatype Direction = Inbound | Outbound | Both

record ImpactAnalysisNode =
  ian_node_key :: string
  ian_label :: string
  ian_display_name :: "string option"
  ian_depth :: nat
  ian_edge_type_used :: string
  ian_edge_from :: string
  ian_edge_to :: string

record ImpactAnalysisGroup =
  iag_label :: string
  iag_depth :: nat
  iag_nodes :: "ImpactAnalysisNode list"

record ImpactAnalysisResult =
  iar_snapshot_key :: string
  iar_object_key :: string
  iar_direction :: Direction
  iar_max_depth :: nat
  iar_groups :: "ImpactAnalysisGroup list"

record BoundedImpactAnalysisResult =
  bir_result :: ImpactAnalysisResult
  bir_truncated :: bool

type_synonym next_edge = "GraphEdgeRecord \<times> string"

section \<open>The edges next to a node\<close>

definition outbound :: "GraphEdgeRecord \<Rightarrow> next_edge" where
  "outbound edge = (edge, ge_edge_to edge)"

definition inbound :: "GraphEdgeRecord \<Rightarrow> next_edge" where
  "inbound edge = (edge, ge_edge_from edge)"

text \<open>The part of the edges that a direction asks for, fetched only then.\<close>

definition fetch_if ::
  "bool \<Rightarrow> (GraphStoreError, GraphEdgeRecord list) result \<Rightarrow> (GraphStoreError, GraphEdgeRecord list) result" where
  "fetch_if wanted fetched = (if wanted then fetched else Ok [])"

definition next_edges ::
  "string \<Rightarrow> string \<Rightarrow> Direction \<Rightarrow> Connection \<Rightarrow> (GraphStoreError, next_edge list) result" where
  "next_edges snapshot_key node_key direction store =
     try_with (fetch_if (direction \<in> {Outbound, Both}) (edges_from snapshot_key node_key store)) (\<lambda>out.
     try_with (fetch_if (direction \<in> {Inbound, Both}) (edges_to snapshot_key node_key store)) (\<lambda>inb.
       Ok (map outbound out @ map inbound inb)))"

definition traversal_edge_priority :: "string \<Rightarrow> nat" where
  "traversal_edge_priority edge_type =
     (if edge_type \<in> {''DATABASE_HAS_SCHEMA'', ''SCHEMA_HAS_TABLE'', ''SCHEMA_HAS_VIEW'',
          ''SCHEMA_HAS_ROUTINE'', ''TABLE_HAS_COLUMN''} then 2
      else if edge_type = ''TABLE_HAS_INDEX'' then 1
      else 0)"

text \<open>\<open>Vec::dedup_by\<close>: of neighbours with the same key the first one stays.\<close>

fun dedup_by_key :: "('a \<Rightarrow> 'k) \<Rightarrow> 'a list \<Rightarrow> 'a list" where
  "dedup_by_key f (x # y # xs) =
     (if f x = f y then dedup_by_key f (x # xs) else x # dedup_by_key f (y # xs))"
| "dedup_by_key f xs = xs"

definition merge_bounded_edges ::
  "next_edge list \<Rightarrow> nat \<Rightarrow> bool \<Rightarrow> next_edge list \<times> bool" where
  "merge_bounded_edges edges max_edges source_truncated =
     (let edges = sort_key (\<lambda>e. (traversal_edge_priority (ge_edge_type (fst e)), ge_edge_key (fst e))) edges;
          edges = dedup_by_key (\<lambda>e. ge_edge_key (fst e)) edges;
          truncated = (source_truncated \<or> length edges > max_edges)
      in (take max_edges edges, truncated))"

definition next_edges_bounded ::
  "string \<Rightarrow> string \<Rightarrow> Direction \<Rightarrow> nat \<Rightarrow> Connection
    \<Rightarrow> (GraphStoreError, next_edge list \<times> bool) result" where
  "next_edges_bounded snapshot_key node_key direction max_edges store =
     (if max_edges = usize_MAX
      then try_with (next_edges snapshot_key node_key direction store) (\<lambda>edges. Ok (edges, False))
      else
        (let fetch_limit = saturating_add max_edges 1 in
         try_with (fetch_if (direction \<in> {Outbound, Both})
           (edges_from_limited snapshot_key node_key fetch_limit store)) (\<lambda>out.
         try_with (fetch_if (direction \<in> {Inbound, Both})
           (edges_to_limited snapshot_key node_key fetch_limit store)) (\<lambda>inb.
           Ok (merge_bounded_edges (map outbound out @ map inbound inb) max_edges
                 (length out > max_edges \<or> length inb > max_edges))))))"

section \<open>The traversal\<close>

definition impact_node :: "GraphEdgeRecord \<Rightarrow> string \<Rightarrow> GraphNodeRecord \<Rightarrow> nat \<Rightarrow> ImpactAnalysisNode" where
  "impact_node edge next_key node next_depth =
     \<lparr>ian_node_key = next_key, ian_label = gn_label node, ian_display_name = gn_display_name node,
       ian_depth = next_depth, ian_edge_type_used = ge_edge_type edge,
       ian_edge_from = ge_edge_from edge, ian_edge_to = ge_edge_to edge\<rparr>"

text \<open>The inner loop over the edges of one node, with the set of visited keys, the queue and the
  result.\<close>

type_synonym impact_state = "string set \<times> (string \<times> nat) list \<times> ImpactAnalysisNode list"

fun impact_visit ::
  "string \<Rightarrow> Connection \<Rightarrow> nat \<Rightarrow> next_edge list \<Rightarrow> impact_state \<Rightarrow> (GraphStoreError, impact_state) result" where
  "impact_visit snapshot_key store depth [] st = Ok st"
| "impact_visit snapshot_key store depth ((edge, next_key) # edges) (visited, queue, nodes) =
     (if next_key \<in> visited then impact_visit snapshot_key store depth edges (visited, queue, nodes)
      else
        try_with (get_node snapshot_key next_key store) (\<lambda>found.
          case found of
            None \<Rightarrow> impact_visit snapshot_key store depth edges (insert next_key visited, queue, nodes)
          | Some node \<Rightarrow>
              impact_visit snapshot_key store depth edges
                (insert next_key visited, queue @ [(next_key, depth + 1)],
                 nodes @ [impact_node edge next_key node (depth + 1)])))"

text \<open>A stored node under its key.\<close>

definition node_at :: "GraphDb \<Rightarrow> string \<Rightarrow> string \<Rightarrow> GraphNodeRecord option" where
  "node_at db sk k = find_row (\<lambda>x. gn_snapshot_key x = sk \<and> gn_node_key x = k) (gd_nodes db)"

text \<open>The nodes that a loop over edges discovers: stored, and not visited before.\<close>

fun discover ::
  "(string \<Rightarrow> GraphNodeRecord option) \<Rightarrow> string set \<Rightarrow> next_edge list
    \<Rightarrow> (GraphEdgeRecord \<times> string \<times> GraphNodeRecord) list" where
  "discover node visited [] = []"
| "discover node visited ((e, k) # es) =
     (if k \<in> visited then discover node visited es
      else (case node k of
              None \<Rightarrow> discover node (insert k visited) es
            | Some n \<Rightarrow> (e, k, n) # discover node (insert k visited) es))"

abbreviation found_keys :: "('e \<times> string \<times> 'n) list \<Rightarrow> string list" where
  "found_keys found \<equiv> map (\<lambda>(e, k, n). k) found"

lemma discover_found:
  "(e, k, n) \<in> set (discover node visited es) \<Longrightarrow> (e, k) \<in> set es \<and> k \<notin> visited \<and> node k = Some n"
  by (induction node visited es rule: discover.induct) (auto split: if_splits option.splits)

lemma discover_distinct: "distinct (found_keys (discover node visited es))"
  by (induction node visited es rule: discover.induct)
    (auto split: option.splits dest!: discover_found)

lemma discover_all:
  "(e, k) \<in> set es \<Longrightarrow> node k \<noteq> None \<Longrightarrow> k \<notin> visited
    \<Longrightarrow> k \<in> set (found_keys (discover node visited es))"
  by (induction node visited es rule: discover.induct)
    (auto split: option.splits if_splits, metis option.distinct(1))

lemma discover_length: "length (discover node visited es) \<le> length es"
  by (induction node visited es rule: discover.induct) (auto split: option.splits)

definition no_read_faults :: "Connection \<Rightarrow> bool" where
  "no_read_faults store = (\<forall>q. cn_read_fault store q = None)"

lemma get_node_node_at: "get_node sk k store = Ok r \<Longrightarrow> r = node_at (cn_db store) sk k"
  by (auto simp: get_node_def node_at_def read_with_def split: option.splits)

lemma get_node_answers: "no_read_faults store \<Longrightarrow> get_node sk k store = Ok (node_at (cn_db store) sk k)"
  by (simp add: no_read_faults_def get_node_def node_at_def read_with_def)

abbreviation found_nodes :: "nat \<Rightarrow> (GraphEdgeRecord \<times> string \<times> GraphNodeRecord) list \<Rightarrow> ImpactAnalysisNode list" where
  "found_nodes d found \<equiv> map (\<lambda>(e, k, n). impact_node e k n d) found"

lemma impact_visit_Ok:
  assumes "impact_visit sk store depth es (V, Q, ns) = Ok st"
  shows "let N = discover (node_at (cn_db store) sk) V es
    in st = (V \<union> snd ` set es, Q @ map (\<lambda>x. (x, Suc depth)) (found_keys N), ns @ found_nodes (Suc depth) N)"
  using assms
proof (induction sk store depth es "(V, Q, ns)" arbitrary: V Q ns rule: impact_visit.induct)
  case (2 sk store depth e k es V Q ns)
  show ?case
  proof (cases "k \<in> V")
    case True
    then show ?thesis using 2(1)[OF True] 2(4) by (simp add: Let_def insert_absorb)
  next
    case False
    then obtain found where get: "get_node sk k store = Ok found"
      using 2(4) by (auto simp: try_with_Ok_iff)
    have found: "node_at (cn_db store) sk k = found" using get_node_node_at[OF get] by simp
    show ?thesis
    proof (cases found)
      case None
      then show ?thesis using 2(2)[OF False] 2(4) False get found by (simp add: Let_def)
    next
      case (Some n)
      then show ?thesis using 2(3)[OF False, of n] 2(4) False get found by (simp add: Let_def)
    qed
  qed
qed simp

lemma impact_visit_answers:
  "no_read_faults store \<Longrightarrow> \<exists>st'. impact_visit sk store depth es st = Ok st'"
  by (induction sk store depth es st rule: impact_visit.induct)
    (auto simp: get_node_answers split: option.splits)

lemma stored_keys_finite: "finite {k. node_at db sk k \<noteq> None}"
  by (rule finite_subset[of _ "gn_node_key ` set (gd_nodes db)"])
    (auto simp: node_at_def find_row_def find_Some_iff)

lemma discover_measure:
  assumes "finite {k. node k \<noteq> None}"
  shows "card ({k. node k \<noteq> None} - (V \<union> snd ` set es)) + length (discover node V es) \<le> card ({k. node k \<noteq> None} - V)"
proof -
  let ?S = "{k. node k \<noteq> None}" and ?N = "set (found_keys (discover node V es))"
  have "?N \<subseteq> ?S - V" "?S - (V \<union> snd ` set es) \<subseteq> ?S - V - ?N"
    by (force dest: discover_found)+
  moreover have "card ?N = length (discover node V es)"
    using distinct_card[OF discover_distinct, of node V es] by simp
  moreover have "card (?S - (V \<union> snd ` set es)) \<le> card (?S - V - ?N)"
    using assms calculation(2) by (intro card_mono) auto
  ultimately show ?thesis
    using card_Diff_subset[of ?N "?S - V"] card_mono[of "?S - V" ?N] assms by simp
qed

lemma impact_visit_measure:
  assumes "impact_visit sk store depth es (V, Q, ns) = Ok (V', Q', ns')"
  shows "card ({k. node_at (cn_db store) sk k \<noteq> None} - V') + length Q'
    \<le> card ({k. node_at (cn_db store) sk k \<noteq> None} - V) + length Q"
  using impact_visit_Ok[OF assms] discover_measure[OF stored_keys_finite, of "cn_db store" sk V es]
  by (simp add: Let_def)

function impact_loop ::
  "string \<Rightarrow> Connection \<Rightarrow> Direction \<Rightarrow> nat \<Rightarrow> nat \<Rightarrow> impact_state \<Rightarrow> nat \<Rightarrow> bool
    \<Rightarrow> (GraphStoreError, ImpactAnalysisNode list \<times> bool) result" where
  "impact_loop snapshot_key store direction max_depth max_results (visited, [], nodes) remaining_budget truncated =
     Ok (nodes, truncated)"
| "impact_loop snapshot_key store direction max_depth max_results
     (visited, (node_key, depth) # queue, nodes) remaining_budget truncated =
     (if depth = max_depth
      then impact_loop snapshot_key store direction max_depth max_results (visited, queue, nodes)
        remaining_budget truncated
      else case next_edges_bounded snapshot_key node_key direction remaining_budget store of
        Inl err \<Rightarrow> Err err
      | Inr (edges, has_more_edges) \<Rightarrow>
          (let remaining_budget = (if max_results \<noteq> usize_MAX then remaining_budget - length edges
                                  else remaining_budget);
               truncated = (truncated \<or> has_more_edges)
           in case impact_visit snapshot_key store depth edges (visited, queue, nodes) of
                Inl err \<Rightarrow> Err err
              | Inr (visited, queue, nodes) \<Rightarrow>
                  if has_more_edges then Ok (nodes, truncated)
                  else impact_loop snapshot_key store direction max_depth max_results
                    (visited, queue, nodes) remaining_budget truncated))"
  by pat_completeness auto

termination
  by (relation "measure (\<lambda>(sk, store, _, _, _, (visited, queue, _), _).
      card ({k. node_at (cn_db store) sk k \<noteq> None} - visited) + length queue)")
    (auto dest!: impact_visit_measure)

section \<open>The result in groups\<close>

definition group_node ::
  "ImpactAnalysisNode \<Rightarrow> (string \<times> nat, ImpactAnalysisNode list) btree
    \<Rightarrow> (string \<times> nat, ImpactAnalysisNode list) btree" where
  "group_node node grouped =
     (let key = (ian_label node, ian_depth node)
      in bt_insert key (case bt_get grouped key of None \<Rightarrow> [node] | Some nodes \<Rightarrow> nodes @ [node]) grouped)"

definition impact_result ::
  "string \<Rightarrow> string \<Rightarrow> Direction \<Rightarrow> nat \<Rightarrow> ImpactAnalysisNode list \<Rightarrow> ImpactAnalysisResult" where
  "impact_result snapshot_key object_key direction max_depth nodes =
     \<lparr>iar_snapshot_key = snapshot_key, iar_object_key = object_key, iar_direction = direction,
       iar_max_depth = max_depth,
       iar_groups =
         map (\<lambda>((label, depth), nodes).
             \<lparr>iag_label = label, iag_depth = depth, iag_nodes = sort_key ian_node_key nodes\<rparr>)
           (fold group_node nodes [])\<rparr>"

definition impact_analysis_bounded ::
  "string \<Rightarrow> string \<Rightarrow> Direction \<Rightarrow> nat \<Rightarrow> nat \<Rightarrow> Connection
    \<Rightarrow> (GraphStoreError, BoundedImpactAnalysisResult) result" where
  "impact_analysis_bounded snapshot_key object_key direction max_depth max_results store =
     try_with (get_node snapshot_key object_key store) (\<lambda>found.
       case found of
         None \<Rightarrow>
           Ok \<lparr>bir_result = impact_result snapshot_key object_key direction max_depth [], bir_truncated = False\<rparr>
       | Some _ \<Rightarrow>
           try_with (impact_loop snapshot_key store direction max_depth max_results
               ({object_key}, [(object_key, 0)], []) max_results False)
             (\<lambda>(nodes, truncated).
               Ok \<lparr>bir_result = impact_result snapshot_key object_key direction max_depth nodes,
                    bir_truncated = truncated\<rparr>))"

definition impact_analysis ::
  "string \<Rightarrow> string \<Rightarrow> Direction \<Rightarrow> nat \<Rightarrow> Connection
    \<Rightarrow> (GraphStoreError, ImpactAnalysisResult) result" where
  "impact_analysis snapshot_key object_key direction max_depth store =
     try_with (impact_analysis_bounded snapshot_key object_key direction max_depth usize_MAX store)
       (\<lambda>bounded. Ok (bir_result bounded))"

section \<open>The contract of a bounded source of edges\<close>

text \<open>Which edges lead from a node to which key, in a direction.\<close>

definition incident :: "Direction \<Rightarrow> GraphDb \<Rightarrow> string \<Rightarrow> string \<Rightarrow> next_edge \<Rightarrow> bool" where
  "incident direction db sk k = (\<lambda>(e, x).
     e \<in> set (gd_edges db) \<and> ge_snapshot_key e = sk
     \<and> (direction \<in> {Outbound, Both} \<and> ge_edge_from e = k \<and> ge_edge_to e = x
        \<or> direction \<in> {Inbound, Both} \<and> ge_edge_to e = k \<and> ge_edge_from e = x))"

text \<open>The stored nodes one admitted edge away.\<close>

definition adjacent ::
  "(GraphDb \<Rightarrow> string \<Rightarrow> string \<Rightarrow> next_edge \<Rightarrow> bool) \<Rightarrow> GraphDb \<Rightarrow> string \<Rightarrow> string \<Rightarrow> string \<Rightarrow> bool" where
  "adjacent admits db sk k x = ((\<exists>e. admits db sk k (e, x)) \<and> node_at db sk x \<noteq> None)"

text \<open>A table that fits the signed row numbers of the engine, with its keys intact.\<close>

definition searchable :: "GraphDb \<Rightarrow> bool" where
  "searchable db = (graph_inv db \<and> length (gd_edges db) \<le> i64_MAX)"

lemma visited_grows: "V \<inter> S = F \<Longrightarrow> E \<inter> S \<subseteq> F \<union> K \<Longrightarrow> K \<subseteq> E \<inter> S \<Longrightarrow> (V \<union> E) \<inter> S = F \<union> K"
  by blast

locale bounded_edges =
  fixes edges_near :: "string \<Rightarrow> string \<Rightarrow> nat \<Rightarrow> Connection \<Rightarrow> (GraphStoreError, next_edge list \<times> bool) result"
    and admits :: "GraphDb \<Rightarrow> string \<Rightarrow> string \<Rightarrow> next_edge \<Rightarrow> bool"
  assumes within_budget: "edges_near sk k b store = Ok (es, partial) \<Longrightarrow> b \<noteq> usize_MAX \<Longrightarrow> length es \<le> b"
    and only_admitted: "edges_near sk k b store = Ok (es, partial) \<Longrightarrow> x \<in> set es \<Longrightarrow> admits (cn_db store) sk k x"
    and all_admitted: "edges_near sk k b store = Ok (es, False) \<Longrightarrow> searchable (cn_db store)
      \<Longrightarrow> admits (cn_db store) sk k x \<Longrightarrow> x \<in> set es"
    and answers: "no_read_faults store \<Longrightarrow> \<exists>es partial. edges_near sk k b store = Ok (es, partial)"
begin

text \<open>One expansion of a breadth-first search over the source, with \<open>V\<close> the visited keys.\<close>

lemma expansion:
  assumes near: "edges_near sk k b store = Ok (es, partial)" and db: "searchable (cn_db store)"
    and inv: "bfs_inv (adjacent admits (cn_db store) sk) start bound D ((k, d) # Q)" and d: "d < bound"
    and V: "V \<inter> {x. node_at (cn_db store) sk x \<noteq> None} = fst ` set D"
  defines "N \<equiv> discover (node_at (cn_db store) sk) V es"
  shows expansion_sound:
      "bfs_sound (adjacent admits (cn_db store) sk) start bound (D @ map (\<lambda>x. (x, Suc d)) (found_keys N))"
    and expansion_inv: "\<not> partial \<Longrightarrow> P = map (\<lambda>x. (x, Suc d)) (found_keys N) \<or> Suc d = bound \<and> P = [] \<Longrightarrow>
      bfs_inv (adjacent admits (cn_db store) sk) start bound
        (D @ map (\<lambda>x. (x, Suc d)) (found_keys N)) (Q @ P)"
    and expansion_visited: "(V \<union> snd ` set es) \<inter> {x. node_at (cn_db store) sk x \<noteq> None} =
      fst ` set (D @ map (\<lambda>x. (x, Suc d)) (found_keys N))"
    and expansion_edges: "(e, x, n) \<in> set N \<Longrightarrow>
      admits (cn_db store) sk k (e, x) \<and> node_at (cn_db store) sk x = Some n \<and> x \<notin> V"
proof -
  have N: "distinct (found_keys N)" unfolding N_def by (rule discover_distinct)
  have found: "admits (cn_db store) sk k (e, x) \<and> node_at (cn_db store) sk x = Some n \<and> x \<notin> V"
    if "(e, x, n) \<in> set N" for e x n
    using discover_found[OF that[unfolded N_def]] only_admitted[OF near] by blast
  have new: "adjacent admits (cn_db store) sk k x \<and> x \<notin> fst ` set D" if x: "x \<in> set (found_keys N)" for x
  proof -
    obtain e n where "(e, x, n) \<in> set N" using x by auto
    from found[OF this] V show ?thesis unfolding adjacent_def by blast
  qed
  have seen: "x \<in> fst ` set D \<union> set (found_keys N)" if x: "x \<in> snd ` set es" "node_at (cn_db store) sk x \<noteq> None" for x
  proof -
    obtain e where "(e, x) \<in> set es" using x(1) by force
    from discover_all[where node = "node_at (cn_db store) sk" and visited = V, OF this x(2)] x(2) V show ?thesis unfolding N_def by blast
  qed
  have all: "x \<in> fst ` set D \<union> set (found_keys N)" if x: "adjacent admits (cn_db store) sk k x" "\<not> partial" for x
  proof -
    obtain e where "admits (cn_db store) sk k (e, x)" "node_at (cn_db store) sk x \<noteq> None"
      using x(1) by (auto simp: adjacent_def)
    moreover then have "x \<in> snd ` set es" using all_admitted[of sk k b store es] near db x(2) by force
    ultimately show ?thesis using seen by blast
  qed
  show "bfs_sound (adjacent admits (cn_db store) sk) start bound (D @ map (\<lambda>x. (x, Suc d)) (found_keys N))"
    by (rule bfs_expand_sound[OF inv d N new])
  show "bfs_inv (adjacent admits (cn_db store) sk) start bound
        (D @ map (\<lambda>x. (x, Suc d)) (found_keys N)) (Q @ P)"
    if "\<not> partial" "P = map (\<lambda>x. (x, Suc d)) (found_keys N) \<or> Suc d = bound \<and> P = []"
    using bfs_expand[OF inv d N new all that(2)] that(1) by blast
  show "(V \<union> snd ` set es) \<inter> {x. node_at (cn_db store) sk x \<noteq> None} =
      fst ` set (D @ map (\<lambda>x. (x, Suc d)) (found_keys N))"
  proof -
    let ?S = "{x. node_at (cn_db store) sk x \<noteq> None}"
    have "fst ` set (D @ map (\<lambda>x. (x, Suc d)) (found_keys N)) = fst ` set D \<union> set (found_keys N)"
      by (force simp: image_Un image_image)
    moreover have "snd ` set es \<inter> ?S \<subseteq> fst ` set D \<union> set (found_keys N)" using seen by blast
    moreover have "set (found_keys N) \<subseteq> snd ` set es \<inter> ?S"
      using discover_found unfolding N_def by force
    ultimately show ?thesis using visited_grows[OF V, of "snd ` set es" "set (found_keys N)"] by simp
  qed
  show "(e, x, n) \<in> set N \<Longrightarrow>
      admits (cn_db store) sk k (e, x) \<and> node_at (cn_db store) sk x = Some n \<and> x \<notin> V"
    by (rule found)
qed

end

section \<open>The stored edges as a bounded source\<close>

lemma set_dedup_subset: "set (dedup_by_key f xs) \<subseteq> set xs"
  by (induction f xs rule: dedup_by_key.induct) auto

lemma set_dedup_by_key: "inj_on f (set xs) \<Longrightarrow> set (dedup_by_key f xs) = set xs"
  by (induction f xs rule: dedup_by_key.induct) auto

lemma merge_facts:
  assumes "merge_bounded_edges edges b st = (es, partial)"
  shows "length es \<le> b" "set es \<subseteq> set edges" "\<not> partial \<Longrightarrow> \<not> st"
    "\<not> partial \<Longrightarrow> inj_on (\<lambda>e. ge_edge_key (fst e)) (set edges) \<Longrightarrow> set es = set edges"
  using assms
  by (auto simp: merge_bounded_edges_def Let_def set_dedup_by_key dest!: in_set_takeD subsetD[OF set_dedup_subset])

lemma take_limited:
  assumes "length xs \<le> i64_MAX" and "\<not> length (take (sqlite_limit (saturating_add b 1)) xs) > b"
  shows "take (sqlite_limit (saturating_add b 1)) xs = xs"
  using assms by (auto simp: sqlite_limit_def saturating_add_def i64_MAX_def usize_MAX_def min_def split: if_splits)

text \<open>Fetching one row more than the budget from both sides and merging.\<close>

definition fetch_both :: "GraphEdgeRecord list \<Rightarrow> GraphEdgeRecord list \<Rightarrow> nat \<Rightarrow> next_edge list \<times> bool" where
  "fetch_both outs ins b =
     (let n = sqlite_limit (saturating_add b 1)
      in merge_bounded_edges (map outbound (take n outs) @ map inbound (take n ins)) b
           (length (take n outs) > b \<or> length (take n ins) > b))"

lemma fetch_both_facts:
  assumes "fetch_both outs ins b = (es, partial)"
  shows "length es \<le> b" "set es \<subseteq> outbound ` set outs \<union> inbound ` set ins"
    and "\<not> partial \<Longrightarrow> length outs \<le> i64_MAX \<Longrightarrow> length ins \<le> i64_MAX
      \<Longrightarrow> inj_on (\<lambda>e. ge_edge_key (fst e)) (outbound ` set outs \<union> inbound ` set ins)
      \<Longrightarrow> set es = outbound ` set outs \<union> inbound ` set ins"
proof -
  let ?n = "sqlite_limit (saturating_add b 1)"
  note merge = assms[unfolded fetch_both_def Let_def]
  show "length es \<le> b" by (rule merge_facts(1)[OF merge])
  show "set es \<subseteq> outbound ` set outs \<union> inbound ` set ins"
    using merge_facts(2)[OF merge] set_take_subset[of ?n outs] set_take_subset[of ?n ins]
    by (simp only: set_append set_map) blast
  assume "\<not> partial" "length outs \<le> i64_MAX" "length ins \<le> i64_MAX"
    and inj: "inj_on (\<lambda>e. ge_edge_key (fst e)) (outbound ` set outs \<union> inbound ` set ins)"
  moreover then have "take ?n outs = outs" "take ?n ins = ins"
    using merge_facts(3)[OF merge] take_limited by blast+
  ultimately show "set es = outbound ` set outs \<union> inbound ` set ins"
    using merge_facts(4)[OF merge] by simp
qed

lemma incident_sides:
  "{x. incident direction db sk k x} =
     outbound ` {e \<in> set (gd_edges db). direction \<in> {Outbound, Both} \<and> ge_snapshot_key e = sk \<and> ge_edge_from e = k}
     \<union> inbound ` {e \<in> set (gd_edges db). direction \<in> {Inbound, Both} \<and> ge_snapshot_key e = sk \<and> ge_edge_to e = k}"
  by (auto simp: incident_def outbound_def inbound_def)

lemma incident_key_inj:
  assumes "graph_inv db"
  shows "inj_on (\<lambda>e. ge_edge_key (fst e)) {x. incident direction db sk k x}"
proof (rule inj_onI, clarify)
  fix e x f y
  assume ex: "incident direction db sk k (e, x)" and fy: "incident direction db sk k (f, y)"
    and keys: "ge_edge_key (fst (e, x)) = ge_edge_key (fst (f, y))"
  have "inj_on edge_id (set (gd_edges db))" using assms by (simp add: graph_inv_def distinct_map)
  then have "e = f" using ex fy keys by (auto simp: incident_def edge_id_def inj_on_def)
  then show "e = f \<and> x = y" using ex fy by (auto simp: incident_def)
qed

definition side_rows ::
  "(GraphEdgeRecord \<Rightarrow> 'k::linorder) \<Rightarrow> bool \<Rightarrow> (GraphEdgeRecord \<Rightarrow> bool) \<Rightarrow> GraphDb \<Rightarrow> GraphEdgeRecord list" where
  "side_rows order wanted p db = (if wanted then sort_key order (filter p (gd_edges db)) else [])"

lemma side_rows_facts [simp]:
  "set (side_rows order wanted p db) = {e \<in> set (gd_edges db). wanted \<and> p e}"
  "length (side_rows order wanted p db) \<le> length (gd_edges db)"
  by (auto simp: side_rows_def)

abbreviation by_priority :: "GraphEdgeRecord \<Rightarrow> nat \<times> string" where
  "by_priority \<equiv> \<lambda>x. (edge_priority (ge_edge_type x), ge_edge_key x)"

abbreviation out_rows :: "(GraphEdgeRecord \<Rightarrow> 'k::linorder) \<Rightarrow> Direction \<Rightarrow> string \<Rightarrow> string \<Rightarrow> GraphDb \<Rightarrow> GraphEdgeRecord list" where
  "out_rows order direction sk k \<equiv>
     side_rows order (direction \<in> {Outbound, Both}) (\<lambda>x. ge_snapshot_key x = sk \<and> ge_edge_from x = k)"

abbreviation in_rows :: "(GraphEdgeRecord \<Rightarrow> 'k::linorder) \<Rightarrow> Direction \<Rightarrow> string \<Rightarrow> string \<Rightarrow> GraphDb \<Rightarrow> GraphEdgeRecord list" where
  "in_rows order direction sk k \<equiv>
     side_rows order (direction \<in> {Inbound, Both}) (\<lambda>x. ge_snapshot_key x = sk \<and> ge_edge_to x = k)"

lemma next_edges_Ok:
  "next_edges sk k direction store = Ok es \<Longrightarrow>
     es = map outbound (out_rows ge_edge_key direction sk k (cn_db store))
        @ map inbound (in_rows ge_edge_key direction sk k (cn_db store))"
  by (auto simp: next_edges_def fetch_if_def side_rows_def edges_from_def edges_to_def read_with_def
      try_with_Ok_iff split: option.splits if_splits)

lemma next_edges_bounded_Ok:
  assumes "next_edges_bounded sk k direction b store = Ok (es, partial)"
  shows "if b = usize_MAX then next_edges sk k direction store = Ok es \<and> \<not> partial
    else fetch_both (out_rows by_priority direction sk k (cn_db store))
           (in_rows by_priority direction sk k (cn_db store)) b = (es, partial)"
  using assms
  by (auto simp: next_edges_bounded_def fetch_if_def side_rows_def edges_from_limited_def edges_to_limited_def
      read_with_def try_with_Ok_iff fetch_both_def Let_def split: option.splits if_splits)

lemma next_edges_answers: "no_read_faults store \<Longrightarrow> \<exists>es. next_edges sk k direction store = Ok es"
  by (simp add: no_read_faults_def next_edges_def fetch_if_def edges_from_def edges_to_def read_with_def)

lemma next_edges_bounded_answers:
  "no_read_faults store \<Longrightarrow> \<exists>es partial. next_edges_bounded sk k direction b store = Ok (es, partial)"
  using next_edges_answers[of store sk k direction]
  by (auto simp: no_read_faults_def next_edges_bounded_def fetch_if_def edges_from_limited_def
      edges_to_limited_def read_with_def Let_def)

interpretation near: bounded_edges "\<lambda>sk k. next_edges_bounded sk k direction" "incident direction"
  for direction
proof
  fix sk k b store es partial and x :: next_edge
  assume near: "next_edges_bounded sk k direction b store = Ok (es, partial)"
  note Ok = next_edges_bounded_Ok[OF near]
  show "length es \<le> b" if "b \<noteq> usize_MAX"
    using Ok that fetch_both_facts(1) by (auto split: if_splits)
  have sides: "set es \<subseteq> {x. incident direction (cn_db store) sk k x}"
    unfolding incident_sides using Ok next_edges_Ok[of sk k direction store es]
    by (auto split: if_splits dest!: fetch_both_facts(2))
  then show "incident direction (cn_db store) sk k x" if "x \<in> set es" using that by blast
next
  fix sk k b store es and x :: next_edge
  assume near: "next_edges_bounded sk k direction b store = Ok (es, False)"
    and db: "searchable (cn_db store)" and x: "incident direction (cn_db store) sk k x"
  note Ok = next_edges_bounded_Ok[OF near]
  note inj = incident_key_inj[of "cn_db store" direction sk k, unfolded incident_sides]
  have "set es = {x. incident direction (cn_db store) sk k x}"
  proof (cases "b = usize_MAX")
    case True
    then show ?thesis using Ok next_edges_Ok[of sk k direction store es] by (auto simp: incident_sides)
  next
    case False
    with Ok have "fetch_both (out_rows by_priority direction sk k (cn_db store))
        (in_rows by_priority direction sk k (cn_db store)) b = (es, False)" by simp
    from fetch_both_facts(3)[OF this] inj db show ?thesis
      unfolding incident_sides searchable_def by (simp add: le_trans[OF side_rows_facts(2)])
  qed
  then show "x \<in> set es" using x by blast
qed (rule next_edges_bounded_answers)

section \<open>The loops\<close>

text \<open>What the search knows: the start and the nodes of the result, with their depths.\<close>

abbreviation known :: "string \<Rightarrow> ImpactAnalysisNode list \<Rightarrow> (string \<times> nat) list" where
  "known start nodes \<equiv> (start, 0) # map (\<lambda>n. (ian_node_key n, ian_depth n)) nodes"

text \<open>A result node carries the stored label and name and an edge that leads to it from a node one
  level closer.\<close>

definition explained :: "Direction \<Rightarrow> GraphDb \<Rightarrow> string \<Rightarrow> string \<Rightarrow> ImpactAnalysisNode \<Rightarrow> bool" where
  "explained direction db sk start x =
     (\<exists>e n k d. x = impact_node e (ian_node_key x) n (Suc d) \<and> node_at db sk (ian_node_key x) = Some n
        \<and> incident direction db sk k (e, ian_node_key x)
        \<and> at_depth (adjacent (incident direction) db sk) start d k)"

lemma explained_depth:
  assumes "explained direction db sk start x"
  shows "0 < ian_depth x"
proof -
  obtain e n d where "x = impact_node e (ian_node_key x) n (Suc d)" using assms by (auto simp: explained_def)
  then have "ian_depth x = ian_depth (impact_node e (ian_node_key x) n (Suc d))" by (rule arg_cong)
  then show ?thesis by (simp add: impact_node_def)
qed

definition impact_inv ::
  "Direction \<Rightarrow> GraphDb \<Rightarrow> string \<Rightarrow> string \<Rightarrow> nat \<Rightarrow> impact_state \<Rightarrow> bool" where
  "impact_inv direction db sk start bound = (\<lambda>(V, Q, ns).
     bfs_inv (adjacent (incident direction) db sk) start bound (known start ns) Q
     \<and> V \<inter> {x. node_at db sk x \<noteq> None} = fst ` set (known start ns)
     \<and> (\<forall>x\<in>set ns. explained direction db sk start x))"

lemma impact_expansion:
  assumes near: "next_edges_bounded sk k direction b store = Ok (es, partial)"
    and visit: "impact_visit sk store d es (V, Q, ns) = Ok (V', Q', ns')"
    and db: "searchable (cn_db store)" and d: "d < bound"
    and inv: "impact_inv direction (cn_db store) sk start bound (V, (k, d) # Q, ns)"
  shows impact_expansion_sound: "bfs_sound (adjacent (incident direction) (cn_db store) sk) start bound (known start ns')"
    and impact_expansion_explained: "\<forall>x\<in>set ns'. explained direction (cn_db store) sk start x"
    and impact_expansion_inv: "\<not> partial \<Longrightarrow> impact_inv direction (cn_db store) sk start bound (V', Q', ns')"
proof -
  let ?N = "discover (node_at (cn_db store) sk) V es"
  note inv' = inv[unfolded impact_inv_def prod.case]
  note exp = near.expansion[OF near db inv'[THEN conjunct1] d inv'[THEN conjunct2, THEN conjunct1]]
  have st: "V' = V \<union> snd ` set es" "Q' = Q @ map (\<lambda>x. (x, Suc d)) (found_keys ?N)"
    "ns' = ns @ found_nodes (Suc d) ?N"
    using impact_visit_Ok[OF visit] by (simp_all add: Let_def)
  have known: "known start ns' = known start ns @ map (\<lambda>x. (x, Suc d)) (found_keys ?N)"
    by (simp add: st(3) impact_node_def split_def comp_def)
  show "bfs_sound (adjacent (incident direction) (cn_db store) sk) start bound (known start ns')"
    unfolding known by (rule exp(1))
  have "at_depth (adjacent (incident direction) (cn_db store) sk) start d k"
    using inv' by (auto simp: bfs_inv_def bfs_sound_def)
  then have "explained direction (cn_db store) sk start (impact_node e x n (Suc d))" if "(e, x, n) \<in> set ?N" for e x n
    using exp(4)[OF that] by (auto simp: explained_def impact_node_def)
  then show ex: "\<forall>x\<in>set ns'. explained direction (cn_db store) sk start x"
    using inv' by (auto simp: st(3))
  show "impact_inv direction (cn_db store) sk start bound (V', Q', ns')" if "\<not> partial"
    using exp(2)[OF that, of "map (\<lambda>x. (x, Suc d)) (found_keys ?N)"] exp(3) ex
    unfolding impact_inv_def prod.case known st(1,2) by blast
qed

lemma impact_loop_step:
  assumes "impact_loop sk store direction md mr (V, (k, d) # Q, ns) rb tr = Ok r" and "d \<noteq> md"
  obtains es partial V' Q' ns' where "next_edges_bounded sk k direction rb store = Ok (es, partial)"
    "impact_visit sk store d es (V, Q, ns) = Ok (V', Q', ns')"
    "partial \<Longrightarrow> r = (ns', True)"
    "\<not> partial \<Longrightarrow> impact_loop sk store direction md mr (V', Q', ns')
       (if mr \<noteq> usize_MAX then rb - length es else rb) tr = Ok r"
  using assms by (auto simp: Let_def split: sum.splits if_splits)

lemma impact_loop_Ok:
  assumes "impact_loop sk store direction md mr st rb tr = Ok (ns', tr')"
    and "searchable (cn_db store)" and "impact_inv direction (cn_db store) sk start md st"
  shows "bfs_sound (adjacent (incident direction) (cn_db store) sk) start md (known start ns')
    \<and> (\<forall>x\<in>set ns'. explained direction (cn_db store) sk start x)
    \<and> (\<not> tr' \<longrightarrow> bfs_inv (adjacent (incident direction) (cn_db store) sk) start md (known start ns') [])"
  using assms
proof (induction sk store direction md mr st rb tr rule: impact_loop.induct)
  case (2 sk store direction md mr V k d Q ns rb tr)
  show ?case
  proof (cases "d = md")
    case True
    then have "impact_inv direction (cn_db store) sk start md (V, Q, ns)"
      using 2(5) bfs_skip by (fastforce simp: impact_inv_def)
    then show ?thesis using 2(1)[OF True] 2(3,4) True by simp
  next
    case False
    then have d: "d < md" using 2(5) by (fastforce simp: impact_inv_def bfs_inv_def bfs_sound_def)
    from 2(3) False obtain es partial V' Q' ns2 where
      near: "next_edges_bounded sk k direction rb store = Ok (es, partial)"
      and visit: "impact_visit sk store d es (V, Q, ns) = Ok (V', Q', ns2)"
      and last: "partial \<Longrightarrow> (ns', tr') = (ns2, True)"
      and go: "\<not> partial \<Longrightarrow> impact_loop sk store direction md mr (V', Q', ns2)
         (if mr \<noteq> usize_MAX then rb - length es else rb) tr = Ok (ns', tr')"
      by (rule impact_loop_step) blast
    note exp = impact_expansion[OF near visit 2(4) d 2(5)]
    show ?thesis
    proof (cases partial)
      case True
      then show ?thesis using last exp(1,2) by simp
    next
      case no: False
      show ?thesis
        using 2(2)[OF False near refl refl refl visit refl refl] no go exp(3) 2(4) by simp
    qed
  qed
qed (auto simp: impact_inv_def bfs_inv_def)

lemma impact_visit_length:
  assumes "impact_visit sk store d es (V, Q, ns) = Ok (V', Q', ns')"
  shows "length ns' \<le> length ns + length es"
  using impact_visit_Ok[OF assms] discover_length[of "node_at (cn_db store) sk" V es] by (simp add: Let_def)

lemma impact_loop_length:
  assumes "impact_loop sk store direction md mr st rb tr = Ok (ns', tr')"
    and "mr \<noteq> usize_MAX" and "rb < usize_MAX"
  shows "length ns' \<le> length (snd (snd st)) + rb"
  using assms
proof (induction sk store direction md mr st rb tr rule: impact_loop.induct)
  case (2 sk store direction md mr V k d Q ns rb tr)
  show ?case
  proof (cases "d = md")
    case True
    then show ?thesis using 2(1)[OF True] 2(3,4,5) by simp
  next
    case False
    from 2(3) False obtain es partial V' Q' ns2 where
      near: "next_edges_bounded sk k direction rb store = Ok (es, partial)"
      and visit: "impact_visit sk store d es (V, Q, ns) = Ok (V', Q', ns2)"
      and last: "partial \<Longrightarrow> (ns', tr') = (ns2, True)"
      and go: "\<not> partial \<Longrightarrow> impact_loop sk store direction md mr (V', Q', ns2)
         (if mr \<noteq> usize_MAX then rb - length es else rb) tr = Ok (ns', tr')"
      by (rule impact_loop_step) blast
    have es: "length es \<le> rb" using near.within_budget[OF near] 2(5) by simp
    note len = impact_visit_length[OF visit]
    show ?thesis
    proof (cases partial)
      case True
      then show ?thesis using last es len by simp
    next
      case no: False
      show ?thesis
        using 2(2)[OF False near refl refl refl visit refl refl] no go es len 2(4,5)
        by (simp add: less_imp_diff_less)
    qed
  qed
qed simp

lemma impact_loop_unbounded:
  assumes "impact_loop sk store direction md mr st rb tr = Ok (ns', tr')" and "mr = usize_MAX" and "rb = usize_MAX"
    and "\<not> tr"
  shows "\<not> tr'"
  using assms
proof (induction sk store direction md mr st rb tr rule: impact_loop.induct)
  case (2 sk store direction md mr V k d Q ns rb tr)
  show ?case
  proof (cases "d = md")
    case True
    then show ?thesis using 2(1)[OF True] 2(3-6) by simp
  next
    case False
    from 2(3) False obtain es partial V' Q' ns2 where
      near: "next_edges_bounded sk k direction rb store = Ok (es, partial)"
      and visit: "impact_visit sk store d es (V, Q, ns) = Ok (V', Q', ns2)"
      and go: "\<not> partial \<Longrightarrow> impact_loop sk store direction md mr (V', Q', ns2)
         (if mr \<noteq> usize_MAX then rb - length es else rb) tr = Ok (ns', tr')"
      by (rule impact_loop_step) blast
    have no: "\<not> partial" using next_edges_bounded_Ok[OF near] 2(5) by simp
    show ?thesis
      using 2(2)[OF False near refl refl refl visit refl refl] no go 2(4-6) by simp
  qed
qed simp

lemma impact_loop_answers:
  assumes "no_read_faults store"
  shows "\<exists>r. impact_loop sk store direction md mr st rb tr = Ok r"
  using assms
proof (induction sk store direction md mr st rb tr rule: impact_loop.induct)
  case (2 sk store direction md mr V k d Q ns rb tr)
  obtain es partial where near: "next_edges_bounded sk k direction rb store = Ok (es, partial)"
    using next_edges_bounded_answers[OF 2(3)] by blast
  obtain V' Q' ns2 where visit: "impact_visit sk store d es (V, Q, ns) = Ok (V', Q', ns2)"
    using impact_visit_answers[OF 2(3), of sk d es "(V, Q, ns)"] by auto
  show ?case
    using 2(1)[OF _ 2(3)] 2(2)[OF _ near refl refl refl visit refl refl _ 2(3)]
    by (auto simp: near visit Let_def)
qed simp

section \<open>Groups\<close>

definition result_nodes :: "ImpactAnalysisResult \<Rightarrow> ImpactAnalysisNode list" where
  "result_nodes r = concat (map iag_nodes (iar_groups r))"

definition group_key :: "ImpactAnalysisGroup \<Rightarrow> string \<times> nat" where
  "group_key g = (iag_label g, iag_depth g)"

lemma mset_concat_bt_insert:
  "bt_inv m \<Longrightarrow> mset (concat (map snd (bt_insert k (case map_of m k of None \<Rightarrow> [n] | Some ns \<Rightarrow> ns @ [n]) m)))
     = add_mset n (mset (concat (map snd m)))"
proof (induction m)
  case (Cons x m)
  obtain k' v' where x: "x = (k', v')" by (cases x)
  have inv: "bt_inv m" using Cons.prems by (simp add: bt_inv_def)
  have "map_of m k = None" if "k < k'"
    using Cons.prems that by (fastforce simp: bt_inv_def x map_of_eq_None_iff)
  then show ?case using Cons.IH[OF inv] by (auto simp: x)
qed simp

definition group_ok :: "(string \<times> nat) \<times> ImpactAnalysisNode list \<Rightarrow> bool" where
  "group_ok g = (snd g \<noteq> [] \<and> (\<forall>x\<in>set (snd g). (ian_label x, ian_depth x) = fst g))"

lemma Ball_mono_set: "A \<subseteq> B \<Longrightarrow> \<forall>x\<in>B. P x \<Longrightarrow> \<forall>x\<in>A. P x"
  by blast

lemma group_node_facts:
  assumes "bt_inv m"
  shows "bt_inv (group_node n m)"
    and "mset (concat (map snd (group_node n m))) = add_mset n (mset (concat (map snd m)))"
    and "(\<forall>g\<in>set m. group_ok g) \<Longrightarrow>
      (\<forall>g\<in>set (group_node n m). group_ok g)"
proof -
  show "bt_inv (group_node n m)" using bt.inv_insert[OF assms] by (simp add: group_node_def Let_def)
  show "mset (concat (map snd (group_node n m))) = add_mset n (mset (concat (map snd m)))"
    using mset_concat_bt_insert[OF assms] by (simp add: group_node_def bt_get_def Let_def)
  have sub: "set (bt_insert k v m) \<subseteq> insert (k, v) (set m)" for k v and m :: "('c::linorder, 'd) btree"
    by (induction k v m rule: bt_insert.induct) auto
  show "\<forall>g\<in>set (group_node n m). group_ok g"
    if old: "\<forall>g\<in>set m. group_ok g"
  proof -
    let ?k = "(ian_label n, ian_depth n)" and ?v = "case map_of m (ian_label n, ian_depth n) of None \<Rightarrow> [n] | Some ns \<Rightarrow> ns @ [n]"
    have "group_ok (?k, ?v)"
      using old by (auto simp: group_ok_def split: option.splits dest!: map_of_SomeD)
    with old have "\<forall>g\<in>insert (?k, ?v) (set m). group_ok g" by blast
    moreover have "group_node n m = bt_insert ?k ?v m" by (simp add: group_node_def Let_def bt_get_def)
    ultimately show ?thesis using Ball_mono_set[OF sub[of ?k ?v m]] by simp
  qed
qed

lemma grouped_facts:
  assumes "bt_inv m" and "\<forall>g\<in>set m. group_ok g"
  shows "bt_inv (fold group_node ns m) \<and> mset (concat (map snd (fold group_node ns m))) =
      mset ns + mset (concat (map snd m))
    \<and> (\<forall>g\<in>set (fold group_node ns m). group_ok g)"
  using assms
proof (induction ns arbitrary: m)
  case (Cons n ns)
  show ?case
    using Cons.IH[OF group_node_facts(1)[OF Cons.prems(1)] group_node_facts(3)[OF Cons.prems]]
    by (simp add: group_node_facts(2)[OF Cons.prems(1)])
qed simp

lemma mset_result_nodes: "mset (result_nodes (impact_result sk start direction md ns)) = mset ns"
proof -
  have "mset (concat (map (\<lambda>((l, d), ns). sort_key ian_node_key ns) m)) = mset (concat (map snd m))"
    for m :: "(string \<times> nat, ImpactAnalysisNode list) btree"
    by (induction m) auto
  then show ?thesis
    using grouped_facts[of "[]" ns] by (simp add: result_nodes_def impact_result_def comp_def split_def)
qed

lemma impact_groups:
  assumes "r = impact_result sk start direction md ns"
  shows "sorted_wrt (<) (map group_key (iar_groups r))"
    "g \<in> set (iar_groups r) \<Longrightarrow> iag_nodes g \<noteq> [] \<and> sorted (map ian_node_key (iag_nodes g))
      \<and> (\<forall>x\<in>set (iag_nodes g). (ian_label x, ian_depth x) = group_key g)"
proof -
  have keys: "map group_key (iar_groups r) = map fst (fold group_node ns [])"
    by (simp add: assms impact_result_def group_key_def comp_def split_def)
  note facts = grouped_facts[of "[]" ns, simplified]
  show "sorted_wrt (<) (map group_key (iar_groups r))"
    unfolding keys using facts by (simp add: bt_inv_def)
  show "iag_nodes g \<noteq> [] \<and> sorted (map ian_node_key (iag_nodes g))
      \<and> (\<forall>x\<in>set (iag_nodes g). (ian_label x, ian_depth x) = group_key g)" if g_in: "g \<in> set (iar_groups r)"
  proof -
    obtain l d xs where "((l, d), xs) \<in> set (fold group_node ns [])"
      and g: "g = \<lparr>iag_label = l, iag_depth = d, iag_nodes = sort_key ian_node_key xs\<rparr>"
      using g_in by (auto simp: assms impact_result_def)
    then have "xs \<noteq> []" "\<forall>x\<in>set xs. (ian_label x, ian_depth x) = (l, d)"
      using facts by (auto simp: group_ok_def)
    moreover then have "sort_key ian_node_key xs \<noteq> []" by (metis length_0_conv length_sort)
    ultimately show ?thesis by (simp add: g group_key_def)
  qed
qed

section \<open>The whole analysis\<close>

lemma impact_bounded_Ok:
  assumes run: "impact_analysis_bounded sk start direction md mr store = Ok b" and stored: "node_at (cn_db store) sk start \<noteq> None"
  obtains ns tr where "impact_loop sk store direction md mr ({start}, [(start, 0)], []) mr False = Ok (ns, tr)"
    "bir_result b = impact_result sk start direction md ns" "bir_truncated b = tr"
proof -
  obtain n where n: "get_node sk start store = Ok (Some n)"
    using run stored get_node_node_at[of sk start store]
    by (fastforce simp: impact_analysis_bounded_def try_with_Ok_iff simp del: impact_loop.simps)
  then obtain ns tr where "impact_loop sk store direction md mr ({start}, [(start, 0)], []) mr False = Ok (ns, tr)"
    "b = \<lparr>bir_result = impact_result sk start direction md ns, bir_truncated = tr\<rparr>"
    using run by (auto simp: impact_analysis_bounded_def try_with_Ok_iff simp del: impact_loop.simps)
  then show thesis using that by simp
qed

lemma impact_inv_start:
  "node_at db sk start \<noteq> None \<Longrightarrow> impact_inv direction db sk start md ({start}, [(start, 0)], [])"
  by (auto simp: impact_inv_def bfs_init)

text \<open>What every returned analysis satisfies, and what a complete one adds.\<close>

definition listed :: "ImpactAnalysisResult \<Rightarrow> string \<Rightarrow> nat \<Rightarrow> bool" where
  "listed r k d = (\<exists>x\<in>set (result_nodes r). ian_node_key x = k \<and> ian_depth x = d)"

lemma bounded_analysis:
  assumes run: "impact_analysis_bounded sk start direction md mr store = Ok b"
    and db: "searchable (cn_db store)" and stored: "node_at (cn_db store) sk start \<noteq> None"
  defines "adj \<equiv> adjacent (incident direction) (cn_db store) sk"
  shows "listed (bir_result b) k d \<Longrightarrow> 0 < d \<and> d \<le> md \<and> at_depth adj start d k"
    and "distinct (map ian_node_key (result_nodes (bir_result b)))"
    and "x \<in> set (result_nodes (bir_result b)) \<Longrightarrow> explained direction (cn_db store) sk start x"
    and "\<not> bir_truncated b \<Longrightarrow> 0 < d \<Longrightarrow> d \<le> md \<Longrightarrow> at_depth adj start d k \<Longrightarrow> listed (bir_result b) k d"
proof -
  obtain ns tr where loop: "impact_loop sk store direction md mr ({start}, [(start, 0)], []) mr False = Ok (ns, tr)"
    and b: "bir_result b = impact_result sk start direction md ns" "bir_truncated b = tr"
    by (rule impact_bounded_Ok[OF run stored])
  have ms: "mset (result_nodes (bir_result b)) = mset ns" by (simp add: b mset_result_nodes)
  have set: "set (result_nodes (bir_result b)) = set ns" by (rule mset_eq_setD[OF ms])
  have listed: "listed (bir_result b) k d \<longleftrightarrow> (k, d) \<in> set (map (\<lambda>n. (ian_node_key n, ian_depth n)) ns)" for k d
    by (auto simp: listed_def set)
  note facts = impact_loop_Ok[OF loop db impact_inv_start[OF stored], folded adj_def]
  have sound: "bfs_sound adj start md (known start ns)" using facts by blast
  have pos: "0 < ian_depth x" if "x \<in> set ns" for x
    using facts that explained_depth by blast
  show "0 < d \<and> d \<le> md \<and> at_depth adj start d k" if kd: "listed (bir_result b) k d"
  proof -
    obtain x where "x \<in> set ns" "ian_node_key x = k" "ian_depth x = d" using kd listed by auto
    then show ?thesis using sound pos[of x] by (auto simp: bfs_sound_def)
  qed
  have "mset (map ian_node_key (result_nodes (bir_result b))) = mset (map ian_node_key ns)" using ms by simp
  then show "distinct (map ian_node_key (result_nodes (bir_result b)))"
    using sound mset_eq_imp_distinct_iff[of "map ian_node_key (result_nodes (bir_result b))" "map ian_node_key ns"]
    by (simp add: bfs_sound_def comp_def)
  show "explained direction (cn_db store) sk start x" if "x \<in> set (result_nodes (bir_result b))"
    using that facts by (simp add: set)
  show "listed (bir_result b) k d" if "\<not> bir_truncated b" "0 < d" "d \<le> md" "at_depth adj start d k"
    using bfs_done[of adj start md "known start ns" k d] facts that by (auto simp: b(2) listed)
qed

lemma impact_answers:
  assumes "no_read_faults store"
  shows "\<exists>b. impact_analysis_bounded sk start direction md mr store = Ok b"
  using impact_loop_answers[OF assms, of sk direction md mr "({start}, [(start, 0)], [])" mr False]
  by (auto simp: impact_analysis_bounded_def get_node_answers[OF assms] simp del: impact_loop.simps
      split: option.splits)

section \<open>Samples\<close>

definition sample_edge :: "string \<Rightarrow> string \<Rightarrow> GraphEdgeRecord" where
  "sample_edge a b =
     \<lparr>ge_snapshot_key = ''s'', ge_edge_key = a @ b, ge_edge_from = a, ge_edge_to = b,
       ge_edge_type = ''t'', ge_payload_json = ''{}''\<rparr>"

text \<open>The nodes \<open>a\<close>, \<open>b\<close> and \<open>c\<close> with the edges \<open>ab\<close> and \<open>bc\<close>.\<close>

definition sample_graph :: Connection where
  "sample_graph =
     sample_conn (empty_db\<lparr>
       gd_snapshots := [\<lparr>gs_snapshot_key = ''s'', gs_source = None, gs_captured_at_unix_ms = 0,
         gs_payload_json = ''{}''\<rparr>],
       gd_nodes := [sample_node ''a'', sample_node ''b'', sample_node ''c''],
       gd_edges := [sample_edge ''a'' ''b'', sample_edge ''b'' ''c'']\<rparr>)"

definition sample_reader :: serde where
  "sample_reader =
     \<lparr>to_value = (\<lambda>_. JNull), to_text = (\<lambda>_. ''null''), parse_value = (\<lambda>_. Ok JNull),
       parse_certified = (\<lambda>_. Err ''unsupported''), parse_capabilities = (\<lambda>_. Err ''unsupported'')\<rparr>"

lemma sample_graph_searchable: "searchable (cn_db sample_graph)"
  by (simp add: searchable_def graph_inv_def sample_graph_def sample_conn_def empty_db_def sample_node_def
      sample_edge_def node_id_def edge_id_def edge_source_def edge_target_def i64_MAX_def)

lemma sample_graph_reads: "no_read_faults sample_graph"
  by (simp add: no_read_faults_def sample_graph_def sample_conn_def)

lemma sample_graph_nodes:
  "node_at (cn_db sample_graph) ''s'' ''a'' = Some (sample_node ''a'')"
  "node_at (cn_db sample_graph) ''s'' ''b'' = Some (sample_node ''b'')"
  by (simp_all add: node_at_def find_row_def sample_graph_def sample_conn_def sample_node_def)

lemma sample_b_depth:
  "at_depth (adjacent (incident Outbound) (cn_db sample_graph) ''s'') ''a'' 1 ''b''"
proof -
  have "incident Outbound (cn_db sample_graph) ''s'' ''a'' (sample_edge ''a'' ''b'', ''b'')"
    by (simp add: incident_def sample_graph_def sample_conn_def sample_edge_def)
  then have "adjacent (incident Outbound) (cn_db sample_graph) ''s'' ''a'' ''b''"
    unfolding adjacent_def using sample_graph_nodes(2) by auto
  then show ?thesis by (simp add: at_depth_def reach_Suc)
qed

section \<open>Properties\<close>

text \<open>C14: impact analysis is exact. Started at a stored object, without a result limit and on readable
  tables, it returns; it lists an object at a depth exactly when that depth is the length of the
  shortest path in the asked direction, positive and at most the maximum; no object is listed
  twice; and every listed object has its stored label and name and an edge from an object one level
  closer.\<close>

theorem impact_analysis_exact:
  assumes "no_read_faults store" and "searchable (cn_db store)" and "node_at (cn_db store) sk start \<noteq> None"
  shows "\<exists>r. impact_analysis sk start direction md store = Ok r
    \<and> (\<forall>k d. listed r k d \<longleftrightarrow>
          0 < d \<and> d \<le> md \<and> at_depth (adjacent (incident direction) (cn_db store) sk) start d k)
    \<and> distinct (map ian_node_key (result_nodes r))
    \<and> (\<forall>x\<in>set (result_nodes r). explained direction (cn_db store) sk start x)"
proof -
  obtain b where run: "impact_analysis_bounded sk start direction md usize_MAX store = Ok b"
    using impact_answers[OF assms(1)] by blast
  obtain ns tr where "impact_loop sk store direction md usize_MAX ({start}, [(start, 0)], []) usize_MAX False = Ok (ns, tr)"
    and "bir_truncated b = tr"
    by (rule impact_bounded_Ok[OF run assms(3)])
  then have "\<not> bir_truncated b" using impact_loop_unbounded by blast
  moreover have "impact_analysis sk start direction md store = Ok (bir_result b)"
    by (simp add: impact_analysis_def run)
  ultimately show ?thesis
    using bounded_analysis[OF run assms(2,3)] by blast
qed

theorem impact_analysis_exact_witness:
  "\<exists>r. impact_analysis ''s'' ''a'' Outbound 3 sample_graph = Ok r \<and> listed r ''b'' 1"
  using impact_analysis_exact[OF sample_graph_reads sample_graph_searchable, of "''s''" "''a''" Outbound 3]
    sample_b_depth sample_graph_nodes(1) by auto

text \<open>C15: a bounded impact analysis is honest. Whatever the result limit, the objects it lists are
  reachable at exactly the listed depths, each once, with a true explaining edge; and when the result is
  not marked as truncated, nothing within the maximal depth is missing.\<close>

theorem bounded_impact_honest:
  assumes "impact_analysis_bounded sk start direction md mr store = Ok b"
    and "searchable (cn_db store)" and "node_at (cn_db store) sk start \<noteq> None"
  shows "(\<forall>k d. listed (bir_result b) k d \<longrightarrow>
        0 < d \<and> d \<le> md \<and> at_depth (adjacent (incident direction) (cn_db store) sk) start d k)
    \<and> distinct (map ian_node_key (result_nodes (bir_result b)))
    \<and> (\<forall>x\<in>set (result_nodes (bir_result b)). explained direction (cn_db store) sk start x)
    \<and> (\<not> bir_truncated b \<longrightarrow> (\<forall>k d. 0 < d \<and> d \<le> md
        \<and> at_depth (adjacent (incident direction) (cn_db store) sk) start d k \<longrightarrow> listed (bir_result b) k d))"
  using bounded_analysis[OF assms] by blast

theorem bounded_impact_honest_witness:
  "\<exists>b. impact_analysis_bounded ''s'' ''a'' Outbound 3 1 sample_graph = Ok b
     \<and> (bir_truncated b \<or> listed (bir_result b) ''b'' 1)"
proof -
  obtain b where run: "impact_analysis_bounded ''s'' ''a'' Outbound 3 1 sample_graph = Ok b"
    using impact_answers[OF sample_graph_reads] by blast
  from bounded_impact_honest[OF run sample_graph_searchable] sample_graph_nodes(1) sample_b_depth
  have "\<not> bir_truncated b \<longrightarrow> listed (bir_result b) ''b'' 1" by simp
  with run show ?thesis by blast
qed

text \<open>The result limit holds. A bounded analysis never lists more objects than asked for, its
  groups are in strictly increasing order of label and depth, and each group is a non-empty list of
  objects of that label and depth sorted by key.\<close>

lemma bounded_impact_limit:
  assumes "impact_analysis_bounded sk start direction md mr store = Ok b" and "mr < usize_MAX"
  shows "length (result_nodes (bir_result b)) \<le> mr
    \<and> sorted_wrt (<) (map group_key (iar_groups (bir_result b)))
    \<and> (\<forall>g\<in>set (iar_groups (bir_result b)). iag_nodes g \<noteq> [] \<and> sorted (map ian_node_key (iag_nodes g))
         \<and> (\<forall>x\<in>set (iag_nodes g). (ian_label x, ian_depth x) = group_key g))"
proof -
  have "\<exists>ns. bir_result b = impact_result sk start direction md ns \<and> length ns \<le> mr"
  proof (cases "node_at (cn_db store) sk start")
    case None
    then have "bir_result b = impact_result sk start direction md []"
      using assms(1) get_node_node_at[of sk start store]
      by (auto simp: impact_analysis_bounded_def try_with_Ok_iff simp del: impact_loop.simps)
    then show ?thesis by (metis le0 list.size(3))
  next
    case (Some n)
    then obtain ns tr where "impact_loop sk store direction md mr ({start}, [(start, 0)], []) mr False = Ok (ns, tr)"
      and "bir_result b = impact_result sk start direction md ns"
      using impact_bounded_Ok[OF assms(1)] by (metis option.distinct(1))
    then show ?thesis using impact_loop_length[of sk store direction md mr _ mr False ns tr] assms(2) by fastforce
  qed
  then obtain ns where r: "bir_result b = impact_result sk start direction md ns" and l: "length ns \<le> mr" by blast
  have "length (result_nodes (bir_result b)) = length ns"
    using mset_result_nodes[of sk start direction md ns] r by (metis size_mset)
  then show ?thesis using impact_groups[OF r] l by simp
qed

end
