(* ===== verification/Redaction.thy ===== *)
theory Redaction
  imports Rust_Prelude
begin

text \<open>
  \<open>redact.rs\<close>: hiding the passwords of connection strings in the URL form, the keyword form and the
  Oracle form. A text is the list of its UTF-8 bytes; all characters the scanners look for are ASCII,
  whose bytes do not occur inside other characters. Slicing a \<open>str\<close> panics when the bounds are in the
  wrong order or not at a character boundary; the value of a function that may panic is an option,
  with \<open>None\<close> for the panic.
\<close>

section \<open>Searching and slicing\<close>

fun find_first :: "(char \<Rightarrow> bool) \<Rightarrow> string \<Rightarrow> nat option" where
  "find_first p [] = None"
| "find_first p (c # cs) = (if p c then Some 0 else map_option Suc (find_first p cs))"

definition find_last :: "(char \<Rightarrow> bool) \<Rightarrow> string \<Rightarrow> nat option" where
  "find_last p s = map_option (\<lambda>i. length s - 1 - i) (find_first p (rev s))"

fun find_str :: "string \<Rightarrow> string \<Rightarrow> nat option" where
  "find_str pat s =
     (if starts_with s pat then Some 0
      else (case s of [] \<Rightarrow> None | c # cs \<Rightarrow> map_option Suc (find_str pat cs)))"

declare find_str.simps [simp del]

definition continuation_byte :: "char \<Rightarrow> bool" where
  "continuation_byte c = (128 \<le> (of_char c :: nat) \<and> (of_char c :: nat) < 192)"

definition is_char_boundary :: "string \<Rightarrow> nat \<Rightarrow> bool" where
  "is_char_boundary s i = (i = 0 \<or> i = length s \<or> i < length s \<and> \<not> continuation_byte (s ! i))"

definition slice :: "string \<Rightarrow> nat \<Rightarrow> nat \<Rightarrow> string option" where
  "slice s a b =
     (if a \<le> b \<and> is_char_boundary s a \<and> is_char_boundary s b then Some (take (b - a) (drop a s)) else None)"

lemma find_first_None_iff: "find_first p s = None \<longleftrightarrow> (\<forall>c\<in>set s. \<not> p c)"
  by (induction s) auto

lemma find_first_Some:
  "find_first p s = Some i \<Longrightarrow> i < length s \<and> p (s ! i) \<and> (\<forall>c\<in>set (take i s). \<not> p c)"
  by (induction s arbitrary: i) (auto split: if_splits)

lemma find_first_append:
  "find_first p (xs @ ys) =
     (case find_first p xs of Some i \<Rightarrow> Some i | None \<Rightarrow> map_option (\<lambda>i. length xs + i) (find_first p ys))"
  by (induction xs) (cases "find_first p ys"; auto split: option.split)+

lemma find_last_snoc:
  "find_last p (xs @ [c]) = (if p c then Some (length xs) else find_last p xs)"
  by (auto simp: find_last_def option.map_comp comp_def intro!: option.map_cong)

lemma find_last_append:
  assumes "\<forall>c\<in>set ys. \<not> p c"
  shows "find_last p (xs @ ys) = find_last p xs"
  using assms
proof (induction ys rule: rev_induct)
  case (snoc y ys)
  then show ?case using find_last_snoc[of p "xs @ ys" y] by simp
qed simp

lemma find_last_Some:
  assumes "find_last p s = Some i"
  shows "i < length s \<and> p (s ! i) \<and> (\<forall>c\<in>set (drop (Suc i) s). \<not> p c)"
  using assms
proof (induction s arbitrary: i rule: rev_induct)
  case (snoc c s)
  then show ?case by (auto simp: find_last_snoc nth_append split: if_splits)
qed (simp add: find_last_def)

section \<open>Passwords in URLs\<close>

definition REDACTION :: string where "REDACTION = ''***''"

definition redact_authority :: "string \<Rightarrow> string" where
  "redact_authority authority =
     (case find_last (\<lambda>c. c = CHR ''@'') authority of
        None \<Rightarrow> authority
      | Some at_index \<Rightarrow>
          (let userinfo = take at_index authority
           in case find_last (\<lambda>c. c = CHR '':'') userinfo of
                None \<Rightarrow> authority
              | Some colon_index \<Rightarrow> take (Suc colon_index) userinfo @ REDACTION @ drop at_index authority))"

definition authority_end :: "string \<Rightarrow> nat" where
  "authority_end after_scheme =
     (case find_first (\<lambda>c. c \<in> {CHR ''/'', CHR ''?'', CHR ''#''}) after_scheme of
        None \<Rightarrow> length after_scheme | Some i \<Rightarrow> i)"

lemma find_str_bound: "find_str pat s = Some i \<Longrightarrow> i + length pat \<le> length s"
proof (induction s arbitrary: i)
  case Nil
  then show ?case by (auto simp: find_str.simps starts_with_iff split: if_splits)
next
  case (Cons c s)
  then show ?case
    by (auto simp: find_str.simps[of _ "c # s"] starts_with_iff split: if_splits dest: arg_cong[of _ _ length])
qed

function redact_url_passwords :: "string \<Rightarrow> string" where
  "redact_url_passwords rest =
     (case find_str ''://'' rest of
        None \<Rightarrow> rest
      | Some scheme_index \<Rightarrow>
          (let authority_start = scheme_index + 3;
               after_scheme = drop authority_start rest;
               stop = authority_end after_scheme
           in take authority_start rest @ redact_authority (take stop after_scheme)
              @ redact_url_passwords (drop stop after_scheme)))"
  by pat_completeness auto
termination
  by (relation "measure length") (auto dest!: find_str_bound)

declare redact_url_passwords.simps [simp del]

section \<open>Passwords in keyword strings\<close>

definition push_redacted_ado_segment :: "string \<Rightarrow> string" where
  "push_redacted_ado_segment segment =
     (case find_first (\<lambda>c. c = CHR ''='') segment of
        None \<Rightarrow> segment
      | Some eq_index \<Rightarrow>
          (let key = to_ascii_lowercase (filter (\<lambda>c. c \<noteq> CHR '' '') (trim (take eq_index segment)))
           in if key = ''password'' \<or> key = ''pwd'' then take (Suc eq_index) segment @ REDACTION
              else segment))"

text \<open>The scanner is outside any value, inside braces, or inside a quoted value.\<close>

datatype ado_mode = Plain | Braced | Quoted char

definition mode_after :: "char \<Rightarrow> ado_mode" where
  "mode_after c = (if c = CHR ''{'' then Braced else if c \<in> {CHR 0x27, CHR 0x22} then Quoted c else Plain)"

fun closing :: "ado_mode \<Rightarrow> char option" where
  "closing Plain = None"
| "closing Braced = Some (CHR ''}'')"
| "closing (Quoted q) = Some q"

fun ado_scan :: "ado_mode \<Rightarrow> string \<Rightarrow> string \<Rightarrow> string" where
  "ado_scan mode segment [] = push_redacted_ado_segment segment"
| "ado_scan mode segment (c # cs) =
     (case closing mode of
        None \<Rightarrow>
          if c = CHR '';'' then push_redacted_ado_segment segment @ '';'' @ ado_scan Plain [] cs
          else ado_scan (mode_after c) (segment @ [c]) cs
      | Some q \<Rightarrow>
          if c = q then
            (case cs of
               [] \<Rightarrow> ado_scan Plain (segment @ [c]) cs
             | next # rest \<Rightarrow>
                 if next = q then ado_scan mode (segment @ [c, next]) rest
                 else ado_scan Plain (segment @ [c]) cs)
          else ado_scan mode (segment @ [c]) cs)"

definition redact_ado_passwords :: "string \<Rightarrow> string" where
  "redact_ado_passwords s = ado_scan Plain [] s"

section \<open>Passwords in Oracle connect strings\<close>

text \<open>\<open>rfind\<close> of a white space character or quote: the index where the last such character starts.\<close>

definition separators :: "string list" where
  "separators = white_space @ [[CHR 0x27], [CHR 0x22]]"

fun rfind_separator :: "string \<Rightarrow> nat option" where
  "rfind_separator [] = None"
| "rfind_separator (c # cs) =
     (case rfind_separator cs of
        Some i \<Rightarrow> Some (Suc i)
      | None \<Rightarrow> if \<exists>w\<in>set separators. starts_with (c # cs) w then Some 0 else None)"

definition token_start_of :: "string \<Rightarrow> nat" where
  "token_start_of s = (case rfind_separator s of None \<Rightarrow> 0 | Some i \<Rightarrow> i + 1)"

lemma later_search:
  assumes "find_first p (drop n s) = Some i"
  shows "Suc (length s) - (n + i + 1) < Suc (length s) - n"
  using find_first_Some[OF assms] by auto

function oracle_loop :: "string \<Rightarrow> string \<Rightarrow> nat \<Rightarrow> nat \<Rightarrow> string option" where
  "oracle_loop s output cursor search_from =
     (case find_first (\<lambda>c. c = CHR ''@'') (drop search_from s) of
        None \<Rightarrow> map_option (\<lambda>rest. output @ rest) (slice s cursor (length s))
      | Some relative_at \<Rightarrow>
          (let at_index = search_from + relative_at;
               token_start = token_start_of (take at_index s)
           in case slice s token_start at_index of
                None \<Rightarrow> None
              | Some token \<Rightarrow>
                  (case find_first (\<lambda>c. c = CHR ''/'') token of
                     None \<Rightarrow> oracle_loop s output cursor (at_index + 1)
                   | Some slash_index \<Rightarrow>
                       (let user = take slash_index token;
                            password = drop (slash_index + 1) token
                        in if user \<noteq> [] \<and> password \<noteq> [] \<and> CHR '':'' \<notin> set user
                           then (case slice s cursor (token_start + slash_index + 1) of
                                   None \<Rightarrow> None
                                 | Some kept \<Rightarrow>
                                     oracle_loop s (output @ kept @ REDACTION) at_index (at_index + 1))
                           else oracle_loop s output cursor (at_index + 1)))))"
  by pat_completeness auto
termination
  by (relation "measure (\<lambda>(s, output, cursor, search_from). Suc (length s) - search_from)")
    (simp_all only: wf_measure in_measure prod.case later_search)

declare oracle_loop.simps [simp del]

definition redact_oracle_passwords :: "string \<Rightarrow> string option" where
  "redact_oracle_passwords s = oracle_loop s [] 0 0"

section \<open>Connection strings and errors\<close>

definition redact_connection_string :: "string \<Rightarrow> string option" where
  "redact_connection_string s = redact_oracle_passwords (redact_ado_passwords (redact_url_passwords s))"

text \<open>An empty connection string is replaced by its redaction, which is empty too: nothing changes.\<close>

definition redact_error_with_connection_string :: "string \<Rightarrow> string \<Rightarrow> string option" where
  "redact_error_with_connection_string message connection_string =
     (case redact_connection_string connection_string of
        None \<Rightarrow> None
      | Some redacted \<Rightarrow> redact_connection_string (replace_str connection_string redacted message))"

section \<open>Keyword strings, segment by segment\<close>

text \<open>A text that the scanner takes as one segment: no separator outside braces and quotes, and every
  brace and quote closed.\<close>

fun one_segment :: "ado_mode \<Rightarrow> string \<Rightarrow> bool" where
  "one_segment mode [] = (mode = Plain)"
| "one_segment mode (c # cs) =
     (case closing mode of
        None \<Rightarrow> c \<noteq> CHR '';'' \<and> one_segment (mode_after c) cs
      | Some q \<Rightarrow>
          if c = q then
            (case cs of
               [] \<Rightarrow> True
             | next # rest \<Rightarrow> if next = q then one_segment mode rest else one_segment Plain cs)
          else one_segment mode cs)"

lemma closing_mode_after: "closing (mode_after c) \<noteq> Some (CHR '';'')"
  by (auto simp: mode_after_def)

lemma closing_None: "closing mode = None \<longleftrightarrow> mode = Plain"
  by (cases mode) auto

lemma ado_scan_one_segment:
  "one_segment mode s \<Longrightarrow> closing mode \<noteq> Some (CHR '';'') \<Longrightarrow>
     ado_scan mode seg s = push_redacted_ado_segment (seg @ s)
     \<and> ado_scan mode seg (s @ CHR '';'' # rest) = push_redacted_ado_segment (seg @ s) @ '';'' @ ado_scan Plain [] rest"
proof (induction mode s arbitrary: seg rule: one_segment.induct)
  case (2 mode c cs)
  show ?case
  proof (cases "closing mode")
    case None
    then show ?thesis using 2 closing_mode_after[of c] by auto
  next
    case (Some q)
    show ?thesis
    proof (cases "c = q")
      case False
      then show ?thesis using 2(4)[OF Some False, of "seg @ [c]"] 2(5,6) Some by simp
    next
      case True
      show ?thesis
      proof (cases cs)
        case Nil
        then show ?thesis using 2(5,6) Some True by simp
      next
        case (Cons d ds)
        show ?thesis
        proof (cases "d = q")
          case d: True
          show ?thesis using 2(2)[OF Some True Cons d, of "seg @ [c, d]"] 2(5,6) Some True Cons d by simp
        next
          case d: False
          show ?thesis
            using 2(3)[OF Some True Cons d, of "seg @ [c]"] 2(5,6) Some True Cons d
            by (simp del: ado_scan.simps(2) one_segment.simps(2)
                add: ado_scan.simps(2)[of mode _ q] one_segment.simps(2)[of mode q])
        qed
      qed
    qed
  qed
qed (auto simp: closing_None)

lemma redact_ado_join:
  assumes "\<forall>seg\<in>set segs. one_segment Plain seg" and "segs \<noteq> []"
  shows "redact_ado_passwords (join_with '';'' segs) = join_with '';'' (map push_redacted_ado_segment segs)"
  using assms unfolding redact_ado_passwords_def
proof (induction segs)
  case (Cons seg segs)
  then show ?case
    using ado_scan_one_segment[of Plain seg "[]"] by (cases segs) auto
qed simp

definition password_key :: "string \<Rightarrow> bool" where
  "password_key k =
     (CHR ''='' \<notin> set k
      \<and> to_ascii_lowercase (filter (\<lambda>c. c \<noteq> CHR '' '') (trim k)) \<in> {''password'', ''pwd''})"

lemma password_segment:
  "password_key k \<Longrightarrow> push_redacted_ado_segment (k @ ''='' @ p) = k @ ''=***''"
proof -
  assume k: "password_key k"
  then have "find_first (\<lambda>c. c = CHR ''='') k = None" by (auto simp: find_first_None_iff password_key_def)
  then have "find_first (\<lambda>c. c = CHR ''='') (k @ ''='' @ p) = Some (length k)"
    by (simp add: find_first_append)
  then show ?thesis using k by (auto simp: push_redacted_ado_segment_def password_key_def REDACTION_def Let_def)
qed

section \<open>URLs\<close>

lemma find_scheme: "CHR '':'' \<notin> set s \<Longrightarrow> find_str ''://'' (s @ ''://'' @ t) = Some (length s)"
proof (induction s)
  case Nil
  then show ?case by (simp add: find_str.simps[of _ "CHR '':'' # _"] starts_with_iff)
next
  case (Cons c s)
  then show ?case by (auto simp: find_str.simps[of _ "c # _"] starts_with_iff)
qed

lemma redact_url_step:
  assumes "CHR '':'' \<notin> set scheme"
  shows "redact_url_passwords (scheme @ ''://'' @ a) =
    scheme @ ''://'' @ redact_authority (take (authority_end a) a) @ redact_url_passwords (drop (authority_end a) a)"
  using find_scheme[OF assms, of a]
  by (simp add: redact_url_passwords.simps[of "scheme @ _"] Let_def numeral_3_eq_3)

definition host_char :: "char \<Rightarrow> bool" where
  "host_char c = (c \<notin> {CHR ''/'', CHR ''?'', CHR ''#''})"

lemma authority_end_append:
  assumes "\<forall>c\<in>set a. host_char c" and "rest = [] \<or> \<not> host_char (hd rest)"
  shows "authority_end (a @ rest) = length a"
proof -
  have "find_first (\<lambda>c. c \<in> {CHR ''/'', CHR ''?'', CHR ''#''}) a = None"
    using assms(1) by (auto simp: find_first_None_iff host_char_def)
  then show ?thesis
    using assms(2) by (cases rest) (auto simp: authority_end_def find_first_append host_char_def)
qed

lemma redact_authority_password:
  assumes "CHR '':'' \<notin> set p" and "CHR ''@'' \<notin> set h"
  shows "redact_authority (u @ '':'' @ p @ ''@'' @ h) = u @ '':***@'' @ h"
proof -
  have "find_last (\<lambda>c. c = CHR ''@'') ((u @ '':'' @ p) @ [CHR ''@''] @ h) = Some (length (u @ '':'' @ p))"
    using find_last_append[of h "\<lambda>c. c = CHR ''@''" "(u @ '':'' @ p) @ [CHR ''@'']"] assms(2)
      find_last_snoc[of "\<lambda>c. c = CHR ''@''" "u @ '':'' @ p" "CHR ''@''"] by auto
  moreover have "find_last (\<lambda>c. c = CHR '':'') ((u @ [CHR '':'']) @ p) = Some (length u)"
    using find_last_append[of p "\<lambda>c. c = CHR '':''" "u @ [CHR '':'']"] assms(1)
      find_last_snoc[of "\<lambda>c. c = CHR '':''" u "CHR '':''"] by auto
  ultimately show ?thesis by (simp add: redact_authority_def REDACTION_def)
qed

section \<open>Oracle connect strings\<close>

definition plain_char :: "char \<Rightarrow> bool" where
  "plain_char c = (32 < (of_char c :: nat) \<and> (of_char c :: nat) < 127 \<and> c \<noteq> CHR 0x27 \<and> c \<noteq> CHR 0x22)"

lemma separators_not_plain:
  assumes "w \<in> set separators" and "starts_with (c # cs) w"
  shows "\<not> plain_char c"
proof -
  have "\<forall>w\<in>set separators. w \<noteq> [] \<and> \<not> plain_char (hd w)" by code_simp
  with assms(1) have "w \<noteq> []" "\<not> plain_char (hd w)" by blast+
  then show ?thesis using assms(2) by (cases w) (auto simp: starts_with_iff)
qed

lemma rfind_separator_plain: "\<forall>c\<in>set s. plain_char c \<Longrightarrow> rfind_separator s = None"
  by (induction s) (auto dest: separators_not_plain)

lemma plain_boundary: "\<forall>c\<in>set s. plain_char c \<Longrightarrow> i \<le> length s \<Longrightarrow> is_char_boundary s i"
  using nth_mem[of i s] by (fastforce simp: is_char_boundary_def plain_char_def continuation_byte_def)

lemma slice_plain:
  "\<forall>c\<in>set s. plain_char c \<Longrightarrow> b \<le> length s \<Longrightarrow> slice s a b = (if a \<le> b then Some (take (b - a) (drop a s)) else None)"
  by (simp add: slice_def plain_boundary)

text \<open>The first round of the loop on \<open>user/password@tail\<close>.\<close>

lemma oracle_first_round:
  assumes plain: "\<forall>c\<in>set (u @ ''/'' @ p @ ''@'' @ t). plain_char c"
    and u: "u \<noteq> []" "CHR ''/'' \<notin> set u" "CHR '':'' \<notin> set u" "CHR ''@'' \<notin> set u"
    and p: "p \<noteq> []" "CHR ''@'' \<notin> set p"
  defines "s \<equiv> u @ ''/'' @ p @ ''@'' @ t"
  shows "redact_oracle_passwords s =
    oracle_loop s (u @ ''/***'') (length u + 1 + length p) (length u + length p + 2)"
proof -
  have at: "find_first (\<lambda>c. c = CHR ''@'') s = Some (length u + 1 + length p)"
  proof -
    have "find_first (\<lambda>c. c = CHR ''@'') (u @ ''/'' @ p) = None" using u(4) p(2) by (auto simp: find_first_None_iff)
    then show ?thesis using find_first_append[of "\<lambda>c. c = CHR ''@''" "u @ ''/'' @ p" "''@'' @ t"] by (simp add: s_def)
  qed
  have token: "take (length u + 1 + length p) s = u @ ''/'' @ p" by (simp add: s_def)
  have slash: "find_first (\<lambda>c. c = CHR ''/'') (u @ ''/'' @ p) = Some (length u)"
  proof -
    have "find_first (\<lambda>c. c = CHR ''/'') u = None" using u(2) by (auto simp: find_first_None_iff)
    then show ?thesis by (simp add: find_first_append)
  qed
  have start: "token_start_of (u @ ''/'' @ p) = 0"
  proof -
    have "rfind_separator (u @ ''/'' @ p) = None" by (rule rfind_separator_plain) (use plain in auto)
    then show ?thesis by (simp add: token_start_of_def)
  qed
  have pl: "\<forall>c\<in>set s. plain_char c" using plain by (simp add: s_def)
  have s1: "slice s 0 (length u + 1 + length p) = Some (u @ ''/'' @ p)"
    using slice_plain[OF pl, of "length u + 1 + length p" 0] token by (simp add: s_def)
  have s2: "slice s 0 (length u + 1) = Some (u @ ''/'')"
    using slice_plain[OF pl, of "length u + 1" 0] by (simp add: s_def)
  show ?thesis
    unfolding redact_oracle_passwords_def
    using u p by (simp add: oracle_loop.simps[of s "[]" 0 0] at token[simplified] start[simplified] s1[simplified]
        slash[simplified] s2[simplified] Let_def REDACTION_def)
qed

section \<open>Properties\<close>



text \<open>A URL shows no password. The text between the last colon of the user information and the at
  sign is replaced by three asterisks, and the scan goes on behind the host.\<close>

lemma url_password_hidden:
  assumes "CHR '':'' \<notin> set scheme" and "\<forall>c\<in>set (u @ p @ h). host_char c"
    and "CHR '':'' \<notin> set p" and "CHR ''@'' \<notin> set h" and "rest = [] \<or> \<not> host_char (hd rest)"
  shows "redact_url_passwords (scheme @ ''://'' @ u @ '':'' @ p @ ''@'' @ h @ rest) =
    scheme @ ''://'' @ u @ '':***@'' @ h @ redact_url_passwords rest"
proof -
  let ?a = "u @ '':'' @ p @ ''@'' @ h"
  have "authority_end (?a @ rest) = length ?a"
    by (rule authority_end_append) (use assms(2,5) in \<open>auto simp: host_char_def\<close>)
  moreover have "take (length ?a) (?a @ rest) = ?a" "drop (length ?a) (?a @ rest) = rest" by simp_all
  ultimately show ?thesis
    using redact_url_step[OF assms(1), of "?a @ rest"] redact_authority_password[OF assms(3,4), of u]
    by (simp only: append_assoc)
qed

text \<open>C40: an Oracle connect string with one at sign shows no password, but a second one makes the
  redaction panic. When the password itself contains an at sign, the second round of the loop slices
  from behind the first at sign back to the slash, with the bounds in the wrong order.\<close>

theorem oracle_password_hidden_or_panic:
  assumes "\<forall>c\<in>set (u @ p @ q @ h). plain_char c \<and> c \<noteq> CHR ''@''" and "u \<noteq> []" and "p \<noteq> []"
    and "CHR ''/'' \<notin> set u" and "CHR '':'' \<notin> set u"
  shows "redact_oracle_passwords (u @ ''/'' @ p @ ''@'' @ h) = Some (u @ ''/***@'' @ h)
    \<and> redact_oracle_passwords (u @ ''/'' @ p @ ''@'' @ q @ ''@'' @ h) = None"
proof
  have signs: "plain_char (CHR ''/'')" "plain_char (CHR ''@'')" by code_simp+
  let ?s = "u @ ''/'' @ p @ ''@'' @ h"
  have pl: "\<forall>c\<in>set ?s. plain_char c" using assms(1) signs by auto
  have "find_first (\<lambda>c. c = CHR ''@'') h = None" using assms(1) by (auto simp: find_first_None_iff)
  then show "redact_oracle_passwords ?s = Some (u @ ''/***@'' @ h)"
    using oracle_first_round[OF pl assms(2,4,5) _ assms(3)] assms(1) slice_plain[OF pl, of "length ?s" "length u + 1 + length p"]
    by (auto simp: oracle_loop.simps[of _ "u @ ''/***''"])
  let ?s = "u @ ''/'' @ p @ ''@'' @ q @ ''@'' @ h"
  have pl: "\<forall>c\<in>set ?s. plain_char c" using assms(1) signs by auto
  have at: "find_first (\<lambda>c. c = CHR ''@'') (q @ ''@'' @ h) = Some (length q)"
  proof -
    have "find_first (\<lambda>c. c = CHR ''@'') q = None" using assms(1) by (auto simp: find_first_None_iff)
    then show ?thesis by (simp add: find_first_append)
  qed
  have slash: "find_first (\<lambda>c. c = CHR ''/'') (u @ ''/'' @ p @ ''@'' @ q) = Some (length u)"
  proof -
    have "find_first (\<lambda>c. c = CHR ''/'') u = None" using assms(4) by (auto simp: find_first_None_iff)
    then show ?thesis by (simp add: find_first_append)
  qed
  have start: "token_start_of (u @ ''/'' @ p @ ''@'' @ q) = 0"
  proof -
    have "rfind_separator (u @ ''/'' @ p @ ''@'' @ q) = None"
      by (rule rfind_separator_plain) (use pl in auto)
    then show ?thesis by (simp add: token_start_of_def)
  qed
  have "slice ?s 0 (length u + length p + length q + 2) = Some (u @ ''/'' @ p @ ''@'' @ q)"
    using slice_plain[OF pl, of "length u + length p + length q + 2" 0] by simp
  moreover have "slice ?s (length u + 1 + length p) (length u + 1) = None"
    using assms(3) by (simp add: slice_def)
  ultimately show "redact_oracle_passwords ?s = None"
    using oracle_first_round[OF pl assms(2,4,5) _ assms(3)] assms at slash start
    by (auto simp: oracle_loop.simps[of _ "u @ ''/***''"] Let_def)
qed

theorem oracle_password_hidden_or_panic_witness:
  "redact_oracle_passwords ''scott/tiger@db'' = Some ''scott/***@db''
   \<and> redact_oracle_passwords ''scott/tiger@x@db'' = None"
proof -
  have "\<forall>c\<in>set (''scott'' @ ''tiger'' @ ''x'' @ ''db''). plain_char c \<and> c \<noteq> CHR ''@''" by code_simp
  from oracle_password_hidden_or_panic[OF this] show ?thesis by simp
qed

end
