(* ===== verification/Analysis.thy ===== *)
theory Analysis
  imports Certification Redaction
begin

text \<open>
  \<open>analysis_outcome.rs\<close>, \<open>introspection.rs\<close> and \<open>config.rs\<close>: the outcome of an analysis and its bounded,
  redacted failure texts, the analysis service with its cancellation checkpoints, and the connection
  profiles. An adapter is a parameter. A redaction may panic, so a value of the service is an option
  with \<open>None\<close> for the panic. The cancellation token is shared with other threads: what they do between two
  checkpoints is the argument \<open>others\<close>, which says before which checkpoints someone calls \<open>cancel\<close>.
\<close>

section \<open>Failures\<close>

datatype AnalysisFailureCode =
    InvalidConfiguration | UnsafeSource | DriverUnavailable | ConnectionFailed | AuthenticationFailed
  | PermissionDenied | UnsupportedProduct | UnsupportedVersion | UnsupportedMetadata
  | MetadataQueryFailed | MetadataMappingFailed | ValidationFailed | CompletenessMismatch | Timeout
  | Cancelled | StorageFailed | Internal

datatype AnalysisStage =
    Configuration | ConnectionStage | CapabilityProbe | Discovery | Mapping | Validation | Persistence

record AnalysisFailure =
  af_code :: AnalysisFailureCode
  af_stage :: AnalysisStage
  af_source_kind :: string
  af_connection_alias :: string
  af_message :: string
  af_remediation :: string
  af_retryable :: bool

definition MAX_FAILURE_TEXT_BYTES :: nat where "MAX_FAILURE_TEXT_BYTES = 8192"

fun boundary_at_most :: "string \<Rightarrow> nat \<Rightarrow> nat" where
  "boundary_at_most s 0 = 0"
| "boundary_at_most s (Suc n) = (if is_char_boundary s (Suc n) then Suc n else boundary_at_most s n)"

definition truncate_utf8 :: "string \<Rightarrow> nat \<Rightarrow> string" where
  "truncate_utf8 s max_bytes =
     (if length s \<le> max_bytes then s else take (boundary_at_most s max_bytes) s)"

definition bounded_redacted :: "string \<Rightarrow> string option \<Rightarrow> string option" where
  "bounded_redacted s connection_string =
     map_option (\<lambda>redacted. truncate_utf8 redacted MAX_FAILURE_TEXT_BYTES)
       (case connection_string of
          Some connection \<Rightarrow> redact_error_with_connection_string s connection
        | None \<Rightarrow> redact_connection_string s)"

definition redacted ::
  "AnalysisFailureCode \<Rightarrow> AnalysisStage \<Rightarrow> string \<Rightarrow> string \<Rightarrow> string \<Rightarrow> string \<Rightarrow> bool \<Rightarrow> string option
    \<Rightarrow> AnalysisFailure option" where
  "redacted code stage source_kind connection_alias message remediation retryable connection_string =
     Option.bind (bounded_redacted source_kind connection_string) (\<lambda>source_kind.
     Option.bind (bounded_redacted connection_alias connection_string) (\<lambda>connection_alias.
     Option.bind (bounded_redacted message connection_string) (\<lambda>message.
     Option.bind (bounded_redacted remediation connection_string) (\<lambda>remediation.
       Some \<lparr>af_code = code, af_stage = stage, af_source_kind = source_kind,
             af_connection_alias = connection_alias, af_message = message,
             af_remediation = remediation, af_retryable = retryable\<rparr>))))"

section \<open>Outcomes\<close>

datatype AnalysisOutcome =
    CompleteOutcome CertifiedSchemaSnapshot
  | FailedOutcome AnalysisFailure

datatype AnalysisStatus = StatusComplete | StatusFailed

definition outcome_complete :: "CertifiedSchemaSnapshot \<Rightarrow> (CertificationError, AnalysisOutcome) result" where
  "outcome_complete snapshot =
     try_with (verify_certified_schema_snapshot snapshot) (\<lambda>_. Ok (CompleteOutcome snapshot))"

definition outcome_failed :: "AnalysisFailure \<Rightarrow> AnalysisOutcome" where
  "outcome_failed failure = FailedOutcome failure"

fun outcome_status :: "AnalysisOutcome \<Rightarrow> AnalysisStatus" where
  "outcome_status (CompleteOutcome _) = StatusComplete"
| "outcome_status (FailedOutcome _) = StatusFailed"

fun certified_snapshot :: "AnalysisOutcome \<Rightarrow> CertifiedSchemaSnapshot option" where
  "certified_snapshot (CompleteOutcome snapshot) = Some snapshot"
| "certified_snapshot (FailedOutcome _) = None"

fun outcome_failure :: "AnalysisOutcome \<Rightarrow> AnalysisFailure option" where
  "outcome_failure (CompleteOutcome _) = None"
| "outcome_failure (FailedOutcome failure) = Some failure"

section \<open>Cancellation\<close>

record CancellationToken =
  ct_cancelled :: bool

definition new_token :: CancellationToken where
  "new_token = \<lparr>ct_cancelled = False\<rparr>"

definition cancel :: "CancellationToken \<Rightarrow> CancellationToken" where
  "cancel token = token\<lparr>ct_cancelled := True\<rparr>"

definition is_cancelled :: "CancellationToken \<Rightarrow> bool" where
  "is_cancelled token = ct_cancelled token"

datatype Checkpoint = AtConfiguration | BeforeDiscovery | AfterDiscovery | BeforeCertification | AfterCertification

definition interleave :: "(Checkpoint \<Rightarrow> bool) \<Rightarrow> Checkpoint \<Rightarrow> CancellationToken \<Rightarrow> CancellationToken" where
  "interleave others point token = (if others point then cancel token else token)"

text \<open>A step of the service that may return early with a failure, or panic.\<close>

type_synonym 'a attempt = "(AnalysisFailure, 'a) result option"

definition attempt_with :: "'a attempt \<Rightarrow> ('a \<Rightarrow> 'b attempt) \<Rightarrow> 'b attempt" where
  "attempt_with r f =
     (case r of None \<Rightarrow> None | Some (Inl failure) \<Rightarrow> Some (Err failure) | Some (Inr x) \<Rightarrow> f x)"

definition fail_with :: "AnalysisFailure option \<Rightarrow> 'a attempt" where
  "fail_with failure = map_option Err failure"

definition checkpoint :: "CancellationToken \<Rightarrow> string \<Rightarrow> string \<Rightarrow> AnalysisStage \<Rightarrow> unit attempt" where
  "checkpoint token source_kind connection_alias stage =
     (if \<not> is_cancelled token then Some (Ok ())
      else fail_with (redacted Cancelled stage source_kind connection_alias
        ''database metadata analysis was cancelled''
        ''start a new analysis when the result is still needed'' True None))"

section \<open>The analysis service\<close>

record IntrospectionRequest =
  irq_connection_alias :: string
  irq_requested_catalogs :: "string list"
  irq_requested_schemas :: "string list"
  irq_timeout_ms :: nat

definition validate_request :: "IntrospectionRequest \<Rightarrow> string \<Rightarrow> unit attempt" where
  "validate_request request source_kind =
     (if blank (irq_connection_alias request)
      then fail_with (redacted InvalidConfiguration Configuration source_kind (irq_connection_alias request)
        ''connection alias must not be empty'' ''provide a stable non-secret connection alias'' False None)
      else if irq_timeout_ms request = 0
      then fail_with (redacted InvalidConfiguration Configuration source_kind (irq_connection_alias request)
        ''introspection timeout must be greater than zero'' ''set a bounded timeout in milliseconds'' False None)
      else Some (Ok ()))"

record CatalogDiscovery =
  cdi_snapshot :: CanonicalSchemaSnapshot
  cdi_adapter :: AdapterIdentity
  cdi_server :: ServerIdentity
  cdi_scope :: IntrospectionScope
  cdi_discovered_counts :: DiscoveryCounts
  cdi_capability_checks :: "CapabilityCheck list"

text \<open>An adapter: its kind of source and its discovery, which takes the token and returns it, since it may
  observe cancellations on its way.\<close>

record CatalogIntrospector =
  cai_source_kind :: string
  cai_discover :: "IntrospectionRequest \<Rightarrow> (Checkpoint \<Rightarrow> bool) \<Rightarrow> CancellationToken
    \<Rightarrow> CatalogDiscovery attempt \<times> CancellationToken"

text \<open>The discovery that adapters inherit, around their own.\<close>

definition discover_with_cancellation ::
  "string \<Rightarrow> (IntrospectionRequest \<Rightarrow> CatalogDiscovery attempt) \<Rightarrow> IntrospectionRequest
    \<Rightarrow> (Checkpoint \<Rightarrow> bool) \<Rightarrow> CancellationToken \<Rightarrow> CatalogDiscovery attempt \<times> CancellationToken" where
  "discover_with_cancellation source_kind discover request others token =
     (let before = interleave others BeforeDiscovery token;
          after = interleave others AfterDiscovery before
      in (attempt_with (checkpoint before source_kind (irq_connection_alias request) Discovery) (\<lambda>_.
          attempt_with (discover request) (\<lambda>discovery.
          attempt_with (checkpoint after source_kind (irq_connection_alias request) Discovery) (\<lambda>_.
            Some (Ok discovery)))), after))"

definition certify :: "CatalogDiscovery \<Rightarrow> (CertificationError, CertifiedSchemaSnapshot) result" where
  "certify discovery =
     certify_schema_snapshot (cdi_snapshot discovery) (cdi_adapter discovery) (cdi_server discovery)
       (cdi_scope discovery) (cdi_discovered_counts discovery) (cdi_capability_checks discovery)"

definition certification_failure :: "string \<Rightarrow> string \<Rightarrow> CertificationError \<Rightarrow> AnalysisFailure option" where
  "certification_failure source_kind connection_alias error =
     redacted
       (if list_ex (\<lambda>issue. cis_code issue \<in> {''object_count_mismatch'', ''relationship_count_mismatch'',
             ''discovered_count_missing'', ''discovered_relationship_count_missing''}) (cer_issues error)
        then CompletenessMismatch else ValidationFailed)
       Validation source_kind connection_alias (certification_error_to_string error)
       ''inspect the adapter discovery evidence and fix every reported mapping before retrying'' False None"

definition certified_outcome :: "CatalogDiscovery \<Rightarrow> AnalysisOutcome option" where
  "certified_outcome discovery =
     (let source_kind = snap_source_kind (can_schema (cdi_snapshot discovery));
          connection_alias = snap_connection_alias (can_schema (cdi_snapshot discovery))
      in case try_with (certify discovery) outcome_complete of
           Inr outcome \<Rightarrow> Some outcome
         | Inl error \<Rightarrow> map_option outcome_failed (certification_failure source_kind connection_alias error))"

definition to_outcome :: "AnalysisOutcome attempt \<Rightarrow> AnalysisOutcome option" where
  "to_outcome r = map_option (\<lambda>x. case x of Inl failure \<Rightarrow> outcome_failed failure | Inr outcome \<Rightarrow> outcome) r"

definition analyze_with_cancellation ::
  "CatalogIntrospector \<Rightarrow> IntrospectionRequest \<Rightarrow> (Checkpoint \<Rightarrow> bool) \<Rightarrow> CancellationToken \<Rightarrow> AnalysisOutcome option" where
  "analyze_with_cancellation adapter request others token =
     (let source_kind = cai_source_kind adapter;
          connection_alias = irq_connection_alias request;
          token = interleave others AtConfiguration token
      in to_outcome
        (attempt_with (validate_request request source_kind) (\<lambda>_.
         attempt_with (checkpoint token source_kind connection_alias Configuration) (\<lambda>_.
         (let (discovered, token) = cai_discover adapter request others token;
              token = interleave others BeforeCertification token
          in attempt_with discovered (\<lambda>discovery.
             attempt_with (checkpoint token source_kind connection_alias Validation) (\<lambda>_.
             (case certified_outcome discovery of
                None \<Rightarrow> None
              | Some outcome \<Rightarrow>
                  (let token = interleave others AfterCertification token
                   in attempt_with (checkpoint token source_kind connection_alias Validation) (\<lambda>_.
                        Some (Ok outcome)))))))))))"

definition analyze :: "CatalogIntrospector \<Rightarrow> IntrospectionRequest \<Rightarrow> AnalysisOutcome option" where
  "analyze adapter request = analyze_with_cancellation adapter request (\<lambda>_. False) new_token"

section \<open>Connection profiles\<close>

record ConnectionProfile =
  cp_source :: string
  cp_path :: "string option"
  cp_connection_string :: "string option"
  cp_cache_path :: "string option"

type_synonym DatabaseMemoryConfig = "(string, ConnectionProfile) btree"

definition DEFAULT_CONFIG_PATH :: string where "DEFAULT_CONFIG_PATH = ''.database-memory/config.toml''"

text \<open>One character is replaced at a time: a non-ASCII character has one leading byte.\<close>

definition sanitized_alias :: "string \<Rightarrow> string" where
  "sanitized_alias alias =
     concat (map (\<lambda>c. if ascii_upper c \<or> ascii_lower c \<or> ascii_digit c then to_ascii_uppercase [c]
                      else if continuation_byte c then [] else ''_'') alias)"

definition connection_string_env_var :: "string \<Rightarrow> string" where
  "connection_string_env_var alias = ''DATABASE_MEMORY_'' @ sanitized_alias alias @ ''_CONNECTION_STRING''"

definition path_env_var :: "string \<Rightarrow> string" where
  "path_env_var alias = ''DATABASE_MEMORY_'' @ sanitized_alias alias @ ''_PATH''"

text \<open>Reading a file and parsing TOML are parameters.\<close>

datatype ('io, 'toml) ConfigError = ConfigIo 'io | ConfigToml 'toml

definition load_optional_config ::
  "(string \<Rightarrow> ('io, string) result) \<Rightarrow> ('io \<Rightarrow> bool) \<Rightarrow> (string \<Rightarrow> ('toml, DatabaseMemoryConfig) result)
    \<Rightarrow> string \<Rightarrow> (('io, 'toml) ConfigError, DatabaseMemoryConfig option) result" where
  "load_optional_config read_to_string not_found parse_config_toml path =
     (case read_to_string path of
        Inr input \<Rightarrow>
          (case parse_config_toml input of Inr config \<Rightarrow> Ok (Some config) | Inl err \<Rightarrow> Err (ConfigToml err))
      | Inl err \<Rightarrow> if not_found err then Ok None else Err (ConfigIo err))"

text \<open>The environment is a parameter, whose values are Unicode texts. A profile without a path stays without one.\<close>

definition profile :: "(string \<Rightarrow> string option) \<Rightarrow> DatabaseMemoryConfig \<Rightarrow> string \<Rightarrow> ConnectionProfile option" where
  "profile env config alias =
     map_option (\<lambda>p.
       \<lparr>cp_source = cp_source p,
         cp_path = map_option (\<lambda>path. case env (path_env_var alias) of Some override \<Rightarrow> override | None \<Rightarrow> path) (cp_path p),
         cp_connection_string =
           (case env (connection_string_env_var alias) of
              Some override \<Rightarrow> Some override | None \<Rightarrow> cp_connection_string p),
         cp_cache_path = cp_cache_path p\<rparr>) (bt_get config alias)"

section \<open>Bounded texts\<close>

lemma boundary_at_most_le: "boundary_at_most s n \<le> n"
  by (induction n) (auto intro: le_SucI)

lemma boundary_at_most_boundary: "is_char_boundary s (boundary_at_most s n)"
  by (induction n) (auto simp: is_char_boundary_def)

lemma boundary_at_most_greatest: "is_char_boundary s i \<Longrightarrow> i \<le> n \<Longrightarrow> i \<le> boundary_at_most s n"
  by (induction n) (auto simp: le_Suc_eq)

lemma boundary_in_text: "is_char_boundary s i \<Longrightarrow> i \<le> length s"
  by (auto simp: is_char_boundary_def)

text \<open>The longest prefix of whole characters that fits.\<close>

definition longest_fitting :: "nat \<Rightarrow> string \<Rightarrow> string \<Rightarrow> bool" where
  "longest_fitting n s t =
     (length t \<le> n \<and> t = take (length t) s \<and> is_char_boundary s (length t)
      \<and> (\<forall>i. is_char_boundary s i \<longrightarrow> i \<le> n \<longrightarrow> i \<le> length t))"

lemma truncate_utf8_longest: "longest_fitting n s (truncate_utf8 s n)"
proof (cases "length s \<le> n")
  case True
  then show ?thesis
    by (auto simp: truncate_utf8_def longest_fitting_def boundary_in_text is_char_boundary_def)
next
  case False
  then have "length (truncate_utf8 s n) = boundary_at_most s n"
    using boundary_at_most_le[of s n] by (simp add: truncate_utf8_def)
  with False show ?thesis
    using boundary_at_most_le[of s n]
    by (simp add: longest_fitting_def boundary_at_most_boundary boundary_at_most_greatest)
       (simp add: truncate_utf8_def)
qed

section \<open>The checkpoints\<close>

lemma attempt_with_Ok_iff: "attempt_with r f = Some (Inr y) \<longleftrightarrow> (\<exists>x. r = Some (Inr x) \<and> f x = Some (Inr y))"
  by (auto simp: attempt_with_def split: option.splits sum.splits)

lemma fail_with_not_Ok [simp]: "fail_with failure \<noteq> Some (Inr x)"
  by (cases failure) (simp_all add: fail_with_def)

lemma checkpoint_Ok_iff [simp]: "checkpoint token kind alias stage = Some (Inr u) \<longleftrightarrow> \<not> is_cancelled token"
  by (simp add: checkpoint_def)

lemma validate_request_Ok_iff [simp]:
  "validate_request request kind = Some (Inr u) \<longleftrightarrow>
     \<not> blank (irq_connection_alias request) \<and> irq_timeout_ms request \<noteq> 0"
  by (simp add: validate_request_def)

lemma cancelled_interleave [simp]:
  "is_cancelled (interleave others point token) \<longleftrightarrow> is_cancelled token \<or> others point"
  by (simp add: interleave_def is_cancelled_def cancel_def)

lemma to_outcome_Complete_iff:
  "to_outcome r = Some (CompleteOutcome c) \<longleftrightarrow> r = Some (Inr (CompleteOutcome c))"
  by (cases r) (auto simp: to_outcome_def outcome_failed_def split: sum.splits)

lemma certified_outcome_Complete_iff:
  "certified_outcome d = Some (CompleteOutcome c) \<longleftrightarrow>
     c = certificate_for (cdi_snapshot d) (cdi_adapter d) (cdi_server d) (cdi_scope d)
           (cdi_discovered_counts d) (cdi_capability_checks d)
     \<and> complete_certificate c"
proof -
  have "certified_outcome d = Some (CompleteOutcome c) \<longleftrightarrow>
      certify d = Ok c \<and> verify_certified_schema_snapshot c = Ok ()"
    by (auto simp: certified_outcome_def Let_def outcome_complete_def outcome_failed_def try_with_def
        split: sum.splits)
  then show ?thesis
    by (auto simp: certify_def certify_Ok_iff verify_Ok_iff)
qed

text \<open>What the service relies on from a discovery: the signal is one-way, so the discovery never takes a
  cancellation back.\<close>

locale one_way_discovery =
  fixes discover :: "IntrospectionRequest \<Rightarrow> (Checkpoint \<Rightarrow> bool) \<Rightarrow> CancellationToken
    \<Rightarrow> CatalogDiscovery attempt \<times> CancellationToken"
  assumes keeps_cancelled: "is_cancelled token \<Longrightarrow> is_cancelled (snd (discover request others token))"
begin

lemma complete_analysis:
  "analyze_with_cancellation \<lparr>cai_source_kind = kind, cai_discover = discover\<rparr> request others token
      = Some (CompleteOutcome c) \<longleftrightarrow>
     \<not> blank (irq_connection_alias request) \<and> irq_timeout_ms request \<noteq> 0
     \<and> \<not> is_cancelled token
     \<and> \<not> others AtConfiguration \<and> \<not> others BeforeCertification \<and> \<not> others AfterCertification
     \<and> (\<exists>d t. discover request others token = (Some (Ok d), t) \<and> \<not> is_cancelled t
        \<and> certified_outcome d = Some (CompleteOutcome c))"
proof -
  have "interleave others AtConfiguration token = token" if "\<not> others AtConfiguration"
    using that by (simp add: interleave_def)
  then show ?thesis
    unfolding analyze_with_cancellation_def Let_def to_outcome_Complete_iff
    by (auto simp: attempt_with_Ok_iff split: option.splits prod.splits)
qed

end

lemma discover_with_cancellation_Ok_iff:
  "discover_with_cancellation kind discover request others token = (Some (Inr d), t) \<longleftrightarrow>
     \<not> is_cancelled token \<and> \<not> others BeforeDiscovery \<and> \<not> others AfterDiscovery
     \<and> discover request = Some (Inr d) \<and> t = token"
  by (auto simp: discover_with_cancellation_def Let_def attempt_with_Ok_iff) (simp_all add: interleave_def)

interpretation inherited: one_way_discovery "discover_with_cancellation kind discover" for kind discover
  by unfold_locales (simp add: discover_with_cancellation_def Let_def)

section \<open>Properties\<close>

text \<open>C37: an analysis is complete exactly when the request names an alias and a timeout, no one cancels at
  any moment before the last checkpoint, the discovery of the adapter succeeds and its result is a complete
  certificate, which is then the outcome. In particular a cancellation at any time discards the discovery.\<close>

theorem analysis_complete_exact:
  "analyze_with_cancellation
      \<lparr>cai_source_kind = kind, cai_discover = discover_with_cancellation kind discover\<rparr> request others token
      = Some (CompleteOutcome c) \<longleftrightarrow>
     \<not> blank (irq_connection_alias request) \<and> irq_timeout_ms request \<noteq> 0
     \<and> \<not> is_cancelled token \<and> (\<forall>point. \<not> others point)
     \<and> (\<exists>d. discover request = Some (Ok d)
        \<and> c = certificate_for (cdi_snapshot d) (cdi_adapter d) (cdi_server d) (cdi_scope d)
            (cdi_discovered_counts d) (cdi_capability_checks d)
        \<and> complete_certificate c)"
proof -
  have "(\<forall>point. \<not> others point) \<longleftrightarrow> \<not> others AtConfiguration \<and> \<not> others BeforeDiscovery
      \<and> \<not> others AfterDiscovery \<and> \<not> others BeforeCertification \<and> \<not> others AfterCertification"
    by (metis Checkpoint.exhaust)
  then show ?thesis
    unfolding inherited.complete_analysis discover_with_cancellation_Ok_iff certified_outcome_Complete_iff
    by blast
qed



end
