(* ===== verification/Rust_Path.thy ===== *)
theory Rust_Path
  imports Rust_Prelude
begin

text \<open>
  What the components use of \<open>std::path\<close> and \<open>std::io\<close>. A path is the list of its components, as
  \<open>Path::components\<close> reads it on a Unix system.
\<close>

section \<open>Components\<close>

datatype component = RootDir | CurDir | ParentDir | Normal string

type_synonym path = "component list"

text \<open>The derived order of \<open>Component\<close>: the variants in their order, names by their bytes.\<close>

fun component_rank :: "component \<Rightarrow> nat \<times> string" where
  "component_rank RootDir = (0, [])"
| "component_rank CurDir = (1, [])"
| "component_rank ParentDir = (2, [])"
| "component_rank (Normal s) = (3, s)"

lemma component_rank_inject [simp]: "component_rank a = component_rank b \<longleftrightarrow> a = b"
  by (cases a; cases b) auto

instantiation component :: linorder
begin

definition less_eq_component :: "component \<Rightarrow> component \<Rightarrow> bool" where
  "less_eq_component a b = (component_rank a \<le> component_rank b)"

definition less_component :: "component \<Rightarrow> component \<Rightarrow> bool" where
  "less_component a b = (component_rank a < component_rank b)"

instance
  by standard (auto simp: less_eq_component_def less_component_def order.strict_iff_order)

end

text \<open>\<open>Path::components\<close>: repeated separators and \<open>.\<close> disappear, but for a leading \<open>.\<close> of a relative path.\<close>

definition component_of :: "string \<Rightarrow> component" where
  "component_of s = (if s = ''.'' then CurDir else if s = ''..'' then ParentDir else Normal s)"

definition components :: "string \<Rightarrow> path" where
  "components s =
     (let parts = filter (\<lambda>p. p \<noteq> []) (split_on (CHR ''/'') s)
      in if starts_with s ''/'' then RootDir # map component_of (filter (\<lambda>p. p \<noteq> ''.'') parts)
         else (case parts of
                 [] \<Rightarrow> []
               | p # ps \<Rightarrow> component_of p # map component_of (filter (\<lambda>p. p \<noteq> ''.'') ps)))"

definition is_absolute :: "path \<Rightarrow> bool" where
  "is_absolute p = (p \<noteq> [] \<and> hd p = RootDir)"

definition join_path :: "path \<Rightarrow> path \<Rightarrow> path" where
  "join_path base p = base @ filter (\<lambda>c. c \<noteq> CurDir) p"

definition file_name :: "path \<Rightarrow> string option" where
  "file_name p = (if p = [] then None else case last p of Normal s \<Rightarrow> Some s | _ \<Rightarrow> None)"

definition parent :: "path \<Rightarrow> path option" where
  "parent p = (if p = [] \<or> last p = RootDir then None else Some (butlast p))"

fun path_starts_with :: "path \<Rightarrow> path \<Rightarrow> bool" where
  "path_starts_with p [] = True"
| "path_starts_with [] (c # cs) = False"
| "path_starts_with (x # xs) (c # cs) = (x = c \<and> path_starts_with xs cs)"

lemma path_starts_with_iff: "path_starts_with p r \<longleftrightarrow> (\<exists>rest. p = r @ rest)"
  by (induction p r rule: path_starts_with.induct) auto

lemma parent_shorter [termination_simp]: "parent p = Some q \<Longrightarrow> length q < length p"
  by (auto simp: parent_def split: if_splits)

text \<open>\<open>Path::extension\<close>: what follows the last dot of the file name, unless the name starts there.\<close>

definition extension_of :: "string \<Rightarrow> string option" where
  "extension_of name =
     (case split_once (CHR ''.'') (rev name) of
        None \<Rightarrow> None
      | Some (ext, stem) \<Rightarrow> if stem = [] then None else Some (rev ext))"

definition extension :: "path \<Rightarrow> string option" where
  "extension p = Option.bind (file_name p) extension_of"

section \<open>Errors\<close>

record IoError =
  io_not_found :: bool
  io_text :: string

end
