(* ===== verification/Sqlite_Sql.thy ===== *)
theory Sqlite_Sql
  imports Canonical
begin

text \<open>
  \<open>adapters/sqlite_sql.rs\<close>: what the SQLite adapters read from the syntax trees of schema statements, and
  the check that a DDL file holds schema statements only. The parser and the printer of expressions belong
  to another package and are parameters; of its syntax trees, the variants and fields the code
  matches on are the datatypes below.
\<close>

section \<open>Syntax trees\<close>

datatype Expr =
    ExprId string
  | ExprName string
  | ExprQualified string string
  | ExprDoublyQualified string string string
  | ExprCollate Expr string
  | ExprOther string

datatype ResolveType = RtRollback | RtAbort | RtFail | RtIgnore | RtReplace
datatype RefAct = SetNull | SetDefault | RaCascade | RaRestrict | NoAction
datatype RefArg = OnDelete RefAct | OnInsert RefAct | OnUpdate RefAct | MatchName string
datatype InitDeferredPred = InitiallyDeferred | InitiallyImmediate
datatype SortOrder = Asc | Desc
datatype NullsOrder = NullsFirst | NullsLast
datatype TriggerTime = BeforeEvent | AfterEvent | InsteadOf
datatype TriggerEvent = OnDeleteRow | OnInsertRow | OnUpdateRow | OnUpdateOf "string list"

record DeferSubclause =
  ds_deferrable :: bool
  ds_init_deferred :: "InitDeferredPred option"

record ForeignKeyClause =
  fkc_tbl_name :: string
  fkc_columns :: "string list option"
  fkc_args :: "RefArg list"

record SortedColumn =
  sc_expr :: Expr
  sc_order :: "SortOrder option"
  sc_nulls :: "NullsOrder option"

datatype ColumnConstraint =
    ColPrimaryKey "ResolveType option" bool
  | ColUnique "ResolveType option"
  | ColCheck Expr
  | ColForeignKey ForeignKeyClause "DeferSubclause option"
  | ColGenerated Expr "string option"
  | ColCollate string
  | ColOther

record ColumnDefinition =
  cd_col_name :: string
  cd_constraints :: "(string option \<times> ColumnConstraint) list"
  cd_generated_flag :: bool

datatype TableConstraint =
    TabPrimaryKey "SortedColumn list" bool "ResolveType option"
  | TabUnique "SortedColumn list" "ResolveType option"
  | TabCheck Expr "ResolveType option"
  | TabForeignKey "string list" ForeignKeyClause "DeferSubclause option"

datatype CreateTableBody =
    ColumnsAndConstraints "ColumnDefinition list" "(string option \<times> TableConstraint) list option" bool bool
  | AsSelect

datatype Stmt =
    StmtAlterTable | StmtAnalyze | StmtAttach | StmtBegin | StmtCommit
  | StmtCreateIndex bool string string "SortedColumn list" "Expr option"
  | StmtCreateTable bool string CreateTableBody
  | StmtCreateTrigger bool string "TriggerTime option" TriggerEvent string "Expr option"
  | StmtCreateView bool
  | StmtCreateVirtualTable | StmtDelete | StmtDetach | StmtDropIndex | StmtDropTable | StmtDropTrigger
  | StmtDropView | StmtInsert
  | StmtPragma string
  | StmtReindex | StmtRelease | StmtRollback | StmtSavepoint | StmtSelect | StmtUpdate | StmtVacuum

datatype Cmd = CmdStmt Stmt | CmdExplain Stmt | CmdExplainQueryPlan Stmt

text \<open>The parser is an iterator over the commands of a text, which stops at a syntax error.\<close>

type_synonym sql_parser = "string \<Rightarrow> (string, Cmd) result list"

section \<open>Parsed definitions\<close>

record ParsedColumnDefinition =
  pcd_name :: string
  pcd_generated_expression :: "string option"
  pcd_generated_storage :: "string option"
  pcd_collation :: "string option"

datatype ParsedConstraintKind = ParsedPrimaryKey | ParsedForeignKey | ParsedUnique | ParsedCheck

record ParsedConstraint =
  pc_name :: "string option"
  pc_kind :: ParsedConstraintKind
  pc_columns :: "string list"
  pc_referenced_table :: "string option"
  pc_referenced_columns :: "string list"
  pc_expression :: "string option"
  pc_properties :: "(string, MetadataValue) btree"

record ParsedTableDefinition =
  ptd_name :: string
  ptd_strict :: bool
  ptd_without_rowid :: bool
  ptd_columns :: "ParsedColumnDefinition list"
  ptd_constraints :: "ParsedConstraint list"

record ParsedIndexTerm =
  pit_expression :: string
  pit_column_name :: "string option"
  pit_order :: "string option"
  pit_nulls :: "string option"

record ParsedIndexDefinition =
  pid_name :: string
  pid_table_name :: string
  pid_unique :: bool
  pid_terms :: "ParsedIndexTerm list"
  pid_predicate :: "string option"

record ParsedTriggerDefinition =
  ptr_name :: string
  ptr_owner_name :: string
  ptr_timing :: string
  ptr_event :: string
  ptr_update_columns :: "string list"
  ptr_when_expression :: "string option"

section \<open>Identifiers\<close>

text \<open>The slices are at the ASCII quotes, so they are at character boundaries.\<close>

definition dequote_identifier :: "string \<Rightarrow> string" where
  "dequote_identifier v =
     (if length v < 2 then v
      else
        (let first = hd v; final = last v; inner = butlast (tl v)
         in if first = CHR 0x22 \<and> final = CHR 0x22 then replace_str [CHR 0x22, CHR 0x22] [CHR 0x22] inner
            else if first = CHR 0x60 \<and> final = CHR 0x60 then replace_str [CHR 0x60, CHR 0x60] [CHR 0x60] inner
            else if first = CHR ''['' \<and> final = CHR '']'' then replace_str '']]'' '']'' inner
            else if first = CHR 0x27 \<and> final = CHR 0x27 then replace_str [CHR 0x27, CHR 0x27] [CHR 0x27] inner
            else v))"

definition ident :: "string \<Rightarrow> string" where
  "ident v = dequote_identifier v"

fun ref_action :: "RefAct \<Rightarrow> string" where
  "ref_action SetNull = ''set_null''"
| "ref_action SetDefault = ''set_default''"
| "ref_action RaCascade = ''cascade''"
| "ref_action RaRestrict = ''restrict''"
| "ref_action NoAction = ''no_action''"

fun resolve_type :: "ResolveType \<Rightarrow> string" where
  "resolve_type RtRollback = ''rollback''"
| "resolve_type RtAbort = ''abort''"
| "resolve_type RtFail = ''fail''"
| "resolve_type RtIgnore = ''ignore''"
| "resolve_type RtReplace = ''replace''"

fun sort_order :: "SortOrder \<Rightarrow> string" where
  "sort_order Asc = ''ASC''"
| "sort_order Desc = ''DESC''"

fun nulls_order :: "NullsOrder \<Rightarrow> string" where
  "nulls_order NullsFirst = ''FIRST''"
| "nulls_order NullsLast = ''LAST''"

fun trigger_time :: "TriggerTime \<Rightarrow> string" where
  "trigger_time BeforeEvent = ''BEFORE''"
| "trigger_time AfterEvent = ''AFTER''"
| "trigger_time InsteadOf = ''INSTEAD OF''"

fun trigger_event :: "TriggerEvent \<Rightarrow> string \<times> string list" where
  "trigger_event OnDeleteRow = (''DELETE'', [])"
| "trigger_event OnInsertRow = (''INSERT'', [])"
| "trigger_event OnUpdateRow = (''UPDATE'', [])"
| "trigger_event (OnUpdateOf columns) = (''UPDATE'', map ident columns)"

fun expression_column_name :: "Expr \<Rightarrow> string option" where
  "expression_column_name (ExprId v) = Some (dequote_identifier v)"
| "expression_column_name (ExprName v) = Some (ident v)"
| "expression_column_name (ExprQualified _ v) = Some (ident v)"
| "expression_column_name (ExprDoublyQualified _ _ v) = Some (ident v)"
| "expression_column_name (ExprCollate inner _) = expression_column_name inner"
| "expression_column_name (ExprOther _) = None"

definition required_column_name :: "(Expr \<Rightarrow> string) \<Rightarrow> Expr \<Rightarrow> (string, string) result" where
  "required_column_name show_expr expr =
     ok_or (''expected a column name, got expression '' @ show_expr expr) (expression_column_name expr)"

section \<open>Constraints\<close>

type_synonym properties = "(string, MetadataValue) btree"

definition insert_string :: "string \<Rightarrow> string \<Rightarrow> properties \<Rightarrow> properties" where
  "insert_string key v props = bt_insert key (String v) props"

definition insert_conflict :: "ResolveType option \<Rightarrow> properties \<Rightarrow> properties" where
  "insert_conflict conflict_clause props =
     (case conflict_clause of None \<Rightarrow> props | Some c \<Rightarrow> insert_string ''on_conflict'' (resolve_type c) props)"

definition primary_or_unique_properties :: "ResolveType option \<Rightarrow> bool option \<Rightarrow> properties" where
  "primary_or_unique_properties conflict_clause auto_increment =
     (let props = insert_conflict conflict_clause []
      in case auto_increment of None \<Rightarrow> props | Some b \<Rightarrow> bt_insert ''auto_increment'' (Boolean b) props)"

fun insert_ref_arg :: "RefArg \<Rightarrow> properties \<Rightarrow> properties" where
  "insert_ref_arg (OnDelete action) props = insert_string ''on_delete'' (ref_action action) props"
| "insert_ref_arg (OnInsert action) props = insert_string ''on_insert'' (ref_action action) props"
| "insert_ref_arg (OnUpdate action) props = insert_string ''on_update'' (ref_action action) props"
| "insert_ref_arg (MatchName v) props = insert_string ''match'' (ident v) props"

definition insert_defer :: "DeferSubclause option \<Rightarrow> properties \<Rightarrow> properties" where
  "insert_defer defer_clause props =
     (case defer_clause of
        None \<Rightarrow> props
      | Some clause \<Rightarrow>
          (let props = bt_insert ''deferrable'' (Boolean (ds_deferrable clause)) props
           in case ds_init_deferred clause of
                None \<Rightarrow> props
              | Some InitiallyDeferred \<Rightarrow> insert_string ''initially'' ''deferred'' props
              | Some InitiallyImmediate \<Rightarrow> insert_string ''initially'' ''immediate'' props))"

definition foreign_key_constraint ::
  "string option \<Rightarrow> string list \<Rightarrow> ForeignKeyClause \<Rightarrow> DeferSubclause option \<Rightarrow> ParsedConstraint" where
  "foreign_key_constraint constraint_name columns clause defer_clause =
     \<lparr>pc_name = constraint_name, pc_kind = ParsedForeignKey, pc_columns = columns,
       pc_referenced_table = Some (ident (fkc_tbl_name clause)),
       pc_referenced_columns = (case fkc_columns clause of None \<Rightarrow> [] | Some cs \<Rightarrow> map ident cs),
       pc_expression = None,
       pc_properties = insert_defer defer_clause (fold insert_ref_arg (fkc_args clause) [])\<rparr>"

definition key_constraint ::
  "string option \<Rightarrow> ParsedConstraintKind \<Rightarrow> string list \<Rightarrow> properties \<Rightarrow> ParsedConstraint" where
  "key_constraint constraint_name kind columns props =
     \<lparr>pc_name = constraint_name, pc_kind = kind, pc_columns = columns, pc_referenced_table = None,
       pc_referenced_columns = [], pc_expression = None, pc_properties = props\<rparr>"

definition check_constraint ::
  "string option \<Rightarrow> string list \<Rightarrow> string \<Rightarrow> properties \<Rightarrow> ParsedConstraint" where
  "check_constraint constraint_name columns expr props =
     \<lparr>pc_name = constraint_name, pc_kind = ParsedCheck, pc_columns = columns, pc_referenced_table = None,
       pc_referenced_columns = [], pc_expression = Some expr, pc_properties = props\<rparr>"

section \<open>Tables\<close>

text \<open>The state of the loop over the constraints of a column: its definition so far and the constraints of
  the table so far.\<close>

fun parse_column_constraint ::
  "(Expr \<Rightarrow> string) \<Rightarrow> string option \<times> ColumnConstraint
    \<Rightarrow> ParsedColumnDefinition \<times> ParsedConstraint list \<Rightarrow> ParsedColumnDefinition \<times> ParsedConstraint list" where
  "parse_column_constraint show_expr (name, ColPrimaryKey conflict auto_increment) (col, cons) =
     (col, cons @ [key_constraint (map_option ident name) ParsedPrimaryKey [pcd_name col]
        (primary_or_unique_properties conflict (Some auto_increment))])"
| "parse_column_constraint show_expr (name, ColUnique conflict) (col, cons) =
     (col, cons @ [key_constraint (map_option ident name) ParsedUnique [pcd_name col]
        (primary_or_unique_properties conflict None)])"
| "parse_column_constraint show_expr (name, ColCheck expr) (col, cons) =
     (col, cons @ [check_constraint (map_option ident name) [pcd_name col] (show_expr expr) []])"
| "parse_column_constraint show_expr (name, ColForeignKey clause defer_clause) (col, cons) =
     (col, cons @ [foreign_key_constraint (map_option ident name) [pcd_name col] clause defer_clause])"
| "parse_column_constraint show_expr (name, ColGenerated expr typ) (col, cons) =
     (col\<lparr>pcd_generated_expression := Some (show_expr expr),
          pcd_generated_storage := Some (case typ of
             Some v \<Rightarrow> to_ascii_uppercase (dequote_identifier v) | None \<Rightarrow> ''VIRTUAL'')\<rparr>, cons)"
| "parse_column_constraint show_expr (name, ColCollate collation_name) (col, cons) =
     (col\<lparr>pcd_collation := Some (ident collation_name)\<rparr>, cons)"
| "parse_column_constraint show_expr (name, ColOther) (col, cons) = (col, cons)"

definition parse_column ::
  "(Expr \<Rightarrow> string) \<Rightarrow> ColumnDefinition \<Rightarrow> ParsedColumnDefinition list \<times> ParsedConstraint list
    \<Rightarrow> (string, ParsedColumnDefinition list \<times> ParsedConstraint list) result" where
  "parse_column show_expr column st =
     (let column_name = ident (cd_col_name column);
          (col, cons) = fold (parse_column_constraint show_expr) (cd_constraints column)
            (\<lparr>pcd_name = column_name, pcd_generated_expression = None, pcd_generated_storage = None,
               pcd_collation = None\<rparr>, snd st)
      in if cd_generated_flag column \<and> pcd_generated_expression col = None
         then Err (''generated column '' @ column_name @ '' has no parsed generation expression'')
         else Ok (fst st @ [col], cons))"

fun parse_columns ::
  "(Expr \<Rightarrow> string) \<Rightarrow> ColumnDefinition list \<Rightarrow> ParsedColumnDefinition list \<times> ParsedConstraint list
    \<Rightarrow> (string, ParsedColumnDefinition list \<times> ParsedConstraint list) result" where
  "parse_columns show_expr [] st = Ok st"
| "parse_columns show_expr (column # columns) st =
     try_with (parse_column show_expr column st) (parse_columns show_expr columns)"

definition required_columns :: "(Expr \<Rightarrow> string) \<Rightarrow> SortedColumn list \<Rightarrow> (string, string list) result" where
  "required_columns show_expr columns =
     collect_results (map (\<lambda>column. required_column_name show_expr (sc_expr column)) columns)"

fun parse_table_constraint ::
  "(Expr \<Rightarrow> string) \<Rightarrow> string option \<times> TableConstraint \<Rightarrow> (string, ParsedConstraint) result" where
  "parse_table_constraint show_expr (name, TabPrimaryKey columns auto_increment conflict) =
     try_with (required_columns show_expr columns) (\<lambda>names.
       Ok (key_constraint (map_option ident name) ParsedPrimaryKey names
         (primary_or_unique_properties conflict (Some auto_increment))))"
| "parse_table_constraint show_expr (name, TabUnique columns conflict) =
     try_with (required_columns show_expr columns) (\<lambda>names.
       Ok (key_constraint (map_option ident name) ParsedUnique names (primary_or_unique_properties conflict None)))"
| "parse_table_constraint show_expr (name, TabCheck expr conflict) =
     Ok (check_constraint (map_option ident name) [] (show_expr expr) (insert_conflict conflict []))"
| "parse_table_constraint show_expr (name, TabForeignKey columns clause defer_clause) =
     Ok (foreign_key_constraint (map_option ident name) (map ident columns) clause defer_clause)"

fun parse_create_table ::
  "(Expr \<Rightarrow> string) \<Rightarrow> string \<Rightarrow> CreateTableBody \<Rightarrow> (string, ParsedTableDefinition) result" where
  "parse_create_table show_expr table_name AsSelect =
     Ok \<lparr>ptd_name = table_name, ptd_strict = False, ptd_without_rowid = False, ptd_columns = [], ptd_constraints = []\<rparr>"
| "parse_create_table show_expr table_name (ColumnsAndConstraints columns constraints strict without_rowid) =
     try_with (parse_columns show_expr columns ([], [])) (\<lambda>(parsed_columns, parsed_constraints).
     try_with (case constraints of
                 None \<Rightarrow> Ok []
               | Some cs \<Rightarrow> collect_results (map (parse_table_constraint show_expr) cs)) (\<lambda>table_constraints.
       Ok \<lparr>ptd_name = table_name, ptd_strict = strict, ptd_without_rowid = without_rowid,
            ptd_columns = parsed_columns, ptd_constraints = parsed_constraints @ table_constraints\<rparr>))"

section \<open>Schema entries\<close>

fun cmd_stmt :: "Cmd \<Rightarrow> Stmt" where
  "cmd_stmt (CmdStmt s) = s"
| "cmd_stmt (CmdExplain s) = s"
| "cmd_stmt (CmdExplainQueryPlan s) = s"

definition with_statement :: "sql_parser \<Rightarrow> string \<Rightarrow> (Stmt \<Rightarrow> (string, 'a) result) \<Rightarrow> (string, 'a) result" where
  "with_statement parser sql f =
     (case parser sql of
        [] \<Rightarrow> Err ''sqlite schema SQL is empty''
      | Inl err # _ \<Rightarrow> Err err
      | Inr command # rest \<Rightarrow>
          (case rest of
             [] \<Rightarrow> f (cmd_stmt command)
           | Inl err # _ \<Rightarrow> Err err
           | Inr _ # _ \<Rightarrow> Err ''sqlite schema entry contains more than one statement''))"

definition parse_table_definition ::
  "sql_parser \<Rightarrow> (Expr \<Rightarrow> string) \<Rightarrow> string \<Rightarrow> (string, ParsedTableDefinition) result" where
  "parse_table_definition parser show_expr sql =
     with_statement parser sql (\<lambda>statement.
       case statement of
         StmtCreateTable _ table body \<Rightarrow> parse_create_table show_expr (ident table) body
       | _ \<Rightarrow> Err ''sqlite schema entry is not a CREATE TABLE statement'')"

definition parse_index_definition ::
  "sql_parser \<Rightarrow> (Expr \<Rightarrow> string) \<Rightarrow> string \<Rightarrow> (string, ParsedIndexDefinition) result" where
  "parse_index_definition parser show_expr sql =
     with_statement parser sql (\<lambda>statement.
       case statement of
         StmtCreateIndex unique index table columns where_clause \<Rightarrow>
           Ok \<lparr>pid_name = ident index, pid_table_name = ident table, pid_unique = unique,
                pid_terms = map (\<lambda>column.
                  \<lparr>pit_expression = show_expr (sc_expr column),
                    pit_column_name = expression_column_name (sc_expr column),
                    pit_order = map_option sort_order (sc_order column),
                    pit_nulls = map_option nulls_order (sc_nulls column)\<rparr>) columns,
                pid_predicate = map_option show_expr where_clause\<rparr>
       | _ \<Rightarrow> Err ''sqlite schema entry is not a CREATE INDEX statement'')"

definition parse_trigger_definition ::
  "sql_parser \<Rightarrow> (Expr \<Rightarrow> string) \<Rightarrow> string \<Rightarrow> (string, ParsedTriggerDefinition) result" where
  "parse_trigger_definition parser show_expr sql =
     with_statement parser sql (\<lambda>statement.
       case statement of
         StmtCreateTrigger _ trigger time event table when_clause \<Rightarrow>
           (let (event, update_columns) = trigger_event event
            in Ok \<lparr>ptr_name = ident trigger, ptr_owner_name = ident table,
                    ptr_timing = (case time of Some t \<Rightarrow> trigger_time t | None \<Rightarrow> ''BEFORE''),
                    ptr_event = event, ptr_update_columns = update_columns,
                    ptr_when_expression = map_option show_expr when_clause\<rparr>)
       | _ \<Rightarrow> Err ''sqlite schema entry is not a CREATE TRIGGER statement'')"

section \<open>The guard of DDL files\<close>

fun statement_kind :: "Stmt \<Rightarrow> string" where
  "statement_kind StmtAnalyze = ''ANALYZE''"
| "statement_kind StmtAttach = ''ATTACH''"
| "statement_kind StmtDelete = ''DELETE''"
| "statement_kind StmtDetach = ''DETACH''"
| "statement_kind StmtInsert = ''INSERT''"
| "statement_kind StmtReindex = ''REINDEX''"
| "statement_kind StmtSelect = ''SELECT''"
| "statement_kind StmtUpdate = ''UPDATE''"
| "statement_kind StmtVacuum = ''VACUUM''"
| "statement_kind _ = ''statement''"

definition allowed_pragmas :: "string list" where
  "allowed_pragmas = [''foreign_keys'', ''defer_foreign_keys'', ''legacy_alter_table'', ''recursive_triggers'']"

definition validate_schema_statement :: "Stmt \<Rightarrow> (string, unit) result" where
  "validate_schema_statement statement =
     (case statement of
        StmtCreateTable temporary _ body \<Rightarrow>
          if temporary then Err ''temporary tables are outside the certified main schema''
          else if body = AsSelect
          then Err ''CREATE TABLE AS SELECT can read application rows and is not schema-only DDL''
          else Ok ()
      | StmtCreateTrigger temporary _ _ _ _ _ \<Rightarrow>
          if temporary then Err ''temporary triggers are outside the certified main schema'' else Ok ()
      | StmtCreateView temporary \<Rightarrow>
          if temporary then Err ''temporary views are outside the certified main schema'' else Ok ()
      | StmtPragma pragma_name \<Rightarrow>
          (let pragma = to_ascii_lowercase (ident pragma_name)
           in if pragma \<in> set allowed_pragmas then Ok ()
              else Err (''PRAGMA '' @ pragma @ '' is not allowed in certified schema-only DDL''))
      | StmtCreateVirtualTable \<Rightarrow>
          Err ''CREATE VIRTUAL TABLE may invoke external modules and is not accepted from DDL files''
      | _ \<Rightarrow>
          if statement \<in> {StmtAnalyze, StmtAttach, StmtDelete, StmtDetach, StmtInsert, StmtReindex, StmtSelect,
              StmtUpdate, StmtVacuum}
          then Err (statement_kind statement @ '' is not allowed in certified schema-only DDL'')
          else Ok ())"

fun validate_commands :: "(string, Cmd) result list \<Rightarrow> nat \<Rightarrow> (string, nat) result" where
  "validate_commands [] statement_count = Ok statement_count"
| "validate_commands (Inl err # _) statement_count = Err err"
| "validate_commands (Inr (CmdStmt statement) # commands) statement_count =
     try_with (validate_schema_statement statement) (\<lambda>_. validate_commands commands (statement_count + 1))"
| "validate_commands (Inr (CmdExplain _) # _) statement_count = Err ''EXPLAIN statements are not schema DDL''"
| "validate_commands (Inr (CmdExplainQueryPlan _) # _) statement_count = Err ''EXPLAIN statements are not schema DDL''"

definition validate_schema_ddl :: "sql_parser \<Rightarrow> string \<Rightarrow> (string, nat) result" where
  "validate_schema_ddl parser sql = validate_commands (parser sql) 0"

section \<open>What the guard lets through\<close>

text \<open>The statements that define the main schema or bracket a transaction: they neither read or write rows,
  nor touch another database, a temporary object or a module.\<close>

inductive schema_only :: "Stmt \<Rightarrow> bool" where
  alter: "schema_only StmtAlterTable"
| create_index: "schema_only (StmtCreateIndex unique index table columns where_clause)"
| drop: "statement \<in> {StmtDropIndex, StmtDropTable, StmtDropTrigger, StmtDropView} \<Longrightarrow> schema_only statement"
| bracket: "statement \<in> {StmtBegin, StmtCommit, StmtRelease, StmtRollback, StmtSavepoint} \<Longrightarrow> schema_only statement"
| create_table: "schema_only (StmtCreateTable False table (ColumnsAndConstraints columns constraints strict without_rowid))"
| create_trigger: "schema_only (StmtCreateTrigger False trigger time event table when_clause)"
| create_view: "schema_only (StmtCreateView False)"
| pragma: "to_ascii_lowercase (ident name) \<in> set allowed_pragmas \<Longrightarrow> schema_only (StmtPragma name)"

inductive_simps schema_only_simps [simp]:
  "schema_only StmtAlterTable" "schema_only StmtAnalyze" "schema_only StmtAttach" "schema_only StmtBegin"
  "schema_only StmtCommit" "schema_only (StmtCreateIndex unique index table columns where_clause)"
  "schema_only (StmtCreateTable temporary table body)"
  "schema_only (StmtCreateTrigger temporary trigger time event table when_clause)"
  "schema_only (StmtCreateView temporary)" "schema_only StmtCreateVirtualTable" "schema_only StmtDelete"
  "schema_only StmtDetach" "schema_only StmtDropIndex" "schema_only StmtDropTable" "schema_only StmtDropTrigger"
  "schema_only StmtDropView" "schema_only StmtInsert" "schema_only (StmtPragma name)" "schema_only StmtReindex"
  "schema_only StmtRelease" "schema_only StmtRollback" "schema_only StmtSavepoint" "schema_only StmtSelect"
  "schema_only StmtUpdate" "schema_only StmtVacuum"

lemma validate_statement_Ok_iff: "validate_schema_statement statement = Ok () \<longleftrightarrow> schema_only statement"
proof (cases statement)
  case (StmtCreateTable temporary table body)
  then show ?thesis by (cases body) (simp_all add: validate_schema_statement_def)
qed (simp_all add: validate_schema_statement_def Let_def)

lemma validate_commands_Ok_iff:
  "validate_commands commands k = Ok n \<longleftrightarrow>
     (\<exists>statements. commands = map (\<lambda>s. Ok (CmdStmt s)) statements \<and> list_all schema_only statements
        \<and> n = k + length statements)"
proof (induction commands k rule: validate_commands.induct)
  case (3 statement commands k)
  have "validate_schema_statement statement = Ok u \<longleftrightarrow> schema_only statement" for u
    using validate_statement_Ok_iff by simp
  then show ?case using 3 by (cases "validate_schema_statement statement") (auto simp: Cons_eq_map_conv)
qed auto

lemma validate_ddl_Ok_iff:
  "validate_schema_ddl parser sql = Ok n \<longleftrightarrow>
     (\<exists>statements. parser sql = map (\<lambda>s. Ok (CmdStmt s)) statements \<and> list_all schema_only statements
        \<and> n = length statements)"
  by (simp add: validate_schema_ddl_def validate_commands_Ok_iff)

section \<open>Quoting\<close>

definition doubled :: "char \<Rightarrow> string \<Rightarrow> string" where
  "doubled q s = concat (map (\<lambda>c. if c = q then [q, q] else [c]) s)"

lemma replace_doubled: "replace_str [q, q] [q] (doubled q s) = s"
  by (induction s) (simp_all add: doubled_def replace_str.simps)

lemma dequote_quoted:
  "q \<in> {CHR 0x22, CHR 0x60, CHR 0x27} \<Longrightarrow> dequote_identifier (q # doubled q s @ [q]) = s"
  "dequote_identifier (CHR ''['' # doubled (CHR '']'') s @ '']'') = s"
  using replace_doubled by (auto simp: dequote_identifier_def)

section \<open>Declarations of a table\<close>

text \<open>Kind, name and columns of a declared constraint.\<close>

definition shape :: "ParsedConstraint \<Rightarrow> ParsedConstraintKind \<times> string option \<times> string list" where
  "shape c = (pc_kind c, pc_name c, pc_columns c)"

lemma shape_simps [simp]:
  "shape (key_constraint name kind columns props) = (kind, name, columns)"
  "shape (check_constraint name columns expr props) = (ParsedCheck, name, columns)"
  "shape (foreign_key_constraint name columns clause defer_clause) = (ParsedForeignKey, name, columns)"
  by (simp_all add: shape_def key_constraint_def check_constraint_def foreign_key_constraint_def)

fun column_constraint_kind :: "ColumnConstraint \<Rightarrow> ParsedConstraintKind option" where
  "column_constraint_kind (ColPrimaryKey _ _) = Some ParsedPrimaryKey"
| "column_constraint_kind (ColUnique _) = Some ParsedUnique"
| "column_constraint_kind (ColCheck _) = Some ParsedCheck"
| "column_constraint_kind (ColForeignKey _ _) = Some ParsedForeignKey"
| "column_constraint_kind _ = None"

definition declared_as ::
  "string \<Rightarrow> string option \<times> ColumnConstraint \<Rightarrow> (ParsedConstraintKind \<times> string option \<times> string list) list" where
  "declared_as column_name c =
     (case column_constraint_kind (snd c) of
        None \<Rightarrow> [] | Some kind \<Rightarrow> [(kind, map_option ident (fst c), [column_name])])"

definition declared_by_column :: "ColumnDefinition \<Rightarrow> (ParsedConstraintKind \<times> string option \<times> string list) list" where
  "declared_by_column column =
     concat (map (declared_as (ident (cd_col_name column))) (cd_constraints column))"

fun declared_by_table :: "string option \<times> TableConstraint \<Rightarrow> ParsedConstraintKind \<times> string option \<times> string list" where
  "declared_by_table (name, TabPrimaryKey columns _ _) =
     (ParsedPrimaryKey, map_option ident name, map (the \<circ> expression_column_name \<circ> sc_expr) columns)"
| "declared_by_table (name, TabUnique columns _) =
     (ParsedUnique, map_option ident name, map (the \<circ> expression_column_name \<circ> sc_expr) columns)"
| "declared_by_table (name, TabCheck _ _) = (ParsedCheck, map_option ident name, [])"
| "declared_by_table (name, TabForeignKey columns _ _) = (ParsedForeignKey, map_option ident name, map ident columns)"

lemma fold_column_constraints:
  "fold (parse_column_constraint show_expr) cs (col, cons) = (col', cons') \<Longrightarrow>
     pcd_name col' = pcd_name col
     \<and> map shape cons' = map shape cons @ concat (map (declared_as (pcd_name col)) cs)"
proof (induction cs arbitrary: col cons)
  case (Cons c cs)
  obtain name cc where c: "c = (name, cc)" by (cases c)
  show ?case using Cons.prems by (cases cc) (auto simp: c declared_as_def dest!: Cons.IH)
qed simp

lemma parse_columns_Ok:
  "parse_columns show_expr columns st = Ok (cols, cons) \<Longrightarrow>
     map pcd_name cols = map pcd_name (fst st) @ map (ident \<circ> cd_col_name) columns
     \<and> map shape cons = map shape (snd st) @ concat (map declared_by_column columns)"
proof (induction columns arbitrary: st)
  case (Cons column columns)
  then obtain st' where st: "parse_column show_expr column st = Ok st'" "parse_columns show_expr columns st' = Ok (cols, cons)"
    by (auto simp: try_with_Ok_iff)
  obtain col cs where f: "fold (parse_column_constraint show_expr) (cd_constraints column)
      (\<lparr>pcd_name = ident (cd_col_name column), pcd_generated_expression = None, pcd_generated_storage = None,
         pcd_collation = None\<rparr>, snd st) = (col, cs)" by (cases "fold (parse_column_constraint show_expr) (cd_constraints column)
      (\<lparr>pcd_name = ident (cd_col_name column), pcd_generated_expression = None, pcd_generated_storage = None,
         pcd_collation = None\<rparr>, snd st)") auto
  have "st' = (fst st @ [col], cs)"
    using st(1) by (auto simp: parse_column_def f Let_def split: if_splits)
  with Cons.IH[OF st(2)] fold_column_constraints[OF f] show ?case by (simp add: declared_by_column_def)
qed simp

lemma required_columns_Ok:
  "required_columns show_expr columns = Ok names \<Longrightarrow> names = map (the \<circ> expression_column_name \<circ> sc_expr) columns"
proof -
  assume "required_columns show_expr columns = Ok names"
  then have "map (\<lambda>column. required_column_name show_expr (sc_expr column)) columns = map Inr names"
    by (simp add: required_columns_def collect_results_Ok_iff)
  then show ?thesis
    by (induction columns arbitrary: names) (auto simp: required_column_name_def Cons_eq_map_conv)
qed

lemma parse_table_constraint_Ok: "parse_table_constraint show_expr c = Ok p \<Longrightarrow> shape p = declared_by_table c"
  by (cases "(show_expr, c)" rule: parse_table_constraint.cases)
    (auto simp: try_with_Ok_iff dest!: required_columns_Ok)

lemma parse_table_constraints_Ok:
  "map (parse_table_constraint show_expr) cs = map Inr ps \<Longrightarrow> map shape ps = map declared_by_table cs"
  by (induction cs arbitrary: ps) (auto simp: Cons_eq_map_conv dest: parse_table_constraint_Ok)

section \<open>Properties\<close>

text \<open>C23: reading a table definition loses no declaration. The columns come out in order under their
  unquoted names, and the constraints are exactly the declared keys, unique, check and foreign key
  constraints, first those of the columns in order and then those of the table, each with its kind, its
  unquoted name and its columns.\<close>

theorem parsed_table_declarations:
  assumes "parse_create_table show_expr table_name (ColumnsAndConstraints columns constraints strict without_rowid) = Ok t"
  shows "ptd_name t = table_name \<and> ptd_strict t = strict \<and> ptd_without_rowid t = without_rowid
    \<and> map pcd_name (ptd_columns t) = map (ident \<circ> cd_col_name) columns
    \<and> map shape (ptd_constraints t) = concat (map declared_by_column columns)
        @ map declared_by_table (case constraints of None \<Rightarrow> [] | Some cs \<Rightarrow> cs)"
  using assms
  by (auto simp: try_with_Ok_iff collect_results_Ok_iff split: option.splits
      dest!: parse_columns_Ok parse_table_constraints_Ok)

theorem parsed_table_declarations_witness:
  "\<exists>t. parse_create_table (\<lambda>_. []) ''t'' (ColumnsAndConstraints
        [\<lparr>cd_col_name = ''id'', cd_constraints = [(Some ''pk'', ColPrimaryKey None True)], cd_generated_flag = False\<rparr>]
        None True False) = Ok t
     \<and> map shape (ptd_constraints t) = [(ParsedPrimaryKey, Some ''pk'', [''id''])]"
proof -
  let ?columns = "[\<lparr>cd_col_name = ''id'', cd_constraints = [(Some ''pk'', ColPrimaryKey None True)], cd_generated_flag = False\<rparr>]"
  have "\<exists>t. parse_create_table (\<lambda>_. []) ''t'' (ColumnsAndConstraints ?columns None True False) = Ok t"
    by (simp add: parse_column_def Let_def)
  then obtain t where run: "parse_create_table (\<lambda>_. []) ''t'' (ColumnsAndConstraints ?columns None True False) = Ok t" ..
  have "concat (map declared_by_column ?columns) = [(ParsedPrimaryKey, Some ''pk'', [''id''])]" by code_simp
  with parsed_table_declarations[OF run] run show ?thesis by auto
qed

text \<open>An identifier survives quoting. Each of the four ways to quote an identifier, with the closing
  quote doubled inside, is read back as the identifier, whatever it contains.\<close>

lemma quoted_identifier_round_trip:
  "dequote_identifier (CHR 0x22 # doubled (CHR 0x22) s @ [CHR 0x22]) = s
   \<and> dequote_identifier (CHR 0x60 # doubled (CHR 0x60) s @ [CHR 0x60]) = s
   \<and> dequote_identifier (CHR 0x27 # doubled (CHR 0x27) s @ [CHR 0x27]) = s
   \<and> dequote_identifier (CHR ''['' # doubled (CHR '']'') s @ '']'') = s"
  by (simp add: dequote_quoted)

end
