(* ===== verification/Ddl_Source.thy ===== *)
theory Ddl_Source
  imports Rust_Path Sqlite_Sql Certification
begin

text \<open>
  \<open>ddl/sqlite.rs\<close>: a SQLite schema is built from DDL files in an in-memory database, whose engine may only be
  given schema statements. Parameters are the file system, the SQL parser, the engine and the introspection
  of the database the engine built. Such a database is given by the batches applied to it. The clock and
  the cancellation by other threads are a sequence of observations, one for each time the code looks.
\<close>

section \<open>Errors\<close>

datatype 'err SqliteDdlSourceError =
    DdlIo path IoError
  | DdlApply path string
  | DdlInvalidStatement path string
  | DdlNoSqlFiles path
  | DdlInputTooLarge path nat
  | DdlTimeout path
  | DdlCancelled path
  | DdlAdapter 'err

definition DEFAULT_DDL_TIMEOUT_MS :: nat where "DEFAULT_DDL_TIMEOUT_MS = 30000"

definition MAX_DDL_BYTES :: nat where "MAX_DDL_BYTES = 64 * 1024 * 1024"

fun ddl_error_to_string :: "(path \<Rightarrow> string) \<Rightarrow> ('err \<Rightarrow> string) \<Rightarrow> 'err SqliteDdlSourceError \<Rightarrow> string" where
  "ddl_error_to_string display show_err (DdlIo p source) =
     ''failed to read '' @ [CHR 0x27] @ display p @ [CHR 0x27] @ '': '' @ io_text source"
| "ddl_error_to_string display show_err (DdlApply p source) =
     ''failed to apply SQLite DDL '' @ [CHR 0x27] @ display p @ [CHR 0x27] @ '': '' @ source"
| "ddl_error_to_string display show_err (DdlInvalidStatement p msg) =
     ''unsafe or unsupported SQLite DDL '' @ [CHR 0x27] @ display p @ [CHR 0x27] @ '': '' @ msg"
| "ddl_error_to_string display show_err (DdlNoSqlFiles p) =
     ''no .sql files found in '' @ [CHR 0x27] @ display p @ [CHR 0x27]"
| "ddl_error_to_string display show_err (DdlInputTooLarge p bytes) =
     ''SQLite DDL input '' @ [CHR 0x27] @ display p @ [CHR 0x27] @ '' is '' @ show_nat bytes
       @ '' bytes; the bounded limit is '' @ show_nat MAX_DDL_BYTES @ '' bytes''"
| "ddl_error_to_string display show_err (DdlTimeout p) =
     ''SQLite DDL analysis exceeded its deadline while processing '' @ [CHR 0x27] @ display p @ [CHR 0x27]"
| "ddl_error_to_string display show_err (DdlCancelled p) =
     ''SQLite DDL analysis was cancelled while processing '' @ [CHR 0x27] @ display p @ [CHR 0x27]"
| "ddl_error_to_string display show_err (DdlAdapter source) =
     ''failed to introspect SQLite DDL snapshot: '' @ show_err source"

section \<open>The authorizer\<close>

datatype Authorization = Deny | Allow

datatype AuthAction =
    AuthAttach | AuthDetach | AuthCreateVtable | AuthDropVtable
  | AuthCreateTempIndex | AuthCreateTempTable | AuthCreateTempTrigger | AuthCreateTempView
  | AuthDropTempIndex | AuthDropTempTable | AuthDropTempTrigger | AuthDropTempView
  | AuthUnknown
  | AuthFunction string
  | AuthOther

fun authorize_ddl :: "AuthAction \<Rightarrow> Authorization" where
  "authorize_ddl (AuthFunction function_name) =
     (if eq_ignore_ascii_case function_name ''load_extension'' then Deny else Allow)"
| "authorize_ddl AuthOther = Allow"
| "authorize_ddl _ = Deny"

section \<open>Surroundings\<close>

record file_system =
  fs_is_file :: "path \<Rightarrow> (IoError, bool) result"
  fs_read_dir :: "path \<Rightarrow> (IoError, (IoError, path) result list) result"
  fs_open :: "path \<Rightarrow> (IoError, unit) result"
  fs_len :: "path \<Rightarrow> (IoError, nat) result"
  fs_read_to_string :: "nat \<Rightarrow> path \<Rightarrow> (IoError, string) result"

record moment =
  mo_cancelled :: bool
  mo_now :: nat

text \<open>The in-memory connection: the authorizer, whether the progress handler is set, and the batches
  handed to the engine.\<close>

record DdlConnection =
  dc_authorizer :: "(AuthAction \<Rightarrow> Authorization) option"
  dc_progress :: bool
  dc_batches :: "string list"

record engine =
  eng_open :: "(string, unit) result"
  eng_execute :: "DdlConnection \<Rightarrow> string \<Rightarrow> (string, unit) result"

text \<open>Two readings of the clock when the addition overflows.\<close>

definition deadline_of :: "nat \<Rightarrow> (nat \<Rightarrow> moment) \<Rightarrow> nat \<Rightarrow> nat \<Rightarrow> nat" where
  "deadline_of clock_max obs k timeout_ms =
     (if mo_now (obs k) + timeout_ms \<le> clock_max then mo_now (obs k) + timeout_ms else mo_now (obs (k + 1)))"

definition ddl_checkpoint ::
  "(nat \<Rightarrow> moment) \<Rightarrow> nat \<Rightarrow> path \<Rightarrow> nat \<Rightarrow> ('err SqliteDdlSourceError, unit) result" where
  "ddl_checkpoint obs k p deadline =
     (if mo_cancelled (obs k) then Err (DdlCancelled p)
      else if deadline \<le> mo_now (obs (k + 1)) then Err (DdlTimeout p)
      else Ok ())"

definition is_sql_file :: "path \<Rightarrow> bool" where
  "is_sql_file p = (case extension p of None \<Rightarrow> False | Some ext \<Rightarrow> eq_ignore_ascii_case ext ''sql'')"

definition sql_files :: "file_system \<Rightarrow> path \<Rightarrow> ('err SqliteDdlSourceError, path list) result" where
  "sql_files fs p =
     try_with (map_err (DdlIo p) (fs_is_file fs p)) (\<lambda>is_file.
       if is_file then Ok [p]
       else
         try_with (map_err (DdlIo p) (fs_read_dir fs p)) (\<lambda>entries.
         try_with (map_err (DdlIo p) (collect_results entries)) (\<lambda>entry_paths.
           (let files = sort_key file_name (filter is_sql_file entry_paths)
            in if files = [] then Err (DdlNoSqlFiles p) else Ok files))))"

section \<open>Loading\<close>

text \<open>One file, after its checkpoints: the number of bytes so far and the text.\<close>

definition read_ddl_file ::
  "file_system \<Rightarrow> path \<Rightarrow> nat \<Rightarrow> ('err SqliteDdlSourceError, nat \<times> string) result" where
  "read_ddl_file fs file total_bytes =
     try_with (map_err (DdlIo file) (fs_open fs file)) (\<lambda>_.
     try_with (map_err (DdlIo file) (fs_len fs file)) (\<lambda>bytes.
       (let remaining = MAX_DDL_BYTES - total_bytes
        in if bytes > remaining then Err (DdlInputTooLarge file (saturating_add total_bytes bytes))
           else
             try_with (map_err (DdlIo file) (fs_read_to_string fs (saturating_add remaining 1) file)) (\<lambda>sql.
               (let total_bytes = saturating_add total_bytes (length sql)
                in if total_bytes > MAX_DDL_BYTES then Err (DdlInputTooLarge file total_bytes)
                   else Ok (total_bytes, sql))))))"

fun apply_ddl_files ::
  "file_system \<Rightarrow> sql_parser \<Rightarrow> engine \<Rightarrow> (nat \<Rightarrow> moment) \<Rightarrow> nat \<Rightarrow> nat \<Rightarrow> nat \<Rightarrow> path list \<Rightarrow> DdlConnection
    \<Rightarrow> ('err SqliteDdlSourceError, unit) result \<times> DdlConnection \<times> nat" where
  "apply_ddl_files fs parser eng obs deadline k total_bytes [] conn = (Ok (), conn, k)"
| "apply_ddl_files fs parser eng obs deadline k total_bytes (file # files) conn =
     (case ddl_checkpoint obs k file deadline of
        Inl err \<Rightarrow> (Err err, conn, k)
      | Inr _ \<Rightarrow>
     (case read_ddl_file fs file total_bytes of
        Inl err \<Rightarrow> (Err err, conn, k)
      | Inr (total_bytes, sql) \<Rightarrow>
     (case ddl_checkpoint obs (k + 2) file deadline of
        Inl err \<Rightarrow> (Err err, conn, k)
      | Inr _ \<Rightarrow>
     (case validate_schema_ddl parser sql of
        Inl msg \<Rightarrow> (Err (DdlInvalidStatement file msg), conn, k)
      | Inr _ \<Rightarrow>
     (let ran = conn\<lparr>dc_batches := dc_batches conn @ [sql]\<rparr>
      in case eng_execute eng conn sql of
           Inr _ \<Rightarrow> apply_ddl_files fs parser eng obs deadline (k + 6) total_bytes files ran
         | Inl source \<Rightarrow>
             if mo_cancelled (obs (k + 4)) then (Err (DdlCancelled file), ran, k)
             else if deadline \<le> mo_now (obs (k + 5)) then (Err (DdlTimeout file), ran, k)
             else (Err (DdlApply file source), ran, k))))))"

definition load_ddl_connection ::
  "file_system \<Rightarrow> sql_parser \<Rightarrow> engine \<Rightarrow> (nat \<Rightarrow> moment) \<Rightarrow> path \<Rightarrow> nat \<Rightarrow> nat
    \<Rightarrow> ('err SqliteDdlSourceError, unit) result \<times> DdlConnection \<times> nat" where
  "load_ddl_connection fs parser eng obs p deadline k =
     (let fresh = \<lparr>dc_authorizer = Some authorize_ddl, dc_progress = True, dc_batches = []\<rparr>
      in case ddl_checkpoint obs k p deadline of
           Inl err \<Rightarrow> (Err err, fresh, k)
         | Inr _ \<Rightarrow>
        (case eng_open eng of
           Inl source \<Rightarrow> (Err (DdlApply [Normal '':memory:''] source), fresh, k)
         | Inr _ \<Rightarrow>
        (case sql_files fs p of
           Inl err \<Rightarrow> (Err err, fresh, k)
         | Inr files \<Rightarrow>
        (case apply_ddl_files fs parser eng obs deadline (k + 2) 0 files fresh of
           (Inl err, conn, k) \<Rightarrow> (Err err, conn, k)
         | (Inr _, conn, k) \<Rightarrow> (Ok (), conn\<lparr>dc_authorizer := None\<rparr>, k)))))"

text \<open>The introspection may run while the progress handler interrupts it.\<close>

definition introspect_sqlite_ddl_complete_bounded ::
  "file_system \<Rightarrow> sql_parser \<Rightarrow> engine \<Rightarrow> (nat \<Rightarrow> moment) \<Rightarrow> nat
    \<Rightarrow> (DdlConnection \<Rightarrow> string \<Rightarrow> ('err, CertifiedSchemaSnapshot) result) \<Rightarrow> path \<Rightarrow> string \<Rightarrow> nat
    \<Rightarrow> ('err SqliteDdlSourceError, CertifiedSchemaSnapshot) result" where
  "introspect_sqlite_ddl_complete_bounded fs parser eng obs clock_max introspect p connection_alias timeout_ms =
     (let deadline = deadline_of clock_max obs 0 timeout_ms
      in case load_ddl_connection fs parser eng obs p deadline 2 of
           (Inl err, _, _) \<Rightarrow> Err err
         | (Inr _, conn, k) \<Rightarrow>
             try_with (ddl_checkpoint obs k p deadline) (\<lambda>_.
               case introspect conn connection_alias of
                 Inr snapshot \<Rightarrow> try_with (ddl_checkpoint obs (k + 2) p deadline) (\<lambda>_. Ok snapshot)
               | Inl err \<Rightarrow>
                   if mo_cancelled (obs (k + 2)) then Err (DdlCancelled p)
                   else if deadline \<le> mo_now (obs (k + 3)) then Err (DdlTimeout p)
                   else Err (DdlAdapter err)))"

definition introspect_sqlite_ddl_complete ::
  "file_system \<Rightarrow> sql_parser \<Rightarrow> engine \<Rightarrow> (nat \<Rightarrow> moment) \<Rightarrow> nat
    \<Rightarrow> (DdlConnection \<Rightarrow> string \<Rightarrow> ('err, CertifiedSchemaSnapshot) result) \<Rightarrow> path \<Rightarrow> string
    \<Rightarrow> ('err SqliteDdlSourceError, CertifiedSchemaSnapshot) result" where
  "introspect_sqlite_ddl_complete fs parser eng obs clock_max introspect p connection_alias =
     introspect_sqlite_ddl_complete_bounded fs parser eng obs clock_max introspect p connection_alias
       DEFAULT_DDL_TIMEOUT_MS"

definition introspect_sqlite_ddl ::
  "file_system \<Rightarrow> sql_parser \<Rightarrow> engine \<Rightarrow> (nat \<Rightarrow> moment) \<Rightarrow> nat
    \<Rightarrow> (DdlConnection \<Rightarrow> string \<Rightarrow> ('err, SchemaSnapshot) result) \<Rightarrow> path \<Rightarrow> string
    \<Rightarrow> ('err SqliteDdlSourceError, SchemaSnapshot) result" where
  "introspect_sqlite_ddl fs parser eng obs clock_max introspect p connection_alias =
     (let deadline = deadline_of clock_max obs 0 DEFAULT_DDL_TIMEOUT_MS
      in case load_ddl_connection fs parser eng obs p deadline 2 of
           (Inl err, _, _) \<Rightarrow> Err err
         | (Inr _, conn, _) \<Rightarrow> map_err DdlAdapter (introspect conn connection_alias))"

section \<open>What reaches the engine\<close>

definition guarded :: "sql_parser \<Rightarrow> string \<Rightarrow> bool" where
  "guarded parser sql =
     (\<exists>statements. parser sql = map (\<lambda>s. Ok (CmdStmt s)) statements \<and> list_all schema_only statements)"

definition text_of :: "file_system \<Rightarrow> path \<Rightarrow> string \<Rightarrow> bool" where
  "text_of fs file sql = (\<exists>limit. fs_read_to_string fs limit file = Ok sql)"

lemma saturating_within: "saturating_add a b \<le> n \<Longrightarrow> n < usize_MAX \<Longrightarrow> saturating_add a b = a + b"
  by (auto simp: saturating_add_def min_def split: if_splits)

lemma max_ddl_bytes_small: "MAX_DDL_BYTES < usize_MAX"
  by (simp add: MAX_DDL_BYTES_def usize_MAX_def)

lemma read_ddl_file_Ok:
  assumes "read_ddl_file fs file n = Ok (n', sql)"
  shows "n' = n + length sql" "n' \<le> MAX_DDL_BYTES" "text_of fs file sql"
  using assms saturating_within[OF _ max_ddl_bytes_small, of n "length sql"]
  by (auto simp: read_ddl_file_def try_with_Ok_iff Let_def text_of_def split: if_splits)

lemma validated_guarded: "validate_schema_ddl parser sql = Ok n \<Longrightarrow> guarded parser sql"
  by (auto simp: validate_ddl_Ok_iff guarded_def)

text \<open>One round of the loop: an early error, a failed batch, or a batch and the rest.\<close>

lemma apply_round:
  fixes r :: "('err SqliteDdlSourceError, unit) result"
  assumes "apply_ddl_files fs parser eng obs deadline k n (file # files) conn = (r, conn', k')"
  obtains err where "r = Err err" "conn' = conn"
  | sql n' err where "read_ddl_file fs file n = (Ok (n', sql) :: ('err SqliteDdlSourceError, nat \<times> string) result)"
      "guarded parser sql" "r = Err err" "conn' = conn\<lparr>dc_batches := dc_batches conn @ [sql]\<rparr>"
  | sql n' where "read_ddl_file fs file n = (Ok (n', sql) :: ('err SqliteDdlSourceError, nat \<times> string) result)"
      "guarded parser sql"
      "apply_ddl_files fs parser eng obs deadline (k + 6) n' files (conn\<lparr>dc_batches := dc_batches conn @ [sql]\<rparr>)
        = (r, conn', k')"
  using assms validated_guarded[of parser]
  by (auto simp: Let_def split: sum.splits if_splits; (blast | metis)?)

lemma apply_ddl_files_safe:
  fixes r :: "('err SqliteDdlSourceError, unit) result"
  assumes "apply_ddl_files fs parser eng obs deadline k n files conn = (r, conn', k')" and "n \<le> MAX_DDL_BYTES"
  shows "dc_authorizer conn' = dc_authorizer conn \<and>
    (\<exists>bs. dc_batches conn' = dc_batches conn @ bs \<and> list_all (guarded parser) bs
      \<and> n + sum_list (map length bs) \<le> MAX_DDL_BYTES
      \<and> (case r of Inl _ \<Rightarrow> list_all2 (text_of fs) (take (length bs) files) bs
         | Inr _ \<Rightarrow> list_all2 (text_of fs) files bs))"
  using assms
proof (induction files arbitrary: k n conn)
  case (Cons p files)
  from Cons.prems(1) show ?case
  proof (cases rule: apply_round)
    case (2 sql n' err)
    then show ?thesis using read_ddl_file_Ok[OF 2(1)] by (auto intro!: exI[of _ "[sql]"])
  next
    case (3 sql n')
    from Cons.IH[OF 3(3)] obtain bs where bs: "dc_authorizer conn' = dc_authorizer conn"
      "dc_batches conn' = dc_batches conn @ sql # bs" "list_all (guarded parser) bs"
      "n' + sum_list (map length bs) \<le> MAX_DDL_BYTES"
      "case r of Inl _ \<Rightarrow> list_all2 (text_of fs) (take (length bs) files) bs
        | Inr _ \<Rightarrow> list_all2 (text_of fs) files bs"
      using read_ddl_file_Ok[OF 3(1)] by auto
    then show ?thesis
      using 3(2) read_ddl_file_Ok[OF 3(1)] by (auto intro!: exI[of _ "sql # bs"] split: sum.splits)
  qed (use Cons.prems(2) in auto)
qed (auto split: sum.split)

lemma sql_files_sorted:
  assumes "sql_files fs p = Ok files"
  shows "sorted (map file_name files) \<and> files \<noteq> [] \<and> (files = [p] \<or> list_all is_sql_file files)"
  using assms by (auto simp: sql_files_def try_with_Ok_iff Let_def list_all_iff split: if_splits)

section \<open>Properties\<close>


text \<open>A directory with two files, listed in the wrong order, and an engine that accepts everything.\<close>

definition sample_ddl_fs :: file_system where
  "sample_ddl_fs =
     \<lparr>fs_is_file = (\<lambda>_. Ok False),
       fs_read_dir = (\<lambda>_. Ok [Ok [Normal ''d'', Normal ''2.sql''], Ok [Normal ''d'', Normal ''notes''], Ok [Normal ''d'', Normal ''1.SQL'']]),
       fs_open = (\<lambda>_. Ok ()), fs_len = (\<lambda>_. Ok 1),
       fs_read_to_string = (\<lambda>_ file. Ok (if file = [Normal ''d'', Normal ''1.SQL''] then ''a'' else ''b''))\<rparr>"

definition sample_ddl_parser :: sql_parser where
  "sample_ddl_parser sql = [Ok (CmdStmt (if sql = ''a'' then StmtCreateView False else StmtDropView))]"


end
