(* ===== verification/Interface_Contract.thy ===== *)
theory Interface_Contract
  imports Graph_Builder Impact_Analysis Analysis Ddl_Source
begin

text \<open>
  \<open>interface_contract.rs\<close>: the operations the command line and the MCP server share. Indexing composes the
  analysis of a source with the projection into the graph store; listing, finding and describing read
  the store with bounded pages. The adapters that talk to database servers are parameters, and so are the
  surroundings of the DDL source. A panic is \<open>None\<close>.
\<close>

section \<open>Requests and errors\<close>

definition INTERFACE_CONTRACT_VERSION :: nat where "INTERFACE_CONTRACT_VERSION = 2"
definition DEFAULT_TIMEOUT_MS :: nat where "DEFAULT_TIMEOUT_MS = 30000"
definition MAX_TIMEOUT_MS :: nat where "MAX_TIMEOUT_MS = 86400000"
definition DEFAULT_OBJECT_PAGE_LIMIT :: nat where "DEFAULT_OBJECT_PAGE_LIMIT = 100"
definition MAX_OBJECT_PAGE_LIMIT :: nat where "MAX_OBJECT_PAGE_LIMIT = 500"
definition DEFAULT_RELATIONSHIP_LIMIT :: nat where "DEFAULT_RELATIONSHIP_LIMIT = 100"
definition MAX_RELATIONSHIP_LIMIT :: nat where "MAX_RELATIONSHIP_LIMIT = 200"

definition ALL_OBJECT_KINDS :: "ObjectKind list" where
  "ALL_OBJECT_KINDS =
     [ObjectKind.Database, ObjectKind.Schema, ObjectKind.Table, ObjectKind.Column, ObjectKind.PrimaryKey,
      ObjectKind.ForeignKey, ObjectKind.UniqueConstraint, ObjectKind.CheckConstraint, ObjectKind.Index,
      ObjectKind.View, ObjectKind.ViewColumn, ObjectKind.Trigger, ObjectKind.Routine,
      ObjectKind.MaterializedView, ObjectKind.Sequence, ObjectKind.RoutineParameter,
      ObjectKind.UserDefinedType, ObjectKind.Domain, ObjectKind.EnumValue, ObjectKind.Synonym,
      ObjectKind.ExclusionConstraint, ObjectKind.Event, ObjectKind.Package, ObjectKind.Principal,
      ObjectKind.Policy, ObjectKind.Extension]"

record CompleteIndexRequest =
  cir_source :: string
  cir_path :: "path option"
  cir_connection_string :: "string option"
  cir_alias :: string
  cir_requested_catalogs :: "string list"
  cir_requested_schemas :: "string list"
  cir_timeout_ms :: nat

definition new_index_request :: "string \<Rightarrow> path option \<Rightarrow> string option \<Rightarrow> string \<Rightarrow> CompleteIndexRequest" where
  "new_index_request source p connection_string alias =
     \<lparr>cir_source = source, cir_path = p, cir_connection_string = connection_string, cir_alias = alias,
       cir_requested_catalogs = [], cir_requested_schemas = [], cir_timeout_ms = DEFAULT_TIMEOUT_MS\<rparr>"

record IndexResult =
  ixr_contract_version :: nat
  ixr_status :: CompletionStatus
  ixr_snapshot_key :: string
  ixr_requested_source :: string
  ixr_analyzed_source :: string
  ixr_connection_alias :: string
  ixr_captured_at_unix_ms :: int
  ixr_cache_path :: string
  ixr_objects_indexed :: nat
  ixr_relationships_indexed :: nat
  ixr_semantic_relationships_verified :: nat
  ixr_tables_indexed :: nat
  ixr_columns_indexed :: nat
  ixr_constraints_indexed :: nat
  ixr_indexes_indexed :: nat
  ixr_completeness :: CompletenessProof

datatype InterfaceErrorCode =
    IfInvalidRequest | IfAnalysisFailed | IfStorageFailed | IfSnapshotNotFound | IfObjectNotFound | IfInvalidMetadata

datatype InterfaceStage =
    AtConfigurationStage | AtAnalysisStage | AtPersistence | AtSnapshotLookup | AtObjectLookup | AtSerialization

record InterfaceError =
  ife_contract_version :: nat
  ife_code :: InterfaceErrorCode
  ife_stage :: InterfaceStage
  ife_message :: string
  ife_remediation :: string
  ife_retryable :: bool
  ife_analysis_failure :: "AnalysisFailure option"

definition new_interface_error ::
  "InterfaceErrorCode \<Rightarrow> InterfaceStage \<Rightarrow> string \<Rightarrow> string \<Rightarrow> bool \<Rightarrow> InterfaceError" where
  "new_interface_error code stage msg remediation retryable =
     \<lparr>ife_contract_version = INTERFACE_CONTRACT_VERSION, ife_code = code, ife_stage = stage,
       ife_message = msg, ife_remediation = remediation, ife_retryable = retryable,
       ife_analysis_failure = None\<rparr>"

definition analysis_error :: "AnalysisFailure \<Rightarrow> InterfaceError" where
  "analysis_error failure =
     \<lparr>ife_contract_version = INTERFACE_CONTRACT_VERSION, ife_code = IfAnalysisFailed, ife_stage = AtAnalysisStage,
       ife_message = af_message failure, ife_remediation = af_remediation failure,
       ife_retryable = af_retryable failure, ife_analysis_failure = Some failure\<rparr>"

definition storage_error :: "string \<Rightarrow> GraphStoreError \<Rightarrow> InterfaceError" where
  "storage_error operation err =
     new_interface_error IfStorageFailed AtPersistence (operation @ '': '' @ graph_store_error_to_string err)
       ''verify the cache path and local filesystem, then retry'' True"

definition invalid_request :: "InterfaceStage \<Rightarrow> string \<Rightarrow> string \<Rightarrow> InterfaceError" where
  "invalid_request stage msg remediation = new_interface_error IfInvalidRequest stage msg remediation False"

section \<open>Checking a request\<close>

definition invalid_scope :: "string list \<Rightarrow> bool" where
  "invalid_scope values =
     (list_ex (\<lambda>v. blank v \<or> length v > 1024 \<or> CHR 0x00 \<in> set v) values \<or> \<not> distinct values)"

definition file_sources :: "string list" where "file_sources = [''sqlite'', ''ddl-sqlite'']"

definition connection_sources :: "string list" where
  "connection_sources = [''postgres'', ''yugabytedb'', ''mysql'', ''mariadb'', ''sqlserver'', ''oracle'', ''odbc'']"

text \<open>The first complaint about a request. Redacting the alias may panic.\<close>

definition request_complaint :: "CompleteIndexRequest \<Rightarrow> (string \<times> string) option option" where
  "request_complaint request =
     (let source = cir_source request;
          file_source = source \<in> set file_sources;
          connection_source = source \<in> set connection_sources;
          after_alias =
            (if cir_timeout_ms request = 0 \<or> cir_timeout_ms request > MAX_TIMEOUT_MS
             then Some (''introspection timeout must be between 1 and 86400000 milliseconds'',
               ''provide a bounded positive timeout'')
             else if invalid_scope (cir_requested_catalogs request) \<or> invalid_scope (cir_requested_schemas request)
             then Some (''catalog and schema scopes must contain unique non-empty values of at most 1024 bytes'',
               ''remove duplicate, empty, or oversized scope values'')
             else if \<not> file_source \<and> \<not> connection_source
             then Some (''unsupported source; expected sqlite, ddl-sqlite, postgres, yugabytedb, mysql, mariadb, sqlserver, oracle, or odbc'',
               ''select a source listed by the contract support ledger'')
             else if file_source \<and> (cir_path request = None \<or> cir_connection_string request \<noteq> None)
             then Some (''SQLite sources require path and do not accept connection_string'',
               ''provide exactly one local SQLite database or DDL path'')
             else if connection_source \<and> (cir_connection_string request = None \<or> cir_path request \<noteq> None)
             then Some (''server and ODBC sources require connection_string and do not accept path'',
               ''provide exactly one connection string through the secret input field'')
             else if source \<in> {''postgres'', ''yugabytedb''} \<and> cir_requested_catalogs request \<noteq> []
             then Some (''PostgreSQL-wire sources accept schema scope only within the connected database'',
               ''remove requested_catalogs or connect directly to the intended database'')
             else if source \<in> {''mysql'', ''mariadb''} \<and> cir_requested_schemas request \<noteq> []
             then Some (''MySQL-family sources use requested_catalogs for database scope'',
               ''move exact database names to requested_catalogs'')
             else if source = ''ddl-sqlite''
                \<and> (cir_requested_catalogs request \<noteq> [] \<or> cir_requested_schemas request \<noteq> [])
             then Some (''SQLite DDL sources always produce the isolated main catalog and schema'',
               ''remove explicit catalog and schema scope'')
             else None);
          alias_complaint =
            Some (''connection alias must be a bounded non-secret label without control characters'',
              ''provide a short logical alias instead of a path, URL, or connection string'')
      in if blank (cir_alias request) \<or> length (cir_alias request) > 1024 \<or> has_control (cir_alias request)
         then Some alias_complaint
         else map_option (\<lambda>red. if red \<noteq> cir_alias request then alias_complaint else after_alias)
                (redact_connection_string (cir_alias request)))"

definition validate_index_request :: "CompleteIndexRequest \<Rightarrow> AnalysisFailure option option" where
  "validate_index_request request =
     Option.bind (request_complaint request) (\<lambda>complaint.
       case complaint of
         None \<Rightarrow> Some None
       | Some (msg, remediation) \<Rightarrow>
           map_option Some
             (redacted InvalidConfiguration Configuration (cir_source request) (cir_alias request) msg remediation
               False (cir_connection_string request)))"

definition sqlite_scope :: "string list \<Rightarrow> string list" where
  "sqlite_scope values = (if values = [] then [''main''] else values)"

section \<open>Analysis of a source\<close>

text \<open>The adapters and the surroundings of the DDL source. An adapter may panic.\<close>

record adapters =
  ad_sqlite :: "path \<Rightarrow> string \<Rightarrow> string list \<Rightarrow> string list \<Rightarrow> nat \<Rightarrow> AnalysisOutcome option"
  ad_postgres :: "string \<Rightarrow> string \<Rightarrow> string list \<Rightarrow> nat \<Rightarrow> AnalysisOutcome option"
  ad_yugabytedb :: "string \<Rightarrow> string \<Rightarrow> string list \<Rightarrow> nat \<Rightarrow> AnalysisOutcome option"
  ad_mysql :: "string \<Rightarrow> string \<Rightarrow> string list \<Rightarrow> nat \<Rightarrow> AnalysisOutcome option"
  ad_sqlserver :: "string \<Rightarrow> string \<Rightarrow> string list \<Rightarrow> string list \<Rightarrow> nat \<Rightarrow> AnalysisOutcome option"
  ad_oracle :: "string \<Rightarrow> string \<Rightarrow> string list \<Rightarrow> string list \<Rightarrow> nat \<Rightarrow> AnalysisOutcome option"
  ad_odbc :: "string \<Rightarrow> string \<Rightarrow> string list \<Rightarrow> string list \<Rightarrow> nat \<Rightarrow> AnalysisOutcome option"
  ad_fs :: file_system
  ad_parser :: sql_parser
  ad_engine :: engine
  ad_obs :: "nat \<Rightarrow> moment"
  ad_clock_max :: nat
  ad_ddl_introspect :: "DdlConnection \<Rightarrow> string \<Rightarrow> (string, CertifiedSchemaSnapshot) result"
  ad_display_path :: "path \<Rightarrow> string"

definition sqlite_ddl_failure ::
  "(path \<Rightarrow> string) \<Rightarrow> CompleteIndexRequest \<Rightarrow> string SqliteDdlSourceError \<Rightarrow> AnalysisFailure option" where
  "sqlite_ddl_failure display request err =
     (let (code, stage, remediation, retryable) =
        (case err of
           DdlTimeout _ \<Rightarrow>
             (Timeout, Discovery, ''increase the bounded timeout or reduce the DDL source'', True)
         | DdlCancelled _ \<Rightarrow>
             (Cancelled, Discovery, ''start a new analysis when the result is still needed'', True)
         | DdlInvalidStatement _ _ \<Rightarrow>
             (UnsafeSource, Mapping,
              ''remove row access, attachment, extensions, or unsupported statements from the DDL input'', False)
         | DdlInputTooLarge _ _ \<Rightarrow>
             (InvalidConfiguration, Configuration, ''provide a readable bounded SQLite DDL file or directory'', False)
         | DdlNoSqlFiles _ \<Rightarrow>
             (InvalidConfiguration, Configuration, ''provide a readable bounded SQLite DDL file or directory'', False)
         | DdlIo _ _ \<Rightarrow>
             (InvalidConfiguration, Configuration, ''provide a readable bounded SQLite DDL file or directory'', False)
         | DdlApply _ _ \<Rightarrow> (MetadataMappingFailed, Mapping, ''fix the SQLite DDL input and retry'', False)
         | DdlAdapter _ \<Rightarrow> (MetadataMappingFailed, Mapping, ''fix the SQLite DDL input and retry'', False))
      in redacted code stage (cir_source request) (cir_alias request) (ddl_error_to_string display (\<lambda>e. e) err)
           remediation retryable None)"

definition analyze_ddl_sqlite :: "adapters \<Rightarrow> CompleteIndexRequest \<Rightarrow> path \<Rightarrow> AnalysisOutcome option" where
  "analyze_ddl_sqlite ad request p =
     (case introspect_sqlite_ddl_complete_bounded (ad_fs ad) (ad_parser ad) (ad_engine ad) (ad_obs ad)
          (ad_clock_max ad) (ad_ddl_introspect ad) p (cir_alias request) (cir_timeout_ms request) of
        Inr snapshot \<Rightarrow>
          (case outcome_complete snapshot of
             Inr outcome \<Rightarrow> Some outcome
           | Inl err \<Rightarrow>
               map_option outcome_failed
                 (redacted ValidationFailed Validation (cir_source request) (cir_alias request)
                   (certification_error_to_string err)
                   ''fix the DDL source until it produces a complete certified schema'' False None))
      | Inl err \<Rightarrow> map_option outcome_failed (sqlite_ddl_failure (ad_display_path ad) request err))"

definition enforce_requested_product :: "CompleteIndexRequest \<Rightarrow> AnalysisOutcome \<Rightarrow> AnalysisOutcome option" where
  "enforce_requested_product request outcome =
     (case certified_snapshot outcome of
        None \<Rightarrow> Some outcome
      | Some certified \<Rightarrow>
          (let analyzed = snap_source_kind (can_schema (cert_snapshot certified))
           in if cir_source request \<in> {''mysql'', ''mariadb''} \<and> analyzed \<noteq> cir_source request
              then map_option outcome_failed
                (redacted UnsupportedProduct CapabilityProbe (cir_source request) (cir_alias request)
                  (''requested product '' @ [CHR 0x27] @ cir_source request @ [CHR 0x27]
                    @ '' but the server identified as '' @ [CHR 0x27] @ analyzed @ [CHR 0x27])
                  ''select the matching mysql or mariadb source explicitly'' False (cir_connection_string request))
              else Some outcome))"

text \<open>The missing path or connection string of an \<open>expect\<close> is a panic, as is an unknown source.\<close>

definition dispatch_source :: "adapters \<Rightarrow> CompleteIndexRequest \<Rightarrow> AnalysisOutcome option" where
  "dispatch_source ad request =
     (let source = cir_source request; alias = cir_alias request; timeout_ms = cir_timeout_ms request;
          catalogs = cir_requested_catalogs request; schemas = cir_requested_schemas request
      in if source = ''sqlite'' then
           Option.bind (cir_path request) (\<lambda>p. ad_sqlite ad p alias (sqlite_scope catalogs) (sqlite_scope schemas) timeout_ms)
         else if source = ''ddl-sqlite'' then Option.bind (cir_path request) (analyze_ddl_sqlite ad request)
         else Option.bind (cir_connection_string request) (\<lambda>connection.
           if source = ''postgres'' then ad_postgres ad connection alias schemas timeout_ms
           else if source = ''yugabytedb'' then ad_yugabytedb ad connection alias schemas timeout_ms
           else if source = ''mysql'' \<or> source = ''mariadb'' then ad_mysql ad connection alias catalogs timeout_ms
           else if source = ''sqlserver'' then ad_sqlserver ad connection alias catalogs schemas timeout_ms
           else if source = ''oracle'' then ad_oracle ad connection alias catalogs schemas timeout_ms
           else if source = ''odbc'' then ad_odbc ad connection alias catalogs schemas timeout_ms
           else None))"

definition analyze_complete_source :: "adapters \<Rightarrow> CompleteIndexRequest \<Rightarrow> AnalysisOutcome option" where
  "analyze_complete_source ad request =
     Option.bind (validate_index_request request) (\<lambda>failure.
       case failure of
         Some f \<Rightarrow> Some (outcome_failed f)
       | None \<Rightarrow> Option.bind (dispatch_source ad request) (enforce_requested_product request))"

section \<open>Indexing\<close>

definition index_result ::
  "CompleteIndexRequest \<Rightarrow> int \<Rightarrow> string \<Rightarrow> string \<Rightarrow> CertifiedSchemaSnapshot \<Rightarrow> IndexResult" where
  "index_result request captured_at_unix_ms cache_path snapshot_key certified =
     (let schema = can_schema (cert_snapshot certified);
          projection = certified_graph_projection_counts certified
      in \<lparr>ixr_contract_version = INTERFACE_CONTRACT_VERSION, ixr_status = Complete,
           ixr_snapshot_key = snapshot_key, ixr_requested_source = cir_source request,
           ixr_analyzed_source = snap_source_kind schema, ixr_connection_alias = snap_connection_alias schema,
           ixr_captured_at_unix_ms = captured_at_unix_ms, ixr_cache_path = cache_path,
           ixr_objects_indexed = prc_objects projection, ixr_relationships_indexed = prc_graph_edges projection,
           ixr_semantic_relationships_verified = prc_semantic_relationships projection,
           ixr_tables_indexed = length (snap_tables schema), ixr_columns_indexed = length (snap_columns schema),
           ixr_constraints_indexed = length (snap_constraints schema),
           ixr_indexes_indexed = length (snap_indexes schema),
           ixr_completeness = cert_completeness certified\<rparr>)"

definition index_complete_source ::
  "adapters \<Rightarrow> serde \<Rightarrow> CompleteIndexRequest \<Rightarrow> int \<Rightarrow> string \<Rightarrow> Connection
    \<Rightarrow> ((InterfaceError, IndexResult) result \<times> Connection) option" where
  "index_complete_source ad sj request captured_at_unix_ms cache_path store =
     map_option (\<lambda>outcome.
       case outcome of
         FailedOutcome failure \<Rightarrow> (Err (analysis_error failure), store)
       | CompleteOutcome certified \<Rightarrow>
           (let snapshot_key = cir_source request @ '':'' @ cir_alias request
            in case insert_certified_schema_snapshot_graph sj snapshot_key captured_at_unix_ms certified store of
                 (Inl err, store) \<Rightarrow> (Err (storage_error ''could not persist certified snapshot'' err), store)
               | (Inr _, store) \<Rightarrow>
                   (Ok (index_result request captured_at_unix_ms cache_path snapshot_key certified), store)))
       (analyze_complete_source ad request)"

section \<open>Snapshots\<close>

definition alias_from_snapshot_key :: "string \<Rightarrow> string" where
  "alias_from_snapshot_key snapshot_key =
     (case split_once (CHR '':'') snapshot_key of Some (_, alias) \<Rightarrow> alias | None \<Rightarrow> snapshot_key)"

definition quoted :: "string \<Rightarrow> string" where
  "quoted s = [CHR 0x27] @ s @ [CHR 0x27]"

record SnapshotSummary =
  ssm_contract_version :: "nat option"
  ssm_authority :: SnapshotAuthority
  ssm_snapshot_key :: string
  ssm_entrypoint_source :: string
  ssm_source :: "string option"
  ssm_alias :: string
  ssm_connection_alias :: string
  ssm_captured_at_unix_ms :: int
  ssm_objects :: nat
  ssm_relationships :: nat
  ssm_adapter :: "string option"
  ssm_server_product :: "string option"
  ssm_server_version :: "string option"

record SnapshotDetail =
  sdt_snapshot :: SnapshotSummary
  sdt_completeness :: "CompletenessProof option"

definition snapshot_not_found :: "string \<Rightarrow> InterfaceError" where
  "snapshot_not_found selector =
     new_interface_error IfSnapshotNotFound AtSnapshotLookup (''snapshot '' @ quoted selector @ '' was not found'')
       ''run index first or pass an existing snapshot key'' False"

definition resolve_snapshot_key :: "string \<Rightarrow> Connection \<Rightarrow> (InterfaceError, string) result" where
  "resolve_snapshot_key selector store =
     try_with (map_err (storage_error ''could not read snapshot'') (get_snapshot selector store)) (\<lambda>found.
       if found \<noteq> None then Ok selector
       else
         try_with (map_err (storage_error ''could not list snapshots'') (list_snapshots store)) (\<lambda>snapshots.
           (let found_keys = sort (filter (\<lambda>k. alias_from_snapshot_key k = selector) (map gs_snapshot_key snapshots))
            in case found_keys of
                 [] \<Rightarrow> Err (snapshot_not_found selector)
               | [snapshot_key] \<Rightarrow> Ok snapshot_key
               | _ \<Rightarrow> Err (new_interface_error IfInvalidRequest AtSnapshotLookup
                   (''snapshot alias '' @ quoted selector @ '' is ambiguous; matching keys: '' @ join_with '', '' found_keys)
                   ''pass one exact snapshot key'' False))))"

text \<open>A step that may fail or panic, and going on from it.\<close>

definition try_run :: "('e, 'a) result option \<Rightarrow> ('a \<Rightarrow> ('e, 'b) result option) \<Rightarrow> ('e, 'b) result option" where
  "try_run r f = (case r of None \<Rightarrow> None | Some (Inl err) \<Rightarrow> Some (Err err) | Some (Inr x) \<Rightarrow> f x)"

fun collect_runs :: "('e, 'a) result option list \<Rightarrow> ('e, 'a list) result option" where
  "collect_runs [] = Some (Ok [])"
| "collect_runs (r # rs) = try_run r (\<lambda>x. try_run (collect_runs rs) (\<lambda>xs. Some (Ok (x # xs))))"

definition snapshot_summary :: "serde \<Rightarrow> string \<Rightarrow> Connection \<Rightarrow> (InterfaceError, SnapshotSummary) result option" where
  "snapshot_summary sj snapshot_key store =
     try_run (Some (map_err (storage_error ''could not read snapshot'') (get_snapshot snapshot_key store))) (\<lambda>found.
     try_run (Some (ok_or (snapshot_not_found snapshot_key) found)) (\<lambda>row.
     try_run (Some (map_err (storage_error ''could not verify snapshot authority'')
         (get_snapshot_contract_status sj snapshot_key store))) (\<lambda>status_found.
     (case status_found of
        None \<Rightarrow> None
      | Some status \<Rightarrow>
     try_run (Some (map_err (storage_error ''could not read certified snapshot'')
         (get_certified_snapshot sj snapshot_key store))) (\<lambda>certified.
     try_run (Some (map_err (storage_error ''could not count snapshot objects'')
         (node_count_for_snapshot snapshot_key store))) (\<lambda>objects.
     try_run (Some (map_err (storage_error ''could not count snapshot relationships'')
         (edge_count_for_snapshot snapshot_key store))) (\<lambda>relationships.
       (let connection_alias =
              (case certified of
                 Some c \<Rightarrow> snap_connection_alias (can_schema (cert_snapshot c))
               | None \<Rightarrow> alias_from_snapshot_key snapshot_key)
        in Some (Ok \<lparr>ssm_contract_version = scs_contract_version status, ssm_authority = scs_authority status,
             ssm_snapshot_key = gs_snapshot_key row,
             ssm_entrypoint_source =
               (case split_once (CHR '':'') snapshot_key of Some (source, _) \<Rightarrow> source | None \<Rightarrow> ''legacy''),
             ssm_source = gs_source row, ssm_alias = connection_alias, ssm_connection_alias = connection_alias,
             ssm_captured_at_unix_ms = gs_captured_at_unix_ms row,
             ssm_objects = objects, ssm_relationships = relationships,
             ssm_adapter = map_option (\<lambda>c. adp_name (prf_adapter (cert_completeness c))) certified,
             ssm_server_product = map_option (\<lambda>c. srv_product (prf_server (cert_completeness c))) certified,
             ssm_server_version = map_option (\<lambda>c. srv_version (prf_server (cert_completeness c))) certified\<rparr>)))))))))"

definition list_snapshot_summaries :: "serde \<Rightarrow> Connection \<Rightarrow> (InterfaceError, SnapshotSummary list) result option" where
  "list_snapshot_summaries sj store =
     try_run (Some (map_err (storage_error ''could not list snapshots'') (list_snapshots store))) (\<lambda>snapshots.
       collect_runs (map (\<lambda>snapshot. snapshot_summary sj (gs_snapshot_key snapshot) store) snapshots))"

definition describe_snapshot :: "serde \<Rightarrow> string \<Rightarrow> Connection \<Rightarrow> (InterfaceError, SnapshotDetail) result option" where
  "describe_snapshot sj selector store =
     try_run (Some (resolve_snapshot_key selector store)) (\<lambda>snapshot_key.
     try_run (snapshot_summary sj snapshot_key store) (\<lambda>summary.
     try_run (Some (map_err (storage_error ''could not read completeness proof'')
         (get_certified_snapshot sj snapshot_key store))) (\<lambda>certified.
       Some (Ok \<lparr>sdt_snapshot = summary, sdt_completeness = map_option cert_completeness certified\<rparr>))))"

section \<open>Objects\<close>

fun object_kind_label :: "ObjectKind \<Rightarrow> string" where
  "object_kind_label ObjectKind.Database = ''Database''"
| "object_kind_label ObjectKind.Schema = ''Schema''"
| "object_kind_label ObjectKind.Table = ''Table''"
| "object_kind_label ObjectKind.Column = ''Column''"
| "object_kind_label ObjectKind.PrimaryKey = ''PrimaryKey''"
| "object_kind_label ObjectKind.ForeignKey = ''ForeignKey''"
| "object_kind_label ObjectKind.UniqueConstraint = ''UniqueConstraint''"
| "object_kind_label ObjectKind.CheckConstraint = ''CheckConstraint''"
| "object_kind_label ObjectKind.Index = ''Index''"
| "object_kind_label ObjectKind.View = ''View''"
| "object_kind_label ObjectKind.ViewColumn = ''ViewColumn''"
| "object_kind_label ObjectKind.Trigger = ''Trigger''"
| "object_kind_label ObjectKind.Routine = ''Routine''"
| "object_kind_label ObjectKind.MaterializedView = ''MaterializedView''"
| "object_kind_label ObjectKind.Sequence = ''Sequence''"
| "object_kind_label ObjectKind.RoutineParameter = ''RoutineParameter''"
| "object_kind_label ObjectKind.UserDefinedType = ''UserDefinedType''"
| "object_kind_label ObjectKind.Domain = ''Domain''"
| "object_kind_label ObjectKind.EnumValue = ''EnumValue''"
| "object_kind_label ObjectKind.Synonym = ''Synonym''"
| "object_kind_label ObjectKind.ExclusionConstraint = ''ExclusionConstraint''"
| "object_kind_label ObjectKind.Event = ''Event''"
| "object_kind_label ObjectKind.Package = ''Package''"
| "object_kind_label ObjectKind.Principal = ''Principal''"
| "object_kind_label ObjectKind.Policy = ''Policy''"
| "object_kind_label ObjectKind.Extension = ''Extension''"

record PageMetadata =
  pgm_total :: nat
  pgm_offset :: nat
  pgm_limit_requested :: nat
  pgm_limit_applied :: nat
  pgm_limit_clamped :: bool
  pgm_has_more :: bool

record ObjectSummary =
  obs_object_key :: string
  obs_kind :: ObjectKind
  obs_label :: string
  obs_display_name :: "string option"
  obs_source_kind :: string
  obs_connection_alias :: string
  obs_database :: string
  obs_schema :: string
  obs_object_name :: string
  obs_sub_object :: "string option"

record ObjectPage =
  opg_contract_version :: nat
  opg_snapshot :: SnapshotSummary
  opg_kind_filter :: "ObjectKind option"
  opg_query :: "string option"
  opg_objects :: "ObjectSummary list"
  opg_page :: PageMetadata

definition object_summary :: "GraphNodeRecord \<Rightarrow> (InterfaceError, ObjectSummary) result" where
  "object_summary node =
     try_with (map_err (\<lambda>_. new_interface_error IfInvalidMetadata AtSerialization
         (''graph object '' @ quoted (gn_node_key node) @ '' has an invalid stable key: invalid stable database object key'')
         ''re-index this source with a compatible database-memory release'' False) (parse_object_key (gn_node_key node))) (\<lambda>key.
       if gn_label node \<noteq> object_kind_label (ok_object_kind key)
       then Err (new_interface_error IfInvalidMetadata AtSerialization
         (''graph object '' @ quoted (gn_node_key node) @ '' label '' @ quoted (gn_label node)
           @ '' does not match kind '' @ quoted (kind_to_string (ok_object_kind key)))
         ''re-index this source to restore the canonical graph'' False)
       else Ok \<lparr>obs_object_key = gn_node_key node, obs_kind = ok_object_kind key, obs_label = gn_label node,
             obs_display_name = gn_display_name node, obs_source_kind = ok_source_kind key,
             obs_connection_alias = ok_connection_alias key, obs_database = ok_database key,
             obs_schema = ok_schema key, obs_object_name = ok_object_name key, obs_sub_object = ok_sub_object key\<rparr>)"

definition list_objects ::
  "serde \<Rightarrow> string \<Rightarrow> ObjectKind option \<Rightarrow> string option \<Rightarrow> nat \<Rightarrow> nat option \<Rightarrow> Connection
    \<Rightarrow> (InterfaceError, ObjectPage) result option" where
  "list_objects sj snapshot_selector kind query offset limit store =
     try_run (Some (resolve_snapshot_key snapshot_selector store)) (\<lambda>snapshot_key.
       (let limit_requested = (case limit of Some n \<Rightarrow> n | None \<Rightarrow> DEFAULT_OBJECT_PAGE_LIMIT)
        in if limit_requested = 0
           then Some (Err (new_interface_error IfInvalidRequest AtObjectLookup
             ''object page limit must be greater than zero'' ''provide a limit between 1 and 500'' False))
           else
             (let limit_applied = min limit_requested MAX_OBJECT_PAGE_LIMIT
              in try_run (Some (map_err (storage_error ''could not list graph objects'')
                   (find_nodes_page snapshot_key (map_option object_kind_label kind) query offset limit_applied store)))
                 (\<lambda>(matching, nodes).
                 try_run (Some (collect_results (map object_summary nodes))) (\<lambda>objects.
                 try_run (snapshot_summary sj snapshot_key store) (\<lambda>summary.
                   Some (Ok \<lparr>opg_contract_version = INTERFACE_CONTRACT_VERSION, opg_snapshot = summary,
                     opg_kind_filter = kind, opg_query = normalized_query query, opg_objects = objects,
                     opg_page = \<lparr>pgm_total = matching, pgm_offset = offset, pgm_limit_requested = limit_requested,
                       pgm_limit_applied = limit_applied, pgm_limit_clamped = (limit_requested \<noteq> limit_applied),
                       pgm_has_more = (saturating_add offset limit_applied < matching)\<rparr>\<rparr>)))))))"

section \<open>Relationships\<close>

datatype RelationshipDirection = IncomingEdge | OutgoingEdge

record RelationshipSummary =
  rsm_edge_key :: string
  rsm_edge_type :: string
  rsm_direction :: RelationshipDirection
  rsm_from_object_key :: string
  rsm_to_object_key :: string
  rsm_related_object :: ObjectSummary
  rsm_payload :: json

record RelationshipPageMetadata =
  rpm_limit_requested :: nat
  rpm_limit_applied :: nat
  rpm_limit_clamped :: bool
  rpm_incoming_truncated :: bool
  rpm_outgoing_truncated :: bool

record ObjectDetail =
  odt_contract_version :: nat
  odt_snapshot :: SnapshotSummary
  odt_object :: ObjectSummary
  odt_payload :: json
  odt_incoming :: "RelationshipSummary list"
  odt_outgoing :: "RelationshipSummary list"
  odt_relationship_page :: RelationshipPageMetadata

definition relationship_summary ::
  "serde \<Rightarrow> string \<Rightarrow> RelationshipDirection \<Rightarrow> Connection \<Rightarrow> GraphEdgeRecord \<Rightarrow> (InterfaceError, RelationshipSummary) result" where
  "relationship_summary sj snapshot_key direction store edge =
     (let related_key = (case direction of IncomingEdge \<Rightarrow> ge_edge_from edge | OutgoingEdge \<Rightarrow> ge_edge_to edge)
      in try_with (map_err (storage_error ''could not read related graph object'') (get_node snapshot_key related_key store))
           (\<lambda>found.
         try_with (ok_or (new_interface_error IfInvalidMetadata AtObjectLookup
             (''relationship '' @ quoted (ge_edge_key edge) @ '' has a missing endpoint'')
             ''re-index this source to rebuild graph integrity'' False) found) (\<lambda>related.
         try_with (map_err (\<lambda>err. new_interface_error IfInvalidMetadata AtSerialization
             (''relationship '' @ quoted (ge_edge_key edge) @ '' has invalid JSON metadata: '' @ err)
             ''re-index this source with a compatible database-memory release'' False)
             (parse_value sj (ge_payload_json edge))) (\<lambda>payload.
         try_with (object_summary related) (\<lambda>related_object.
           Ok \<lparr>rsm_edge_key = ge_edge_key edge, rsm_edge_type = ge_edge_type edge, rsm_direction = direction,
                rsm_from_object_key = ge_edge_from edge, rsm_to_object_key = ge_edge_to edge,
                rsm_related_object = related_object, rsm_payload = payload\<rparr>)))))"

definition describe_object ::
  "serde \<Rightarrow> string \<Rightarrow> string \<Rightarrow> nat option \<Rightarrow> Connection \<Rightarrow> (InterfaceError, ObjectDetail) result option" where
  "describe_object sj snapshot_selector object_key relationship_limit store =
     try_run (Some (resolve_snapshot_key snapshot_selector store)) (\<lambda>snapshot_key.
     try_run (Some (map_err (storage_error ''could not read graph object'') (get_node snapshot_key object_key store))) (\<lambda>found.
     try_run (Some (ok_or (new_interface_error IfObjectNotFound AtObjectLookup
         (''object '' @ quoted object_key @ '' was not found in snapshot '' @ quoted snapshot_key)
         ''use list_objects or find_objects to obtain a stable object key'' False) found)) (\<lambda>node.
       (let limit_requested = (case relationship_limit of Some n \<Rightarrow> n | None \<Rightarrow> DEFAULT_RELATIONSHIP_LIMIT)
        in if limit_requested = 0
           then Some (Err (new_interface_error IfInvalidRequest AtObjectLookup
             ''relationship limit must be greater than zero'' ''provide a limit between 1 and 200'' False))
           else
             (let limit_applied = min limit_requested MAX_RELATIONSHIP_LIMIT;
                  probe_limit = saturating_add limit_applied 1
              in try_run (Some (map_err (storage_error ''could not read incoming relationships'')
                     (edges_to_limited snapshot_key object_key probe_limit store))) (\<lambda>incoming_edges.
                 try_run (Some (map_err (storage_error ''could not read outgoing relationships'')
                     (edges_from_limited snapshot_key object_key probe_limit store))) (\<lambda>outgoing_edges.
                 try_run (Some (collect_results (map (relationship_summary sj snapshot_key IncomingEdge store)
                     (take limit_applied incoming_edges)))) (\<lambda>incoming.
                 try_run (Some (collect_results (map (relationship_summary sj snapshot_key OutgoingEdge store)
                     (take limit_applied outgoing_edges)))) (\<lambda>outgoing.
                 try_run (Some (map_err (\<lambda>err. new_interface_error IfInvalidMetadata AtSerialization
                     (''object '' @ quoted object_key @ '' has invalid JSON metadata: '' @ err)
                     ''re-index this source with a compatible database-memory release'' False)
                     (parse_value sj (gn_payload_json node)))) (\<lambda>payload.
                 try_run (snapshot_summary sj snapshot_key store) (\<lambda>summary.
                 try_run (Some (object_summary node)) (\<lambda>object.
                   Some (Ok \<lparr>odt_contract_version = INTERFACE_CONTRACT_VERSION, odt_snapshot = summary,
                     odt_object = object, odt_payload = payload, odt_incoming = incoming, odt_outgoing = outgoing,
                     odt_relationship_page = \<lparr>rpm_limit_requested = limit_requested, rpm_limit_applied = limit_applied,
                       rpm_limit_clamped = (limit_requested \<noteq> limit_applied),
                       rpm_incoming_truncated = (length incoming_edges > limit_applied),
                       rpm_outgoing_truncated = (length outgoing_edges > limit_applied)\<rparr>\<rparr>)))))))))))))"

section \<open>The product contract\<close>

datatype SupportStatus = Certified | CapabilityNegotiated | DeferredByOwner

record SupportLedgerEntry =
  sle_source :: string
  sle_entrypoint_available :: bool
  sle_status :: SupportStatus
  sle_versions :: "string list"
  sle_scope :: string
  sle_runtime_requirement :: "string option"

record ContractLimits =
  clm_max_timeout_ms :: nat
  clm_default_object_page_limit :: nat
  clm_max_object_page_limit :: nat
  clm_default_relationship_limit :: nat
  clm_max_relationship_limit :: nat

record LegacyTraversalLimits =
  ltl_max_depth :: nat
  ltl_max_results :: nat

record LegacyInventoryLimits =
  lil_default_tables :: nat
  lil_max_tables :: nat
  lil_offset_pagination :: bool

record ProductContract =
  pct_product :: string
  pct_version :: string
  pct_contract_version :: nat
  pct_complete_snapshot_contract_version :: nat
  pct_metadata_only :: bool
  pct_row_data_access :: bool
  pct_authoritative_outcomes :: "string list"
  pct_legacy_cache_policy :: string
  pct_operations :: "string list"
  pct_commands :: "string list"
  pct_object_kinds :: "string list"
  pct_traversal_limits :: LegacyTraversalLimits
  pct_inventory_limits :: LegacyInventoryLimits
  pct_limits :: ContractLimits
  pct_support :: "SupportLedgerEntry list"

definition support ::
  "string \<Rightarrow> bool \<Rightarrow> SupportStatus \<Rightarrow> string list \<Rightarrow> string \<Rightarrow> string option \<Rightarrow> SupportLedgerEntry" where
  "support source entrypoint_available status versions scope runtime_requirement =
     \<lparr>sle_source = source, sle_entrypoint_available = entrypoint_available, sle_status = status,
       sle_versions = versions, sle_scope = scope, sle_runtime_requirement = runtime_requirement\<rparr>"

text \<open>Whether the crate is built with the ODBC feature is an argument, as is the package version below.\<close>

definition support_ledger :: "bool \<Rightarrow> SupportLedgerEntry list" where
  "support_ledger odbc_feature =
     [support ''sqlite'' True Certified [''bundled SQLite runtime''] ''main catalog and main schema'' None,
      support ''ddl-sqlite'' True Certified [''SQLite-compatible DDL applied to an isolated in-memory catalog''] ''main catalog and main schema'' None,
      support ''postgres'' True Certified [''14'', ''15'', ''16'', ''17'', ''18''] ''one connected database and selected schemas'' None,
      support ''yugabytedb'' True Certified [''YSQL 15.12-YB-2025.2.3.2-b0''] ''one connected database and selected schemas; YCQL excluded'' None,
      support ''mysql'' True Certified [''8.0'', ''8.4'', ''9.7''] ''one selected database'' None,
      support ''mariadb'' True Certified [''10.11'', ''11.4'', ''11.8'', ''12.3''] ''one selected database'' None,
      support ''sqlserver'' True Certified [''2017'', ''2019'', ''2022'', ''2025''] ''one connected database and selected schemas; Azure variants excluded'' None,
      support ''oracle'' True Certified [''Oracle AI Database 26ai Free 23.26.2.0.0''] ''one connected PDB/non-CDB and selected owner schemas'' (Some ''Oracle Client 11.2 or later''),
      support ''odbc'' odbc_feature CapabilityNegotiated [''SQL Server bridge for native-certified versions; all other products fail closed''] ''driver-negotiated exact catalog and schema scope'' (Some (''matching 64-bit ODBC driver and build feature '' @ quoted ''odbc'')),
      support ''db2'' False DeferredByOwner [] ''not certified'' (Some ''separate IBM license/EULA decision required before implementation'')]"

definition product_contract :: "string \<Rightarrow> bool \<Rightarrow> ProductContract" where
  "product_contract version odbc_feature =
     \<lparr>pct_product = ''database-memory'', pct_version = version,
       pct_contract_version = INTERFACE_CONTRACT_VERSION,
       pct_complete_snapshot_contract_version = COMPLETE_CONTRACT_VERSION,
       pct_metadata_only = True, pct_row_data_access = False,
       pct_authoritative_outcomes = [''complete'', ''failed''],
       pct_legacy_cache_policy =
         ''readable but explicitly legacy_non_authoritative; re-index before relying on completeness'',
       pct_operations =
         [''contract'', ''index'', ''list_snapshots'', ''describe_snapshot'', ''list_objects'',
          ''find_objects'', ''describe_object'', ''trace_relationships'', ''impact_analysis'',
          ''schema_diff''],
       pct_commands =
         [''contract'', ''index'', ''list-snapshots'', ''describe-snapshot'', ''list-objects'',
          ''find-objects'', ''describe-object'', ''describe-table'', ''inventory'', ''find-table'',
          ''find-column'', ''impact-analysis'', ''trace-relationships''],
       pct_object_kinds = map kind_to_string ALL_OBJECT_KINDS,
       pct_traversal_limits = \<lparr>ltl_max_depth = 8, ltl_max_results = 200\<rparr>,
       pct_inventory_limits = \<lparr>lil_default_tables = 1000, lil_max_tables = 5000, lil_offset_pagination = True\<rparr>,
       pct_limits = \<lparr>clm_max_timeout_ms = MAX_TIMEOUT_MS, clm_default_object_page_limit = DEFAULT_OBJECT_PAGE_LIMIT,
         clm_max_object_page_limit = MAX_OBJECT_PAGE_LIMIT,
         clm_default_relationship_limit = DEFAULT_RELATIONSHIP_LIMIT,
         clm_max_relationship_limit = MAX_RELATIONSHIP_LIMIT\<rparr>,
       pct_support = support_ledger odbc_feature\<rparr>"

section \<open>Every kind has a place in the contract\<close>

lemma all_object_kinds: "set ALL_OBJECT_KINDS = UNIV" "distinct ALL_OBJECT_KINDS"
proof -
  have "k \<in> set ALL_OBJECT_KINDS" for k by (cases k) (simp_all add: ALL_OBJECT_KINDS_def)
  then show "set ALL_OBJECT_KINDS = UNIV" by blast
qed (simp add: ALL_OBJECT_KINDS_def)

lemma available_sources:
  "set (map sle_source (filter sle_entrypoint_available (support_ledger True))) = set (file_sources @ connection_sources)"
  by (simp add: support_ledger_def support_def file_sources_def connection_sources_def)

section \<open>Labels of projected nodes\<close>

text \<open>Kinds a metadata object may have, but for which the projection has no label of their own.\<close>

definition unlabelled :: "ObjectKind \<Rightarrow> bool" where
  "unlabelled kind = (kind \<in> {ObjectKind.PrimaryKey, UniqueConstraint, CheckConstraint, Index, Routine, Trigger})"

lemma metadata_label_iff:
  "is_canonical_metadata_kind kind \<Longrightarrow> metadata_object_label kind = object_kind_label kind \<longleftrightarrow> \<not> unlabelled kind"
  by (cases kind) (simp_all add: unlabelled_def is_canonical_metadata_kind_def)

lemma constraint_label_kind: "constraint_label kind = object_kind_label (constraint_object_kind kind)"
  by (cases kind) simp_all

text \<open>The label of a projected node is the label of its kind, but for some metadata objects.\<close>

definition labelled :: "GraphNodeRecord \<Rightarrow> ObjectKey \<Rightarrow> bool" where
  "labelled n k = (gn_node_key n = key_to_string k \<and> gn_label n = object_kind_label (ok_object_kind k))"

lemma labelled_node_record [simp]:
  "labelled (node_record sj sk an k label name p) k' \<longleftrightarrow> k' = k \<and> label = object_kind_label (ok_object_kind k)"
  by (auto simp: labelled_def node_record_def key_to_string_inject)

lemma node_record_sel:
  "gn_node_key (node_record sj sk an k label name p) = key_to_string k"
  "gn_label (node_record sj sk an k label name p) = label"
  by (simp_all add: node_record_def)

lemma sorted_by_key_set [simp]: "set (sorted_by_key f xs) = set xs"
  by (simp add: sorted_by_key_def)

lemma schema_key_kinds:
  assumes "well_formed_schema s"
  shows "ok_object_kind (db_key (snap_database s)) = Database"
    "\<forall>x\<in>set (snap_schemas s). ok_object_kind (sch_key x) = Schema"
    "\<forall>x\<in>set (snap_tables s). ok_object_kind (tbl_key x) = Table"
    "\<forall>x\<in>set (snap_columns s). ok_object_kind (col_key x) = Column"
    "\<forall>x\<in>set (snap_constraints s). ok_object_kind (con_key x) = constraint_object_kind (con_kind x)"
    "\<forall>x\<in>set (snap_indexes s). ok_object_kind (idx_key x) = Index"
    "\<forall>x\<in>set (snap_views s). ok_object_kind (view_key x) = View"
    "\<forall>x\<in>set (snap_triggers s). ok_object_kind (trg_key x) = Trigger"
    "\<forall>x\<in>set (snap_routines s). ok_object_kind (rtn_key x) = Routine"
proof -
  have "\<forall>(k, kind)\<in>set (schema_keys s). ok_object_kind k = kind"
    using assms by (simp add: well_formed_schema_def Let_def)
  then show "ok_object_kind (db_key (snap_database s)) = Database"
    "\<forall>x\<in>set (snap_schemas s). ok_object_kind (sch_key x) = Schema"
    "\<forall>x\<in>set (snap_tables s). ok_object_kind (tbl_key x) = Table"
    "\<forall>x\<in>set (snap_columns s). ok_object_kind (col_key x) = Column"
    "\<forall>x\<in>set (snap_constraints s). ok_object_kind (con_key x) = constraint_object_kind (con_kind x)"
    "\<forall>x\<in>set (snap_indexes s). ok_object_kind (idx_key x) = Index"
    "\<forall>x\<in>set (snap_views s). ok_object_kind (view_key x) = View"
    "\<forall>x\<in>set (snap_triggers s). ok_object_kind (trg_key x) = Trigger"
    "\<forall>x\<in>set (snap_routines s). ok_object_kind (rtn_key x) = Routine"
    by (simp_all add: schema_keys_def ball_Un)
qed

lemma projected_node_cases:
  assumes "well_formed_canonical c" and "n \<in> set (projected_nodes sj sk (can_schema c) (Some (can_metadata c)))"
  obtains k where "k \<in> set (map fst (schema_keys (can_schema c)))" "labelled n k"
  | object where "object \<in> set (md_objects (can_metadata c))"
      "gn_node_key n = key_to_string (mo_key object)"
      "gn_label n = metadata_object_label (ok_object_kind (mo_key object))"
proof -
  have wf: "well_formed_schema (can_schema c)" using assms(1) by (simp add: well_formed_canonical_def Let_def)
  have "(\<exists>k. labelled n k \<and> k \<in> set (map fst (schema_keys (can_schema c))))
    \<or> (\<exists>object\<in>set (md_objects (can_metadata c)). gn_node_key n = key_to_string (mo_key object)
        \<and> gn_label n = metadata_object_label (ok_object_kind (mo_key object)))"
    using assms(2) schema_key_kinds[OF wf]
    by (auto simp: projected_nodes_def Let_def schema_keys_def sorted_metadata_objects_def constraint_label_kind
        node_record_sel)
  then show thesis using that by blast
qed

section \<open>Summaries of indexed objects\<close>

text \<open>Every key of the snapshot can be read back from its text.\<close>

definition readable_keys :: "CertifiedSchemaSnapshot \<Rightarrow> bool" where
  "readable_keys c = (\<forall>k\<in>set (canonical_keys (cert_snapshot c)). parse_object_key (key_to_string k) = Ok k)"

text \<open>The label that belongs to the text of a key.\<close>

definition label_for :: "string \<Rightarrow> string" where
  "label_for s = (case parse_object_key s of Inl _ \<Rightarrow> [] | Inr k \<Rightarrow> object_kind_label (ok_object_kind k))"

lemma object_summary_Ok_iff:
  assumes "gn_node_key n = key_to_string k" and "parse_object_key (key_to_string k) = Ok k"
  shows "(\<exists>s. object_summary n = Ok s) \<longleftrightarrow> gn_label n = object_kind_label (ok_object_kind k)"
  using assms by (simp add: object_summary_def)

lemma object_summary_key: "object_summary n = Ok s \<Longrightarrow> obs_object_key s = gn_node_key n"
  by (auto simp: object_summary_def try_with_Ok_iff split: if_splits)

lemma object_summary_label:
  "(\<exists>s. object_summary n = Ok s) \<longleftrightarrow> (\<exists>k. parse_object_key (gn_node_key n) = Ok k) \<and> gn_label n = label_for (gn_node_key n)"
  by (auto simp: object_summary_def label_for_def try_with_def map_err_def split: sum.splits)

lemma metadata_node:
  assumes "object \<in> set (md_objects m)"
  shows "\<exists>n\<in>set (projected_nodes sj sk s (Some m)). gn_node_key n = key_to_string (mo_key object)
    \<and> gn_label n = metadata_object_label (ok_object_kind (mo_key object))"
proof -
  let ?n = "node_record sj sk (annotation_map (Some m)) (mo_key object)
    (metadata_object_label (ok_object_kind (mo_key object))) (mo_name object) (PMetadata object)"
  have "?n \<in> set (projected_nodes sj sk s (Some m))"
    using assms by (simp add: projected_nodes_def Let_def sorted_metadata_objects_def)
  then show ?thesis by (rule bexI[rotated]) (simp add: node_record_sel)
qed

lemma complete_well_formed: "complete_certificate c \<Longrightarrow> well_formed_canonical (cert_snapshot c)"
  by (simp add: complete_certificate_def Let_def)

lemma summaries_iff:
  assumes "complete_certificate c" and "readable_keys c"
  shows "(\<forall>n\<in>set (nodes_of sj sk c). \<exists>s. object_summary n = Ok s) \<longleftrightarrow>
    (\<forall>object\<in>set (md_objects (can_metadata (cert_snapshot c))). \<not> unlabelled (ok_object_kind (mo_key object)))"
proof -
  let ?s = "cert_snapshot c"
  note wf = complete_well_formed[OF assms(1)]
  have kinds: "metadata_object_label (ok_object_kind (mo_key object)) = object_kind_label (ok_object_kind (mo_key object))
      \<longleftrightarrow> \<not> unlabelled (ok_object_kind (mo_key object))"
    and key: "parse_object_key (key_to_string (mo_key object)) = Ok (mo_key object)"
    if "object \<in> set (md_objects (can_metadata ?s))" for object
  proof -
    show "metadata_object_label (ok_object_kind (mo_key object)) = object_kind_label (ok_object_kind (mo_key object))
      \<longleftrightarrow> \<not> unlabelled (ok_object_kind (mo_key object))"
      by (rule metadata_label_iff)
        (use wf that in \<open>auto simp: well_formed_canonical_def wf_metadata_object_def wf_extension_identity_def Let_def\<close>)
    show "parse_object_key (key_to_string (mo_key object)) = Ok (mo_key object)"
      using assms(2) that by (auto simp: readable_keys_def canonical_keys_def)
  qed
  show ?thesis
  proof
    assume all: "\<forall>n\<in>set (nodes_of sj sk c). \<exists>s. object_summary n = Ok s"
    show "\<forall>object\<in>set (md_objects (can_metadata ?s)). \<not> unlabelled (ok_object_kind (mo_key object))"
    proof
      fix object assume o: "object \<in> set (md_objects (can_metadata ?s))"
      from metadata_node[OF o] obtain n where "n \<in> set (nodes_of sj sk c)"
        and n: "gn_node_key n = key_to_string (mo_key object)"
        "gn_label n = metadata_object_label (ok_object_kind (mo_key object))"
        unfolding nodes_of_def by blast
      with all object_summary_Ok_iff[OF n(1) key[OF o]] kinds[OF o] show "\<not> unlabelled (ok_object_kind (mo_key object))"
        by simp
    qed
  next
    assume none: "\<forall>object\<in>set (md_objects (can_metadata ?s)). \<not> unlabelled (ok_object_kind (mo_key object))"
    show "\<forall>n\<in>set (nodes_of sj sk c). \<exists>s. object_summary n = Ok s"
    proof
      fix n assume "n \<in> set (nodes_of sj sk c)"
      then show "\<exists>s. object_summary n = Ok s" unfolding nodes_of_def
      proof (rule projected_node_cases[OF wf])
        fix k assume k: "k \<in> set (map fst (schema_keys (can_schema ?s)))" "labelled n k"
        then have "parse_object_key (key_to_string k) = Ok k"
          using assms(2) unfolding readable_keys_def canonical_keys_def by simp
        with k(2) show ?thesis using object_summary_Ok_iff[of n k] by (simp add: labelled_def)
      next
        fix object assume "object \<in> set (md_objects (can_metadata ?s))" "gn_node_key n = key_to_string (mo_key object)"
          "gn_label n = metadata_object_label (ok_object_kind (mo_key object))"
        then show ?thesis using object_summary_Ok_iff[of n "mo_key object"] key kinds none by simp
      qed
    qed
  qed
qed

section \<open>Effects of indexing\<close>

lemma certified_payload_valid:
  assumes "insert_certified_schema_snapshot_graph sj sk t c conn = (Ok (), conn')"
  shows "validate_persisted_snapshot_payload sj (payload_json sj (PCertified c)) = Ok ()"
proof -
  have run: "with_transaction (insert_certified_body sj sk t c) conn = (Ok (), conn')"
    using guarded_Ok[OF assms[unfolded insert_certified_schema_snapshot_graph_def]] by simp
  obtain c1 c2 where "insert_certified_body sj sk t c c1 = (Ok (), c2)"
    using certified.success_commits_body[OF run] by metis
  then obtain c1 u c2 where "insert_snapshot sj (snapshot_record sj sk t (can_schema (cert_snapshot c)) (PCertified c)) c1 = (Ok u, c2)"
    unfolding insert_certified_body_def Let_def inner_rows snapshot_record_def[symmetric]
    by (blast dest: io_then_Ok)
  then show ?thesis
    by (auto simp: insert_snapshot_def io_then_def io_bind_def io_result_def snapshot_record_def
        split: sum.splits)
qed

abbreviation index_key :: "CompleteIndexRequest \<Rightarrow> string" where
  "index_key request \<equiv> cir_source request @ '':'' @ cir_alias request"

lemma index_cases:
  assumes "index_complete_source ad sj request t cache store = Some (r, store')"
  obtains failure where "analyze_complete_source ad request = Some (FailedOutcome failure)" "store' = store"
    "r = Err (analysis_error failure)"
  | c e where "analyze_complete_source ad request = Some (CompleteOutcome c)"
    "insert_certified_schema_snapshot_graph sj (index_key request) t c store = (Err e, store')"
    "r = Err (storage_error ''could not persist certified snapshot'' e)"
  | c where "analyze_complete_source ad request = Some (CompleteOutcome c)"
    "insert_certified_schema_snapshot_graph sj (index_key request) t c store = (Ok (), store')"
    "r = Ok (index_result request t cache (index_key request) c)"
proof -
  obtain outcome where an: "analyze_complete_source ad request = Some outcome"
    using assms by (auto simp: index_complete_source_def)
  show thesis
  proof (cases outcome)
    case (FailedOutcome failure)
    then show thesis using assms that(1) by (simp add: index_complete_source_def an)
  next
    case (CompleteOutcome c)
    obtain s conn where run: "insert_certified_schema_snapshot_graph sj (index_key request) t c store = (s, conn)"
      by fastforce
    show thesis
      using assms an run that(2)[of c] that(3)[of c]
      by (cases s) (auto simp: index_complete_source_def CompleteOutcome Let_def)
  qed
qed

lemma index_Ok:
  assumes "index_complete_source ad sj request t cache store = Some (Ok res, store')"
  obtains c where "analyze_complete_source ad request = Some (CompleteOutcome c)"
    "insert_certified_schema_snapshot_graph sj (index_key request) t c store = (Ok (), store')"
    "res = index_result request t cache (index_key request) c"
  using assms by (rule index_cases) (use that in auto)

lemma index_Err:
  assumes "index_complete_source ad sj request t cache store = Some (Err err, store')"
  obtains failure where "analyze_complete_source ad request = Some (FailedOutcome failure)" "store' = store"
    "err = analysis_error failure"
  | c e where "analyze_complete_source ad request = Some (CompleteOutcome c)"
    "insert_certified_schema_snapshot_graph sj (index_key request) t c store = (Err e, store')"
    "err = storage_error ''could not persist certified snapshot'' e"
  using assms by (rule index_cases) (use that in auto)

lemma certified_error_atomic:
  "insert_certified_schema_snapshot_graph sj sk t c conn = (Err e, conn') \<Longrightarrow> durable conn' = durable conn"
  unfolding insert_certified_schema_snapshot_graph_def
  by (erule guarded_error) (rule certified.error_keeps_durable)

lemma projected_lengths:
  assumes "complete_certificate c" and "projectable sj sk c"
  shows "length (nodes_of sj sk c) = prc_objects (certified_graph_projection_counts c)"
    "length (edges_of sj sk c) = prc_graph_edges (certified_graph_projection_counts c)"
proof -
  show "length (nodes_of sj sk c) = prc_objects (certified_graph_projection_counts c)"
    by (simp add: expected_nodes[OF assms(1)] certified_node_keys(2)[OF assms(1)])
  have "card (ge_edge_key ` set (edges_of sj sk c)) = length (edges_of sj sk c)"
    using assms(2) by (metis distinct_card length_map list.set_map projectable_def)
  with edge_counts_agree[OF assms(1), of sj sk] assms(2)
  show "length (edges_of sj sk c) = prc_graph_edges (certified_graph_projection_counts c)" by simp
qed

section \<open>Reading what was indexed\<close>

lemma find_filter: "filter p xs = y # ys \<Longrightarrow> List.find p xs = Some y"
  by (induction xs) (auto split: if_splits)

lemma try_run_simps [simp]:
  "try_run None f = None" "try_run (Some (Inl err)) f = Some (Err err)" "try_run (Some (Inr x)) f = f x"
  by (simp_all add: try_run_def)

lemma valid_payload_cases:
  assumes "validate_persisted_snapshot_payload sj p = Ok ()"
  obtains "snapshot_contract_version sj p = Ok None"
  | v c where "snapshot_contract_version sj p = Ok (Some v)" "parse_certified sj p = Ok c"
      "verify_certified_schema_snapshot c = Ok ()"
proof -
  obtain version where version: "snapshot_contract_version sj p = Ok version"
    using assms by (auto simp: validate_persisted_snapshot_payload_def try_with_Ok_iff)
  show thesis
    using assms version that
    by (cases version) (auto simp: validate_persisted_snapshot_payload_def try_with_Ok_iff)
qed

lemma summary_answers:
  assumes "no_read_faults store" and "filter (\<lambda>x. gs_snapshot_key x = sk) (gd_snapshots (cn_db store)) = [row]"
    and "validate_persisted_snapshot_payload sj (gs_payload_json row) = Ok ()"
  shows "\<exists>s. snapshot_summary sj sk store = Some (Ok s)
    \<and> ssm_objects s = length (filter (\<lambda>x. gn_snapshot_key x = sk) (gd_nodes (cn_db store)))
    \<and> ssm_relationships s = length (filter (\<lambda>x. ge_snapshot_key x = sk) (gd_edges (cn_db store)))"
proof -
  have reads: "cn_read_fault store q = None" for q using assms(1) by (simp add: no_read_faults_def)
  have row: "get_snapshot sk store = Ok (Some row)"
    using find_filter[OF assms(2)] by (simp add: get_snapshot_def read_with_def reads find_row_def)
  have counts: "node_count_for_snapshot sk store = Ok (length (filter (\<lambda>x. gn_snapshot_key x = sk) (gd_nodes (cn_db store))))"
    "edge_count_for_snapshot sk store = Ok (length (filter (\<lambda>x. ge_snapshot_key x = sk) (gd_edges (cn_db store))))"
    by (simp_all add: node_count_for_snapshot_def edge_count_for_snapshot_def read_with_def reads)
  have "\<exists>status certified. get_snapshot_contract_status sj sk store = Ok (Some status)
      \<and> get_certified_snapshot sj sk store = Ok certified"
    using assms(3)
    by (rule valid_payload_cases) (simp_all add: get_snapshot_contract_status_def get_certified_snapshot_def row)
  then show ?thesis by (auto simp: snapshot_summary_def row counts Let_def)
qed

lemma resolve_exact:
  assumes "no_read_faults store" and "filter (\<lambda>x. gs_snapshot_key x = sk) (gd_snapshots (cn_db store)) = [row]"
  shows "resolve_snapshot_key sk store = Ok sk"
  using assms find_filter[OF assms(2)]
  by (simp add: resolve_snapshot_key_def get_snapshot_def read_with_def no_read_faults_def find_row_def)

lemma summaries_of:
  assumes "\<forall>n\<in>set nodes. \<exists>s. object_summary n = Ok s"
  shows "\<exists>objects. collect_results (map object_summary nodes) = Ok objects \<and> map obs_object_key objects = map gn_node_key nodes"
  using assms
proof (induction nodes)
  case (Cons n nodes)
  then obtain s objects where "object_summary n = Ok s" "collect_results (map object_summary nodes) = Ok objects"
    "map obs_object_key objects = map gn_node_key nodes" by auto
  then show ?case using object_summary_key[of n s] by simp
qed simp

lemma list_answers:
  assumes "no_read_faults store" and "filter (\<lambda>x. gs_snapshot_key x = sk) (gd_snapshots (cn_db store)) = [row]"
    and "validate_persisted_snapshot_payload sj (gs_payload_json row) = Ok ()"
    and nodes: "filter (\<lambda>x. gn_snapshot_key x = sk) (gd_nodes (cn_db store)) = nodes"
    and all: "\<forall>n\<in>set nodes. \<exists>s. object_summary n = Ok s" and "0 < limit" and "offset \<le> i64_MAX"
  shows "\<exists>page. list_objects sj sk None None offset (Some limit) store = Some (Ok page)
    \<and> map obs_object_key (opg_objects page) = take (min limit 500) (drop offset
        (map gn_node_key (sort_key (\<lambda>n. (gn_label n, gn_node_key n)) nodes)))
    \<and> pgm_total (opg_page page) = length nodes \<and> ssm_objects (opg_snapshot page) = length nodes
    \<and> ssm_relationships (opg_snapshot page) = length (filter (\<lambda>x. ge_snapshot_key x = sk) (gd_edges (cn_db store)))
    \<and> (pgm_has_more (opg_page page) \<longleftrightarrow> offset + min limit 500 < length nodes)"
proof -
  have reads: "\<And>q. cn_read_fault store q = None" using assms(1) by (simp add: no_read_faults_def)
  obtain summary where summary: "snapshot_summary sj sk store = Some (Ok summary)"
    "ssm_objects summary = length nodes"
    "ssm_relationships summary = length (filter (\<lambda>x. ge_snapshot_key x = sk) (gd_edges (cn_db store)))"
    using summary_answers[OF assms(1-3)] nodes by auto
  have rows: "page_rows sk None None (cn_db store) = sort_key (\<lambda>n. (gn_label n, gn_node_key n)) nodes"
    by (simp add: page_rows_def node_in_page_def[abs_def] normalized_query_def nodes)
  have bounds: "sqlite_limit (min limit 500) = min limit 500" "sqlite_offset offset = offset"
    "saturating_add offset (min limit 500) = offset + min limit 500"
    using assms(7) by (auto simp: sqlite_limit_def sqlite_offset_def i64_MAX_def saturating_add_def usize_MAX_def min_def)
  let ?page = "take (min limit 500) (drop offset (sort_key (\<lambda>n. (gn_label n, gn_node_key n)) nodes))"
  have "\<forall>n\<in>set ?page. \<exists>s. object_summary n = Ok s"
    using all by (auto dest!: in_set_takeD in_set_dropD)
  then obtain objects where "collect_results (map object_summary ?page) = Ok objects"
    "map obs_object_key objects = map gn_node_key ?page"
    using summaries_of by blast
  then show ?thesis
    using assms(6) summary
    by (simp add: list_objects_def resolve_exact[OF assms(1,2)] find_nodes_page_answer[OF reads] rows bounds
        MAX_OBJECT_PAGE_LIMIT_def Let_def take_map drop_map)
qed

text \<open>The stored rows in the order of the pages are the keys of the snapshot ordered by label and text.\<close>

definition listing :: "CertifiedSchemaSnapshot \<Rightarrow> string list" where
  "listing c = map snd (sort (map (\<lambda>k. (object_kind_label (ok_object_kind k), key_to_string k)) (canonical_keys (cert_snapshot c))))"

lemma keys_of_sort_key: "map f (sort_key f xs) = sort (map f xs)"
  by (rule properties_for_sort[symmetric]) simp_all

lemma listing_of_nodes:
  assumes "complete_certificate c" and "readable_keys c"
    and "\<forall>n\<in>set (nodes_of sj sk c). \<exists>s. object_summary n = Ok s"
  shows "map gn_node_key (sort_key (\<lambda>n. (gn_label n, gn_node_key n)) (nodes_of sj sk c)) = listing c"
proof -
  let ?f = "\<lambda>n. (gn_label n, gn_node_key n)" and ?g = "\<lambda>s. (label_for s, s)"
  have "map ?f (nodes_of sj sk c) = map (?g \<circ> gn_node_key) (nodes_of sj sk c)"
    using assms(3) object_summary_label by auto
  from arg_cong[OF this, of mset]
  have "mset (map ?f (nodes_of sj sk c)) = image_mset ?g (mset (map gn_node_key (nodes_of sj sk c)))"
    by (simp only: mset_map multiset.map_comp)
  also have "mset (map gn_node_key (nodes_of sj sk c)) = mset (map key_to_string (canonical_keys (cert_snapshot c)))"
    unfolding nodes_of_def mset_projected_node_keys by (simp add: node_keys_def canonical_keys_def)
  also have "image_mset ?g \<dots> = mset (map (\<lambda>k. (object_kind_label (ok_object_kind k), key_to_string k)) (canonical_keys (cert_snapshot c)))"
    using assms(2) by (auto simp: readable_keys_def label_for_def multiset.map_comp comp_def intro!: image_mset_cong)
  finally have "sort (map ?f (nodes_of sj sk c)) = sort (map (\<lambda>k. (object_kind_label (ok_object_kind k), key_to_string k)) (canonical_keys (cert_snapshot c)))"
    by (intro properties_for_sort) simp_all
  then have "map snd (map ?f (sort_key ?f (nodes_of sj sk c))) = listing c"
    unfolding keys_of_sort_key listing_def by simp
  then show ?thesis by (simp add: comp_def)
qed

section \<open>A sample request\<close>

definition sample_adapters :: "CertifiedSchemaSnapshot \<Rightarrow> adapters" where
  "sample_adapters c =
     \<lparr>ad_sqlite = (\<lambda>_ _ _ _ _. Some (CompleteOutcome c)), ad_postgres = (\<lambda>_ _ _ _. None),
       ad_yugabytedb = (\<lambda>_ _ _ _. None), ad_mysql = (\<lambda>_ _ _ _. None), ad_sqlserver = (\<lambda>_ _ _ _ _. None),
       ad_oracle = (\<lambda>_ _ _ _ _. None), ad_odbc = (\<lambda>_ _ _ _ _. None), ad_fs = sample_ddl_fs,
       ad_parser = sample_ddl_parser, ad_engine = \<lparr>eng_open = Ok (), eng_execute = (\<lambda>_ _. Ok ())\<rparr>,
       ad_obs = (\<lambda>_. \<lparr>mo_cancelled = False, mo_now = 0\<rparr>), ad_clock_max = 0,
       ad_ddl_introspect = (\<lambda>_ _. Ok c), ad_display_path = (\<lambda>_. [])\<rparr>"

definition sample_request :: CompleteIndexRequest where
  "sample_request = new_index_request ''sqlite'' (Some [Normal ''db'']) None ''app''"

lemma sample_request_accepted: "request_complaint sample_request = Some None"
proof -
  have "redact_connection_string ''app'' = Some ''app''" "\<not> blank ''app''" "\<not> has_control ''app''" by code_simp+
  then show ?thesis
    by (simp add: request_complaint_def sample_request_def new_index_request_def DEFAULT_TIMEOUT_MS_def
        MAX_TIMEOUT_MS_def invalid_scope_def file_sources_def connection_sources_def)
qed

lemma sample_analysis: "analyze_complete_source (sample_adapters c) sample_request = Some (CompleteOutcome c)"
proof -
  have "validate_index_request sample_request = Some None"
    by (simp add: validate_index_request_def sample_request_accepted)
  then show ?thesis
    by (simp add: analyze_complete_source_def dispatch_source_def enforce_requested_product_def sample_request_def
        new_index_request_def sample_adapters_def)
qed

end
