(* ===== verification/Mcp_Types.thy ===== *)
theory Mcp_Types
  imports Interface_Contract
begin

text \<open>
  \<open>types.rs\<close> of the MCP server: the requests of the tools and what they return. The derived decoders and
  encoders are those of the protocol library. Types that also exist on the command line carry the prefix \<open>Mcp\<close>.
\<close>

section \<open>Requests and results\<close>

record GraphStatsRequest =
  gsq_cache_path :: "string option"

record GraphStatsResult =
  gsr_cache_path :: string
  gsr_cache_exists :: bool
  gsr_indexed_snapshots :: nat
  gsr_error :: "string option"

record IndexDatabaseRequest =
  idr_source :: string
  idr_path :: "string option"
  idr_connection_string :: "string option"
  idr_alias :: string
  idr_requested_catalogs :: "string list"
  idr_requested_schemas :: "string list"
  idr_timeout_ms :: "nat option"
  idr_cache_path :: "string option"

record ListDatabasesRequest =
  ldq_cache_path :: "string option"

record ListDatabasesResult =
  ldr_cache_path :: string
  ldr_snapshots :: "SnapshotSummary list"

record ListSnapshotsRequest =
  lsq_cache_path :: "string option"

record ListSnapshotsResult =
  lsr_contract_version :: nat
  lsr_cache_path :: string
  lsr_snapshots :: "SnapshotSummary list"

record DescribeSnapshotRequest =
  dsq_snapshot :: string
  dsq_cache_path :: "string option"

record ListObjectsRequest =
  loq_snapshot :: string
  loq_kind :: "string option"
  loq_offset :: "nat option"
  loq_limit :: "nat option"
  loq_cache_path :: "string option"

record FindObjectsRequest =
  foq_snapshot :: string
  foq_query :: string
  foq_kind :: "string option"
  foq_offset :: "nat option"
  foq_limit :: "nat option"
  foq_cache_path :: "string option"

record DescribeObjectRequest =
  doq_snapshot :: string
  doq_object_key :: string
  doq_relationship_limit :: "nat option"
  doq_cache_path :: "string option"

record ListTablesRequest =
  ltq_alias :: string
  ltq_cache_path :: "string option"
  ltq_name_filter :: "string option"
  ltq_offset :: "nat option"
  ltq_limit :: "nat option"

record TableMatch =
  tmt_object_key :: string
  tmt_database :: string
  tmt_schema :: string
  tmt_table :: string

record McpPageMetadata =
  mpg_total :: nat
  mpg_offset :: nat
  mpg_limit_requested :: nat
  mpg_limit_applied :: nat
  mpg_limit_clamped :: bool
  mpg_has_more :: bool

record ListTablesResult =
  ltr_snapshot_key :: string
  ltr_tables :: "string list"
  ltr_table_matches :: "TableMatch list"
  ltr_page :: McpPageMetadata

record DescribeTableRequest =
  dtq_alias :: string
  dtq_table_name :: string
  dtq_cache_path :: "string option"

record ColumnDescription =
  cld_object_key :: string
  cld_name :: string
  cld_ordinal_position :: nat
  cld_data_type :: string
  cld_nullable :: bool
  cld_default_value :: "string option"
  cld_generated :: bool

record ConstraintDescription =
  cnd_object_key :: string
  cnd_name :: string
  cnd_kind :: string
  cnd_column_keys :: "string list"
  cnd_columns :: "string list"
  cnd_referenced_table_key :: "string option"
  cnd_referenced_column_keys :: "string list"
  cnd_expression :: "string option"

record McpForeignKeyDescription =
  mfk_object_key :: string
  mfk_name :: string
  mfk_table_key :: string
  mfk_table :: string
  mfk_column_keys :: "string list"
  mfk_columns :: "string list"
  mfk_referenced_table_key :: "string option"
  mfk_referenced_table :: string
  mfk_referenced_column_keys :: "string list"
  mfk_referenced_columns :: "string list"

record ForeignKeysDescription =
  fks_outbound :: "McpForeignKeyDescription list"
  fks_inbound :: "McpForeignKeyDescription list"

record IndexDescription =
  ixd_object_key :: string
  ixd_name :: string
  ixd_column_keys :: "string list"
  ixd_columns :: "string list"
  ixd_unique :: bool
  ixd_primary :: bool
  ixd_predicate :: "string option"
  ixd_expression :: "string option"

record McpTableDescription =
  mtd_snapshot_key :: string
  mtd_object_key :: string
  mtd_database :: string
  mtd_schema :: string
  mtd_table :: string
  mtd_columns :: "ColumnDescription list"
  mtd_primary_key :: "string list"
  mtd_primary_key_keys :: "string list"
  mtd_constraints :: "ConstraintDescription list"
  mtd_foreign_keys :: ForeignKeysDescription
  mtd_indexes :: "IndexDescription list"
  mtd_capability_warnings :: "string list"

record FindTableRequest =
  ftq_alias :: string
  ftq_query :: string
  ftq_cache_path :: "string option"
  ftq_offset :: "nat option"
  ftq_limit :: "nat option"

record FindTableResult =
  ftr_snapshot_key :: string
  ftr_tables :: "string list"
  ftr_table_matches :: "TableMatch list"
  ftr_page :: McpPageMetadata

record FindColumnRequest =
  fcq_alias :: string
  fcq_query :: string
  fcq_cache_path :: "string option"
  fcq_offset :: "nat option"
  fcq_limit :: "nat option"

record ColumnMatch =
  cmt_object_key :: string
  cmt_table_key :: string
  cmt_database :: string
  cmt_schema :: string
  cmt_table :: string
  cmt_column :: string

record FindColumnResult =
  fcr_snapshot_key :: string
  fcr_columns :: "ColumnMatch list"
  fcr_page :: McpPageMetadata

record ImpactAnalysisRequest =
  iaq_alias :: string
  iaq_object_key :: "string option"
  iaq_table :: "string option"
  iaq_column :: "string option"
  iaq_direction :: string
  iaq_max_depth :: "nat option"
  iaq_result_limit :: "nat option"
  iaq_cache_path :: "string option"

record TraceRelationshipsRequest =
  trq_alias :: string
  trq_start_object_key :: string
  trq_direction :: string
  trq_max_depth :: "nat option"
  trq_result_limit :: "nat option"
  trq_cache_path :: "string option"

record SchemaDiffRequest =
  sdq_cache_path :: "string option"
  sdq_from_alias :: string
  sdq_to_alias :: string
  sdq_result_limit :: "nat option"

record QueryPayloadArrayMinLen =
  qpa_field :: string
  qpa_min_len :: nat

record QueryGraphTraversalRequest =
  qgt_start_node_key :: string
  qgt_direction :: string
  qgt_max_depth :: nat

record QueryGraphRequest =
  qgq_cache_path :: "string option"
  qgq_alias :: "string option"
  qgq_snapshot_key :: "string option"
  qgq_node_label :: "string option"
  qgq_node_key_contains :: "string option"
  qgq_name_contains :: "string option"
  qgq_edge_type :: "string option"
  qgq_payload_array_min_len :: "QueryPayloadArrayMinLen option"
  qgq_traversal :: "QueryGraphTraversalRequest option"
  qgq_limit :: nat

end
