(* ===== verification/Relationship_Trace.thy ===== *)
theory Relationship_Trace
  imports Impact_Analysis
begin

text \<open>
  \<open>relationship_trace.rs\<close>: all paths from an object, breadth first, with a bound on the depth and on
  the number of edges that may be followed. The specification is the inductive set \<open>simple_path\<close> of
  the paths that visit no object twice.
\<close>

section \<open>Types\<close>

record GraphPathHop =
  gph_node_key :: string
  gph_label :: string
  gph_edge_type_used :: "string option"
  gph_edge_from :: "string option"
  gph_edge_to :: "string option"

text \<open>A \<open>GraphPath\<close> is the list of its hops.\<close>

type_synonym GraphPath = "GraphPathHop list"

record BoundedRelationshipTraceResult =
  btr_paths :: "GraphPath list"
  btr_truncated :: bool

type_synonym trace_state = "GraphPath list \<times> (GraphPath \<times> string set) list"

section \<open>The loops\<close>

definition start_hop :: "string \<Rightarrow> GraphNodeRecord \<Rightarrow> GraphPathHop" where
  "start_hop start_key start_node =
     \<lparr>gph_node_key = start_key, gph_label = gn_label start_node, gph_edge_type_used = None,
       gph_edge_from = None, gph_edge_to = None\<rparr>"

definition next_hop :: "GraphEdgeRecord \<Rightarrow> string \<Rightarrow> GraphNodeRecord \<Rightarrow> GraphPathHop" where
  "next_hop edge next_key node =
     \<lparr>gph_node_key = next_key, gph_label = gn_label node, gph_edge_type_used = Some (ge_edge_type edge),
       gph_edge_from = Some (ge_edge_from edge), gph_edge_to = Some (ge_edge_to edge)\<rparr>"

fun trace_visit ::
  "string \<Rightarrow> Connection \<Rightarrow> nat \<Rightarrow> GraphPath \<Rightarrow> string set \<Rightarrow> next_edge list \<Rightarrow> trace_state
    \<Rightarrow> (GraphStoreError, trace_state) result" where
  "trace_visit snapshot_key store max_depth hops visited [] st = Ok st"
| "trace_visit snapshot_key store max_depth hops visited ((edge, next_key) # edges) (paths, queue) =
     (if next_key \<in> visited then trace_visit snapshot_key store max_depth hops visited edges (paths, queue)
      else
        try_with (get_node snapshot_key next_key store) (\<lambda>found.
          case found of
            None \<Rightarrow> trace_visit snapshot_key store max_depth hops visited edges (paths, queue)
          | Some node \<Rightarrow>
              (let depth = length hops - 1;
                   next_hops = hops @ [next_hop edge next_key node]
               in trace_visit snapshot_key store max_depth hops visited edges
                    (paths @ [next_hops],
                     if depth + 1 < max_depth then queue @ [(next_hops, insert next_key visited)]
                     else queue))))"

text \<open>The rows that a node can have, and the weight of a queue that decreases with every round.\<close>

definition trace_weight :: "Connection \<Rightarrow> nat \<Rightarrow> (GraphPath \<times> string set) list \<Rightarrow> nat" where
  "trace_weight store max_depth queue =
     sum_list (map (\<lambda>(hops, _). Suc (2 * length (gd_edges (cn_db store))) ^ (Suc max_depth - length hops)) queue)"

lemma trace_weight_simps [simp]:
  "trace_weight store md [] = 0"
  "trace_weight store md ((hops, v) # queue) =
     Suc (2 * length (gd_edges (cn_db store))) ^ (Suc md - length hops) + trace_weight store md queue"
  "trace_weight store md (queue @ queue') = trace_weight store md queue + trace_weight store md queue'"
  by (simp_all add: trace_weight_def)

lemma length_dedup: "length (dedup_by_key f xs) \<le> length xs"
  by (induction f xs rule: dedup_by_key.induct) auto

lemma fetch_both_length:
  assumes "fetch_both outs ins b = (es, partial)"
  shows "length es \<le> length outs + length ins"
proof -
  have merge: "length es \<le> length xs" if "merge_bounded_edges xs b st = (es, partial)" for xs st
    using that length_dedup[of "\<lambda>e. ge_edge_key (fst e)" "sort_key (\<lambda>e. (traversal_edge_priority
        (ge_edge_type (fst e)), ge_edge_key (fst e))) xs"]
    by (auto simp: merge_bounded_edges_def Let_def)
  show ?thesis
    using merge[OF assms[unfolded fetch_both_def Let_def]] by simp
qed

lemma next_edges_bounded_length:
  assumes "next_edges_bounded sk k direction b store = Ok (es, partial)"
  shows "length es \<le> 2 * length (gd_edges (cn_db store))"
proof (cases "b = usize_MAX")
  case True
  then have "es = map outbound (out_rows ge_edge_key direction sk k (cn_db store))
      @ map inbound (in_rows ge_edge_key direction sk k (cn_db store))"
    using next_edges_bounded_Ok[OF assms] next_edges_Ok by simp
  then show ?thesis
    using side_rows_facts(2)[of ge_edge_key "direction \<in> {Outbound, Both}" _ "cn_db store"]
      side_rows_facts(2)[of ge_edge_key "direction \<in> {Inbound, Both}" _ "cn_db store"]
    by (simp only: length_append length_map mult_2) (rule add_mono; blast)
next
  case False
  let ?o = "out_rows by_priority direction sk k (cn_db store)"
  let ?i = "in_rows by_priority direction sk k (cn_db store)"
  have "fetch_both ?o ?i b = (es, partial)"
    using next_edges_bounded_Ok[OF assms] False by simp
  then have "length es \<le> length ?o + length ?i" by (rule fetch_both_length)
  also have "\<dots> \<le> length (gd_edges (cn_db store)) + length (gd_edges (cn_db store))"
    by (intro add_mono side_rows_facts(2))
  finally show ?thesis by simp
qed

lemma trace_visit_weight:
  assumes "trace_visit sk store md hops v es (paths, queue) = Ok (paths', queue')"
  shows "trace_weight store md queue' \<le> trace_weight store md queue
    + (if length hops - 1 + 1 < md then length es * Suc (2 * length (gd_edges (cn_db store))) ^ (md - length hops) else 0)"
  using assms
proof (induction sk store md hops v es "(paths, queue)" arbitrary: paths queue rule: trace_visit.induct)
  case (2 sk store md hops v e k es paths queue)
  show ?case
  proof (cases "k \<in> v")
    case True
    then show ?thesis using 2(1)[OF True] 2(4) by (auto split: if_splits)
  next
    case False
    then obtain found where get: "get_node sk k store = Ok found"
      using 2(4) by (auto simp: try_with_Ok_iff)
    show ?thesis
    proof (cases found)
      case None
      then show ?thesis using 2(2)[OF False] 2(4) False get by (auto split: if_splits)
    next
      case (Some n)
      then show ?thesis
        using 2(3)[OF False refl refl, of n] 2(4) False get by (auto simp: Let_def split: if_splits)
    qed
  qed
qed simp

lemma trace_round_decreases:
  assumes "next_edges_bounded sk k direction b store = Ok (es, partial)"
    and "trace_visit sk store md hops v es (paths, queue) = Ok (paths', queue')"
  shows "trace_weight store md queue' < trace_weight store md ((hops, v) # queue)"
proof -
  let ?B = "Suc (2 * length (gd_edges (cn_db store)))"
  have "length es * ?B ^ (md - length hops) < ?B ^ (Suc md - length hops)" if "length hops - 1 + 1 < md"
  proof -
    have "length es < ?B" using next_edges_bounded_length[OF assms(1)] by simp
    moreover have "?B ^ (Suc md - length hops) = ?B * ?B ^ (md - length hops)"
      using that by (simp add: Suc_diff_le)
    ultimately show ?thesis by (metis mult_less_mono1 zero_less_Suc zero_less_power)
  qed
  moreover have "0 < ?B ^ (Suc md - length hops)" by simp
  ultimately have "(if length hops - 1 + 1 < md then length es * ?B ^ (md - length hops) else 0)
      < ?B ^ (Suc md - length hops)" by auto
  with trace_visit_weight[OF assms(2)] show ?thesis unfolding trace_weight_simps(2) by linarith
qed

function trace_loop ::
  "string \<Rightarrow> Connection \<Rightarrow> Direction \<Rightarrow> nat \<Rightarrow> nat \<Rightarrow> trace_state \<Rightarrow> nat \<Rightarrow> bool
    \<Rightarrow> (GraphStoreError, GraphPath list \<times> bool) result" where
  "trace_loop snapshot_key store direction max_depth max_paths (paths, []) remaining_budget truncated =
     Ok (paths, truncated)"
| "trace_loop snapshot_key store direction max_depth max_paths (paths, (hops, visited) # queue)
     remaining_budget truncated =
     (let depth = length hops - 1 in
      if depth = max_depth
      then trace_loop snapshot_key store direction max_depth max_paths (paths, queue) remaining_budget truncated
      else case next_edges_bounded snapshot_key (gph_node_key (last hops)) direction remaining_budget store of
        Inl err \<Rightarrow> Err err
      | Inr (edges, has_more_edges) \<Rightarrow>
          (let remaining_budget = (if max_paths \<noteq> usize_MAX then remaining_budget - length edges
                                  else remaining_budget);
               truncated = (truncated \<or> has_more_edges)
           in case trace_visit snapshot_key store max_depth hops visited edges (paths, queue) of
                Inl err \<Rightarrow> Err err
              | Inr (paths, queue) \<Rightarrow>
                  if has_more_edges then Ok (paths, truncated)
                  else trace_loop snapshot_key store direction max_depth max_paths (paths, queue)
                    remaining_budget truncated))"
  by pat_completeness auto

termination
  by (relation "measure (\<lambda>(_, store, _, md, _, (_, queue), _). trace_weight store md queue)")
    (auto dest!: trace_round_decreases)

definition trace_relationships_bounded ::
  "string \<Rightarrow> string \<Rightarrow> Direction \<Rightarrow> nat \<Rightarrow> nat \<Rightarrow> Connection
    \<Rightarrow> (GraphStoreError, BoundedRelationshipTraceResult) result" where
  "trace_relationships_bounded snapshot_key start_key direction max_depth max_paths store =
     try_with (get_node snapshot_key start_key store) (\<lambda>found.
       case found of
         None \<Rightarrow> Ok \<lparr>btr_paths = [], btr_truncated = False\<rparr>
       | Some start_node \<Rightarrow>
           if max_depth = 0 then Ok \<lparr>btr_paths = [], btr_truncated = False\<rparr>
           else
             try_with (trace_loop snapshot_key store direction max_depth max_paths
                 ([], [([start_hop start_key start_node], {start_key})]) max_paths False)
               (\<lambda>(paths, truncated). Ok \<lparr>btr_paths = paths, btr_truncated = truncated\<rparr>))"

definition trace_relationships ::
  "string \<Rightarrow> string \<Rightarrow> Direction \<Rightarrow> nat \<Rightarrow> Connection \<Rightarrow> (GraphStoreError, GraphPath list) result" where
  "trace_relationships snapshot_key start_key direction max_depth store =
     try_with (trace_relationships_bounded snapshot_key start_key direction max_depth usize_MAX store)
       (\<lambda>bounded. Ok (btr_paths bounded))"

section \<open>Simple paths\<close>

definition extends :: "Direction \<Rightarrow> GraphDb \<Rightarrow> string \<Rightarrow> GraphPath \<Rightarrow> GraphPathHop \<Rightarrow> bool" where
  "extends direction db sk hops h =
     (\<exists>e k n. h = next_hop e k n \<and> incident direction db sk (gph_node_key (last hops)) (e, k)
        \<and> node_at db sk k = Some n \<and> k \<notin> gph_node_key ` set hops)"

inductive simple_path :: "Direction \<Rightarrow> GraphDb \<Rightarrow> string \<Rightarrow> string \<Rightarrow> GraphPath \<Rightarrow> bool"
  for direction db sk start where
  start: "node_at db sk start = Some n \<Longrightarrow> simple_path direction db sk start [start_hop start n]"
| hop: "simple_path direction db sk start hops \<Longrightarrow> extends direction db sk hops h
    \<Longrightarrow> simple_path direction db sk start (hops @ [h])"

lemma simple_path_not_Nil: "simple_path direction db sk start hops \<Longrightarrow> hops \<noteq> []"
  by (induction rule: simple_path.induct) auto

lemma simple_path_distinct:
  "simple_path direction db sk start hops \<Longrightarrow> distinct (map gph_node_key hops) \<and> gph_node_key (hd hops) = start"
proof (induction rule: simple_path.induct)
  case (hop hops h)
  then show ?case using simple_path_not_Nil[OF hop(1)] by (auto simp: extends_def next_hop_def)
qed (simp add: start_hop_def)

lemma simple_path_start:
  "simple_path direction db sk start p \<Longrightarrow> node_at db sk start = Some n \<Longrightarrow> \<exists>rest. p = start_hop start n # rest"
  by (induction rule: simple_path.induct) auto

lemma simple_path_snoc:
  assumes "simple_path direction db sk start (hops @ [h])" and "hops \<noteq> []"
  shows "simple_path direction db sk start hops \<and> extends direction db sk hops h"
  using assms by (cases rule: simple_path.cases) auto

lemma simple_path_prefix:
  assumes "simple_path direction db sk start (hops @ h # rest)" and "hops \<noteq> []"
  shows "simple_path direction db sk start hops \<and> extends direction db sk hops h"
  using assms
proof (induction rest rule: rev_induct)
  case Nil
  then show ?case using simple_path_snoc by blast
next
  case (snoc r rest)
  then show ?case using simple_path_snoc[of direction db sk start "hops @ h # rest" r] by simp
qed

section \<open>One round\<close>

definition extensions ::
  "(string \<Rightarrow> GraphNodeRecord option) \<Rightarrow> string set \<Rightarrow> next_edge list
    \<Rightarrow> (GraphEdgeRecord \<times> string \<times> GraphNodeRecord) list" where
  "extensions node v es =
     concat (map (\<lambda>(e, k). if k \<in> v then [] else (case node k of None \<Rightarrow> [] | Some n \<Rightarrow> [(e, k, n)])) es)"

abbreviation longer :: "GraphPath \<Rightarrow> GraphEdgeRecord \<times> string \<times> GraphNodeRecord \<Rightarrow> GraphPath" where
  "longer hops \<equiv> \<lambda>(e, k, n). hops @ [next_hop e k n]"

abbreviation entry :: "GraphPath \<Rightarrow> string set \<Rightarrow> GraphEdgeRecord \<times> string \<times> GraphNodeRecord \<Rightarrow> GraphPath \<times> string set" where
  "entry hops v \<equiv> \<lambda>(e, k, n). (hops @ [next_hop e k n], insert k v)"

lemma extensions_iff:
  "(e, k, n) \<in> set (extensions node v es) \<longleftrightarrow> (e, k) \<in> set es \<and> k \<notin> v \<and> node k = Some n"
  by (force simp: extensions_def split: if_splits option.splits)

lemma extensions_length: "length (extensions node v es) \<le> length es"
  by (induction es) (auto simp: extensions_def split: option.splits)

lemma trace_visit_Ok:
  assumes "trace_visit sk store md hops v es (paths, queue) = Ok st"
  shows "let N = extensions (node_at (cn_db store) sk) v es
    in st = (paths @ map (longer hops) N,
             queue @ (if length hops - 1 + 1 < md then map (entry hops v) N else []))"
  using assms
proof (induction sk store md hops v es "(paths, queue)" arbitrary: paths queue rule: trace_visit.induct)
  case (2 sk store md hops v e k es paths queue)
  show ?case
  proof (cases "k \<in> v")
    case True
    then show ?thesis using 2(1)[OF True] 2(4) by (simp add: extensions_def Let_def)
  next
    case False
    then obtain found where get: "get_node sk k store = Ok found"
      using 2(4) by (auto simp: try_with_Ok_iff)
    have found: "node_at (cn_db store) sk k = found" using get_node_node_at[OF get] by simp
    show ?thesis
    proof (cases found)
      case None
      then show ?thesis using 2(2)[OF False] 2(4) False get found by (simp add: extensions_def Let_def)
    next
      case (Some n)
      then show ?thesis
        using 2(3)[OF False refl refl, of n] 2(4) False get found
        by (simp add: extensions_def Let_def split: if_splits)
    qed
  qed
qed (simp add: extensions_def)

lemma trace_visit_answers:
  "no_read_faults store \<Longrightarrow> \<exists>st'. trace_visit sk store md hops v es st = Ok st'"
  by (induction sk store md hops v es st rule: trace_visit.induct)
    (auto simp: get_node_answers Let_def split: option.splits)

section \<open>The invariant\<close>

definition wanted :: "Direction \<Rightarrow> GraphDb \<Rightarrow> string \<Rightarrow> string \<Rightarrow> nat \<Rightarrow> GraphPath \<Rightarrow> bool" where
  "wanted direction db sk start md p = (simple_path direction db sk start p \<and> 2 \<le> length p \<and> length p \<le> Suc md)"

definition trace_sound :: "Direction \<Rightarrow> GraphDb \<Rightarrow> string \<Rightarrow> string \<Rightarrow> nat \<Rightarrow> GraphPath list \<Rightarrow> bool" where
  "trace_sound direction db sk start md paths =
     ((\<forall>p\<in>set paths. wanted direction db sk start md p) \<and> sorted (map length paths))"

definition queue_ok :: "Direction \<Rightarrow> GraphDb \<Rightarrow> string \<Rightarrow> string \<Rightarrow> nat \<Rightarrow> GraphPath \<times> string set \<Rightarrow> bool" where
  "queue_ok direction db sk start md q =
     (simple_path direction db sk start (fst q) \<and> snd q = gph_node_key ` set (fst q) \<and> length (fst q) \<le> md)"

definition pending :: "(GraphPath \<times> string set) list \<Rightarrow> GraphPath \<Rightarrow> bool" where
  "pending queue p = (\<exists>q\<in>set queue. \<exists>h rest. p = fst q @ h # rest)"

definition trace_inv :: "Direction \<Rightarrow> GraphDb \<Rightarrow> string \<Rightarrow> string \<Rightarrow> nat \<Rightarrow> trace_state \<Rightarrow> bool" where
  "trace_inv direction db sk start md = (\<lambda>(paths, queue).
     trace_sound direction db sk start md paths
     \<and> (\<forall>q\<in>set queue. queue_ok direction db sk start md q)
     \<and> sorted (map (length \<circ> fst) queue)
     \<and> (\<forall>q\<in>set queue. \<forall>p\<in>set (paths @ map fst queue). length p \<le> Suc (length (fst q)))
     \<and> (\<forall>p. wanted direction db sk start md p \<longrightarrow> p \<in> set paths \<or> pending queue p))"

lemma trace_inv_start:
  assumes "node_at db sk start = Some n" and "0 < md"
  shows "trace_inv direction db sk start md ([], [([start_hop start n], {start})])"
proof -
  have "\<exists>h rest. p = start_hop start n # h # rest" if p: "wanted direction db sk start md p" for p
  proof -
    obtain rest where "p = start_hop start n # rest"
      using simple_path_start[OF _ assms(1)] p by (auto simp: wanted_def)
    then show ?thesis using p by (cases rest) (auto simp: wanted_def)
  qed
  then show ?thesis
    using assms simple_path.start[OF assms(1)]
    by (auto simp: trace_inv_def trace_sound_def queue_ok_def pending_def start_hop_def)
qed

lemma trace_round:
  assumes near: "next_edges_bounded sk (gph_node_key (last hops)) direction b store = Ok (es, partial)"
    and visit: "trace_visit sk store md hops v es (paths, queue) = Ok (paths', queue')"
    and inv: "trace_inv direction (cn_db store) sk start md (paths, (hops, v) # queue)"
  shows trace_round_sound: "trace_sound direction (cn_db store) sk start md paths'"
    and trace_round_inv: "\<not> partial \<Longrightarrow> searchable (cn_db store)
      \<Longrightarrow> trace_inv direction (cn_db store) sk start md (paths', queue')"
proof -
  let ?db = "cn_db store"
  let ?N = "extensions (node_at ?db sk) v es"
  have hops: "simple_path direction ?db sk start hops" "v = gph_node_key ` set hops" "length hops \<le> md"
    using inv by (auto simp: trace_inv_def queue_ok_def)
  have one: "hops \<noteq> []" "length hops - 1 + 1 = length hops"
    using simple_path_not_Nil[OF hops(1)] by (cases hops; simp)+
  have st: "paths' = paths @ map (longer hops) ?N"
    "queue' = queue @ (if length hops < md then map (entry hops v) ?N else [])"
    using trace_visit_Ok[OF visit] one(2) by (simp_all add: Let_def)
  have ext: "extends direction ?db sk hops (next_hop e k n)" if "(e, k, n) \<in> set ?N" for e k n
    using that near.only_admitted[OF near] hops(2) unfolding extends_def extensions_iff by blast
  have new: "simple_path direction ?db sk start (hops @ [next_hop e k n])" if "(e, k, n) \<in> set ?N" for e k n
    using simple_path.hop[OF hops(1) ext[OF that]] .
  have low: "length p \<le> Suc (length hops)" if "p \<in> set paths \<or> p \<in> fst ` set queue" for p
    using inv that by (auto simp: trace_inv_def)
  show sound: "trace_sound direction ?db sk start md paths'"
    using inv new low hops(3) one(1)
    by (auto simp: st(1) trace_inv_def trace_sound_def wanted_def sorted_append Suc_le_eq comp_def split_def
        map_replicate_const)
  assume no: "\<not> partial" and db: "searchable ?db"
  note near' = near[unfolded eq_False[THEN iffD2, OF no]]
  have old: "\<forall>q\<in>set queue. queue_ok direction ?db sk start md q" "sorted (map (length \<circ> fst) queue)"
    "\<And>q. q \<in> set queue \<Longrightarrow> length hops \<le> length (fst q)"
    using inv by (auto simp: trace_inv_def)
  have queue: "\<forall>q\<in>set queue'. queue_ok direction ?db sk start md q"
    using old(1) new by (auto simp: st(2) queue_ok_def hops(2) next_hop_def)
  have sorted: "sorted (map (length \<circ> fst) queue')"
  proof -
    have "length a \<le> Suc (length hops)" if "(a, b) \<in> set queue" for a b using that low by force
    then show ?thesis using old(2) by (auto simp: st(2) sorted_append comp_def split_def map_replicate_const)
  qed
  have lens: "length p \<le> Suc (length (fst q))" if "q \<in> set queue'" "p \<in> set (paths' @ map fst queue')" for p q
  proof -
    have "length hops \<le> length (fst q)"
      using that(1) old(3)[of q] by (auto simp: st(2) split: if_splits)
    moreover have "length p \<le> Suc (length hops)"
      using that(2) low[of p] by (auto simp: st split: if_splits)
    ultimately show ?thesis by simp
  qed
  have "p \<in> set paths' \<or> pending queue' p" if p: "wanted direction ?db sk start md p" for p
  proof -
    have "p \<in> set paths \<or> pending ((hops, v) # queue) p" using inv p by (auto simp: trace_inv_def)
    then consider "p \<in> set paths" | "pending queue p" | h rest where "p = hops @ h # rest"
      by (auto simp: pending_def)
    then show ?thesis
    proof cases
      case 3
      then have "extends direction ?db sk hops h"
        using p simple_path_prefix[OF _ one(1)] by (auto simp: wanted_def)
      then obtain e k n where h: "h = next_hop e k n" "(e, k, n) \<in> set ?N"
        using near.all_admitted[OF near' db] hops(2) unfolding extends_def extensions_iff by blast
      show ?thesis
      proof (cases rest)
        case Nil
        then have "p \<in> set paths'" using h by (force simp: st(1) 3)
        then show ?thesis ..
      next
        case (Cons r rest')
        then have "length hops < md" using p 3 by (simp add: wanted_def)
        then have "entry hops v (e, k, n) \<in> set queue'" 
          using imageI[OF h(2), of "entry hops v"] by (simp add: st(2))
        moreover have "p = fst (entry hops v (e, k, n)) @ r # rest'" using 3 Cons h(1) by simp
        ultimately have "pending queue' p" unfolding pending_def by blast
        then show ?thesis ..
      qed
    qed (auto simp: st pending_def)
  qed
  then show "trace_inv direction ?db sk start md (paths', queue')"
    using sound queue sorted lens by (auto simp: trace_inv_def)
qed

section \<open>The whole trace\<close>

lemma trace_loop_step:
  assumes "trace_loop sk store direction md mp (paths, (hops, v) # queue) rb tr = Ok r" and "length hops - 1 \<noteq> md"
  obtains es partial paths' queue' where
    "next_edges_bounded sk (gph_node_key (last hops)) direction rb store = Ok (es, partial)"
    "trace_visit sk store md hops v es (paths, queue) = Ok (paths', queue')"
    "partial \<Longrightarrow> r = (paths', True)"
    "\<not> partial \<Longrightarrow> trace_loop sk store direction md mp (paths', queue')
       (if mp \<noteq> usize_MAX then rb - length es else rb) tr = Ok r"
  using assms by (auto simp: Let_def split: sum.splits if_splits)

lemma trace_inv_skip:
  assumes "trace_inv direction db sk start md (paths, (hops, v) # queue)"
  shows "length hops - 1 \<noteq> md"
proof -
  have "simple_path direction db sk start hops" "length hops \<le> md"
    using assms by (auto simp: trace_inv_def queue_ok_def)
  then show ?thesis using simple_path_not_Nil by (cases hops) fastforce+
qed

lemma trace_loop_Ok:
  assumes "trace_loop sk store direction md mp st rb tr = Ok (paths', tr')"
    and "searchable (cn_db store)" and "trace_inv direction (cn_db store) sk start md st"
  shows "trace_sound direction (cn_db store) sk start md paths'
    \<and> (\<not> tr' \<longrightarrow> (\<forall>p. wanted direction (cn_db store) sk start md p \<longrightarrow> p \<in> set paths'))"
  using assms
proof (induction sk store direction md mp st rb tr rule: trace_loop.induct)
  case (2 sk store direction md mp paths hops v queue rb tr)
  note depth = trace_inv_skip[OF 2(5)]
  from 2(3) depth obtain es partial paths2 queue2 where
    near: "next_edges_bounded sk (gph_node_key (last hops)) direction rb store = Ok (es, partial)"
    and visit: "trace_visit sk store md hops v es (paths, queue) = Ok (paths2, queue2)"
    and last: "partial \<Longrightarrow> (paths', tr') = (paths2, True)"
    and go: "\<not> partial \<Longrightarrow> trace_loop sk store direction md mp (paths2, queue2)
       (if mp \<noteq> usize_MAX then rb - length es else rb) tr = Ok (paths', tr')"
    by (rule trace_loop_step) blast
  note round = trace_round[OF near visit 2(5)]
  show ?case
  proof (cases partial)
    case True
    then show ?thesis using last round(1) by simp
  next
    case False
    show ?thesis
      using 2(2)[OF refl depth near refl refl refl visit refl] False go round(2) 2(4) by simp
  qed
qed (auto simp: trace_inv_def pending_def)

lemma trace_visit_length:
  assumes "trace_visit sk store md hops v es (paths, queue) = Ok (paths', queue')"
  shows "length paths' \<le> length paths + length es"
  using trace_visit_Ok[OF assms] extensions_length[of "node_at (cn_db store) sk" v es] by (simp add: Let_def)

lemma trace_loop_length:
  assumes "trace_loop sk store direction md mp st rb tr = Ok (paths', tr')" and "mp \<noteq> usize_MAX" and "rb < usize_MAX"
  shows "length paths' \<le> length (fst st) + rb"
  using assms
proof (induction sk store direction md mp st rb tr rule: trace_loop.induct)
  case (2 sk store direction md mp paths hops v queue rb tr)
  show ?case
  proof (cases "length hops - 1 = md")
    case True
    then show ?thesis using 2(1)[OF refl True] 2(3,4,5) by simp
  next
    case depth: False
    from 2(3) depth obtain es partial paths2 queue2 where
      near: "next_edges_bounded sk (gph_node_key (last hops)) direction rb store = Ok (es, partial)"
      and visit: "trace_visit sk store md hops v es (paths, queue) = Ok (paths2, queue2)"
      and last: "partial \<Longrightarrow> (paths', tr') = (paths2, True)"
      and go: "\<not> partial \<Longrightarrow> trace_loop sk store direction md mp (paths2, queue2)
         (if mp \<noteq> usize_MAX then rb - length es else rb) tr = Ok (paths', tr')"
      by (rule trace_loop_step) blast
    have es: "length es \<le> rb" using near.within_budget[OF near] 2(5) by simp
    note len = trace_visit_length[OF visit]
    show ?thesis
    proof (cases partial)
      case True
      then show ?thesis using last es len by simp
    next
      case False
      show ?thesis
        using 2(2)[OF refl depth near refl refl refl visit refl] False go es len 2(4,5)
        by (simp add: less_imp_diff_less)
    qed
  qed
qed simp

lemma trace_loop_unbounded:
  assumes "trace_loop sk store direction md mp st rb tr = Ok (paths', tr')" and "mp = usize_MAX" and "rb = usize_MAX"
    and "\<not> tr"
  shows "\<not> tr'"
  using assms
proof (induction sk store direction md mp st rb tr rule: trace_loop.induct)
  case (2 sk store direction md mp paths hops v queue rb tr)
  show ?case
  proof (cases "length hops - 1 = md")
    case True
    then show ?thesis using 2(1)[OF refl True] 2(3-6) by simp
  next
    case depth: False
    from 2(3) depth obtain es partial paths2 queue2 where
      near: "next_edges_bounded sk (gph_node_key (last hops)) direction rb store = Ok (es, partial)"
      and visit: "trace_visit sk store md hops v es (paths, queue) = Ok (paths2, queue2)"
      and go: "\<not> partial \<Longrightarrow> trace_loop sk store direction md mp (paths2, queue2)
         (if mp \<noteq> usize_MAX then rb - length es else rb) tr = Ok (paths', tr')"
      by (rule trace_loop_step) blast
    have no: "\<not> partial" using next_edges_bounded_Ok[OF near] 2(5) by simp
    show ?thesis using 2(2)[OF refl depth near refl refl refl visit refl] no go 2(4-6) by simp
  qed
qed simp

lemma trace_loop_answers:
  assumes "no_read_faults store"
  shows "\<exists>r. trace_loop sk store direction md mp st rb tr = Ok r"
  using assms
proof (induction sk store direction md mp st rb tr rule: trace_loop.induct)
  case (2 sk store direction md mp paths hops v queue rb tr)
  obtain es partial where near: "next_edges_bounded sk (gph_node_key (last hops)) direction rb store = Ok (es, partial)"
    using next_edges_bounded_answers[OF 2(3)] by blast
  obtain paths2 queue2 where visit: "trace_visit sk store md hops v es (paths, queue) = Ok (paths2, queue2)"
    using trace_visit_answers[OF 2(3), of sk md hops v es "(paths, queue)"] by auto
  show ?case
    using 2(1)[OF refl _ 2(3)] 2(2)[OF refl _ near refl refl refl visit refl _ 2(3)]
    by (auto simp: near visit Let_def)
qed simp

lemma trace_bounded_Ok:
  assumes run: "trace_relationships_bounded sk start direction md mp store = Ok b"
    and stored: "node_at (cn_db store) sk start = Some n" and "0 < md"
  shows "trace_loop sk store direction md mp ([], [([start_hop start n], {start})]) mp False
    = Ok (btr_paths b, btr_truncated b)"
proof -
  have "get_node sk start store = Ok (Some n)"
    using run get_node_node_at[of sk start store] stored
    by (fastforce simp: trace_relationships_bounded_def try_with_Ok_iff simp del: trace_loop.simps)
  then show ?thesis
    using run assms(3)
    by (auto simp: trace_relationships_bounded_def try_with_Ok_iff simp del: trace_loop.simps)
qed

lemma trace_empty:
  assumes "trace_relationships_bounded sk start direction md mp store = Ok b"
    and "node_at (cn_db store) sk start = None \<or> md = 0"
  shows "btr_paths b = []"
proof -
  obtain r where r: "get_node sk start store = Ok r" "r = None \<or> md = 0"
    using assms get_node_node_at[of sk start store] by (auto simp: trace_relationships_bounded_def try_with_Ok_iff)
  then show ?thesis using assms(1) by (cases r) (auto simp: trace_relationships_bounded_def)
qed

lemma bounded_trace:
  assumes run: "trace_relationships_bounded sk start direction md mp store = Ok b"
    and db: "searchable (cn_db store)" and stored: "node_at (cn_db store) sk start \<noteq> None"
  shows "trace_sound direction (cn_db store) sk start md (btr_paths b)
    \<and> (\<not> btr_truncated b \<longrightarrow> (\<forall>p. wanted direction (cn_db store) sk start md p \<longrightarrow> p \<in> set (btr_paths b)))"
proof (cases "md = 0")
  case True
  then show ?thesis using trace_empty[OF run] by (simp add: trace_sound_def wanted_def)
next
  case False
  obtain n where n: "node_at (cn_db store) sk start = Some n" using stored by blast
  with False show ?thesis
    using trace_loop_Ok[OF trace_bounded_Ok[OF run n] db trace_inv_start[OF n]] by blast
qed

lemma trace_answers:
  assumes "no_read_faults store"
  shows "\<exists>b. trace_relationships_bounded sk start direction md mp store = Ok b"
proof (cases "node_at (cn_db store) sk start")
  case (Some n)
  obtain r where "trace_loop sk store direction md mp ([], [([start_hop start n], {start})]) mp False = Ok r"
    using trace_loop_answers[OF assms] by blast
  then show ?thesis
    by (cases r) (simp add: trace_relationships_bounded_def get_node_answers[OF assms] Some del: trace_loop.simps)
qed (simp add: trace_relationships_bounded_def get_node_answers[OF assms])

lemma sample_path:
  "wanted Outbound (cn_db sample_graph) ''s'' ''a'' 2
     [start_hop ''a'' (sample_node ''a''), next_hop (sample_edge ''a'' ''b'') ''b'' (sample_node ''b'')]"
proof -
  have "incident Outbound (cn_db sample_graph) ''s'' ''a'' (sample_edge ''a'' ''b'', ''b'')"
    by (simp add: incident_def sample_graph_def sample_conn_def sample_edge_def)
  then have "extends Outbound (cn_db sample_graph) ''s'' [start_hop ''a'' (sample_node ''a'')]
      (next_hop (sample_edge ''a'' ''b'') ''b'' (sample_node ''b''))"
    unfolding extends_def using sample_graph_nodes(2) by (auto simp: start_hop_def)
  from simple_path.hop[OF simple_path.start[OF sample_graph_nodes(1)] this]
  show ?thesis by (simp add: wanted_def)
qed

section \<open>Properties\<close>

text \<open>C16: the relationship trace is exact. Started at a stored object, without a limit and on readable
  tables, it returns; it lists exactly the paths in the asked direction that visit no object twice
  and have between one and the maximal number of edges, the shorter ones first.\<close>

theorem trace_relationships_exact:
  assumes "no_read_faults store" and "searchable (cn_db store)" and "node_at (cn_db store) sk start \<noteq> None"
  shows "\<exists>paths. trace_relationships sk start direction md store = Ok paths
    \<and> (\<forall>p. p \<in> set paths \<longleftrightarrow>
          simple_path direction (cn_db store) sk start p \<and> 2 \<le> length p \<and> length p \<le> Suc md)
    \<and> sorted (map length paths)"
proof -
  obtain b where run: "trace_relationships_bounded sk start direction md usize_MAX store = Ok b"
    using trace_answers[OF assms(1)] by blast
  obtain n where n: "node_at (cn_db store) sk start = Some n" using assms(3) by blast
  have "btr_truncated b \<longrightarrow> md = 0"
    using trace_bounded_Ok[OF run n] trace_loop_unbounded[of sk store direction md usize_MAX _ usize_MAX False]
    by blast
  moreover have "\<not> wanted direction (cn_db store) sk start 0 p" for p by (simp add: wanted_def)
  ultimately have "\<forall>p. p \<in> set (btr_paths b) \<longleftrightarrow> wanted direction (cn_db store) sk start md p"
    and "sorted (map length (btr_paths b))"
    using bounded_trace[OF run assms(2,3)] by (auto simp: trace_sound_def)
  moreover have "trace_relationships sk start direction md store = Ok (btr_paths b)"
    by (simp add: trace_relationships_def run)
  ultimately show ?thesis by (auto simp: wanted_def)
qed

theorem trace_relationships_exact_witness:
  "\<exists>paths. trace_relationships ''s'' ''a'' Outbound 2 sample_graph = Ok paths
     \<and> [start_hop ''a'' (sample_node ''a''), next_hop (sample_edge ''a'' ''b'') ''b'' (sample_node ''b'')] \<in> set paths"
  using trace_relationships_exact[OF sample_graph_reads sample_graph_searchable, of "''s''" "''a''" Outbound 2]
    sample_graph_nodes(1) sample_path by (auto simp: wanted_def)

text \<open>C30: a bounded trace is honest. It returns at most the asked number of paths, each of them a
  real path without repeated objects within the maximal depth; and when it is not marked as
  truncated, it has all of them.\<close>

theorem bounded_trace_honest:
  assumes "trace_relationships_bounded sk start direction md mp store = Ok b"
    and "searchable (cn_db store)" and "node_at (cn_db store) sk start \<noteq> None" and "mp < usize_MAX"
  shows "length (btr_paths b) \<le> mp
    \<and> (\<forall>p\<in>set (btr_paths b).
         simple_path direction (cn_db store) sk start p \<and> 2 \<le> length p \<and> length p \<le> Suc md)
    \<and> (\<not> btr_truncated b \<longrightarrow>
         (\<forall>p. simple_path direction (cn_db store) sk start p \<and> 2 \<le> length p \<and> length p \<le> Suc md
            \<longrightarrow> p \<in> set (btr_paths b)))"
proof -
  obtain n where n: "node_at (cn_db store) sk start = Some n" using assms(3) by blast
  have "length (btr_paths b) \<le> mp"
  proof (cases "md = 0")
    case False
    then show ?thesis using trace_loop_length[OF trace_bounded_Ok[OF assms(1) n]] assms(4) by simp
  qed (use trace_empty[OF assms(1)] in simp)
  then show ?thesis using bounded_trace[OF assms(1-3)] unfolding trace_sound_def wanted_def by blast
qed

theorem bounded_trace_honest_witness:
  "\<exists>b. trace_relationships_bounded ''s'' ''a'' Both 3 1 sample_graph = Ok b \<and> length (btr_paths b) \<le> 1"
proof -
  obtain b where run: "trace_relationships_bounded ''s'' ''a'' Both 3 1 sample_graph = Ok b"
    using trace_answers[OF sample_graph_reads] by blast
  with bounded_trace_honest[OF run sample_graph_searchable] sample_graph_nodes(1)
  show ?thesis by (simp add: usize_MAX_def)
qed

end
