(* ===== verification/Table_Lookup.thy ===== *)
theory Table_Lookup
  imports Relationship_Trace Interface_Contract
begin

text \<open>
  How the clients look into the stored graph: the functions of the command line's \<open>metadata.rs\<close> that the
  MCP server's \<open>tools.rs\<close> repeats word for word. The readers of the JSON payloads of columns, constraints and
  indexes are parameters. The lemmas say what the functions return on a store that holds the projection of
  a certified snapshot.
\<close>

section \<open>Reading nodes\<close>

record readers =
  rd_column :: "string \<Rightarrow> (string, ColumnObject) result"
  rd_constraint :: "string \<Rightarrow> (string, ConstraintObject) result"
  rd_index :: "string \<Rightarrow> (string, IndexObject) result"

definition store_text :: "(GraphStoreError, 'a) result \<Rightarrow> (string, 'a) result" where
  "store_text r = map_err graph_store_error_to_string r"

definition not_in_cache :: "string \<Rightarrow> string" where
  "not_in_cache snapshot_key = ''snapshot '' @ quoted snapshot_key @ '' not found in cache; run index first''"

definition require_snapshot :: "string \<Rightarrow> Connection \<Rightarrow> (string, unit) result" where
  "require_snapshot snapshot_key store =
     try_with (store_text (get_snapshot snapshot_key store)) (\<lambda>found.
       ok_or (not_in_cache snapshot_key) (map_option (\<lambda>_. ()) found))"

definition snapshot_capability_warnings :: "serde \<Rightarrow> string \<Rightarrow> Connection \<Rightarrow> (string, string list) result" where
  "snapshot_capability_warnings sj snapshot_key store =
     try_with (store_text (get_snapshot_capabilities sj snapshot_key store)) (\<lambda>capabilities.
       ok_or (not_in_cache snapshot_key) (map_option capability_warnings capabilities))"

definition required_node :: "string \<Rightarrow> string \<Rightarrow> Connection \<Rightarrow> (string, GraphNodeRecord) result" where
  "required_node snapshot_key node_key store =
     try_with (store_text (get_node snapshot_key node_key store)) (\<lambda>found.
       ok_or (''graph node '' @ quoted node_key @ '' not found'') found)"

definition object_key_of :: "GraphNodeRecord \<Rightarrow> (string, ObjectKey) result" where
  "object_key_of node =
     map_err (\<lambda>_. ''invalid graph node key '' @ quoted (gn_node_key node) @ '': invalid stable database object key'')
       (parse_object_key (gn_node_key node))"

definition old_cache_error :: "GraphNodeRecord \<Rightarrow> string" where
  "old_cache_error node =
     ''graph node '' @ quoted (gn_node_key node) @ '' is missing metadata payload; re-run index for this alias''"

definition column_from_node :: "readers \<Rightarrow> GraphNodeRecord \<Rightarrow> (string, ColumnObject) result" where
  "column_from_node rd node = map_err (\<lambda>_. old_cache_error node) (rd_column rd (gn_payload_json node))"

definition constraint_from_node :: "readers \<Rightarrow> GraphNodeRecord \<Rightarrow> (string, ConstraintObject) result" where
  "constraint_from_node rd node = map_err (\<lambda>_. old_cache_error node) (rd_constraint rd (gn_payload_json node))"

definition index_from_node :: "readers \<Rightarrow> GraphNodeRecord \<Rightarrow> (string, IndexObject) result" where
  "index_from_node rd node = map_err (\<lambda>_. old_cache_error node) (rd_index rd (gn_payload_json node))"

definition foreign_key_from_node :: "readers \<Rightarrow> GraphNodeRecord \<Rightarrow> (string, ConstraintObject) result" where
  "foreign_key_from_node rd node =
     try_with (constraint_from_node rd node) (\<lambda>constraint.
       if con_kind constraint = ConstraintKind.ForeignKey then Ok constraint
       else Err (''graph node '' @ quoted (gn_node_key node) @ '' is not a foreign key''))"

section \<open>Names\<close>

definition names_from_keys :: "ObjectKey list \<Rightarrow> string list" where
  "names_from_keys keys =
     map (\<lambda>key. case ok_sub_object key of Some sub_object \<Rightarrow> sub_object | None \<Rightarrow> ok_object_name key) keys"

definition keys_as_strings :: "ObjectKey list \<Rightarrow> string list" where
  "keys_as_strings keys = map key_to_string keys"

fun constraint_kind_name :: "ConstraintKind \<Rightarrow> string" where
  "constraint_kind_name ConstraintKind.PrimaryKey = ''primary_key''"
| "constraint_kind_name ConstraintKind.ForeignKey = ''foreign_key''"
| "constraint_kind_name Unique = ''unique''"
| "constraint_kind_name Check = ''check''"

fun direction_name :: "Direction \<Rightarrow> string" where
  "direction_name Inbound = ''inbound''"
| "direction_name Outbound = ''outbound''"
| "direction_name Both = ''both''"

section \<open>The parts of a table\<close>

text \<open>The loop over the edges that leave a table: those of one type, their nodes read one after the other.\<close>

definition table_items ::
  "string \<Rightarrow> (GraphNodeRecord \<Rightarrow> (string, 'a) result) \<Rightarrow> string \<Rightarrow> string \<Rightarrow> Connection \<Rightarrow> (string, 'a list) result" where
  "table_items edge_type from_node snapshot_key table_key store =
     try_with (store_text (edges_from snapshot_key table_key store)) (\<lambda>edges.
       try_fold (\<lambda>edge items.
           if ge_edge_type edge = edge_type
           then try_with (required_node snapshot_key (ge_edge_to edge) store) (\<lambda>node.
             try_with (from_node node) (\<lambda>item. Ok (items @ [item])))
           else Ok items)
         edges [])"

definition table_columns :: "readers \<Rightarrow> string \<Rightarrow> string \<Rightarrow> Connection \<Rightarrow> (string, ColumnObject list) result" where
  "table_columns rd snapshot_key table_key store =
     try_with (table_items ''TABLE_HAS_COLUMN'' (column_from_node rd) snapshot_key table_key store) (\<lambda>columns.
       Ok (sort_key col_ordinal_position columns))"

definition table_constraints :: "readers \<Rightarrow> string \<Rightarrow> string \<Rightarrow> Connection \<Rightarrow> (string, ConstraintObject list) result" where
  "table_constraints rd snapshot_key table_key store =
     table_items ''TABLE_HAS_CONSTRAINT'' (constraint_from_node rd) snapshot_key table_key store"

definition table_indexes :: "readers \<Rightarrow> string \<Rightarrow> string \<Rightarrow> Connection \<Rightarrow> (string, IndexObject list) result" where
  "table_indexes rd snapshot_key table_key store =
     try_with (table_items ''TABLE_HAS_INDEX'' (index_from_node rd) snapshot_key table_key store) (\<lambda>indexes.
       Ok (sort_key idx_name indexes))"

text \<open>The nodes of the foreign keys that point to one of the columns, each once and in the order of the keys,
  and the foreign keys read from them.\<close>

definition inbound_keys :: "string \<Rightarrow> ColumnObject list \<Rightarrow> Connection \<Rightarrow> (string, string bset) result" where
  "inbound_keys snapshot_key columns store =
     try_fold (\<lambda>column keys.
         try_with (store_text (edges_to snapshot_key (key_to_string (col_key column)) store)) (\<lambda>edges.
           Ok (fold (\<lambda>edge keys.
               if ge_edge_type edge = ''FK_TO_COLUMN'' then bs_insert (ge_edge_from edge) keys else keys) edges keys)))
       columns []"

definition inbound_constraints ::
  "readers \<Rightarrow> string \<Rightarrow> ColumnObject list \<Rightarrow> Connection \<Rightarrow> (string, ConstraintObject list) result" where
  "inbound_constraints rd snapshot_key columns store =
     try_with (inbound_keys snapshot_key columns store) (\<lambda>keys.
       try_fold (\<lambda>key constraints.
           try_with (required_node snapshot_key key store) (\<lambda>node.
             try_with (foreign_key_from_node rd node) (\<lambda>constraint. Ok (constraints @ [constraint]))))
         (bt_keys keys) [])"

text \<open>The tables of a name, in the order of their keys.\<close>

definition tables_named :: "string \<Rightarrow> string \<Rightarrow> Connection \<Rightarrow> (string, GraphNodeRecord list) result" where
  "tables_named snapshot_key table_name store =
     try_with (store_text (nodes_by_label snapshot_key ''Table'' store)) (\<lambda>nodes.
       try_with (try_fold (\<lambda>node found.
             try_with (object_key_of node) (\<lambda>key.
               Ok (if ok_object_name key = table_name then found @ [node] else found)))
           nodes []) (\<lambda>found. Ok (sort_key gn_node_key found)))"

section \<open>The edges of a type\<close>

lemma edge_record_sel [simp]:
  "ge_edge_type (edge_record sj sk t from to) = t"
  "ge_edge_from (edge_record sj sk t from to) = key_to_string from"
  "ge_edge_to (edge_record sj sk t from to) = key_to_string to"
  "ge_edge_type (relationship_record sj sk r) = graph_edge_type (rel_kind r)"
  by (simp_all add: edge_record_def relationship_record_def)

lemma edge_record_inject [simp]:
  "edge_record sj sk t a b = edge_record sj sk t' a' b' \<longleftrightarrow> t = t' \<and> a = a' \<and> b = b'"
  by (auto simp: edge_record_def key_to_string_inject)

lemma in_dependency_edges:
  "e \<in> set (dependency_edges sj sk f owner ds) \<longleftrightarrow>
     (\<exists>d\<in>set ds. \<exists>t. f (ok_object_kind d) = Some t \<and> e = edge_record sj sk t owner d)"
  by (auto simp: dependency_edges_def split: option.splits)

definition typed_edge_types :: "string list" where
  "typed_edge_types =
     [''TABLE_HAS_COLUMN'', ''TABLE_HAS_CONSTRAINT'', ''TABLE_HAS_INDEX'', ''TABLE_HAS_TRIGGER'', ''FK_TO_COLUMN'',
      ''VIEW_DEPENDS_ON_TABLE'', ''VIEW_DEPENDS_ON_COLUMN'', ''ROUTINE_DEPENDS_ON_TABLE'', ''ROUTINE_DEPENDS_ON_COLUMN'']"

lemma other_edge_types:
  "graph_edge_type k \<notin> set typed_edge_types"
  "constraint_column_edge ck \<notin> set typed_edge_types"
  by (cases k; simp add: typed_edge_types_def) (cases ck; simp add: typed_edge_types_def)

lemma dependency_edge_types:
  "view_dependency_edge kind = Some t \<Longrightarrow> t \<in> {''VIEW_DEPENDS_ON_TABLE'', ''VIEW_DEPENDS_ON_COLUMN'', ''VIEW_DEPENDS_ON_VIEW''}"
  "routine_dependency_edge kind = Some t \<Longrightarrow> t \<in> {''ROUTINE_DEPENDS_ON_TABLE'', ''ROUTINE_DEPENDS_ON_COLUMN''}"
  by (cases kind; simp)+

lemma dependency_edge_iff:
  "view_dependency_edge kind = Some ''VIEW_DEPENDS_ON_TABLE'' \<longleftrightarrow> kind = Table"
  "view_dependency_edge kind = Some ''VIEW_DEPENDS_ON_COLUMN'' \<longleftrightarrow> kind = Column"
  "routine_dependency_edge kind = Some ''ROUTINE_DEPENDS_ON_TABLE'' \<longleftrightarrow> kind = Table"
  "routine_dependency_edge kind = Some ''ROUTINE_DEPENDS_ON_COLUMN'' \<longleftrightarrow> kind = Column"
  by (cases kind; simp)+

text \<open>Where an edge of the projection comes from.\<close>

definition edge_origin :: "serde \<Rightarrow> string \<Rightarrow> SchemaSnapshot \<Rightarrow> GraphEdgeRecord \<Rightarrow> bool" where
  "edge_origin sj sk s e =
     ((\<exists>x\<in>set (snap_columns s). e = edge_record sj sk ''TABLE_HAS_COLUMN'' (col_table_key x) (col_key x))
      \<or> (\<exists>x\<in>set (snap_constraints s). e = edge_record sj sk ''TABLE_HAS_CONSTRAINT'' (con_table_key x) (con_key x))
      \<or> (\<exists>x\<in>set (snap_constraints s). con_kind x = ConstraintKind.ForeignKey
          \<and> (\<exists>k\<in>set (con_referenced_columns x). e = edge_record sj sk ''FK_TO_COLUMN'' (con_key x) k))
      \<or> (\<exists>x\<in>set (snap_indexes s). e = edge_record sj sk ''TABLE_HAS_INDEX'' (idx_table_key x) (idx_key x))
      \<or> (\<exists>x\<in>set (snap_triggers s). ok_object_kind (trg_table_key x) \<noteq> View
          \<and> e = edge_record sj sk ''TABLE_HAS_TRIGGER'' (trg_table_key x) (trg_key x))
      \<or> (\<exists>x\<in>set (snap_views s). \<exists>d\<in>set (view_depends_on x). \<exists>t. view_dependency_edge (ok_object_kind d) = Some t
          \<and> e = edge_record sj sk t (view_key x) d)
      \<or> (\<exists>x\<in>set (snap_routines s). \<exists>d\<in>set (rtn_depends_on x). \<exists>t. routine_dependency_edge (ok_object_kind d) = Some t
          \<and> e = edge_record sj sk t (rtn_key x) d))"

lemma item_edge_origins:
  assumes typed: "ge_edge_type e \<in> set typed_edge_types"
  shows "e \<in> set (constraint_edges sj sk x1) \<longleftrightarrow> e = edge_record sj sk ''TABLE_HAS_CONSTRAINT'' (con_table_key x1) (con_key x1)
      \<or> con_kind x1 = ConstraintKind.ForeignKey
        \<and> (\<exists>k\<in>set (con_referenced_columns x1). e = edge_record sj sk ''FK_TO_COLUMN'' (con_key x1) k)"
    and "e \<in> set (index_edges sj sk x2) \<longleftrightarrow> e = edge_record sj sk ''TABLE_HAS_INDEX'' (idx_table_key x2) (idx_key x2)"
    and "e \<in> set (view_edges sj sk x3) \<longleftrightarrow>
      (\<exists>d\<in>set (view_depends_on x3). \<exists>t. view_dependency_edge (ok_object_kind d) = Some t \<and> e = edge_record sj sk t (view_key x3) d)"
    and "e \<in> set (trigger_edges sj sk x4) \<longleftrightarrow> ok_object_kind (trg_table_key x4) \<noteq> View
      \<and> e = edge_record sj sk ''TABLE_HAS_TRIGGER'' (trg_table_key x4) (trg_key x4)"
    and "e \<in> set (routine_edges sj sk x5) \<longleftrightarrow>
      (\<exists>d\<in>set (rtn_depends_on x5). \<exists>t. routine_dependency_edge (ok_object_kind d) = Some t \<and> e = edge_record sj sk t (rtn_key x5) d)"
    and "e \<notin> set (parent_edges sj sk x6)" and "e \<noteq> relationship_record sj sk r"
proof -
  have neq: "e \<noteq> edge_record sj sk t a b" if "t \<notin> set typed_edge_types" for t a b using typed that by auto
  have other: "e \<noteq> edge_record sj sk ''COLUMN_IN_INDEX'' a b" "e \<noteq> edge_record sj sk ''SCHEMA_HAS_VIEW'' a b"
    "e \<noteq> edge_record sj sk ''SCHEMA_HAS_ROUTINE'' a b" "e \<noteq> edge_record sj sk ''VIEW_HAS_TRIGGER'' a b"
    "e \<noteq> edge_record sj sk ''TRIGGER_ON_VIEW'' a b" "e \<noteq> edge_record sj sk ''TRIGGER_ON_TABLE'' a b"
    "e \<noteq> edge_record sj sk ''TRIGGER_EXECUTES_ROUTINE'' a b" "e \<noteq> edge_record sj sk ''METADATA_PARENT'' a b"
    "e \<noteq> edge_record sj sk (constraint_column_edge ck) a b" for a b ck
    by (rule neq; simp add: typed_edge_types_def; fail)+ (rule neq[OF other_edge_types(2)])
  show "e \<in> set (constraint_edges sj sk x1) \<longleftrightarrow> e = edge_record sj sk ''TABLE_HAS_CONSTRAINT'' (con_table_key x1) (con_key x1)
      \<or> con_kind x1 = ConstraintKind.ForeignKey
        \<and> (\<exists>k\<in>set (con_referenced_columns x1). e = edge_record sj sk ''FK_TO_COLUMN'' (con_key x1) k)"
    by (simp add: constraint_edges_def image_iff other)
  show "e \<in> set (index_edges sj sk x2) \<longleftrightarrow> e = edge_record sj sk ''TABLE_HAS_INDEX'' (idx_table_key x2) (idx_key x2)"
    by (simp add: index_edges_def image_iff other)
  show "e \<in> set (view_edges sj sk x3) \<longleftrightarrow>
      (\<exists>d\<in>set (view_depends_on x3). \<exists>t. view_dependency_edge (ok_object_kind d) = Some t \<and> e = edge_record sj sk t (view_key x3) d)"
    by (simp add: view_edges_def in_dependency_edges other)
  show "e \<in> set (trigger_edges sj sk x4) \<longleftrightarrow> ok_object_kind (trg_table_key x4) \<noteq> View
      \<and> e = edge_record sj sk ''TABLE_HAS_TRIGGER'' (trg_table_key x4) (trg_key x4)"
    by (simp add: trigger_edges_def other Let_def split: option.split)
  show "e \<in> set (routine_edges sj sk x5) \<longleftrightarrow>
      (\<exists>d\<in>set (rtn_depends_on x5). \<exists>t. routine_dependency_edge (ok_object_kind d) = Some t \<and> e = edge_record sj sk t (rtn_key x5) d)"
    by (simp add: routine_edges_def in_dependency_edges other)
  show "e \<notin> set (parent_edges sj sk x6)" by (simp add: parent_edges_def other split: option.split)
  show "e \<noteq> relationship_record sj sk r" using typed other_edge_types(1) by auto
qed

lemma edge_origins:
  assumes "ge_edge_type e \<in> set typed_edge_types"
  shows "e \<in> set (projected_edges sj sk s m) \<longleftrightarrow> edge_origin sj sk s e"
proof -
  have other: "e \<noteq> edge_record sj sk ''DATABASE_HAS_SCHEMA'' a b" "e \<noteq> edge_record sj sk ''SCHEMA_HAS_TABLE'' a b" for a b
    using assms by (auto simp: typed_edge_types_def)
  show ?thesis
    unfolding projected_edges_def edge_origin_def
    by (cases m) (simp_all add: image_iff item_edge_origins[OF assms] other bex_disj_distrib disj_ac)
qed

lemma typed_origin:
  assumes "t \<in> set typed_edge_types"
  shows "e \<in> set (projected_edges sj sk s m) \<and> ge_edge_type e = t \<longleftrightarrow> edge_origin sj sk s e \<and> ge_edge_type e = t"
  using edge_origins assms by blast

lemma typed_edges:
  shows "e \<in> set (projected_edges sj sk s m) \<and> ge_edge_type e = ''TABLE_HAS_COLUMN'' \<longleftrightarrow>
      (\<exists>x\<in>set (snap_columns s). e = edge_record sj sk ''TABLE_HAS_COLUMN'' (col_table_key x) (col_key x))"
    and "e \<in> set (projected_edges sj sk s m) \<and> ge_edge_type e = ''TABLE_HAS_CONSTRAINT'' \<longleftrightarrow>
      (\<exists>x\<in>set (snap_constraints s). e = edge_record sj sk ''TABLE_HAS_CONSTRAINT'' (con_table_key x) (con_key x))"
    and "e \<in> set (projected_edges sj sk s m) \<and> ge_edge_type e = ''TABLE_HAS_INDEX'' \<longleftrightarrow>
      (\<exists>x\<in>set (snap_indexes s). e = edge_record sj sk ''TABLE_HAS_INDEX'' (idx_table_key x) (idx_key x))"
    and "e \<in> set (projected_edges sj sk s m) \<and> ge_edge_type e = ''TABLE_HAS_TRIGGER'' \<longleftrightarrow>
      (\<exists>x\<in>set (snap_triggers s). ok_object_kind (trg_table_key x) \<noteq> View
        \<and> e = edge_record sj sk ''TABLE_HAS_TRIGGER'' (trg_table_key x) (trg_key x))"
    and "e \<in> set (projected_edges sj sk s m) \<and> ge_edge_type e = ''FK_TO_COLUMN'' \<longleftrightarrow>
      (\<exists>x\<in>set (snap_constraints s). con_kind x = ConstraintKind.ForeignKey
        \<and> (\<exists>k\<in>set (con_referenced_columns x). e = edge_record sj sk ''FK_TO_COLUMN'' (con_key x) k))"
  by ((subst typed_origin, simp add: typed_edge_types_def, (auto simp: edge_origin_def dest!: dependency_edge_types)[1])+)

lemma dependency_origin:
  assumes "t \<in> {''VIEW_DEPENDS_ON_TABLE'', ''VIEW_DEPENDS_ON_COLUMN'', ''ROUTINE_DEPENDS_ON_TABLE'', ''ROUTINE_DEPENDS_ON_COLUMN''}"
  shows "e \<in> set (projected_edges sj sk s m) \<and> ge_edge_type e = t \<longleftrightarrow>
      (\<exists>x\<in>set (snap_views s). \<exists>d\<in>set (view_depends_on x). view_dependency_edge (ok_object_kind d) = Some t
          \<and> e = edge_record sj sk t (view_key x) d)
      \<or> (\<exists>x\<in>set (snap_routines s). \<exists>d\<in>set (rtn_depends_on x). routine_dependency_edge (ok_object_kind d) = Some t
          \<and> e = edge_record sj sk t (rtn_key x) d)"
proof -
  have "t \<in> set typed_edge_types" using assms by (auto simp: typed_edge_types_def)
  from typed_origin[OF this] show ?thesis using assms by (auto simp: edge_origin_def)
qed

lemma dependency_edge_other:
  "view_dependency_edge kind \<noteq> Some ''ROUTINE_DEPENDS_ON_TABLE''" "view_dependency_edge kind \<noteq> Some ''ROUTINE_DEPENDS_ON_COLUMN''"
  "routine_dependency_edge kind \<noteq> Some ''VIEW_DEPENDS_ON_TABLE''" "routine_dependency_edge kind \<noteq> Some ''VIEW_DEPENDS_ON_COLUMN''"
  by (cases kind; simp)+

lemma typed_dependency_edges:
  shows "e \<in> set (projected_edges sj sk s m) \<and> ge_edge_type e = ''VIEW_DEPENDS_ON_TABLE'' \<longleftrightarrow>
      (\<exists>x\<in>set (snap_views s). \<exists>d\<in>set (view_depends_on x). ok_object_kind d = Table
        \<and> e = edge_record sj sk ''VIEW_DEPENDS_ON_TABLE'' (view_key x) d)"
    and "e \<in> set (projected_edges sj sk s m) \<and> ge_edge_type e = ''VIEW_DEPENDS_ON_COLUMN'' \<longleftrightarrow>
      (\<exists>x\<in>set (snap_views s). \<exists>d\<in>set (view_depends_on x). ok_object_kind d = Column
        \<and> e = edge_record sj sk ''VIEW_DEPENDS_ON_COLUMN'' (view_key x) d)"
    and "e \<in> set (projected_edges sj sk s m) \<and> ge_edge_type e = ''ROUTINE_DEPENDS_ON_TABLE'' \<longleftrightarrow>
      (\<exists>x\<in>set (snap_routines s). \<exists>d\<in>set (rtn_depends_on x). ok_object_kind d = Table
        \<and> e = edge_record sj sk ''ROUTINE_DEPENDS_ON_TABLE'' (rtn_key x) d)"
    and "e \<in> set (projected_edges sj sk s m) \<and> ge_edge_type e = ''ROUTINE_DEPENDS_ON_COLUMN'' \<longleftrightarrow>
      (\<exists>x\<in>set (snap_routines s). \<exists>d\<in>set (rtn_depends_on x). ok_object_kind d = Column
        \<and> e = edge_record sj sk ''ROUTINE_DEPENDS_ON_COLUMN'' (rtn_key x) d)"
  by (subst dependency_origin; simp add: dependency_edge_other dependency_edge_iff)+

section \<open>A store that holds a certified snapshot\<close>

definition stored :: "serde \<Rightarrow> string \<Rightarrow> CertifiedSchemaSnapshot \<Rightarrow> Connection \<Rightarrow> bool" where
  "stored sj sk c store =
     (no_read_faults store \<and> complete_certificate c \<and> projectable sj sk c
      \<and> filter (\<lambda>x. gn_snapshot_key x = sk) (gd_nodes (cn_db store)) = nodes_of sj sk c
      \<and> filter (\<lambda>x. ge_snapshot_key x = sk) (gd_edges (cn_db store)) = edges_of sj sk c
      \<and> (\<exists>t. filter (\<lambda>x. gs_snapshot_key x = sk) (gd_snapshots (cn_db store)) =
          [snapshot_record sj sk t (can_schema (cert_snapshot c)) (PCertified c)]))"

lemma stored_after_insert:
  assumes "insert_certified_schema_snapshot_graph sj sk t c store = (Ok (), store')" and "conn_inv store"
    and "no_read_faults store'"
  shows "stored sj sk c store'"
proof -
  have "complete_certificate c" "projectable sj sk c" "cn_db store' = durable store'"
    using certified_Ok[OF assms(1,2)] by (auto simp: durable_def)
  then show ?thesis
    unfolding stored_def using certified_effect[OF assms(1,2)] assms(3) by metis
qed

lemma stored_schema:
  assumes "stored sj sk c store"
  shows "well_formed_schema (can_schema (cert_snapshot c))"
    and "normalize_schema (can_schema (cert_snapshot c)) = can_schema (cert_snapshot c)"
proof -
  have c: "complete_certificate c" using assms by (simp add: stored_def)
  then show "well_formed_schema (can_schema (cert_snapshot c))"
    using complete_well_formed[OF c] by (simp add: well_formed_canonical_def Let_def)
  have "normalize_canonical_snapshot (cert_snapshot c) = cert_snapshot c"
    using c by (simp add: complete_certificate_def Let_def)
  then show "normalize_schema (can_schema (cert_snapshot c)) = can_schema (cert_snapshot c)"
    by (auto simp: normalize_canonical_snapshot_def dest!: arg_cong[of _ _ can_schema])
qed

lemma filter_key_unique:
  "distinct (map f xs) \<Longrightarrow> x \<in> set xs \<Longrightarrow> filter (\<lambda>y. f y = f x) xs = [x]"
  by (induction xs) (auto simp: filter_empty_conv image_iff)

lemma filter_filter_conj: "filter (\<lambda>x. p x \<and> q x) xs = filter q (filter p xs)"
  by (simp add: conj_commute)

lemma stored_node:
  assumes "stored sj sk c store" and "n \<in> set (nodes_of sj sk c)"
  shows "get_node sk (gn_node_key n) store = Ok (Some n)"
proof -
  have "complete_certificate c" using assms(1) by (simp add: stored_def)
  from projected_nodes_distinct[OF certified_node_keys(1)[OF this], of sj sk]
  have "distinct (map node_id (nodes_of sj sk c))" by (simp add: nodes_of_def)
  moreover have "\<forall>x\<in>set (nodes_of sj sk c). gn_snapshot_key x = sk" by (simp add: nodes_of_def projected_nodes_snapshot)
  ultimately have "distinct (map gn_node_key (nodes_of sj sk c))"
    by (auto simp: distinct_map node_id_def inj_on_def)
  from filter_key_unique[OF this assms(2)]
  have "filter (\<lambda>x. gn_snapshot_key x = sk \<and> gn_node_key x = gn_node_key n) (gd_nodes (cn_db store)) = [n]"
    using assms(1) by (simp only: filter_filter_conj) (simp add: stored_def)
  from find_filter[OF this] show ?thesis
    using assms(1) by (simp add: get_node_def read_with_def stored_def no_read_faults_def find_row_def)
qed

lemma stored_required_node:
  "stored sj sk c store \<Longrightarrow> n \<in> set (nodes_of sj sk c) \<Longrightarrow> required_node sk (gn_node_key n) store = Ok n"
  by (simp add: required_node_def stored_node store_text_def map_err_def ok_or_def)

lemma stored_edges:
  assumes "stored sj sk c store"
  shows "edges_from sk k store = Ok (sort_key ge_edge_key (filter (\<lambda>e. ge_edge_from e = k) (edges_of sj sk c)))"
    and "edges_to sk k store = Ok (sort_key ge_edge_key (filter (\<lambda>e. ge_edge_to e = k) (edges_of sj sk c)))"
  using assms unfolding edges_from_def edges_to_def read_with_def filter_filter_conj
  by (simp_all add: stored_def no_read_faults_def)

lemma try_fold_filter:
  "try_fold (\<lambda>x s. if p x then f x s else Ok s) xs s = try_fold f (filter p xs) s"
proof (induction xs arbitrary: s)
  case (Cons x xs)
  then have "try_fold (\<lambda>x s. if p x then f x s else Ok s) xs = try_fold f (filter p xs)" by (intro ext)
  then show ?case by simp
qed simp

lemma try_fold_all:
  assumes "\<And>x s. x \<in> set xs \<Longrightarrow> f x s = Ok (g x s)"
  shows "try_fold f xs s = Ok (fold g xs s)"
  using assms by (induction xs arbitrary: s) simp_all

lemma fold_push: "fold (\<lambda>x acc. acc @ [h x]) xs acc = acc @ map h xs"
  by (induction xs arbitrary: acc) simp_all

lemma prefix_le [simp]: "p @ a \<le> p @ b \<longleftrightarrow> a \<le> (b :: string)"
  by (induction p) simp_all

lemma prefix_less [simp]: "p @ a < p @ b \<longleftrightarrow> a < (b :: string)"
  by (induction p) simp_all

lemma sort_key_of_set:
  assumes "set xs = set ys" and "distinct xs" and "sorted_wrt (<) (map f ys)"
  shows "sort_key f xs = ys"
proof -
  have ys: "distinct (map f ys)" "sorted (map f ys)" using assms(3) strict_sorted_iff by blast+
  then have "mset xs = mset ys" using assms(1,2) set_eq_iff_mset_eq_distinct distinct_map by blast
  then have "sort_key f ys = sort_key f xs" using sort_key_perm[of ys xs f] ys(1) by simp
  then show ?thesis using sort_key_id_if_sorted[OF ys(2)] by simp
qed

section \<open>Reading the parts of a table\<close>

text \<open>What makes a collection of the snapshot readable from the graph: its edges have a type of their own,
  each item has a node, its keys are distinct and the normal form orders it by them.\<close>

locale table_part =
  fixes edge_type :: string
    and items :: "SchemaSnapshot \<Rightarrow> 'a list"
    and key :: "'a \<Rightarrow> ObjectKey"
    and owner :: "'a \<Rightarrow> ObjectKey"
    and node_for :: "serde \<Rightarrow> string \<Rightarrow> CanonicalMetadata option \<Rightarrow> 'a \<Rightarrow> GraphNodeRecord"
  assumes edges: "e \<in> set (projected_edges sj sk s m) \<and> ge_edge_type e = edge_type \<longleftrightarrow>
      (\<exists>x\<in>set (items s). e = edge_record sj sk edge_type (owner x) (key x))"
    and nodes: "x \<in> set (items s) \<Longrightarrow> node_for sj sk m x \<in> set (projected_nodes sj sk s m)"
    and node_keys: "gn_node_key (node_for sj sk m x) = key_to_string (key x)"
    and keys: "well_formed_schema s \<Longrightarrow> distinct (map key (items s))"
    and ordered: "normalize_schema s = s \<Longrightarrow> sorted (map (\<lambda>x. key_to_string (key x)) (items s))"
begin

lemma part_edges:
  assumes "stored sj sk c store"
  defines "s \<equiv> can_schema (cert_snapshot c)"
  shows "filter (\<lambda>e. ge_edge_type e = edge_type) (sort_key ge_edge_key (filter (\<lambda>e. ge_edge_from e = key_to_string t) (edges_of sj sk c)))
    = map (\<lambda>x. edge_record sj sk edge_type (owner x) (key x)) (filter (\<lambda>x. owner x = t) (items s))"
proof -
  let ?es = "filter (\<lambda>e. ge_edge_type e = edge_type) (filter (\<lambda>e. ge_edge_from e = key_to_string t) (edges_of sj sk c))"
  let ?ys = "map (\<lambda>x. edge_record sj sk edge_type (owner x) (key x)) (filter (\<lambda>x. owner x = t) (items s))"
  have "distinct (edges_of sj sk c)"
    using assms(1) by (simp add: stored_def projectable_def distinct_map)
  moreover have "set ?es = set ?ys"
  proof (intro set_eqI)
    fix e
    have "e \<in> set ?es \<longleftrightarrow> (e \<in> set (edges_of sj sk c) \<and> ge_edge_type e = edge_type) \<and> ge_edge_from e = key_to_string t" by auto
    then show "e \<in> set ?es \<longleftrightarrow> e \<in> set ?ys"
      unfolding edges_of_def edges s_def[symmetric] by (auto simp: key_to_string_inject)
  qed
  moreover have "sorted_wrt (<) (map ge_edge_key ?ys)"
  proof -
    note s = stored_schema[OF assms(1), folded s_def]
    let ?zs = "filter (\<lambda>x. owner x = t) (items s)"
    have "sorted (map (\<lambda>x. key_to_string (key x)) ?zs)" using ordered[OF s(2)] by (rule sorted_filter)
    moreover have "distinct (map (\<lambda>x. key_to_string (key x)) ?zs)"
      using keys[OF s(1)] by (auto simp: distinct_map inj_on_def key_to_string_inject)
    ultimately have "sorted_wrt (<) (map (\<lambda>x. key_to_string (key x)) ?zs)" by (simp only: strict_sorted_iff)
    then have "sorted_wrt (\<lambda>x y. key_to_string (key x) < key_to_string (key y)) ?zs" by (simp only: sorted_wrt_map)
    then have "sorted_wrt (\<lambda>x y. ge_edge_key (edge_record sj sk edge_type (owner x) (key x))
        < ge_edge_key (edge_record sj sk edge_type (owner y) (key y))) ?zs"
      by (rule sorted_wrt_mono_rel[rotated]) (auto simp: edge_record_def)
    then show ?thesis by (simp add: sorted_wrt_map)
  qed
  ultimately show ?thesis by (simp only: filter_sort) (intro sort_key_of_set, auto)
qed

text \<open>The loop over the edges of a table returns the items of the table in the order of the snapshot.\<close>

lemma items_read:
  assumes "stored sj sk c store"
    and read: "\<And>x. x \<in> set (items (can_schema (cert_snapshot c))) \<Longrightarrow>
      from_node (node_for sj sk (Some (can_metadata (cert_snapshot c))) x) = Ok x"
  shows "table_items edge_type from_node sk (key_to_string t) store
    = Ok (filter (\<lambda>x. owner x = t) (items (can_schema (cert_snapshot c))))"
proof -
  let ?s = "can_schema (cert_snapshot c)" and ?m = "Some (can_metadata (cert_snapshot c))"
  let ?step = "\<lambda>edge xs. try_with (required_node sk (ge_edge_to edge) store) (\<lambda>node. try_with (from_node node) (\<lambda>x. Ok (xs @ [x])))"
  have node: "required_node sk (key_to_string (key x)) store = Ok (node_for sj sk ?m x)" if "x \<in> set (items ?s)" for x
    using stored_required_node[OF assms(1), of "node_for sj sk ?m x"] nodes[OF that] by (simp add: nodes_of_def node_keys)
  have "try_fold ?step (map (\<lambda>x. edge_record sj sk edge_type (owner x) (key x)) xs) acc = Ok (acc @ xs)"
    if "set xs \<subseteq> set (items ?s)" for xs acc
    using that by (induction xs arbitrary: acc) (simp_all add: node read)
  from this[of "filter (\<lambda>x. owner x = t) (items ?s)" "[]"] show ?thesis
    by (simp add: table_items_def stored_edges[OF assms(1)] store_text_def map_err_def try_fold_filter part_edges[OF assms(1)])
qed

end

definition column_node :: "serde \<Rightarrow> string \<Rightarrow> CanonicalMetadata option \<Rightarrow> ColumnObject \<Rightarrow> GraphNodeRecord" where
  "column_node sj sk m x = node_record sj sk (annotation_map m) (col_key x) ''Column'' (col_name x) (PColumn x)"

definition constraint_node :: "serde \<Rightarrow> string \<Rightarrow> CanonicalMetadata option \<Rightarrow> ConstraintObject \<Rightarrow> GraphNodeRecord" where
  "constraint_node sj sk m x =
     node_record sj sk (annotation_map m) (con_key x) (constraint_label (con_kind x)) (con_name x) (PConstraint x)"

definition index_node :: "serde \<Rightarrow> string \<Rightarrow> CanonicalMetadata option \<Rightarrow> IndexObject \<Rightarrow> GraphNodeRecord" where
  "index_node sj sk m x = node_record sj sk (annotation_map m) (idx_key x) ''Index'' (idx_name x) (PIndex x)"

lemma schema_collections:
  assumes "well_formed_schema s"
  shows "distinct (map tbl_key (snap_tables s))" "distinct (map col_key (snap_columns s))"
    "distinct (map con_key (snap_constraints s))" "distinct (map idx_key (snap_indexes s))"
    "distinct (map view_key (snap_views s))" "distinct (map trg_key (snap_triggers s))" "distinct (map rtn_key (snap_routines s))"
proof -
  have "distinct (map fst (schema_keys s))" using assms by (simp add: well_formed_schema_def Let_def)
  then show "distinct (map tbl_key (snap_tables s))" "distinct (map col_key (snap_columns s))"
    "distinct (map con_key (snap_constraints s))" "distinct (map idx_key (snap_indexes s))"
    "distinct (map view_key (snap_views s))" "distinct (map trg_key (snap_triggers s))" "distinct (map rtn_key (snap_routines s))"
    by (simp_all add: schema_keys_def comp_def)
qed

lemma normalized_sorted:
  assumes "normalize_schema s = s"
  shows "sorted (map (\<lambda>x. key_to_string (tbl_key x)) (snap_tables s))"
    "sorted (map (\<lambda>x. key_to_string (col_key x)) (snap_columns s))"
    "sorted (map (\<lambda>x. key_to_string (con_key x)) (snap_constraints s))"
    "sorted (map (\<lambda>x. key_to_string (idx_key x)) (snap_indexes s))"
proof -
  have "sorted (map (\<lambda>x. key_to_string (tbl_key x)) (snap_tables (normalize_schema s)))"
    "sorted (map (\<lambda>x. key_to_string (col_key x)) (snap_columns (normalize_schema s)))"
    "sorted (map (\<lambda>x. key_to_string (con_key x)) (snap_constraints (normalize_schema s)))"
    "sorted (map (\<lambda>x. key_to_string (idx_key x)) (snap_indexes (normalize_schema s)))"
    by (simp_all add: normalize_schema_def)
  note this[unfolded assms]
  then show "sorted (map (\<lambda>x. key_to_string (tbl_key x)) (snap_tables s))"
    "sorted (map (\<lambda>x. key_to_string (col_key x)) (snap_columns s))"
    "sorted (map (\<lambda>x. key_to_string (con_key x)) (snap_constraints s))"
    "sorted (map (\<lambda>x. key_to_string (idx_key x)) (snap_indexes s))" .
qed

interpretation column_part: table_part "''TABLE_HAS_COLUMN''" snap_columns col_key col_table_key column_node
  by unfold_locales
    (rule typed_edges(1), simp_all add: column_node_def node_record_sel projected_nodes_def Let_def schema_collections normalized_sorted)

interpretation constraint_part: table_part "''TABLE_HAS_CONSTRAINT''" snap_constraints con_key con_table_key constraint_node
  by unfold_locales
    (rule typed_edges(2), simp_all add: constraint_node_def node_record_sel projected_nodes_def Let_def schema_collections normalized_sorted)

interpretation index_part: table_part "''TABLE_HAS_INDEX''" snap_indexes idx_key idx_table_key index_node
  by unfold_locales
    (rule typed_edges(3), simp_all add: index_node_def node_record_sel projected_nodes_def Let_def schema_collections normalized_sorted)

text \<open>The readers read back what the projection writes, with an annotation or without: the derived readers
  ignore fields they do not know.\<close>

definition reads_payloads :: "serde \<Rightarrow> readers \<Rightarrow> SchemaSnapshot \<Rightarrow> bool" where
  "reads_payloads sj rd s =
     ((\<forall>x\<in>set (snap_columns s). \<forall>a. rd_column rd (node_payload_json sj (PColumn x) a) = Ok x)
      \<and> (\<forall>x\<in>set (snap_constraints s). \<forall>a. rd_constraint rd (node_payload_json sj (PConstraint x) a) = Ok x)
      \<and> (\<forall>x\<in>set (snap_indexes s). \<forall>a. rd_index rd (node_payload_json sj (PIndex x) a) = Ok x))"

lemma nodes_read:
  assumes "reads_payloads sj rd s"
  shows "x1 \<in> set (snap_columns s) \<Longrightarrow> column_from_node rd (column_node sj sk m x1) = Ok x1"
    and "x2 \<in> set (snap_constraints s) \<Longrightarrow> constraint_from_node rd (constraint_node sj sk m x2) = Ok x2"
    and "x3 \<in> set (snap_indexes s) \<Longrightarrow> index_from_node rd (index_node sj sk m x3) = Ok x3"
  using assms
  by (simp_all add: reads_payloads_def column_from_node_def column_node_def constraint_from_node_def constraint_node_def
      index_from_node_def index_node_def node_record_def map_err_def)

lemma parts_read:
  assumes "stored sj sk c store" and "reads_payloads sj rd (can_schema (cert_snapshot c))"
  defines "s \<equiv> can_schema (cert_snapshot c)"
  shows "table_columns rd sk (key_to_string t) store =
      Ok (sort_key col_ordinal_position (filter (\<lambda>x. col_table_key x = t) (snap_columns s)))"
    and "table_constraints rd sk (key_to_string t) store = Ok (filter (\<lambda>x. con_table_key x = t) (snap_constraints s))"
    and "table_indexes rd sk (key_to_string t) store =
      Ok (sort_key idx_name (filter (\<lambda>x. idx_table_key x = t) (snap_indexes s)))"
  unfolding s_def table_columns_def table_constraints_def table_indexes_def
  by (simp_all add: column_part.items_read[OF assms(1)] constraint_part.items_read[OF assms(1)]
      index_part.items_read[OF assms(1)] nodes_read[OF assms(2)])

section \<open>The foreign keys that point to a table\<close>

lemma fold_bs_insert:
  "bt_inv ks \<Longrightarrow> bt_inv (fold (\<lambda>e ks. if p e then bs_insert (f e) ks else ks) es ks)
    \<and> set (bt_keys (fold (\<lambda>e ks. if p e then bs_insert (f e) ks else ks) es ks)) = f ` {e \<in> set es. p e} \<union> set (bt_keys ks)"
  by (induction es arbitrary: ks) (auto simp: bs_insert_def bt_inv_insert bt.set_keys_insert)

lemma inbound_keys_set:
  assumes "stored sj sk c store"
  obtains keys where "inbound_keys sk columns store = Ok keys" and "bt_inv keys"
    and "set (bt_keys keys) = {ge_edge_from e |e. e \<in> set (edges_of sj sk c) \<and> ge_edge_type e = ''FK_TO_COLUMN''
      \<and> (\<exists>column\<in>set columns. ge_edge_to e = key_to_string (col_key column))}"
proof -
  let ?step = "\<lambda>column. fold (\<lambda>edge keys. if ge_edge_type edge = ''FK_TO_COLUMN'' then bs_insert (ge_edge_from edge) keys else keys)
      (sort_key ge_edge_key (filter (\<lambda>e. ge_edge_to e = key_to_string (col_key column)) (edges_of sj sk c)))"
  have "inbound_keys sk columns store = Ok (fold ?step columns [])"
    unfolding inbound_keys_def
    by (rule try_fold_all) (simp add: stored_edges[OF assms] store_text_def map_err_def)
  moreover have "bt_inv ks \<Longrightarrow> bt_inv (fold ?step columns ks)
      \<and> set (bt_keys (fold ?step columns ks)) = {ge_edge_from e |e. e \<in> set (edges_of sj sk c) \<and> ge_edge_type e = ''FK_TO_COLUMN''
        \<and> (\<exists>column\<in>set columns. ge_edge_to e = key_to_string (col_key column))} \<union> set (bt_keys ks)" for ks
    by (induction columns arbitrary: ks) (auto simp: fold_bs_insert)
  from this[of "[]"] have "bt_inv (fold ?step columns [])" "set (bt_keys (fold ?step columns [])) =
      {ge_edge_from e |e. e \<in> set (edges_of sj sk c) \<and> ge_edge_type e = ''FK_TO_COLUMN''
        \<and> (\<exists>column\<in>set columns. ge_edge_to e = key_to_string (col_key column))}"
    by (simp_all add: bt_keys_def)
  ultimately show thesis by (rule that)
qed

text \<open>A foreign key that points to one of the columns.\<close>

definition points_to :: "ColumnObject list \<Rightarrow> ConstraintObject \<Rightarrow> bool" where
  "points_to columns x = (con_kind x = ConstraintKind.ForeignKey
     \<and> (\<exists>column\<in>set columns. col_key column \<in> set (con_referenced_columns x)))"

lemma inbound_sources:
  "{ge_edge_from e |e. e \<in> set (edges_of sj sk c) \<and> ge_edge_type e = ''FK_TO_COLUMN''
      \<and> (\<exists>column\<in>set columns. ge_edge_to e = key_to_string (col_key column))}
    = (\<lambda>x. key_to_string (con_key x)) ` {x \<in> set (snap_constraints (can_schema (cert_snapshot c))). points_to columns x}"
  (is "?A = ?f ` ?X")
proof (intro equalityI subsetI)
  fix k assume "k \<in> ?A"
  then obtain e column where "e \<in> set (edges_of sj sk c) \<and> ge_edge_type e = ''FK_TO_COLUMN''" "column \<in> set columns"
    "ge_edge_to e = key_to_string (col_key column)" "k = ge_edge_from e" by blast
  then have "\<exists>x. x \<in> ?X \<and> k = ?f x"
    unfolding edges_of_def typed_edges(5) by (fastforce simp: points_to_def key_to_string_inject)
  then show "k \<in> ?f ` ?X" by blast
next
  fix k assume "k \<in> ?f ` ?X"
  then obtain x column where x: "x \<in> ?X" "k = ?f x" and column: "column \<in> set columns" "col_key column \<in> set (con_referenced_columns x)"
    by (auto simp: points_to_def)
  let ?e = "edge_record sj sk ''FK_TO_COLUMN'' (con_key x) (col_key column)"
  have "?e \<in> set (edges_of sj sk c) \<and> ge_edge_type ?e = ''FK_TO_COLUMN''"
    using x column unfolding edges_of_def typed_edges(5) by (auto simp: points_to_def)
  then show "k \<in> ?A" using x column by (auto intro!: exI[of _ ?e])
qed

lemma inbound_constraints_read:
  assumes "stored sj sk c store" and "reads_payloads sj rd (can_schema (cert_snapshot c))"
  shows "inbound_constraints rd sk columns store = Ok (filter (points_to columns) (snap_constraints (can_schema (cert_snapshot c))))"
proof -
  obtain keys where run: "inbound_keys sk columns store = Ok keys" and inv: "bt_inv keys"
    and set: "set (bt_keys keys) = (\<lambda>x. key_to_string (con_key x)) ` {x \<in> set (snap_constraints (can_schema (cert_snapshot c))). points_to columns x}"
    using inbound_keys_set[OF assms(1)] unfolding inbound_sources by blast
  let ?xs = "filter (points_to columns) (snap_constraints (can_schema (cert_snapshot c)))"
  have "sorted (map (\<lambda>x. key_to_string (con_key x)) ?xs)"
    using normalized_sorted(3)[OF stored_schema(2)[OF assms(1)]] by (rule sorted_filter)
  moreover have "distinct (map (\<lambda>x. key_to_string (con_key x)) ?xs)"
    using schema_collections(3)[OF stored_schema(1)[OF assms(1)]] by (auto simp: distinct_map inj_on_def key_to_string_inject)
  moreover have "sorted (bt_keys keys)" "distinct (bt_keys keys)"
    using bt.keys_sorted[OF inv] strict_sorted_iff by blast+
  ultimately have keys: "bt_keys keys = map (\<lambda>x. key_to_string (con_key x)) ?xs"
    by (intro sorted_distinct_set_unique) (simp_all add: set)
  have node: "required_node sk (key_to_string (con_key x)) store = Ok (constraint_node sj sk (Some (can_metadata (cert_snapshot c))) x)"
    if "x \<in> set ?xs" for x
    using stored_required_node[OF assms(1), of "constraint_node sj sk (Some (can_metadata (cert_snapshot c))) x"]
      constraint_part.nodes that by (simp add: nodes_of_def constraint_part.node_keys)
  have read: "foreign_key_from_node rd (constraint_node sj sk m x) = Ok x" if "x \<in> set ?xs" for x m
    using that nodes_read(2)[OF assms(2)] by (auto simp: foreign_key_from_node_def points_to_def)
  have "try_fold (\<lambda>key xs. try_with (required_node sk key store) (\<lambda>node. try_with (foreign_key_from_node rd node) (\<lambda>x. Ok (xs @ [x]))))
      (map (\<lambda>x. key_to_string (con_key x)) ys) acc = Ok (acc @ ys)" if "set ys \<subseteq> set ?xs" for ys acc
    using that by (induction ys arbitrary: acc) (simp_all add: node read)
  from this[of ?xs "[]"] show ?thesis by (simp add: inbound_constraints_def run keys)
qed

section \<open>Keys of a well-formed snapshot\<close>

lemma schema_parts:
  assumes "well_formed_schema s"
  defines "res \<equiv> refers (set (map fst (schema_keys s)))" and "a \<equiv> snap_connection_alias s"
  shows "x1 \<in> set (snap_tables s) \<Longrightarrow> wf_table res a x1" "x2 \<in> set (snap_columns s) \<Longrightarrow> wf_column res a x2"
    "x3 \<in> set (snap_constraints s) \<Longrightarrow> wf_constraint res a x3" "x4 \<in> set (snap_indexes s) \<Longrightarrow> wf_index res a x4"
    "x5 \<in> set (snap_views s) \<Longrightarrow> wf_view res a x5" "x6 \<in> set (snap_triggers s) \<Longrightarrow> wf_trigger res a x6"
    "x7 \<in> set (snap_routines s) \<Longrightarrow> wf_routine res a x7"
    "k \<in> set (map fst (schema_keys s)) \<Longrightarrow> scope_matches a (db_key (snap_database s)) k"
  using assms(1) unfolding res_def a_def well_formed_schema_def Let_def by blast+

lemma constraint_object_kinds: "constraint_object_kind kind \<noteq> Table" "constraint_object_kind kind \<noteq> Column"
  by (cases kind; simp)+

lemma registered_kind:
  assumes "well_formed_schema s" and "k \<in> set (map fst (schema_keys s))"
  shows "ok_object_kind k = Table \<Longrightarrow> k \<in> tbl_key ` set (snap_tables s)"
    and "ok_object_kind k = Column \<Longrightarrow> k \<in> col_key ` set (snap_columns s)"
  using assms(2) schema_key_kinds[OF assms(1)] constraint_object_kinds
  by (auto simp: schema_keys_def)

lemma table_key_determined:
  assumes "well_formed_schema s" and "t \<in> tbl_key ` set (snap_tables s)" and "t' \<in> tbl_key ` set (snap_tables s)"
    and "ok_schema t = ok_schema t'" and "ok_object_name t = ok_object_name t'"
  shows "t = t'"
proof -
  have key: "ok_object_kind k = Table \<and> ok_sub_object k = None \<and> ok_connection_alias k = snap_connection_alias s
      \<and> ok_source_kind k = ok_source_kind (db_key (snap_database s)) \<and> ok_database k = ok_database (db_key (snap_database s))"
    if "k \<in> tbl_key ` set (snap_tables s)" for k
  proof -
    have "k \<in> set (map fst (schema_keys s))" using that by (force simp: schema_keys_def)
    from schema_parts(8)[OF assms(1) this] show ?thesis
      using that schema_parts(1)[OF assms(1)] schema_key_kinds(3)[OF assms(1)]
      by (auto simp: scope_matches_def wf_table_def identity_matches_def)
  qed
  show ?thesis using key[OF assms(2)] key[OF assms(3)] assms(4,5) by (intro ObjectKey.equality) auto
qed

lemma column_of_table:
  assumes "well_formed_schema s" and "y \<in> set (snap_columns s)" and "t \<in> tbl_key ` set (snap_tables s)"
  shows "column_of (col_key y) t \<longleftrightarrow> col_table_key y = t"
proof -
  have y: "wf_column (refers (set (map fst (schema_keys s)))) (snap_connection_alias s) y"
    using schema_parts(2)[OF assms(1,2)] .
  then have "col_table_key y \<in> tbl_key ` set (snap_tables s)"
    using registered_kind(1)[OF assms(1)] by (auto simp: wf_column_def refers_def)
  then show ?thesis
    using y table_key_determined[OF assms(1) _ assms(3), of "col_table_key y"]
    by (auto simp: wf_column_def column_of_def same_scope_def identity_matches_def)
qed

text \<open>The foreign keys that point to a column of a table are those that reference the table.\<close>

lemma points_to_table:
  assumes "well_formed_schema s" and "x \<in> set (snap_constraints s)" and "t \<in> tbl_key ` set (snap_tables s)"
    and "set columns = {y \<in> set (snap_columns s). col_table_key y = t}"
  shows "points_to columns x \<longleftrightarrow> con_kind x = ConstraintKind.ForeignKey \<and> con_referenced_table_key x = Some t"
proof (cases "con_kind x = ConstraintKind.ForeignKey")
  case True
  let ?res = "refers (set (map fst (schema_keys s)))"
  obtain t' where t': "con_referenced_table_key x = Some t'" "?res t' {Table}" "wf_columns_of ?res t' (con_referenced_columns x)"
    and filled: "con_columns x \<noteq> []" "length (con_columns x) = length (con_referenced_columns x)"
    using schema_parts(3)[OF assms(1,2)] True by (auto simp: wf_constraint_def wf_constraint_kind_def)
  have table: "t' \<in> tbl_key ` set (snap_tables s)" using t'(2) registered_kind(1)[OF assms(1)] by (auto simp: refers_def)
  have owner: "col_table_key y = t'" if "y \<in> set (snap_columns s)" "col_key y \<in> set (con_referenced_columns x)" for y
    using that t'(3) column_of_table[OF assms(1) that(1) table] by (auto simp: wf_columns_of_def)
  obtain k where k: "k \<in> set (con_referenced_columns x)" using filled by (cases "con_referenced_columns x") auto
  then have "k \<in> set (map fst (schema_keys s))" "ok_object_kind k = Column"
    using t'(3) by (auto simp: wf_columns_of_def refers_def)
  from registered_kind(2)[OF assms(1) this] obtain y where "y \<in> set (snap_columns s)" "col_key y = k" by blast
  then have y: "col_table_key y = t'" "col_key y \<in> set (con_referenced_columns x)" "y \<in> set (snap_columns s)" using owner k by auto
  have "t = t' \<Longrightarrow> y \<in> set columns" unfolding assms(4) using y by simp
  then have "t = t' \<Longrightarrow> points_to columns x" unfolding points_to_def using y(2) True by blast
  moreover have "points_to columns x \<Longrightarrow> t = t'" unfolding points_to_def assms(4) using owner by blast
  ultimately show ?thesis using t'(1) True by fastforce
qed (simp add: points_to_def)

end
