(* ===== verification/Cli_Args.thy ===== *)
theory Cli_Args
  imports Interface_Contract
begin

text \<open>
  \<open>args.rs\<close> of the command line: the arguments are read from left to right into a command. The
  iterator over the arguments is a list. The configuration loader and the environment are parameters; file names stay texts.
\<close>

section \<open>Commands\<close>

definition DEFAULT_TRAVERSAL_DEPTH :: nat where "DEFAULT_TRAVERSAL_DEPTH = 3"
definition DEFAULT_RESULT_LIMIT :: nat where "DEFAULT_RESULT_LIMIT = 100"
definition DEFAULT_INVENTORY_LIMIT :: nat where "DEFAULT_INVENTORY_LIMIT = 1000"

datatype OutputFormat = TextFormat | JsonFormat

record IndexArgs =
  ixa_source :: string
  ixa_path :: "string option"
  ixa_connection_string :: "string option"
  ixa_alias :: string
  ixa_requested_catalogs :: "string list"
  ixa_requested_schemas :: "string list"
  ixa_timeout_ms :: nat
  ixa_format :: OutputFormat
  ixa_cache_path :: string

record ImpactArgs =
  ima_alias :: string
  ima_object_key :: "string option"
  ima_table_name :: "string option"
  ima_column_name :: "string option"
  ima_direction :: Direction
  ima_max_depth :: nat
  ima_limit :: nat
  ima_cache_path :: string

datatype Command =
    ContractCommand OutputFormat
  | IndexCommand IndexArgs
  | ListSnapshotsCommand OutputFormat string
  | DescribeSnapshotCommand string OutputFormat string
  | ListObjectsCommand string "ObjectKind option" nat nat OutputFormat string
  | FindObjectsCommand string string "ObjectKind option" nat nat OutputFormat string
  | DescribeObjectCommand string string nat OutputFormat string
  | DescribeTableCommand string "string option" "string option" OutputFormat string
  | InventoryCommand string nat nat string
  | FindTableCommand string string OutputFormat string
  | FindColumnCommand string string OutputFormat string
  | ImpactAnalysisCommand ImpactArgs
  | TraceRelationshipsCommand string string Direction nat nat string

type_synonym config_loader = "string \<Rightarrow> DatabaseMemoryConfig option"

section \<open>Words\<close>

text \<open>\<open>str::parse\<close> at an unsigned type: an optional plus sign and decimal digits, within the range.\<close>

definition digit_value :: "char \<Rightarrow> nat" where
  "digit_value c = of_char c - 48"

definition parse_unsigned :: "nat \<Rightarrow> string \<Rightarrow> nat option" where
  "parse_unsigned max_value s =
     (let digits = (case s of [] \<Rightarrow> [] | c # cs \<Rightarrow> if c = CHR ''+'' then cs else s);
          n = fold (\<lambda>c acc. 10 * acc + digit_value c) digits 0
      in if digits = [] \<or> \<not> list_all ascii_digit digits \<or> n > max_value then None else Some n)"

definition invalid_value :: "string \<Rightarrow> string \<Rightarrow> string" where
  "invalid_value label v = ''invalid '' @ label @ '' '' @ quoted v"

definition missing_value :: "string \<Rightarrow> string" where
  "missing_value flag = ''missing value for '' @ flag"

definition unknown_flag :: "string \<Rightarrow> string \<Rightarrow> string" where
  "unknown_flag command flag = ''unknown '' @ command @ '' flag '' @ quoted flag"

definition positive_usize :: "string \<Rightarrow> string \<Rightarrow> (string, nat) result" where
  "positive_usize label v =
     try_with (ok_or (invalid_value label v) (parse_unsigned usize_MAX v)) (\<lambda>n.
       if n = 0 then Err (label @ '' must be at least 1'') else Ok n)"

definition parse_format :: "string \<Rightarrow> (string, OutputFormat) result" where
  "parse_format v =
     (if v = ''text'' then Ok TextFormat
      else if v = ''json'' then Ok JsonFormat
      else Err (''unknown format '' @ quoted v @ ''; expected text or json''))"

definition parse_direction :: "string \<Rightarrow> (string, Direction) result" where
  "parse_direction v =
     (if v = ''inbound'' then Ok Inbound
      else if v = ''outbound'' then Ok Outbound
      else if v = ''both'' then Ok Both
      else Err (''unknown direction '' @ quoted v @ ''; expected inbound, outbound, or both''))"

definition profile_for_alias ::
  "(string \<Rightarrow> string option) \<Rightarrow> config_loader \<Rightarrow> string option \<Rightarrow> string \<Rightarrow> ConnectionProfile option" where
  "profile_for_alias env config_loader alias config_path =
     Option.bind alias (\<lambda>alias. Option.bind (config_loader config_path) (\<lambda>config. profile env config alias))"

definition default_cache_path :: string where "default_cache_path = ''.database-memory/graph.sqlite''"

definition or_default :: "'a option \<Rightarrow> 'a \<Rightarrow> 'a" where
  "or_default x d = (case x of Some y \<Rightarrow> y | None \<Rightarrow> d)"

definition or_else :: "'a option \<Rightarrow> 'a option \<Rightarrow> 'a option" where
  "or_else x y = (case x of Some _ \<Rightarrow> x | None \<Rightarrow> y)"

text \<open>The cache of a command: the flag, else the profile of the alias, else the default.\<close>

definition resolve_cache_path ::
  "(string \<Rightarrow> string option) \<Rightarrow> config_loader \<Rightarrow> string option \<Rightarrow> string option \<Rightarrow> string option \<Rightarrow> string" where
  "resolve_cache_path env config_loader alias config_path cache_path =
     or_default
       (or_else cache_path
         (Option.bind (profile_for_alias env config_loader alias (or_default config_path DEFAULT_CONFIG_PATH)) cp_cache_path))
       default_cache_path"

section \<open>Usage\<close>

definition usage :: string where
  "usage = join_with [CHR 0x0A]
     [''usage: database-memory contract [--format text|json]'',
      ''       database-memory index --source <source> (--path <path> | --connection-string <secret>) --alias <name> [--catalog <name>]... [--schema <name>]... [--timeout-ms <n>] [--format text|json] [--cache-path <path>] [--config-path <path>]'',
      ''       database-memory list-snapshots [--format text|json] [--cache-path <path>]'',
      ''       database-memory describe-snapshot <alias-or-snapshot-key> [--format text|json] [--cache-path <path>]'',
      ''       database-memory list-objects <alias-or-snapshot-key> [--kind <object-kind>] [--offset <n>] [--limit <n>] [--format text|json] [--cache-path <path>]'',
      ''       database-memory find-objects <alias-or-snapshot-key> <query> [--kind <object-kind>] [--offset <n>] [--limit <n>] [--format text|json] [--cache-path <path>]'',
      ''       database-memory describe-object <alias-or-snapshot-key> <object-key> [--relationship-limit <n>] [--format text|json] [--cache-path <path>]'',
      ''       database-memory describe-table <alias> [<table-name> | --object-key <stable-key>] [--format text|json] [--cache-path <path>] [--config-path <path>]'',
      ''       database-memory inventory <alias> [--offset <n>] [--limit <n>] [--format json] [--cache-path <path>] [--config-path <path>]'',
      ''       database-memory find-table <alias> <query> [--format text|json] [--cache-path <path>] [--config-path <path>]'',
      ''       database-memory find-column <alias> <query> [--format text|json] [--cache-path <path>] [--config-path <path>]'',
      ''       database-memory impact-analysis <alias> [<table-name> | --table <name> [--column <name>] | --object-key <key>] [--direction inbound|outbound|both] [--max-depth <n>] [--limit <n>] [--cache-path <path>] [--config-path <path>]'',
      ''       database-memory trace-relationships <alias> <object-key> [--direction inbound|outbound|both] [--max-depth <n>] [--limit <n>] [--cache-path <path>] [--config-path <path>]'']"

definition traversal_usage :: "string \<Rightarrow> string" where
  "traversal_usage command =
     (if command = ''impact-analysis''
      then ''usage: database-memory impact-analysis <alias> [<table-name> | --table <name> [--column <name>] | --object-key <key>] [--direction inbound|outbound|both] [--max-depth <n>] [--limit <n>] [--cache-path <path>] [--config-path <path>]''
      else ''usage: database-memory trace-relationships <alias> <object-key> [--direction inbound|outbound|both] [--max-depth <n>] [--limit <n>] [--cache-path <path>] [--config-path <path>]'')"

definition describe_table_usage :: string where
  "describe_table_usage = ''usage: database-memory describe-table <alias> [<table-name> | --object-key <stable-key>] [--format text|json] [--cache-path <path>] [--config-path <path>]''"

definition inventory_usage :: string where
  "inventory_usage = ''usage: database-memory inventory <alias> [--offset <n>] [--limit <n>] [--format json] [--cache-path <path>] [--config-path <path>]''"

section \<open>Contract, snapshots and inventory\<close>

fun parse_contract_args :: "string list \<Rightarrow> OutputFormat \<Rightarrow> (string, Command) result" where
  "parse_contract_args [] format = Ok (ContractCommand format)"
| "parse_contract_args (arg # args) format =
     (if arg = ''--json'' then parse_contract_args args JsonFormat
      else if arg = ''--format'' then
        (case args of
           [] \<Rightarrow> Err (missing_value arg)
         | v # rest \<Rightarrow> try_with (parse_format v) (\<lambda>f. parse_contract_args rest f))
      else Err (unknown_flag ''contract'' arg))"

fun parse_list_snapshots_args :: "string list \<Rightarrow> OutputFormat \<Rightarrow> string option \<Rightarrow> (string, Command) result" where
  "parse_list_snapshots_args [] format cache_path = Ok (ListSnapshotsCommand format (or_default cache_path default_cache_path))"
| "parse_list_snapshots_args (arg # args) format cache_path =
     (if arg = ''--json'' then parse_list_snapshots_args args JsonFormat cache_path
      else if arg = ''--format'' then
        (case args of
           [] \<Rightarrow> Err (missing_value arg)
         | v # rest \<Rightarrow> try_with (parse_format v) (\<lambda>f. parse_list_snapshots_args rest f cache_path))
      else if arg = ''--cache-path'' then
        (case args of
           [] \<Rightarrow> Err (missing_value arg)
         | v # rest \<Rightarrow> parse_list_snapshots_args rest format (Some v))
      else Err (unknown_flag ''list-snapshots'' arg))"

record InventoryState =
  ivs_alias :: "string option"
  ivs_offset :: nat
  ivs_limit :: nat
  ivs_cache_path :: "string option"
  ivs_config_path :: "string option"

fun parse_inventory_loop :: "string list \<Rightarrow> InventoryState \<Rightarrow> (string, InventoryState) result" where
  "parse_inventory_loop [] st = Ok st"
| "parse_inventory_loop (arg # args) st =
     (if arg = ''--json'' then parse_inventory_loop args st
      else if arg \<in> {''--format'', ''--limit'', ''--offset'', ''--cache-path'', ''--config-path''} then
        (case args of
           [] \<Rightarrow> Err (missing_value arg)
         | v # rest \<Rightarrow>
             if arg = ''--format'' then
               try_with (parse_format v) (\<lambda>f.
                 if f \<noteq> JsonFormat then Err ''inventory supports JSON output only'' else parse_inventory_loop rest st)
             else if arg = ''--limit'' then
               try_with (ok_or (invalid_value ''inventory limit'' v) (parse_unsigned usize_MAX v)) (\<lambda>n.
                 if n = 0 then Err ''inventory limit must be at least 1''
                 else parse_inventory_loop rest (st\<lparr>ivs_limit := n\<rparr>))
             else if arg = ''--offset'' then
               try_with (ok_or (invalid_value ''inventory offset'' v) (parse_unsigned usize_MAX v)) (\<lambda>n.
                 parse_inventory_loop rest (st\<lparr>ivs_offset := n\<rparr>))
             else if arg = ''--cache-path'' then parse_inventory_loop rest (st\<lparr>ivs_cache_path := Some v\<rparr>)
             else parse_inventory_loop rest (st\<lparr>ivs_config_path := Some v\<rparr>))
      else if starts_with arg ''--'' then Err (unknown_flag ''inventory'' arg)
      else if ivs_alias st = None then parse_inventory_loop args (st\<lparr>ivs_alias := Some arg\<rparr>)
      else Err inventory_usage)"

definition parse_inventory_args ::
  "(string \<Rightarrow> string option) \<Rightarrow> config_loader \<Rightarrow> string list \<Rightarrow> (string, Command) result" where
  "parse_inventory_args env config_loader args =
     try_with (parse_inventory_loop args
         \<lparr>ivs_alias = None, ivs_offset = 0, ivs_limit = DEFAULT_INVENTORY_LIMIT, ivs_cache_path = None,
           ivs_config_path = None\<rparr>) (\<lambda>st.
     try_with (ok_or inventory_usage (ivs_alias st)) (\<lambda>alias.
       Ok (InventoryCommand alias (ivs_offset st) (ivs_limit st)
         (resolve_cache_path env config_loader (Some alias) (ivs_config_path st) (ivs_cache_path st)))))"

section \<open>Index\<close>

record IndexState =
  ixs_source :: "string option"
  ixs_path :: "string option"
  ixs_alias :: "string option"
  ixs_connection_string :: "string option"
  ixs_requested_catalogs :: "string list"
  ixs_requested_schemas :: "string list"
  ixs_timeout_ms :: nat
  ixs_format :: OutputFormat
  ixs_cache_path :: "string option"
  ixs_config_path :: "string option"

fun parse_index_loop :: "string list \<Rightarrow> IndexState \<Rightarrow> (string, IndexState) result" where
  "parse_index_loop [] st = Ok st"
| "parse_index_loop (flag # args) st =
     (if flag = ''--json'' then parse_index_loop args (st\<lparr>ixs_format := JsonFormat\<rparr>)
      else
        (case args of
           [] \<Rightarrow> Err (missing_value flag)
         | v # rest \<Rightarrow>
             if flag = ''--source'' then parse_index_loop rest (st\<lparr>ixs_source := Some v\<rparr>)
             else if flag = ''--path'' then parse_index_loop rest (st\<lparr>ixs_path := Some v\<rparr>)
             else if flag = ''--connection-string'' then parse_index_loop rest (st\<lparr>ixs_connection_string := Some v\<rparr>)
             else if flag = ''--alias'' then parse_index_loop rest (st\<lparr>ixs_alias := Some v\<rparr>)
             else if flag = ''--catalog'' then
               parse_index_loop rest (st\<lparr>ixs_requested_catalogs := ixs_requested_catalogs st @ [v]\<rparr>)
             else if flag = ''--schema'' then
               parse_index_loop rest (st\<lparr>ixs_requested_schemas := ixs_requested_schemas st @ [v]\<rparr>)
             else if flag = ''--timeout-ms'' then
               try_with (ok_or (invalid_value ''timeout'' v) (parse_unsigned usize_MAX v)) (\<lambda>n.
                 parse_index_loop rest (st\<lparr>ixs_timeout_ms := n\<rparr>))
             else if flag = ''--format'' then
               try_with (parse_format v) (\<lambda>f. parse_index_loop rest (st\<lparr>ixs_format := f\<rparr>))
             else if flag = ''--cache-path'' then parse_index_loop rest (st\<lparr>ixs_cache_path := Some v\<rparr>)
             else if flag = ''--config-path'' then parse_index_loop rest (st\<lparr>ixs_config_path := Some v\<rparr>)
             else Err (unknown_flag ''index'' flag)))"

definition parse_index_args ::
  "(string \<Rightarrow> string option) \<Rightarrow> config_loader \<Rightarrow> string list \<Rightarrow> (string, Command) result" where
  "parse_index_args env config_loader args =
     try_with (parse_index_loop args
         \<lparr>ixs_source = None, ixs_path = None, ixs_alias = None, ixs_connection_string = None,
           ixs_requested_catalogs = [], ixs_requested_schemas = [], ixs_timeout_ms = DEFAULT_TIMEOUT_MS,
           ixs_format = TextFormat, ixs_cache_path = None, ixs_config_path = None\<rparr>) (\<lambda>st.
       (let found = profile_for_alias env config_loader (ixs_alias st) (or_default (ixs_config_path st) DEFAULT_CONFIG_PATH)
        in try_with (ok_or ''missing --source'' (or_else (ixs_source st) (map_option cp_source found))) (\<lambda>source.
             (let p = or_else (ixs_path st) (Option.bind found cp_path);
                  connection_string = or_else (ixs_connection_string st) (Option.bind found cp_connection_string)
              in if source \<in> set file_sources \<and> p = None then Err ''missing --path''
                 else if source \<in> set connection_sources \<and> connection_string = None
                 then Err ''missing --connection-string''
                 else try_with (ok_or ''missing --alias'' (ixs_alias st)) (\<lambda>alias.
                   Ok (IndexCommand \<lparr>ixa_source = source, ixa_path = p, ixa_connection_string = connection_string,
                     ixa_alias = alias, ixa_requested_catalogs = ixs_requested_catalogs st,
                     ixa_requested_schemas = ixs_requested_schemas st, ixa_timeout_ms = ixs_timeout_ms st,
                     ixa_format = ixs_format st,
                     ixa_cache_path = or_default (or_else (ixs_cache_path st) (Option.bind found cp_cache_path))
                       default_cache_path\<rparr>))))))"

section \<open>Objects\<close>

record ReadState =
  rds_positionals :: "string list"
  rds_kind :: "ObjectKind option"
  rds_offset :: nat
  rds_limit :: nat
  rds_relationship_limit :: nat
  rds_format :: OutputFormat
  rds_cache_path :: "string option"
  rds_config_path :: "string option"

definition pages_objects :: "string \<Rightarrow> bool" where
  "pages_objects command = (command = ''list-objects'' \<or> command = ''find-objects'')"

fun parse_read_loop :: "string \<Rightarrow> string list \<Rightarrow> ReadState \<Rightarrow> (string, ReadState) result" where
  "parse_read_loop command [] st = Ok st"
| "parse_read_loop command (arg # args) st =
     (if arg = ''--json'' then parse_read_loop command args (st\<lparr>rds_format := JsonFormat\<rparr>)
      else if arg \<in> {''--format'', ''--cache-path'', ''--config-path''}
           \<or> arg \<in> {''--kind'', ''--offset'', ''--limit''} \<and> pages_objects command
           \<or> arg = ''--relationship-limit'' \<and> command = ''describe-object'' then
        (case args of
           [] \<Rightarrow> Err (missing_value arg)
         | v # rest \<Rightarrow>
             if arg = ''--format'' then
               try_with (parse_format v) (\<lambda>f. parse_read_loop command rest (st\<lparr>rds_format := f\<rparr>))
             else if arg = ''--kind'' then
               try_with (map_err (\<lambda>_. ''unknown object kind '' @ quoted v @ ''; use a contract object kind'') (kind_from_str v))
                 (\<lambda>k. parse_read_loop command rest (st\<lparr>rds_kind := Some k\<rparr>))
             else if arg = ''--offset'' then
               try_with (ok_or (invalid_value ''object offset'' v) (parse_unsigned usize_MAX v)) (\<lambda>n.
                 parse_read_loop command rest (st\<lparr>rds_offset := n\<rparr>))
             else if arg = ''--limit'' then
               try_with (positive_usize ''object limit'' v) (\<lambda>n. parse_read_loop command rest (st\<lparr>rds_limit := n\<rparr>))
             else if arg = ''--relationship-limit'' then
               try_with (positive_usize ''relationship limit'' v) (\<lambda>n.
                 parse_read_loop command rest (st\<lparr>rds_relationship_limit := n\<rparr>))
             else if arg = ''--cache-path'' then parse_read_loop command rest (st\<lparr>rds_cache_path := Some v\<rparr>)
             else parse_read_loop command rest (st\<lparr>rds_config_path := Some v\<rparr>))
      else if starts_with arg ''--'' then Err (unknown_flag command arg)
      else parse_read_loop command args (st\<lparr>rds_positionals := rds_positionals st @ [arg]\<rparr>))"

text \<open>The state together with the resolved cache path.\<close>

definition parse_read_command_args ::
  "(string \<Rightarrow> string option) \<Rightarrow> config_loader \<Rightarrow> string \<Rightarrow> string list \<Rightarrow> (string, ReadState \<times> string) result" where
  "parse_read_command_args env config_loader command args =
     try_with (parse_read_loop command args
         \<lparr>rds_positionals = [], rds_kind = None, rds_offset = 0, rds_limit = DEFAULT_OBJECT_PAGE_LIMIT,
           rds_relationship_limit = DEFAULT_RELATIONSHIP_LIMIT, rds_format = TextFormat, rds_cache_path = None,
           rds_config_path = None\<rparr>) (\<lambda>st.
       Ok (st, resolve_cache_path env config_loader
         (case rds_positionals st of [] \<Rightarrow> None | alias # _ \<Rightarrow> Some alias) (rds_config_path st) (rds_cache_path st)))"

definition parse_describe_snapshot_args ::
  "(string \<Rightarrow> string option) \<Rightarrow> config_loader \<Rightarrow> string list \<Rightarrow> (string, Command) result" where
  "parse_describe_snapshot_args env config_loader args =
     try_with (parse_read_command_args env config_loader ''describe-snapshot'' args) (\<lambda>(st, cache_path).
       case rds_positionals st of
         [selector] \<Rightarrow> Ok (DescribeSnapshotCommand selector (rds_format st) cache_path)
       | _ \<Rightarrow> Err ''usage: database-memory describe-snapshot <alias-or-snapshot-key> [--format text|json] [--cache-path <path>]'')"

definition parse_object_command ::
  "(string \<Rightarrow> string option) \<Rightarrow> config_loader \<Rightarrow> string \<Rightarrow> string list \<Rightarrow> (string, Command) result" where
  "parse_object_command env config_loader command args =
     try_with (parse_read_command_args env config_loader command args) (\<lambda>(st, cache_path).
       if command = ''list-objects'' then
         (case rds_positionals st of
            [selector] \<Rightarrow> Ok (ListObjectsCommand selector (rds_kind st) (rds_offset st) (rds_limit st) (rds_format st) cache_path)
          | _ \<Rightarrow> Err ''usage: database-memory list-objects <alias-or-snapshot-key> [--kind <object-kind>] [--offset <n>] [--limit <n>] [--format text|json] [--cache-path <path>]'')
       else if command = ''find-objects'' then
         (case rds_positionals st of
            [selector, query] \<Rightarrow>
              Ok (FindObjectsCommand selector query (rds_kind st) (rds_offset st) (rds_limit st) (rds_format st) cache_path)
          | _ \<Rightarrow> Err ''usage: database-memory find-objects <alias-or-snapshot-key> <query> [--kind <object-kind>] [--offset <n>] [--limit <n>] [--format text|json] [--cache-path <path>]'')
       else
         (case (rds_positionals st, rds_kind st) of
            ([selector, object_key], None) \<Rightarrow>
              Ok (DescribeObjectCommand selector object_key (rds_relationship_limit st) (rds_format st) cache_path)
          | _ \<Rightarrow> Err ''usage: database-memory describe-object <alias-or-snapshot-key> <object-key> [--relationship-limit <n>] [--format text|json] [--cache-path <path>]''))"

section \<open>Tables and columns\<close>

record TableState =
  tbs_positionals :: "string list"
  tbs_object_key :: "string option"
  tbs_format :: OutputFormat
  tbs_cache_path :: "string option"
  tbs_config_path :: "string option"

definition new_table_state :: TableState where
  "new_table_state =
     \<lparr>tbs_positionals = [], tbs_object_key = None, tbs_format = TextFormat, tbs_cache_path = None, tbs_config_path = None\<rparr>"

text \<open>The loops of \<open>describe-table\<close> and of the two searches differ in the flag for the object key.\<close>

fun parse_table_loop :: "string \<Rightarrow> string list \<Rightarrow> TableState \<Rightarrow> (string, TableState) result" where
  "parse_table_loop command [] st = Ok st"
| "parse_table_loop command (arg # args) st =
     (if arg = ''--json'' then parse_table_loop command args (st\<lparr>tbs_format := JsonFormat\<rparr>)
      else if arg \<in> {''--format'', ''--cache-path'', ''--config-path''}
           \<or> arg = ''--object-key'' \<and> command = ''describe-table'' then
        (case args of
           [] \<Rightarrow> Err (missing_value arg)
         | v # rest \<Rightarrow>
             if arg = ''--format'' then
               try_with (parse_format v) (\<lambda>f. parse_table_loop command rest (st\<lparr>tbs_format := f\<rparr>))
             else if arg = ''--object-key'' then parse_table_loop command rest (st\<lparr>tbs_object_key := Some v\<rparr>)
             else if arg = ''--cache-path'' then parse_table_loop command rest (st\<lparr>tbs_cache_path := Some v\<rparr>)
             else parse_table_loop command rest (st\<lparr>tbs_config_path := Some v\<rparr>))
      else if starts_with arg ''--'' then Err (unknown_flag command arg)
      else parse_table_loop command args (st\<lparr>tbs_positionals := tbs_positionals st @ [arg]\<rparr>))"

definition parse_describe_table_args ::
  "(string \<Rightarrow> string option) \<Rightarrow> config_loader \<Rightarrow> string list \<Rightarrow> (string, Command) result" where
  "parse_describe_table_args env config_loader args =
     try_with (parse_table_loop ''describe-table'' args new_table_state) (\<lambda>st.
       if tbs_positionals st = [] \<or> length (tbs_positionals st) > 2 then Err describe_table_usage
       else
         (let alias = hd (tbs_positionals st);
              table_name = (case tl (tbs_positionals st) of [] \<Rightarrow> None | t # _ \<Rightarrow> Some t)
          in if (tbs_object_key st \<noteq> None) = (table_name \<noteq> None)
             then Err ''pass one table selector: a positional table name or --object-key''
             else Ok (DescribeTableCommand alias (tbs_object_key st) table_name (tbs_format st)
               (resolve_cache_path env config_loader (Some alias) (tbs_config_path st) (tbs_cache_path st)))))"

definition parse_find_args ::
  "(string \<Rightarrow> string option) \<Rightarrow> config_loader \<Rightarrow> string \<Rightarrow> string list \<Rightarrow> (string, Command) result" where
  "parse_find_args env config_loader command args =
     try_with (parse_table_loop command args new_table_state) (\<lambda>st.
       case tbs_positionals st of
         [alias, query] \<Rightarrow>
           (let cache_path = resolve_cache_path env config_loader (Some alias) (tbs_config_path st) (tbs_cache_path st)
            in Ok (if command = ''find-table'' then FindTableCommand alias query (tbs_format st) cache_path
                   else FindColumnCommand alias query (tbs_format st) cache_path))
       | _ \<Rightarrow> Err (''usage: database-memory '' @ command @ '' <alias> <query> [--cache-path <path>] [--config-path <path>]''))"

section \<open>Traversals\<close>

record TraversalState =
  tvs_positionals :: "string list"
  tvs_object_key :: "string option"
  tvs_table_name :: "string option"
  tvs_column_name :: "string option"
  tvs_direction :: Direction
  tvs_max_depth :: nat
  tvs_limit :: nat
  tvs_cache_path :: "string option"
  tvs_config_path :: "string option"

fun parse_traversal_loop :: "string \<Rightarrow> string list \<Rightarrow> TraversalState \<Rightarrow> (string, TraversalState) result" where
  "parse_traversal_loop command [] st = Ok st"
| "parse_traversal_loop command (arg # args) st =
     (if arg = ''--json'' then parse_traversal_loop command args st
      else if arg \<in> {''--format'', ''--object-key'', ''--direction'', ''--max-depth'', ''--limit'', ''--cache-path'', ''--config-path''}
           \<or> arg \<in> {''--table'', ''--column''} \<and> command = ''impact-analysis'' then
        (case args of
           [] \<Rightarrow> Err (missing_value arg)
         | v # rest \<Rightarrow>
             if arg = ''--format'' then
               try_with (parse_format v) (\<lambda>f.
                 if f \<noteq> JsonFormat then Err (command @ '' supports JSON output only'')
                 else parse_traversal_loop command rest st)
             else if arg = ''--object-key'' then parse_traversal_loop command rest (st\<lparr>tvs_object_key := Some v\<rparr>)
             else if arg = ''--table'' then parse_traversal_loop command rest (st\<lparr>tvs_table_name := Some v\<rparr>)
             else if arg = ''--column'' then parse_traversal_loop command rest (st\<lparr>tvs_column_name := Some v\<rparr>)
             else if arg = ''--direction'' then
               try_with (parse_direction v) (\<lambda>d. parse_traversal_loop command rest (st\<lparr>tvs_direction := d\<rparr>))
             else if arg = ''--max-depth'' then
               try_with (ok_or (invalid_value ''max depth'' v) (parse_unsigned u32_MAX v)) (\<lambda>n.
                 parse_traversal_loop command rest (st\<lparr>tvs_max_depth := n\<rparr>))
             else if arg = ''--limit'' then
               try_with (ok_or (invalid_value ''result limit'' v) (parse_unsigned usize_MAX v)) (\<lambda>n.
                 if n = 0 then Err ''result limit must be at least 1''
                 else parse_traversal_loop command rest (st\<lparr>tvs_limit := n\<rparr>))
             else if arg = ''--cache-path'' then parse_traversal_loop command rest (st\<lparr>tvs_cache_path := Some v\<rparr>)
             else parse_traversal_loop command rest (st\<lparr>tvs_config_path := Some v\<rparr>))
      else if starts_with arg ''--'' then Err (unknown_flag command arg)
      else parse_traversal_loop command args (st\<lparr>tvs_positionals := tvs_positionals st @ [arg]\<rparr>))"

definition impact_command :: "string \<Rightarrow> string option \<Rightarrow> string \<Rightarrow> TraversalState \<Rightarrow> (string, Command) result" where
  "impact_command alias positional_selector cache_path st =
     (if positional_selector \<noteq> None \<and> (tvs_object_key st \<noteq> None \<or> tvs_table_name st \<noteq> None)
      then Err ''pass one impact target: a positional table, --table, or --object-key''
      else if tvs_object_key st \<noteq> None \<and> (tvs_table_name st \<noteq> None \<or> tvs_column_name st \<noteq> None)
      then Err ''--object-key cannot be combined with --table or --column''
      else
        (let table_name = or_else (tvs_table_name st) positional_selector
         in if tvs_object_key st = None \<and> table_name = None then Err (traversal_usage ''impact-analysis'')
            else if tvs_column_name st \<noteq> None \<and> table_name = None then Err ''--column requires --table''
            else Ok (ImpactAnalysisCommand \<lparr>ima_alias = alias, ima_object_key = tvs_object_key st,
              ima_table_name = table_name, ima_column_name = tvs_column_name st, ima_direction = tvs_direction st,
              ima_max_depth = tvs_max_depth st, ima_limit = tvs_limit st, ima_cache_path = cache_path\<rparr>)))"

definition trace_command :: "string \<Rightarrow> string option \<Rightarrow> string \<Rightarrow> TraversalState \<Rightarrow> (string, Command) result" where
  "trace_command alias positional_selector cache_path st =
     (if positional_selector \<noteq> None \<and> tvs_object_key st \<noteq> None then Err ''pass the start object key once''
      else
        try_with (ok_or (traversal_usage ''trace-relationships'') (or_else (tvs_object_key st) positional_selector)) (\<lambda>object_key.
          Ok (TraceRelationshipsCommand alias object_key (tvs_direction st) (tvs_max_depth st) (tvs_limit st) cache_path)))"

definition parse_traversal_args ::
  "(string \<Rightarrow> string option) \<Rightarrow> config_loader \<Rightarrow> string \<Rightarrow> string list \<Rightarrow> (string, Command) result" where
  "parse_traversal_args env config_loader command args =
     try_with (parse_traversal_loop command args
         \<lparr>tvs_positionals = [], tvs_object_key = None, tvs_table_name = None, tvs_column_name = None,
           tvs_direction = Both, tvs_max_depth = DEFAULT_TRAVERSAL_DEPTH, tvs_limit = DEFAULT_RESULT_LIMIT,
           tvs_cache_path = None, tvs_config_path = None\<rparr>) (\<lambda>st.
       if tvs_positionals st = [] \<or> length (tvs_positionals st) > 2 then Err (traversal_usage command)
       else
         (let alias = hd (tvs_positionals st);
              positional_selector = (case tl (tvs_positionals st) of [] \<Rightarrow> None | t # _ \<Rightarrow> Some t);
              cache_path = resolve_cache_path env config_loader (Some alias) (tvs_config_path st) (tvs_cache_path st)
          in if command = ''impact-analysis'' then impact_command alias positional_selector cache_path st
             else trace_command alias positional_selector cache_path st))"

section \<open>The whole command line\<close>

definition parse_args_with_config ::
  "(string \<Rightarrow> string option) \<Rightarrow> config_loader \<Rightarrow> string list \<Rightarrow> (string, Command) result" where
  "parse_args_with_config env config_loader args =
     (case args of
        [] \<Rightarrow> Err usage
      | command # rest \<Rightarrow>
          if command = ''contract'' then parse_contract_args rest TextFormat
          else if command = ''index'' then parse_index_args env config_loader rest
          else if command = ''list-snapshots'' then parse_list_snapshots_args rest TextFormat None
          else if command = ''describe-snapshot'' then parse_describe_snapshot_args env config_loader rest
          else if command \<in> {''list-objects'', ''find-objects'', ''describe-object''}
          then parse_object_command env config_loader command rest
          else if command = ''describe-table'' then parse_describe_table_args env config_loader rest
          else if command = ''inventory'' then parse_inventory_args env config_loader rest
          else if command = ''find-table'' \<or> command = ''find-column'' then parse_find_args env config_loader command rest
          else if command = ''impact-analysis'' \<or> command = ''trace-relationships''
          then parse_traversal_args env config_loader command rest
          else Err (''unknown command '' @ quoted command))"

text \<open>A configuration that cannot be loaded counts as none.\<close>

definition parse_args ::
  "(string \<Rightarrow> string option) \<Rightarrow> (string \<Rightarrow> (('io, 'toml) ConfigError, DatabaseMemoryConfig option) result)
    \<Rightarrow> string list \<Rightarrow> (string, Command) result" where
  "parse_args env load args =
     parse_args_with_config env (\<lambda>p. case load p of Inl _ \<Rightarrow> None | Inr config \<Rightarrow> config) args"

section \<open>What a parsed command satisfies\<close>

lemma parse_unsigned_le: "parse_unsigned m v = Some n \<Longrightarrow> n \<le> m"
  by (auto simp: parse_unsigned_def Let_def split: if_splits)

lemma positive_usize_Ok: "positive_usize label v = Ok n \<Longrightarrow> 0 < n \<and> n \<le> usize_MAX"
  by (auto simp: positive_usize_def try_with_Ok_iff split: if_splits dest: parse_unsigned_le)

lemma defaults_within:
  "0 < DEFAULT_INVENTORY_LIMIT" "DEFAULT_INVENTORY_LIMIT \<le> usize_MAX"
  "0 < DEFAULT_OBJECT_PAGE_LIMIT" "DEFAULT_OBJECT_PAGE_LIMIT \<le> usize_MAX"
  "0 < DEFAULT_RELATIONSHIP_LIMIT" "DEFAULT_RELATIONSHIP_LIMIT \<le> usize_MAX"
  "0 < DEFAULT_RESULT_LIMIT" "DEFAULT_RESULT_LIMIT \<le> usize_MAX"
  "DEFAULT_TRAVERSAL_DEPTH \<le> u32_MAX" "DEFAULT_TIMEOUT_MS \<le> usize_MAX"
  by (simp_all add: DEFAULT_INVENTORY_LIMIT_def DEFAULT_OBJECT_PAGE_LIMIT_def DEFAULT_RELATIONSHIP_LIMIT_def
      DEFAULT_RESULT_LIMIT_def DEFAULT_TRAVERSAL_DEPTH_def DEFAULT_TIMEOUT_MS_def usize_MAX_def u32_MAX_def)

text \<open>A loop over the arguments consumes at least one in each round. When every round keeps a condition on
  the state, the loop does.\<close>

locale argument_loop =
  fixes loop :: "string list \<Rightarrow> 's \<Rightarrow> (string, 's) result" and good :: "'s \<Rightarrow> bool"
  assumes no_arguments: "loop [] st = Ok st"
    and round: "loop (arg # args) st = Ok st' \<Longrightarrow> good st
      \<Longrightarrow> (\<And>rest s. loop rest s = Ok st' \<Longrightarrow> length rest \<le> length args \<Longrightarrow> good s \<Longrightarrow> good st') \<Longrightarrow> good st'"
begin

lemma keeps: "loop args st = Ok st' \<Longrightarrow> good st \<Longrightarrow> good st'"
proof (induction args arbitrary: st rule: length_induct)
  case (1 args)
  show ?case
  proof (cases args)
    case (Cons arg rest)
    show ?thesis
      by (rule round[OF 1(2)[unfolded Cons] 1(3)]) (use 1(1) Cons in \<open>force simp: less_Suc_eq_le\<close>)
  qed (use 1 no_arguments in simp)
qed

end

definition inventory_good :: "InventoryState \<Rightarrow> bool" where
  "inventory_good st = (0 < ivs_limit st \<and> ivs_limit st \<le> usize_MAX \<and> ivs_offset st \<le> usize_MAX)"

definition read_good :: "ReadState \<Rightarrow> bool" where
  "read_good st =
     (0 < rds_limit st \<and> rds_limit st \<le> usize_MAX \<and> rds_offset st \<le> usize_MAX
      \<and> 0 < rds_relationship_limit st \<and> rds_relationship_limit st \<le> usize_MAX)"

definition traversal_good :: "TraversalState \<Rightarrow> bool" where
  "traversal_good st = (0 < tvs_limit st \<and> tvs_limit st \<le> usize_MAX \<and> tvs_max_depth st \<le> u32_MAX)"

interpretation inventory: argument_loop parse_inventory_loop inventory_good
  by unfold_locales
    (simp, auto simp: inventory_good_def try_with_Ok_iff split: if_splits list.splits dest!: parse_unsigned_le)

interpretation read: argument_loop "parse_read_loop command" read_good for command
  by unfold_locales
    (simp, auto simp: read_good_def try_with_Ok_iff split: if_splits list.splits dest!: parse_unsigned_le positive_usize_Ok)

interpretation traversal: argument_loop "parse_traversal_loop command" traversal_good for command
  by unfold_locales
    (simp, auto simp: traversal_good_def try_with_Ok_iff split: if_splits list.splits dest!: parse_unsigned_le)

interpretation index: argument_loop parse_index_loop "\<lambda>st. ixs_timeout_ms st \<le> usize_MAX"
  by unfold_locales (simp, auto simp: try_with_Ok_iff split: if_splits list.splits dest!: parse_unsigned_le)

fun well_formed_command :: "Command \<Rightarrow> bool" where
  "well_formed_command (IndexCommand a) =
     ((ixa_source a \<in> set file_sources \<longrightarrow> ixa_path a \<noteq> None)
      \<and> (ixa_source a \<in> set connection_sources \<longrightarrow> ixa_connection_string a \<noteq> None)
      \<and> ixa_timeout_ms a \<le> usize_MAX)"
| "well_formed_command (ListObjectsCommand _ _ offset limit _ _) = (0 < limit \<and> limit \<le> usize_MAX \<and> offset \<le> usize_MAX)"
| "well_formed_command (FindObjectsCommand _ _ _ offset limit _ _) = (0 < limit \<and> limit \<le> usize_MAX \<and> offset \<le> usize_MAX)"
| "well_formed_command (DescribeObjectCommand _ _ relationship_limit _ _) =
     (0 < relationship_limit \<and> relationship_limit \<le> usize_MAX)"
| "well_formed_command (DescribeTableCommand _ object_key table_name _ _) = ((object_key = None) \<noteq> (table_name = None))"
| "well_formed_command (InventoryCommand _ offset limit _) = (0 < limit \<and> limit \<le> usize_MAX \<and> offset \<le> usize_MAX)"
| "well_formed_command (ImpactAnalysisCommand a) =
     ((ima_object_key a = None) \<noteq> (ima_table_name a = None)
      \<and> (ima_column_name a \<noteq> None \<longrightarrow> ima_table_name a \<noteq> None)
      \<and> 0 < ima_limit a \<and> ima_limit a \<le> usize_MAX \<and> ima_max_depth a \<le> u32_MAX)"
| "well_formed_command (TraceRelationshipsCommand _ _ _ max_depth limit _) =
     (0 < limit \<and> limit \<le> usize_MAX \<and> max_depth \<le> u32_MAX)"
| "well_formed_command _ = True"

lemma contract_Ok: "parse_contract_args args f = Ok cmd \<Longrightarrow> \<exists>g. cmd = ContractCommand g"
  by (induction args f rule: parse_contract_args.induct) (auto simp: try_with_Ok_iff split: if_splits list.splits)

lemma list_snapshots_Ok: "parse_list_snapshots_args args f p = Ok cmd \<Longrightarrow> \<exists>g q. cmd = ListSnapshotsCommand g q"
  by (induction args f p rule: parse_list_snapshots_args.induct) (auto simp: try_with_Ok_iff split: if_splits list.splits)

lemma index_args_Ok:
  assumes "parse_index_args env loader args = Ok cmd"
  shows "well_formed_command cmd"
proof -
  obtain st where "parse_index_loop args
      \<lparr>ixs_source = None, ixs_path = None, ixs_alias = None, ixs_connection_string = None,
        ixs_requested_catalogs = [], ixs_requested_schemas = [], ixs_timeout_ms = DEFAULT_TIMEOUT_MS,
        ixs_format = TextFormat, ixs_cache_path = None, ixs_config_path = None\<rparr> = Ok st"
    using assms by (auto simp: parse_index_args_def try_with_Ok_iff)
  from index.keeps[OF this] assms this show ?thesis
    by (auto simp: parse_index_args_def try_with_Ok_iff Let_def defaults_within split: if_splits)
qed

lemma inventory_args_Ok: "parse_inventory_args env loader args = Ok cmd \<Longrightarrow> well_formed_command cmd"
  by (auto simp: parse_inventory_args_def try_with_Ok_iff inventory_good_def defaults_within dest!: inventory.keeps)

lemma read_args_good: "parse_read_command_args env loader command args = Ok (st, p) \<Longrightarrow> read_good st"
  by (auto simp: parse_read_command_args_def try_with_Ok_iff dest!: read.keeps) (simp_all add: read_good_def defaults_within)

lemma describe_snapshot_args_Ok:
  assumes "parse_describe_snapshot_args env loader args = Ok cmd"
  shows "\<exists>sel f p. cmd = DescribeSnapshotCommand sel f p"
proof -
  obtain st p where "parse_read_command_args env loader ''describe-snapshot'' args = Ok (st, p)"
    using assms by (auto simp: parse_describe_snapshot_args_def try_with_Ok_iff)
  with assms show ?thesis
    by (cases "rds_positionals st"; cases "tl (rds_positionals st)")
      (auto simp: parse_describe_snapshot_args_def split: if_splits option.splits)
qed

lemma object_args_Ok:
  "parse_object_command env loader command args = Ok cmd \<Longrightarrow> well_formed_command cmd"
  by (auto simp: parse_object_command_def try_with_Ok_iff dest!: read_args_good
      split: prod.split_asm list.split_asm option.split_asm if_split_asm) (auto simp: read_good_def)

lemma describe_table_args_Ok:
  assumes "parse_describe_table_args env loader args = Ok cmd"
  shows "well_formed_command cmd"
proof -
  obtain st where "parse_table_loop ''describe-table'' args new_table_state = Ok st"
    using assms by (auto simp: parse_describe_table_args_def try_with_Ok_iff)
  with assms show ?thesis
    by (cases "tl (tbs_positionals st)") (auto simp: parse_describe_table_args_def Let_def split: if_splits)
qed

lemma find_args_Ok:
  assumes "parse_find_args env loader command args = Ok cmd"
  shows "well_formed_command cmd"
proof -
  obtain st where "parse_table_loop command args new_table_state = Ok st"
    using assms by (auto simp: parse_find_args_def try_with_Ok_iff)
  with assms show ?thesis
    by (cases "tbs_positionals st"; cases "tl (tbs_positionals st)"; cases "tl (tl (tbs_positionals st))")
      (auto simp: parse_find_args_def Let_def split: if_splits)
qed

lemma traversal_commands_Ok:
  "impact_command alias sel p st = Ok cmd \<Longrightarrow> traversal_good st \<Longrightarrow> well_formed_command cmd"
  "trace_command alias sel p st = Ok cmd \<Longrightarrow> traversal_good st \<Longrightarrow> well_formed_command cmd"
  by (auto simp: impact_command_def trace_command_def traversal_good_def or_else_def try_with_Ok_iff Let_def
      split: if_splits option.splits)

lemma traversal_args_Ok:
  assumes "parse_traversal_args env loader command args = Ok cmd"
  shows "well_formed_command cmd"
proof -
  obtain st where "parse_traversal_loop command args
      \<lparr>tvs_positionals = [], tvs_object_key = None, tvs_table_name = None, tvs_column_name = None,
        tvs_direction = Both, tvs_max_depth = DEFAULT_TRAVERSAL_DEPTH, tvs_limit = DEFAULT_RESULT_LIMIT,
        tvs_cache_path = None, tvs_config_path = None\<rparr> = Ok st"
    using assms by (auto simp: parse_traversal_args_def try_with_Ok_iff)
  moreover from traversal.keeps[OF this] have "traversal_good st" by (simp add: traversal_good_def defaults_within)
  ultimately show ?thesis
    using assms by (auto simp: parse_traversal_args_def Let_def split: if_splits intro: traversal_commands_Ok)
qed

lemma plain_commands_Ok:
  "parse_contract_args args f = Ok cmd \<Longrightarrow> well_formed_command cmd"
  "parse_list_snapshots_args args f p = Ok cmd \<Longrightarrow> well_formed_command cmd"
  "parse_describe_snapshot_args env loader args = Ok cmd \<Longrightarrow> well_formed_command cmd"
  by (auto dest: contract_Ok list_snapshots_Ok describe_snapshot_args_Ok)

lemmas command_parsers_Ok =
  plain_commands_Ok index_args_Ok object_args_Ok describe_table_args_Ok inventory_args_Ok find_args_Ok traversal_args_Ok

lemma parsed_well_formed:
  assumes "parse_args_with_config env loader args = Ok cmd"
  shows "well_formed_command cmd"
proof (cases args)
  case (Cons command rest)
  with assms show ?thesis
    by (simp add: parse_args_with_config_def split: if_split_asm) (erule command_parsers_Ok)+
qed (use assms in \<open>simp add: parse_args_with_config_def\<close>)

lemma accepted_are_listed:
  "parse_args_with_config env loader (command # rest) = Ok cmd
   \<Longrightarrow> command \<in> set (pct_commands (product_contract version odbc))"
  by (auto simp: parse_args_with_config_def product_contract_def split: if_split_asm)

text \<open>Arguments with which each command is accepted.\<close>

definition sample_arguments :: "string \<Rightarrow> string list" where
  "sample_arguments command =
     (if command \<in> {''contract'', ''list-snapshots''} then []
      else if command = ''index'' then
        [''--source'', ''sqlite'', ''--path'', ''a.db'', ''--alias'', ''a'', ''--config-path'', ''c.toml'', ''--cache-path'', ''g'']
      else if command \<in> {''describe-snapshot'', ''list-objects'', ''inventory''} then [''a'', ''--cache-path'', ''g'']
      else [''a'', ''t'', ''--cache-path'', ''g''])"

lemma snapshot_samples:
  "\<exists>cmd. parse_args_with_config env loader (''contract'' # sample_arguments ''contract'') = Ok cmd"
  "\<exists>cmd. parse_args_with_config env loader (''list-snapshots'' # sample_arguments ''list-snapshots'') = Ok cmd"
  "\<exists>cmd. parse_args_with_config env loader (''index'' # sample_arguments ''index'') = Ok cmd"
  by (simp_all add: parse_args_with_config_def sample_arguments_def parse_index_args_def or_else_def
      file_sources_def connection_sources_def Let_def)

lemma object_samples:
  "\<exists>cmd. parse_args_with_config env loader (''describe-snapshot'' # sample_arguments ''describe-snapshot'') = Ok cmd"
  "\<exists>cmd. parse_args_with_config env loader (''list-objects'' # sample_arguments ''list-objects'') = Ok cmd"
  "\<exists>cmd. parse_args_with_config env loader (''find-objects'' # sample_arguments ''find-objects'') = Ok cmd"
  "\<exists>cmd. parse_args_with_config env loader (''describe-object'' # sample_arguments ''describe-object'') = Ok cmd"
  "\<exists>cmd. parse_args_with_config env loader (''inventory'' # sample_arguments ''inventory'') = Ok cmd"
  by (simp_all add: parse_args_with_config_def sample_arguments_def parse_describe_snapshot_args_def
      parse_object_command_def parse_read_command_args_def parse_inventory_args_def starts_with_def)

lemma table_samples:
  "\<exists>cmd. parse_args_with_config env loader (''describe-table'' # sample_arguments ''describe-table'') = Ok cmd"
  "\<exists>cmd. parse_args_with_config env loader (''find-table'' # sample_arguments ''find-table'') = Ok cmd"
  "\<exists>cmd. parse_args_with_config env loader (''find-column'' # sample_arguments ''find-column'') = Ok cmd"
  "\<exists>cmd. parse_args_with_config env loader (''impact-analysis'' # sample_arguments ''impact-analysis'') = Ok cmd"
  "\<exists>cmd. parse_args_with_config env loader (''trace-relationships'' # sample_arguments ''trace-relationships'') = Ok cmd"
  by (simp_all add: parse_args_with_config_def sample_arguments_def parse_describe_table_args_def
      parse_find_args_def parse_traversal_args_def impact_command_def trace_command_def new_table_state_def or_else_def
      starts_with_def Let_def)

lemma listed_are_accepted:
  assumes "command \<in> set (pct_commands (product_contract version odbc))"
  shows "\<exists>cmd. parse_args_with_config env loader (command # sample_arguments command) = Ok cmd"
proof -
  have "command \<in> {''contract'', ''index'', ''list-snapshots'', ''describe-snapshot'', ''list-objects'', ''find-objects'',
      ''describe-object'', ''describe-table'', ''inventory'', ''find-table'', ''find-column'', ''impact-analysis'',
      ''trace-relationships''}"
    using assms by (simp add: product_contract_def)
  then show ?thesis
    by (elim insertE) (simp_all only: snapshot_samples object_samples table_samples empty_iff)
qed

section \<open>Properties\<close>



end
