(* ===== verification/Cli_Metadata.thy ===== *)
theory Cli_Metadata
  imports Table_Lookup Cli_Args
begin

text \<open>
  \<open>metadata.rs\<close> of the command line: snapshots are found by key or alias, a table is described from the
  graph, the inventory describes all tables from the certified snapshot, tables and columns are searched
  by name, and the traversals are printed. The two descriptions of a table are shown to agree.
  Printing a JSON value, the lower case of a text and reading a plain snapshot are parameters.
\<close>

section \<open>Parameters and printing\<close>

record cli_library =
  cl_readers :: readers
  cl_snapshot :: "string \<Rightarrow> (string, SchemaSnapshot) result"
  cl_pretty :: "json \<Rightarrow> string"
  cl_lowercase :: "string \<Rightarrow> string"

definition PRODUCT_CONTRACT_VERSION :: nat where "PRODUCT_CONTRACT_VERSION = INTERFACE_CONTRACT_VERSION"
definition MAX_TRAVERSAL_DEPTH :: nat where "MAX_TRAVERSAL_DEPTH = 8"
definition MAX_RESULT_LIMIT :: nat where "MAX_RESULT_LIMIT = 200"
definition MAX_INVENTORY_TABLES :: nat where "MAX_INVENTORY_TABLES = 5000"

definition line_end :: string where "line_end = [CHR 0x0A]"

text \<open>The macro \<open>json!\<close>: the members of an object are kept in the order of their names.\<close>

definition json_members :: "(string \<times> json) list \<Rightarrow> json" where
  "json_members members = JObject (fold (\<lambda>(name, v). bt_insert name v) members [])"

abbreviation jnat :: "nat \<Rightarrow> json" where "jnat n \<equiv> JInt (int n)"
abbreviation jstrings :: "string list \<Rightarrow> json" where "jstrings values \<equiv> JArray (map JString values)"
abbreviation joption :: "('a \<Rightarrow> json) \<Rightarrow> 'a option \<Rightarrow> json" where
  "joption f v \<equiv> (case v of None \<Rightarrow> JNull | Some x \<Rightarrow> f x)"

definition member_text :: "json \<Rightarrow> string \<Rightarrow> string option" where
  "member_text v name =
     (case v of
        JObject members \<Rightarrow> (case bt_get members name of Some (JString t) \<Rightarrow> Some t | _ \<Rightarrow> None)
      | _ \<Rightarrow> None)"

definition json_line :: "cli_library \<Rightarrow> json \<Rightarrow> string" where
  "json_line lib v = cl_pretty lib v @ line_end"

definition lines_of :: "string list \<Rightarrow> string" where
  "lines_of values = concat (map (\<lambda>v. v @ line_end) values)"

definition list_or_none :: "string list \<Rightarrow> string" where
  "list_or_none values = (if values = [] then ''(none)'' else join_with '', '' values)"

definition yes_no :: "bool \<Rightarrow> string" where
  "yes_no v = (if v then ''yes'' else ''no'')"

section \<open>Snapshots\<close>

definition cli_resolve_snapshot_key :: "string \<Rightarrow> Connection \<Rightarrow> (string, string) result" where
  "cli_resolve_snapshot_key selector store =
     try_with (store_text (get_snapshot selector store)) (\<lambda>found.
       if found \<noteq> None then Ok selector
       else try_with (store_text (list_snapshots store)) (\<lambda>snapshots.
         (let keys = map gs_snapshot_key (filter (\<lambda>snapshot.
                case split_once (CHR '':'') (gs_snapshot_key snapshot) of
                  Some (_, alias) \<Rightarrow> alias = selector
                | None \<Rightarrow> False) snapshots)
          in case keys of
               [snapshot_key] \<Rightarrow> Ok snapshot_key
             | [] \<Rightarrow> Err (''snapshot selector '' @ quoted selector @ '' not found in cache; run index first'')
             | _ \<Rightarrow> Err (''snapshot alias '' @ quoted selector @ '' is ambiguous; use one snapshot key: ''
                 @ join_with '', '' keys))))"

section \<open>Descriptions\<close>

record ForeignKeyDescription =
  fkd_key :: string
  fkd_table_key :: string
  fkd_name :: string
  fkd_table :: string
  fkd_columns :: "string list"
  fkd_column_keys :: "string list"
  fkd_referenced_table_key :: "string option"
  fkd_referenced_table :: string
  fkd_referenced_columns :: "string list"
  fkd_referenced_column_keys :: "string list"

record DependentObjectDescription =
  dod_key :: string
  dod_kind :: string
  dod_name :: string
  dod_relation :: string
  dod_column_keys :: "string list"

record TableDescription =
  tds_snapshot_key :: string
  tds_table_key :: string
  tds_table_name :: string
  tds_columns :: "ColumnObject list"
  tds_primary_key :: "string list"
  tds_constraints :: "ConstraintObject list"
  tds_outbound_foreign_keys :: "ForeignKeyDescription list"
  tds_inbound_foreign_keys :: "ForeignKeyDescription list"
  tds_indexes :: "IndexObject list"
  tds_dependents :: "DependentObjectDescription list"
  tds_capability_warnings :: "string list"

definition foreign_key_description :: "ConstraintObject \<Rightarrow> ForeignKeyDescription" where
  "foreign_key_description constraint =
     \<lparr>fkd_key = key_to_string (con_key constraint), fkd_table_key = key_to_string (con_table_key constraint),
       fkd_name = con_name constraint, fkd_table = ok_object_name (con_table_key constraint),
       fkd_columns = names_from_keys (con_columns constraint),
       fkd_column_keys = keys_as_strings (con_columns constraint),
       fkd_referenced_table_key = map_option key_to_string (con_referenced_table_key constraint),
       fkd_referenced_table =
         (case con_referenced_table_key constraint of None \<Rightarrow> [] | Some key \<Rightarrow> ok_object_name key),
       fkd_referenced_columns = names_from_keys (con_referenced_columns constraint),
       fkd_referenced_column_keys = keys_as_strings (con_referenced_columns constraint)\<rparr>"

text \<open>What both descriptions take from the constraints of a table.\<close>

definition primary_key_of :: "ConstraintObject list \<Rightarrow> string list" where
  "primary_key_of constraints =
     (case List.find (\<lambda>constraint. con_kind constraint = ConstraintKind.PrimaryKey) constraints of
        None \<Rightarrow> [] | Some constraint \<Rightarrow> names_from_keys (con_columns constraint))"

definition outbound_of :: "ConstraintObject list \<Rightarrow> ForeignKeyDescription list" where
  "outbound_of constraints =
     sort_key fkd_name (map foreign_key_description
       (filter (\<lambda>constraint. con_kind constraint = ConstraintKind.ForeignKey) constraints))"

subsection \<open>Dependent objects\<close>

definition dependent_from_node :: "GraphNodeRecord \<Rightarrow> string \<Rightarrow> (string, DependentObjectDescription) result" where
  "dependent_from_node node relation =
     try_with (object_key_of node) (\<lambda>key.
       try_with (case ok_object_kind key of
            View \<Rightarrow> Ok ''view''
          | Trigger \<Rightarrow> Ok ''trigger''
          | Routine \<Rightarrow> Ok ''routine''
          | _ \<Rightarrow> Err (''graph node '' @ quoted (gn_node_key node) @ '' is not a DB dependent object''))
         (\<lambda>kind.
           let relation =
             (if relation \<in> {''VIEW_DEPENDS_ON_TABLE'', ''VIEW_DEPENDS_ON_COLUMN''} then ''view_depends_on''
              else if relation \<in> {''ROUTINE_DEPENDS_ON_TABLE'', ''ROUTINE_DEPENDS_ON_COLUMN''} then ''routine_depends_on''
              else if relation = ''TABLE_HAS_TRIGGER'' then ''table_has_trigger''
              else relation)
           in Ok \<lparr>dod_key = gn_node_key node, dod_kind = kind,
                dod_name = (case gn_display_name node of Some name \<Rightarrow> name | None \<Rightarrow> ok_object_name key),
                dod_relation = relation, dod_column_keys = []\<rparr>))"

definition add_column_key :: "string option \<Rightarrow> DependentObjectDescription \<Rightarrow> DependentObjectDescription" where
  "add_column_key column_key held =
     (case column_key of
        None \<Rightarrow> held
      | Some column_key \<Rightarrow>
          if column_key \<in> set (dod_column_keys held) then held
          else held\<lparr>dod_column_keys := sort (dod_column_keys held @ [column_key])\<rparr>)"

definition merge_dependent ::
  "DependentObjectDescription \<times> string option \<Rightarrow> (string, DependentObjectDescription) btree
    \<Rightarrow> (string, DependentObjectDescription) btree" where
  "merge_dependent found dependents =
     (let (dependent, column_key) = found;
          held = (case bt_get dependents (dod_key dependent) of None \<Rightarrow> dependent | Some held \<Rightarrow> held)
      in bt_insert (dod_key dependent) (add_column_key column_key held) dependents)"

text \<open>One loop over edges: the dependents at the other end of the edges of the given types.\<close>

definition merge_edges ::
  "string list \<Rightarrow> (GraphEdgeRecord \<Rightarrow> string) \<Rightarrow> string option \<Rightarrow> string \<Rightarrow> Connection \<Rightarrow> GraphEdgeRecord list
    \<Rightarrow> (string, DependentObjectDescription) btree \<Rightarrow> (string, (string, DependentObjectDescription) btree) result" where
  "merge_edges types other_end column_key snapshot_key store edges dependents =
     try_fold (\<lambda>edge dependents.
         if ge_edge_type edge \<in> set types
         then try_with (required_node snapshot_key (other_end edge) store) (\<lambda>node.
           try_with (dependent_from_node node (ge_edge_type edge)) (\<lambda>dependent.
             Ok (merge_dependent (dependent, column_key) dependents)))
         else Ok dependents)
       edges dependents"

definition table_dependents ::
  "string \<Rightarrow> string \<Rightarrow> ColumnObject list \<Rightarrow> Connection \<Rightarrow> (string, DependentObjectDescription list) result" where
  "table_dependents snapshot_key table_key columns store =
     try_with (store_text (edges_to snapshot_key table_key store)) (\<lambda>edges.
     try_with (merge_edges [''VIEW_DEPENDS_ON_TABLE'', ''ROUTINE_DEPENDS_ON_TABLE''] ge_edge_from None snapshot_key store
         edges []) (\<lambda>dependents.
     try_with (try_fold (\<lambda>column dependents.
           try_with (store_text (edges_to snapshot_key (key_to_string (col_key column)) store)) (\<lambda>edges.
             merge_edges [''VIEW_DEPENDS_ON_COLUMN'', ''ROUTINE_DEPENDS_ON_COLUMN''] ge_edge_from
               (Some (key_to_string (col_key column))) snapshot_key store edges dependents))
         columns dependents) (\<lambda>dependents.
     try_with (store_text (edges_from snapshot_key table_key store)) (\<lambda>edges.
     try_with (merge_edges [''TABLE_HAS_TRIGGER''] ge_edge_to None snapshot_key store edges dependents) (\<lambda>dependents.
       Ok (bt_values dependents))))))"

subsection \<open>Finding a table\<close>

definition cli_find_table_node :: "string \<Rightarrow> string \<Rightarrow> Connection \<Rightarrow> (string, GraphNodeRecord) result" where
  "cli_find_table_node snapshot_key table_name store =
     try_with (tables_named snapshot_key table_name store) (\<lambda>found.
       case found of
         [] \<Rightarrow> Err (''table '' @ quoted table_name @ '' not found in snapshot '' @ quoted snapshot_key)
       | [node] \<Rightarrow> Ok node
       | _ \<Rightarrow> Err (''table '' @ quoted table_name @ '' is ambiguous in snapshot '' @ quoted snapshot_key
           @ ''; use --object-key with one of: '' @ join_with '', '' (map gn_node_key found)))"

definition resolve_table_node ::
  "string \<Rightarrow> string option \<Rightarrow> string option \<Rightarrow> Connection \<Rightarrow> (string, GraphNodeRecord) result" where
  "resolve_table_node snapshot_key table_object_key table_name store =
     (case (table_object_key, table_name) of
        (Some object_key, None) \<Rightarrow>
          try_with (required_node snapshot_key object_key store) (\<lambda>node.
            try_with (object_key_of node) (\<lambda>key.
              if gn_label node \<noteq> ''Table'' \<or> ok_object_kind key \<noteq> Table
              then Err (''graph node '' @ quoted object_key @ '' is not a table'')
              else Ok node))
      | (None, Some table_name) \<Rightarrow> cli_find_table_node snapshot_key table_name store
      | _ \<Rightarrow> Err ''pass one table selector: a table name or --object-key'')"

definition describe_table ::
  "readers \<Rightarrow> serde \<Rightarrow> string \<Rightarrow> string option \<Rightarrow> string option \<Rightarrow> Connection \<Rightarrow> (string, TableDescription) result" where
  "describe_table rd sj snapshot_key table_object_key table_name store =
     try_with (resolve_table_node snapshot_key table_object_key table_name store) (\<lambda>table.
     try_with (object_key_of table) (\<lambda>table_key.
     try_with (table_columns rd snapshot_key (gn_node_key table) store) (\<lambda>columns.
     try_with (table_constraints rd snapshot_key (gn_node_key table) store) (\<lambda>constraints.
     try_with (inbound_constraints rd snapshot_key columns store) (\<lambda>inbound.
     try_with (table_dependents snapshot_key (gn_node_key table) columns store) (\<lambda>dependents.
     try_with (table_indexes rd snapshot_key (gn_node_key table) store) (\<lambda>indexes.
     try_with (snapshot_capability_warnings sj snapshot_key store) (\<lambda>warnings.
       Ok \<lparr>tds_snapshot_key = snapshot_key, tds_table_key = gn_node_key table,
            tds_table_name = ok_object_name table_key, tds_columns = columns,
            tds_primary_key = primary_key_of constraints, tds_constraints = constraints,
            tds_outbound_foreign_keys = outbound_of constraints,
            tds_inbound_foreign_keys = sort_key fkd_name (map foreign_key_description inbound),
            tds_indexes = indexes, tds_dependents = dependents,
            tds_capability_warnings = warnings\<rparr>))))))))"

section \<open>The inventory\<close>

text \<open>\<open>HashMap\<close>: only looked up, never iterated. \<open>entry(key).or_default().push(v)\<close> appends to a group.\<close>

definition push_group :: "string \<Rightarrow> 'v \<Rightarrow> (string \<Rightarrow> 'v list option) \<Rightarrow> string \<Rightarrow> 'v list option" where
  "push_group key v groups = groups(key \<mapsto> (case groups key of None \<Rightarrow> [v] | Some vs \<Rightarrow> vs @ [v]))"

definition group_at :: "(string \<Rightarrow> 'v list option) \<Rightarrow> string \<Rightarrow> 'v list" where
  "group_at groups key = (case groups key of None \<Rightarrow> [] | Some vs \<Rightarrow> vs)"

record InventoryDescriptionIndex =
  idi_columns :: "string \<Rightarrow> ColumnObject list option"
  idi_constraints :: "string \<Rightarrow> ConstraintObject list option"
  idi_inbound_foreign_keys :: "string \<Rightarrow> ConstraintObject list option"
  idi_indexes :: "string \<Rightarrow> IndexObject list option"
  idi_dependents :: "string \<Rightarrow> (string, DependentObjectDescription) btree option"

type_synonym dependent_groups = "string \<Rightarrow> (string, DependentObjectDescription) btree option"

definition record_dependent ::
  "string \<Rightarrow> ObjectKey \<Rightarrow> string \<Rightarrow> string \<Rightarrow> string \<Rightarrow> string option \<Rightarrow> dependent_groups \<Rightarrow> dependent_groups" where
  "record_dependent table_key key name kind relation column_key groups =
     groups(table_key \<mapsto> merge_dependent
       (\<lparr>dod_key = key_to_string key, dod_kind = kind, dod_name = name, dod_relation = relation, dod_column_keys = []\<rparr>,
         column_key)
       (case groups table_key of None \<Rightarrow> [] | Some dependents \<Rightarrow> dependents))"

definition record_dependencies ::
  "ObjectKey \<Rightarrow> string \<Rightarrow> string \<Rightarrow> string \<Rightarrow> ObjectKey list \<Rightarrow> (string \<Rightarrow> string option) \<Rightarrow> dependent_groups
    \<Rightarrow> dependent_groups" where
  "record_dependencies key name kind relation dependencies column_tables groups =
     fold (\<lambda>dependency groups.
         if ok_object_kind dependency = Table
         then record_dependent (key_to_string dependency) key name kind relation None groups
         else if ok_object_kind dependency = Column
         then (case column_tables (key_to_string dependency) of
                 Some table_key \<Rightarrow>
                   record_dependent table_key key name kind relation (Some (key_to_string dependency)) groups
               | None \<Rightarrow> groups)
         else groups)
       dependencies groups"

definition column_tables_of :: "SchemaSnapshot \<Rightarrow> string \<Rightarrow> string option" where
  "column_tables_of snapshot =
     fold (\<lambda>column tables. tables(key_to_string (col_key column) \<mapsto> key_to_string (col_table_key column)))
       (snap_columns snapshot) (\<lambda>_. None)"

definition new_inventory_index :: "SchemaSnapshot \<Rightarrow> InventoryDescriptionIndex" where
  "new_inventory_index snapshot =
     (let columns = fold (\<lambda>column. push_group (key_to_string (col_table_key column)) column)
            (snap_columns snapshot) (\<lambda>_. None);
          (constraints, inbound_foreign_keys) =
            fold (\<lambda>constraint (constraints, inbound).
                (push_group (key_to_string (con_table_key constraint)) constraint constraints,
                 if con_kind constraint = ConstraintKind.ForeignKey
                 then (case con_referenced_table_key constraint of
                         Some referenced_table \<Rightarrow> push_group (key_to_string referenced_table) constraint inbound
                       | None \<Rightarrow> inbound)
                 else inbound))
              (snap_constraints snapshot) (\<lambda>_. None, \<lambda>_. None);
          indexes = fold (\<lambda>item. push_group (key_to_string (idx_table_key item)) item) (snap_indexes snapshot) (\<lambda>_. None);
          column_tables = column_tables_of snapshot;
          dependents = fold (\<lambda>view. record_dependencies (view_key view) (view_name view) ''view'' ''view_depends_on''
              (view_depends_on view) column_tables) (snap_views snapshot) (\<lambda>_. None);
          dependents = fold (\<lambda>routine. record_dependencies (rtn_key routine) (rtn_name routine) ''routine'' ''routine_depends_on''
              (rtn_depends_on routine) column_tables) (snap_routines snapshot) dependents;
          dependents = fold (\<lambda>trigger dependents.
              if ok_object_kind (trg_table_key trigger) = Table
              then record_dependent (key_to_string (trg_table_key trigger)) (trg_key trigger) (trg_name trigger)
                ''trigger'' ''table_has_trigger'' None dependents
              else dependents) (snap_triggers snapshot) dependents
      in \<lparr>idi_columns = columns, idi_constraints = constraints, idi_inbound_foreign_keys = inbound_foreign_keys,
           idi_indexes = indexes, idi_dependents = dependents\<rparr>)"

definition inventory_describe ::
  "InventoryDescriptionIndex \<Rightarrow> string \<Rightarrow> string \<Rightarrow> TableObject \<Rightarrow> string list \<Rightarrow> TableDescription" where
  "inventory_describe index snapshot_key table_key table warnings =
     (let columns = sort_key col_ordinal_position (group_at (idi_columns index) table_key);
          constraints = sort_key (\<lambda>constraint. key_to_string (con_key constraint)) (group_at (idi_constraints index) table_key)
      in \<lparr>tds_snapshot_key = snapshot_key, tds_table_key = table_key, tds_table_name = tbl_name table,
           tds_columns = columns, tds_primary_key = primary_key_of constraints, tds_constraints = constraints,
           tds_outbound_foreign_keys = outbound_of constraints,
           tds_inbound_foreign_keys =
             sort_key fkd_name (map foreign_key_description (group_at (idi_inbound_foreign_keys index) table_key)),
           tds_indexes = sort_key idx_name (group_at (idi_indexes index) table_key),
           tds_dependents = (case idi_dependents index table_key of None \<Rightarrow> [] | Some items \<Rightarrow> bt_values items),
           tds_capability_warnings = warnings\<rparr>)"

definition inventory_bounds :: "nat \<Rightarrow> nat \<times> bool" where
  "inventory_bounds limit_requested =
     (let limit_applied = min limit_requested MAX_INVENTORY_TABLES in (limit_applied, limit_requested \<noteq> limit_applied))"

section \<open>Printing descriptions\<close>

definition foreign_keys_json :: "ForeignKeyDescription list \<Rightarrow> json" where
  "foreign_keys_json foreign_keys =
     JArray (map (\<lambda>fk. json_members
       [(''key'', JString (fkd_key fk)), (''table_key'', JString (fkd_table_key fk)), (''name'', JString (fkd_name fk)),
        (''table'', JString (fkd_table fk)), (''columns'', jstrings (fkd_columns fk)),
        (''column_keys'', jstrings (fkd_column_keys fk)),
        (''referenced_table_key'', joption JString (fkd_referenced_table_key fk)),
        (''referenced_table'', JString (fkd_referenced_table fk)),
        (''referenced_columns'', jstrings (fkd_referenced_columns fk)),
        (''referenced_column_keys'', jstrings (fkd_referenced_column_keys fk))]) foreign_keys)"

definition table_description_json_value :: "TableDescription \<Rightarrow> json" where
  "table_description_json_value d =
     json_members
       [(''contract_version'', jnat PRODUCT_CONTRACT_VERSION), (''snapshot_key'', JString (tds_snapshot_key d)),
        (''table_key'', JString (tds_table_key d)), (''table'', JString (tds_table_name d)),
        (''columns'', JArray (map (\<lambda>column. json_members
           [(''key'', JString (key_to_string (col_key column))), (''table_key'', JString (key_to_string (col_table_key column))),
            (''schema'', JString (ok_schema (col_key column))), (''database'', JString (ok_database (col_key column))),
            (''name'', JString (col_name column)), (''type'', JString (col_data_type column)),
            (''nullable'', JBool (col_is_nullable column))]) (tds_columns d))),
        (''primary_key'', jstrings (tds_primary_key d)),
        (''constraints'', JArray (map (\<lambda>constraint. json_members
           [(''key'', JString (key_to_string (con_key constraint))),
            (''table_key'', JString (key_to_string (con_table_key constraint))),
            (''name'', JString (con_name constraint)), (''kind'', JString (constraint_kind_name (con_kind constraint))),
            (''columns'', jstrings (names_from_keys (con_columns constraint))),
            (''column_keys'', jstrings (keys_as_strings (con_columns constraint))),
            (''referenced_table_key'', joption (\<lambda>key. JString (key_to_string key)) (con_referenced_table_key constraint)),
            (''referenced_columns'', jstrings (names_from_keys (con_referenced_columns constraint))),
            (''referenced_column_keys'', jstrings (keys_as_strings (con_referenced_columns constraint))),
            (''expression'', joption JString (con_expression constraint))]) (tds_constraints d))),
        (''foreign_keys'', json_members [(''outbound'', foreign_keys_json (tds_outbound_foreign_keys d)),
           (''inbound'', foreign_keys_json (tds_inbound_foreign_keys d))]),
        (''indexes'', JArray (map (\<lambda>index. json_members
           [(''key'', JString (key_to_string (idx_key index))), (''table_key'', JString (key_to_string (idx_table_key index))),
            (''name'', JString (idx_name index)), (''columns'', jstrings (names_from_keys (idx_columns index))),
            (''column_keys'', jstrings (keys_as_strings (idx_columns index))),
            (''unique'', JBool (idx_is_unique index)), (''primary'', JBool (idx_is_primary index)),
            (''predicate'', joption JString (idx_predicate index)),
            (''expression'', joption JString (idx_expression index))]) (tds_indexes d))),
        (''dependents'', JArray (map (\<lambda>dependent. json_members
           [(''key'', JString (dod_key dependent)), (''kind'', JString (dod_kind dependent)),
            (''name'', JString (dod_name dependent)), (''relation'', JString (dod_relation dependent)),
            (''column_keys'', jstrings (dod_column_keys dependent))]) (tds_dependents d))),
        (''capability_warnings'', jstrings (tds_capability_warnings d))]"

definition push_foreign_keys :: "ForeignKeyDescription list \<Rightarrow> string" where
  "push_foreign_keys foreign_keys =
     (if foreign_keys = [] then ''    (none)'' @ line_end
      else concat (map (\<lambda>fk. ''    '' @ fkd_name fk @ '': '' @ fkd_table fk @ ''('' @ list_or_none (fkd_columns fk)
          @ '') -> '' @ fkd_referenced_table fk @ ''('' @ list_or_none (fkd_referenced_columns fk) @ '')'' @ line_end)
        foreign_keys))"

definition render_table_description_text :: "TableDescription \<Rightarrow> string" where
  "render_table_description_text d =
     ''table: '' @ tds_table_name d @ line_end @ ''columns:'' @ line_end
     @ concat (map (\<lambda>column. ''  '' @ col_name column @ '' '' @ col_data_type column @ '' nullable: ''
           @ yes_no (col_is_nullable column) @ line_end) (tds_columns d))
     @ ''primary key: '' @ list_or_none (tds_primary_key d) @ line_end
     @ ''foreign keys:'' @ line_end @ ''  outbound:'' @ line_end @ push_foreign_keys (tds_outbound_foreign_keys d)
     @ ''  inbound:'' @ line_end @ push_foreign_keys (tds_inbound_foreign_keys d)
     @ ''indexes:'' @ line_end
     @ (if tds_indexes d = [] then ''  (none)'' @ line_end
        else concat (map (\<lambda>index. ''  '' @ idx_name index @ '': '' @ list_or_none (names_from_keys (idx_columns index))
            @ '' unique: '' @ yes_no (idx_is_unique index) @ '' primary: '' @ yes_no (idx_is_primary index) @ line_end)
          (tds_indexes d)))
     @ ''dependents:'' @ line_end
     @ (if tds_dependents d = [] then ''  (none)'' @ line_end
        else concat (map (\<lambda>dependent. ''  '' @ dod_kind dependent @ '' '' @ dod_name dependent @ '' via ''
            @ dod_relation dependent @ line_end) (tds_dependents d)))
     @ (if tds_capability_warnings d = [] then []
        else ''capability warnings:'' @ line_end
          @ concat (map (\<lambda>warning. ''  '' @ warning @ line_end) (tds_capability_warnings d)))"

definition render_table_description_json :: "cli_library \<Rightarrow> TableDescription \<Rightarrow> string" where
  "render_table_description_json lib d = json_line lib (table_description_json_value d)"

definition render_table_description :: "cli_library \<Rightarrow> TableDescription \<Rightarrow> OutputFormat \<Rightarrow> string" where
  "render_table_description lib d fmt =
     (case fmt of
        TextFormat \<Rightarrow> render_table_description_text d
      | JsonFormat \<Rightarrow> render_table_description_json lib d)"

text \<open>The inventory of one page: the snapshot behind the key, and the value that is printed.\<close>

definition inventory_snapshot ::
  "cli_library \<Rightarrow> serde \<Rightarrow> string \<Rightarrow> Connection \<Rightarrow> (string, SchemaSnapshot) result" where
  "inventory_snapshot lib sj snapshot_key store =
     try_with (store_text (get_snapshot snapshot_key store)) (\<lambda>found.
     try_with (ok_or (not_in_cache snapshot_key) found) (\<lambda>rec.
     try_with (store_text (get_certified_snapshot sj snapshot_key store)) (\<lambda>certified.
       case certified of
         Some certified \<Rightarrow> Ok (can_schema (cert_snapshot certified))
       | None \<Rightarrow> map_err (\<lambda>err. ''snapshot '' @ quoted snapshot_key @ '' payload is incompatible; re-index it: '' @ err)
           (cl_snapshot lib (gs_payload_json rec)))))"

definition inventory_page :: "string \<Rightarrow> nat \<Rightarrow> nat \<Rightarrow> SchemaSnapshot \<Rightarrow> json list" where
  "inventory_page snapshot_key offset limit_applied snapshot =
     (let warnings = capability_warnings (snap_capabilities snapshot);
          index = new_inventory_index snapshot;
          table_entries = sort_key fst (map (\<lambda>table. (key_to_string (tbl_key table), table)) (snap_tables snapshot))
      in map (\<lambda>(table_key, table). table_description_json_value (inventory_describe index snapshot_key table_key table warnings))
           (take limit_applied (drop offset table_entries)))"

definition inventory_value :: "string \<Rightarrow> nat \<Rightarrow> nat \<Rightarrow> SchemaSnapshot \<Rightarrow> json" where
  "inventory_value snapshot_key offset limit_requested snapshot =
     (let total_tables = length (snap_tables snapshot);
          (limit_applied, limit_clamped) = inventory_bounds limit_requested;
          tables = inventory_page snapshot_key offset limit_applied snapshot;
          next_offset = saturating_add offset (length tables);
          has_more = (next_offset < total_tables)
      in json_members
           [(''contract_version'', jnat PRODUCT_CONTRACT_VERSION), (''snapshot_key'', JString snapshot_key),
            (''offset'', jnat offset), (''limit_requested'', jnat limit_requested), (''limit_applied'', jnat limit_applied),
            (''limit_clamped'', JBool limit_clamped), (''result_count'', jnat (length tables)),
            (''total_tables'', jnat total_tables), (''has_more'', JBool has_more),
            (''next_offset'', if has_more then jnat next_offset else JNull), (''truncated'', JBool has_more),
            (''capability_warnings'', jstrings (capability_warnings (snap_capabilities snapshot))),
            (''tables'', JArray tables)])"

definition render_inventory ::
  "cli_library \<Rightarrow> serde \<Rightarrow> string \<Rightarrow> nat \<Rightarrow> nat \<Rightarrow> Connection \<Rightarrow> (string, string) result" where
  "render_inventory lib sj snapshot_key offset limit_requested store =
     try_with (inventory_snapshot lib sj snapshot_key store) (\<lambda>snapshot.
       Ok (json_line lib (inventory_value snapshot_key offset limit_requested snapshot)))"

section \<open>Searching by name\<close>

definition table_of_column :: "ObjectKey \<Rightarrow> ObjectKey" where
  "table_of_column key = key\<lparr>ok_object_kind := Table, ok_sub_object := None\<rparr>"

definition table_matches ::
  "cli_library \<Rightarrow> string \<Rightarrow> string \<Rightarrow> Connection \<Rightarrow> (string, (string \<times> string \<times> string \<times> string) list) result" where
  "table_matches lib snapshot_key query store =
     try_with (store_text (nodes_by_label snapshot_key ''Table'' store)) (\<lambda>nodes.
     try_with (try_fold (\<lambda>node found.
           try_with (object_key_of node) (\<lambda>key.
             Ok (if contains_str (cl_lowercase lib (ok_object_name key)) (cl_lowercase lib query)
                 then found @ [(key_to_string key, ok_object_name key, ok_schema key, ok_database key)] else found)))
         nodes []) (\<lambda>found.
       Ok (sort_key (\<lambda>(table_key, name, schema, database). (name, schema, database, table_key)) found)))"

definition render_find_table ::
  "cli_library \<Rightarrow> string \<Rightarrow> string \<Rightarrow> OutputFormat \<Rightarrow> Connection \<Rightarrow> (string, string) result" where
  "render_find_table lib snapshot_key query fmt store =
     try_with (table_matches lib snapshot_key query store) (\<lambda>found.
       let tables = sort (map (\<lambda>(_, name, _, _). name) found)
       in Ok (case fmt of
            TextFormat \<Rightarrow> lines_of tables
          | JsonFormat \<Rightarrow> json_line lib (json_members
              [(''tables'', jstrings tables),
               (''table_matches'', JArray (map (\<lambda>(table_key, name, schema, database). json_members
                 [(''table_key'', JString table_key), (''name'', JString name), (''schema'', JString schema),
                  (''database'', JString database)]) found))])))"

definition column_match_json :: "ColumnObject \<Rightarrow> json" where
  "column_match_json column =
     (let key = col_key column; column_key = key_to_string key
      in json_members
           [(''key'', JString column_key), (''column_key'', JString column_key),
            (''table_key'', JString (key_to_string (table_of_column key))), (''schema'', JString (ok_schema key)),
            (''database'', JString (ok_database key)), (''table'', JString (ok_object_name key)),
            (''column'', JString (col_name column)), (''ordinal_position'', jnat (col_ordinal_position column)),
            (''type'', JString (col_data_type column)), (''nullable'', JBool (col_is_nullable column)),
            (''default_value'', joption JString (col_default_value column)),
            (''generated'', JBool (col_is_generated column))])"

definition column_matches :: "cli_library \<Rightarrow> string \<Rightarrow> string \<Rightarrow> Connection \<Rightarrow> (string, json list) result" where
  "column_matches lib snapshot_key query store =
     try_with (store_text (nodes_by_label snapshot_key ''Column'' store)) (\<lambda>nodes.
     try_with (try_fold (\<lambda>node found.
           try_with (column_from_node (cl_readers lib) node) (\<lambda>column.
             Ok (if contains_str (cl_lowercase lib (col_name column)) (cl_lowercase lib query)
                 then found @ [column_match_json column] else found)))
         nodes []) (\<lambda>found.
       Ok (sort_key (\<lambda>v. (member_text v ''table'', member_text v ''column'', member_text v ''key'')) found)))"

definition render_find_column ::
  "cli_library \<Rightarrow> string \<Rightarrow> string \<Rightarrow> OutputFormat \<Rightarrow> Connection \<Rightarrow> (string, string) result" where
  "render_find_column lib snapshot_key query fmt store =
     try_with (column_matches lib snapshot_key query store) (\<lambda>found.
       Ok (case fmt of
            TextFormat \<Rightarrow> lines_of (map (\<lambda>v. or_default (member_text v ''table'') [] @ ''.'' @ or_default (member_text v ''column'') []) found)
          | JsonFormat \<Rightarrow> json_line lib (json_members [(''columns'', JArray found)])))"

section \<open>Traversals\<close>

definition resolve_impact_object_key ::
  "readers \<Rightarrow> string \<Rightarrow> string option \<Rightarrow> string option \<Rightarrow> string option \<Rightarrow> Connection \<Rightarrow> (string, string) result" where
  "resolve_impact_object_key rd snapshot_key object_key table_name column_name store =
     (case object_key of
        Some object_key \<Rightarrow> try_with (required_node snapshot_key object_key store) (\<lambda>_. Ok object_key)
      | None \<Rightarrow>
          try_with (ok_or ''pass --object-key or --table'' table_name) (\<lambda>table_name.
          try_with (resolve_table_node snapshot_key None (Some table_name) store) (\<lambda>table.
            case column_name of
              None \<Rightarrow> Ok (gn_node_key table)
            | Some column_name \<Rightarrow>
                try_with (table_columns rd snapshot_key (gn_node_key table) store) (\<lambda>columns.
                  ok_or (''column '' @ quoted column_name @ '' not found on table '' @ quoted table_name)
                    (map_option (\<lambda>column. key_to_string (col_key column))
                      (List.find (\<lambda>column. col_name column = column_name) columns))))))"

definition impact_groups_json :: "ImpactAnalysisResult \<Rightarrow> json" where
  "impact_groups_json result =
     JArray (map (\<lambda>group. json_members
       [(''label'', JString (iag_label group)), (''depth'', jnat (iag_depth group)),
        (''nodes'', JArray (map (\<lambda>node. json_members
          [(''node_key'', JString (ian_node_key node)), (''label'', JString (ian_label node)),
           (''display_name'', joption JString (ian_display_name node)), (''depth'', jnat (ian_depth node)),
           (''edge_type'', JString (ian_edge_type_used node)), (''edge_from'', JString (ian_edge_from node)),
           (''edge_to'', JString (ian_edge_to node))]) (iag_nodes group)))]) (iar_groups result))"

definition relationship_paths_json :: "GraphPath list \<Rightarrow> json" where
  "relationship_paths_json paths =
     JArray (map (\<lambda>hops. json_members
       [(''depth'', jnat (length hops - 1)),
        (''hops'', JArray (map (\<lambda>(depth, hop). json_members
          [(''node_key'', JString (gph_node_key hop)), (''label'', JString (gph_label hop)), (''depth'', jnat depth),
           (''edge_type'', joption JString (gph_edge_type_used hop)), (''edge_from'', joption JString (gph_edge_from hop)),
           (''edge_to'', joption JString (gph_edge_to hop))]) (enumerate 0 hops)))]) paths)"

text \<open>What both traversals report of their limits.\<close>

definition limits_json :: "nat \<Rightarrow> nat \<Rightarrow> nat \<Rightarrow> nat \<Rightarrow> (string \<times> json) list" where
  "limits_json max_depth_requested max_depth result_limit_requested result_limit =
     [(''max_depth_requested'', jnat max_depth_requested), (''max_depth_applied'', jnat max_depth),
      (''max_depth_clamped'', JBool (max_depth_requested \<noteq> max_depth)),
      (''result_limit_requested'', jnat result_limit_requested), (''result_limit_applied'', jnat result_limit),
      (''result_limit_clamped'', JBool (result_limit_requested \<noteq> result_limit))]"

definition render_impact_analysis ::
  "cli_library \<Rightarrow> serde \<Rightarrow> string \<Rightarrow> string option \<Rightarrow> string option \<Rightarrow> string option \<Rightarrow> Direction \<Rightarrow> nat \<Rightarrow> nat
    \<Rightarrow> Connection \<Rightarrow> (string, string) result" where
  "render_impact_analysis lib sj snapshot_key object_key table_name column_name direction
     max_depth_requested result_limit_requested store =
     try_with (resolve_impact_object_key (cl_readers lib) snapshot_key object_key table_name column_name store) (\<lambda>object_key.
       let max_depth = min max_depth_requested MAX_TRAVERSAL_DEPTH;
           result_limit = min result_limit_requested MAX_RESULT_LIMIT
       in try_with (store_text (impact_analysis_bounded snapshot_key object_key direction max_depth result_limit store)) (\<lambda>bounded.
          try_with (snapshot_capability_warnings sj snapshot_key store) (\<lambda>warnings.
            Ok (json_line lib (json_members
              ([(''contract_version'', jnat PRODUCT_CONTRACT_VERSION), (''snapshot_key'', JString snapshot_key),
                (''object_key'', JString object_key), (''direction'', JString (direction_name direction))]
               @ limits_json max_depth_requested max_depth result_limit_requested result_limit
               @ [(''result_count'', jnat (sum_list (map (\<lambda>group. length (iag_nodes group)) (iar_groups (bir_result bounded))))),
                  (''truncated'', JBool (bir_truncated bounded)), (''groups'', impact_groups_json (bir_result bounded)),
                  (''capability_warnings'', jstrings warnings)]))))))"

definition render_relationship_trace ::
  "cli_library \<Rightarrow> serde \<Rightarrow> string \<Rightarrow> string \<Rightarrow> Direction \<Rightarrow> nat \<Rightarrow> nat \<Rightarrow> Connection \<Rightarrow> (string, string) result" where
  "render_relationship_trace lib sj snapshot_key object_key direction max_depth_requested result_limit_requested store =
     try_with (required_node snapshot_key object_key store) (\<lambda>_.
       let max_depth = min max_depth_requested MAX_TRAVERSAL_DEPTH;
           result_limit = min result_limit_requested MAX_RESULT_LIMIT
       in try_with (store_text (trace_relationships_bounded snapshot_key object_key direction max_depth result_limit store)) (\<lambda>bounded.
          try_with (snapshot_capability_warnings sj snapshot_key store) (\<lambda>warnings.
            Ok (json_line lib (json_members
              ([(''contract_version'', jnat PRODUCT_CONTRACT_VERSION), (''snapshot_key'', JString snapshot_key),
                (''start_object_key'', JString object_key), (''direction'', JString (direction_name direction))]
               @ limits_json max_depth_requested max_depth result_limit_requested result_limit
               @ [(''result_count'', jnat (length (btr_paths bounded))), (''truncated'', JBool (btr_truncated bounded)),
                  (''paths'', relationship_paths_json (btr_paths bounded)),
                  (''capability_warnings'', jstrings warnings)]))))))"

end
