(* ===== verification/Table_Descriptions.thy ===== *)
theory Table_Descriptions
  imports Cli_Metadata
begin

text \<open>
  The two ways in which the command line describes a table agree: \<open>describe_table\<close> reads nodes and edges of
  the graph, the inventory groups the objects of the certified snapshot. Most of the work is in the dependent
  objects, which the two collect in different orders; what a merge of dependents returns depends only on the
  set of what was merged.
\<close>

section \<open>Merging dependents\<close>

lemma bt_eqI:
  fixes m m' :: "('k::linorder, 'v) btree"
  assumes "bt_inv m" and "bt_inv m'" and "\<And>k. bt_get m k = bt_get m' k"
  shows "m = m'"
proof -
  have entries: "xs = map (\<lambda>k. (k, the (map_of xs k))) (map fst xs)" if "bt_inv xs" for xs :: "('k, 'v) btree"
    using bt.keys_distinct[OF that] by (auto simp: bt_keys_def comp_def intro!: map_idI[symmetric])
  have "map fst m = map fst m'" using bt.keys_determined[OF assms] by (simp add: bt_keys_def)
  moreover have "map_of m = map_of m'" using assms(3) by (auto simp: bt_get_def)
  ultimately show ?thesis using entries[OF assms(1)] entries[OF assms(2)] by metis
qed

lemma sort_snoc_sorted_list_of_set:
  assumes "finite A" and "c \<notin> A"
  shows "sort (sorted_list_of_set A @ [c]) = sorted_list_of_set (insert c A)"
proof (rule sorted_distinct_set_unique)
  show "distinct (sort (sorted_list_of_set A @ [c]))" unfolding distinct_sort using assms by simp
  show "set (sort (sorted_list_of_set A @ [c])) = set (sorted_list_of_set (insert c A))" unfolding set_sort using assms by (simp add: set_insort_key)
qed (simp_all only: sorted_sort sorted_sorted_list_of_set distinct_sorted_list_of_set)

text \<open>The dependents with a key are one dependent, found with or without columns.\<close>

definition one_per_key :: "(DependentObjectDescription \<times> string option) set \<Rightarrow> bool" where
  "one_per_key F = (\<forall>(d, c)\<in>F. dod_column_keys d = [] \<and> (\<forall>(d', c')\<in>F. dod_key d' = dod_key d \<longrightarrow> d' = d))"

definition merged_columns :: "(DependentObjectDescription \<times> string option) set \<Rightarrow> DependentObjectDescription \<Rightarrow> DependentObjectDescription" where
  "merged_columns F d = d\<lparr>dod_column_keys := sorted_list_of_set {c. (d, Some c) \<in> F}\<rparr>"

lemma finite_columns: "finite {c. (d, Some c) \<in> set L}"
proof -
  have "{c. (d, Some c) \<in> set L} \<subseteq> (\<lambda>x. the (snd x)) ` set L" by force
  then show ?thesis by (rule finite_subset) simp
qed

lemma one_per_key_subset: "one_per_key F \<Longrightarrow> G \<subseteq> F \<Longrightarrow> one_per_key G"
  unfolding one_per_key_def by blast

lemma merged_columns_snoc:
  "add_column_key c (merged_columns (set L) d) = merged_columns (set (L @ [(d, c)])) d"
  "dod_key d' \<noteq> dod_key d \<Longrightarrow> merged_columns (set (L @ [(d, c)])) d' = merged_columns (set L) d'"
proof -
  show "add_column_key c (merged_columns (set L) d) = merged_columns (set (L @ [(d, c)])) d"
  proof (cases c)
    case (Some k)
    then have "{c'. (d, Some c') \<in> set (L @ [(d, c)])} = insert k {c. (d, Some c) \<in> set L}" by auto
    then show ?thesis
      using Some finite_columns[of d L] sort_snoc_sorted_list_of_set[OF finite_columns, of k d L]
      by (cases "(d, Some k) \<in> set L") (simp_all add: add_column_key_def merged_columns_def insert_absorb)
  qed (simp add: add_column_key_def merged_columns_def)
  assume "dod_key d' \<noteq> dod_key d"
  then have "{c'. (d', Some c') \<in> set (L @ [(d, c)])} = {c. (d', Some c) \<in> set L}" by auto
  then show "merged_columns (set (L @ [(d, c)])) d' = merged_columns (set L) d'" by (simp add: merged_columns_def)
qed

definition merges :: "(DependentObjectDescription \<times> string option) list \<Rightarrow> (string, DependentObjectDescription) btree \<Rightarrow> bool" where
  "merges L m = (bt_inv m
     \<and> (\<forall>(d, c)\<in>set L. bt_get m (dod_key d) = Some (merged_columns (set L) d))
     \<and> (\<forall>k. k \<notin> dod_key ` fst ` set L \<longrightarrow> bt_get m k = None))"

lemma merges_snoc:
  assumes "merges L m" and "one_per_key (set (L @ [(d, c)]))"
  shows "merges (L @ [(d, c)]) (merge_dependent (d, c) m)"
proof -
  have same: "d' = d" if "(d', c') \<in> set L" "dod_key d' = dod_key d" for d' c'
    using assms(2) that unfolding one_per_key_def by fastforce
  have "(case bt_get m (dod_key d) of None \<Rightarrow> d | Some held \<Rightarrow> held) = merged_columns (set L) d"
  proof (cases "dod_key d \<in> dod_key ` fst ` set L")
    case True
    then obtain c' where "(d, c') \<in> set L" using same by fastforce
    then show ?thesis using assms(1) unfolding merges_def by fastforce
  next
    case False
    then have "{c. (d, Some c) \<in> set L} = {}" by force
    moreover have "dod_column_keys d = []" using assms(2) unfolding one_per_key_def by fastforce
    ultimately show ?thesis using assms(1) False by (simp add: merges_def merged_columns_def)
  qed
  then have step: "merge_dependent (d, c) m = bt_insert (dod_key d) (merged_columns (set (L @ [(d, c)])) d) m"
    by (simp add: merge_dependent_def merged_columns_snoc(1) Let_def)
  have "bt_get (merge_dependent (d, c) m) (dod_key d') = Some (merged_columns (set (L @ [(d, c)])) d')"
    if "(d', c') \<in> set (L @ [(d, c)])" for d' c'
  proof (cases "dod_key d' = dod_key d")
    case True
    then have "d' = d" using that same by auto
    then show ?thesis by (simp add: step bt.get_insert)
  next
    case False
    then have "bt_get m (dod_key d') = Some (merged_columns (set L) d')" using that assms(1) by (auto simp: merges_def)
    then show ?thesis using False merged_columns_snoc(2)[OF False] by (simp add: step bt.get_insert)
  qed
  then show ?thesis using assms(1) by (auto simp: merges_def step bt.get_insert bt_inv_insert)
qed

lemma merge_dependents_get: "one_per_key (set L) \<Longrightarrow> merges L (fold merge_dependent L [])"
proof (induction L rule: rev_induct)
  case (snoc x L)
  then have "merges L (fold merge_dependent L [])" using one_per_key_subset[OF snoc.prems] by fastforce
  then show ?case using merges_snoc[of L _ "fst x" "snd x"] snoc.prems by simp
qed (simp add: bt_get_def merges_def)

lemma merge_dependents_determined:
  assumes "one_per_key (set L)" and "set L = set L'"
  shows "fold merge_dependent L [] = fold merge_dependent L' []"
proof -
  note L = merge_dependents_get[OF assms(1)] merge_dependents_get[OF assms(1)[unfolded assms(2)]]
  have "bt_get (fold merge_dependent L []) k = bt_get (fold merge_dependent L' []) k" for k
  proof (cases "k \<in> dod_key ` fst ` set L")
    case True
    then obtain d c where "(d, c) \<in> set L" "k = dod_key d" by auto
    then show ?thesis using L unfolding merges_def assms(2) by fastforce
  next
    case False
    then show ?thesis using L unfolding merges_def assms(2) by simp
  qed
  then show ?thesis using L by (intro bt_eqI) (auto simp: merges_def)
qed

section \<open>What the inventory collects\<close>

lemma group_at_push [simp]:
  "group_at (push_group k v g) k' = (if k' = k then group_at g k @ [v] else group_at g k')"
  by (simp add: group_at_def push_group_def split: option.split)

lemma group_at_fold:
  "group_at (fold (\<lambda>x. push_group (f x) x) xs g) k = group_at g k @ filter (\<lambda>x. f x = k) xs"
  by (induction xs arbitrary: g) simp_all

lemma constraint_groups:
  defines "step \<equiv> \<lambda>constraint (constraints, inbound).
    (push_group (key_to_string (con_table_key constraint)) constraint constraints,
     if con_kind constraint = ConstraintKind.ForeignKey
     then (case con_referenced_table_key constraint of
             Some referenced_table \<Rightarrow> push_group (key_to_string referenced_table) constraint inbound
           | None \<Rightarrow> inbound)
     else inbound)"
  shows "group_at (fst (fold step xs (g, h))) k = group_at g k @ filter (\<lambda>x. key_to_string (con_table_key x) = k) xs"
    and "group_at (snd (fold step xs (g, h))) k = group_at h k @ filter (\<lambda>x. con_kind x = ConstraintKind.ForeignKey
      \<and> map_option key_to_string (con_referenced_table_key x) = Some k) xs"
  by (induction xs arbitrary: g h) (auto simp: step_def split: option.splits)

text \<open>What is recorded for a dependent object, one entry per table.\<close>

definition dependent :: "ObjectKey \<Rightarrow> string \<Rightarrow> string \<Rightarrow> string \<Rightarrow> DependentObjectDescription" where
  "dependent key name kind relation =
     \<lparr>dod_key = key_to_string key, dod_kind = kind, dod_name = name, dod_relation = relation, dod_column_keys = []\<rparr>"

definition dependents_at :: "dependent_groups \<Rightarrow> string \<Rightarrow> (string, DependentObjectDescription) btree" where
  "dependents_at groups key = (case groups key of None \<Rightarrow> [] | Some items \<Rightarrow> items)"

lemma dependents_at_record:
  "dependents_at (record_dependent k key name kind relation c groups) k' =
     (if k' = k then merge_dependent (dependent key name kind relation, c) (dependents_at groups k) else dependents_at groups k')"
  by (simp add: dependents_at_def record_dependent_def dependent_def)

lemma dependents_at_none: "dependents_at (\<lambda>_. None) k = []"
  by (simp add: dependents_at_def)

text \<open>The entries a dependency makes: for the table, or for the table of the column.\<close>

definition dependency_entries :: "(string \<Rightarrow> string option) \<Rightarrow> string \<Rightarrow> ObjectKey \<Rightarrow> string option list" where
  "dependency_entries column_tables k d =
     (if ok_object_kind d = Table then (if key_to_string d = k then [None] else [])
      else if ok_object_kind d = Column then (if column_tables (key_to_string d) = Some k then [Some (key_to_string d)] else [])
      else [])"

lemma dependents_at_dependencies:
  "dependents_at (record_dependencies key name kind relation ds column_tables groups) k =
     fold merge_dependent (map (Pair (dependent key name kind relation)) (concat (map (dependency_entries column_tables k) ds)))
       (dependents_at groups k)"
  by (induction ds arbitrary: groups)
    (auto simp: record_dependencies_def dependency_entries_def dependents_at_record split: option.split)

lemma dependents_at_objects:
  "dependents_at (fold (\<lambda>x. record_dependencies (key x) (name x) kind relation (ds x) column_tables) xs groups) k =
     fold merge_dependent (concat (map (\<lambda>x. map (Pair (dependent (key x) (name x) kind relation))
       (concat (map (dependency_entries column_tables k) (ds x)))) xs)) (dependents_at groups k)"
  by (induction xs arbitrary: groups) (simp_all add: dependents_at_dependencies)

lemma dependents_at_triggers:
  "dependents_at (fold (\<lambda>trigger dependents.
      if ok_object_kind (trg_table_key trigger) = Table
      then record_dependent (key_to_string (trg_table_key trigger)) (trg_key trigger) (trg_name trigger)
        ''trigger'' ''table_has_trigger'' None dependents
      else dependents) xs groups) k =
    fold merge_dependent (map (\<lambda>x. (dependent (trg_key x) (trg_name x) ''trigger'' ''table_has_trigger'', None))
      (filter (\<lambda>x. ok_object_kind (trg_table_key x) = Table \<and> key_to_string (trg_table_key x) = k) xs)) (dependents_at groups k)"
  by (induction xs arbitrary: groups) (simp_all add: dependents_at_record)

section \<open>The dependents of a table\<close>

abbreviation view_dependent :: "ViewObject \<Rightarrow> DependentObjectDescription" where
  "view_dependent x \<equiv> dependent (view_key x) (view_name x) ''view'' ''view_depends_on''"

abbreviation routine_dependent :: "RoutineObject \<Rightarrow> DependentObjectDescription" where
  "routine_dependent x \<equiv> dependent (rtn_key x) (rtn_name x) ''routine'' ''routine_depends_on''"

abbreviation trigger_dependent :: "TriggerObject \<Rightarrow> DependentObjectDescription" where
  "trigger_dependent x \<equiv> dependent (trg_key x) (trg_name x) ''trigger'' ''table_has_trigger''"

text \<open>How an object depends on a table: on the table itself, or on one of its columns.\<close>

definition depends_via :: "SchemaSnapshot \<Rightarrow> ObjectKey \<Rightarrow> ObjectKey list \<Rightarrow> string option \<Rightarrow> bool" where
  "depends_via s t ds c =
     (case c of
        None \<Rightarrow> t \<in> set ds
      | Some k \<Rightarrow> (\<exists>y\<in>set (snap_columns s). col_table_key y = t \<and> col_key y \<in> set ds \<and> k = key_to_string (col_key y)))"

definition dependent_facts :: "SchemaSnapshot \<Rightarrow> ObjectKey \<Rightarrow> (DependentObjectDescription \<times> string option) set" where
  "dependent_facts s t =
     {(view_dependent x, c) |x c. x \<in> set (snap_views s) \<and> depends_via s t (view_depends_on x) c}
     \<union> {(routine_dependent x, c) |x c. x \<in> set (snap_routines s) \<and> depends_via s t (rtn_depends_on x) c}
     \<union> {(trigger_dependent x, None) |x. x \<in> set (snap_triggers s) \<and> trg_table_key x = t}"

lemma facts_one_per_key:
  assumes "well_formed_schema s"
  shows "one_per_key (dependent_facts s t)"
proof -
  have eq: "x = y" if "distinct (map f xs)" "x \<in> set xs" "y \<in> set xs" "f x = f y" for x y and f :: "'x \<Rightarrow> ObjectKey" and xs
    using that by (simp add: distinct_map inj_on_def)
  note same = eq[OF schema_collections(5)[OF assms]] eq[OF schema_collections(6)[OF assms]] eq[OF schema_collections(7)[OF assms]]
  have kinds: "ok_object_kind k \<noteq> ok_object_kind k' \<Longrightarrow> dod_key (dependent k n a b) \<noteq> dod_key (dependent k' n' a' b')" for k k' n a b n' a' b'
    by (auto simp: dependent_def key_to_string_inject)
  have sources: "(\<exists>x\<in>set (snap_views s). d = view_dependent x) \<or> (\<exists>x\<in>set (snap_routines s). d = routine_dependent x)
      \<or> (\<exists>x\<in>set (snap_triggers s). d = trigger_dependent x)" if "(d, c) \<in> dependent_facts s t" for d c
    using that by (auto simp: dependent_facts_def)
  have "d' = d" if facts: "(d, c) \<in> dependent_facts s t" "(d', c') \<in> dependent_facts s t" and key: "dod_key d' = dod_key d" for d c d' c'
  proof -
    have "view_dependent x = view_dependent y" if "x \<in> set (snap_views s)" "y \<in> set (snap_views s)" "dod_key (view_dependent x) = dod_key (view_dependent y)" for x y
      using same(1)[OF that(1,2)] that(3) by (simp add: dependent_def key_to_string_inject)
    moreover have "routine_dependent x = routine_dependent y" if "x \<in> set (snap_routines s)" "y \<in> set (snap_routines s)" "dod_key (routine_dependent x) = dod_key (routine_dependent y)" for x y
      using same(3)[OF that(1,2)] that(3) by (simp add: dependent_def key_to_string_inject)
    moreover have "trigger_dependent x = trigger_dependent y" if "x \<in> set (snap_triggers s)" "y \<in> set (snap_triggers s)" "dod_key (trigger_dependent x) = dod_key (trigger_dependent y)" for x y
      using same(2)[OF that(1,2)] that(3) by (simp add: dependent_def key_to_string_inject)
    moreover have "ok_object_kind (view_key x) = View" if "x \<in> set (snap_views s)" for x using schema_key_kinds(7)[OF assms] that by blast
    moreover have "ok_object_kind (rtn_key x) = Routine" if "x \<in> set (snap_routines s)" for x using schema_key_kinds(9)[OF assms] that by blast
    moreover have "ok_object_kind (trg_key x) = Trigger" if "x \<in> set (snap_triggers s)" for x using schema_key_kinds(8)[OF assms] that by blast
    ultimately show ?thesis
      using sources[OF facts(1)] sources[OF facts(2)] key by (elim disjE bexE) (simp_all add: kinds)
  qed
  moreover have "dod_column_keys d = []" if "(d, c) \<in> dependent_facts s t" for d c
    using sources[OF that] by (auto simp: dependent_def)
  ultimately show ?thesis unfolding one_per_key_def by blast
qed

lemma fold_map_upds:
  "fold (\<lambda>x m. m(f x \<mapsto> g x)) xs m = m ++ map_of (rev (map (\<lambda>x. (f x, g x)) xs))"
  by (induction xs arbitrary: m) (simp_all add: map_add_def fun_eq_iff split: option.split)

lemma column_tables_iff:
  assumes "distinct (map col_key (snap_columns s))"
  shows "column_tables_of s (key_to_string d) = Some (key_to_string t) \<longleftrightarrow>
    (\<exists>y\<in>set (snap_columns s). col_key y = d \<and> col_table_key y = t)"
proof -
  have "distinct (map (\<lambda>y. key_to_string (col_key y)) (snap_columns s))"
    using assms by (simp add: distinct_map inj_on_def key_to_string_inject)
  then have "distinct (map fst (rev (map (\<lambda>y. (key_to_string (col_key y), key_to_string (col_table_key y))) (snap_columns s))))"
    by (simp add: rev_map[symmetric] comp_def)
  from map_of_eq_Some_iff[OF this] show ?thesis
    unfolding column_tables_of_def fold_map_upds by (auto simp: map_add_def key_to_string_inject split: option.split)
qed

lemma dependency_entries_iff:
  assumes "well_formed_schema s" and "ok_object_kind t = Table"
  shows "c \<in> set (concat (map (dependency_entries (column_tables_of s) (key_to_string t)) ds)) \<longleftrightarrow> depends_via s t ds c"
proof -
  have columns: "\<forall>y\<in>set (snap_columns s). ok_object_kind (col_key y) = Column" using schema_key_kinds(4)[OF assms(1)] .
  have "c \<in> set (dependency_entries (column_tables_of s) (key_to_string t) d) \<longleftrightarrow>
      (case c of None \<Rightarrow> d = t | Some k \<Rightarrow> (\<exists>y\<in>set (snap_columns s). col_table_key y = t \<and> col_key y = d \<and> k = key_to_string d))" for d
    using columns assms(2)
    by (auto simp: dependency_entries_def key_to_string_inject column_tables_iff[OF schema_collections(2)[OF assms(1)]] split: option.split)
  then show ?thesis by (auto simp: depends_via_def split: option.split)
qed

lemma inventory_dependents:
  assumes "well_formed_schema s" and "ok_object_kind t = Table"
  obtains L where "dependents_at (idi_dependents (new_inventory_index s)) (key_to_string t) = fold merge_dependent L []"
    and "set L = dependent_facts s t"
proof -
  let ?entries = "\<lambda>d ds. map (Pair d) (concat (map (dependency_entries (column_tables_of s) (key_to_string t)) ds))"
  let ?L = "concat (map (\<lambda>x. ?entries (view_dependent x) (view_depends_on x)) (snap_views s))
    @ concat (map (\<lambda>x. ?entries (routine_dependent x) (rtn_depends_on x)) (snap_routines s))
    @ map (\<lambda>x. (trigger_dependent x, None))
        (filter (\<lambda>x. ok_object_kind (trg_table_key x) = Table \<and> key_to_string (trg_table_key x) = key_to_string t) (snap_triggers s))"
  have run: "dependents_at (idi_dependents (new_inventory_index s)) (key_to_string t) = fold merge_dependent ?L []"
    by (simp add: new_inventory_index_def Let_def case_prod_beta dependents_at_triggers dependents_at_objects dependents_at_none)
  have entries: "set (?entries d ds) = {(d, c) |c. depends_via s t ds c}" for d ds
    using dependency_entries_iff[OF assms, of _ ds] by auto
  have concat_sets: "set (concat (map f xs) @ concat (map g ys) @ zs) = (\<Union>x\<in>set xs. set (f x)) \<union> (\<Union>y\<in>set ys. set (g y)) \<union> set zs"
    for f :: "'x \<Rightarrow> 'z list" and g :: "'y \<Rightarrow> 'z list" and xs ys zs by auto
  have "set ?L = dependent_facts s t"
    unfolding concat_sets entries dependent_facts_def
    using assms(2) by (auto simp: key_to_string_inject)
  with run show thesis by (rule that)
qed

section \<open>What the graph says of the dependents\<close>

text \<open>The dependent at the end of an edge.\<close>

definition end_dependent :: "string \<Rightarrow> Connection \<Rightarrow> (GraphEdgeRecord \<Rightarrow> string) \<Rightarrow> GraphEdgeRecord \<Rightarrow> (string, DependentObjectDescription) result" where
  "end_dependent sk store other_end e =
     try_with (required_node sk (other_end e) store) (\<lambda>node. dependent_from_node node (ge_edge_type e))"

lemma merge_edges_fold:
  assumes "\<And>e. e \<in> set edges \<Longrightarrow> ge_edge_type e \<in> set types \<Longrightarrow> end_dependent sk store other_end e = Ok (dep e)"
  shows "merge_edges types other_end c sk store edges dependents =
    Ok (fold merge_dependent (map (\<lambda>e. (dep e, c)) (filter (\<lambda>e. ge_edge_type e \<in> set types) edges)) dependents)"
proof -
  have "try_with (required_node sk (other_end e) store) (\<lambda>node. try_with (dependent_from_node node (ge_edge_type e)) (\<lambda>d. Ok (merge_dependent (d, c) m)))
      = Ok (merge_dependent (dep e, c) m)" if "e \<in> set (filter (\<lambda>e. ge_edge_type e \<in> set types) edges)" for e m
    using assms[of e] that by (auto simp: end_dependent_def try_with_Ok_iff)
  note step = this
  show ?thesis unfolding merge_edges_def try_fold_filter fold_map comp_def by (rule try_fold_all) (rule step)
qed

lemma object_nodes:
  "x1 \<in> set (snap_views s) \<Longrightarrow> node_record sj sk (annotation_map m) (view_key x1) ''View'' (view_name x1) (PView x1) \<in> set (projected_nodes sj sk s m)"
  "x2 \<in> set (snap_routines s) \<Longrightarrow> node_record sj sk (annotation_map m) (rtn_key x2) ''Routine'' (rtn_name x2) (PRoutine x2) \<in> set (projected_nodes sj sk s m)"
  "x3 \<in> set (snap_triggers s) \<Longrightarrow> node_record sj sk (annotation_map m) (trg_key x3) ''Trigger'' (trg_name x3) (PTrigger x3) \<in> set (projected_nodes sj sk s m)"
  "x4 \<in> set (snap_tables s) \<Longrightarrow> node_record sj sk (annotation_map m) (tbl_key x4) ''Table'' (tbl_name x4) (PTable x4) \<in> set (projected_nodes sj sk s m)"
  by (simp_all add: projected_nodes_def Let_def)

lemma readable_key:
  assumes "readable_keys c" and "k \<in> set (map fst (schema_keys (can_schema (cert_snapshot c))))"
  shows "parse_object_key (key_to_string k) = Ok k"
  using assms by (auto simp: readable_keys_def canonical_keys_def)

lemma end_dependent_Ok:
  assumes "stored sj sk c store" and "readable_keys c"
    and "node_record sj sk (annotation_map (Some (can_metadata (cert_snapshot c)))) key label name p \<in> set (nodes_of sj sk c)"
    and "key \<in> set (map fst (schema_keys (can_schema (cert_snapshot c))))"
    and "other_end e = key_to_string key"
    and "(ok_object_kind key = View \<and> ge_edge_type e \<in> {''VIEW_DEPENDS_ON_TABLE'', ''VIEW_DEPENDS_ON_COLUMN''}
        \<and> kind = ''view'' \<and> relation = ''view_depends_on'')
      \<or> (ok_object_kind key = Routine \<and> ge_edge_type e \<in> {''ROUTINE_DEPENDS_ON_TABLE'', ''ROUTINE_DEPENDS_ON_COLUMN''}
        \<and> kind = ''routine'' \<and> relation = ''routine_depends_on'')
      \<or> (ok_object_kind key = Trigger \<and> ge_edge_type e = ''TABLE_HAS_TRIGGER''
        \<and> kind = ''trigger'' \<and> relation = ''table_has_trigger'')"
  shows "end_dependent sk store other_end e = Ok (dependent key name kind relation)"
proof -
  have node: "required_node sk (other_end e) store = Ok (node_record sj sk (annotation_map (Some (can_metadata (cert_snapshot c)))) key label name p)"
    using stored_required_node[OF assms(1,3)] assms(5) by (simp add: node_record_sel)
  have parse: "parse_object_key (key_to_string key) = Ok key" by (rule readable_key[OF assms(2,4)])
  show ?thesis
    using assms(6) unfolding end_dependent_def node
    by (elim disjE conjE) (auto simp: dependent_from_node_def object_key_of_def node_record_def parse map_err_def dependent_def)
qed

lemma object_keys_registered:
  "x1 \<in> set (snap_views s) \<Longrightarrow> view_key x1 \<in> set (map fst (schema_keys s))"
  "x2 \<in> set (snap_routines s) \<Longrightarrow> rtn_key x2 \<in> set (map fst (schema_keys s))"
  "x3 \<in> set (snap_triggers s) \<Longrightarrow> trg_key x3 \<in> set (map fst (schema_keys s))"
  "x4 \<in> set (snap_tables s) \<Longrightarrow> tbl_key x4 \<in> set (map fst (schema_keys s))"
  by (auto simp: schema_keys_def image_image image_Un)

lemma edge_dependents:
  assumes "stored sj sk c store" and "readable_keys c"
  defines "s \<equiv> can_schema (cert_snapshot c)"
  shows "x1 \<in> set (snap_views s) \<Longrightarrow> t1 \<in> {''VIEW_DEPENDS_ON_TABLE'', ''VIEW_DEPENDS_ON_COLUMN''} \<Longrightarrow>
      end_dependent sk store ge_edge_from (edge_record sj sk t1 (view_key x1) d) = Ok (view_dependent x1)"
    and "x2 \<in> set (snap_routines s) \<Longrightarrow> t2 \<in> {''ROUTINE_DEPENDS_ON_TABLE'', ''ROUTINE_DEPENDS_ON_COLUMN''} \<Longrightarrow>
      end_dependent sk store ge_edge_from (edge_record sj sk t2 (rtn_key x2) d) = Ok (routine_dependent x2)"
    and "x3 \<in> set (snap_triggers s) \<Longrightarrow>
      end_dependent sk store ge_edge_to (edge_record sj sk ''TABLE_HAS_TRIGGER'' d (trg_key x3)) = Ok (trigger_dependent x3)"
proof -
  note wf = stored_schema(1)[OF assms(1), folded s_def]
  note nodes = object_nodes[of _ s sj sk "Some (can_metadata (cert_snapshot c))", folded nodes_of_def[of sj sk c, folded s_def]]
  show "end_dependent sk store ge_edge_from (edge_record sj sk t1 (view_key x1) d) = Ok (view_dependent x1)"
    if "x1 \<in> set (snap_views s)" "t1 \<in> {''VIEW_DEPENDS_ON_TABLE'', ''VIEW_DEPENDS_ON_COLUMN''}"
    using end_dependent_Ok[OF assms(1,2) nodes(1)[OF that(1)] object_keys_registered(1)[OF that(1)[unfolded s_def]]]
      that schema_key_kinds(7)[OF wf] by simp
  show "end_dependent sk store ge_edge_from (edge_record sj sk t2 (rtn_key x2) d) = Ok (routine_dependent x2)"
    if "x2 \<in> set (snap_routines s)" "t2 \<in> {''ROUTINE_DEPENDS_ON_TABLE'', ''ROUTINE_DEPENDS_ON_COLUMN''}"
    using end_dependent_Ok[OF assms(1,2) nodes(2)[OF that(1)] object_keys_registered(2)[OF that(1)[unfolded s_def]]]
      that schema_key_kinds(9)[OF wf] by simp
  show "end_dependent sk store ge_edge_to (edge_record sj sk ''TABLE_HAS_TRIGGER'' d (trg_key x3)) = Ok (trigger_dependent x3)"
    if "x3 \<in> set (snap_triggers s)"
    using end_dependent_Ok[OF assms(1,2) nodes(3)[OF that(1)] object_keys_registered(3)[OF that(1)[unfolded s_def]]]
      that schema_key_kinds(8)[OF wf] by simp
qed

text \<open>A loop over edges merges the dependents at their ends.\<close>

lemma merge_edges_set:
  assumes "\<And>e. e \<in> set edges \<and> ge_edge_type e \<in> set types \<longleftrightarrow> e \<in> E"
    and "\<And>e. e \<in> E \<Longrightarrow> end_dependent sk store other_end e = Ok (dep e)"
  obtains L where "\<And>m. merge_edges types other_end c sk store edges m = Ok (fold merge_dependent L m)"
    and "set L = (\<lambda>e. (dep e, c)) ` E"
proof
  let ?L = "map (\<lambda>e. (dep e, c)) (filter (\<lambda>e. ge_edge_type e \<in> set types) edges)"
  show "merge_edges types other_end c sk store edges m = Ok (fold merge_dependent ?L m)" for m
    by (rule merge_edges_fold) (use assms in blast)
  have "{e \<in> set edges. ge_edge_type e \<in> set types} = E" using assms(1) by blast
  then show "set ?L = (\<lambda>e. (dep e, c)) ` E" by simp
qed

text \<open>The dependents on one key, table or column, and the part of the loops that collects them.\<close>

definition dependency_facts :: "SchemaSnapshot \<Rightarrow> ObjectKey \<Rightarrow> string option \<Rightarrow> (DependentObjectDescription \<times> string option) set" where
  "dependency_facts s k ck =
     {(view_dependent x, ck) |x. x \<in> set (snap_views s) \<and> k \<in> set (view_depends_on x)}
     \<union> {(routine_dependent x, ck) |x. x \<in> set (snap_routines s) \<and> k \<in> set (rtn_depends_on x)}"

definition merge_into ::
  "string list \<Rightarrow> string option \<Rightarrow> string \<Rightarrow> Connection \<Rightarrow> ObjectKey \<Rightarrow> (string, DependentObjectDescription) btree
    \<Rightarrow> (string, (string, DependentObjectDescription) btree) result" where
  "merge_into types ck sk store k m =
     try_with (store_text (edges_to sk (key_to_string k) store)) (\<lambda>edges. merge_edges types ge_edge_from ck sk store edges m)"

definition merges_facts ::
  "((string, DependentObjectDescription) btree \<Rightarrow> (string, (string, DependentObjectDescription) btree) result)
    \<Rightarrow> (DependentObjectDescription \<times> string option) set \<Rightarrow> bool" where
  "merges_facts run F = (\<exists>L. (\<forall>m. run m = Ok (fold merge_dependent L m)) \<and> set L = F)"

lemma merges_facts_then:
  assumes "merges_facts f F" and "merges_facts g G"
  shows "merges_facts (\<lambda>m. try_with (f m) g) (F \<union> G)"
proof -
  obtain L M where "\<forall>m. f m = Ok (fold merge_dependent L m)" "set L = F" "\<forall>m. g m = Ok (fold merge_dependent M m)" "set M = G"
    using assms unfolding merges_facts_def by blast
  then show ?thesis unfolding merges_facts_def by (intro exI[of _ "L @ M"]) simp
qed

lemma merges_facts_loop:
  assumes "\<And>x. x \<in> set xs \<Longrightarrow> merges_facts (f x) (F x)"
  shows "merges_facts (try_fold f xs) (\<Union>x\<in>set xs. F x)"
  using assms
proof (induction xs)
  case (Cons x xs)
  then have "merges_facts (f x) (F x)" "merges_facts (try_fold f xs) (\<Union>x\<in>set xs. F x)" by auto
  from merges_facts_then[OF this] show ?case by (simp add: merges_facts_def)
next
  case Nil
  show ?case unfolding merges_facts_def by (intro exI[of _ "[]"]) simp
qed

lemma merge_dependencies:
  assumes "stored sj sk c store" and "readable_keys c"
    and types: "(tv, tr, ok_object_kind k) \<in> {(''VIEW_DEPENDS_ON_TABLE'', ''ROUTINE_DEPENDS_ON_TABLE'', Table),
      (''VIEW_DEPENDS_ON_COLUMN'', ''ROUTINE_DEPENDS_ON_COLUMN'', Column)}"
  defines "s \<equiv> can_schema (cert_snapshot c)"
  shows "merges_facts (merge_into [tv, tr] ck sk store k) (dependency_facts s k ck)"
proof -
  let ?V = "{x \<in> set (snap_views s). k \<in> set (view_depends_on x)}" and ?R = "{x \<in> set (snap_routines s). k \<in> set (rtn_depends_on x)}"
  let ?ev = "\<lambda>x. edge_record sj sk tv (view_key x) k" and ?er = "\<lambda>x. edge_record sj sk tr (rtn_key x) k"
  let ?dep = "\<lambda>e. projr (end_dependent sk store ge_edge_from e)"
  have ends: "x1 \<in> ?V \<Longrightarrow> end_dependent sk store ge_edge_from (?ev x1) = Ok (view_dependent x1)"
    "x2 \<in> ?R \<Longrightarrow> end_dependent sk store ge_edge_from (?er x2) = Ok (routine_dependent x2)" for x1 x2
    using edge_dependents[OF assms(1,2), folded s_def] types by auto
  have edges: "e \<in> set (sort_key ge_edge_key (filter (\<lambda>e. ge_edge_to e = key_to_string k) (edges_of sj sk c))) \<and> ge_edge_type e \<in> set [tv, tr]
      \<longleftrightarrow> e \<in> ?ev ` ?V \<union> ?er ` ?R" for e
  proof -
    have "e \<in> set (sort_key ge_edge_key (filter (\<lambda>e. ge_edge_to e = key_to_string k) (edges_of sj sk c))) \<and> ge_edge_type e \<in> set [tv, tr]
      \<longleftrightarrow> ((e \<in> set (edges_of sj sk c) \<and> ge_edge_type e = tv) \<or> (e \<in> set (edges_of sj sk c) \<and> ge_edge_type e = tr)) \<and> ge_edge_to e = key_to_string k"
      by auto
    also have "\<dots> \<longleftrightarrow> e \<in> ?ev ` ?V \<union> ?er ` ?R"
      using types unfolding edges_of_def s_def[symmetric]
      by (elim insertE emptyE) (auto simp: typed_dependency_edges key_to_string_inject)
    finally show ?thesis .
  qed
  obtain L where "\<And>m. merge_edges [tv, tr] ge_edge_from ck sk store (sort_key ge_edge_key (filter (\<lambda>e. ge_edge_to e = key_to_string k) (edges_of sj sk c))) m
      = Ok (fold merge_dependent L m)" and "set L = (\<lambda>e. (?dep e, ck)) ` (?ev ` ?V \<union> ?er ` ?R)"
    by (rule merge_edges_set[OF edges, where dep = ?dep and c = ck]) (auto simp: ends)
  then show ?thesis unfolding merges_facts_def
    by (intro exI[of _ L])
      (auto simp: merge_into_def stored_edges[OF assms(1)] store_text_def map_err_def ends image_Un image_image dependency_facts_def)
qed

lemma merge_triggers:
  assumes "stored sj sk c store" and "readable_keys c" and "ok_object_kind t = Table"
  defines "s \<equiv> can_schema (cert_snapshot c)"
  shows "merges_facts (\<lambda>m. try_with (store_text (edges_from sk (key_to_string t) store)) (\<lambda>edges.
        merge_edges [''TABLE_HAS_TRIGGER''] ge_edge_to None sk store edges m))
    {(trigger_dependent x, None) |x. x \<in> set (snap_triggers s) \<and> trg_table_key x = t}"
proof -
  let ?T = "{x \<in> set (snap_triggers s). trg_table_key x = t}" and ?e = "\<lambda>x. edge_record sj sk ''TABLE_HAS_TRIGGER'' t (trg_key x)"
  let ?dep = "\<lambda>e. projr (end_dependent sk store ge_edge_to e)"
  have ends: "x \<in> ?T \<Longrightarrow> end_dependent sk store ge_edge_to (?e x) = Ok (trigger_dependent x)" for x
    using edge_dependents(3)[OF assms(1,2), folded s_def] by auto
  have edges: "e \<in> set (sort_key ge_edge_key (filter (\<lambda>e. ge_edge_from e = key_to_string t) (edges_of sj sk c))) \<and> ge_edge_type e \<in> set [''TABLE_HAS_TRIGGER'']
      \<longleftrightarrow> e \<in> ?e ` ?T" for e
  proof -
    have "e \<in> set (sort_key ge_edge_key (filter (\<lambda>e. ge_edge_from e = key_to_string t) (edges_of sj sk c))) \<and> ge_edge_type e \<in> set [''TABLE_HAS_TRIGGER'']
      \<longleftrightarrow> (e \<in> set (edges_of sj sk c) \<and> ge_edge_type e = ''TABLE_HAS_TRIGGER'') \<and> ge_edge_from e = key_to_string t" by auto
    also have "\<dots> \<longleftrightarrow> (\<exists>x\<in>set (snap_triggers s). trg_table_key x = t \<and> e = ?e x)"
    proof -
      have "(ok_object_kind (trg_table_key x) \<noteq> View \<and> e = edge_record sj sk ''TABLE_HAS_TRIGGER'' (trg_table_key x) (trg_key x))
        \<and> ge_edge_from e = key_to_string t \<longleftrightarrow> trg_table_key x = t \<and> e = ?e x" for x
        using assms(3) by (auto simp: key_to_string_inject)
      then show ?thesis unfolding edges_of_def s_def[symmetric] typed_edges(4) by blast
    qed
    finally show ?thesis by blast
  qed
  have dep: "end_dependent sk store ge_edge_to e = Ok (?dep e)" if "e \<in> ?e ` ?T" for e
    using that by (elim imageE) (simp only: ends sum.sel)
  obtain L where "\<And>m. merge_edges [''TABLE_HAS_TRIGGER''] ge_edge_to None sk store (sort_key ge_edge_key (filter (\<lambda>e. ge_edge_from e = key_to_string t) (edges_of sj sk c))) m
      = Ok (fold merge_dependent L m)" and "set L = (\<lambda>e. (?dep e, None)) ` (?e ` ?T)"
    by (rule merge_edges_set[OF edges dep, where c = None]) blast+
  then show ?thesis unfolding merges_facts_def
    by (intro exI[of _ L]) (auto simp: stored_edges[OF assms(1)] store_text_def map_err_def ends image_image)
qed

lemma depends_via_split:
  "{(f x, ck) |x ck. x \<in> X \<and> depends_via s t (ds x) ck} = {(f x, None) |x. x \<in> X \<and> t \<in> set (ds x)}
    \<union> (\<Union>y\<in>{y \<in> set (snap_columns s). col_table_key y = t}.
        {(f x, Some (key_to_string (col_key y))) |x. x \<in> X \<and> col_key y \<in> set (ds x)})"
  (is "?A = ?N \<union> ?S")
proof (intro set_eqI)
  fix p :: "'a \<times> string option"
  obtain d ck where p: "p = (d, ck)" by (cases p)
  show "p \<in> ?A \<longleftrightarrow> p \<in> ?N \<union> ?S"
  proof (cases ck)
    case None
    then show ?thesis by (simp add: p depends_via_def)
  next
    case (Some k)
    then show ?thesis by (simp add: p depends_via_def) blast
  qed
qed

lemma table_dependents_read:
  assumes "stored sj sk c store" and "readable_keys c" and "ok_object_kind t = Table"
    and "set columns = {y \<in> set (snap_columns (can_schema (cert_snapshot c))). col_table_key y = t}"
  defines "s \<equiv> can_schema (cert_snapshot c)"
  obtains L where "table_dependents sk (key_to_string t) columns store = Ok (bt_values (fold merge_dependent L []))"
    and "set L = dependent_facts s t"
proof -
  note wf = stored_schema(1)[OF assms(1), folded s_def]
  let ?columns = "\<lambda>y. merge_into [''VIEW_DEPENDS_ON_COLUMN'', ''ROUTINE_DEPENDS_ON_COLUMN''] (Some (key_to_string (col_key y))) sk store (col_key y)"
  let ?triggers = "\<lambda>m. try_with (store_text (edges_from sk (key_to_string t) store)) (\<lambda>edges.
    merge_edges [''TABLE_HAS_TRIGGER''] ge_edge_to None sk store edges m)"
  have "merges_facts (merge_into [''VIEW_DEPENDS_ON_TABLE'', ''ROUTINE_DEPENDS_ON_TABLE''] None sk store t) (dependency_facts s t None)"
    unfolding s_def by (rule merge_dependencies[OF assms(1,2)]) (simp add: assms(3))
  moreover have "merges_facts (?columns y) (dependency_facts s (col_key y) (Some (key_to_string (col_key y))))" if "y \<in> set columns" for y
    unfolding s_def by (rule merge_dependencies[OF assms(1,2)])
      (use that schema_key_kinds(4)[OF wf] assms(4) in \<open>auto simp: s_def\<close>)
  ultimately have "merges_facts (\<lambda>m. try_with (try_with (merge_into [''VIEW_DEPENDS_ON_TABLE'', ''ROUTINE_DEPENDS_ON_TABLE''] None sk store t m)
      (try_fold ?columns columns)) ?triggers)
    (dependency_facts s t None \<union> (\<Union>y\<in>set columns. dependency_facts s (col_key y) (Some (key_to_string (col_key y))))
      \<union> {(trigger_dependent x, None) |x. x \<in> set (snap_triggers s) \<and> trg_table_key x = t})"
    unfolding s_def by (intro merges_facts_then merges_facts_loop merge_triggers[OF assms(1-3)])
  moreover have "dependency_facts s t None \<union> (\<Union>y\<in>set columns. dependency_facts s (col_key y) (Some (key_to_string (col_key y))))
      \<union> {(trigger_dependent x, None) |x. x \<in> set (snap_triggers s) \<and> trg_table_key x = t} = dependent_facts s t"
    unfolding dependency_facts_def dependent_facts_def assms(4)[folded s_def] depends_via_split by (simp only: UN_Un_distrib Un_ac)
  ultimately obtain L where "set L = dependent_facts s t" and "\<And>m. try_with (try_with (merge_into [''VIEW_DEPENDS_ON_TABLE'', ''ROUTINE_DEPENDS_ON_TABLE''] None sk store t m)
      (try_fold ?columns columns)) ?triggers = Ok (fold merge_dependent L m)"
    unfolding merges_facts_def by metis
  from this(2)[of "[]"] have "table_dependents sk (key_to_string t) columns store = Ok (bt_values (fold merge_dependent L []))"
    unfolding table_dependents_def merge_into_def
    by (auto simp: try_with_Ok_iff)
  then show thesis using \<open>set L = dependent_facts s t\<close> by (rule that)
qed

section \<open>The two descriptions\<close>

text \<open>The readers of the stored certificate.\<close>

definition reads_certificate :: "serde \<Rightarrow> CertifiedSchemaSnapshot \<Rightarrow> bool" where
  "reads_certificate sj c =
     (parse_certified sj (payload_json sj (PCertified c)) = Ok c
      \<and> parse_capabilities sj (payload_json sj (PCertified c)) = Ok (snap_capabilities (can_schema (cert_snapshot c)))
      \<and> (\<exists>v. snapshot_contract_version sj (payload_json sj (PCertified c)) = Ok (Some v)))"

lemma stored_certificate:
  assumes "stored sj sk c store" and "reads_certificate sj c"
  shows "snapshot_capability_warnings sj sk store = Ok (capability_warnings (snap_capabilities (can_schema (cert_snapshot c))))"
    and "inventory_snapshot lib sj sk store = Ok (can_schema (cert_snapshot c))"
proof -
  obtain t where "filter (\<lambda>x. gs_snapshot_key x = sk) (gd_snapshots (cn_db store)) =
      [snapshot_record sj sk t (can_schema (cert_snapshot c)) (PCertified c)]" using assms(1) by (auto simp: stored_def)
  from find_filter[OF this] have row: "find_row (\<lambda>x. gs_snapshot_key x = sk) (gd_snapshots (cn_db store)) =
      Some (snapshot_record sj sk t (can_schema (cert_snapshot c)) (PCertified c))" by (simp add: find_row_def)
  have reads: "cn_read_fault store q = None" for q using assms(1) by (simp add: stored_def no_read_faults_def)
  have payload: "gs_payload_json (snapshot_record sj sk t s p) = payload_json sj p" for s p by (simp add: snapshot_record_def)
  show "snapshot_capability_warnings sj sk store = Ok (capability_warnings (snap_capabilities (can_schema (cert_snapshot c))))"
    using assms(2) by (simp add: snapshot_capability_warnings_def get_snapshot_capabilities_def read_with_def reads row payload
        reads_certificate_def store_text_def map_err_def ok_or_def)
  have "verify_certified_schema_snapshot c = Ok ()" using assms(1) by (simp add: stored_def verify_Ok_iff)
  then have "get_certified_snapshot sj sk store = Ok (Some c)"
    using assms(2) by (auto simp: get_certified_snapshot_def get_snapshot_def read_with_def reads row payload reads_certificate_def map_err_def)
  then show "inventory_snapshot lib sj sk store = Ok (can_schema (cert_snapshot c))"
    by (simp add: inventory_snapshot_def get_snapshot_def read_with_def reads row store_text_def map_err_def ok_or_def)
qed

lemma resolve_table_stored:
  assumes "stored sj sk c store" and "readable_keys c" and "x \<in> set (snap_tables (can_schema (cert_snapshot c)))"
  shows "\<exists>node. resolve_table_node sk (Some (key_to_string (tbl_key x))) None store = Ok node
    \<and> gn_node_key node = key_to_string (tbl_key x) \<and> object_key_of node = Ok (tbl_key x)"
proof -
  let ?n = "node_record sj sk (annotation_map (Some (can_metadata (cert_snapshot c)))) (tbl_key x) ''Table'' (tbl_name x) (PTable x)"
  have "required_node sk (key_to_string (tbl_key x)) store = Ok ?n"
    using stored_required_node[OF assms(1), of ?n] object_nodes(4)[OF assms(3)] by (simp add: nodes_of_def node_record_sel)
  moreover have key: "object_key_of ?n = Ok (tbl_key x)"
    using readable_key[OF assms(2) object_keys_registered(4)[OF assms(3)]] by (simp add: object_key_of_def node_record_sel map_err_def)
  moreover have "ok_object_kind (tbl_key x) = Table" using schema_key_kinds(3)[OF stored_schema(1)[OF assms(1)]] assms(3) by blast
  ultimately show ?thesis by (simp add: resolve_table_node_def node_record_sel)
qed

lemma sort_key_sorted_filter: "sorted (map f xs) \<Longrightarrow> sort_key f (filter p xs) = filter p xs"
  by (rule sort_key_id_if_sorted) (rule sorted_filter)

lemma inventory_parts:
  assumes "stored sj sk c store" and "x \<in> set (snap_tables (can_schema (cert_snapshot c)))"
  defines "s \<equiv> can_schema (cert_snapshot c)" and "t \<equiv> tbl_key x" and "index \<equiv> new_inventory_index (can_schema (cert_snapshot c))"
  shows "group_at (idi_columns index) (key_to_string t) = filter (\<lambda>y. col_table_key y = t) (snap_columns s)"
    and "sort_key (\<lambda>y. key_to_string (con_key y)) (group_at (idi_constraints index) (key_to_string t)) = filter (\<lambda>y. con_table_key y = t) (snap_constraints s)"
    and "group_at (idi_inbound_foreign_keys index) (key_to_string t) = filter (\<lambda>y. con_kind y = ConstraintKind.ForeignKey
      \<and> con_referenced_table_key y = Some t) (snap_constraints s)"
    and "group_at (idi_indexes index) (key_to_string t) = filter (\<lambda>y. idx_table_key y = t) (snap_indexes s)"
proof -
  have none: "group_at (\<lambda>_. None) k = []" for k by (simp add: group_at_def)
  have some: "map_option key_to_string r = Some (key_to_string t) \<longleftrightarrow> r = Some t" for r by (cases r) (simp_all add: key_to_string_inject)
  note groups = index_def new_inventory_index_def Let_def case_prod_beta group_at_fold constraint_groups key_to_string_inject none some s_def[symmetric]
  show "group_at (idi_columns index) (key_to_string t) = filter (\<lambda>y. col_table_key y = t) (snap_columns s)"
    and "group_at (idi_inbound_foreign_keys index) (key_to_string t) = filter (\<lambda>y. con_kind y = ConstraintKind.ForeignKey
      \<and> con_referenced_table_key y = Some t) (snap_constraints s)"
    and "group_at (idi_indexes index) (key_to_string t) = filter (\<lambda>y. idx_table_key y = t) (snap_indexes s)"
    by (simp_all add: groups)
  have "group_at (idi_constraints index) (key_to_string t) = filter (\<lambda>y. con_table_key y = t) (snap_constraints s)"
    by (simp add: groups)
  then show "sort_key (\<lambda>y. key_to_string (con_key y)) (group_at (idi_constraints index) (key_to_string t)) = filter (\<lambda>y. con_table_key y = t) (snap_constraints s)"
    using normalized_sorted(3)[OF stored_schema(2)[OF assms(1)]] by (simp add: s_def sort_key_sorted_filter)
qed

lemma descriptions_agree:
  assumes "stored sj sk c store" and "readable_keys c" and "reads_payloads sj rd (can_schema (cert_snapshot c))"
    and "reads_certificate sj c" and "x \<in> set (snap_tables (can_schema (cert_snapshot c)))"
  defines "s \<equiv> can_schema (cert_snapshot c)"
  shows "describe_table rd sj sk (Some (key_to_string (tbl_key x))) None store =
    Ok (inventory_describe (new_inventory_index s) sk (key_to_string (tbl_key x)) x (capability_warnings (snap_capabilities s)))"
proof -
  note wf = stored_schema(1)[OF assms(1), folded s_def]
  let ?t = "tbl_key x" and ?columns = "sort_key col_ordinal_position (filter (\<lambda>y. col_table_key y = tbl_key x) (snap_columns s))"
  have t: "?t \<in> tbl_key ` set (snap_tables s)" using assms(5) by (simp add: s_def)
  have table: "ok_object_kind ?t = Table" "tbl_name x = ok_object_name ?t"
    using schema_key_kinds(3)[OF wf] schema_parts(1)[OF wf, of x] assms(5) by (auto simp: s_def wf_table_def identity_matches_def)
  have columns: "set ?columns = {y \<in> set (snap_columns s). col_table_key y = ?t}" by simp
  obtain node where node: "resolve_table_node sk (Some (key_to_string ?t)) None store = Ok node"
    "gn_node_key node = key_to_string ?t" "object_key_of node = Ok ?t"
    using resolve_table_stored[OF assms(1,2,5)] by blast
  have inbound: "inbound_constraints rd sk ?columns store =
      Ok (filter (\<lambda>y. con_kind y = ConstraintKind.ForeignKey \<and> con_referenced_table_key y = Some ?t) (snap_constraints s))"
    using inbound_constraints_read[OF assms(1,3), of ?columns, folded s_def] points_to_table[OF wf _ t columns]
    by (simp cong: filter_cong)
  obtain L where L: "table_dependents sk (key_to_string ?t) ?columns store = Ok (bt_values (fold merge_dependent L []))"
    "set L = dependent_facts s ?t"
    using table_dependents_read[OF assms(1,2) table(1) columns[unfolded s_def]] by (auto simp: s_def)
  obtain L' where L': "dependents_at (idi_dependents (new_inventory_index s)) (key_to_string ?t) = fold merge_dependent L' []"
    "set L' = dependent_facts s ?t"
    using inventory_dependents[OF wf table(1)] by blast
  have "fold merge_dependent L [] = fold merge_dependent L' []"
    by (rule merge_dependents_determined) (simp_all add: L(2) L'(2) facts_one_per_key[OF wf])
  then have dependents: "bt_values (fold merge_dependent L []) =
      (case idi_dependents (new_inventory_index s) (key_to_string ?t) of None \<Rightarrow> [] | Some items \<Rightarrow> bt_values items)"
    using L'(1) by (simp add: dependents_at_def bt_values_def split: option.splits)
  show ?thesis
    unfolding describe_table_def
    by (simp add: node parts_read[OF assms(1,3), folded s_def] inbound L(1) dependents stored_certificate(1)[OF assms(1,4), folded s_def]
        inventory_describe_def inventory_parts[OF assms(1,5), folded s_def] table(2) Let_def)
qed

section \<open>The sample store\<close>

text \<open>A printer that writes a column as its name, and readers that know the samples.\<close>

definition sample_column_serde :: serde where
  "sample_column_serde =
     (sample_serde sample_certified)
       \<lparr>to_value := (\<lambda>p. case p of PColumn x \<Rightarrow> JString (col_name x) | _ \<Rightarrow> JNull),
        to_text := (\<lambda>v. case v of JString t \<Rightarrow> t | _ \<Rightarrow> ''{}''),
        parse_capabilities := (\<lambda>_. Ok (snap_capabilities (can_schema (cert_snapshot sample_certified))))\<rparr>"

definition sample_readers :: readers where
  "sample_readers =
     \<lparr>rd_column = (\<lambda>t. Ok (if t = ''id'' then sample_column ''users'' ''id'' else sample_column ''orders'' ''user_id'')),
       rd_constraint = (\<lambda>_. Ok sample_foreign_key), rd_index = (\<lambda>_. Err ''no index'')\<rparr>"

definition sample_library :: cli_library where
  "sample_library = \<lparr>cl_readers = sample_readers, cl_snapshot = (\<lambda>_. Err ''no snapshot''), cl_pretty = (\<lambda>_. ''{}''), cl_lowercase = to_ascii_lowercase\<rparr>"

lemma sample_order: "key_to_string (sample_object_key Table ''orders'' None) < key_to_string (sample_object_key Table ''users'' None)"
  "key_to_string (sample_object_key Column ''orders'' (Some ''user_id'')) < key_to_string (sample_object_key Column ''users'' (Some ''id''))"
  "key_to_string (sample_object_key Table ''orders'' None) @ ''->'' @ key_to_string (sample_object_key Column ''orders'' (Some ''user_id''))
    \<noteq> key_to_string (sample_object_key Table ''users'' None) @ ''->'' @ key_to_string (sample_object_key Column ''users'' (Some ''id''))"
  by code_simp+

lemma sample_tables_differ: "sample_object_key Table ''orders'' None \<noteq> sample_object_key Table ''users'' None"
  by (simp add: sample_object_key_def)

lemma sample_normalized:
  "snap_tables (can_schema (cert_snapshot sample_certified)) = [sample_table ''orders'', sample_table ''users'']"
  "snap_columns (can_schema (cert_snapshot sample_certified)) = [sample_column ''orders'' ''user_id'', sample_column ''users'' ''id'']"
  "snap_constraints (can_schema (cert_snapshot sample_certified)) = [sample_foreign_key]"
  "snap_indexes (can_schema (cert_snapshot sample_certified)) = []" "snap_views (can_schema (cert_snapshot sample_certified)) = []"
  "snap_triggers (can_schema (cert_snapshot sample_certified)) = []" "snap_routines (can_schema (cert_snapshot sample_certified)) = []"
  "snap_schemas (can_schema (cert_snapshot sample_certified)) = snap_schemas (sample_schema [])"
  "md_objects (can_metadata (cert_snapshot sample_certified)) = []" "md_relationships (can_metadata (cert_snapshot sample_certified)) = []"
  using sample_order
  by (simp_all add: sample_certified_def sample_certificate_def certificate_for_def normalize_canonical_snapshot_def normalize_schema_def
      canonical_from_schema_def sample_full_schema_def sample_schema_def sample_table_def sample_column_def Let_def normalize_metadata_def default_metadata_def)

lemma sample_certified_projectable: "projectable sj sk sample_certified"
  using sample_order(3)
  by (auto simp: sample_tables_differ projectable_def edges_of_def projected_edges_def sample_normalized skipped_dependencies_def sorted_by_key_def
      sample_table_def sample_column_def sample_schema_def sample_foreign_key_def constraint_edges_def edge_record_def sorted_keys_def
      sorted_metadata_objects_def sample_order less_imp_le)

lemma sample_column_stored:
  "insert_certified_schema_snapshot_graph sample_column_serde ''k'' 0 sample_certified sample_store =
     (Ok (), sample_store\<lparr>cn_db := certified_into sample_column_serde ''k'' 0 sample_certified empty_db\<rparr>)"
proof -
  have "validate_persisted_snapshot_payload sample_column_serde (payload_json sample_column_serde (PCertified sample_certified)) = Ok ()"
    using sample_certified_complete
    by (simp add: validate_persisted_snapshot_payload_def snapshot_contract_version_def sample_column_serde_def sample_serde_def
        bt_get_def u32_MAX_def map_err_def verify_Ok_iff[THEN iffD2])
  from certified_quiet[OF sample_store_quiet sample_certified_complete this, of "''k''" 0] show ?thesis
    by (simp add: sample_certified_projectable sample_store_def sample_conn_def)
qed

lemma sample_columns_read:
  "readable_keys sample_certified" "reads_payloads sample_column_serde sample_readers (can_schema (cert_snapshot sample_certified))"
  "reads_certificate sample_column_serde sample_certified"
proof -
  have "canonical_keys (cert_snapshot sample_certified) =
      [sample_object_key Database ''main'' None, sample_object_key Schema ''main'' None,
       sample_object_key Table ''orders'' None, sample_object_key Table ''users'' None,
       sample_object_key Column ''orders'' (Some ''user_id''), sample_object_key Column ''users'' (Some ''id''),
       sample_object_key ObjectKind.ForeignKey ''orders'' (Some ''fk'')]"
    by (simp add: canonical_keys_def schema_keys_def sample_normalized)
      (simp add: sample_table_def sample_column_def sample_foreign_key_def sample_schema_def sample_certified_def sample_certificate_def
        certificate_for_def normalize_canonical_snapshot_def normalize_schema_def canonical_from_schema_def sample_full_schema_def Let_def)
  moreover have "list_all (\<lambda>k. parse_object_key (key_to_string k) = Ok k)
      [sample_object_key Database ''main'' None, sample_object_key Schema ''main'' None,
       sample_object_key Table ''orders'' None, sample_object_key Table ''users'' None,
       sample_object_key Column ''orders'' (Some ''user_id''), sample_object_key Column ''users'' (Some ''id''),
       sample_object_key ObjectKind.ForeignKey ''orders'' (Some ''fk'')]"
    by code_simp
  ultimately show "readable_keys sample_certified" by (simp add: readable_keys_def)
  show "reads_payloads sample_column_serde sample_readers (can_schema (cert_snapshot sample_certified))"
    by (simp add: reads_payloads_def sample_normalized sample_readers_def sample_column_serde_def node_payload_json_def sample_column_def
        Let_def split: option.split)
  show "reads_certificate sample_column_serde sample_certified"
    by (simp add: reads_certificate_def sample_column_serde_def sample_serde_def snapshot_contract_version_def bt_get_def u32_MAX_def map_err_def)
qed

section \<open>Properties\<close>

lemma json_members_get: "json_members members = JObject (fold (\<lambda>(n, v). bt_insert n v) members [])
    \<and> bt_get (fold (\<lambda>(n, v). bt_insert n v) members []) k = map_of (rev members) k"
  using bt.get_insert_all[of members "[]" k] by (simp add: json_members_def bt.insert_all_def bt.get_empty split: option.splits)

text \<open>C18: the inventory prints what describe-table shows. After a certified snapshot was stored, the page of the
  inventory that starts at an offset holds, for the tables of the snapshot in the order of their keys from that offset on,
  at most 5000 and at most the asked number, the description that describe-table reads from the graph for the
  key of the table: the same columns, constraints, foreign keys in both directions, indexes, dependent
  objects with their columns and warnings. More is announced exactly when tables are left.\<close>

theorem inventory_prints_descriptions:
  assumes "insert_certified_schema_snapshot_graph sj sk t c store = (Ok (), store')" and "conn_inv store" and "no_read_faults store'"
    and "readable_keys c" and "reads_payloads sj (cl_readers lib) (can_schema (cert_snapshot c))" and "reads_certificate sj c"
    and "length (snap_tables (can_schema (cert_snapshot c))) \<le> usize_MAX"
  shows "\<exists>members ds. render_inventory lib sj sk offset limit store' = Ok (json_line lib (JObject members))
    \<and> map (\<lambda>x. describe_table (cl_readers lib) sj sk (Some (key_to_string (tbl_key x))) None store')
        (take (min limit 5000) (drop offset (snap_tables (can_schema (cert_snapshot c))))) = map Ok ds
    \<and> bt_get members ''tables'' = Some (JArray (map table_description_json_value ds))
    \<and> bt_get members ''has_more'' = Some (JBool (offset + length ds < length (snap_tables (can_schema (cert_snapshot c)))))"
proof -
  let ?s = "can_schema (cert_snapshot c)"
  have stored: "stored sj sk c store'" by (rule stored_after_insert[OF assms(1-3)])
  let ?d = "\<lambda>x. inventory_describe (new_inventory_index ?s) sk (key_to_string (tbl_key x)) x (capability_warnings (snap_capabilities ?s))"
  let ?xs = "take (min limit 5000) (drop offset (snap_tables ?s))"
  have "sort_key fst (map (\<lambda>x. (key_to_string (tbl_key x), x)) (snap_tables ?s)) = map (\<lambda>x. (key_to_string (tbl_key x), x)) (snap_tables ?s)"
    using normalized_sorted(1)[OF stored_schema(2)[OF stored]] by (intro sort_key_id_if_sorted) (simp add: comp_def)
  then have page: "inventory_page sk offset (min limit 5000) ?s = map table_description_json_value (map ?d ?xs)"
    by (simp add: inventory_page_def Let_def take_map drop_map)
  have "describe_table (cl_readers lib) sj sk (Some (key_to_string (tbl_key x))) None store' = Ok (?d x)" if "x \<in> set ?xs" for x
    using descriptions_agree[OF stored assms(4-6)] that by (meson in_set_dropD in_set_takeD)
  then have shown: "map (\<lambda>x. describe_table (cl_readers lib) sj sk (Some (key_to_string (tbl_key x))) None store') ?xs = map Ok (map ?d ?xs)"
    by simp
  have rest: "saturating_add offset n < length (snap_tables ?s) \<longleftrightarrow> offset + n < length (snap_tables ?s)" for n
    using assms(7) by (auto simp: saturating_add_def)
  have "\<exists>ms. inventory_value sk offset limit ?s = json_members ms
      \<and> map_of (rev ms) ''tables'' = Some (JArray (map table_description_json_value (map ?d ?xs)))
      \<and> map_of (rev ms) ''has_more'' = Some (JBool (offset + length (map ?d ?xs) < length (snap_tables ?s)))"
    unfolding inventory_value_def inventory_bounds_def MAX_INVENTORY_TABLES_def Let_def prod.case page
    by (intro exI conjI, rule refl) (simp_all add: rest)
  then obtain ms where ms: "inventory_value sk offset limit ?s = json_members ms"
    "map_of (rev ms) ''tables'' = Some (JArray (map table_description_json_value (map ?d ?xs)))"
    "map_of (rev ms) ''has_more'' = Some (JBool (offset + length (map ?d ?xs) < length (snap_tables ?s)))" by blast
  show ?thesis
    by (intro exI[of _ "fold (\<lambda>(n, v). bt_insert n v) ms []"] exI[of _ "map ?d ?xs"] conjI)
      (simp_all only: render_inventory_def stored_certificate(2)[OF stored assms(6)] try_with_simps ms json_members_get shown)
qed

theorem inventory_prints_descriptions_witness:
  "\<exists>store' members d1 d2. insert_certified_schema_snapshot_graph sample_column_serde ''k'' 0 sample_certified sample_store = (Ok (), store')
    \<and> render_inventory sample_library sample_column_serde ''k'' 0 10 store' = Ok (json_line sample_library (JObject members))
    \<and> describe_table sample_readers sample_column_serde ''k'' (Some (key_to_string (tbl_key (sample_table ''orders'')))) None store' = Ok d1
    \<and> describe_table sample_readers sample_column_serde ''k'' (Some (key_to_string (tbl_key (sample_table ''users'')))) None store' = Ok d2
    \<and> bt_get members ''tables'' = Some (JArray [table_description_json_value d1, table_description_json_value d2])
    \<and> bt_get members ''has_more'' = Some (JBool False)"
proof -
  let ?store = "sample_store\<lparr>cn_db := certified_into sample_column_serde ''k'' 0 sample_certified empty_db\<rparr>"
  have lib: "cl_readers sample_library = sample_readers" by (simp add: sample_library_def)
  have "conn_inv sample_store" using sample_store_quiet by (simp add: quiet_def)
  moreover have "no_read_faults ?store" by (simp add: no_read_faults_def sample_store_def sample_conn_def)
  moreover have "length (snap_tables (can_schema (cert_snapshot sample_certified))) \<le> usize_MAX" by (simp add: sample_normalized usize_MAX_def)
  moreover have "reads_payloads sample_column_serde (cl_readers sample_library) (can_schema (cert_snapshot sample_certified))"
    using sample_columns_read(2) by (simp add: lib)
  ultimately obtain members ds where
    run: "render_inventory sample_library sample_column_serde ''k'' 0 10 ?store = Ok (json_line sample_library (JObject members))"
    and ds: "map (\<lambda>x. describe_table (cl_readers sample_library) sample_column_serde ''k'' (Some (key_to_string (tbl_key x))) None ?store)
        (take (min 10 5000) (drop 0 (snap_tables (can_schema (cert_snapshot sample_certified))))) = map Ok ds"
    and tables: "bt_get members ''tables'' = Some (JArray (map table_description_json_value ds))"
    and rest: "bt_get members ''has_more'' = Some (JBool (0 + length ds < length (snap_tables (can_schema (cert_snapshot sample_certified)))))"
    using inventory_prints_descriptions[OF sample_column_stored _ _ sample_columns_read(1) _ sample_columns_read(3), of sample_library 0 10] by blast
  obtain d1 d2 where "ds = [d1, d2]"
    "describe_table sample_readers sample_column_serde ''k'' (Some (key_to_string (tbl_key (sample_table ''orders'')))) None ?store = Ok d1"
    "describe_table sample_readers sample_column_serde ''k'' (Some (key_to_string (tbl_key (sample_table ''users'')))) None ?store = Ok d2"
    using ds by (auto simp: sample_normalized lib Cons_eq_map_conv)
  with run tables rest sample_column_stored show ?thesis
    by (intro exI[of _ ?store] exI[of _ members] exI[of _ d1] exI[of _ d2]) (simp add: sample_normalized)
qed

end
