(* ===== verification/Graph_Query.thy ===== *)
theory Graph_Query
  imports Impact_Analysis
begin

text \<open>
  \<open>graph_query.rs\<close>: the combined query for nodes, edges of one type and a bounded traversal, with the
  limits on the number of results and on the depth. The Unicode table of \<open>str::to_lowercase\<close> is the
  parameter \<open>lower\<close>, the JSON reader the parameter \<open>sj\<close>.
\<close>

section \<open>Types\<close>

definition GRAPH_QUERY_MAX_LIMIT :: nat where "GRAPH_QUERY_MAX_LIMIT = 500"
definition GRAPH_QUERY_MAX_DEPTH :: nat where "GRAPH_QUERY_MAX_DEPTH = 8"

record PayloadArrayMinLen =
  pam_field :: string
  pam_min_len :: nat

record GraphQueryTraversal =
  gqt_start_node_key :: string
  gqt_direction :: Direction
  gqt_max_depth :: nat

record GraphQuery =
  gq_snapshot_key :: string
  gq_node_label :: "string option"
  gq_node_key_contains :: "string option"
  gq_name_contains :: "string option"
  gq_edge_type :: "string option"
  gq_payload_array_min_len :: "PayloadArrayMinLen option"
  gq_traversal :: "GraphQueryTraversal option"
  gq_limit :: nat

record GraphQueryNode =
  gqn_node_key :: string
  gqn_label :: string
  gqn_display_name :: "string option"
  gqn_payload :: json

record GraphQueryEdge =
  gqe_edge_key :: string
  gqe_edge_from :: string
  gqe_edge_to :: string
  gqe_edge_type :: string
  gqe_payload :: json

record GraphQueryTraversalHit =
  gqh_node_key :: string
  gqh_label :: string
  gqh_display_name :: "string option"
  gqh_depth :: nat
  gqh_edge_key :: string
  gqh_edge_type :: string

record GraphQueryResult =
  gqr_snapshot_key :: string
  gqr_limit_requested :: nat
  gqr_limit_applied :: nat
  gqr_limit_clamped :: bool
  gqr_max_depth_requested :: "nat option"
  gqr_max_depth_applied :: "nat option"
  gqr_max_depth_clamped :: bool
  gqr_result_count :: nat
  gqr_truncated :: bool
  gqr_nodes :: "GraphQueryNode list"
  gqr_edges :: "GraphQueryEdge list"
  gqr_traversal :: "GraphQueryTraversalHit list"

record BoundedTraversal =
  btv_hits :: "GraphQueryTraversalHit list"
  btv_truncated :: bool

section \<open>Nodes and edges\<close>

definition contains_ignore_case :: "(string \<Rightarrow> string) \<Rightarrow> string \<Rightarrow> string \<Rightarrow> bool" where
  "contains_ignore_case lower text needle = contains_str (lower text) (lower needle)"

definition payload_array_len_at_least :: "serde \<Rightarrow> string \<Rightarrow> PayloadArrayMinLen \<Rightarrow> bool" where
  "payload_array_len_at_least sj payload_json f =
     (case parse_value sj payload_json of
        Inr (JObject members) \<Rightarrow>
          (case bt_get members (pam_field f) of
             Some (JArray items) \<Rightarrow> length items \<ge> pam_min_len f
           | _ \<Rightarrow> False)
      | _ \<Rightarrow> False)"

definition parse_or_null :: "serde \<Rightarrow> string \<Rightarrow> json" where
  "parse_or_null sj payload_json = (case parse_value sj payload_json of Inl _ \<Rightarrow> JNull | Inr v \<Rightarrow> v)"

definition query_node :: "serde \<Rightarrow> GraphNodeRecord \<Rightarrow> GraphQueryNode" where
  "query_node sj node =
     \<lparr>gqn_node_key = gn_node_key node, gqn_label = gn_label node,
       gqn_display_name = gn_display_name node, gqn_payload = parse_or_null sj (gn_payload_json node)\<rparr>"

definition query_edge :: "serde \<Rightarrow> GraphEdgeRecord \<Rightarrow> GraphQueryEdge" where
  "query_edge sj edge =
     \<lparr>gqe_edge_key = ge_edge_key edge, gqe_edge_from = ge_edge_from edge,
       gqe_edge_to = ge_edge_to edge, gqe_edge_type = ge_edge_type edge,
       gqe_payload = parse_or_null sj (ge_payload_json edge)\<rparr>"

definition wants_nodes :: "GraphQuery \<Rightarrow> bool" where
  "wants_nodes query =
     (gq_node_label query \<noteq> None \<or> gq_node_key_contains query \<noteq> None \<or> gq_name_contains query \<noteq> None
      \<or> gq_payload_array_min_len query \<noteq> None \<or> gq_edge_type query = None \<and> gq_traversal query = None)"

definition node_matches :: "serde \<Rightarrow> (string \<Rightarrow> string) \<Rightarrow> GraphNodeRecord \<Rightarrow> GraphQuery \<Rightarrow> bool" where
  "node_matches sj lower node query =
     ((case gq_node_key_contains query of
         None \<Rightarrow> True | Some needle \<Rightarrow> contains_ignore_case lower (gn_node_key node) needle)
      \<and> (case gq_name_contains query of
           None \<Rightarrow> True
         | Some needle \<Rightarrow>
             (case gn_display_name node of
                None \<Rightarrow> False | Some name \<Rightarrow> contains_ignore_case lower name needle))
      \<and> (case gq_payload_array_min_len query of
           None \<Rightarrow> True | Some f \<Rightarrow> payload_array_len_at_least sj (gn_payload_json node) f))"

definition matching_nodes ::
  "serde \<Rightarrow> (string \<Rightarrow> string) \<Rightarrow> GraphQuery \<Rightarrow> Connection \<Rightarrow> (GraphStoreError, GraphNodeRecord list) result" where
  "matching_nodes sj lower query store =
     try_with
       (case gq_node_label query of
          Some label \<Rightarrow> nodes_by_label (gq_snapshot_key query) label store
        | None \<Rightarrow> nodes_for_snapshot (gq_snapshot_key query) store)
       (\<lambda>nodes. Ok (filter (\<lambda>node. node_matches sj lower node query) nodes))"

section \<open>The traversal\<close>

definition next_query_edges_bounded ::
  "string \<Rightarrow> string \<Rightarrow> Direction \<Rightarrow> string option \<Rightarrow> nat \<Rightarrow> Connection
    \<Rightarrow> (GraphStoreError, next_edge list \<times> bool) result" where
  "next_query_edges_bounded snapshot_key node_key direction edge_type max_edges store =
     (case edge_type of
        None \<Rightarrow> next_edges_bounded snapshot_key node_key direction max_edges store
      | Some edge_type \<Rightarrow>
          (let fetch_limit = saturating_add max_edges 1 in
           try_with (fetch_if (direction \<in> {Outbound, Both})
             (edges_from_by_type_limited snapshot_key node_key edge_type fetch_limit store)) (\<lambda>out.
           try_with (fetch_if (direction \<in> {Inbound, Both})
             (edges_to_by_type_limited snapshot_key node_key edge_type fetch_limit store)) (\<lambda>inb.
             Ok (merge_bounded_edges (map outbound out @ map inbound inb) max_edges
                   (length out > max_edges \<or> length inb > max_edges))))))"

definition traversal_hit :: "GraphEdgeRecord \<Rightarrow> string \<Rightarrow> GraphNodeRecord \<Rightarrow> nat \<Rightarrow> GraphQueryTraversalHit" where
  "traversal_hit edge next_key node next_depth =
     \<lparr>gqh_node_key = next_key, gqh_label = gn_label node, gqh_display_name = gn_display_name node,
       gqh_depth = next_depth, gqh_edge_key = ge_edge_key edge, gqh_edge_type = ge_edge_type edge\<rparr>"

type_synonym query_state = "string set \<times> (string \<times> nat) list \<times> GraphQueryTraversalHit list"

fun query_visit ::
  "string \<Rightarrow> Connection \<Rightarrow> nat \<Rightarrow> nat \<Rightarrow> next_edge list \<Rightarrow> query_state \<Rightarrow> (GraphStoreError, query_state) result" where
  "query_visit snapshot_key store max_depth depth [] st = Ok st"
| "query_visit snapshot_key store max_depth depth ((edge, next_key) # edges) (visited, queue, hits) =
     (if next_key \<in> visited then query_visit snapshot_key store max_depth depth edges (visited, queue, hits)
      else
        try_with (get_node snapshot_key next_key store) (\<lambda>found.
          case found of
            None \<Rightarrow> query_visit snapshot_key store max_depth depth edges (insert next_key visited, queue, hits)
          | Some node \<Rightarrow>
              query_visit snapshot_key store max_depth depth edges
                (insert next_key visited,
                 if depth + 1 < max_depth then queue @ [(next_key, depth + 1)] else queue,
                 hits @ [traversal_hit edge next_key node (depth + 1)])))"

abbreviation found_hits :: "nat \<Rightarrow> (GraphEdgeRecord \<times> string \<times> GraphNodeRecord) list \<Rightarrow> GraphQueryTraversalHit list" where
  "found_hits d found \<equiv> map (\<lambda>(e, k, n). traversal_hit e k n d) found"

lemma query_visit_Ok:
  assumes "query_visit sk store md depth es (V, Q, hs) = Ok st"
  shows "let N = discover (node_at (cn_db store) sk) V es
    in st = (V \<union> snd ` set es,
             Q @ (if Suc depth < md then map (\<lambda>x. (x, Suc depth)) (found_keys N) else []),
             hs @ found_hits (Suc depth) N)"
  using assms
proof (induction sk store md depth es "(V, Q, hs)" arbitrary: V Q hs rule: query_visit.induct)
  case (2 sk store md depth e k es V Q hs)
  show ?case
  proof (cases "k \<in> V")
    case True
    then show ?thesis using 2(1)[OF True] 2(4) by (simp add: Let_def insert_absorb)
  next
    case False
    then obtain found where get: "get_node sk k store = Ok found"
      using 2(4) by (auto simp: try_with_Ok_iff)
    have found: "node_at (cn_db store) sk k = found" using get_node_node_at[OF get] by simp
    show ?thesis
    proof (cases found)
      case None
      then show ?thesis using 2(2)[OF False] 2(4) False get found by (simp add: Let_def)
    next
      case (Some n)
      then show ?thesis using 2(3)[OF False, of n] 2(4) False get found by (simp add: Let_def)
    qed
  qed
qed simp

lemma query_visit_answers:
  "no_read_faults store \<Longrightarrow> \<exists>st'. query_visit sk store md depth es st = Ok st'"
  by (induction sk store md depth es st rule: query_visit.induct)
    (auto simp: get_node_answers split: option.splits)

lemma query_visit_measure:
  assumes "query_visit sk store md depth es (V, Q, hs) = Ok (V', Q', hs')"
  shows "card ({k. node_at (cn_db store) sk k \<noteq> None} - V') + length Q'
    \<le> card ({k. node_at (cn_db store) sk k \<noteq> None} - V) + length Q"
  using query_visit_Ok[OF assms] discover_measure[OF stored_keys_finite, of "cn_db store" sk V es]
  by (simp add: Let_def split: if_splits)

function traversal_loop ::
  "string \<Rightarrow> Connection \<Rightarrow> Direction \<Rightarrow> string option \<Rightarrow> nat \<Rightarrow> nat \<Rightarrow> query_state \<Rightarrow> bool
    \<Rightarrow> (GraphStoreError, BoundedTraversal) result" where
  "traversal_loop snapshot_key store direction edge_type max_depth limit (visited, [], hits) truncated =
     Ok \<lparr>btv_hits = hits, btv_truncated = truncated\<rparr>"
| "traversal_loop snapshot_key store direction edge_type max_depth limit
     (visited, (node_key, depth) # queue, hits) truncated =
     (if depth = max_depth
      then traversal_loop snapshot_key store direction edge_type max_depth limit (visited, queue, hits) truncated
      else if length hits = limit then Ok \<lparr>btv_hits = hits, btv_truncated = True\<rparr>
      else case next_query_edges_bounded snapshot_key node_key direction edge_type (limit - length hits) store of
        Inl err \<Rightarrow> Err err
      | Inr (edges, has_more_edges) \<Rightarrow>
          (let truncated = (truncated \<or> has_more_edges)
           in case query_visit snapshot_key store max_depth depth edges (visited, queue, hits) of
                Inl err \<Rightarrow> Err err
              | Inr (visited, queue, hits) \<Rightarrow>
                  if has_more_edges then Ok \<lparr>btv_hits = hits, btv_truncated = truncated\<rparr>
                  else traversal_loop snapshot_key store direction edge_type max_depth limit
                    (visited, queue, hits) truncated))"
  by pat_completeness auto

termination
  by (relation "measure (\<lambda>(sk, store, _, _, _, _, (visited, queue, _), _).
      card ({k. node_at (cn_db store) sk k \<noteq> None} - visited) + length queue)")
    (auto dest!: query_visit_measure)

definition bounded_traversal ::
  "GraphQuery \<Rightarrow> GraphQueryTraversal \<Rightarrow> nat \<Rightarrow> nat \<Rightarrow> Connection
    \<Rightarrow> (GraphStoreError, BoundedTraversal) result" where
  "bounded_traversal query traversal max_depth limit store =
     (if max_depth = 0 then Ok \<lparr>btv_hits = [], btv_truncated = False\<rparr>
      else
        try_with (get_node (gq_snapshot_key query) (gqt_start_node_key traversal) store) (\<lambda>found.
          case found of
            None \<Rightarrow> Ok \<lparr>btv_hits = [], btv_truncated = False\<rparr>
          | Some _ \<Rightarrow>
              traversal_loop (gq_snapshot_key query) store (gqt_direction traversal) (gq_edge_type query)
                max_depth limit
                ({gqt_start_node_key traversal}, [(gqt_start_node_key traversal, 0)], []) False))"

section \<open>The query\<close>

definition node_part ::
  "serde \<Rightarrow> (string \<Rightarrow> string) \<Rightarrow> GraphQuery \<Rightarrow> nat \<Rightarrow> Connection
    \<Rightarrow> (GraphStoreError, GraphQueryNode list \<times> bool) result" where
  "node_part sj lower query remaining store =
     (if wants_nodes query then
        try_with (matching_nodes sj lower query store) (\<lambda>matches.
          Ok (map (query_node sj) (take remaining matches), length matches > remaining))
      else Ok ([], False))"

definition edge_part ::
  "serde \<Rightarrow> GraphQuery \<Rightarrow> nat \<Rightarrow> Connection \<Rightarrow> (GraphStoreError, GraphQueryEdge list \<times> bool) result" where
  "edge_part sj query remaining store =
     (case (gq_traversal query, gq_edge_type query) of
        (None, Some edge_type) \<Rightarrow>
          try_with (edges_by_type_limited (gq_snapshot_key query) edge_type (saturating_add remaining 1) store)
            (\<lambda>matches. Ok (map (query_edge sj) (take remaining matches), length matches > remaining))
      | _ \<Rightarrow> Ok ([], False))"

definition traversal_part ::
  "GraphQuery \<Rightarrow> nat \<Rightarrow> Connection \<Rightarrow> (GraphStoreError, BoundedTraversal) result" where
  "traversal_part query remaining store =
     (case gq_traversal query of
        None \<Rightarrow> Ok \<lparr>btv_hits = [], btv_truncated = False\<rparr>
      | Some traversal \<Rightarrow>
          bounded_traversal query traversal (min (gqt_max_depth traversal) GRAPH_QUERY_MAX_DEPTH) remaining store)"

definition query_graph ::
  "serde \<Rightarrow> (string \<Rightarrow> string) \<Rightarrow> GraphQuery \<Rightarrow> Connection \<Rightarrow> (GraphStoreError, GraphQueryResult) result" where
  "query_graph sj lower query store =
     (let limit_applied = min (gq_limit query) GRAPH_QUERY_MAX_LIMIT;
          max_depth_requested = map_option gqt_max_depth (gq_traversal query);
          max_depth_applied = map_option (\<lambda>t. min (gqt_max_depth t) GRAPH_QUERY_MAX_DEPTH) (gq_traversal query)
      in try_with (node_part sj lower query limit_applied store) (\<lambda>(nodes, nodes_truncated).
         (let remaining = limit_applied - length nodes
          in try_with (edge_part sj query remaining store) (\<lambda>(edges, edges_truncated).
             (let remaining = remaining - length edges
              in try_with (traversal_part query remaining store) (\<lambda>bounded.
                 Ok \<lparr>gqr_snapshot_key = gq_snapshot_key query,
                      gqr_limit_requested = gq_limit query,
                      gqr_limit_applied = limit_applied,
                      gqr_limit_clamped = (gq_limit query \<noteq> limit_applied),
                      gqr_max_depth_requested = max_depth_requested,
                      gqr_max_depth_applied = max_depth_applied,
                      gqr_max_depth_clamped = (max_depth_requested \<noteq> max_depth_applied),
                      gqr_result_count = length nodes + length edges + length (btv_hits bounded),
                      gqr_truncated = (nodes_truncated \<or> edges_truncated \<or> btv_truncated bounded),
                      gqr_nodes = nodes, gqr_edges = edges, gqr_traversal = btv_hits bounded\<rparr>))))))"

section \<open>The edges of a query as a bounded source\<close>

definition incident_of :: "string option \<Rightarrow> Direction \<Rightarrow> GraphDb \<Rightarrow> string \<Rightarrow> string \<Rightarrow> next_edge \<Rightarrow> bool" where
  "incident_of edge_type direction db sk k x =
     (incident direction db sk k x \<and> (edge_type = None \<or> edge_type = Some (ge_edge_type (fst x))))"

abbreviation typed_rows :: "Direction set \<Rightarrow> (GraphEdgeRecord \<Rightarrow> string) \<Rightarrow> string \<Rightarrow> Direction \<Rightarrow> string \<Rightarrow> string
    \<Rightarrow> GraphDb \<Rightarrow> GraphEdgeRecord list" where
  "typed_rows sides end t direction sk k \<equiv>
     side_rows ge_edge_key (direction \<in> sides) (\<lambda>x. ge_snapshot_key x = sk \<and> end x = k \<and> ge_edge_type x = t)"

lemma next_query_edges_Ok:
  assumes "next_query_edges_bounded sk k direction (Some t) b store = Ok (es, partial)"
  shows "fetch_both (typed_rows {Outbound, Both} ge_edge_from t direction sk k (cn_db store))
      (typed_rows {Inbound, Both} ge_edge_to t direction sk k (cn_db store)) b = (es, partial)"
  using assms
  by (auto simp: next_query_edges_bounded_def fetch_if_def side_rows_def edges_from_by_type_limited_def
      edges_to_by_type_limited_def read_with_def try_with_Ok_iff fetch_both_def Let_def split: option.splits if_splits)

lemma incident_of_sides:
  "{x. incident_of (Some t) direction db sk k x} =
     outbound ` set (typed_rows {Outbound, Both} ge_edge_from t direction sk k db)
     \<union> inbound ` set (typed_rows {Inbound, Both} ge_edge_to t direction sk k db)"
  by (auto simp: incident_of_def incident_def outbound_def inbound_def)

lemma next_query_edges_answers:
  "no_read_faults store \<Longrightarrow> \<exists>es partial. next_query_edges_bounded sk k direction edge_type b store = Ok (es, partial)"
  using next_edges_bounded_answers[of store sk k direction b]
  by (auto simp: no_read_faults_def next_query_edges_bounded_def fetch_if_def edges_from_by_type_limited_def
      edges_to_by_type_limited_def read_with_def Let_def split: option.splits)

interpretation query_near: bounded_edges "\<lambda>sk k. next_query_edges_bounded sk k direction edge_type"
  "incident_of edge_type direction" for direction edge_type
proof
  fix sk k b store es partial and x :: next_edge
  assume near: "next_query_edges_bounded sk k direction edge_type b store = Ok (es, partial)"
  have plain: "next_edges_bounded sk k direction b store = Ok (es, partial)" if "edge_type = None"
    using near that by (simp add: next_query_edges_bounded_def)
  show "length es \<le> b" if "b \<noteq> usize_MAX"
  proof (cases edge_type)
    case None
    show ?thesis by (rule near.within_budget[OF plain[OF None] that])
  next
    case (Some t)
    show ?thesis by (rule fetch_both_facts(1)[OF next_query_edges_Ok[OF near[unfolded Some]]])
  qed
  show "incident_of edge_type direction (cn_db store) sk k x" if "x \<in> set es"
  proof (cases edge_type)
    case None
    then show ?thesis using near.only_admitted[OF plain[OF None] that] by (simp add: incident_of_def)
  next
    case (Some t)
    then show ?thesis
      using fetch_both_facts(2)[OF next_query_edges_Ok[OF near[unfolded Some]]] that
        incident_of_sides[of t direction "cn_db store" sk k] by blast
  qed
next
  fix sk k b store es and x :: next_edge
  assume near: "next_query_edges_bounded sk k direction edge_type b store = Ok (es, False)"
    and db: "searchable (cn_db store)" and x: "incident_of edge_type direction (cn_db store) sk k x"
  show "x \<in> set es"
  proof (cases edge_type)
    case None
    then have "next_edges_bounded sk k direction b store = Ok (es, False)"
      using near by (simp add: next_query_edges_bounded_def)
    from near.all_admitted[OF this db] x show ?thesis by (simp add: incident_of_def)
  next
    case (Some t)
    have "inj_on (\<lambda>e. ge_edge_key (fst e)) {x. incident_of (Some t) direction (cn_db store) sk k x}"
      by (rule inj_on_subset[OF incident_key_inj]) (use db in \<open>auto simp: searchable_def incident_of_def\<close>)
    then have "set es = {x. incident_of (Some t) direction (cn_db store) sk k x}"
      unfolding incident_of_sides
      using fetch_both_facts(3)[OF next_query_edges_Ok[OF near[unfolded Some]]] db
      by (simp add: searchable_def le_trans[OF side_rows_facts(2)] del: side_rows_facts(1))
    then show ?thesis using x Some by blast
  qed
qed (rule next_query_edges_answers)

section \<open>The traversal is a breadth-first search\<close>

abbreviation known_hits :: "string \<Rightarrow> GraphQueryTraversalHit list \<Rightarrow> (string \<times> nat) list" where
  "known_hits start hits \<equiv> (start, 0) # map (\<lambda>h. (gqh_node_key h, gqh_depth h)) hits"

text \<open>A hit carries the stored label and name and an edge that leads to it.\<close>

definition hit_explained :: "string option \<Rightarrow> Direction \<Rightarrow> GraphDb \<Rightarrow> string \<Rightarrow> GraphQueryTraversalHit \<Rightarrow> bool" where
  "hit_explained edge_type direction db sk h =
     (\<exists>e n k d. h = traversal_hit e (gqh_node_key h) n (Suc d) \<and> node_at db sk (gqh_node_key h) = Some n
        \<and> incident_of edge_type direction db sk k (e, gqh_node_key h))"

lemma hit_depth: "hit_explained edge_type direction db sk h \<Longrightarrow> 0 < gqh_depth h"
  unfolding hit_explained_def traversal_hit_def
  by (metis GraphQueryTraversalHit.select_convs(4) zero_less_Suc)

definition query_inv ::
  "string option \<Rightarrow> Direction \<Rightarrow> GraphDb \<Rightarrow> string \<Rightarrow> string \<Rightarrow> nat \<Rightarrow> query_state \<Rightarrow> bool" where
  "query_inv edge_type direction db sk start bound = (\<lambda>(V, Q, hs).
     bfs_inv (adjacent (incident_of edge_type direction) db sk) start bound (known_hits start hs) Q
     \<and> V \<inter> {x. node_at db sk x \<noteq> None} = fst ` set (known_hits start hs)
     \<and> (\<forall>h\<in>set hs. hit_explained edge_type direction db sk h))"

lemma query_expansion:
  assumes near: "next_query_edges_bounded sk k direction edge_type b store = Ok (es, partial)"
    and visit: "query_visit sk store bound d es (V, Q, hs) = Ok (V', Q', hs')"
    and db: "searchable (cn_db store)" and d: "d < bound"
    and inv: "query_inv edge_type direction (cn_db store) sk start bound (V, (k, d) # Q, hs)"
  shows query_expansion_sound:
      "bfs_sound (adjacent (incident_of edge_type direction) (cn_db store) sk) start bound (known_hits start hs')"
    and query_expansion_explained: "\<forall>h\<in>set hs'. hit_explained edge_type direction (cn_db store) sk h"
    and query_expansion_inv: "\<not> partial \<Longrightarrow> query_inv edge_type direction (cn_db store) sk start bound (V', Q', hs')"
proof -
  let ?N = "discover (node_at (cn_db store) sk) V es"
  let ?P = "if Suc d < bound then map (\<lambda>x. (x, Suc d)) (found_keys ?N) else []"
  note inv' = inv[unfolded query_inv_def prod.case]
  note exp = query_near.expansion[OF near db inv'[THEN conjunct1] d inv'[THEN conjunct2, THEN conjunct1]]
  have st: "V' = V \<union> snd ` set es" "Q' = Q @ ?P" "hs' = hs @ found_hits (Suc d) ?N"
    using query_visit_Ok[OF visit] by (simp_all add: Let_def)
  have known: "known_hits start hs' = known_hits start hs @ map (\<lambda>x. (x, Suc d)) (found_keys ?N)"
    by (simp add: st(3) traversal_hit_def split_def comp_def)
  show "bfs_sound (adjacent (incident_of edge_type direction) (cn_db store) sk) start bound (known_hits start hs')"
    unfolding known by (rule exp(1))
  have "hit_explained edge_type direction (cn_db store) sk (traversal_hit e x n (Suc d))" if "(e, x, n) \<in> set ?N" for e x n
    using exp(4)[OF that] by (auto simp: hit_explained_def traversal_hit_def)
  then show ex: "\<forall>h\<in>set hs'. hit_explained edge_type direction (cn_db store) sk h"
    using inv' by (auto simp: st(3))
  have push: "?P = map (\<lambda>x. (x, Suc d)) (found_keys ?N) \<or> Suc d = bound \<and> ?P = []" using d by auto
  show "query_inv edge_type direction (cn_db store) sk start bound (V', Q', hs')" if "\<not> partial"
    using exp(2)[OF that push] exp(3) ex unfolding query_inv_def prod.case known st(1,2) by blast
qed

lemma traversal_loop_step:
  assumes "traversal_loop sk store direction et md limit (V, (k, d) # Q, hs) tr = Ok r" and "d \<noteq> md" "length hs \<noteq> limit"
  obtains es partial V' Q' hs' where
    "next_query_edges_bounded sk k direction et (limit - length hs) store = Ok (es, partial)"
    "query_visit sk store md d es (V, Q, hs) = Ok (V', Q', hs')"
    "partial \<Longrightarrow> r = \<lparr>btv_hits = hs', btv_truncated = True\<rparr>"
    "\<not> partial \<Longrightarrow> traversal_loop sk store direction et md limit (V', Q', hs') tr = Ok r"
  using assms by (auto simp: Let_def split: sum.splits if_splits)

lemma traversal_loop_Ok:
  assumes "traversal_loop sk store direction et md limit st tr = Ok r"
    and "searchable (cn_db store)" and "query_inv et direction (cn_db store) sk start md st"
  shows "bfs_sound (adjacent (incident_of et direction) (cn_db store) sk) start md (known_hits start (btv_hits r))
    \<and> (\<forall>h\<in>set (btv_hits r). hit_explained et direction (cn_db store) sk h)
    \<and> (\<not> btv_truncated r \<longrightarrow>
         bfs_inv (adjacent (incident_of et direction) (cn_db store) sk) start md (known_hits start (btv_hits r)) [])"
  using assms
proof (induction sk store direction et md limit st tr rule: traversal_loop.induct)
  case (2 sk store direction et md limit V k d Q hs tr)
  show ?case
  proof (cases "d = md")
    case True
    then have "query_inv et direction (cn_db store) sk start md (V, Q, hs)"
      using 2(5) bfs_skip by (fastforce simp: query_inv_def)
    then show ?thesis using 2(1)[OF True] 2(3,4) True by simp
  next
    case False
    show ?thesis
    proof (cases "length hs = limit")
      case True
      then show ?thesis using 2(3,5) False by (auto simp: query_inv_def bfs_inv_def)
    next
      case open_: False
      have d: "d < md" using 2(5) False by (fastforce simp: query_inv_def bfs_inv_def bfs_sound_def)
      from 2(3) False open_ obtain es partial V' Q' hs' where
        near: "next_query_edges_bounded sk k direction et (limit - length hs) store = Ok (es, partial)"
        and visit: "query_visit sk store md d es (V, Q, hs) = Ok (V', Q', hs')"
        and last: "partial \<Longrightarrow> r = \<lparr>btv_hits = hs', btv_truncated = True\<rparr>"
        and go: "\<not> partial \<Longrightarrow> traversal_loop sk store direction et md limit (V', Q', hs') tr = Ok r"
        by (rule traversal_loop_step) blast
      note exp = query_expansion[OF near visit 2(4) d 2(5)]
      show ?thesis
      proof (cases partial)
        case True
        then show ?thesis using last exp(1,2) by simp
      next
        case no: False
        show ?thesis
          using 2(2)[OF False open_ near refl refl visit refl refl] no go exp(3) 2(4) by simp
      qed
    qed
  qed
qed (auto simp: query_inv_def bfs_inv_def)

lemma query_visit_length:
  assumes "query_visit sk store md d es (V, Q, hs) = Ok (V', Q', hs')"
  shows "length hs' \<le> length hs + length es"
  using query_visit_Ok[OF assms] discover_length[of "node_at (cn_db store) sk" V es] by (simp add: Let_def)

lemma traversal_loop_length:
  assumes "traversal_loop sk store direction et md limit st tr = Ok r"
    and "length (snd (snd st)) \<le> limit" and "limit < usize_MAX"
  shows "length (btv_hits r) \<le> limit"
  using assms
proof (induction sk store direction et md limit st tr rule: traversal_loop.induct)
  case (2 sk store direction et md limit V k d Q hs tr)
  show ?case
  proof (cases "d = md \<or> length hs = limit")
    case True
    then show ?thesis using 2(1,3-5) by (cases "d = md") auto
  next
    case False
    from 2(3) False obtain es partial V' Q' hs' where
      near: "next_query_edges_bounded sk k direction et (limit - length hs) store = Ok (es, partial)"
      and visit: "query_visit sk store md d es (V, Q, hs) = Ok (V', Q', hs')"
      and last: "partial \<Longrightarrow> r = \<lparr>btv_hits = hs', btv_truncated = True\<rparr>"
      and go: "\<not> partial \<Longrightarrow> traversal_loop sk store direction et md limit (V', Q', hs') tr = Ok r"
      by (elim traversal_loop_step[where hs = hs]) blast+
    have "length es \<le> limit - length hs"
      using query_near.within_budget[OF near] 2(5) by (simp add: less_imp_diff_less less_imp_neq)
    then have len: "length hs' \<le> limit" using query_visit_length[OF visit] 2(4) by simp
    show ?thesis
      using 2(2)[OF _ _ near refl refl visit refl refl] False go last len 2(5) by (cases partial) simp_all
  qed
qed auto

lemma traversal_loop_answers:
  assumes "no_read_faults store"
  shows "\<exists>r. traversal_loop sk store direction et md limit st tr = Ok r"
  using assms
proof (induction sk store direction et md limit st tr rule: traversal_loop.induct)
  case (2 sk store direction et md limit V k d Q hs tr)
  obtain es partial where near: "next_query_edges_bounded sk k direction et (limit - length hs) store = Ok (es, partial)"
    using next_query_edges_answers[OF 2(3)] by blast
  obtain V' Q' hs' where visit: "query_visit sk store md d es (V, Q, hs) = Ok (V', Q', hs')"
    using query_visit_answers[OF 2(3), of sk md d es "(V, Q, hs)"] by auto
  show ?case
    using 2(1)[OF _ 2(3)] 2(2)[OF _ _ near refl refl visit refl refl _ 2(3)]
    by (auto simp: near visit Let_def)
qed simp

section \<open>The whole query\<close>

lemma bounded_traversal_Ok:
  assumes "bounded_traversal q t md limit store = Ok r" and "0 < md"
    and "node_at (cn_db store) (gq_snapshot_key q) (gqt_start_node_key t) \<noteq> None"
  shows "traversal_loop (gq_snapshot_key q) store (gqt_direction t) (gq_edge_type q) md limit
    ({gqt_start_node_key t}, [(gqt_start_node_key t, 0)], []) False = Ok r"
proof -
  obtain n where "get_node (gq_snapshot_key q) (gqt_start_node_key t) store = Ok (Some n)"
    using assms get_node_node_at[of "gq_snapshot_key q" "gqt_start_node_key t" store]
    by (fastforce simp: bounded_traversal_def try_with_Ok_iff simp del: traversal_loop.simps)
  then show ?thesis using assms(1,2) by (simp add: bounded_traversal_def del: traversal_loop.simps)
qed

lemma bounded_traversal_length:
  assumes "bounded_traversal q t md limit store = Ok r" and "limit < usize_MAX"
  shows "length (btv_hits r) \<le> limit"
  using assms traversal_loop_length[of "gq_snapshot_key q" store "gqt_direction t" "gq_edge_type q" md limit _ False r]
  by (auto simp: bounded_traversal_def try_with_Ok_iff simp del: traversal_loop.simps split: option.splits if_splits)

lemma bounded_traversal_answers:
  assumes "no_read_faults store"
  shows "\<exists>r. bounded_traversal q t md limit store = Ok r"
  using traversal_loop_answers[OF assms]
  by (simp add: bounded_traversal_def get_node_answers[OF assms] del: traversal_loop.simps split: option.split)

definition listed_hit :: "GraphQueryTraversalHit list \<Rightarrow> string \<Rightarrow> nat \<Rightarrow> bool" where
  "listed_hit hits k d = (\<exists>h\<in>set hits. gqh_node_key h = k \<and> gqh_depth h = d)"

lemma traversal_exact:
  assumes run: "bounded_traversal q t md limit store = Ok r" and db: "searchable (cn_db store)"
    and stored: "node_at (cn_db store) (gq_snapshot_key q) (gqt_start_node_key t) \<noteq> None"
  defines "adj \<equiv> adjacent (incident_of (gq_edge_type q) (gqt_direction t)) (cn_db store) (gq_snapshot_key q)"
  shows "distinct (map gqh_node_key (btv_hits r))
    \<and> (\<forall>h\<in>set (btv_hits r). hit_explained (gq_edge_type q) (gqt_direction t) (cn_db store) (gq_snapshot_key q) h
         \<and> gqh_depth h \<le> md \<and> at_depth adj (gqt_start_node_key t) (gqh_depth h) (gqh_node_key h))
    \<and> (\<not> btv_truncated r \<longrightarrow> (\<forall>k d. 0 < d \<and> d \<le> md \<and> at_depth adj (gqt_start_node_key t) d k
         \<longrightarrow> listed_hit (btv_hits r) k d))"
proof (cases "md = 0")
  case True
  then show ?thesis using run by (auto simp: bounded_traversal_def)
next
  case False
  let ?start = "gqt_start_node_key t"
  have loop: "traversal_loop (gq_snapshot_key q) store (gqt_direction t) (gq_edge_type q) md limit
      ({?start}, [(?start, 0)], []) False = Ok r"
    using bounded_traversal_Ok[OF run _ stored] False by simp
  have "query_inv (gq_edge_type q) (gqt_direction t) (cn_db store) (gq_snapshot_key q) ?start md
      ({?start}, [(?start, 0)], [])"
    using stored by (auto simp: query_inv_def bfs_init)
  note facts = traversal_loop_Ok[OF loop db this, folded adj_def]
  have complete: "listed_hit (btv_hits r) k d" if "\<not> btv_truncated r" "0 < d" "d \<le> md" "at_depth adj ?start d k" for k d
    using bfs_done[of adj ?start md "known_hits ?start (btv_hits r)" k d] facts that by (auto simp: listed_hit_def)
  show ?thesis using facts complete by (auto simp: bfs_sound_def comp_def)
qed

lemma query_parts:
  assumes "query_graph sj lower q store = Ok r"
  obtains nt et b where "node_part sj lower q (gqr_limit_applied r) store = Ok (gqr_nodes r, nt)"
    "edge_part sj q (gqr_limit_applied r - length (gqr_nodes r)) store = Ok (gqr_edges r, et)"
    "traversal_part q (gqr_limit_applied r - length (gqr_nodes r) - length (gqr_edges r)) store = Ok b"
    "gqr_traversal r = btv_hits b" "gqr_truncated r = (nt \<or> et \<or> btv_truncated b)"
    "gqr_limit_applied r = min (gq_limit q) GRAPH_QUERY_MAX_LIMIT"
    "gqr_result_count r = length (gqr_nodes r) + length (gqr_edges r) + length (gqr_traversal r)"
    "gqr_max_depth_applied r = map_option (\<lambda>t. min (gqt_max_depth t) GRAPH_QUERY_MAX_DEPTH) (gq_traversal q)"
    "gqr_limit_clamped r = (gq_limit q \<noteq> gqr_limit_applied r)"
    "gqr_max_depth_clamped r = (map_option gqt_max_depth (gq_traversal q) \<noteq> gqr_max_depth_applied r)"
  using assms by (auto simp: query_graph_def try_with_Ok_iff Let_def)

lemma node_part_length: "node_part sj lower q n store = Ok (ns, nt) \<Longrightarrow> length ns \<le> n"
  by (auto simp: node_part_def try_with_Ok_iff split: if_splits)

lemma edge_part_length: "edge_part sj q n store = Ok (es, et) \<Longrightarrow> length es \<le> n"
  by (auto simp: edge_part_def try_with_Ok_iff split: option.splits)

lemma traversal_part_length:
  assumes "traversal_part q n store = Ok b" and "n < usize_MAX"
  shows "length (btv_hits b) \<le> n"
  using assms bounded_traversal_length by (auto simp: traversal_part_def split: option.splits)

lemma applied_limit: "n \<le> GRAPH_QUERY_MAX_LIMIT \<Longrightarrow> n < usize_MAX \<and> n < i64_MAX"
  by (simp add: GRAPH_QUERY_MAX_LIMIT_def usize_MAX_def i64_MAX_def)

definition expected_nodes :: "serde \<Rightarrow> (string \<Rightarrow> string) \<Rightarrow> GraphQuery \<Rightarrow> GraphDb \<Rightarrow> GraphNodeRecord list" where
  "expected_nodes sj lower q db =
     sort_key gn_node_key (filter (\<lambda>n. gn_snapshot_key n = gq_snapshot_key q
       \<and> (case gq_node_label q of None \<Rightarrow> True | Some l \<Rightarrow> gn_label n = l) \<and> node_matches sj lower n q) (gd_nodes db))"

definition expected_edges :: "GraphQuery \<Rightarrow> GraphDb \<Rightarrow> GraphEdgeRecord list" where
  "expected_edges q db =
     sort_key ge_edge_key (filter (\<lambda>e. ge_snapshot_key e = gq_snapshot_key q
       \<and> gq_edge_type q = Some (ge_edge_type e)) (gd_edges db))"

lemma matching_nodes_Ok:
  assumes "matching_nodes sj lower q store = Ok ns"
  shows "ns = expected_nodes sj lower q (cn_db store)"
  using assms
  by (cases "gq_node_label q")
    (auto simp: matching_nodes_def expected_nodes_def nodes_by_label_def nodes_for_snapshot_def read_with_def
      filter_sort conj_ac split: option.splits)

lemma node_part_Ok:
  assumes "node_part sj lower q n store = Ok (ns, nt)" and "wants_nodes q"
  shows "ns = map (query_node sj) (take n (expected_nodes sj lower q (cn_db store)))
    \<and> (nt \<longleftrightarrow> n < length (expected_nodes sj lower q (cn_db store)))"
  using assms by (auto simp: node_part_def try_with_Ok_iff dest: matching_nodes_Ok)

lemma edge_part_Ok:
  assumes "edge_part sj q n store = Ok (es, et)" and "gq_traversal q = None" and "gq_edge_type q \<noteq> None" and "n < i64_MAX"
  shows "es = map (query_edge sj) (take n (expected_edges q (cn_db store)))
    \<and> (et \<longleftrightarrow> n < length (expected_edges q (cn_db store)))"
proof -
  obtain t where t: "gq_edge_type q = Some t" using assms(3) by blast
  have "sqlite_limit (saturating_add n (Suc 0)) = Suc n"
    using assms(4) by (simp add: sqlite_limit_def saturating_add_def i64_MAX_def usize_MAX_def)
  then show ?thesis
    using assms(1,2) t
    by (auto simp: edge_part_def edges_by_type_limited_def read_with_def try_with_Ok_iff expected_edges_def
        min_def eq_commute split: option.splits if_splits)
qed

lemma query_answers:
  assumes "no_read_faults store"
  shows "\<exists>r. query_graph sj lower q store = Ok r"
proof -
  have reads: "cn_read_fault store x = None" for x using assms by (simp add: no_read_faults_def)
  have "\<exists>ns nt. node_part sj lower q n store = Ok (ns, nt)" for n
    by (auto simp: node_part_def matching_nodes_def nodes_by_label_def nodes_for_snapshot_def read_with_def reads
        split: option.split)
  moreover have "\<exists>es et. edge_part sj q n store = Ok (es, et)" for n
    by (auto simp: edge_part_def edges_by_type_limited_def read_with_def reads split: option.split)
  moreover have "\<exists>b. traversal_part q n store = Ok b" for n
    using bounded_traversal_answers[OF assms] by (auto simp: traversal_part_def split: option.split)
  ultimately show ?thesis by (auto simp: query_graph_def try_with_def Let_def split: sum.split) (metis Inl_Inr_False)+
qed

section \<open>Properties\<close>

definition sample_query :: GraphQuery where
  "sample_query =
     \<lparr>gq_snapshot_key = ''s'', gq_node_label = None, gq_node_key_contains = None, gq_name_contains = None,
       gq_edge_type = None, gq_payload_array_min_len = None,
       gq_traversal = Some \<lparr>gqt_start_node_key = ''a'', gqt_direction = Outbound, gqt_max_depth = 20\<rparr>,
       gq_limit = 1000\<rparr>"

text \<open>The limits of a query hold. The number of results is the number of nodes, edges and hits
  together, it never exceeds the applied limit, which is the requested one cut at 500, the applied depth
  is the requested one cut at 8, and the two flags report exactly whether something was cut.\<close>

lemma query_within_limits:
  assumes "query_graph sj lower q store = Ok r"
  shows "gqr_result_count r = length (gqr_nodes r) + length (gqr_edges r) + length (gqr_traversal r)
    \<and> gqr_result_count r \<le> gqr_limit_applied r
    \<and> gqr_limit_applied r = min (gq_limit q) 500
    \<and> (gqr_limit_clamped r \<longleftrightarrow> 500 < gq_limit q)
    \<and> gqr_max_depth_applied r = map_option (\<lambda>t. min (gqt_max_depth t) 8) (gq_traversal q)
    \<and> (gqr_max_depth_clamped r \<longleftrightarrow> (\<exists>t. gq_traversal q = Some t \<and> 8 < gqt_max_depth t))"
proof -
  obtain nt et b where parts: "node_part sj lower q (gqr_limit_applied r) store = Ok (gqr_nodes r, nt)"
    "edge_part sj q (gqr_limit_applied r - length (gqr_nodes r)) store = Ok (gqr_edges r, et)"
    "traversal_part q (gqr_limit_applied r - length (gqr_nodes r) - length (gqr_edges r)) store = Ok b"
    and r: "gqr_traversal r = btv_hits b" "gqr_limit_applied r = min (gq_limit q) GRAPH_QUERY_MAX_LIMIT"
    "gqr_result_count r = length (gqr_nodes r) + length (gqr_edges r) + length (gqr_traversal r)"
    "gqr_max_depth_applied r = map_option (\<lambda>t. min (gqt_max_depth t) GRAPH_QUERY_MAX_DEPTH) (gq_traversal q)"
    "gqr_limit_clamped r = (gq_limit q \<noteq> gqr_limit_applied r)"
    "gqr_max_depth_clamped r = (map_option gqt_max_depth (gq_traversal q) \<noteq> gqr_max_depth_applied r)"
    by (rule query_parts[OF assms])
  have "length (btv_hits b) \<le> gqr_limit_applied r - length (gqr_nodes r) - length (gqr_edges r)"
    using traversal_part_length[OF parts(3)] applied_limit[of "gqr_limit_applied r"] r(2)
    by (simp add: less_imp_diff_less)
  then have "gqr_result_count r \<le> gqr_limit_applied r"
    using node_part_length[OF parts(1)] edge_part_length[OF parts(2)]
    by (simp only: r(1,3))
  then show ?thesis
    using r by (cases "gq_traversal q") (auto simp: GRAPH_QUERY_MAX_LIMIT_def GRAPH_QUERY_MAX_DEPTH_def min_def)
qed

text \<open>C17: the traversal of a query is a breadth-first search restricted to the asked edge type. Its
  hits are distinct objects, each at its exact distance over edges of that type, within the applied
  depth and with an edge that leads to it; when the result is not marked as truncated, no object within
  the depth is missing.\<close>

theorem query_traversal_exact:
  assumes "query_graph sj lower q store = Ok r" and "gq_traversal q = Some t" and "searchable (cn_db store)"
    and "node_at (cn_db store) (gq_snapshot_key q) (gqt_start_node_key t) \<noteq> None"
  shows "distinct (map gqh_node_key (gqr_traversal r))
    \<and> (\<forall>h\<in>set (gqr_traversal r).
         hit_explained (gq_edge_type q) (gqt_direction t) (cn_db store) (gq_snapshot_key q) h
         \<and> 0 < gqh_depth h \<and> gqh_depth h \<le> min (gqt_max_depth t) 8
         \<and> at_depth (adjacent (incident_of (gq_edge_type q) (gqt_direction t)) (cn_db store) (gq_snapshot_key q))
             (gqt_start_node_key t) (gqh_depth h) (gqh_node_key h))
    \<and> (\<not> gqr_truncated r \<longrightarrow> (\<forall>k d. 0 < d \<and> d \<le> min (gqt_max_depth t) 8
         \<and> at_depth (adjacent (incident_of (gq_edge_type q) (gqt_direction t)) (cn_db store) (gq_snapshot_key q))
             (gqt_start_node_key t) d k
         \<longrightarrow> listed_hit (gqr_traversal r) k d))"
proof -
  obtain nt et b where
    part: "traversal_part q (gqr_limit_applied r - length (gqr_nodes r) - length (gqr_edges r)) store = Ok b"
    and r: "gqr_traversal r = btv_hits b" "gqr_truncated r = (nt \<or> et \<or> btv_truncated b)"
    by (rule query_parts[OF assms(1)])
  have run: "bounded_traversal q t (min (gqt_max_depth t) 8)
      (gqr_limit_applied r - length (gqr_nodes r) - length (gqr_edges r)) store = Ok b"
    using part assms(2) by (simp add: traversal_part_def GRAPH_QUERY_MAX_DEPTH_def)
  show ?thesis
    unfolding r(1) using traversal_exact[OF run assms(3,4)] r(2) hit_depth by blast
qed

theorem query_traversal_exact_witness:
  "\<exists>r. query_graph sample_reader id sample_query sample_graph = Ok r
     \<and> (gqr_truncated r \<or> listed_hit (gqr_traversal r) ''b'' 1)"
proof -
  let ?t = "\<lparr>gqt_start_node_key = ''a'', gqt_direction = Outbound, gqt_max_depth = 20\<rparr>"
  obtain r where run: "query_graph sample_reader id sample_query sample_graph = Ok r"
    using query_answers[OF sample_graph_reads] by blast
  have "incident_of None Outbound = incident Outbound" by (intro ext) (simp add: incident_of_def)
  then have "\<not> gqr_truncated r \<longrightarrow> listed_hit (gqr_traversal r) ''b'' 1"
    using query_traversal_exact[OF run, of ?t] sample_graph_searchable sample_graph_nodes(1) sample_b_depth
    by (simp add: sample_query_def)
  with run show ?thesis by blast
qed

text \<open>The nodes and edges of a query are the first matches. The nodes are the leading matches in key
  order, the edges (asked for without a traversal) the leading edges of the type, and unless the result
  is marked as truncated both lists are complete.\<close>

lemma query_lists_matches:
  assumes "query_graph sj lower q store = Ok r" and "gq_traversal q = None"
  shows "gqr_nodes r = (if wants_nodes q
        then map (query_node sj) (take (gqr_limit_applied r) (expected_nodes sj lower q (cn_db store))) else [])
    \<and> gqr_edges r = (if gq_edge_type q = None then []
        else map (query_edge sj) (take (gqr_limit_applied r - length (gqr_nodes r)) (expected_edges q (cn_db store))))
    \<and> (gqr_truncated r \<longleftrightarrow>
        wants_nodes q \<and> gqr_limit_applied r < length (expected_nodes sj lower q (cn_db store))
        \<or> gq_edge_type q \<noteq> None
          \<and> gqr_limit_applied r - length (gqr_nodes r) < length (expected_edges q (cn_db store)))"
proof -
  obtain nt et b where parts: "node_part sj lower q (gqr_limit_applied r) store = Ok (gqr_nodes r, nt)"
    "edge_part sj q (gqr_limit_applied r - length (gqr_nodes r)) store = Ok (gqr_edges r, et)"
    "traversal_part q (gqr_limit_applied r - length (gqr_nodes r) - length (gqr_edges r)) store = Ok b"
    and r: "gqr_truncated r = (nt \<or> et \<or> btv_truncated b)" "gqr_limit_applied r = min (gq_limit q) GRAPH_QUERY_MAX_LIMIT"
    by (rule query_parts[OF assms(1)])
  have lim: "gqr_limit_applied r - length (gqr_nodes r) < i64_MAX"
    using applied_limit[of "gqr_limit_applied r - length (gqr_nodes r)"] r(2) by simp
  have b: "\<not> btv_truncated b" using parts(3) assms(2) by (auto simp: traversal_part_def)
  have "\<not> wants_nodes q \<Longrightarrow> gqr_nodes r = [] \<and> \<not> nt" using parts(1) by (auto simp: node_part_def)
  moreover have "gq_edge_type q = None \<Longrightarrow> gqr_edges r = [] \<and> \<not> et"
    using parts(2) assms(2) by (auto simp: edge_part_def)
  ultimately show ?thesis
    using node_part_Ok[OF parts(1)] edge_part_Ok[OF parts(2) assms(2) _ lim] r(1) b
    by (cases "wants_nodes q"; cases "gq_edge_type q") simp_all
qed

end
