(* ===== verification/Schema_Diff.thy ===== *)
theory Schema_Diff
  imports Impact_Analysis
begin

text \<open>
  \<open>schema_diff.rs\<close>: the difference of two stored snapshots. Objects are matched by their key without
  the connection alias, compared by label, name and payload without the aliases, and the added, removed
  and changed ones seed an impact analysis each. The bounded variant cuts every list.
\<close>

section \<open>Types\<close>

definition DEFAULT_SCHEMA_DIFF_IMPACT_MAX_DEPTH :: nat where
  "DEFAULT_SCHEMA_DIFF_IMPACT_MAX_DEPTH = 2"

record ChangedGraphNode =
  cgn_from :: GraphNodeRecord
  cgn_to :: GraphNodeRecord

record SchemaDiffImpact =
  sdi_seed_node_key :: string
  sdi_snapshot_key :: string
  sdi_impact :: ImpactAnalysisResult
  sdi_truncated :: bool

record SchemaDiff =
  sdf_from_snapshot_key :: string
  sdf_to_snapshot_key :: string
  sdf_added_nodes :: "GraphNodeRecord list"
  sdf_removed_nodes :: "GraphNodeRecord list"
  sdf_changed_nodes :: "ChangedGraphNode list"
  sdf_added_edges :: "GraphEdgeRecord list"
  sdf_removed_edges :: "GraphEdgeRecord list"
  sdf_impacted :: "SchemaDiffImpact list"

record SchemaDiffCounts =
  sdc_added_nodes :: nat
  sdc_removed_nodes :: nat
  sdc_changed_nodes :: nat
  sdc_added_edges :: nat
  sdc_removed_edges :: nat
  sdc_impacted_seeds :: nat

record BoundedSchemaDiff =
  bsd_diff :: SchemaDiff
  bsd_counts :: SchemaDiffCounts
  bsd_result_limit :: nat
  bsd_truncated :: bool

section \<open>Comparable keys and payloads\<close>

primrec remove_connection_aliases :: "json \<Rightarrow> json" where
  "remove_connection_aliases JNull = JNull"
| "remove_connection_aliases (JBool b) = JBool b"
| "remove_connection_aliases (JInt i) = JInt i"
| "remove_connection_aliases (JFloat s) = JFloat s"
| "remove_connection_aliases (JString s) = JString s"
| "remove_connection_aliases (JArray items) = JArray (map remove_connection_aliases items)"
| "remove_connection_aliases (JObject members) =
     JObject (filter (\<lambda>m. fst m \<noteq> ''connection_alias'') (map (map_prod id remove_connection_aliases) members))"

definition comparable_payload :: "serde \<Rightarrow> string \<Rightarrow> (GraphStoreError, json) result" where
  "comparable_payload sj payload_json =
     try_with (map_err Payload (parse_value sj payload_json)) (\<lambda>payload. Ok (remove_connection_aliases payload))"

definition comparable_object_key :: "string \<Rightarrow> string" where
  "comparable_object_key raw_key =
     (case parse_object_key raw_key of
        Inl _ \<Rightarrow> raw_key
      | Inr key \<Rightarrow> key_to_string (key\<lparr>ok_connection_alias := ''_''\<rparr>))"

definition comparable_edge_key :: "GraphEdgeRecord \<Rightarrow> string" where
  "comparable_edge_key edge =
     ge_edge_type edge @ '':'' @ comparable_object_key (ge_edge_from edge) @ ''->''
     @ comparable_object_key (ge_edge_to edge)"

definition snapshot_nodes ::
  "string \<Rightarrow> Connection \<Rightarrow> (GraphStoreError, (string, GraphNodeRecord) btree) result" where
  "snapshot_nodes snapshot_key store =
     try_with (nodes_for_snapshot snapshot_key store) (\<lambda>nodes.
       Ok (fold (\<lambda>node. bt_insert (comparable_object_key (gn_node_key node)) node) nodes []))"

definition snapshot_edges ::
  "string \<Rightarrow> Connection \<Rightarrow> (GraphStoreError, (string, GraphEdgeRecord) btree) result" where
  "snapshot_edges snapshot_key store =
     try_with (edges_for_snapshot snapshot_key store) (\<lambda>edges.
       Ok (fold (\<lambda>edge. bt_insert (comparable_edge_key edge) edge) edges []))"

section \<open>The difference\<close>

definition only_in :: "('k, 'v) btree \<Rightarrow> ('k, 'w) btree \<Rightarrow> 'v list" where
  "only_in m other = map snd (filter (\<lambda>(k, _). \<not> bt_contains_key other k) m)"

definition node_changed :: "serde \<Rightarrow> GraphNodeRecord \<Rightarrow> GraphNodeRecord \<Rightarrow> (GraphStoreError, bool) result" where
  "node_changed sj from to =
     (if gn_label from \<noteq> gn_label to \<or> gn_display_name from \<noteq> gn_display_name to then Ok True
      else
        try_with (comparable_payload sj (gn_payload_json from)) (\<lambda>a.
        try_with (comparable_payload sj (gn_payload_json to)) (\<lambda>b. Ok (a \<noteq> b))))"

fun changed_nodes_of ::
  "serde \<Rightarrow> (string, GraphNodeRecord) btree \<Rightarrow> (string \<times> GraphNodeRecord) list
    \<Rightarrow> (GraphStoreError, ChangedGraphNode list) result" where
  "changed_nodes_of sj from_nodes [] = Ok []"
| "changed_nodes_of sj from_nodes ((node_key, to) # to_nodes) =
     (case bt_get from_nodes node_key of
        None \<Rightarrow> changed_nodes_of sj from_nodes to_nodes
      | Some from \<Rightarrow>
          try_with (node_changed sj from to) (\<lambda>changed.
          try_with (changed_nodes_of sj from_nodes to_nodes) (\<lambda>rest.
            Ok (if changed then \<lparr>cgn_from = from, cgn_to = to\<rparr> # rest else rest))))"

definition changed_impact_seeds ::
  "string \<Rightarrow> string \<Rightarrow> GraphNodeRecord list \<Rightarrow> GraphNodeRecord list \<Rightarrow> ChangedGraphNode list
    \<Rightarrow> (string \<times> string) bset" where
  "changed_impact_seeds from_snapshot_key to_snapshot_key added_nodes removed_nodes changed_nodes =
     (let seeds = fold (\<lambda>node. bs_insert (to_snapshot_key, gn_node_key node)) added_nodes [];
          seeds = fold (\<lambda>node. bs_insert (from_snapshot_key, gn_node_key node)) removed_nodes seeds
      in fold (\<lambda>node. bs_insert (to_snapshot_key, gn_node_key (cgn_to node))) changed_nodes seeds)"

fun changed_impacts_loop ::
  "Connection \<Rightarrow> nat \<Rightarrow> (string \<times> string) list \<Rightarrow> nat \<Rightarrow> (GraphStoreError, SchemaDiffImpact list \<times> bool) result" where
  "changed_impacts_loop store impact_max_depth [] remaining_results = Ok ([], False)"
| "changed_impacts_loop store impact_max_depth ((snapshot_key, seed_node_key) # seeds) remaining_results =
     try_with (impact_analysis_bounded snapshot_key seed_node_key Both impact_max_depth remaining_results store)
       (\<lambda>bounded.
         (let result_count = sum_list (map (\<lambda>g. length (iag_nodes g)) (iar_groups (bir_result bounded)));
              remaining_results = (if remaining_results \<noteq> usize_MAX then remaining_results - result_count
                                   else remaining_results)
          in try_with (changed_impacts_loop store impact_max_depth seeds remaining_results)
               (\<lambda>(impacts, truncated).
                 Ok (\<lparr>sdi_seed_node_key = seed_node_key, sdi_snapshot_key = snapshot_key,
                       sdi_impact = bir_result bounded, sdi_truncated = bir_truncated bounded\<rparr> # impacts,
                     bir_truncated bounded \<or> truncated))))"

definition changed_impacts ::
  "Connection \<Rightarrow> nat \<Rightarrow> (string \<times> string) bset \<Rightarrow> nat \<Rightarrow> (GraphStoreError, SchemaDiffImpact list \<times> bool) result" where
  "changed_impacts store impact_max_depth seeds result_limit =
     try_with (changed_impacts_loop store impact_max_depth (take result_limit (bt_keys seeds)) result_limit)
       (\<lambda>(impacts, truncated). Ok (impacts, length seeds > result_limit \<or> truncated))"

definition build_schema_diff ::
  "serde \<Rightarrow> string \<Rightarrow> string \<Rightarrow> nat \<Rightarrow> nat \<Rightarrow> Connection \<Rightarrow> (GraphStoreError, BoundedSchemaDiff) result" where
  "build_schema_diff sj from_snapshot_key to_snapshot_key impact_max_depth result_limit store =
     try_with (snapshot_nodes from_snapshot_key store) (\<lambda>from_nodes.
     try_with (snapshot_nodes to_snapshot_key store) (\<lambda>to_nodes.
     try_with (snapshot_edges from_snapshot_key store) (\<lambda>from_edges.
     try_with (snapshot_edges to_snapshot_key store) (\<lambda>to_edges.
     try_with (changed_nodes_of sj from_nodes to_nodes) (\<lambda>changed_nodes.
     (let added_nodes = only_in to_nodes from_nodes;
          removed_nodes = only_in from_nodes to_nodes;
          added_edges = only_in to_edges from_edges;
          removed_edges = only_in from_edges to_edges;
          seeds = changed_impact_seeds from_snapshot_key to_snapshot_key added_nodes removed_nodes changed_nodes
      in try_with (changed_impacts store impact_max_depth seeds result_limit) (\<lambda>(impacted, impact_truncated).
         Ok \<lparr>bsd_diff =
               \<lparr>sdf_from_snapshot_key = from_snapshot_key, sdf_to_snapshot_key = to_snapshot_key,
                 sdf_added_nodes = take result_limit added_nodes,
                 sdf_removed_nodes = take result_limit removed_nodes,
                 sdf_changed_nodes = take result_limit changed_nodes,
                 sdf_added_edges = take result_limit added_edges,
                 sdf_removed_edges = take result_limit removed_edges,
                 sdf_impacted = impacted\<rparr>,
              bsd_counts =
               \<lparr>sdc_added_nodes = length added_nodes, sdc_removed_nodes = length removed_nodes,
                 sdc_changed_nodes = length changed_nodes, sdc_added_edges = length added_edges,
                 sdc_removed_edges = length removed_edges, sdc_impacted_seeds = length seeds\<rparr>,
              bsd_result_limit = result_limit,
              bsd_truncated =
                (impact_truncated \<or> length added_nodes > result_limit \<or> length removed_nodes > result_limit
                 \<or> length changed_nodes > result_limit \<or> length added_edges > result_limit
                 \<or> length removed_edges > result_limit)\<rparr>)))))))"

definition schema_diff_with_impact_depth ::
  "serde \<Rightarrow> string \<Rightarrow> string \<Rightarrow> nat \<Rightarrow> Connection \<Rightarrow> (GraphStoreError, SchemaDiff) result" where
  "schema_diff_with_impact_depth sj from_snapshot_key to_snapshot_key impact_max_depth store =
     try_with (build_schema_diff sj from_snapshot_key to_snapshot_key impact_max_depth usize_MAX store)
       (\<lambda>bounded. Ok (bsd_diff bounded))"

definition schema_diff :: "serde \<Rightarrow> string \<Rightarrow> string \<Rightarrow> Connection \<Rightarrow> (GraphStoreError, SchemaDiff) result" where
  "schema_diff sj from_snapshot_key to_snapshot_key =
     schema_diff_with_impact_depth sj from_snapshot_key to_snapshot_key DEFAULT_SCHEMA_DIFF_IMPACT_MAX_DEPTH"

definition schema_diff_bounded ::
  "serde \<Rightarrow> string \<Rightarrow> string \<Rightarrow> nat \<Rightarrow> Connection \<Rightarrow> (GraphStoreError, BoundedSchemaDiff) result" where
  "schema_diff_bounded sj from_snapshot_key to_snapshot_key =
     build_schema_diff sj from_snapshot_key to_snapshot_key DEFAULT_SCHEMA_DIFF_IMPACT_MAX_DEPTH"

section \<open>The maps of a snapshot\<close>

definition snapshot_rows :: "string \<Rightarrow> Connection \<Rightarrow> GraphNodeRecord set" where
  "snapshot_rows sk store = {n \<in> set (gd_nodes (cn_db store)). gn_snapshot_key n = sk}"

definition snapshot_edge_rows :: "string \<Rightarrow> Connection \<Rightarrow> GraphEdgeRecord set" where
  "snapshot_edge_rows sk store = {e \<in> set (gd_edges (cn_db store)). ge_snapshot_key e = sk}"

abbreviation node_match :: "GraphNodeRecord \<Rightarrow> string" where
  "node_match n \<equiv> comparable_object_key (gn_node_key n)"

text \<open>No two objects of the snapshot become equal when the alias is dropped.\<close>

definition comparable_snapshot :: "string \<Rightarrow> Connection \<Rightarrow> bool" where
  "comparable_snapshot sk store = inj_on node_match (snapshot_rows sk store)"

lemma keyed_map:
  "bt_inv m \<Longrightarrow> bt_inv (fold (\<lambda>x. bt_insert (key x) x) xs m)"
  "set (bt_keys (fold (\<lambda>x. bt_insert (key x) x) xs m)) = key ` set xs \<union> set (bt_keys m)"
  "bt_get (fold (\<lambda>x. bt_insert (key x) x) xs m) k = Some v \<Longrightarrow> v \<in> set xs \<and> key v = k \<or> bt_get m k = Some v"
proof -
  show "bt_inv m \<Longrightarrow> bt_inv (fold (\<lambda>x. bt_insert (key x) x) xs m)"
    by (induction xs arbitrary: m) (auto simp: bt.inv_insert)
  show "set (bt_keys (fold (\<lambda>x. bt_insert (key x) x) xs m)) = key ` set xs \<union> set (bt_keys m)"
    by (induction xs arbitrary: m) (auto simp: bt.set_keys_insert)
  show "bt_get (fold (\<lambda>x. bt_insert (key x) x) xs m) k = Some v \<Longrightarrow>
      v \<in> set xs \<and> key v = k \<or> bt_get m k = Some v"
    by (induction xs arbitrary: m) (fastforce simp: bt.get_insert split: if_splits)+
qed

lemma snapshot_nodes_Ok:
  assumes "snapshot_nodes sk store = Ok m"
  shows "bt_inv m" "set (bt_keys m) = node_match ` snapshot_rows sk store"
    "(k, n) \<in> set m \<Longrightarrow> n \<in> snapshot_rows sk store \<and> node_match n = k"
proof -
  obtain xs where m: "m = fold (\<lambda>x. bt_insert (node_match x) x) xs []" and xs: "set xs = snapshot_rows sk store"
    using assms by (auto simp: snapshot_nodes_def try_with_Ok_iff nodes_for_snapshot_def read_with_def
        snapshot_rows_def split: option.splits)
  show inv: "bt_inv m" unfolding m by (rule keyed_map(1)) simp
  show "set (bt_keys m) = node_match ` snapshot_rows sk store"
    unfolding m keyed_map(2) xs by (simp add: bt_keys_def)
  show "n \<in> snapshot_rows sk store \<and> node_match n = k" if "(k, n) \<in> set m"
  proof -
    have "bt_get m k = Some n" using that bt.keys_distinct[OF inv] by (simp add: bt_get_def bt_keys_def)
    from keyed_map(3)[OF this[unfolded m]] show ?thesis by (simp add: xs bt_get_def)
  qed
qed

lemma snapshot_node_found:
  assumes "snapshot_nodes sk store = Ok m" and "comparable_snapshot sk store"
  shows "(k, n) \<in> set m \<longleftrightarrow> n \<in> snapshot_rows sk store \<and> node_match n = k"
proof
  assume n: "n \<in> snapshot_rows sk store \<and> node_match n = k"
  then have "k \<in> set (bt_keys m)" using snapshot_nodes_Ok(2)[OF assms(1)] by blast
  then obtain n' where n': "(k, n') \<in> set m" by (auto simp: bt_keys_def)
  with snapshot_nodes_Ok(3)[OF assms(1)] n assms(2) have "n' = n"
    by (auto simp: comparable_snapshot_def inj_on_def)
  then show "(k, n) \<in> set m" using n' by simp
qed (rule snapshot_nodes_Ok(3)[OF assms(1)])

lemma bt_get_member: "bt_inv m \<Longrightarrow> bt_get m k = Some v \<longleftrightarrow> (k, v) \<in> set m"
  using bt.keys_distinct[of m] by (simp add: bt_get_def bt_keys_def)

lemma set_only_in:
  "v \<in> set (only_in m other) \<longleftrightarrow> (\<exists>k. (k, v) \<in> set m \<and> k \<notin> set (bt_keys (other :: ('k::linorder, 'w) btree)))"
  by (force simp: only_in_def bt_contains_iff)

section \<open>Changed nodes\<close>

text \<open>Two matching nodes differ in label, name or comparable payload.\<close>

definition differs :: "serde \<Rightarrow> GraphNodeRecord \<Rightarrow> GraphNodeRecord \<Rightarrow> bool" where
  "differs sj a b =
     (gn_label a \<noteq> gn_label b \<or> gn_display_name a \<noteq> gn_display_name b
      \<or> map_option remove_connection_aliases (case parse_value sj (gn_payload_json a) of Inl _ \<Rightarrow> None | Inr v \<Rightarrow> Some v)
        \<noteq> map_option remove_connection_aliases (case parse_value sj (gn_payload_json b) of Inl _ \<Rightarrow> None | Inr v \<Rightarrow> Some v))"

lemma node_changed_Ok: "node_changed sj a b = Ok c \<Longrightarrow> c = differs sj a b"
  by (auto simp: node_changed_def differs_def comparable_payload_def try_with_def map_err_def
      split: if_splits sum.splits)

lemma node_changed_self: "node_changed sj a a = Ok c \<Longrightarrow> \<not> c"
  by (auto dest: node_changed_Ok simp: differs_def)

lemma changed_nodes_Ok:
  assumes "changed_nodes_of sj from to = Ok cs"
  shows "c \<in> set cs \<longleftrightarrow>
    (\<exists>k. (k, cgn_to c) \<in> set to \<and> bt_get from k = Some (cgn_from c) \<and> differs sj (cgn_from c) (cgn_to c))"
  using assms
proof (induction sj "from" to arbitrary: cs rule: changed_nodes_of.induct)
  case (2 sj "from" k n to)
  show ?case
  proof (cases "bt_get from k")
    case None
    then show ?thesis using 2(1)[OF None] 2(3) by auto
  next
    case (Some m)
    then obtain b rest where b: "node_changed sj m n = Ok b" and rest: "changed_nodes_of sj from to = Ok rest"
      and cs: "cs = (if b then \<lparr>cgn_from = m, cgn_to = n\<rparr> # rest else rest)"
      using 2(3) by (auto simp: try_with_Ok_iff)
    have c: "c = \<lparr>cgn_from = m, cgn_to = n\<rparr> \<longleftrightarrow> cgn_from c = m \<and> cgn_to c = n" by (cases c) auto
    show ?thesis
      using 2(2)[OF Some rest] node_changed_Ok[OF b] Some by (auto simp: cs c)
  qed
qed simp

section \<open>Impacts\<close>

lemma length_result_nodes: "length (result_nodes r) = sum_list (map (\<lambda>g. length (iag_nodes g)) (iar_groups r))"
  by (simp add: result_nodes_def length_concat comp_def)

definition impact_total :: "SchemaDiffImpact list \<Rightarrow> nat" where
  "impact_total impacts = sum_list (map (\<lambda>i. length (result_nodes (sdi_impact i))) impacts)"

lemma bounded_count:
  assumes "impact_analysis_bounded sk start direction md mr store = Ok b" and "mr < usize_MAX"
  shows "length (result_nodes (bir_result b)) \<le> mr"
proof (cases "node_at (cn_db store) sk start")
  case None
  then show ?thesis
    using assms(1) get_node_node_at[of sk start store]
    by (auto simp: impact_analysis_bounded_def try_with_Ok_iff result_nodes_def impact_result_def
        simp del: impact_loop.simps)
next
  case (Some n)
  then obtain ns tr where loop: "impact_loop sk store direction md mr ({start}, [(start, 0)], []) mr False = Ok (ns, tr)"
    and r: "bir_result b = impact_result sk start direction md ns"
    using impact_bounded_Ok[OF assms(1)] by (metis option.distinct(1))
  have "length (result_nodes (bir_result b)) = length ns"
    using mset_result_nodes[of sk start direction md ns] r by (metis size_mset)
  then show ?thesis using impact_loop_length[OF loop] assms(2) by simp
qed

lemma impacts_total:
  assumes "changed_impacts_loop store md seeds n = Ok (impacts, tr)" and "n < usize_MAX"
  shows "impact_total impacts \<le> n \<and> length impacts = length seeds"
  using assms
proof (induction store md seeds n arbitrary: impacts tr rule: changed_impacts_loop.induct)
  case (2 store md sk k seeds n)
  obtain b rest tr' where run: "impact_analysis_bounded sk k Both md n store = Ok b"
    and rest: "changed_impacts_loop store md seeds (n - length (result_nodes (bir_result b))) = Ok (rest, tr')"
    and i: "impacts = \<lparr>sdi_seed_node_key = k, sdi_snapshot_key = sk, sdi_impact = bir_result b,
        sdi_truncated = bir_truncated b\<rparr> # rest"
    using 2(2,3) by (auto simp: try_with_Ok_iff Let_def length_result_nodes)
  have "impact_total rest \<le> n - length (result_nodes (bir_result b)) \<and> length rest = length seeds"
    using 2(1)[OF length_result_nodes[of "bir_result b"] _ rest] 2(3) by (simp add: less_imp_diff_less)
  then show ?case using bounded_count[OF run 2(3)] by (simp add: i impact_total_def) linarith
qed (simp add: impact_total_def)

section \<open>The whole difference\<close>

lemma build_Ok:
  assumes "build_schema_diff sj a b md limit store = Ok r"
  obtains fn tn fe te cs seeds impacted it where
    "snapshot_nodes a store = Ok fn" "snapshot_nodes b store = Ok tn"
    "snapshot_edges a store = Ok fe" "snapshot_edges b store = Ok te"
    "changed_nodes_of sj fn tn = Ok cs"
    "seeds = changed_impact_seeds a b (only_in tn fn) (only_in fn tn) cs"
    "changed_impacts store md seeds limit = Ok (impacted, it)"
    "bsd_diff r = \<lparr>sdf_from_snapshot_key = a, sdf_to_snapshot_key = b,
       sdf_added_nodes = take limit (only_in tn fn), sdf_removed_nodes = take limit (only_in fn tn),
       sdf_changed_nodes = take limit cs, sdf_added_edges = take limit (only_in te fe),
       sdf_removed_edges = take limit (only_in fe te), sdf_impacted = impacted\<rparr>"
    "bsd_counts r = \<lparr>sdc_added_nodes = length (only_in tn fn), sdc_removed_nodes = length (only_in fn tn),
       sdc_changed_nodes = length cs, sdc_added_edges = length (only_in te fe),
       sdc_removed_edges = length (only_in fe te), sdc_impacted_seeds = length seeds\<rparr>"
    "bsd_truncated r = (it \<or> length (only_in tn fn) > limit \<or> length (only_in fn tn) > limit
       \<or> length cs > limit \<or> length (only_in te fe) > limit \<or> length (only_in fe te) > limit)"
  using assms by (auto simp: build_schema_diff_def try_with_Ok_iff Let_def)

lemma only_in_self: "only_in m (m :: ('k::linorder, 'v) btree) = []"
  by (auto simp: only_in_def bt_contains_iff bt_keys_def filter_empty_conv intro: rev_image_eqI)

lemma changed_nodes_self:
  assumes "changed_nodes_of sj m m = Ok cs" and "bt_inv m"
  shows "cs = []"
proof -
  have "c \<notin> set cs" for c
    using changed_nodes_Ok[OF assms(1), of c] bt_get_member[OF assms(2)] assms(2) bt_get_member[OF assms(2)]
    by (auto simp: differs_def) (metis assms(2) bt_get_member option.inject)+
  then show ?thesis by (cases cs) auto
qed

lemma snapshot_edges_Ok:
  assumes "snapshot_edges sk store = Ok m"
  shows "bt_inv m" "set (bt_keys m) = comparable_edge_key ` snapshot_edge_rows sk store"
    "(k, e) \<in> set m \<Longrightarrow> e \<in> snapshot_edge_rows sk store \<and> comparable_edge_key e = k"
proof -
  obtain xs where m: "m = fold (\<lambda>x. bt_insert (comparable_edge_key x) x) xs []"
    and xs: "set xs = snapshot_edge_rows sk store"
    using assms by (auto simp: snapshot_edges_def try_with_Ok_iff edges_for_snapshot_def read_with_def
        snapshot_edge_rows_def split: option.splits)
  show inv: "bt_inv m" unfolding m by (rule keyed_map(1)) simp
  show "set (bt_keys m) = comparable_edge_key ` snapshot_edge_rows sk store"
    unfolding m keyed_map(2) xs by (simp add: bt_keys_def)
  show "e \<in> snapshot_edge_rows sk store \<and> comparable_edge_key e = k" if "(k, e) \<in> set m"
    using keyed_map(3)[of comparable_edge_key xs "[]" k e] bt_get_member[OF inv] that xs m
    by (simp add: bt_get_def)
qed

lemma only_in_edges:
  assumes "snapshot_edges a store = Ok fe" and "snapshot_edges b store = Ok te"
  shows "set (only_in te fe) \<subseteq> snapshot_edge_rows b store
    \<and> comparable_edge_key ` set (only_in te fe) =
        comparable_edge_key ` snapshot_edge_rows b store - comparable_edge_key ` snapshot_edge_rows a store"
proof -
  have "k \<in> comparable_edge_key ` set (only_in te fe)" if "k \<in> set (bt_keys te)" "k \<notin> set (bt_keys fe)" for k
    using that snapshot_edges_Ok(3)[OF assms(2)] by (force simp: set_only_in bt_keys_def image_iff)
  moreover have "e \<in> snapshot_edge_rows b store \<and> comparable_edge_key e \<in> set (bt_keys te) - set (bt_keys fe)"
    if "e \<in> set (only_in te fe)" for e
    using that snapshot_edges_Ok(3)[OF assms(2)] by (force simp: set_only_in bt_keys_def)
  ultimately show ?thesis
    unfolding snapshot_edges_Ok(2)[OF assms(1), symmetric] snapshot_edges_Ok(2)[OF assms(2), symmetric] by blast
qed

lemma only_in_nodes:
  assumes "snapshot_nodes a store = Ok fn" and "snapshot_nodes b store = Ok tn" and "comparable_snapshot b store"
  shows "set (only_in tn fn) = {n \<in> snapshot_rows b store. \<forall>m\<in>snapshot_rows a store. node_match m \<noteq> node_match n}"
  using snapshot_node_found[OF assms(2,3)] snapshot_nodes_Ok(2)[OF assms(1)]
  by (auto simp: set_only_in) (metis imageI)+

lemma changed_pairs:
  assumes "snapshot_nodes a store = Ok fn" and "snapshot_nodes b store = Ok tn"
    and "comparable_snapshot a store" and "comparable_snapshot b store" and "changed_nodes_of sj fn tn = Ok cs"
  shows "set cs = {c. cgn_from c \<in> snapshot_rows a store \<and> cgn_to c \<in> snapshot_rows b store
    \<and> node_match (cgn_from c) = node_match (cgn_to c) \<and> differs sj (cgn_from c) (cgn_to c)}"
  using changed_nodes_Ok[OF assms(5)] snapshot_node_found[OF assms(2,4)] snapshot_node_found[OF assms(1,3)]
    bt_get_member[OF snapshot_nodes_Ok(1)[OF assms(1)]] by auto

lemma map_length_le:
  assumes "bt_inv m" and "set (bt_keys m) = key ` A" and "A \<subseteq> set xs"
  shows "length (only_in m other) \<le> length xs" "length m \<le> length xs"
proof -
  have "card (key ` A) \<le> length xs"
    by (meson List.finite_set assms(3) card_image_le card_length card_mono finite_subset order_trans)
  then show "length m \<le> length xs" using length_bt_keys[OF assms(1)] assms(2) by simp
  then show "length (only_in m other) \<le> length xs"
    using order_trans[OF length_filter_le] by (simp add: only_in_def)
qed

lemma changed_nodes_length: "changed_nodes_of sj from to = Ok cs \<Longrightarrow> length cs \<le> length to"
  by (induction sj "from" to arbitrary: cs rule: changed_nodes_of.induct)
    (auto simp: try_with_Ok_iff le_SucI split: option.splits)

lemma node_lists_length:
  assumes "snapshot_nodes sk store = Ok m"
  shows "length (only_in m other) \<le> length (gd_nodes (cn_db store))" "length m \<le> length (gd_nodes (cn_db store))"
  by (rule map_length_le[OF snapshot_nodes_Ok(1,2)[OF assms]]; auto simp: snapshot_rows_def)+

lemma edge_lists_length:
  assumes "snapshot_edges sk store = Ok m"
  shows "length (only_in m other) \<le> length (gd_edges (cn_db store))"
  by (rule map_length_le(1)[OF snapshot_edges_Ok(1,2)[OF assms]]) (auto simp: snapshot_edge_rows_def)

definition readable :: "serde \<Rightarrow> Connection \<Rightarrow> bool" where
  "readable sj store = list_all (\<lambda>n. case parse_value sj (gn_payload_json n) of Inl _ \<Rightarrow> False | Inr _ \<Rightarrow> True)
     (gd_nodes (cn_db store))"

lemma readable_parses: "readable sj store \<Longrightarrow> n \<in> snapshot_rows sk store \<Longrightarrow> \<exists>v. parse_value sj (gn_payload_json n) = Ok v"
  by (cases "parse_value sj (gn_payload_json n)") (auto simp: readable_def list_all_iff snapshot_rows_def dest: bspec)

lemma changed_nodes_answer:
  assumes "readable sj store" and "\<And>k n. bt_get from k = Some n \<Longrightarrow> n \<in> snapshot_rows a store"
    and "\<And>k n. (k, n) \<in> set to \<Longrightarrow> n \<in> snapshot_rows b store"
  shows "\<exists>cs. changed_nodes_of sj from to = Ok cs"
  using assms
proof (induction sj "from" to rule: changed_nodes_of.induct)
  case (2 sj "from" k n to)
  have "n' \<in> snapshot_rows b store" if "(k', n') \<in> set to" for k' n' using 2(5)[of k' n'] that by simp
  then have rest: "\<exists>cs. changed_nodes_of sj from to = Ok cs" by (cases "bt_get from k") (use 2 in blast)+
  show ?case
  proof (cases "bt_get from k")
    case (Some m)
    have "\<exists>v. parse_value sj (gn_payload_json n) = Ok v" "\<exists>v. parse_value sj (gn_payload_json m) = Ok v"
      using readable_parses[OF 2(3), of n b] readable_parses[OF 2(3), of m a] 2(4)[OF Some] 2(5)[of k n] by simp_all
    then have "\<exists>c. node_changed sj m n = Ok c" by (auto simp: node_changed_def comparable_payload_def)
    with rest Some show ?thesis by auto
  qed (use rest in auto)
qed simp

lemma build_answers:
  assumes "no_read_faults store" and "readable sj store"
  shows "\<exists>r. build_schema_diff sj a b md limit store = Ok r"
proof -
  have reads: "cn_read_fault store q = None" for q using assms(1) by (simp add: no_read_faults_def)
  have nodes: "\<exists>m. snapshot_nodes sk store = Ok m" for sk
    by (simp add: snapshot_nodes_def nodes_for_snapshot_def read_with_def reads)
  have edges: "\<exists>m. snapshot_edges sk store = Ok m" for sk
    by (simp add: snapshot_edges_def edges_for_snapshot_def read_with_def reads)
  have loop: "\<exists>i t. changed_impacts_loop store md seeds n = Ok (i, t)" for seeds n
  proof (induction seeds arbitrary: n)
    case (Cons seed seeds)
    obtain sk k where seed: "seed = (sk, k)" by (cases seed)
    obtain bounded where run: "impact_analysis_bounded sk k Both md n store = Ok bounded"
      using impact_answers[OF assms(1)] by blast
    obtain i t where "changed_impacts_loop store md seeds (if n \<noteq> usize_MAX
        then n - (\<Sum>g\<leftarrow>iar_groups (bir_result bounded). length (iag_nodes g)) else n) = Ok (i, t)"
      using Cons.IH by blast
    then show ?case by (simp add: seed run Let_def)
  qed auto
  have impacts: "\<exists>i t. changed_impacts store md seeds limit = Ok (i, t)" for seeds
    using loop[of "take limit (bt_keys seeds)" limit] by (auto simp: changed_impacts_def)
  obtain fn tn fe te where n: "snapshot_nodes a store = Ok fn" "snapshot_nodes b store = Ok tn"
    and e: "snapshot_edges a store = Ok fe" "snapshot_edges b store = Ok te"
    using nodes[of a] nodes[of b] edges[of a] edges[of b] by metis
  obtain cs where "changed_nodes_of sj fn tn = Ok cs"
    using changed_nodes_answer[OF assms(2), of fn a tn b] snapshot_nodes_Ok[OF n(1)] snapshot_nodes_Ok(3)[OF n(2)]
    by (auto simp: bt_get_member)
  with n e show ?thesis
    using impacts[of "changed_impact_seeds a b (only_in tn fn) (only_in fn tn) cs"]
    by (auto simp: build_schema_diff_def Let_def)
qed

lemma sample_readable: "readable sample_reader sample_graph"
  by (simp add: readable_def sample_reader_def list_all_iff)

lemma diff_answers:
  assumes "no_read_faults store" and "readable sj store"
  shows "\<exists>d. schema_diff sj a b store = Ok d" "\<exists>r. schema_diff_bounded sj a b limit store = Ok r"
  using build_answers[OF assms, of a b DEFAULT_SCHEMA_DIFF_IMPACT_MAX_DEPTH]
  by (auto simp: schema_diff_def schema_diff_with_impact_depth_def schema_diff_bounded_def try_with_Ok_iff)

lemma sample_comparable: "comparable_snapshot ''s'' sample_graph" "comparable_snapshot ''t'' sample_graph"
proof -
  have "comparable_object_key ''a'' = ''a''" "comparable_object_key ''b'' = ''b''" "comparable_object_key ''c'' = ''c''"
    by code_simp+
  then show "comparable_snapshot ''s'' sample_graph" "comparable_snapshot ''t'' sample_graph"
    by (auto simp: comparable_snapshot_def snapshot_rows_def sample_graph_def sample_conn_def sample_node_def inj_on_def)
qed

lemma sample_sizes:
  "length (gd_nodes (cn_db sample_graph)) \<le> usize_MAX" "length (gd_edges (cn_db sample_graph)) \<le> usize_MAX"
  by (simp_all add: sample_graph_def sample_conn_def usize_MAX_def)

lemma diff_reflexive:
  assumes "schema_diff_bounded sj a a limit store = Ok r"
  shows "bsd_diff r = \<lparr>sdf_from_snapshot_key = a, sdf_to_snapshot_key = a, sdf_added_nodes = [],
      sdf_removed_nodes = [], sdf_changed_nodes = [], sdf_added_edges = [], sdf_removed_edges = [],
      sdf_impacted = []\<rparr>
    \<and> bsd_counts r = \<lparr>sdc_added_nodes = 0, sdc_removed_nodes = 0, sdc_changed_nodes = 0, sdc_added_edges = 0,
      sdc_removed_edges = 0, sdc_impacted_seeds = 0\<rparr>
    \<and> \<not> bsd_truncated r"
  using assms unfolding schema_diff_bounded_def
proof (rule build_Ok)
  fix fn tn fe te cs seeds impacted it
  assume n: "snapshot_nodes a store = Ok fn" "snapshot_nodes a store = Ok tn"
    "snapshot_edges a store = Ok fe" "snapshot_edges a store = Ok te"
    and cs: "changed_nodes_of sj fn tn = Ok cs"
    and seeds: "seeds = changed_impact_seeds a a (only_in tn fn) (only_in fn tn) cs"
    and imp: "changed_impacts store DEFAULT_SCHEMA_DIFF_IMPACT_MAX_DEPTH seeds limit = Ok (impacted, it)"
    and r: "bsd_diff r = \<lparr>sdf_from_snapshot_key = a, sdf_to_snapshot_key = a,
       sdf_added_nodes = take limit (only_in tn fn), sdf_removed_nodes = take limit (only_in fn tn),
       sdf_changed_nodes = take limit cs, sdf_added_edges = take limit (only_in te fe),
       sdf_removed_edges = take limit (only_in fe te), sdf_impacted = impacted\<rparr>"
      "bsd_counts r = \<lparr>sdc_added_nodes = length (only_in tn fn), sdc_removed_nodes = length (only_in fn tn),
       sdc_changed_nodes = length cs, sdc_added_edges = length (only_in te fe),
       sdc_removed_edges = length (only_in fe te), sdc_impacted_seeds = length seeds\<rparr>"
      "bsd_truncated r = (it \<or> length (only_in tn fn) > limit \<or> length (only_in fn tn) > limit
       \<or> length cs > limit \<or> length (only_in te fe) > limit \<or> length (only_in fe te) > limit)"
  have same: "tn = fn" "te = fe" using n by simp_all
  have "cs = []" using changed_nodes_self[OF cs[unfolded same]] snapshot_nodes_Ok(1)[OF n(1)] .
  moreover then have "seeds = []" by (simp add: seeds same only_in_self changed_impact_seeds_def)
  moreover then have "impacted = [] \<and> \<not> it" using imp by (auto simp: changed_impacts_def bt_keys_def)
  ultimately show ?thesis by (simp add: r same only_in_self)
qed

lemma diff_exact:
  assumes "schema_diff sj a b store = Ok d" and "comparable_snapshot a store" and "comparable_snapshot b store"
    and "length (gd_nodes (cn_db store)) \<le> usize_MAX" and "length (gd_edges (cn_db store)) \<le> usize_MAX"
  shows "set (sdf_added_nodes d) =
      {n \<in> snapshot_rows b store. \<forall>m\<in>snapshot_rows a store. node_match m \<noteq> node_match n}
    \<and> set (sdf_removed_nodes d) =
      {n \<in> snapshot_rows a store. \<forall>m\<in>snapshot_rows b store. node_match m \<noteq> node_match n}
    \<and> set (sdf_changed_nodes d) =
      {c. cgn_from c \<in> snapshot_rows a store \<and> cgn_to c \<in> snapshot_rows b store
        \<and> node_match (cgn_from c) = node_match (cgn_to c) \<and> differs sj (cgn_from c) (cgn_to c)}
    \<and> comparable_edge_key ` set (sdf_added_edges d) =
        comparable_edge_key ` snapshot_edge_rows b store - comparable_edge_key ` snapshot_edge_rows a store
    \<and> comparable_edge_key ` set (sdf_removed_edges d) =
        comparable_edge_key ` snapshot_edge_rows a store - comparable_edge_key ` snapshot_edge_rows b store"
proof -
  obtain r where run: "build_schema_diff sj a b DEFAULT_SCHEMA_DIFF_IMPACT_MAX_DEPTH usize_MAX store = Ok r"
    and d: "d = bsd_diff r"
    using assms(1) by (auto simp: schema_diff_def schema_diff_with_impact_depth_def try_with_Ok_iff)
  show ?thesis
  proof (rule build_Ok[OF run])
    fix fn tn fe te cs seeds impacted it
    assume n: "snapshot_nodes a store = Ok fn" "snapshot_nodes b store = Ok tn"
      and e: "snapshot_edges a store = Ok fe" "snapshot_edges b store = Ok te"
      and cs: "changed_nodes_of sj fn tn = Ok cs"
      and r: "bsd_diff r = \<lparr>sdf_from_snapshot_key = a, sdf_to_snapshot_key = b,
         sdf_added_nodes = take usize_MAX (only_in tn fn), sdf_removed_nodes = take usize_MAX (only_in fn tn),
         sdf_changed_nodes = take usize_MAX cs, sdf_added_edges = take usize_MAX (only_in te fe),
         sdf_removed_edges = take usize_MAX (only_in fe te), sdf_impacted = impacted\<rparr>"
    have "length cs \<le> usize_MAX"
      using changed_nodes_length[OF cs] node_lists_length(2)[OF n(2)] assms(4) by linarith
    then show ?thesis
      using node_lists_length(1)[OF n(1), of tn] node_lists_length(1)[OF n(2), of fn]
        edge_lists_length[OF e(1), of te] edge_lists_length[OF e(2), of fe] assms(4,5)
        only_in_nodes[OF n assms(3)] only_in_nodes[OF n(2,1) assms(2)] changed_pairs[OF n assms(2,3) cs]
        only_in_edges[OF e] only_in_edges[OF e(2,1)]
      by (simp add: d r)
  qed
qed

lemma diff_bounded:
  assumes "schema_diff_bounded sj a b limit store = Ok r" and "schema_diff sj a b store = Ok d" and "limit < usize_MAX"
    and "length (gd_nodes (cn_db store)) \<le> usize_MAX" and "length (gd_edges (cn_db store)) \<le> usize_MAX"
  shows "sdf_added_nodes (bsd_diff r) = take limit (sdf_added_nodes d)
    \<and> sdf_removed_nodes (bsd_diff r) = take limit (sdf_removed_nodes d)
    \<and> sdf_changed_nodes (bsd_diff r) = take limit (sdf_changed_nodes d)
    \<and> sdf_added_edges (bsd_diff r) = take limit (sdf_added_edges d)
    \<and> sdf_removed_edges (bsd_diff r) = take limit (sdf_removed_edges d)
    \<and> sdc_added_nodes (bsd_counts r) = length (sdf_added_nodes d)
    \<and> sdc_removed_nodes (bsd_counts r) = length (sdf_removed_nodes d)
    \<and> sdc_changed_nodes (bsd_counts r) = length (sdf_changed_nodes d)
    \<and> sdc_added_edges (bsd_counts r) = length (sdf_added_edges d)
    \<and> sdc_removed_edges (bsd_counts r) = length (sdf_removed_edges d)
    \<and> impact_total (sdf_impacted (bsd_diff r)) \<le> limit
    \<and> (\<not> bsd_truncated r \<longrightarrow>
         sdf_added_nodes (bsd_diff r) = sdf_added_nodes d \<and> sdf_removed_nodes (bsd_diff r) = sdf_removed_nodes d
         \<and> sdf_changed_nodes (bsd_diff r) = sdf_changed_nodes d \<and> sdf_added_edges (bsd_diff r) = sdf_added_edges d
         \<and> sdf_removed_edges (bsd_diff r) = sdf_removed_edges d)"
proof -
  obtain full where run: "build_schema_diff sj a b DEFAULT_SCHEMA_DIFF_IMPACT_MAX_DEPTH usize_MAX store = Ok full"
    and d: "d = bsd_diff full"
    using assms(2) by (auto simp: schema_diff_def schema_diff_with_impact_depth_def try_with_Ok_iff)
  show ?thesis
  proof (rule build_Ok[OF run], rule build_Ok[OF assms(1)[unfolded schema_diff_bounded_def]])
    fix fn tn fe te cs seeds impacted it fn' tn' fe' te' cs' seeds' impacted' it'
    assume n: "snapshot_nodes a store = Ok fn" "snapshot_nodes b store = Ok tn"
      "snapshot_edges a store = Ok fe" "snapshot_edges b store = Ok te" "changed_nodes_of sj fn tn = Ok cs"
      and n': "snapshot_nodes a store = Ok fn'" "snapshot_nodes b store = Ok tn'"
      "snapshot_edges a store = Ok fe'" "snapshot_edges b store = Ok te'" "changed_nodes_of sj fn' tn' = Ok cs'"
      and imp: "changed_impacts store DEFAULT_SCHEMA_DIFF_IMPACT_MAX_DEPTH seeds' limit = Ok (impacted', it')"
      and r: "bsd_diff full = \<lparr>sdf_from_snapshot_key = a, sdf_to_snapshot_key = b,
         sdf_added_nodes = take usize_MAX (only_in tn fn), sdf_removed_nodes = take usize_MAX (only_in fn tn),
         sdf_changed_nodes = take usize_MAX cs, sdf_added_edges = take usize_MAX (only_in te fe),
         sdf_removed_edges = take usize_MAX (only_in fe te), sdf_impacted = impacted\<rparr>"
      and r': "bsd_diff r = \<lparr>sdf_from_snapshot_key = a, sdf_to_snapshot_key = b,
         sdf_added_nodes = take limit (only_in tn' fn'), sdf_removed_nodes = take limit (only_in fn' tn'),
         sdf_changed_nodes = take limit cs', sdf_added_edges = take limit (only_in te' fe'),
         sdf_removed_edges = take limit (only_in fe' te'), sdf_impacted = impacted'\<rparr>"
        "bsd_counts r = \<lparr>sdc_added_nodes = length (only_in tn' fn'), sdc_removed_nodes = length (only_in fn' tn'),
         sdc_changed_nodes = length cs', sdc_added_edges = length (only_in te' fe'),
         sdc_removed_edges = length (only_in fe' te'), sdc_impacted_seeds = length seeds'\<rparr>"
        "bsd_truncated r = (it' \<or> length (only_in tn' fn') > limit \<or> length (only_in fn' tn') > limit
         \<or> length cs' > limit \<or> length (only_in te' fe') > limit \<or> length (only_in fe' te') > limit)"
    have same: "fn' = fn" "tn' = tn" "fe' = fe" "te' = te" "cs' = cs" using n n' by simp_all
    have cs: "length cs \<le> usize_MAX"
      using changed_nodes_length[OF n(5)] node_lists_length(2)[OF n(2)] assms(4) by linarith
    have "impact_total impacted' \<le> limit"
      using imp impacts_total[OF _ assms(3)] by (auto simp: changed_impacts_def try_with_Ok_iff)
    then show ?thesis
      using node_lists_length(1)[OF n(1), of tn] node_lists_length(1)[OF n(2), of fn]
        edge_lists_length[OF n(3), of te] edge_lists_length[OF n(4), of fe] assms(4,5) cs
      by (simp add: d r r' same not_less)
  qed
qed

section \<open>Properties\<close>

text \<open>A snapshot does not differ from itself. While the store can be read and its payloads parse,
  the comparison of a snapshot with itself returns; it reports no added, removed or changed object, no
  added or removed edge and no impact, and it is not truncated.\<close>

lemma schema_diff_reflexive:
  assumes "no_read_faults store" and "readable sj store"
  shows "\<exists>r. schema_diff_bounded sj a a limit store = Ok r
    \<and> bsd_diff r = \<lparr>sdf_from_snapshot_key = a, sdf_to_snapshot_key = a, sdf_added_nodes = [],
      sdf_removed_nodes = [], sdf_changed_nodes = [], sdf_added_edges = [], sdf_removed_edges = [],
      sdf_impacted = []\<rparr>
    \<and> bsd_counts r = \<lparr>sdc_added_nodes = 0, sdc_removed_nodes = 0, sdc_changed_nodes = 0, sdc_added_edges = 0,
      sdc_removed_edges = 0, sdc_impacted_seeds = 0\<rparr>
    \<and> \<not> bsd_truncated r"
  using diff_answers(2)[OF assms] diff_reflexive by metis



text \<open>C36: a bounded comparison returns and is honest. Its lists are the beginnings of the full lists,
  none longer than the limit, its counts are the lengths of the full lists, the impact analyses together list at most the
  limit, and when it is not marked as truncated the lists are the full ones.\<close>

theorem bounded_schema_diff_honest:
  assumes "no_read_faults store" and "readable sj store" and "limit < usize_MAX"
    and "length (gd_nodes (cn_db store)) \<le> usize_MAX" and "length (gd_edges (cn_db store)) \<le> usize_MAX"
  shows "\<exists>r d. schema_diff_bounded sj a b limit store = Ok r \<and> schema_diff sj a b store = Ok d
    \<and> sdf_added_nodes (bsd_diff r) = take limit (sdf_added_nodes d)
    \<and> sdf_removed_nodes (bsd_diff r) = take limit (sdf_removed_nodes d)
    \<and> sdf_changed_nodes (bsd_diff r) = take limit (sdf_changed_nodes d)
    \<and> sdf_added_edges (bsd_diff r) = take limit (sdf_added_edges d)
    \<and> sdf_removed_edges (bsd_diff r) = take limit (sdf_removed_edges d)
    \<and> sdc_added_nodes (bsd_counts r) = length (sdf_added_nodes d)
    \<and> sdc_removed_nodes (bsd_counts r) = length (sdf_removed_nodes d)
    \<and> sdc_changed_nodes (bsd_counts r) = length (sdf_changed_nodes d)
    \<and> sdc_added_edges (bsd_counts r) = length (sdf_added_edges d)
    \<and> sdc_removed_edges (bsd_counts r) = length (sdf_removed_edges d)
    \<and> impact_total (sdf_impacted (bsd_diff r)) \<le> limit
    \<and> (\<not> bsd_truncated r \<longrightarrow>
         sdf_added_nodes (bsd_diff r) = sdf_added_nodes d \<and> sdf_removed_nodes (bsd_diff r) = sdf_removed_nodes d
         \<and> sdf_changed_nodes (bsd_diff r) = sdf_changed_nodes d \<and> sdf_added_edges (bsd_diff r) = sdf_added_edges d
         \<and> sdf_removed_edges (bsd_diff r) = sdf_removed_edges d)"
proof -
  obtain r d where run: "schema_diff_bounded sj a b limit store = Ok r" "schema_diff sj a b store = Ok d"
    using diff_answers[OF assms(1,2)] by blast
  show ?thesis
    by (intro exI[of _ r] exI[of _ d] conjI[OF run(1)] conjI[OF run(2)]) (rule diff_bounded[OF run assms(3-5)])
qed

theorem bounded_schema_diff_honest_witness:
  "\<exists>r. schema_diff_bounded sample_reader ''t'' ''s'' 1 sample_graph = Ok r
     \<and> impact_total (sdf_impacted (bsd_diff r)) \<le> 1"
proof -
  have "1 < usize_MAX" by (simp add: usize_MAX_def)
  from bounded_schema_diff_honest[OF sample_graph_reads sample_readable this sample_sizes, of "''t''" "''s''"]
  show ?thesis by blast
qed

end
