(* ===== verification/Mcp_Tools.thy ===== *)
theory Mcp_Tools
  imports Mcp_Types Table_Descriptions Graph_Query Schema_Diff
begin

text \<open>
  \<open>tools.rs\<close> of the MCP server: every tool opens the cache it is given, resolves the snapshot and answers from the
  stored graph; one tool indexes a database. A \<open>PathBuf\<close> made from a text is that text. The file system, the
  SQLite library that opens a file, the clock and the adapters are the parameter \<open>mcp_world\<close>; decoders, encoders
  and lower-casing are the parameter \<open>mcp_library\<close>. The functions of \<open>tools.rs\<close> that read the parts of
  a table have the text of those in the command line's \<open>metadata.rs\<close> and are shared with it
  (theory \<open>Table_Lookup\<close>).
\<close>

section \<open>Parameters\<close>

record mcp_world =
  mw_exists :: "string \<Rightarrow> bool"
  mw_connect :: "string \<Rightarrow> (string, Connection) result"
  mw_create_dir_all :: "path \<Rightarrow> (IoError, unit) result"
  mw_since_epoch :: "nat option"
  mw_adapters :: adapters

record mcp_library =
  ml_serde :: serde
  ml_readers :: readers
  ml_lowercase :: "string \<Rightarrow> string"

definition DEFAULT_CACHE_PATH :: string where "DEFAULT_CACHE_PATH = ''.database-memory/graph.sqlite''"
definition DEFAULT_PAGE_LIMIT :: nat where "DEFAULT_PAGE_LIMIT = 100"
definition MAX_PAGE_LIMIT :: nat where "MAX_PAGE_LIMIT = 500"
definition MCP_DEFAULT_TRAVERSAL_DEPTH :: nat where "MCP_DEFAULT_TRAVERSAL_DEPTH = 3"
definition MCP_MAX_TRAVERSAL_DEPTH :: nat where "MCP_MAX_TRAVERSAL_DEPTH = 8"
definition MCP_DEFAULT_RESULT_LIMIT :: nat where "MCP_DEFAULT_RESULT_LIMIT = 100"
definition MCP_MAX_RESULT_LIMIT :: nat where "MCP_MAX_RESULT_LIMIT = 200"

section \<open>Opening a cache\<close>

definition cache_path_of :: "string option \<Rightarrow> string" where
  "cache_path_of cache_path = or_default cache_path DEFAULT_CACHE_PATH"

definition open_store :: "mcp_world \<Rightarrow> string \<Rightarrow> (GraphStoreError, Connection) result" where
  "open_store w cache_path = try_with (map_err Storage (mw_connect w cache_path)) from_connection"

definition open_existing_store :: "mcp_world \<Rightarrow> string \<Rightarrow> (string, Connection) result" where
  "open_existing_store w cache_path =
     (if \<not> mw_exists w cache_path
      then Err (''cache path '' @ quoted cache_path @ '' not found; run index first'')
      else store_text (open_store w cache_path))"

definition open_contract_cache :: "mcp_world \<Rightarrow> string \<Rightarrow> (InterfaceError, Connection) result" where
  "open_contract_cache w cache_path =
     map_err (storage_error ''could not open graph cache'') (open_store w cache_path)"

definition open_existing_contract_store :: "mcp_world \<Rightarrow> string \<Rightarrow> (InterfaceError, Connection) result" where
  "open_existing_contract_store w cache_path =
     (if \<not> mw_exists w cache_path
      then Err (invalid_request AtSnapshotLookup (''cache path '' @ quoted cache_path @ '' was not found'')
        ''run index_database first or provide an existing cache_path'')
      else open_contract_cache w cache_path)"

definition ensure_parent_dir :: "mcp_world \<Rightarrow> string \<Rightarrow> (IoError, unit) result" where
  "ensure_parent_dir w cache_path =
     (case parent (components cache_path) of
        Some dir \<Rightarrow> if dir = [] then Ok () else mw_create_dir_all w dir
      | None \<Rightarrow> Ok ())"

text \<open>The milliseconds since the epoch, cut to 64 bits and read as a signed number; zero before the epoch.\<close>

definition now_unix_ms :: "mcp_world \<Rightarrow> int" where
  "now_unix_ms w =
     (let ms = or_default (mw_since_epoch w) 0 mod 2 ^ 64
      in if ms \<le> i64_MAX then int ms else int ms - 2 ^ 64)"

section \<open>Selectors\<close>

definition mcp_resolve_snapshot_key :: "string \<Rightarrow> Connection \<Rightarrow> (string, string) result" where
  "mcp_resolve_snapshot_key selector store =
     try_with (store_text (get_snapshot selector store)) (\<lambda>found.
       if found \<noteq> None then Ok selector
       else try_with (store_text (list_snapshots store)) (\<lambda>snapshots.
         (let keys = map gs_snapshot_key (filter (\<lambda>snapshot.
                alias_from_snapshot_key (gs_snapshot_key snapshot) = selector) snapshots)
          in case keys of
               [snapshot_key] \<Rightarrow> Ok snapshot_key
             | [] \<Rightarrow> Err (''database snapshot '' @ quoted selector @ '' not found'')
             | _ \<Rightarrow> Err (''database alias '' @ quoted selector @ '' is ambiguous; pass one snapshot key: ''
                 @ join_with '', '' keys))))"

definition mcp_parse_direction :: "string \<Rightarrow> (string, Direction) result" where
  "mcp_parse_direction direction =
     (if direction = ''inbound'' then Ok Inbound
      else if direction = ''outbound'' then Ok Outbound
      else if direction = ''both'' then Ok Both
      else Err (''unknown direction '' @ quoted direction @ ''; expected inbound, outbound, or both''))"

definition parse_object_kind :: "string option \<Rightarrow> (InterfaceError, ObjectKind option) result" where
  "parse_object_kind kind =
     (case kind of
        None \<Rightarrow> Ok None
      | Some k \<Rightarrow>
          (case kind_from_str k of
             Inr parsed \<Rightarrow> Ok (Some parsed)
           | Inl _ \<Rightarrow> Err (invalid_request AtObjectLookup (''unknown object kind '' @ quoted k)
               ''use an object kind listed by get_contract'')))"

definition mcp_find_table_node :: "string \<Rightarrow> string \<Rightarrow> Connection \<Rightarrow> (string, GraphNodeRecord) result" where
  "mcp_find_table_node snapshot_key table_name store =
     try_with (store_text (get_node snapshot_key table_name store)) (\<lambda>found.
       case found of
         Some node \<Rightarrow>
           if gn_label node = ''Table'' then Ok node
           else Err (''graph node '' @ quoted table_name @ '' is not a table'')
       | None \<Rightarrow>
           try_with (tables_named snapshot_key table_name store) (\<lambda>found.
             case found of
               [] \<Rightarrow> Err (''table '' @ quoted table_name @ '' not found in snapshot '' @ quoted snapshot_key)
             | [node] \<Rightarrow> Ok node
             | _ \<Rightarrow> Err (''table '' @ quoted table_name @ '' is ambiguous in snapshot '' @ quoted snapshot_key
                 @ ''; pass one object key: '' @ join_with '', '' (map gn_node_key found))))"

section \<open>Pages\<close>

record 'a Page =
  pag_items :: "'a list"
  pag_metadata :: McpPageMetadata

definition paginate :: "'a list \<Rightarrow> nat option \<Rightarrow> nat option \<Rightarrow> (string, 'a Page) result" where
  "paginate items offset limit =
     (let offset = or_default offset 0;
          limit_requested = or_default limit DEFAULT_PAGE_LIMIT
      in if limit_requested = 0 then Err ''limit must be greater than zero''
         else
           (let limit_applied = min limit_requested MAX_PAGE_LIMIT
            in Ok \<lparr>pag_items = take limit_applied (drop offset items),
                 pag_metadata = \<lparr>mpg_total = length items, mpg_offset = offset, mpg_limit_requested = limit_requested,
                   mpg_limit_applied = limit_applied, mpg_limit_clamped = (limit_requested \<noteq> limit_applied),
                   mpg_has_more = (saturating_add offset limit_applied < length items)\<rparr>\<rparr>))"

section \<open>Tables and columns\<close>

definition find_tables ::
  "mcp_library \<Rightarrow> string \<Rightarrow> string option \<Rightarrow> Connection \<Rightarrow> (string, TableMatch list) result" where
  "find_tables lib snapshot_key name_filter store =
     try_with (store_text (nodes_by_label snapshot_key ''Table'' store)) (\<lambda>nodes.
     try_with (try_fold (\<lambda>node tables.
           try_with (object_key_of node) (\<lambda>key.
             Ok (if (case name_filter of
                       Some needle \<Rightarrow> contains_str (ml_lowercase lib (ok_object_name key)) (ml_lowercase lib needle)
                     | None \<Rightarrow> True)
                 then tables @ [\<lparr>tmt_object_key = gn_node_key node, tmt_database = ok_database key,
                   tmt_schema = ok_schema key, tmt_table = ok_object_name key\<rparr>]
                 else tables)))
         nodes []) (\<lambda>tables.
       Ok (sort_key (\<lambda>m. (tmt_database m, tmt_schema m, tmt_table m, tmt_object_key m)) tables)))"

definition find_columns :: "mcp_library \<Rightarrow> string \<Rightarrow> string \<Rightarrow> Connection \<Rightarrow> (string, ColumnMatch list) result" where
  "find_columns lib snapshot_key query store =
     try_with (store_text (nodes_by_label snapshot_key ''Column'' store)) (\<lambda>nodes.
     try_with (try_fold (\<lambda>node columns.
           try_with (object_key_of node) (\<lambda>key.
             (let column = or_default (ok_sub_object key) (ok_object_name key)
              in Ok (if contains_str (ml_lowercase lib column) (ml_lowercase lib query)
                     then columns @ [\<lparr>cmt_object_key = gn_node_key node,
                       cmt_table_key = key_to_string (table_of_column key), cmt_database = ok_database key,
                       cmt_schema = ok_schema key, cmt_table = ok_object_name key, cmt_column = column\<rparr>]
                     else columns))))
         nodes []) (\<lambda>columns.
       Ok (sort_key (\<lambda>m. (cmt_database m, cmt_schema m, cmt_table m, cmt_column m, cmt_object_key m)) columns)))"

definition resolve_object_key ::
  "mcp_library \<Rightarrow> string \<Rightarrow> string option \<Rightarrow> string option \<Rightarrow> string option \<Rightarrow> Connection \<Rightarrow> (string, string) result" where
  "resolve_object_key lib snapshot_key object_key table column store =
     (case object_key of
        Some object_key \<Rightarrow> try_with (required_node snapshot_key object_key store) (\<lambda>_. Ok object_key)
      | None \<Rightarrow>
          (case (table, column) of
             (Some table_name, Some column) \<Rightarrow>
               try_with (mcp_find_table_node snapshot_key table_name store) (\<lambda>table.
               try_with (table_columns (ml_readers lib) snapshot_key (gn_node_key table) store) (\<lambda>columns.
                 ok_or (''column '' @ quoted column @ '' not found on table '' @ quoted table_name)
                   (map_option (\<lambda>c. key_to_string (col_key c)) (List.find (\<lambda>c. col_name c = column) columns))))
           | (Some table, None) \<Rightarrow>
               try_with (mcp_find_table_node snapshot_key table store) (\<lambda>node. Ok (gn_node_key node))
           | (None, Some column) \<Rightarrow>
               try_with (find_columns lib snapshot_key column store) (\<lambda>columns.
                 case filter (\<lambda>item. cmt_column item = column) columns of
                   [item] \<Rightarrow> Ok (cmt_object_key item)
                 | [] \<Rightarrow> Err (''column '' @ quoted column @ '' not found in snapshot '' @ quoted snapshot_key)
                 | _ \<Rightarrow> Err (''column '' @ quoted column @ '' is ambiguous; pass table and column together''))
           | (None, None) \<Rightarrow> Err ''pass object_key, table, or table plus column''))"

section \<open>Descriptions\<close>

definition mcp_foreign_key_description :: "ConstraintObject \<Rightarrow> McpForeignKeyDescription" where
  "mcp_foreign_key_description constraint =
     \<lparr>mfk_object_key = key_to_string (con_key constraint), mfk_name = con_name constraint,
       mfk_table_key = key_to_string (con_table_key constraint), mfk_table = ok_object_name (con_table_key constraint),
       mfk_column_keys = keys_as_strings (con_columns constraint), mfk_columns = names_from_keys (con_columns constraint),
       mfk_referenced_table_key = map_option key_to_string (con_referenced_table_key constraint),
       mfk_referenced_table = or_default (map_option ok_object_name (con_referenced_table_key constraint)) [],
       mfk_referenced_column_keys = keys_as_strings (con_referenced_columns constraint),
       mfk_referenced_columns = names_from_keys (con_referenced_columns constraint)\<rparr>"

definition constraint_description :: "ConstraintObject \<Rightarrow> ConstraintDescription" where
  "constraint_description constraint =
     \<lparr>cnd_object_key = key_to_string (con_key constraint), cnd_name = con_name constraint,
       cnd_kind = constraint_kind_name (con_kind constraint), cnd_column_keys = keys_as_strings (con_columns constraint),
       cnd_columns = names_from_keys (con_columns constraint),
       cnd_referenced_table_key = map_option key_to_string (con_referenced_table_key constraint),
       cnd_referenced_column_keys = keys_as_strings (con_referenced_columns constraint),
       cnd_expression = con_expression constraint\<rparr>"

definition column_description :: "ColumnObject \<Rightarrow> ColumnDescription" where
  "column_description column =
     \<lparr>cld_object_key = key_to_string (col_key column), cld_name = col_name column,
       cld_ordinal_position = col_ordinal_position column, cld_data_type = col_data_type column,
       cld_nullable = col_is_nullable column, cld_default_value = col_default_value column,
       cld_generated = col_is_generated column\<rparr>"

definition index_description :: "IndexObject \<Rightarrow> IndexDescription" where
  "index_description index =
     \<lparr>ixd_object_key = key_to_string (idx_key index), ixd_name = idx_name index,
       ixd_column_keys = keys_as_strings (idx_columns index), ixd_columns = names_from_keys (idx_columns index),
       ixd_unique = idx_is_unique index, ixd_primary = idx_is_primary index, ixd_predicate = idx_predicate index,
       ixd_expression = idx_expression index\<rparr>"

definition mcp_primary_key_columns :: "ConstraintObject list \<Rightarrow> ObjectKey list" where
  "mcp_primary_key_columns constraints =
     or_default (map_option con_columns (List.find (\<lambda>c. con_kind c = ConstraintKind.PrimaryKey) constraints)) []"

definition mcp_describe_table ::
  "mcp_library \<Rightarrow> string \<Rightarrow> string \<Rightarrow> Connection \<Rightarrow> (string, McpTableDescription) result" where
  "mcp_describe_table lib snapshot_key table_name store =
     try_with (mcp_find_table_node snapshot_key table_name store) (\<lambda>table.
     try_with (object_key_of table) (\<lambda>table_identity.
     try_with (table_columns (ml_readers lib) snapshot_key (gn_node_key table) store) (\<lambda>columns.
     try_with (table_constraints (ml_readers lib) snapshot_key (gn_node_key table) store) (\<lambda>constraints.
     try_with (inbound_constraints (ml_readers lib) snapshot_key columns store) (\<lambda>inbound.
     try_with (table_indexes (ml_readers lib) snapshot_key (gn_node_key table) store) (\<lambda>indexes.
     try_with (snapshot_capability_warnings (ml_serde lib) snapshot_key store) (\<lambda>warnings.
       Ok \<lparr>mtd_snapshot_key = snapshot_key, mtd_object_key = gn_node_key table,
            mtd_database = ok_database table_identity, mtd_schema = ok_schema table_identity,
            mtd_table = ok_object_name table_identity, mtd_columns = map column_description columns,
            mtd_primary_key = names_from_keys (mcp_primary_key_columns constraints),
            mtd_primary_key_keys = keys_as_strings (mcp_primary_key_columns constraints),
            mtd_constraints = map constraint_description constraints,
            mtd_foreign_keys =
              \<lparr>fks_outbound = sort_key mfk_name (map mcp_foreign_key_description
                 (filter (\<lambda>c. con_kind c = ConstraintKind.ForeignKey) constraints)),
               fks_inbound = sort_key mfk_name (map mcp_foreign_key_description inbound)\<rparr>,
            mtd_indexes = map index_description indexes, mtd_capability_warnings = warnings\<rparr>)))))))"

section \<open>JSON of the traversals and the comparison\<close>

definition node_json :: "serde \<Rightarrow> GraphNodeRecord \<Rightarrow> json" where
  "node_json sj node =
     json_members
       [(''snapshot_key'', JString (gn_snapshot_key node)), (''node_key'', JString (gn_node_key node)),
        (''label'', JString (gn_label node)), (''display_name'', joption JString (gn_display_name node)),
        (''payload'', parse_or_null sj (gn_payload_json node))]"

definition edge_json :: "serde \<Rightarrow> GraphEdgeRecord \<Rightarrow> json" where
  "edge_json sj edge =
     json_members
       [(''snapshot_key'', JString (ge_snapshot_key edge)), (''edge_key'', JString (ge_edge_key edge)),
        (''edge_from'', JString (ge_edge_from edge)), (''edge_to'', JString (ge_edge_to edge)),
        (''edge_type'', JString (ge_edge_type edge)), (''payload'', parse_or_null sj (ge_payload_json edge))]"

definition impact_members :: "ImpactAnalysisResult \<Rightarrow> (string \<times> json) list" where
  "impact_members result =
     [(''snapshot_key'', JString (iar_snapshot_key result)), (''object_key'', JString (iar_object_key result)),
      (''direction'', JString (direction_name (iar_direction result))), (''max_depth'', jnat (iar_max_depth result)),
      (''groups'', JArray (map (\<lambda>group. json_members
         [(''label'', JString (iag_label group)), (''depth'', jnat (iag_depth group)),
          (''nodes'', JArray (map (\<lambda>node. json_members
             [(''node_key'', JString (ian_node_key node)), (''label'', JString (ian_label node)),
              (''display_name'', joption JString (ian_display_name node)), (''depth'', jnat (ian_depth node)),
              (''edge_type_used'', JString (ian_edge_type_used node)), (''edge_from'', JString (ian_edge_from node)),
              (''edge_to'', JString (ian_edge_to node))]) (iag_nodes group)))]) (iar_groups result)))]"

definition impact_json :: "ImpactAnalysisResult \<Rightarrow> json" where
  "impact_json result = json_members (impact_members result)"

definition graph_paths_json :: "GraphPath list \<Rightarrow> json" where
  "graph_paths_json paths =
     JArray (map (\<lambda>hops. json_members
       [(''hops'', JArray (map (\<lambda>hop. json_members
          [(''node_key'', JString (gph_node_key hop)), (''label'', JString (gph_label hop)),
           (''edge_type_used'', joption JString (gph_edge_type_used hop)),
           (''edge_from'', joption JString (gph_edge_from hop)), (''edge_to'', joption JString (gph_edge_to hop))]) hops))])
       paths)"

definition schema_diff_json :: "serde \<Rightarrow> BoundedSchemaDiff \<Rightarrow> nat \<Rightarrow> nat \<Rightarrow> json" where
  "schema_diff_json sj bounded result_limit_requested result_limit_applied =
     (let diff = bsd_diff bounded; counts = bsd_counts bounded
      in json_members
        [(''from_snapshot_key'', JString (sdf_from_snapshot_key diff)),
         (''to_snapshot_key'', JString (sdf_to_snapshot_key diff)),
         (''counts'', json_members
            [(''added_nodes'', jnat (sdc_added_nodes counts)), (''removed_nodes'', jnat (sdc_removed_nodes counts)),
             (''changed_nodes'', jnat (sdc_changed_nodes counts)), (''added_edges'', jnat (sdc_added_edges counts)),
             (''removed_edges'', jnat (sdc_removed_edges counts)),
             (''impacted_seeds'', jnat (sdc_impacted_seeds counts))]),
         (''result_limit_requested'', jnat result_limit_requested),
         (''result_limit_applied'', jnat result_limit_applied),
         (''result_limit_clamped'', JBool (result_limit_requested \<noteq> result_limit_applied)),
         (''truncated'', JBool (bsd_truncated bounded)),
         (''added_nodes'', JArray (map (node_json sj) (sdf_added_nodes diff))),
         (''removed_nodes'', JArray (map (node_json sj) (sdf_removed_nodes diff))),
         (''changed_nodes'', JArray (map (\<lambda>changed. json_members
            [(''from'', node_json sj (cgn_from changed)), (''to'', node_json sj (cgn_to changed))])
            (sdf_changed_nodes diff))),
         (''added_edges'', JArray (map (edge_json sj) (sdf_added_edges diff))),
         (''removed_edges'', JArray (map (edge_json sj) (sdf_removed_edges diff))),
         (''impacted'', JArray (map (\<lambda>impact. json_members
            [(''seed_node_key'', JString (sdi_seed_node_key impact)), (''snapshot_key'', JString (sdi_snapshot_key impact)),
             (''truncated'', JBool (sdi_truncated impact)), (''impact'', impact_json (sdi_impact impact))])
            (sdf_impacted diff)))])"

section \<open>The tools of the interface contract\<close>

text \<open>Indexing also returns the connection it leaves behind, if it opened one; None is a panic.\<close>

definition complete_request :: "IndexDatabaseRequest \<Rightarrow> CompleteIndexRequest" where
  "complete_request request =
     (new_index_request (idr_source request) (map_option components (idr_path request))
        (idr_connection_string request) (idr_alias request))
       \<lparr>cir_requested_catalogs := idr_requested_catalogs request,
        cir_requested_schemas := idr_requested_schemas request,
        cir_timeout_ms := or_default (idr_timeout_ms request) DEFAULT_TIMEOUT_MS\<rparr>"

definition io_storage_error :: "string \<Rightarrow> IoError \<Rightarrow> InterfaceError" where
  "io_storage_error operation err =
     new_interface_error IfStorageFailed AtPersistence (operation @ '': '' @ io_text err)
       ''verify the cache path and local filesystem, then retry'' True"

definition index_database_for_request ::
  "mcp_library \<Rightarrow> mcp_world \<Rightarrow> IndexDatabaseRequest
    \<Rightarrow> ((InterfaceError, IndexResult) result \<times> Connection option) option" where
  "index_database_for_request lib w request =
     (let cache_path = cache_path_of (idr_cache_path request)
      in case ensure_parent_dir w cache_path of
           Inl err \<Rightarrow> Some (Err (io_storage_error ''could not create cache directory'' err), None)
         | Inr _ \<Rightarrow>
             (case open_contract_cache w cache_path of
                Inl err \<Rightarrow> Some (Err err, None)
              | Inr store \<Rightarrow>
                  map_option (map_prod id Some)
                    (index_complete_source (mw_adapters w) (ml_serde lib) (complete_request request)
                      (now_unix_ms w) cache_path store)))"

text \<open>The text of an error of the contract, with the derived names of its code and stage.\<close>

fun interface_code_debug :: "InterfaceErrorCode \<Rightarrow> string" where
  "interface_code_debug IfInvalidRequest = ''InvalidRequest''"
| "interface_code_debug IfAnalysisFailed = ''AnalysisFailed''"
| "interface_code_debug IfStorageFailed = ''StorageFailed''"
| "interface_code_debug IfSnapshotNotFound = ''SnapshotNotFound''"
| "interface_code_debug IfObjectNotFound = ''ObjectNotFound''"
| "interface_code_debug IfInvalidMetadata = ''InvalidMetadata''"

fun interface_stage_debug :: "InterfaceStage \<Rightarrow> string" where
  "interface_stage_debug AtConfigurationStage = ''Configuration''"
| "interface_stage_debug AtAnalysisStage = ''Analysis''"
| "interface_stage_debug AtPersistence = ''Persistence''"
| "interface_stage_debug AtSnapshotLookup = ''SnapshotLookup''"
| "interface_stage_debug AtObjectLookup = ''ObjectLookup''"
| "interface_stage_debug AtSerialization = ''Serialization''"

definition interface_error_to_string :: "InterfaceError \<Rightarrow> string" where
  "interface_error_to_string err =
     ''interface contract '' @ interface_code_debug (ife_code err) @ '' at '' @ interface_stage_debug (ife_stage err)
     @ '': '' @ ife_message err"

definition list_databases_for_request ::
  "mcp_library \<Rightarrow> mcp_world \<Rightarrow> ListDatabasesRequest \<Rightarrow> (string, ListDatabasesResult) result option" where
  "list_databases_for_request lib w request =
     (let cache_path = cache_path_of (ldq_cache_path request)
      in if \<not> mw_exists w cache_path then Some (Ok \<lparr>ldr_cache_path = cache_path, ldr_snapshots = []\<rparr>)
         else
           try_run (Some (store_text (open_store w cache_path))) (\<lambda>store.
           try_run (map_option (map_err interface_error_to_string) (list_snapshot_summaries (ml_serde lib) store)) (\<lambda>snapshots.
             Some (Ok \<lparr>ldr_cache_path = cache_path, ldr_snapshots = snapshots\<rparr>))))"

definition list_snapshots_for_request ::
  "mcp_library \<Rightarrow> mcp_world \<Rightarrow> ListSnapshotsRequest \<Rightarrow> (InterfaceError, ListSnapshotsResult) result option" where
  "list_snapshots_for_request lib w request =
     (let cache_path = cache_path_of (lsq_cache_path request);
          reply = (\<lambda>snapshots. \<lparr>lsr_contract_version = INTERFACE_CONTRACT_VERSION, lsr_cache_path = cache_path,
            lsr_snapshots = snapshots\<rparr>)
      in if \<not> mw_exists w cache_path then Some (Ok (reply []))
         else
           try_run (Some (open_contract_cache w cache_path)) (\<lambda>store.
           try_run (list_snapshot_summaries (ml_serde lib) store) (\<lambda>snapshots. Some (Ok (reply snapshots)))))"

definition describe_snapshot_for_request ::
  "mcp_library \<Rightarrow> mcp_world \<Rightarrow> DescribeSnapshotRequest \<Rightarrow> (InterfaceError, SnapshotDetail) result option" where
  "describe_snapshot_for_request lib w request =
     try_run (Some (open_existing_contract_store w (cache_path_of (dsq_cache_path request)))) (\<lambda>store.
       describe_snapshot (ml_serde lib) (dsq_snapshot request) store)"

definition list_objects_for_request ::
  "mcp_library \<Rightarrow> mcp_world \<Rightarrow> ListObjectsRequest \<Rightarrow> (InterfaceError, ObjectPage) result option" where
  "list_objects_for_request lib w request =
     try_run (Some (open_existing_contract_store w (cache_path_of (loq_cache_path request)))) (\<lambda>store.
     try_run (Some (parse_object_kind (loq_kind request))) (\<lambda>kind.
       list_objects (ml_serde lib) (loq_snapshot request) kind None (or_default (loq_offset request) 0)
         (loq_limit request) store))"

definition find_objects_for_request ::
  "mcp_library \<Rightarrow> mcp_world \<Rightarrow> FindObjectsRequest \<Rightarrow> (InterfaceError, ObjectPage) result option" where
  "find_objects_for_request lib w request =
     try_run (Some (open_existing_contract_store w (cache_path_of (foq_cache_path request)))) (\<lambda>store.
     try_run (Some (parse_object_kind (foq_kind request))) (\<lambda>kind.
       list_objects (ml_serde lib) (foq_snapshot request) kind (Some (foq_query request))
         (or_default (foq_offset request) 0) (foq_limit request) store))"

definition describe_object_for_request ::
  "mcp_library \<Rightarrow> mcp_world \<Rightarrow> DescribeObjectRequest \<Rightarrow> (InterfaceError, ObjectDetail) result option" where
  "describe_object_for_request lib w request =
     try_run (Some (open_existing_contract_store w (cache_path_of (doq_cache_path request)))) (\<lambda>store.
       describe_object (ml_serde lib) (doq_snapshot request) (doq_object_key request)
         (doq_relationship_limit request) store)"

section \<open>The tools for tables\<close>

text \<open>What they all begin with: the store and the key of the snapshot.\<close>

definition open_snapshot :: "mcp_world \<Rightarrow> string option \<Rightarrow> string \<Rightarrow> (string, Connection \<times> string) result" where
  "open_snapshot w cache_path alias =
     try_with (open_existing_store w (cache_path_of cache_path)) (\<lambda>store.
     try_with (mcp_resolve_snapshot_key alias store) (\<lambda>snapshot_key.
     try_with (require_snapshot snapshot_key store) (\<lambda>_. Ok (store, snapshot_key))))"

definition list_tables_for_request ::
  "mcp_library \<Rightarrow> mcp_world \<Rightarrow> ListTablesRequest \<Rightarrow> (string, ListTablesResult) result" where
  "list_tables_for_request lib w request =
     try_with (open_snapshot w (ltq_cache_path request) (ltq_alias request)) (\<lambda>(store, snapshot_key).
     try_with (find_tables lib snapshot_key (ltq_name_filter request) store) (\<lambda>found.
     try_with (paginate found (ltq_offset request) (ltq_limit request)) (\<lambda>page.
       Ok \<lparr>ltr_snapshot_key = snapshot_key, ltr_tables = map tmt_table (pag_items page),
            ltr_table_matches = pag_items page, ltr_page = pag_metadata page\<rparr>)))"

definition describe_table_for_request ::
  "mcp_library \<Rightarrow> mcp_world \<Rightarrow> DescribeTableRequest \<Rightarrow> (string, McpTableDescription) result" where
  "describe_table_for_request lib w request =
     try_with (open_snapshot w (dtq_cache_path request) (dtq_alias request)) (\<lambda>(store, snapshot_key).
       mcp_describe_table lib snapshot_key (dtq_table_name request) store)"

definition find_table_for_request ::
  "mcp_library \<Rightarrow> mcp_world \<Rightarrow> FindTableRequest \<Rightarrow> (string, FindTableResult) result" where
  "find_table_for_request lib w request =
     try_with (open_snapshot w (ftq_cache_path request) (ftq_alias request)) (\<lambda>(store, snapshot_key).
     try_with (find_tables lib snapshot_key (Some (ftq_query request)) store) (\<lambda>found.
     try_with (paginate found (ftq_offset request) (ftq_limit request)) (\<lambda>page.
       Ok \<lparr>ftr_snapshot_key = snapshot_key, ftr_tables = map tmt_table (pag_items page),
            ftr_table_matches = pag_items page, ftr_page = pag_metadata page\<rparr>)))"

definition find_column_for_request ::
  "mcp_library \<Rightarrow> mcp_world \<Rightarrow> FindColumnRequest \<Rightarrow> (string, FindColumnResult) result" where
  "find_column_for_request lib w request =
     try_with (open_snapshot w (fcq_cache_path request) (fcq_alias request)) (\<lambda>(store, snapshot_key).
     try_with (find_columns lib snapshot_key (fcq_query request) store) (\<lambda>found.
     try_with (paginate found (fcq_offset request) (fcq_limit request)) (\<lambda>page.
       Ok \<lparr>fcr_snapshot_key = snapshot_key, fcr_columns = pag_items page, fcr_page = pag_metadata page\<rparr>)))"

section \<open>The traversal tools\<close>

text \<open>Assigning to \<open>value[name]\<close> adds members to those of the result.\<close>

definition impact_analysis_for_request ::
  "mcp_library \<Rightarrow> mcp_world \<Rightarrow> ImpactAnalysisRequest \<Rightarrow> (string, json) result" where
  "impact_analysis_for_request lib w request =
     try_with (open_snapshot w (iaq_cache_path request) (iaq_alias request)) (\<lambda>(store, snapshot_key).
     try_with (mcp_parse_direction (iaq_direction request)) (\<lambda>direction.
     try_with (resolve_object_key lib snapshot_key (iaq_object_key request) (iaq_table request) (iaq_column request) store) (\<lambda>object_key.
       let max_depth_requested = or_default (iaq_max_depth request) MCP_DEFAULT_TRAVERSAL_DEPTH;
           max_depth_applied = min max_depth_requested MCP_MAX_TRAVERSAL_DEPTH;
           result_limit_requested = or_default (iaq_result_limit request) MCP_DEFAULT_RESULT_LIMIT;
           result_limit_applied = min result_limit_requested MCP_MAX_RESULT_LIMIT
       in try_with (store_text (impact_analysis_bounded snapshot_key object_key direction max_depth_applied
              result_limit_applied store)) (\<lambda>bounded.
          try_with (snapshot_capability_warnings (ml_serde lib) snapshot_key store) (\<lambda>warnings.
            Ok (json_members (impact_members (bir_result bounded)
              @ limits_json max_depth_requested max_depth_applied result_limit_requested result_limit_applied
              @ [(''result_count'', jnat (sum_list (map (\<lambda>group. length (iag_nodes group)) (iar_groups (bir_result bounded))))),
                 (''truncated'', JBool (bir_truncated bounded)), (''capability_warnings'', jstrings warnings)])))))))"

definition trace_relationships_for_request ::
  "mcp_library \<Rightarrow> mcp_world \<Rightarrow> TraceRelationshipsRequest \<Rightarrow> (string, json) result" where
  "trace_relationships_for_request lib w request =
     try_with (open_snapshot w (trq_cache_path request) (trq_alias request)) (\<lambda>(store, snapshot_key).
     try_with (mcp_parse_direction (trq_direction request)) (\<lambda>direction.
     try_with (required_node snapshot_key (trq_start_object_key request) store) (\<lambda>_.
       let max_depth_requested = or_default (trq_max_depth request) MCP_DEFAULT_TRAVERSAL_DEPTH;
           max_depth_applied = min max_depth_requested MCP_MAX_TRAVERSAL_DEPTH;
           result_limit_requested = or_default (trq_result_limit request) MCP_DEFAULT_RESULT_LIMIT;
           result_limit_applied = min result_limit_requested MCP_MAX_RESULT_LIMIT
       in try_with (store_text (trace_relationships_bounded snapshot_key (trq_start_object_key request) direction
              max_depth_applied result_limit_applied store)) (\<lambda>bounded.
          try_with (snapshot_capability_warnings (ml_serde lib) snapshot_key store) (\<lambda>warnings.
            Ok (json_members
              ([(''snapshot_key'', JString snapshot_key), (''start_object_key'', JString (trq_start_object_key request)),
                (''direction'', JString (direction_name direction)), (''max_depth'', jnat max_depth_applied)]
               @ limits_json max_depth_requested max_depth_applied result_limit_requested result_limit_applied
               @ [(''result_count'', jnat (length (btr_paths bounded))), (''truncated'', JBool (btr_truncated bounded)),
                  (''paths'', graph_paths_json (btr_paths bounded)), (''capability_warnings'', jstrings warnings)])))))))"

definition schema_diff_for_request :: "mcp_library \<Rightarrow> mcp_world \<Rightarrow> SchemaDiffRequest \<Rightarrow> (string, json) result" where
  "schema_diff_for_request lib w request =
     try_with (open_existing_store w (cache_path_of (sdq_cache_path request))) (\<lambda>store.
     try_with (mcp_resolve_snapshot_key (sdq_from_alias request) store) (\<lambda>from_snapshot_key.
     try_with (mcp_resolve_snapshot_key (sdq_to_alias request) store) (\<lambda>to_snapshot_key.
     try_with (require_snapshot from_snapshot_key store) (\<lambda>_.
     try_with (require_snapshot to_snapshot_key store) (\<lambda>_.
       let result_limit_requested = or_default (sdq_result_limit request) MCP_DEFAULT_RESULT_LIMIT;
           result_limit_applied = min result_limit_requested MCP_MAX_RESULT_LIMIT
       in if result_limit_requested = 0 then Err ''result_limit must be greater than zero''
          else
            try_with (store_text (schema_diff_bounded (ml_serde lib) from_snapshot_key to_snapshot_key
                result_limit_applied store)) (\<lambda>diff.
              Ok (schema_diff_json (ml_serde lib) diff result_limit_requested result_limit_applied)))))))"

definition traversal_of_request :: "QueryGraphTraversalRequest \<Rightarrow> (string, GraphQueryTraversal) result" where
  "traversal_of_request traversal =
     try_with (mcp_parse_direction (qgt_direction traversal)) (\<lambda>direction.
       Ok \<lparr>gqt_start_node_key = qgt_start_node_key traversal, gqt_direction = direction,
            gqt_max_depth = qgt_max_depth traversal\<rparr>)"

definition query_graph_for_request ::
  "mcp_library \<Rightarrow> mcp_world \<Rightarrow> QueryGraphRequest \<Rightarrow> (string, GraphQueryResult) result" where
  "query_graph_for_request lib w request =
     try_with (open_existing_store w (cache_path_of (qgq_cache_path request))) (\<lambda>store.
     try_with (case (qgq_snapshot_key request, qgq_alias request) of
         (Some snapshot_key, _) \<Rightarrow> Ok snapshot_key
       | (None, Some alias) \<Rightarrow> mcp_resolve_snapshot_key alias store
       | (None, None) \<Rightarrow> Err ''pass snapshot_key or alias'') (\<lambda>snapshot_key.
     try_with (require_snapshot snapshot_key store) (\<lambda>_.
     try_with (case qgq_traversal request of
         None \<Rightarrow> Ok None
       | Some traversal \<Rightarrow> try_with (traversal_of_request traversal) (\<lambda>t. Ok (Some t))) (\<lambda>traversal.
     try_with (case traversal of
         None \<Rightarrow> Ok ()
       | Some t \<Rightarrow> try_with (required_node snapshot_key (gqt_start_node_key t) store) (\<lambda>_. Ok ())) (\<lambda>_.
       store_text (query_graph (ml_serde lib) (ml_lowercase lib)
         \<lparr>gq_snapshot_key = snapshot_key, gq_node_label = qgq_node_label request,
           gq_node_key_contains = qgq_node_key_contains request, gq_name_contains = qgq_name_contains request,
           gq_edge_type = qgq_edge_type request,
           gq_payload_array_min_len = map_option (\<lambda>f. \<lparr>pam_field = qpa_field f, pam_min_len = qpa_min_len f\<rparr>)
             (qgq_payload_array_min_len request),
           gq_traversal = traversal, gq_limit = qgq_limit request\<rparr> store))))))"

definition graph_stats_for_cache_path :: "mcp_world \<Rightarrow> string \<Rightarrow> GraphStatsResult" where
  "graph_stats_for_cache_path w cache_path =
     (if \<not> mw_exists w cache_path
      then \<lparr>gsr_cache_path = cache_path, gsr_cache_exists = False, gsr_indexed_snapshots = 0, gsr_error = None\<rparr>
      else (case try_with (open_store w cache_path) snapshot_count of
              Inr indexed_snapshots \<Rightarrow> \<lparr>gsr_cache_path = cache_path, gsr_cache_exists = True,
                gsr_indexed_snapshots = indexed_snapshots, gsr_error = None\<rparr>
            | Inl err \<Rightarrow> \<lparr>gsr_cache_path = cache_path, gsr_cache_exists = True, gsr_indexed_snapshots = 0,
                gsr_error = Some (graph_store_error_to_string err)\<rparr>))"

end
