(* ===== verification/Path_Policy.thy ===== *)
theory Path_Policy
  imports Rust_Path
begin

text \<open>
  \<open>path_policy.rs\<close> of the MCP server: the roots the server may touch and the check of a requested path.
  The file system's \<open>canonicalize\<close>, the working directory and the environment are parameters.
\<close>

section \<open>The policy\<close>

record McpPathError =
  mpe_code :: string
  mpe_message :: string
  mpe_remediation :: string

record McpPathPolicy =
  mpp_roots :: "path list"

definition ALLOWED_ROOTS_ENV :: string where "ALLOWED_ROOTS_ENV = ''DATABASE_MEMORY_MCP_ALLOWED_ROOTS''"

definition configuration_error :: "string \<Rightarrow> McpPathError" where
  "configuration_error msg =
     \<lparr>mpe_code = ''invalid_path_policy'', mpe_message = msg,
       mpe_remediation = ''set '' @ ALLOWED_ROOTS_ENV
         @ '' to existing trusted roots using the platform path separator''\<rparr>"

definition denied :: McpPathError where
  "denied =
     \<lparr>mpe_code = ''path_outside_allowed_roots'',
       mpe_message = ''requested local path is outside the MCP server's allowed roots'',
       mpe_remediation = ''move the source/cache under an allowed root or update '' @ ALLOWED_ROOTS_ENV
         @ '' when starting the server''\<rparr>"

definition path_error_to_string :: "McpPathError \<Rightarrow> string" where
  "path_error_to_string e = mpe_code e @ '': '' @ mpe_message e"

type_synonym canonicalizer = "path \<Rightarrow> (IoError, path) result"

definition unresolved_root :: "IoError \<Rightarrow> McpPathError" where
  "unresolved_root err = configuration_error (''an MCP allowed root could not be resolved: '' @ io_text err)"

definition new_policy :: "canonicalizer \<Rightarrow> path list \<Rightarrow> (McpPathError, McpPathPolicy) result" where
  "new_policy canonicalize roots =
     try_with (collect_results (map (\<lambda>root. map_err unresolved_root (canonicalize root)) (filter (\<lambda>root. root \<noteq> []) roots))) (\<lambda>canonical_roots.
     (let canonical_roots = remdups_adj (sort canonical_roots)
      in if canonical_roots = []
         then Err (configuration_error ''the MCP path policy contains no usable roots'')
         else Ok \<lparr>mpp_roots = canonical_roots\<rparr>))"

text \<open>\<open>split_paths\<close> separates at colons.\<close>

definition policy_from_environment ::
  "(string \<Rightarrow> string option) \<Rightarrow> (IoError, path) result \<Rightarrow> canonicalizer \<Rightarrow> (McpPathError, McpPathPolicy) result" where
  "policy_from_environment env current_dir canonicalize =
     try_with
       (case env ALLOWED_ROOTS_ENV of
          Some v \<Rightarrow> Ok (map components (split_on (CHR '':'') v))
        | None \<Rightarrow> map_err (\<lambda>err. configuration_error
            (''could not resolve the MCP server working directory: '' @ io_text err))
            (case current_dir of Inr dir \<Rightarrow> Ok [dir] | Inl err \<Rightarrow> Err err))
       (new_policy canonicalize)"

fun canonical_loop :: "canonicalizer \<Rightarrow> path \<Rightarrow> string list \<Rightarrow> (McpPathError, path) result" where
  "canonical_loop canonicalize cursor missing =
     (case canonicalize cursor of
        Inr canonical \<Rightarrow> Ok (canonical @ map Normal (rev missing))
      | Inl err \<Rightarrow>
          if io_not_found err then
            (case file_name cursor of
               None \<Rightarrow> Err denied
             | Some name \<Rightarrow>
                 if name = ''.'' \<or> name = ''..'' then Err denied
                 else (case parent cursor of
                         None \<Rightarrow> Err denied
                       | Some upper \<Rightarrow> canonical_loop canonicalize upper (missing @ [name])))
          else Err (configuration_error (''requested path could not be resolved safely: '' @ io_text err)))"

declare canonical_loop.simps [simp del]

definition canonicalize_with_missing_tail :: "canonicalizer \<Rightarrow> path \<Rightarrow> (McpPathError, path) result" where
  "canonicalize_with_missing_tail canonicalize p = canonical_loop canonicalize p []"

definition validate_path ::
  "(IoError, path) result \<Rightarrow> canonicalizer \<Rightarrow> McpPathPolicy \<Rightarrow> path \<Rightarrow> (McpPathError, unit) result" where
  "validate_path current_dir canonicalize policy p =
     (if p = [] then Err denied
      else
        try_with
          (if is_absolute p then Ok p
           else map_err (\<lambda>err. configuration_error
             (''could not resolve the MCP server working directory: '' @ io_text err))
             (case current_dir of Inr dir \<Rightarrow> Ok (join_path dir p) | Inl err \<Rightarrow> Err err)) (\<lambda>absolute.
        try_with (canonicalize_with_missing_tail canonicalize absolute) (\<lambda>canonical.
          if list_ex (path_starts_with canonical) (mpp_roots policy) then Ok () else Err denied)))"

section \<open>Resolution\<close>

text \<open>What a path resolves to: its longest existing part in canonical form, followed by the names that do
  not exist yet.\<close>

definition missing_below :: "canonicalizer \<Rightarrow> path \<Rightarrow> string list \<Rightarrow> bool" where
  "missing_below canonicalize existing tail =
     (''.'' \<notin> set tail \<and> ''..'' \<notin> set tail
      \<and> (\<forall>k < length tail. \<exists>err. canonicalize (existing @ map Normal (take (Suc k) tail)) = Err err \<and> io_not_found err))"

definition resolves :: "canonicalizer \<Rightarrow> path \<Rightarrow> path \<Rightarrow> bool" where
  "resolves canonicalize p target =
     (\<exists>existing tail c. p = existing @ map Normal tail \<and> canonicalize existing = Ok c
        \<and> missing_below canonicalize existing tail \<and> target = c @ map Normal tail)"

lemma resolvesI:
  "canonicalize existing = Ok c \<Longrightarrow> missing_below canonicalize existing tail
    \<Longrightarrow> resolves canonicalize (existing @ map Normal tail) (c @ map Normal tail)"
  unfolding resolves_def by blast

lemma resolvesE:
  assumes "resolves canonicalize p target"
  obtains existing tail c where "p = existing @ map Normal tail" "canonicalize existing = Ok c"
    "missing_below canonicalize existing tail" "target = c @ map Normal tail"
  using assms unfolding resolves_def by blast

lemma missing_below_Nil [simp]: "missing_below canonicalize existing []"
  by (simp add: missing_below_def)

lemma missing_below_snoc:
  "missing_below canonicalize existing (tail @ [n]) \<longleftrightarrow>
     missing_below canonicalize existing tail \<and> n \<noteq> ''.'' \<and> n \<noteq> ''..''
     \<and> (\<exists>err. canonicalize (existing @ map Normal tail @ [Normal n]) = Err err \<and> io_not_found err)"
proof -
  have "(\<forall>k < Suc (length tail). P k) \<longleftrightarrow> (\<forall>k < length tail. P k) \<and> P (length tail)" for P :: "nat \<Rightarrow> bool"
    using less_Suc_eq by auto
  then show ?thesis by (auto simp: missing_below_def)
qed

lemma file_name_parent: "file_name p = Some n \<Longrightarrow> p = butlast p @ [Normal n] \<and> parent p = Some (butlast p)"
  by (auto simp: file_name_def parent_def split: if_splits component.splits dest: append_butlast_last_id)

lemma resolves_iff:
  "resolves canonicalize p target \<longleftrightarrow>
    (case canonicalize p of
       Inr c \<Rightarrow> target = c
     | Inl err \<Rightarrow> io_not_found err \<and> (\<exists>q n t. p = q @ [Normal n] \<and> n \<noteq> ''.'' \<and> n \<noteq> ''..''
         \<and> resolves canonicalize q t \<and> target = t @ [Normal n]))" (is "_ = ?rhs")
proof
  assume "resolves canonicalize p target"
  then show ?rhs
  proof (rule resolvesE)
    fix existing tail c
    assume p: "p = existing @ map Normal tail" "canonicalize existing = Ok c"
      and missing: "missing_below canonicalize existing tail" and target: "target = c @ map Normal tail"
    show ?rhs
    proof (cases tail rule: rev_cases)
      case Nil
      then show ?thesis using p target by simp
    next
      case (snoc names n)
      with missing p obtain err where "canonicalize p = Err err" "io_not_found err"
        by (auto simp: missing_below_snoc)
      moreover have "resolves canonicalize (existing @ map Normal names) (c @ map Normal names)"
        using resolvesI[of canonicalize existing c names] p(2) missing by (simp add: snoc missing_below_snoc)
      ultimately show ?thesis
        using missing p(1) target by (simp add: snoc missing_below_snoc)
    qed
  qed
next
  assume rhs: ?rhs
  show "resolves canonicalize p target"
  proof (cases "canonicalize p")
    case (Inr c)
    then show ?thesis using rhs resolvesI[of canonicalize p c "[]"] by simp
  next
    case (Inl err)
    with rhs obtain q n t where p: "p = q @ [Normal n]" "n \<noteq> ''.''" "n \<noteq> ''..''" "target = t @ [Normal n]"
      and q: "resolves canonicalize q t" and "io_not_found err" by auto
    from q show ?thesis
    proof (rule resolvesE)
      fix existing tail c
      assume e: "q = existing @ map Normal tail" "canonicalize existing = Ok c" "t = c @ map Normal tail"
        and "missing_below canonicalize existing tail"
      then have "missing_below canonicalize existing (tail @ [n])"
        using p(1-3) Inl \<open>io_not_found err\<close> by (simp add: missing_below_snoc)
      with resolvesI[of canonicalize existing c "tail @ [n]"] show ?thesis using p(1,4) e by simp
    qed
  qed
qed

lemma canonical_loop_resolves:
  "canonical_loop canonicalize cursor missing = Ok target \<longleftrightarrow>
     (\<exists>t. resolves canonicalize cursor t \<and> target = t @ map Normal (rev missing))"
proof (induction canonicalize cursor missing rule: canonical_loop.induct)
  case (1 canonicalize cursor missing)
  note unfolded = canonical_loop.simps[of canonicalize cursor] resolves_iff[of canonicalize cursor]
  show ?case
  proof (cases "canonicalize cursor")
    case (Inr c)
    then show ?thesis by (auto simp: unfolded)
  next
    case (Inl err)
    show ?thesis
    proof (cases "io_not_found err \<and> file_name cursor \<noteq> None")
      case False
      then have "cursor \<noteq> q @ [Normal n]" if "io_not_found err" for q n using that by (auto simp: file_name_def)
      with Inl False show ?thesis by (auto simp: unfolded)
    next
      case True
      then obtain n where n: "file_name cursor = Some n" by blast
      have cursor: "cursor = q @ [Normal m] \<longleftrightarrow> q = butlast cursor \<and> m = n" for q m
        using file_name_parent[OF n] by (metis append1_eq_conv component.inject)
      show ?thesis
        using "1.IH"[OF Inl _ n, of "butlast cursor"] file_name_parent[OF n] Inl True n
        by (auto simp: unfolded cursor)
    qed
  qed
qed

section \<open>Properties\<close>

text \<open>The documented result of \<open>canonicalize\<close>: an absolute path of names only.\<close>

definition canonical_path :: "path \<Rightarrow> bool" where
  "canonical_path c = (\<exists>names. c = RootDir # map Normal names)"

lemma map_err_all_Ok: "map (\<lambda>x. map_err g (f x)) xs = map Inr ys \<Longrightarrow> map f xs = map Inr ys"
  by (induction xs arbitrary: ys) (auto simp: Cons_eq_map_conv)

lemma roots_are_canonical:
  assumes "new_policy canonicalize roots = Ok policy"
  shows "set (mpp_roots policy) = {c. \<exists>root\<in>set roots. root \<noteq> [] \<and> canonicalize root = Ok c} \<and> mpp_roots policy \<noteq> []
    \<and> (\<forall>root\<in>set roots. root \<noteq> [] \<longrightarrow> (\<exists>c. canonicalize root = Ok c))"
proof -
  obtain cs where cs: "map (\<lambda>root. map_err unresolved_root (canonicalize root)) (filter (\<lambda>root. root \<noteq> []) roots) = map Inr cs"
    and "policy = \<lparr>mpp_roots = remdups_adj (sort cs)\<rparr>" "sort cs \<noteq> []"
    using assms by (auto simp: new_policy_def try_with_Ok_iff collect_results_Ok_iff Let_def split: if_splits)
  moreover have ok: "map canonicalize (filter (\<lambda>root. root \<noteq> []) roots) = map Inr cs"
    using map_err_all_Ok[OF cs] .
  have member: "x \<in> Inr ` set cs \<longleftrightarrow> (\<exists>root\<in>set roots. root \<noteq> [] \<and> canonicalize root = x)" for x
  proof -
    have same: "Inr ` set cs = canonicalize ` {root \<in> set roots. root \<noteq> []}"
      using arg_cong[OF ok, of set] by simp
    show ?thesis unfolding same by blast
  qed
  have "c \<in> set cs \<longleftrightarrow> (\<exists>root\<in>set roots. root \<noteq> [] \<and> canonicalize root = Ok c)" for c
    using member[of "Ok c"] by (simp add: inj_image_mem_iff)
  moreover have "\<exists>c. canonicalize root = Ok c" if "root \<in> set roots" "root \<noteq> []" for root
    using member[of "canonicalize root"] that by blast
  ultimately show ?thesis by (simp add: set_eq_iff)
qed

lemma validate_path_Ok_iff:
  "validate_path current_dir canonicalize policy p = Ok () \<longleftrightarrow>
     p \<noteq> [] \<and> (\<exists>absolute target. (if is_absolute p then absolute = p
         else \<exists>dir. current_dir = Ok dir \<and> absolute = join_path dir p)
       \<and> resolves canonicalize absolute target
       \<and> (\<exists>root\<in>set (mpp_roots policy). \<exists>rest. target = root @ rest))"
proof -
  have "(case current_dir of Inr dir \<Rightarrow> Ok (join_path dir p) | Inl err \<Rightarrow> Err err) = Ok absolute \<longleftrightarrow>
      (\<exists>dir. current_dir = Ok dir \<and> absolute = join_path dir p)" for absolute
    by (auto split: sum.splits)
  then show ?thesis
    by (auto simp: validate_path_def try_with_Ok_iff canonicalize_with_missing_tail_def canonical_loop_resolves
        list_ex_iff path_starts_with_iff split: if_splits)
qed

text \<open>C9: the path policy confines the server. With a file system whose canonical paths are absolute and
  made of names only, a requested path passes the check exactly when what it resolves to, the canonical
  form of its longest existing part followed by names that do not exist yet, is one of the configured roots
  in canonical form or lies below one, reached by names only; a path with parent steps or symbolic links
  that lead elsewhere is refused.\<close>

theorem path_policy_confines:
  assumes "new_policy canonicalize roots = Ok policy"
    and "\<And>q c. canonicalize q = Ok c \<Longrightarrow> canonical_path c"
  shows "validate_path current_dir canonicalize policy p = Ok () \<longleftrightarrow>
     p \<noteq> [] \<and> (\<exists>absolute root c names. (if is_absolute p then absolute = p
         else \<exists>dir. current_dir = Ok dir \<and> absolute = join_path dir p)
       \<and> root \<in> set roots \<and> root \<noteq> [] \<and> canonicalize root = Ok c
       \<and> resolves canonicalize absolute (c @ map Normal names))"
proof -
  have below: "\<exists>names. rest = map Normal names"
    if "resolves canonicalize q (c @ rest)" "canonicalize root = Ok c" for q c rest root
  proof -
    from that(1) obtain c' tail where "canonical_path c'" "c @ rest = c' @ map Normal tail"
      by (rule resolvesE) (use assms(2) in blast)
    moreover have "canonical_path c" using assms(2) that(2) by blast
    ultimately obtain ns ms where "map Normal ns @ rest = map Normal ms"
      unfolding canonical_path_def by (metis append_Cons list.inject map_append)
    then show ?thesis by (metis append_eq_map_conv)
  qed
  have in_roots: "root \<in> set (mpp_roots policy) \<longleftrightarrow> (\<exists>r\<in>set roots. r \<noteq> [] \<and> canonicalize r = Ok root)" for root
    using roots_are_canonical[OF assms(1)] by simp
  have "(\<exists>target. resolves canonicalize absolute target \<and> (\<exists>root\<in>set (mpp_roots policy). \<exists>rest. target = root @ rest)) \<longleftrightarrow>
      (\<exists>root c names. root \<in> set roots \<and> root \<noteq> [] \<and> canonicalize root = Ok c
        \<and> resolves canonicalize absolute (c @ map Normal names))" (is "?l = ?r") for absolute
  proof
    assume ?l
    then obtain root rest where "resolves canonicalize absolute (root @ rest)" "root \<in> set (mpp_roots policy)" by blast
    moreover then obtain r where "r \<in> set roots" "r \<noteq> []" "canonicalize r = Ok root" by (auto simp: in_roots)
    ultimately show ?r using below by metis
  next
    assume ?r
    then show ?l using in_roots by blast
  qed
  then show ?thesis unfolding validate_path_Ok_iff by (auto split: if_splits)
qed

text \<open>A file system with the directories \<open>/srv\<close>, \<open>/srv/db\<close> and \<open>/etc\<close>, and a link \<open>/srv/link\<close> to the last.\<close>

definition sample_fs :: canonicalizer where
  "sample_fs p =
     (if p \<in> set (map (\<lambda>ns. RootDir # map Normal ns) [[], [''srv''], [''srv'', ''db''], [''etc'']]) then Ok p
      else if p = [RootDir, Normal ''srv'', Normal ''link''] then Ok [RootDir, Normal ''etc'']
      else Err \<lparr>io_not_found = True, io_text = ''missing''\<rparr>)"

lemma sample_fs_canonical: "sample_fs q = Ok c \<Longrightarrow> canonical_path c"
proof -
  assume "sample_fs q = Ok c"
  then have "c \<in> (\<lambda>ns. RootDir # map Normal ns) ` {[], [''srv''], [''srv'', ''db''], [''etc'']}"
    by (auto simp: sample_fs_def split: if_splits)
  then show ?thesis unfolding canonical_path_def by blast
qed

theorem path_policy_confines_witness:
  "\<exists>policy. new_policy sample_fs [components ''/srv''] = Ok policy
     \<and> validate_path (Ok []) sample_fs policy (components ''/srv/db/new.sqlite'') = Ok ()
     \<and> validate_path (Ok []) sample_fs policy (components ''/srv/link/x'') \<noteq> Ok ()
     \<and> (\<exists>names. resolves sample_fs (components ''/srv/db/new.sqlite'') (components ''/srv'' @ map Normal names))"
proof -
  define policy where "policy = \<lparr>mpp_roots = [components ''/srv'']\<rparr>"
  have new: "new_policy sample_fs [components ''/srv''] = Ok policy" unfolding policy_def by code_simp
  have ok: "validate_path (Ok []) sample_fs policy (components ''/srv/db/new.sqlite'') = Ok ()"
    "validate_path (Ok []) sample_fs policy (components ''/srv/link/x'') \<noteq> Ok ()"
    unfolding policy_def by code_simp+
  have "sample_fs (components ''/srv'') = Ok (components ''/srv'')" "is_absolute (components ''/srv/db/new.sqlite'')"
    by code_simp+
  with path_policy_confines[OF new sample_fs_canonical, where current_dir = "Ok []" and p = "components ''/srv/db/new.sqlite''"] ok new
  show ?thesis by auto
qed

end
