(* ===== verification/Mcp_Server.thy ===== *)
theory Mcp_Server
  imports Mcp_Tools Path_Policy
begin

text \<open>
  \<open>lib.rs\<close> of the MCP server: the tools a client can call, each behind the check of the paths it names, and the
  text it gets back. The routing of calls and the derived encoders belong to the protocol library and
  are parameters. Shown: what a tool answers and does depends only on files below the allowed roots, both clients
  describe a table alike, and all clients resolve a snapshot alike.
\<close>

section \<open>Replies\<close>

datatype McpValue =
    ContractValue ProductContract
  | IndexValue IndexResult
  | DatabasesValue ListDatabasesResult
  | SnapshotsValue ListSnapshotsResult
  | SnapshotValue SnapshotDetail
  | ObjectsValue ObjectPage
  | ObjectValue ObjectDetail
  | TablesValue ListTablesResult
  | TableValue McpTableDescription
  | TableMatchesValue FindTableResult
  | ColumnMatchesValue FindColumnResult
  | JsonValue json
  | QueryValue GraphQueryResult
  | StatsValue GraphStatsResult

datatype McpFailure =
    TextFailure string
  | ContractFailure InterfaceError
  | PathFailure McpPathError

record mcp_encoders =
  en_value :: "McpValue \<Rightarrow> (string, string) result"
  en_interface_error :: "InterfaceError \<Rightarrow> json"
  en_version :: string
  en_odbc_feature :: bool

fun failure_value :: "mcp_encoders \<Rightarrow> McpFailure \<Rightarrow> json" where
  "failure_value enc (TextFailure msg) = JString msg"
| "failure_value enc (ContractFailure err) = en_interface_error enc err"
| "failure_value enc (PathFailure err) =
     json_members [(''code'', JString (mpe_code err)), (''message'', JString (mpe_message err)),
       (''remediation'', JString (mpe_remediation err))]"

text \<open>Printing a JSON value does not fail.\<close>

definition tool_json :: "mcp_encoders \<Rightarrow> mcp_library \<Rightarrow> (McpFailure, McpValue) result \<Rightarrow> (string, string) result" where
  "tool_json enc lib r =
     (case r of
        Inr v \<Rightarrow> en_value enc v
      | Inl err \<Rightarrow> Err (to_text (ml_serde lib)
          (json_members [(''status'', JString ''failed''), (''error'', failure_value enc err)])))"

section \<open>The server\<close>

record DatabaseMemoryMcp =
  dmm_path_policy :: McpPathPolicy

record local_paths =
  lp_current_dir :: "(IoError, path) result"
  lp_canonicalize :: canonicalizer

definition try_new_server :: "(string \<Rightarrow> string option) \<Rightarrow> local_paths \<Rightarrow> (McpPathError, DatabaseMemoryMcp) result" where
  "try_new_server env lp =
     try_with (policy_from_environment env (lp_current_dir lp) (lp_canonicalize lp)) (\<lambda>policy.
       Ok \<lparr>dmm_path_policy = policy\<rparr>)"

definition with_allowed_roots :: "local_paths \<Rightarrow> path list \<Rightarrow> (McpPathError, DatabaseMemoryMcp) result" where
  "with_allowed_roots lp roots =
     try_with (new_policy (lp_canonicalize lp) roots) (\<lambda>policy. Ok \<lparr>dmm_path_policy = policy\<rparr>)"

definition validate_local_paths ::
  "local_paths \<Rightarrow> DatabaseMemoryMcp \<Rightarrow> string option \<Rightarrow> string option \<Rightarrow> (McpPathError, unit) result" where
  "validate_local_paths lp server cache_path source_path =
     (let check = validate_path (lp_current_dir lp) (lp_canonicalize lp) (dmm_path_policy server)
      in try_with (check (components (or_default cache_path DEFAULT_CACHE_PATH))) (\<lambda>_.
           case source_path of
             Some source_path \<Rightarrow> try_with (check (components source_path)) (\<lambda>_. Ok ())
           | None \<Rightarrow> Ok ()))"

text \<open>A call returns the text for the client and the connection that indexing leaves; None is a panic.\<close>

type_synonym tool_reply = "((string, string) result \<times> Connection option) option"

definition reply_with ::
  "mcp_encoders \<Rightarrow> mcp_library \<Rightarrow> ('e \<Rightarrow> McpFailure) \<Rightarrow> ('a \<Rightarrow> McpValue) \<Rightarrow> ('e, 'a) result \<Rightarrow> (string, string) result" where
  "reply_with enc lib failure v r = tool_json enc lib (case r of Inl err \<Rightarrow> Err (failure err) | Inr x \<Rightarrow> Ok (v x))"

definition answer ::
  "mcp_encoders \<Rightarrow> mcp_library \<Rightarrow> ('e \<Rightarrow> McpFailure) \<Rightarrow> ('a \<Rightarrow> McpValue) \<Rightarrow> ('e, 'a) result option \<Rightarrow> tool_reply" where
  "answer enc lib failure v r = map_option (\<lambda>r. (reply_with enc lib failure v r, None)) r"

definition guard_mcp_paths ::
  "mcp_encoders \<Rightarrow> mcp_library \<Rightarrow> local_paths \<Rightarrow> DatabaseMemoryMcp \<Rightarrow> string option \<Rightarrow> string option \<Rightarrow> tool_reply
    \<Rightarrow> tool_reply" where
  "guard_mcp_paths enc lib lp server cache_path source_path body =
     (case validate_local_paths lp server cache_path source_path of
        Inl err \<Rightarrow> Some (tool_json enc lib (Err (PathFailure err)), None)
      | Inr _ \<Rightarrow> body)"

datatype McpRequest =
    GetContract
  | IndexDatabase IndexDatabaseRequest
  | ListDatabases ListDatabasesRequest
  | ListSnapshotsTool ListSnapshotsRequest
  | DescribeSnapshot DescribeSnapshotRequest
  | ListObjects ListObjectsRequest
  | FindObjects FindObjectsRequest
  | DescribeObject DescribeObjectRequest
  | ListTables ListTablesRequest
  | DescribeTable DescribeTableRequest
  | FindTable FindTableRequest
  | FindColumn FindColumnRequest
  | ImpactAnalysis ImpactAnalysisRequest
  | TraceRelationships TraceRelationshipsRequest
  | SchemaDiffTool SchemaDiffRequest
  | QueryGraph QueryGraphRequest
  | GraphStats GraphStatsRequest

fun call_tool ::
  "mcp_encoders \<Rightarrow> mcp_library \<Rightarrow> local_paths \<Rightarrow> DatabaseMemoryMcp \<Rightarrow> mcp_world \<Rightarrow> McpRequest \<Rightarrow> tool_reply" where
  "call_tool enc lib lp server w GetContract =
     Some (tool_json enc lib (Ok (ContractValue (product_contract (en_version enc) (en_odbc_feature enc)))), None)"
| "call_tool enc lib lp server w (IndexDatabase r) =
     guard_mcp_paths enc lib lp server (idr_cache_path r) (idr_path r)
       (map_option (map_prod (reply_with enc lib ContractFailure IndexValue) id) (index_database_for_request lib w r))"
| "call_tool enc lib lp server w (ListDatabases r) =
     guard_mcp_paths enc lib lp server (ldq_cache_path r) None
       (answer enc lib TextFailure DatabasesValue (list_databases_for_request lib w r))"
| "call_tool enc lib lp server w (ListSnapshotsTool r) =
     guard_mcp_paths enc lib lp server (lsq_cache_path r) None
       (answer enc lib ContractFailure SnapshotsValue (list_snapshots_for_request lib w r))"
| "call_tool enc lib lp server w (DescribeSnapshot r) =
     guard_mcp_paths enc lib lp server (dsq_cache_path r) None
       (answer enc lib ContractFailure SnapshotValue (describe_snapshot_for_request lib w r))"
| "call_tool enc lib lp server w (ListObjects r) =
     guard_mcp_paths enc lib lp server (loq_cache_path r) None
       (answer enc lib ContractFailure ObjectsValue (list_objects_for_request lib w r))"
| "call_tool enc lib lp server w (FindObjects r) =
     guard_mcp_paths enc lib lp server (foq_cache_path r) None
       (answer enc lib ContractFailure ObjectsValue (find_objects_for_request lib w r))"
| "call_tool enc lib lp server w (DescribeObject r) =
     guard_mcp_paths enc lib lp server (doq_cache_path r) None
       (answer enc lib ContractFailure ObjectValue (describe_object_for_request lib w r))"
| "call_tool enc lib lp server w (ListTables r) =
     guard_mcp_paths enc lib lp server (ltq_cache_path r) None
       (answer enc lib TextFailure TablesValue (Some (list_tables_for_request lib w r)))"
| "call_tool enc lib lp server w (DescribeTable r) =
     guard_mcp_paths enc lib lp server (dtq_cache_path r) None
       (answer enc lib TextFailure TableValue (Some (describe_table_for_request lib w r)))"
| "call_tool enc lib lp server w (FindTable r) =
     guard_mcp_paths enc lib lp server (ftq_cache_path r) None
       (answer enc lib TextFailure TableMatchesValue (Some (find_table_for_request lib w r)))"
| "call_tool enc lib lp server w (FindColumn r) =
     guard_mcp_paths enc lib lp server (fcq_cache_path r) None
       (answer enc lib TextFailure ColumnMatchesValue (Some (find_column_for_request lib w r)))"
| "call_tool enc lib lp server w (ImpactAnalysis r) =
     guard_mcp_paths enc lib lp server (iaq_cache_path r) None
       (answer enc lib TextFailure JsonValue (Some (impact_analysis_for_request lib w r)))"
| "call_tool enc lib lp server w (TraceRelationships r) =
     guard_mcp_paths enc lib lp server (trq_cache_path r) None
       (answer enc lib TextFailure JsonValue (Some (trace_relationships_for_request lib w r)))"
| "call_tool enc lib lp server w (SchemaDiffTool r) =
     guard_mcp_paths enc lib lp server (sdq_cache_path r) None
       (answer enc lib TextFailure JsonValue (Some (schema_diff_for_request lib w r)))"
| "call_tool enc lib lp server w (QueryGraph r) =
     guard_mcp_paths enc lib lp server (qgq_cache_path r) None
       (answer enc lib TextFailure QueryValue (Some (query_graph_for_request lib w r)))"
| "call_tool enc lib lp server w (GraphStats r) =
     guard_mcp_paths enc lib lp server (gsq_cache_path r) None
       (answer enc lib TextFailure StatsValue
         (Some (Ok (graph_stats_for_cache_path w (or_default (gsq_cache_path r) DEFAULT_CACHE_PATH)))))"

section \<open>Answers depend on allowed files only\<close>

text \<open>A path is confined when what it resolves to is a root in canonical form or lies below one.\<close>

definition confined :: "local_paths \<Rightarrow> path list \<Rightarrow> path \<Rightarrow> bool" where
  "confined lp roots p =
     (p \<noteq> [] \<and> (\<exists>absolute root c rest. (if is_absolute p then absolute = p
          else \<exists>dir. lp_current_dir lp = Ok dir \<and> absolute = join_path dir p)
        \<and> root \<in> set roots \<and> root \<noteq> [] \<and> lp_canonicalize lp root = Ok c
        \<and> resolves (lp_canonicalize lp) absolute (c @ rest)))"

text \<open>Two worlds that agree on the confined paths: on the caches there, the directories above them and what the
  adapters report for requests that name no other file.\<close>

definition same_below :: "(path \<Rightarrow> bool) \<Rightarrow> mcp_world \<Rightarrow> mcp_world \<Rightarrow> bool" where
  "same_below allowed w w' =
     ((\<forall>p. allowed (components p) \<longrightarrow> mw_exists w p = mw_exists w' p \<and> mw_connect w p = mw_connect w' p
        \<and> ensure_parent_dir w p = ensure_parent_dir w' p)
      \<and> mw_since_epoch w = mw_since_epoch w'
      \<and> (\<forall>request. pred_option allowed (cir_path request) \<longrightarrow>
           analyze_complete_source (mw_adapters w) request = analyze_complete_source (mw_adapters w') request))"

lemma guard_Ok:
  assumes "with_allowed_roots lp roots = Ok server"
  shows "validate_local_paths lp server cache_path source_path = Ok () \<longleftrightarrow>
    confined lp roots (components (cache_path_of cache_path)) \<and> pred_option (\<lambda>p. confined lp roots (components p)) source_path"
proof -
  have policy: "new_policy (lp_canonicalize lp) roots = Ok (dmm_path_policy server)"
    using assms by (auto simp: with_allowed_roots_def try_with_Ok_iff)
  have "root \<in> set (mpp_roots (dmm_path_policy server)) \<longleftrightarrow> (\<exists>r\<in>set roots. r \<noteq> [] \<and> lp_canonicalize lp r = Ok root)" for root
    using roots_are_canonical[OF policy] by simp
  then have below: "(\<exists>root\<in>set (mpp_roots (dmm_path_policy server)). \<exists>rest. target = root @ rest) \<longleftrightarrow>
      (\<exists>root c. (root \<in> set roots \<and> root \<noteq> [] \<and> lp_canonicalize lp root = Ok c) \<and> (\<exists>rest. target = c @ rest))" for target
    by (metis (no_types, lifting))
  have shape: "(\<exists>a t. P a \<and> R a t \<and> (\<exists>root c. Q root c \<and> (\<exists>rest. t = c @ rest))) \<longleftrightarrow> (\<exists>a root c rest. P a \<and> Q root c \<and> R a (c @ rest))"
    for P :: "path \<Rightarrow> bool" and R :: "path \<Rightarrow> path \<Rightarrow> bool" and Q :: "path \<Rightarrow> path \<Rightarrow> bool" by blast
  have "validate_path (lp_current_dir lp) (lp_canonicalize lp) (dmm_path_policy server) p = Ok () \<longleftrightarrow> confined lp roots p" for p
    unfolding validate_path_Ok_iff confined_def below shape by (simp only: conj_assoc)
  then show ?thesis
    by (cases source_path) (simp_all add: validate_local_paths_def Let_def cache_path_of_def try_with_Ok_iff)
qed

lemma guard_cong:
  assumes "with_allowed_roots lp roots = Ok server"
    and "confined lp roots (components (cache_path_of cache_path)) \<Longrightarrow>
      pred_option (\<lambda>p. confined lp roots (components p)) source_path \<Longrightarrow> body = body'"
  shows "guard_mcp_paths enc lib lp server cache_path source_path body = guard_mcp_paths enc lib lp server cache_path source_path body'"
  using assms guard_Ok[OF assms(1), of cache_path source_path]
  by (auto simp: guard_mcp_paths_def split: sum.splits)

lemma opened_same:
  assumes "same_below allowed w w'" and "allowed (components p)"
  shows "open_store w p = open_store w' p" "mw_exists w p = mw_exists w' p"
    "open_existing_store w p = open_existing_store w' p" "open_contract_cache w p = open_contract_cache w' p"
    "open_existing_contract_store w p = open_existing_contract_store w' p" "ensure_parent_dir w p = ensure_parent_dir w' p"
  using assms
  by (simp_all add: same_below_def open_store_def open_existing_store_def open_contract_cache_def open_existing_contract_store_def)

lemma indexed_same:
  assumes "same_below allowed w w'" and "allowed (components (cache_path_of (idr_cache_path r)))"
    and "pred_option (\<lambda>p. allowed (components p)) (idr_path r)"
  shows "index_database_for_request lib w r = index_database_for_request lib w' r"
proof -
  have "pred_option allowed (cir_path (complete_request r))"
    using assms(3) by (auto simp: complete_request_def new_index_request_def option.pred_map comp_def)
  then have "analyze_complete_source (mw_adapters w) (complete_request r) = analyze_complete_source (mw_adapters w') (complete_request r)"
    using assms(1) by (simp add: same_below_def)
  moreover have "now_unix_ms w = now_unix_ms w'" using assms(1) by (simp add: same_below_def now_unix_ms_def)
  ultimately have same: "index_complete_source (mw_adapters w) (ml_serde lib) (complete_request r) (now_unix_ms w) p store =
      index_complete_source (mw_adapters w') (ml_serde lib) (complete_request r) (now_unix_ms w') p store" for p store
    by (simp add: index_complete_source_def)
  show ?thesis
    unfolding index_database_for_request_def Let_def opened_same[OF assms(1,2)] same ..
qed


lemmas tool_defs = list_databases_for_request_def list_snapshots_for_request_def describe_snapshot_for_request_def
  list_objects_for_request_def find_objects_for_request_def describe_object_for_request_def open_snapshot_def
  list_tables_for_request_def describe_table_for_request_def find_table_for_request_def find_column_for_request_def
  impact_analysis_for_request_def trace_relationships_for_request_def schema_diff_for_request_def query_graph_for_request_def

lemma tools_same:
  assumes "same_below allowed w w'"
  shows "allowed (components (cache_path_of (ldq_cache_path r1))) \<Longrightarrow> list_databases_for_request lib w r1 = list_databases_for_request lib w' r1"
    "allowed (components (cache_path_of (lsq_cache_path r2))) \<Longrightarrow> list_snapshots_for_request lib w r2 = list_snapshots_for_request lib w' r2"
    "allowed (components (cache_path_of (dsq_cache_path r3))) \<Longrightarrow> describe_snapshot_for_request lib w r3 = describe_snapshot_for_request lib w' r3"
    "allowed (components (cache_path_of (loq_cache_path r4))) \<Longrightarrow> list_objects_for_request lib w r4 = list_objects_for_request lib w' r4"
    "allowed (components (cache_path_of (foq_cache_path r5))) \<Longrightarrow> find_objects_for_request lib w r5 = find_objects_for_request lib w' r5"
    "allowed (components (cache_path_of (doq_cache_path r6))) \<Longrightarrow> describe_object_for_request lib w r6 = describe_object_for_request lib w' r6"
    "allowed (components (cache_path_of (ltq_cache_path r7))) \<Longrightarrow> list_tables_for_request lib w r7 = list_tables_for_request lib w' r7"
    "allowed (components (cache_path_of (dtq_cache_path r8))) \<Longrightarrow> describe_table_for_request lib w r8 = describe_table_for_request lib w' r8"
    "allowed (components (cache_path_of (ftq_cache_path r9))) \<Longrightarrow> find_table_for_request lib w r9 = find_table_for_request lib w' r9"
    "allowed (components (cache_path_of (fcq_cache_path r10))) \<Longrightarrow> find_column_for_request lib w r10 = find_column_for_request lib w' r10"
    "allowed (components (cache_path_of (iaq_cache_path r11))) \<Longrightarrow> impact_analysis_for_request lib w r11 = impact_analysis_for_request lib w' r11"
    "allowed (components (cache_path_of (trq_cache_path r12))) \<Longrightarrow> trace_relationships_for_request lib w r12 = trace_relationships_for_request lib w' r12"
    "allowed (components (cache_path_of (sdq_cache_path r13))) \<Longrightarrow> schema_diff_for_request lib w r13 = schema_diff_for_request lib w' r13"
    "allowed (components (cache_path_of (qgq_cache_path r14))) \<Longrightarrow> query_graph_for_request lib w r14 = query_graph_for_request lib w' r14"
  using opened_same[OF assms] by (simp_all only: tool_defs Let_def)

lemma stats_same:
  "same_below allowed w w' \<Longrightarrow> allowed (components p) \<Longrightarrow> graph_stats_for_cache_path w p = graph_stats_for_cache_path w' p"
  using opened_same[of allowed w w' p] by (simp only: graph_stats_for_cache_path_def)



definition sample_local_paths :: local_paths where
  "sample_local_paths = \<lparr>lp_current_dir = Ok [RootDir, Normal ''srv''], lp_canonicalize = sample_fs\<rparr>"

definition sample_server :: DatabaseMemoryMcp where
  "sample_server = \<lparr>dmm_path_policy = \<lparr>mpp_roots = [components ''/srv'']\<rparr>\<rparr>"

lemma sample_server_new: "with_allowed_roots sample_local_paths [components ''/srv''] = Ok sample_server"
  by code_simp

lemma sample_link_refused: "validate_local_paths sample_local_paths sample_server (Some ''/srv/link/x'') None = Err denied"
  by code_simp

definition sample_world :: "adapters \<Rightarrow> string set \<Rightarrow> mcp_world" where
  "sample_world ad files =
     \<lparr>mw_exists = (\<lambda>p. p \<in> files), mw_connect = (\<lambda>_. Err ''no database''), mw_create_dir_all = (\<lambda>_. Ok ()),
       mw_since_epoch = Some 0, mw_adapters = ad\<rparr>"

lemma sample_world_sel:
  "mw_exists (sample_world ad files) = (\<lambda>p. p \<in> files)" "mw_connect (sample_world ad files) = (\<lambda>_. Err ''no database'')"
  "mw_create_dir_all (sample_world ad files) = (\<lambda>_. Ok ())" "mw_since_epoch (sample_world ad files) = Some 0"
  "mw_adapters (sample_world ad files) = ad"
  by (simp_all add: sample_world_def)

lemma sample_world_dirs: "ensure_parent_dir (sample_world ad files) p = Ok ()"
  by (simp add: ensure_parent_dir_def sample_world_def split: option.splits)


section \<open>Both clients describe a table alike\<close>

definition foreign_key_view :: "ForeignKeyDescription \<Rightarrow> McpForeignKeyDescription" where
  "foreign_key_view f =
     \<lparr>mfk_object_key = fkd_key f, mfk_name = fkd_name f, mfk_table_key = fkd_table_key f, mfk_table = fkd_table f,
       mfk_column_keys = fkd_column_keys f, mfk_columns = fkd_columns f,
       mfk_referenced_table_key = fkd_referenced_table_key f, mfk_referenced_table = fkd_referenced_table f,
       mfk_referenced_column_keys = fkd_referenced_column_keys f, mfk_referenced_columns = fkd_referenced_columns f\<rparr>"

text \<open>What the MCP server shows of a description of the command line: everything but the dependent objects.\<close>

definition description_view :: "ObjectKey \<Rightarrow> TableDescription \<Rightarrow> McpTableDescription" where
  "description_view key d =
     \<lparr>mtd_snapshot_key = tds_snapshot_key d, mtd_object_key = tds_table_key d, mtd_database = ok_database key,
       mtd_schema = ok_schema key, mtd_table = tds_table_name d, mtd_columns = map column_description (tds_columns d),
       mtd_primary_key = tds_primary_key d,
       mtd_primary_key_keys = keys_as_strings (mcp_primary_key_columns (tds_constraints d)),
       mtd_constraints = map constraint_description (tds_constraints d),
       mtd_foreign_keys =
         \<lparr>fks_outbound = map foreign_key_view (tds_outbound_foreign_keys d),
          fks_inbound = map foreign_key_view (tds_inbound_foreign_keys d)\<rparr>,
       mtd_indexes = map index_description (tds_indexes d), mtd_capability_warnings = tds_capability_warnings d\<rparr>"

lemma insort_key_map: "insort_key f (g x) (map g xs) = map g (insort_key (\<lambda>y. f (g y)) x xs)"
  by (induction xs) simp_all

lemma sort_key_map: "sort_key f (map g xs) = map g (sort_key (\<lambda>y. f (g y)) xs)"
  by (induction xs) (simp_all add: insort_key_map)

lemma foreign_keys_viewed:
  "sort_key mfk_name (map mcp_foreign_key_description cs) = map foreign_key_view (sort_key fkd_name (map foreign_key_description cs))"
proof -
  have view: "mcp_foreign_key_description = (\<lambda>c. foreign_key_view (foreign_key_description c))"
    by (rule ext) (simp add: or_default_def mcp_foreign_key_description_def foreign_key_view_def foreign_key_description_def split: option.splits)
  have "mfk_name (foreign_key_view f) = fkd_name f" for f by (simp add: foreign_key_view_def)
  then show ?thesis unfolding view sort_key_map map_map comp_def by simp
qed

lemma primary_key_named: "names_from_keys (mcp_primary_key_columns cs) = primary_key_of cs"
  by (simp add: mcp_primary_key_columns_def primary_key_of_def names_from_keys_def or_default_def split: option.splits)

lemma only_key: "(case keys of [] \<Rightarrow> Err e | [x] \<Rightarrow> Ok x | x # y # ys \<Rightarrow> Err (e' x y ys)) = Ok k \<longleftrightarrow> keys = [k]"
  by (auto split: list.splits)

lemma description_of_node:
  assumes "describe_table (ml_readers lib) (ml_serde lib) sk k n store = Ok d"
    and "\<And>node. resolve_table_node sk k n store = Ok node \<Longrightarrow> mcp_find_table_node sk selector store = Ok node"
  shows "\<exists>key. parse_object_key (tds_table_key d) = Ok key \<and> mcp_describe_table lib sk selector store = Ok (description_view key d)"
proof -
  obtain node where node: "resolve_table_node sk k n store = Ok node" using assms(1) by (auto simp: describe_table_def try_with_Ok_iff)
  obtain key where "object_key_of node = Ok key" "tds_table_key d = gn_node_key node"
    using assms(1) node by (auto simp: describe_table_def try_with_Ok_iff)
  moreover then have "parse_object_key (tds_table_key d) = Ok key"
    by (auto simp: object_key_of_def map_err_def split: sum.splits)
  moreover have "mcp_describe_table lib sk selector store = Ok (description_view key d)"
    using assms(1) node assms(2)[OF node] calculation(1)
    by (auto simp: describe_table_def mcp_describe_table_def try_with_Ok_iff description_view_def foreign_keys_viewed
        primary_key_named outbound_of_def)
  ultimately show ?thesis by blast
qed

text \<open>Both clients describe a table alike. When the command line describes a table by its key, the MCP server
  describes the table of that key with the same columns, primary key, constraints, foreign keys in both
  directions, indexes and warnings in the same order; when the command line describes it by its name, so does the
  MCP server, unless the name is itself the key of a node.\<close>

lemma nodes_described_alike:
  assumes "describe_table (ml_readers lib) (ml_serde lib) sk k n store = Ok d"
    and "\<And>name. n = Some name \<Longrightarrow> get_node sk name store = Ok None"
  shows "\<exists>selector key. (k = Some selector \<or> n = Some selector) \<and> parse_object_key (tds_table_key d) = Ok key
    \<and> mcp_describe_table lib sk selector store = Ok (description_view key d)"
proof -
  obtain node where "resolve_table_node sk k n store = Ok node" using assms(1) by (auto simp: describe_table_def try_with_Ok_iff)
  then consider selector where "k = Some selector" "n = None" | selector where "k = None" "n = Some selector"
    by (auto simp: resolve_table_node_def split: option.splits)
  then show ?thesis
  proof cases
    case 1
    then have "mcp_find_table_node sk selector store = Ok node" if "resolve_table_node sk k n store = Ok node" for node
      using that by (auto simp: resolve_table_node_def mcp_find_table_node_def required_node_def try_with_Ok_iff ok_or_def split: option.splits if_splits)
    from description_of_node[OF assms(1) this] 1(1) show ?thesis by blast
  next
    case 2
    then have "mcp_find_table_node sk selector store = Ok node" if "resolve_table_node sk k n store = Ok node" for node
      using that assms(2)
      by (simp add: resolve_table_node_def cli_find_table_node_def mcp_find_table_node_def store_text_def map_err_Ok_iff try_with_Ok_iff only_key)
    from description_of_node[OF assms(1) this] 2(2) show ?thesis by blast
  qed
qed

definition sample_mcp_library :: mcp_library where
  "sample_mcp_library = \<lparr>ml_serde = sample_column_serde, ml_readers = sample_readers, ml_lowercase = to_ascii_lowercase\<rparr>"

abbreviation sample_users :: string where
  "sample_users \<equiv> key_to_string (tbl_key (sample_table ''users''))"

section \<open>All clients resolve a snapshot alike\<close>

text \<open>What the three functions have in common: an exact key, or the only one of the keys that match.\<close>

definition resolved :: "(string \<Rightarrow> bool) \<Rightarrow> string \<Rightarrow> Connection \<Rightarrow> string \<Rightarrow> bool" where
  "resolved matching selector store k =
     (\<exists>found. get_snapshot selector store = Ok found
        \<and> (if found = None
           then \<exists>rows. list_snapshots store = Ok rows \<and> filter matching (map gs_snapshot_key rows) = [k]
           else k = selector))"

lemma sort_singleton: "sort xs = [k] \<longleftrightarrow> xs = [k :: string]"
proof
  assume "sort xs = [k]"
  then have "mset xs = {#k#}" by (metis mset_single_iff_right mset_sort)
  then show "xs = [k]" by simp
qed simp

lemma resolvers:
  "mcp_resolve_snapshot_key selector store = Ok k \<longleftrightarrow> resolved (\<lambda>key. alias_from_snapshot_key key = selector) selector store k"
  "resolve_snapshot_key selector store = Ok k \<longleftrightarrow> resolved (\<lambda>key. alias_from_snapshot_key key = selector) selector store k"
  "cli_resolve_snapshot_key selector store = Ok k \<longleftrightarrow>
     resolved (\<lambda>key. case split_once (CHR '':'') key of Some (_, alias) \<Rightarrow> alias = selector | None \<Rightarrow> False) selector store k"
  by (auto simp: mcp_resolve_snapshot_key_def resolve_snapshot_key_def cli_resolve_snapshot_key_def resolved_def try_with_Ok_iff
      store_text_def map_err_Ok_iff only_key sort_singleton Let_def filter_map comp_def)

lemma resolved_cong:
  assumes "\<And>key. key \<noteq> selector \<Longrightarrow> P key = Q key"
  shows "resolved P selector store k = resolved Q selector store k"
proof -
  have "filter P (map gs_snapshot_key rows) = filter Q (map gs_snapshot_key rows)"
    if "get_snapshot selector store = Ok None" "list_snapshots store = Ok rows" for rows
  proof (rule filter_cong[OF refl])
    fix key assume "key \<in> set (map gs_snapshot_key rows)"
    then have "key \<noteq> selector"
      using that by (auto simp: get_snapshot_def list_snapshots_def read_with_def find_row_def find_None_iff split: option.splits)
    then show "P key = Q key" by (rule assms)
  qed
  then show ?thesis by (auto simp: resolved_def)
qed

text \<open>The command line, the MCP server and the interface contract resolve a selector to the same snapshot, whatever
  the store holds and wherever it fails: an exact key first, otherwise the only key with that alias.\<close>

lemma clients_resolve_alike:
  "(cli_resolve_snapshot_key selector store = Ok k \<longleftrightarrow> mcp_resolve_snapshot_key selector store = Ok k)
   \<and> (resolve_snapshot_key selector store = Ok k \<longleftrightarrow> mcp_resolve_snapshot_key selector store = Ok k)"
  unfolding resolvers
  by (intro conjI resolved_cong refl) (auto simp: alias_from_snapshot_key_def split: option.splits prod.splits)

end
