(* ===== verification/Mcp_Listing.thy ===== *)
theory Mcp_Listing
  imports Mcp_Server
begin

text \<open>
  From one tool to the next: what \<open>index_database\<close> stored is what \<open>list_tables\<close> and \<open>find_table\<close> list page by page,
  and every table they list can be given to \<open>describe_table\<close>.
\<close>

section \<open>Reopening the cache\<close>

lemma stored_reopened:
  assumes "insert_certified_schema_snapshot_graph sj sk t c store = (Ok (), store')" and "conn_inv store"
    and "from_connection conn = Ok reopened" and "cn_db conn = durable store'" and "no_read_faults reopened"
  shows "stored sj sk c reopened"
proof -
  obtain v where "migrate conn = (Ok v, reopened)"
    using assms(3) by (auto simp: from_connection_def try_with_Ok_iff split: prod.splits)
  then have "same_rows (cn_db reopened) (durable store')" using migrate_Ok assms(4) by fastforce
  then show ?thesis
    unfolding stored_def same_rows_def
    using certified_Ok[OF assms(1,2)] certified_effect[OF assms(1,2)] assms(5) by metis
qed

lemma stored_selected:
  assumes "stored sj sk c store"
  shows "mcp_resolve_snapshot_key sk store = Ok sk" "require_snapshot sk store = Ok ()"
proof -
  obtain t where "filter (\<lambda>x. gs_snapshot_key x = sk) (gd_snapshots (cn_db store)) =
      [snapshot_record sj sk t (can_schema (cert_snapshot c)) (PCertified c)]" using assms by (auto simp: stored_def)
  from find_filter[OF this] obtain row where "get_snapshot sk store = Ok (Some row)"
    using assms by (auto simp: get_snapshot_def read_with_def stored_def no_read_faults_def find_row_def)
  then show "mcp_resolve_snapshot_key sk store = Ok sk" "require_snapshot sk store = Ok ()"
    by (simp_all add: mcp_resolve_snapshot_key_def require_snapshot_def store_text_def map_err_def ok_or_def)
qed

section \<open>The tables of a stored snapshot\<close>

definition table_match :: "TableObject \<Rightarrow> TableMatch" where
  "table_match x =
     \<lparr>tmt_object_key = key_to_string (tbl_key x), tmt_database = ok_database (tbl_key x),
       tmt_schema = ok_schema (tbl_key x), tmt_table = ok_object_name (tbl_key x)\<rparr>"

definition name_matches :: "mcp_library \<Rightarrow> string option \<Rightarrow> TableObject \<Rightarrow> bool" where
  "name_matches lib name_filter x =
     (case name_filter of
        Some needle \<Rightarrow> contains_str (ml_lowercase lib (ok_object_name (tbl_key x))) (ml_lowercase lib needle)
      | None \<Rightarrow> True)"

text \<open>The tables a client asks for, ordered by database, schema and name.\<close>

definition tables_listed :: "mcp_library \<Rightarrow> string option \<Rightarrow> SchemaSnapshot \<Rightarrow> TableMatch list" where
  "tables_listed lib name_filter s =
     sort_key (\<lambda>m. (tmt_database m, tmt_schema m, tmt_table m, tmt_object_key m))
       (map table_match (filter (name_matches lib name_filter) (snap_tables s)))"

lemma no_other_table_label: "metadata_object_label kind \<noteq> ''Table''" "constraint_label ckind \<noteq> ''Table''"
  by (cases kind; simp) (cases ckind; simp)

lemma table_nodes:
  "filter (\<lambda>n. gn_label n = ''Table'') (projected_nodes sj sk s m) =
     map (\<lambda>x. node_record sj sk (annotation_map m) (tbl_key x) ''Table'' (tbl_name x) (PTable x)) (sorted_by_key tbl_key (snap_tables s))"
  by (simp add: projected_nodes_def Let_def filter_map comp_def node_record_sel no_other_table_label split: option.splits)

lemma table_nodes_stored:
  assumes "stored sj sk c store"
  shows "nodes_by_label sk ''Table'' store =
    Ok (map (\<lambda>x. node_record sj sk (annotation_map (Some (can_metadata (cert_snapshot c)))) (tbl_key x) ''Table'' (tbl_name x) (PTable x))
      (snap_tables (can_schema (cert_snapshot c))))"
proof -
  note sorted = normalized_sorted(1)[OF stored_schema(2)[OF assms]]
  have "filter (\<lambda>x. gn_snapshot_key x = sk \<and> gn_label x = ''Table'') (gd_nodes (cn_db store)) =
      filter (\<lambda>n. gn_label n = ''Table'') (nodes_of sj sk c)"
    using assms by (simp only: filter_filter_conj) (simp add: stored_def)
  then show ?thesis
    using assms sorted
    by (simp add: nodes_by_label_def read_with_def stored_def no_read_faults_def nodes_of_def table_nodes sorted_by_key_def
        sort_key_sorted_id node_record_sel comp_def)
qed

lemma find_tables_stored:
  assumes "stored sj sk c store" and "readable_keys c"
  shows "find_tables lib sk name_filter store = Ok (tables_listed lib name_filter (can_schema (cert_snapshot c)))"
proof -
  let ?s = "can_schema (cert_snapshot c)"
  let ?node = "\<lambda>x. node_record sj sk (annotation_map (Some (can_metadata (cert_snapshot c)))) (tbl_key x) ''Table'' (tbl_name x) (PTable x)"
  have key: "object_key_of (?node x) = Ok (tbl_key x)" if "x \<in> set (snap_tables ?s)" for x
    using readable_key[OF assms(2) object_keys_registered(4)[OF that]] by (simp add: object_key_of_def node_record_sel map_err_def)
  have collect: "try_fold (\<lambda>node tables. try_with (object_key_of node) (\<lambda>key.
        Ok (if (case name_filter of Some needle \<Rightarrow> contains_str (ml_lowercase lib (ok_object_name key)) (ml_lowercase lib needle) | None \<Rightarrow> True)
            then tables @ [\<lparr>tmt_object_key = gn_node_key node, tmt_database = ok_database key, tmt_schema = ok_schema key, tmt_table = ok_object_name key\<rparr>]
            else tables))) (map ?node xs) acc =
      Ok (acc @ map table_match (filter (name_matches lib name_filter) xs))" if "set xs \<subseteq> set (snap_tables ?s)" for xs acc
    using that
  proof (induction xs arbitrary: acc)
    case (Cons x xs)
    have "(case name_filter of Some needle \<Rightarrow> contains_str (ml_lowercase lib (ok_object_name (tbl_key x))) (ml_lowercase lib needle) | None \<Rightarrow> True) = name_matches lib name_filter x"
      by (simp add: name_matches_def)
    with Cons show ?case by (simp add: key node_record_sel table_match_def)
  qed simp
  show ?thesis
    using collect[of "snap_tables ?s" "[]"]
    by (simp add: find_tables_def table_nodes_stored[OF assms(1)] store_text_def map_err_def tables_listed_def)
qed


lemma paginate_Ok:
  assumes "0 < limit" and "length items \<le> usize_MAX"
  shows "\<exists>page. paginate items (Some offset) (Some limit) = Ok page \<and> pag_items page = take (min limit 500) (drop offset items)
    \<and> mpg_total (pag_metadata page) = length items
    \<and> (mpg_has_more (pag_metadata page) \<longleftrightarrow> offset + min limit 500 < length items)"
  using assms by (auto simp: paginate_def or_default_def MAX_PAGE_LIMIT_def saturating_add_def Let_def)

lemma described_stored:
  assumes "stored (ml_serde lib) sk c store" and "readable_keys c"
    and "reads_payloads (ml_serde lib) (ml_readers lib) (can_schema (cert_snapshot c))" and "reads_certificate (ml_serde lib) c"
    and "m \<in> set (tables_listed lib name_filter (can_schema (cert_snapshot c)))"
  shows "\<exists>d. mcp_describe_table lib sk (tmt_object_key m) store = Ok d \<and> mtd_object_key d = tmt_object_key m \<and> mtd_table d = tmt_table m"
proof -
  let ?s = "can_schema (cert_snapshot c)"
  obtain x where x: "x \<in> set (snap_tables ?s)" "m = table_match x" using assms(5) by (auto simp: tables_listed_def)
  let ?k = "key_to_string (tbl_key x)"
  obtain d where d: "describe_table (ml_readers lib) (ml_serde lib) sk (Some ?k) None store = Ok d"
    "tds_table_key d = ?k" "tds_table_name d = tbl_name x"
    using descriptions_agree[OF assms(1-4) x(1)] by (simp add: inventory_describe_def Let_def)
  have "mcp_find_table_node sk ?k store = Ok node" if "resolve_table_node sk (Some ?k) None store = Ok node" for node
    using that by (auto simp: resolve_table_node_def mcp_find_table_node_def required_node_def try_with_Ok_iff ok_or_def split: option.splits if_splits)
  from description_of_node[OF d(1) this]
  obtain key where "mcp_describe_table lib sk ?k store = Ok (description_view key d)" by blast
  moreover have "tbl_name x = ok_object_name (tbl_key x)"
    using schema_parts(1)[OF stored_schema(1)[OF assms(1)] x(1)] by (auto simp: wf_table_def identity_matches_def)
  ultimately show ?thesis using d(2,3) x(2) by (simp add: description_view_def table_match_def)
qed

section \<open>From indexing to listing\<close>

text \<open>A later world in which the cache at a path is what a store left behind, and can be opened and read.\<close>

definition reopens :: "mcp_world \<Rightarrow> string \<Rightarrow> Connection \<Rightarrow> bool" where
  "reopens w p store =
     (mw_exists w p
      \<and> (\<exists>conn reopened. mw_connect w p = Ok conn \<and> cn_db conn = durable store
           \<and> from_connection conn = Ok reopened \<and> no_read_faults reopened))"

lemma indexed_reopened:
  assumes "index_database_for_request lib w r = Some (Ok res, Some store)"
    and "\<And>conn. mw_connect w (cache_path_of (idr_cache_path r)) = Ok conn \<Longrightarrow> graph_inv (cn_db conn)"
    and "analyze_complete_source (mw_adapters w) (complete_request r) = Some (CompleteOutcome c)"
    and "reopens w' (cache_path_of (idr_cache_path r)) store"
  shows "\<exists>reopened. open_snapshot w' (idr_cache_path r) (ixr_snapshot_key res) = Ok (reopened, ixr_snapshot_key res)
    \<and> stored (ml_serde lib) (ixr_snapshot_key res) c reopened"
proof -
  let ?p = "cache_path_of (idr_cache_path r)"
  obtain store0 where store0: "open_contract_cache w ?p = Ok store0"
    and run: "index_complete_source (mw_adapters w) (ml_serde lib) (complete_request r) (now_unix_ms w) ?p store0 = Some (Ok res, store)"
    using assms(1) by (auto simp: index_database_for_request_def Let_def split: sum.splits)
  obtain conn where conn: "mw_connect w ?p = Ok conn" "from_connection conn = Ok store0"
    using store0 by (auto simp: open_contract_cache_def open_store_def map_err_Ok_iff try_with_Ok_iff)
  have inv: "conn_inv store0" using conn_inv_opened[OF conn(2)] assms(2)[OF conn(1)] .
  have ins: "insert_certified_schema_snapshot_graph (ml_serde lib) (ixr_snapshot_key res) (now_unix_ms w) c store0 = (Ok (), store)"
    using index_Ok[OF run] assms(3)
    by (metis AnalysisOutcome.inject(1) IndexResult.select_convs(3) index_result_def option.inject)
  obtain conn' reopened where r: "mw_exists w' ?p" "mw_connect w' ?p = Ok conn'" "cn_db conn' = durable store"
    "from_connection conn' = Ok reopened" "no_read_faults reopened" using assms(4) by (auto simp: reopens_def)
  have "stored (ml_serde lib) (ixr_snapshot_key res) c reopened" by (rule stored_reopened[OF ins inv r(4,3,5)])
  moreover have "open_existing_store w' ?p = Ok reopened"
    using r by (simp add: open_existing_store_def open_store_def store_text_def map_err_def)
  ultimately show ?thesis
    by (intro exI[of _ reopened] conjI) (simp_all add: open_snapshot_def stored_selected)
qed


text \<open>C19: what a client indexes it can list and describe. After a successful call of the index tool, and a later world in
  which the cache holds what that call made durable, the table listing for the reported snapshot answers every offset and
  positive limit: with the part of the certified tables that match the name filter, ordered by database, schema and
  name, that starts at the offset and has at most 500 elements; more is announced exactly when tables are left;
  and the description tool describes every listed table under its key.\<close>

theorem indexed_tables_listed:
  assumes "index_database_for_request lib w r = Some (Ok res, Some store)"
    and "\<And>conn. mw_connect w (cache_path_of (idr_cache_path r)) = Ok conn \<Longrightarrow> graph_inv (cn_db conn)"
    and "analyze_complete_source (mw_adapters w) (complete_request r) = Some (CompleteOutcome c)"
    and "reopens w' (cache_path_of (idr_cache_path r)) store"
    and "readable_keys c" and "reads_payloads (ml_serde lib) (ml_readers lib) (can_schema (cert_snapshot c))"
    and "reads_certificate (ml_serde lib) c" and "length (snap_tables (can_schema (cert_snapshot c))) \<le> usize_MAX" and "0 < limit"
  shows "\<exists>page. list_tables_for_request lib w' \<lparr>ltq_alias = ixr_snapshot_key res, ltq_cache_path = idr_cache_path r,
        ltq_name_filter = name_filter, ltq_offset = Some offset, ltq_limit = Some limit\<rparr> = Ok page
    \<and> ltr_table_matches page = take (min limit 500) (drop offset (tables_listed lib name_filter (can_schema (cert_snapshot c))))
    \<and> (mpg_has_more (ltr_page page) \<longleftrightarrow> offset + min limit 500 < length (tables_listed lib name_filter (can_schema (cert_snapshot c))))
    \<and> list_all (\<lambda>m. \<exists>d. describe_table_for_request lib w' \<lparr>dtq_alias = ixr_snapshot_key res, dtq_table_name = tmt_object_key m,
          dtq_cache_path = idr_cache_path r\<rparr> = Ok d \<and> mtd_object_key d = tmt_object_key m \<and> mtd_table d = tmt_table m)
        (ltr_table_matches page)"
proof -
  let ?s = "can_schema (cert_snapshot c)"
  let ?all = "tables_listed lib name_filter ?s"
  obtain reopened where opened: "open_snapshot w' (idr_cache_path r) (ixr_snapshot_key res) = Ok (reopened, ixr_snapshot_key res)"
    and stored: "stored (ml_serde lib) (ixr_snapshot_key res) c reopened" using indexed_reopened[OF assms(1-4)] by blast
  have "length ?all \<le> usize_MAX"
    using le_trans[OF length_filter_le[of "name_matches lib name_filter" "snap_tables ?s"] assms(8)] by (simp add: tables_listed_def)
  from paginate_Ok[OF assms(9) this, of offset] obtain page where page: "paginate ?all (Some offset) (Some limit) = Ok page"
    "pag_items page = take (min limit 500) (drop offset ?all)"
    "mpg_has_more (pag_metadata page) \<longleftrightarrow> offset + min limit 500 < length ?all" by blast
  have "\<exists>d. mcp_describe_table lib (ixr_snapshot_key res) (tmt_object_key m) reopened = Ok d
      \<and> mtd_object_key d = tmt_object_key m \<and> mtd_table d = tmt_table m" if "m \<in> set (pag_items page)" for m
    using described_stored[OF stored assms(5-7)] that page(2) by (metis in_set_dropD in_set_takeD)
  then show ?thesis
    using page
    by (simp add: list_tables_for_request_def describe_table_for_request_def opened find_tables_stored[OF stored assms(5)] list_all_iff)
qed

section \<open>A run\<close>

text \<open>An engine without faults migrates every database of a supported version.\<close>

lemma quiet_execute:
  "cn_faults conn = [] \<Longrightarrow> statement (cn_foreign_keys conn) (cn_db conn) = Ok db \<Longrightarrow> execute statement conn = (Ok (), conn\<lparr>cn_db := db\<rparr>)"
  by (simp add: execute_def with_engine_def next_fault_def map_err_def)

lemma quiet_create:
  "cn_faults conn = [] \<Longrightarrow> \<exists>db. for_each (\<lambda>name. execute (create_if_not_exists name)) names conn = (Ok (), conn\<lparr>cn_db := db\<rparr>)"
proof (induction names arbitrary: conn)
  case Nil
  then show ?case by (intro exI[of _ "cn_db conn"]) (simp add: io_return_def)
next
  case (Cons name names)
  obtain db where db: "create_if_not_exists name (cn_foreign_keys conn) (cn_db conn) = Ok db" by (simp add: create_if_not_exists_def)
  from Cons.IH[of "conn\<lparr>cn_db := db\<rparr>"] Cons.prems show ?case
    by (simp add: io_then_def io_bind_def quiet_execute[of conn "create_if_not_exists name", OF Cons.prems db])
qed

lemma quiet_opens:
  assumes "cn_faults conn = []" and "cn_saved conn = None" and "cn_read_fault conn = (\<lambda>_. None)"
    and "gd_user_version (cn_db conn) \<le> 2"
  shows "\<exists>store. from_connection conn = Ok store \<and> cn_faults store = [] \<and> cn_saved store = None \<and> cn_read_fault store = (\<lambda>_. None)
    \<and> gd_user_version (cn_db store) = 2"
proof -
  let ?c = "conn\<lparr>cn_foreign_keys := True, cn_saved := Some (cn_db conn)\<rparr>"
  obtain db where created: "for_each (\<lambda>name. execute (create_if_not_exists name)) migration_objects ?c = (Ok (), ?c\<lparr>cn_db := db\<rparr>)"
    using quiet_create[of ?c migration_objects] assms(1) by auto
  let ?c' = "?c\<lparr>cn_db := db\<rparr>"
  have "enable_foreign_keys conn = (Ok (), conn\<lparr>cn_foreign_keys := True\<rparr>)" "begin_immediate (conn\<lparr>cn_foreign_keys := True\<rparr>) = (Ok (), ?c)"
    using assms(1,2) by (simp_all add: enable_foreign_keys_def begin_immediate_def with_engine_def next_fault_def map_err_def)
  moreover have "execute (\<lambda>_ d. Ok (d\<lparr>gd_user_version := 2\<rparr>)) ?c' = (Ok (), ?c'\<lparr>cn_db := db\<lparr>gd_user_version := 2\<rparr>\<rparr>)"
    using quiet_execute[of ?c' "\<lambda>_ d. Ok (d\<lparr>gd_user_version := 2\<rparr>)"] assms(1) by simp
  moreover have "commit (?c'\<lparr>cn_db := db\<lparr>gd_user_version := 2\<rparr>\<rparr>) = (Ok (), conn\<lparr>cn_foreign_keys := True, cn_db := db\<lparr>gd_user_version := 2\<rparr>\<rparr>)"
    using assms(1,2) by (simp add: commit_def with_engine_def next_fault_def map_err_def)
  ultimately have "from_connection conn = Ok (conn\<lparr>cn_foreign_keys := True, cn_db := db\<lparr>gd_user_version := 2\<rparr>\<rparr>)"
    using assms(3,4) created
    by (simp add: from_connection_def migrate_def schema_version_def read_with_def io_bind_def io_then_def migration_batch_def
        GRAPH_STORE_SCHEMA_VERSION_def)
  then show ?thesis using assms(1-3) by simp
qed


definition sample_index_request :: IndexDatabaseRequest where
  "sample_index_request =
     \<lparr>idr_source = ''sqlite'', idr_path = Some ''db'', idr_connection_string = None, idr_alias = ''app'',
       idr_requested_catalogs = [], idr_requested_schemas = [], idr_timeout_ms = None, idr_cache_path = None\<rparr>"

lemma sample_complete_request: "complete_request sample_index_request = sample_request"
proof -
  have "components ''db'' = [Normal ''db'']" by code_simp
  then show ?thesis
    by (simp add: complete_request_def sample_index_request_def sample_request_def new_index_request_def or_default_def)
qed

definition sample_cache_world :: "GraphDb \<Rightarrow> mcp_world" where
  "sample_cache_world db =
     \<lparr>mw_exists = (\<lambda>_. True), mw_connect = (\<lambda>_. Ok (sample_conn db)), mw_create_dir_all = (\<lambda>_. Ok ()),
       mw_since_epoch = Some 0, mw_adapters = sample_adapters sample_certified\<rparr>"

lemma sample_index_run:
  "\<exists>store. index_database_for_request sample_mcp_library (sample_cache_world empty_db) sample_index_request =
      Some (Ok (index_result sample_request 0 DEFAULT_CACHE_PATH ''sqlite:app'' sample_certified), Some store)
    \<and> gd_user_version (durable store) = 2"
proof -
  have "cn_faults (sample_conn empty_db) = []" "cn_saved (sample_conn empty_db) = None"
    "cn_read_fault (sample_conn empty_db) = (\<lambda>_. None)" "gd_user_version (cn_db (sample_conn empty_db)) \<le> 2"
    by (simp_all add: sample_conn_def empty_db_def)
  from quiet_opens[OF this] obtain store0 where store0: "from_connection (sample_conn empty_db) = Ok store0" "cn_faults store0 = []"
    "cn_saved store0 = None" "cn_read_fault store0 = (\<lambda>_. None)" "gd_user_version (cn_db store0) = 2" by blast
  moreover have "conn_inv store0" by (rule conn_inv_opened[OF store0(1)]) (simp add: sample_conn_def graph_inv_empty)
  ultimately have quiet: "quiet store0" by (simp add: quiet_def)
  have valid: "validate_persisted_snapshot_payload sample_column_serde (payload_json sample_column_serde (PCertified sample_certified)) = Ok ()"
    using certified_payload_valid[OF sample_column_stored] .
  let ?store = "store0\<lparr>cn_db := certified_into sample_column_serde ''sqlite:app'' 0 sample_certified (cn_db store0)\<rparr>"
  have ins: "insert_certified_schema_snapshot_graph sample_column_serde ''sqlite:app'' 0 sample_certified store0 = (Ok (), ?store)"
    using certified_quiet[OF quiet sample_certified_complete valid, of "''sqlite:app''" 0] by (simp add: sample_certified_projectable)
  have "index_complete_source (sample_adapters sample_certified) sample_column_serde sample_request 0 DEFAULT_CACHE_PATH store0 =
      Some (Ok (index_result sample_request 0 DEFAULT_CACHE_PATH ''sqlite:app'' sample_certified), ?store)"
    using ins by (simp add: index_complete_source_def sample_analysis) (simp add: sample_request_def new_index_request_def Let_def)
  then have "index_database_for_request sample_mcp_library (sample_cache_world empty_db) sample_index_request =
      Some (Ok (index_result sample_request 0 DEFAULT_CACHE_PATH ''sqlite:app'' sample_certified), Some ?store)"
    using store0(1) sample_complete_request
    by (simp add: index_database_for_request_def sample_cache_world_def ensure_parent_dir_def open_contract_cache_def open_store_def
        now_unix_ms_def or_default_def sample_mcp_library_def map_err_def Let_def i64_MAX_def cache_path_of_def
        sample_index_request_def[THEN arg_cong[of _ _ idr_cache_path]] split: option.splits)
  moreover have "gd_user_version (durable ?store) = 2"
    using store0(3,5) by (simp add: durable_def certified_into_def project_into_def)
  ultimately show ?thesis by blast
qed


theorem indexed_tables_listed_witness:
  "\<exists>w w' res store page. index_database_for_request sample_mcp_library w sample_index_request = Some (Ok res, Some store)
    \<and> list_tables_for_request sample_mcp_library w' \<lparr>ltq_alias = ixr_snapshot_key res, ltq_cache_path = None,
        ltq_name_filter = None, ltq_offset = Some 0, ltq_limit = Some 1\<rparr> = Ok page
    \<and> length (ltr_table_matches page) = 1 \<and> mpg_has_more (ltr_page page)"
proof -
  let ?w = "sample_cache_world empty_db" and ?s = "can_schema (cert_snapshot sample_certified)"
  obtain res store where run: "index_database_for_request sample_mcp_library ?w sample_index_request = Some (Ok res, Some store)"
    and version: "gd_user_version (durable store) = 2" using sample_index_run by blast
  let ?w' = "sample_cache_world (durable store)" and ?conn = "sample_conn (durable store)"
  obtain reopened where "from_connection ?conn = Ok reopened" "cn_read_fault reopened = (\<lambda>_. None)"
    using quiet_opens[of ?conn] version by (auto simp: sample_conn_def)
  then have "reopens ?w' (cache_path_of (idr_cache_path sample_index_request)) store"
    by (auto simp: reopens_def sample_cache_world_def sample_conn_def no_read_faults_def)
  moreover have "graph_inv (cn_db conn)" if "mw_connect ?w p = Ok conn" for p conn
    using that graph_inv_empty by (auto simp: sample_cache_world_def sample_conn_def)
  moreover have "analyze_complete_source (mw_adapters ?w) (complete_request sample_index_request) = Some (CompleteOutcome sample_certified)"
    by (simp add: sample_cache_world_def sample_complete_request sample_analysis)
  moreover have "reads_payloads (ml_serde sample_mcp_library) (ml_readers sample_mcp_library) ?s" "reads_certificate (ml_serde sample_mcp_library) sample_certified"
    using sample_columns_read by (simp_all add: sample_mcp_library_def)
  moreover have "length (snap_tables ?s) \<le> usize_MAX" by (simp add: sample_normalized usize_MAX_def)
  moreover have "length (tables_listed sample_mcp_library None ?s) = 2"
    by (simp add: tables_listed_def sample_normalized name_matches_def)
  moreover have "idr_cache_path sample_index_request = None" by (simp add: sample_index_request_def)
  ultimately obtain page where "list_tables_for_request sample_mcp_library ?w' \<lparr>ltq_alias = ixr_snapshot_key res, ltq_cache_path = None,
        ltq_name_filter = None, ltq_offset = Some 0, ltq_limit = Some 1\<rparr> = Ok page"
      "ltr_table_matches page = take (min 1 500) (drop 0 (tables_listed sample_mcp_library None ?s))" "mpg_has_more (ltr_page page)"
    using indexed_tables_listed[OF run _ _ _ sample_columns_read(1), of ?w' 1 None 0] by auto
  with run show ?thesis
    using \<open>length (tables_listed sample_mcp_library None ?s) = 2\<close>
    by (intro exI[of _ ?w] exI[of _ ?w'] exI[of _ res] exI[of _ store] exI[of _ page]) simp
qed

end
