(* ===== verification/Cli_Main.thy ===== *)
theory Cli_Main
  imports Mcp_Listing
begin

text \<open>
  \<open>main.rs\<close> of the command line: a parsed command is executed and its text printed. \<open>ensure_parent_dir\<close>,
  \<open>now_unix_ms\<close> and \<open>open_existing_store\<close> have the text of those in the MCP server and are shared with it, as is
  the parameter for the file system, the clock and the adapters. The derived encoders are parameters. Shown: a table
  described on the command line is described alike by the MCP server, and both clients index alike.
\<close>

section \<open>Printing\<close>

record cli_encoders =
  ce_pretty :: "McpValue \<Rightarrow> (string, string) result"
  ce_summary :: "SnapshotSummary \<Rightarrow> json"
  ce_interface_error :: "InterfaceError \<Rightarrow> json"
  ce_version :: string
  ce_odbc_feature :: bool

definition pretty_json :: "cli_encoders \<Rightarrow> McpValue \<Rightarrow> (string, string) result" where
  "pretty_json enc v = try_with (ce_pretty enc v) (\<lambda>json. Ok (json @ line_end))"

definition render_interface_error :: "cli_encoders \<Rightarrow> serde \<Rightarrow> InterfaceError \<Rightarrow> OutputFormat \<Rightarrow> string" where
  "render_interface_error enc sj err fmt =
     (case fmt of
        TextFormat \<Rightarrow> interface_error_to_string err
      | JsonFormat \<Rightarrow> to_text sj (json_members [(''status'', JString ''failed''), (''error'', ce_interface_error enc err)]))"

text \<open>The derived names of the states.\<close>

fun support_status_debug :: "SupportStatus \<Rightarrow> string" where
  "support_status_debug Certified = ''Certified''"
| "support_status_debug CapabilityNegotiated = ''CapabilityNegotiated''"
| "support_status_debug DeferredByOwner = ''DeferredByOwner''"

fun authority_debug :: "SnapshotAuthority \<Rightarrow> string" where
  "authority_debug AuthorityComplete = ''Complete''"
| "authority_debug LegacyNonAuthoritative = ''LegacyNonAuthoritative''"

definition tab :: string where "tab = [CHR 0x09]"

definition render_contract_text :: "ProductContract \<Rightarrow> string" where
  "render_contract_text contract =
     pct_product contract @ '' '' @ pct_version contract @ line_end
     @ ''contract version: '' @ show_nat (pct_contract_version contract) @ line_end
     @ ''metadata only: yes'' @ line_end @ ''row data access: no'' @ line_end
     @ join_with line_end (map (\<lambda>entry. sle_source entry @ '': '' @ support_status_debug (sle_status entry)
         @ (if sle_entrypoint_available entry then [] else '' (entrypoint unavailable)'')) (pct_support contract))
     @ line_end"

text \<open>None: the encoder fails and \<open>expect\<close> panics.\<close>

definition render_contract :: "cli_encoders \<Rightarrow> OutputFormat \<Rightarrow> string option" where
  "render_contract enc fmt =
     (let contract = product_contract (ce_version enc) (ce_odbc_feature enc)
      in case fmt of
           TextFormat \<Rightarrow> Some (render_contract_text contract)
         | JsonFormat \<Rightarrow> (case pretty_json enc (ContractValue contract) of Inr t \<Rightarrow> Some t | Inl _ \<Rightarrow> None))"

definition render_index_result :: "cli_encoders \<Rightarrow> IndexResult \<Rightarrow> OutputFormat \<Rightarrow> (string, string) result" where
  "render_index_result enc indexed fmt =
     (case fmt of
        TextFormat \<Rightarrow>
          (let adapter = prf_adapter (ixr_completeness indexed); server = prf_server (ixr_completeness indexed)
           in Ok (lines_of
                [''snapshot indexed: '' @ ixr_snapshot_key indexed, ''status: complete'',
                 ''objects indexed: '' @ show_nat (ixr_objects_indexed indexed),
                 ''graph edges indexed: '' @ show_nat (ixr_relationships_indexed indexed),
                 ''semantic relationships verified: '' @ show_nat (ixr_semantic_relationships_verified indexed),
                 ''adapter: '' @ adp_name adapter @ '' '' @ adp_version adapter,
                 ''server: '' @ srv_product server @ '' '' @ srv_version server,
                 ''cache path: '' @ ixr_cache_path indexed]))
      | JsonFormat \<Rightarrow> pretty_json enc (IndexValue indexed))"

definition render_snapshot_list ::
  "cli_encoders \<Rightarrow> cli_library \<Rightarrow> SnapshotSummary list \<Rightarrow> OutputFormat \<Rightarrow> (string, string) result" where
  "render_snapshot_list enc lib snapshots fmt =
     (case fmt of
        JsonFormat \<Rightarrow> Ok (json_line lib (json_members
          [(''contract_version'', jnat PRODUCT_CONTRACT_VERSION), (''snapshots'', JArray (map (ce_summary enc) snapshots))]))
      | TextFormat \<Rightarrow> Ok (join_with line_end (map (\<lambda>snapshot.
          ssm_snapshot_key snapshot @ tab @ authority_debug (ssm_authority snapshot) @ tab
          @ show_nat (ssm_objects snapshot) @ '' objects'' @ tab @ show_nat (ssm_relationships snapshot) @ '' relationships'') snapshots)
          @ line_end))"

definition render_snapshot_detail :: "cli_encoders \<Rightarrow> SnapshotDetail \<Rightarrow> OutputFormat \<Rightarrow> (string, string) result" where
  "render_snapshot_detail enc detail fmt =
     (case fmt of
        JsonFormat \<Rightarrow> pretty_json enc (SnapshotValue detail)
      | TextFormat \<Rightarrow>
          (let snapshot = sdt_snapshot detail
           in Ok (lines_of
                [''snapshot: '' @ ssm_snapshot_key snapshot, ''authority: '' @ authority_debug (ssm_authority snapshot),
                 ''objects: '' @ show_nat (ssm_objects snapshot), ''relationships: '' @ show_nat (ssm_relationships snapshot),
                 ''server: '' @ or_default (ssm_server_product snapshot) ''legacy'' @ '' ''
                   @ or_default (ssm_server_version snapshot) []])))"

definition render_object_page :: "cli_encoders \<Rightarrow> ObjectPage \<Rightarrow> OutputFormat \<Rightarrow> (string, string) result" where
  "render_object_page enc page fmt =
     (case fmt of
        JsonFormat \<Rightarrow> pretty_json enc (ObjectsValue page)
      | TextFormat \<Rightarrow> Ok (join_with line_end (map (\<lambda>object.
          kind_to_string (obs_kind object) @ tab @ or_default (obs_display_name object) (obs_object_name object) @ tab
          @ obs_object_key object) (opg_objects page)) @ line_end))"

definition render_object_detail :: "cli_encoders \<Rightarrow> ObjectDetail \<Rightarrow> OutputFormat \<Rightarrow> (string, string) result" where
  "render_object_detail enc detail fmt =
     (case fmt of
        JsonFormat \<Rightarrow> pretty_json enc (ObjectValue detail)
      | TextFormat \<Rightarrow>
          (let object = odt_object detail
           in Ok (lines_of
                [''object: '' @ obs_object_key object, ''kind: '' @ kind_to_string (obs_kind object),
                 ''name: '' @ or_default (obs_display_name object) (obs_object_name object),
                 ''incoming: '' @ show_nat (length (odt_incoming detail)),
                 ''outgoing: '' @ show_nat (length (odt_outgoing detail))])))"

section \<open>Executing a command\<close>

definition cli_open_contract_store ::
  "cli_encoders \<Rightarrow> serde \<Rightarrow> mcp_world \<Rightarrow> string \<Rightarrow> OutputFormat \<Rightarrow> (string, Connection) result" where
  "cli_open_contract_store enc sj w cache_path fmt =
     (if \<not> mw_exists w cache_path
      then Err (render_interface_error enc sj (invalid_request AtSnapshotLookup
        (''cache path '' @ quoted cache_path @ '' was not found'') ''run index first or provide an existing cache path'') fmt)
      else map_err (\<lambda>err. render_interface_error enc sj err fmt) (open_contract_cache w cache_path))"

text \<open>A command returns its text and the connection that indexing leaves; None is a panic.\<close>

type_synonym command_reply = "((string, string) result \<times> Connection option) option"

definition index_arguments :: "IndexArgs \<Rightarrow> CompleteIndexRequest" where
  "index_arguments a =
     (new_index_request (ixa_source a) (map_option components (ixa_path a)) (ixa_connection_string a) (ixa_alias a))
       \<lparr>cir_requested_catalogs := ixa_requested_catalogs a, cir_requested_schemas := ixa_requested_schemas a,
        cir_timeout_ms := ixa_timeout_ms a\<rparr>"

definition execute_index :: "cli_encoders \<Rightarrow> serde \<Rightarrow> mcp_world \<Rightarrow> IndexArgs \<Rightarrow> command_reply" where
  "execute_index enc sj w a =
     (let failed = (\<lambda>err. Err (render_interface_error enc sj err (ixa_format a)))
      in case ensure_parent_dir w (ixa_cache_path a) of
           Inl err \<Rightarrow> Some (failed (io_storage_error ''could not create cache directory'' err), None)
         | Inr _ \<Rightarrow>
             (case open_contract_cache w (ixa_cache_path a) of
                Inl err \<Rightarrow> Some (failed err, None)
              | Inr store \<Rightarrow>
                  map_option (\<lambda>(indexed, store).
                      ((case indexed of Inl err \<Rightarrow> failed err | Inr res \<Rightarrow> render_index_result enc res (ixa_format a)), Some store))
                    (index_complete_source (mw_adapters w) sj (index_arguments a) (now_unix_ms w) (ixa_cache_path a) store)))"

text \<open>The commands of the interface contract: open the cache, ask, print.\<close>

definition contract_command ::
  "cli_encoders \<Rightarrow> serde \<Rightarrow> mcp_world \<Rightarrow> string \<Rightarrow> OutputFormat \<Rightarrow> (Connection \<Rightarrow> (InterfaceError, 'a) result option)
    \<Rightarrow> ('a \<Rightarrow> (string, string) result) \<Rightarrow> command_reply" where
  "contract_command enc sj w cache_path fmt ask render =
     map_option (\<lambda>r. (r, None))
       (try_run (Some (cli_open_contract_store enc sj w cache_path fmt)) (\<lambda>store.
        try_run (map_option (map_err (\<lambda>err. render_interface_error enc sj err fmt)) (ask store)) (\<lambda>v. Some (render v))))"

text \<open>The commands of the graph: open the cache, resolve the snapshot, answer.\<close>

definition graph_command ::
  "mcp_world \<Rightarrow> string \<Rightarrow> string \<Rightarrow> (string \<Rightarrow> Connection \<Rightarrow> (string, string) result) \<Rightarrow> command_reply" where
  "graph_command w cache_path alias ask =
     Some (try_with (open_existing_store w cache_path) (\<lambda>store.
       try_with (cli_resolve_snapshot_key alias store) (\<lambda>snapshot_key.
       try_with (require_snapshot snapshot_key store) (\<lambda>_. ask snapshot_key store))), None)"

fun execute_command :: "cli_encoders \<Rightarrow> cli_library \<Rightarrow> serde \<Rightarrow> mcp_world \<Rightarrow> Command \<Rightarrow> command_reply" where
  "execute_command enc lib sj w (ContractCommand fmt) = map_option (\<lambda>t. (Ok t, None)) (render_contract enc fmt)"
| "execute_command enc lib sj w (IndexCommand a) = execute_index enc sj w a"
| "execute_command enc lib sj w (ListSnapshotsCommand fmt cache) =
     contract_command enc sj w cache fmt (list_snapshot_summaries sj) (\<lambda>v. render_snapshot_list enc lib v fmt)"
| "execute_command enc lib sj w (DescribeSnapshotCommand selector fmt cache) =
     contract_command enc sj w cache fmt (describe_snapshot sj selector) (\<lambda>v. render_snapshot_detail enc v fmt)"
| "execute_command enc lib sj w (ListObjectsCommand selector kind offset limit fmt cache) =
     contract_command enc sj w cache fmt (list_objects sj selector kind None offset (Some limit)) (\<lambda>v. render_object_page enc v fmt)"
| "execute_command enc lib sj w (FindObjectsCommand selector query kind offset limit fmt cache) =
     contract_command enc sj w cache fmt (list_objects sj selector kind (Some query) offset (Some limit)) (\<lambda>v. render_object_page enc v fmt)"
| "execute_command enc lib sj w (DescribeObjectCommand selector object_key relationship_limit fmt cache) =
     contract_command enc sj w cache fmt (describe_object sj selector object_key (Some relationship_limit)) (\<lambda>v. render_object_detail enc v fmt)"
| "execute_command enc lib sj w (DescribeTableCommand alias object_key table_name fmt cache) =
     graph_command w cache alias (\<lambda>snapshot_key store.
       try_with (describe_table (cl_readers lib) sj snapshot_key object_key table_name store) (\<lambda>d.
         Ok (render_table_description lib d fmt)))"
| "execute_command enc lib sj w (InventoryCommand alias offset limit cache) =
     graph_command w cache alias (\<lambda>snapshot_key. render_inventory lib sj snapshot_key offset limit)"
| "execute_command enc lib sj w (FindTableCommand alias query fmt cache) =
     graph_command w cache alias (\<lambda>snapshot_key. render_find_table lib snapshot_key query fmt)"
| "execute_command enc lib sj w (FindColumnCommand alias query fmt cache) =
     graph_command w cache alias (\<lambda>snapshot_key. render_find_column lib snapshot_key query fmt)"
| "execute_command enc lib sj w (ImpactAnalysisCommand a) =
     graph_command w (ima_cache_path a) (ima_alias a) (\<lambda>snapshot_key.
       render_impact_analysis lib sj snapshot_key (ima_object_key a) (ima_table_name a) (ima_column_name a)
         (ima_direction a) (ima_max_depth a) (ima_limit a))"
| "execute_command enc lib sj w (TraceRelationshipsCommand alias object_key direction max_depth limit cache) =
     graph_command w cache alias (\<lambda>snapshot_key.
       render_relationship_trace lib sj snapshot_key object_key direction max_depth limit)"

text \<open>The process: its exit code and what it prints to either stream.\<close>

datatype exit_code = ExitSuccess string | ExitFailure string

definition run_main ::
  "cli_encoders \<Rightarrow> cli_library \<Rightarrow> serde \<Rightarrow> mcp_world \<Rightarrow> (string list \<Rightarrow> (string, Command) result) \<Rightarrow> string list
    \<Rightarrow> (exit_code \<times> Connection option) option" where
  "run_main enc lib sj w parse args =
     (case parse args of
        Inl err \<Rightarrow> Some (ExitFailure (''error: '' @ err @ line_end), None)
      | Inr command \<Rightarrow>
          map_option (map_prod (\<lambda>r. case r of Inr output \<Rightarrow> ExitSuccess output | Inl err \<Rightarrow> ExitFailure (''error: '' @ err @ line_end)) id)
            (execute_command enc lib sj w command))"

section \<open>Both clients alike\<close>

text \<open>The request of the MCP server that corresponds to the arguments of an index command.\<close>

definition index_request_of :: "IndexArgs \<Rightarrow> IndexDatabaseRequest" where
  "index_request_of a =
     \<lparr>idr_source = ixa_source a, idr_path = ixa_path a, idr_connection_string = ixa_connection_string a, idr_alias = ixa_alias a,
       idr_requested_catalogs = ixa_requested_catalogs a, idr_requested_schemas = ixa_requested_schemas a,
       idr_timeout_ms = Some (ixa_timeout_ms a), idr_cache_path = Some (ixa_cache_path a)\<rparr>"

lemma clients_index_alike:
  "execute_index enc (ml_serde lib) w a =
     map_option (map_prod (\<lambda>r. case r of Inl err \<Rightarrow> Err (render_interface_error enc (ml_serde lib) err (ixa_format a))
        | Inr res \<Rightarrow> render_index_result enc res (ixa_format a)) id)
       (index_database_for_request lib w (index_request_of a))"
proof -
  have "complete_request (index_request_of a) = index_arguments a"
    by (simp add: complete_request_def index_arguments_def index_request_of_def or_default_def)
  moreover have "cache_path_of (idr_cache_path (index_request_of a)) = ixa_cache_path a"
    by (simp add: index_request_of_def cache_path_of_def or_default_def)
  ultimately show ?thesis
    by (auto simp: execute_index_def index_database_for_request_def Let_def option.map_comp comp_def map_prod_def case_prod_unfold split: sum.splits)
qed

text \<open>C20: a table described on the command line is described alike by the MCP server. When the describe-table command
  succeeds for a cache, a snapshot selector and the key or the name of a table, it prints a description, and the tool
  of the MCP server succeeds in the same world for the same cache, selector and table with a description that has the
  same columns, primary key, constraints, foreign keys in both directions, indexes and warnings in the same order. (A
  table name must not be the key of a node, since the tool takes keys before names.)\<close>

theorem clients_describe_alike:
  assumes "execute_command enc cli sj w (DescribeTableCommand alias k n fmt cache) = Some (Ok text_shown, c)"
    and "ml_readers lib = cl_readers cli" and "ml_serde lib = sj"
    and "\<And>name store sk. n = Some name \<Longrightarrow> open_existing_store w cache = Ok store \<Longrightarrow> get_node sk name store = Ok None"
  shows "\<exists>selector key d. (k = Some selector \<or> n = Some selector) \<and> text_shown = render_table_description cli d fmt
    \<and> parse_object_key (tds_table_key d) = Ok key
    \<and> describe_table_for_request lib w \<lparr>dtq_alias = alias, dtq_table_name = selector, dtq_cache_path = Some cache\<rparr> = Ok (description_view key d)"
proof -
  obtain store sk d where opened: "open_existing_store w cache = Ok store" and sk: "cli_resolve_snapshot_key alias store = Ok sk"
    and snapshot: "require_snapshot sk store = Ok ()"
    and d: "describe_table (cl_readers cli) sj sk k n store = Ok d" "text_shown = render_table_description cli d fmt"
    using assms(1) by (auto simp: graph_command_def try_with_Ok_iff)
  obtain selector key where selector: "k = Some selector \<or> n = Some selector" "parse_object_key (tds_table_key d) = Ok key"
    "mcp_describe_table lib sk selector store = Ok (description_view key d)"
    using nodes_described_alike[of lib sk k n store d] d(1) assms(2-4) opened by auto
  have "mcp_resolve_snapshot_key alias store = Ok sk" using clients_resolve_alike[of "alias" store sk] sk by blast
  then have "describe_table_for_request lib w \<lparr>dtq_alias = alias, dtq_table_name = selector, dtq_cache_path = Some cache\<rparr> = Ok (description_view key d)"
    using opened snapshot selector(3)
    by (simp add: describe_table_for_request_def open_snapshot_def cache_path_of_def or_default_def)
  with selector(1,2) d(2) show ?thesis by blast
qed


lemma sample_reopened:
  "\<exists>db reopened. open_snapshot (sample_cache_world db) None ''sqlite:app'' = Ok (reopened, ''sqlite:app'')
    \<and> stored sample_column_serde ''sqlite:app'' sample_certified reopened"
proof -
  let ?res = "index_result sample_request 0 DEFAULT_CACHE_PATH ''sqlite:app'' sample_certified"
  obtain store where run: "index_database_for_request sample_mcp_library (sample_cache_world empty_db) sample_index_request = Some (Ok ?res, Some store)"
    and version: "gd_user_version (durable store) = 2" using sample_index_run by blast
  obtain reopened where "from_connection (sample_conn (durable store)) = Ok reopened" "cn_read_fault reopened = (\<lambda>_. None)"
    using quiet_opens[of "sample_conn (durable store)"] version by (auto simp: sample_conn_def)
  then have "reopens (sample_cache_world (durable store)) (cache_path_of (idr_cache_path sample_index_request)) store"
    by (auto simp: reopens_def sample_cache_world_def sample_conn_def no_read_faults_def)
  moreover have "graph_inv (cn_db conn)" if "mw_connect (sample_cache_world empty_db) p = Ok conn" for p conn
    using that graph_inv_empty by (auto simp: sample_cache_world_def sample_conn_def)
  moreover have "analyze_complete_source (mw_adapters (sample_cache_world empty_db)) (complete_request sample_index_request) = Some (CompleteOutcome sample_certified)"
    by (simp add: sample_cache_world_def sample_complete_request sample_analysis)
  moreover have "idr_cache_path sample_index_request = None" "ixr_snapshot_key ?res = ''sqlite:app''"
    by (simp_all add: sample_index_request_def index_result_def Let_def)
  ultimately show ?thesis
    using indexed_reopened[OF run, of sample_certified "sample_cache_world (durable store)"] by (auto simp: sample_mcp_library_def)
qed

definition sample_encoders :: cli_encoders where
  "sample_encoders = \<lparr>ce_pretty = (\<lambda>_. Ok ''{}''), ce_summary = (\<lambda>_. JNull), ce_interface_error = (\<lambda>_. JNull), ce_version = ''1'', ce_odbc_feature = False\<rparr>"

theorem clients_describe_alike_witness:
  "\<exists>w key d. execute_command sample_encoders sample_library sample_column_serde w
      (DescribeTableCommand ''sqlite:app'' (Some sample_users) None TextFormat DEFAULT_CACHE_PATH)
        = Some (Ok (render_table_description sample_library d TextFormat), None)
    \<and> describe_table_for_request sample_mcp_library w \<lparr>dtq_alias = ''sqlite:app'', dtq_table_name = sample_users,
        dtq_cache_path = Some DEFAULT_CACHE_PATH\<rparr> = Ok (description_view key d)"
proof -
  obtain db store where opened: "open_snapshot (sample_cache_world db) None ''sqlite:app'' = Ok (store, ''sqlite:app'')"
    and stored: "stored sample_column_serde ''sqlite:app'' sample_certified store" using sample_reopened by blast
  let ?w = "sample_cache_world db" and ?command = "DescribeTableCommand ''sqlite:app'' (Some sample_users) None TextFormat DEFAULT_CACHE_PATH"
  have "sample_table ''users'' \<in> set (snap_tables (can_schema (cert_snapshot sample_certified)))" by (simp add: sample_normalized)
  from descriptions_agree[OF stored sample_columns_read this] obtain d where
    d: "describe_table sample_readers sample_column_serde ''sqlite:app'' (Some sample_users) None store = Ok d" by blast
  have "open_existing_store ?w DEFAULT_CACHE_PATH = Ok store" "cli_resolve_snapshot_key ''sqlite:app'' store = Ok ''sqlite:app''"
    "require_snapshot ''sqlite:app'' store = Ok ()"
    using opened clients_resolve_alike[of "''sqlite:app''" store "''sqlite:app''"]
    by (auto simp: open_snapshot_def try_with_Ok_iff cache_path_of_def or_default_def)
  with d have run: "execute_command sample_encoders sample_library sample_column_serde ?w ?command
      = Some (Ok (render_table_description sample_library d TextFormat), None)"
    by (simp add: graph_command_def sample_library_def)
  obtain key d' where "render_table_description sample_library d TextFormat = render_table_description sample_library d' TextFormat"
    "describe_table_for_request sample_mcp_library ?w \<lparr>dtq_alias = ''sqlite:app'', dtq_table_name = sample_users,
        dtq_cache_path = Some DEFAULT_CACHE_PATH\<rparr> = Ok (description_view key d')"
    using clients_describe_alike[OF run, of sample_mcp_library] by (auto simp: sample_mcp_library_def sample_library_def)
  with run show ?thesis by (intro exI[of _ ?w] exI[of _ key] exI[of _ d'] conjI) simp_all
qed

end
