(* ===== verification/Bench_Support.thy ===== *)
theory Bench_Support
  imports Snapshot_Validation
begin

text \<open>
  \<open>bench_support.rs\<close>: the generator of synthetic schemas for the performance baselines, and the change it makes
  to them. Shown: whatever the sizes of the configuration, the snapshot is well formed, before and after the change.
\<close>

section \<open>The generator\<close>

record SyntheticSchemaConfig =
  syn_table_count :: nat
  syn_columns_per_table :: nat
  syn_foreign_key_every :: nat
  syn_index_every :: nat
  syn_source_kind :: string
  syn_connection_alias :: string
  syn_database_name :: string
  syn_schema_name :: string

definition default_synthetic_config :: SyntheticSchemaConfig where
  "default_synthetic_config =
     \<lparr>syn_table_count = 100, syn_columns_per_table = 12, syn_foreign_key_every = 2, syn_index_every = 1,
       syn_source_kind = ''synthetic'', syn_connection_alias = ''perf'', syn_database_name = ''synthetic_db'',
       syn_schema_name = ''public''\<rparr>"

text \<open>\<open>{index:04}\<close>: the digits, filled with zeros to a width.\<close>

definition zero_padded :: "nat \<Rightarrow> nat \<Rightarrow> string" where
  "zero_padded width n = replicate (width - length (show_nat n)) (CHR ''0'') @ show_nat n"

definition synthetic_table_name :: "nat \<Rightarrow> string" where
  "synthetic_table_name index = ''table_'' @ zero_padded 4 index"

definition synthetic_column_name :: "nat \<Rightarrow> string" where
  "synthetic_column_name index = ''col_'' @ zero_padded 3 index"

definition synthetic_key :: "SyntheticSchemaConfig \<Rightarrow> ObjectKind \<Rightarrow> string \<Rightarrow> string option \<Rightarrow> ObjectKey" where
  "synthetic_key config kind object_name sub_object =
     \<lparr>ok_source_kind = syn_source_kind config, ok_connection_alias = syn_connection_alias config,
       ok_database = syn_database_name config, ok_schema = syn_schema_name config, ok_object_kind = kind,
       ok_object_name = object_name, ok_sub_object = sub_object\<rparr>"

definition synthetic_table_key :: "SyntheticSchemaConfig \<Rightarrow> nat \<Rightarrow> ObjectKey" where
  "synthetic_table_key config index = synthetic_key config Table (synthetic_table_name index) None"

definition synthetic_column_key :: "SyntheticSchemaConfig \<Rightarrow> nat \<Rightarrow> nat \<Rightarrow> ObjectKey" where
  "synthetic_column_key config i j = synthetic_key config Column (synthetic_table_name i) (Some (synthetic_column_name j))"

definition synthetic_table :: "SyntheticSchemaConfig \<Rightarrow> nat \<Rightarrow> TableObject" where
  "synthetic_table config i =
     \<lparr>tbl_key = synthetic_table_key config i,
       tbl_schema_key = synthetic_key config Schema (syn_schema_name config) None,
       tbl_name = synthetic_table_name i, tbl_kind = BaseTable\<rparr>"

text \<open>\<open>as u32\<close> keeps the low 32 bits.\<close>

definition synthetic_column :: "SyntheticSchemaConfig \<Rightarrow> nat \<Rightarrow> nat \<Rightarrow> ColumnObject" where
  "synthetic_column config i j =
     \<lparr>col_key = synthetic_column_key config i j, col_table_key = synthetic_table_key config i,
       col_name = synthetic_column_name j, col_ordinal_position = (j + 1) mod 2 ^ 32,
       col_data_type = (if j = 0 then ''integer'' else ''text''), col_is_nullable = (j \<noteq> 0),
       col_default_value = None, col_is_generated = False\<rparr>"

definition synthetic_primary_key :: "SyntheticSchemaConfig \<Rightarrow> nat \<Rightarrow> ConstraintObject" where
  "synthetic_primary_key config i =
     (let name = ''pk_'' @ synthetic_table_name i
      in \<lparr>con_key = synthetic_key config ObjectKind.PrimaryKey (synthetic_table_name i) (Some name),
           con_table_key = synthetic_table_key config i, con_name = name, con_kind = ConstraintKind.PrimaryKey,
           con_columns = [synthetic_column_key config i 0], con_referenced_table_key = None,
           con_referenced_columns = [], con_expression = None\<rparr>)"

definition synthetic_foreign_key :: "SyntheticSchemaConfig \<Rightarrow> nat \<Rightarrow> ConstraintObject" where
  "synthetic_foreign_key config i =
     (let name = ''fk_'' @ synthetic_table_name i @ ''_'' @ synthetic_table_name (i - 1)
      in \<lparr>con_key = synthetic_key config ObjectKind.ForeignKey (synthetic_table_name i) (Some name),
           con_table_key = synthetic_table_key config i, con_name = name, con_kind = ConstraintKind.ForeignKey,
           con_columns = [synthetic_column_key config i 1],
           con_referenced_table_key = Some (synthetic_table_key config (i - 1)),
           con_referenced_columns = [synthetic_column_key config (i - 1) 0], con_expression = None\<rparr>)"

definition synthetic_constraints :: "SyntheticSchemaConfig \<Rightarrow> nat \<Rightarrow> nat \<Rightarrow> ConstraintObject list" where
  "synthetic_constraints config columns_per_table i =
     synthetic_primary_key config i
     # (if 0 < i \<and> 1 < columns_per_table \<and> 0 < syn_foreign_key_every config \<and> i mod syn_foreign_key_every config = 0
        then [synthetic_foreign_key config i] else [])"

definition synthetic_indexes :: "SyntheticSchemaConfig \<Rightarrow> nat \<Rightarrow> nat \<Rightarrow> IndexObject list" where
  "synthetic_indexes config columns_per_table i =
     (let name = ''idx_'' @ synthetic_table_name i @ ''_lookup''
      in if 0 < syn_index_every config \<and> i mod syn_index_every config = 0
         then [\<lparr>idx_key = synthetic_key config Index (synthetic_table_name i) (Some name),
                idx_table_key = synthetic_table_key config i, idx_name = name,
                idx_columns = [synthetic_column_key config i (min columns_per_table 2 - 1)],
                idx_is_unique = False, idx_is_primary = False, idx_predicate = None, idx_expression = None\<rparr>]
         else [])"

definition synthetic_capabilities :: "SyntheticSchemaConfig \<Rightarrow> AdapterCapabilities" where
  "synthetic_capabilities config =
     \<lparr>cap_source_kind = syn_source_kind config, cap_metadata_only = True, cap_schemas = True, cap_tables = True,
       cap_columns = True, cap_constraints = True, cap_indexes = True, cap_views = Unsupported,
       cap_triggers = Unsupported, cap_routines = Unsupported, cap_dependencies = Unsupported, cap_limitations = [],
       cap_notes = [''Synthetic in-memory schema metadata for performance baselines; no database connection or row data.'']\<rparr>"

definition synthetic_schema_snapshot :: "SyntheticSchemaConfig \<Rightarrow> SchemaSnapshot" where
  "synthetic_schema_snapshot config =
     (let columns_per_table = max (syn_columns_per_table config) 1;
          database_key = synthetic_key config Database (syn_database_name config) None;
          schema_key = synthetic_key config Schema (syn_schema_name config) None;
          each = [0..<syn_table_count config]
      in \<lparr>snap_source_kind = syn_source_kind config, snap_connection_alias = syn_connection_alias config,
           snap_database = \<lparr>db_key = database_key, db_name = syn_database_name config\<rparr>,
           snap_schemas = [\<lparr>sch_key = schema_key, sch_database_key = database_key, sch_name = syn_schema_name config\<rparr>],
           snap_tables = map (synthetic_table config) each,
           snap_columns = concat (map (\<lambda>i. map (synthetic_column config i) [0..<columns_per_table]) each),
           snap_constraints = concat (map (synthetic_constraints config columns_per_table) each),
           snap_indexes = concat (map (synthetic_indexes config columns_per_table) each),
           snap_views = [], snap_triggers = [], snap_routines = [],
           snap_capabilities = synthetic_capabilities config\<rparr>)"

text \<open>The first columns that are named like the first column of a table get another type; the number of
  changes is returned.\<close>

fun change_columns :: "nat \<Rightarrow> string \<Rightarrow> ColumnObject list \<Rightarrow> ColumnObject list \<times> nat" where
  "change_columns left data_type [] = ([], 0)"
| "change_columns left data_type (column # columns) =
     (if left \<noteq> 0 \<and> col_name column = synthetic_column_name 0
      then (let (rest, changed) = change_columns (left - 1) data_type columns
            in (column\<lparr>col_data_type := data_type\<rparr> # rest, changed + 1))
      else (let (rest, changed) = change_columns left data_type columns in (column # rest, changed)))"

definition change_first_column_types :: "nat \<Rightarrow> string \<Rightarrow> SchemaSnapshot \<Rightarrow> SchemaSnapshot \<times> nat" where
  "change_first_column_types changed_count data_type snapshot =
     (let (columns, changed) = change_columns changed_count data_type (snap_columns snapshot)
      in (snapshot\<lparr>snap_columns := columns\<rparr>, changed))"

section \<open>Names\<close>

lemma zero_padded_inject [simp]: "zero_padded w a = zero_padded w b \<longleftrightarrow> a = b"
proof
  assume same: "zero_padded w a = zero_padded w b"
  have "digits_value (replicate k (CHR ''0'') @ s) = digits_value s" for k s
    by (induction k) (simp_all add: digits_value_def)
  then have "digits_value (zero_padded w n) = n" for n by (simp add: zero_padded_def digits_value_show)
  with same show "a = b" by metis
qed simp

lemma synthetic_names [simp]:
  "synthetic_table_name a = synthetic_table_name b \<longleftrightarrow> a = b" "synthetic_column_name a = synthetic_column_name b \<longleftrightarrow> a = b"
  by (simp_all add: synthetic_table_name_def synthetic_column_name_def)

lemma synthetic_key_inject [simp]:
  "synthetic_key config kind name sub = synthetic_key config kind' name' sub' \<longleftrightarrow> kind = kind' \<and> name = name' \<and> sub = sub'"
  by (auto simp: synthetic_key_def)

lemma synthetic_key_sel [simp]:
  "ok_source_kind (synthetic_key config kind name sub) = syn_source_kind config"
  "ok_connection_alias (synthetic_key config kind name sub) = syn_connection_alias config"
  "ok_database (synthetic_key config kind name sub) = syn_database_name config"
  "ok_schema (synthetic_key config kind name sub) = syn_schema_name config"
  "ok_object_kind (synthetic_key config kind name sub) = kind"
  "ok_object_name (synthetic_key config kind name sub) = name"
  "ok_sub_object (synthetic_key config kind name sub) = sub"
  by (simp_all add: synthetic_key_def)

lemma synthetic_table_not_blank: "\<not> blank (synthetic_table_name i)"
  unfolding synthetic_table_name_def by (rule not_blank) (simp_all add: white_space_def)

lemma distinct_concat_upt:
  assumes "\<And>i. i < n \<Longrightarrow> distinct (f i)" and "\<And>i j. i < j \<Longrightarrow> j < n \<Longrightarrow> set (f i) \<inter> set (f j) = {}"
  shows "distinct (concat (map f [0..<n]))"
  using assms
proof (induction n)
  case (Suc n)
  then have "set (concat (map f [0..<n])) \<inter> set (f n) = {}" by fastforce
  moreover have "distinct (concat (map f [0..<n]))" using Suc by simp
  ultimately show ?case using Suc.prems(1)[of n] by simp
qed simp


section \<open>The snapshot is well formed\<close>

lemmas synthetic_defs = synthetic_table_def synthetic_column_def synthetic_primary_key_def synthetic_foreign_key_def
  synthetic_table_key_def synthetic_column_key_def Let_def

lemma synthetic_snapshot_sel:
  fixes config
  defines "s \<equiv> synthetic_schema_snapshot config" and "n \<equiv> max (syn_columns_per_table config) 1" and "t \<equiv> syn_table_count config"
  shows "snap_tables s = map (synthetic_table config) [0..<t]"
    "snap_columns s = concat (map (\<lambda>i. map (synthetic_column config i) [0..<n]) [0..<t])"
    "snap_constraints s = concat (map (synthetic_constraints config n) [0..<t])"
    "snap_indexes s = concat (map (synthetic_indexes config n) [0..<t])"
    "snap_views s = []" "snap_triggers s = []" "snap_routines s = []"
    "snap_schemas s = [\<lparr>sch_key = synthetic_key config Schema (syn_schema_name config) None,
       sch_database_key = synthetic_key config Database (syn_database_name config) None, sch_name = syn_schema_name config\<rparr>]"
    "snap_database s = \<lparr>db_key = synthetic_key config Database (syn_database_name config) None, db_name = syn_database_name config\<rparr>"
    "snap_source_kind s = syn_source_kind config" "snap_connection_alias s = syn_connection_alias config"
    "snap_capabilities s = synthetic_capabilities config"
  by (simp_all add: s_def n_def t_def synthetic_schema_snapshot_def Let_def)

text \<open>What a part of the snapshot knows of the tables and columns.\<close>

definition synthetic_resolver :: "SyntheticSchemaConfig \<Rightarrow> resolver \<Rightarrow> bool" where
  "synthetic_resolver config res =
     (res (synthetic_key config Database (syn_database_name config) None) {Database}
      \<and> res (synthetic_key config Schema (syn_schema_name config) None) {Schema}
      \<and> (\<forall>i<syn_table_count config. res (synthetic_table_key config i) {Table}
          \<and> (\<forall>j<max (syn_columns_per_table config) 1. res (synthetic_column_key config i j) {Column})))"

lemma synthetic_resolves: "synthetic_resolver config (refers (set (map fst (schema_keys (synthetic_schema_snapshot config)))))"
  by (auto simp: synthetic_resolver_def refers_def schema_keys_def synthetic_snapshot_sel synthetic_defs image_iff)

lemma synthetic_parts:
  assumes "synthetic_resolver config res" and "i < syn_table_count config"
  defines "n \<equiv> max (syn_columns_per_table config) 1"
  shows "wf_table res (syn_connection_alias config) (synthetic_table config i)"
    and "j < n \<Longrightarrow> n \<le> u32_MAX \<Longrightarrow> wf_column res (syn_connection_alias config) (synthetic_column config i j)"
    and "\<forall>x\<in>set (synthetic_constraints config n i). wf_constraint res (syn_connection_alias config) x"
    and "\<forall>x\<in>set (synthetic_indexes config n i). wf_index res (syn_connection_alias config) x"
proof -
  note known = assms(1)[unfolded synthetic_resolver_def, folded n_def]
  have n: "0 < n" by (simp add: n_def)
  show "wf_table res (syn_connection_alias config) (synthetic_table config i)"
    using known by (simp add: wf_table_def identity_matches_def synthetic_defs)
  show "wf_column res (syn_connection_alias config) (synthetic_column config i j)" if "j < n" "n \<le> u32_MAX"
    using known assms(2) that
    by (simp add: wf_column_def identity_matches_def same_scope_def within_text_limit_def u32_MAX_def synthetic_defs)
  have columns: "wf_columns_of res (synthetic_table_key config k) [synthetic_column_key config k j]" if "k < syn_table_count config" "j < n" for k j
    using known that by (simp add: wf_columns_of_def column_of_def same_scope_def synthetic_table_key_def synthetic_column_key_def)
  have "wf_constraint res (syn_connection_alias config) (synthetic_primary_key config i)"
    using known assms(2) columns[OF assms(2) n]
    by (simp add: wf_constraint_def wf_constraint_kind_def identity_matches_def same_scope_def within_text_limit_def
        synthetic_primary_key_def Let_def) (simp add: synthetic_table_key_def)
  moreover have "wf_constraint res (syn_connection_alias config) (synthetic_foreign_key config i)" if "0 < i" "1 < n"
    using known assms(2) columns[OF assms(2) that(2)] columns[of "i - 1" 0] n that
    by (simp add: wf_constraint_def wf_constraint_kind_def identity_matches_def same_scope_def within_text_limit_def
        synthetic_foreign_key_def Let_def) (simp add: synthetic_table_key_def)
  ultimately show "\<forall>x\<in>set (synthetic_constraints config n i). wf_constraint res (syn_connection_alias config) x"
    by (simp add: synthetic_constraints_def)
  show "\<forall>x\<in>set (synthetic_indexes config n i). wf_index res (syn_connection_alias config) x"
    using known assms(2) columns[OF assms(2), of "min n 2 - 1"] n
    by (simp add: wf_index_def identity_matches_def same_scope_def within_text_limit_def synthetic_indexes_def Let_def)
      (simp add: synthetic_table_key_def)
qed

lemma synthetic_part_keys:
  "map con_key (synthetic_constraints config n i) =
     synthetic_key config ObjectKind.PrimaryKey (synthetic_table_name i) (Some (''pk_'' @ synthetic_table_name i))
     # (if 0 < i \<and> 1 < n \<and> 0 < syn_foreign_key_every config \<and> i mod syn_foreign_key_every config = 0
        then [synthetic_key config ObjectKind.ForeignKey (synthetic_table_name i)
                (Some (''fk_'' @ synthetic_table_name i @ ''_'' @ synthetic_table_name (i - 1)))] else [])"
  "map idx_key (synthetic_indexes config n i) =
     (if 0 < syn_index_every config \<and> i mod syn_index_every config = 0
      then [synthetic_key config Index (synthetic_table_name i) (Some (''idx_'' @ synthetic_table_name i @ ''_lookup''))] else [])"
  by (simp_all add: synthetic_constraints_def synthetic_indexes_def synthetic_primary_key_def synthetic_foreign_key_def Let_def)

lemma synthetic_part_kinds:
  "x \<in> set (synthetic_constraints config n i) \<Longrightarrow> ok_object_kind (con_key x) = constraint_object_kind (con_kind x)"
  "y \<in> set (synthetic_indexes config n i) \<Longrightarrow> ok_object_kind (idx_key y) = Index"
  by (auto simp: synthetic_constraints_def synthetic_indexes_def synthetic_primary_key_def synthetic_foreign_key_def Let_def
      split: if_splits)

lemma synthetic_kinds: "\<forall>(k, kind)\<in>set (schema_keys (synthetic_schema_snapshot config)). ok_object_kind k = kind"
  by (auto simp: schema_keys_def synthetic_snapshot_sel synthetic_part_kinds)
    (simp_all add: synthetic_defs)

definition synthetic_keys :: "SyntheticSchemaConfig \<Rightarrow> ObjectKey list" where
  "synthetic_keys config =
     (let n = max (syn_columns_per_table config) 1; each = [0..<syn_table_count config]
      in synthetic_key config Database (syn_database_name config) None # synthetic_key config Schema (syn_schema_name config) None
         # map (synthetic_table_key config) each
         @ concat (map (\<lambda>i. map (synthetic_column_key config i) [0..<n]) each)
         @ concat (map (\<lambda>i. map con_key (synthetic_constraints config n i)) each)
         @ concat (map (\<lambda>i. map idx_key (synthetic_indexes config n i)) each))"

lemma synthetic_schema_keys: "map fst (schema_keys (synthetic_schema_snapshot config)) = synthetic_keys config"
  by (simp add: schema_keys_def synthetic_snapshot_sel synthetic_keys_def Let_def map_concat comp_def)
    (simp add: synthetic_table_def synthetic_column_def)

lemma synthetic_keys_from:
  "k \<in> set (synthetic_keys config) \<Longrightarrow> \<exists>kind name sub. k = synthetic_key config kind name sub
     \<and> (name = syn_database_name config \<or> name = syn_schema_name config \<or> (\<exists>i. name = synthetic_table_name i))"
  by (auto simp: synthetic_keys_def Let_def synthetic_part_keys synthetic_table_key_def synthetic_column_key_def split: if_splits)

lemma synthetic_distinct_parts:
  "distinct (map (synthetic_table_key config) [0..<t])"
  "distinct (concat (map (\<lambda>i. map (synthetic_column_key config i) [0..<n]) [0..<t]))"
  "distinct (concat (map (\<lambda>i. map con_key (synthetic_constraints config n i)) [0..<t]))"
  "distinct (concat (map (\<lambda>i. map idx_key (synthetic_indexes config n i)) [0..<t]))"
     apply (simp add: distinct_map inj_on_def synthetic_table_key_def)
  by (rule distinct_concat_upt;
      auto simp: distinct_map inj_on_def synthetic_column_key_def synthetic_part_keys split: if_splits)+

lemma synthetic_keys_distinct: "distinct (synthetic_keys config)"
proof -
  let ?n = "max (syn_columns_per_table config) 1" and ?each = "[0..<syn_table_count config]"
  have kinds: "k \<in> set (map (synthetic_table_key config) ?each) \<Longrightarrow> ok_object_kind k = Table"
    "k \<in> set (concat (map (\<lambda>i. map (synthetic_column_key config i) [0..<?n]) ?each)) \<Longrightarrow> ok_object_kind k = Column"
    "k \<in> set (concat (map (\<lambda>i. map con_key (synthetic_constraints config ?n i)) ?each))
      \<Longrightarrow> ok_object_kind k \<in> {ObjectKind.PrimaryKey, ObjectKind.ForeignKey}"
    "k \<in> set (concat (map (\<lambda>i. map idx_key (synthetic_indexes config ?n i)) ?each)) \<Longrightarrow> ok_object_kind k = Index" for k
    by (auto simp: synthetic_table_key_def synthetic_column_key_def synthetic_part_keys split: if_splits)
  have "distinct (synthetic_key config Database (syn_database_name config) None
     # synthetic_key config Schema (syn_schema_name config) None # a @ b @ c @ d)"
    if "distinct a" "distinct b" "distinct c" "distinct d" "\<And>k. k \<in> set a \<Longrightarrow> ok_object_kind k = Table"
      "\<And>k. k \<in> set b \<Longrightarrow> ok_object_kind k = Column"
      "\<And>k. k \<in> set c \<Longrightarrow> ok_object_kind k \<in> {ObjectKind.PrimaryKey, ObjectKind.ForeignKey}"
      "\<And>k. k \<in> set d \<Longrightarrow> ok_object_kind k = Index" for a b c d
    using that by fastforce
  from this[OF synthetic_distinct_parts kinds] show ?thesis by (simp add: synthetic_keys_def Let_def)
qed

lemma synthetic_ordinals_distinct:
  assumes "n \<le> u32_MAX"
  shows "distinct (concat (map (\<lambda>i. map (\<lambda>j. (synthetic_table_key config i, (j + 1) mod 2 ^ 32)) [0..<n]) [0..<t]))"
  by (rule distinct_concat_upt)
    (use assms in \<open>auto simp: distinct_map inj_on_def synthetic_table_key_def u32_MAX_def\<close>)

text \<open>The generated snapshots the validator accepts: the four texts are filled in and the ordinals fit in 32 bits.\<close>

lemma synthetic_well_formed:
  "well_formed_schema (synthetic_schema_snapshot config) \<longleftrightarrow>
     \<not> blank (syn_source_kind config) \<and> \<not> blank (syn_connection_alias config) \<and> \<not> blank (syn_database_name config)
     \<and> \<not> blank (syn_schema_name config) \<and> (syn_table_count config = 0 \<or> syn_columns_per_table config \<le> u32_MAX)"
    (is "?wf \<longleftrightarrow> ?texts")
proof
  let ?s = "synthetic_schema_snapshot config" and ?n = "max (syn_columns_per_table config) 1"
  show ?texts if ?wf
  proof -
    from that have "scope_matches (syn_connection_alias config) (db_key (snap_database ?s)) (db_key (snap_database ?s))"
      and "\<not> blank (syn_source_kind config)" "\<not> blank (syn_connection_alias config)"
      and columns: "\<forall>x\<in>set (snap_columns ?s). col_ordinal_position x \<noteq> 0"
      by (auto simp: well_formed_schema_def Let_def synthetic_snapshot_sel schema_keys_def wf_column_def)
    moreover have "syn_columns_per_table config \<le> u32_MAX" if "syn_table_count config \<noteq> 0"
    proof (rule ccontr)
      assume "\<not> syn_columns_per_table config \<le> u32_MAX"
      then have "synthetic_column config 0 u32_MAX \<in> set (snap_columns ?s)" using that
        by (force simp: synthetic_snapshot_sel)
      with columns show False by (force simp: synthetic_column_def u32_MAX_def)
    qed
    ultimately show ?thesis by (auto simp: scope_matches_def synthetic_snapshot_sel)
  qed
  assume texts: ?texts
  have parts: "syn_table_count config \<noteq> 0 \<Longrightarrow> ?n \<le> u32_MAX" using texts by (auto simp: u32_MAX_def)
  note wf = synthetic_parts[OF synthetic_resolves, unfolded synthetic_schema_keys]
  have scope: "\<forall>k\<in>set (synthetic_keys config). scope_matches (syn_connection_alias config)
      (synthetic_key config Database (syn_database_name config) None) k"
    using texts synthetic_table_not_blank by (fastforce dest: synthetic_keys_from simp: scope_matches_def)
  have ordinals: "distinct (map (\<lambda>x. (col_table_key x, col_ordinal_position x)) (snap_columns ?s))"
    using synthetic_ordinals_distinct[of ?n config "syn_table_count config"] parts
    by (cases "syn_table_count config = 0") (simp_all add: synthetic_snapshot_sel map_concat comp_def synthetic_column_def)
  show ?wf unfolding well_formed_schema_def Let_def synthetic_schema_keys
    using texts scope ordinals synthetic_kinds[of config] synthetic_keys_distinct[of config]
      synthetic_resolves[of config, unfolded synthetic_schema_keys] wf parts
    by (auto simp: synthetic_snapshot_sel synthetic_capabilities_def wf_database_def wf_schema_def identity_matches_def
        synthetic_resolver_def)
qed

section \<open>The change\<close>

lemma change_columns_keeps:
  assumes "\<And>c. f (c\<lparr>col_data_type := d\<rparr>) = f c"
  shows "map f (fst (change_columns left d cs)) = map f cs"
  by (induction cs arbitrary: left) (auto simp: assms split_beta)

lemma change_columns_count:
  "snd (change_columns left d cs) = min left (length (filter (\<lambda>c. col_name c = synthetic_column_name 0) cs))"
  by (induction left d cs rule: change_columns.induct) (auto simp: split_beta)

lemma change_columns_all:
  assumes "\<And>c. P (c\<lparr>col_data_type := d\<rparr>) = P c"
  shows "(\<forall>c\<in>set (fst (change_columns left d cs)). P c) \<longleftrightarrow> (\<forall>c\<in>set cs. P c)"
proof -
  have "list_all id (map P (fst (change_columns left d cs))) = list_all id (map P cs)"
    by (simp only: change_columns_keeps[of P, OF assms])
  then show ?thesis by (simp add: list_all_iff)
qed

text \<open>The change leaves the verdict of the validator as it is, on every snapshot.\<close>

lemma change_keeps_well_formed:
  "well_formed_schema (fst (change_first_column_types k d s)) = well_formed_schema s"
proof -
  let ?s = "fst (change_first_column_types k d s)"
  have columns: "snap_columns ?s = fst (change_columns k d (snap_columns s))"
    and same: "snap_source_kind ?s = snap_source_kind s" "snap_connection_alias ?s = snap_connection_alias s"
      "snap_database ?s = snap_database s" "snap_schemas ?s = snap_schemas s" "snap_tables ?s = snap_tables s"
      "snap_constraints ?s = snap_constraints s" "snap_indexes ?s = snap_indexes s" "snap_views ?s = snap_views s"
      "snap_triggers ?s = snap_triggers s" "snap_routines ?s = snap_routines s" "snap_capabilities ?s = snap_capabilities s"
    by (simp_all add: change_first_column_types_def split_beta Let_def)
  have keys: "schema_keys ?s = schema_keys s"
    by (simp add: schema_keys_def same columns change_columns_keeps[of "\<lambda>x. (col_key x, Column)"])
  have "(\<forall>x\<in>set (snap_columns ?s). wf_column res a x) \<longleftrightarrow> (\<forall>x\<in>set (snap_columns s). wf_column res a x)" for res a
    unfolding columns by (rule change_columns_all) (simp add: wf_column_def)
  moreover have "map (\<lambda>x. (col_table_key x, col_ordinal_position x)) (snap_columns ?s)
      = map (\<lambda>x. (col_table_key x, col_ordinal_position x)) (snap_columns s)"
    unfolding columns by (rule change_columns_keeps) simp
  ultimately show ?thesis by (simp only: well_formed_schema_def Let_def keys same)
qed

lemma first_columns:
  "0 < n \<Longrightarrow> filter (\<lambda>c. col_name c = synthetic_column_name 0) (map (synthetic_column config i) [0..<n]) = [synthetic_column config i 0]"
  by (induction n) (auto simp: synthetic_column_def)

lemma synthetic_sizes:
  fixes config
  defines "s \<equiv> synthetic_schema_snapshot config" and "t \<equiv> syn_table_count config"
  shows "length (snap_tables s) = t" "length (snap_columns s) = t * max (syn_columns_per_table config) 1"
    "length (filter (\<lambda>c. col_name c = synthetic_column_name 0) (snap_columns s)) = t"
proof -
  show "length (snap_tables s) = t" by (simp add: s_def t_def synthetic_snapshot_sel)
  show "length (snap_columns s) = t * max (syn_columns_per_table config) 1"
    by (simp add: s_def t_def synthetic_snapshot_sel length_concat comp_def sum_list_triv)
  show "length (filter (\<lambda>c. col_name c = synthetic_column_name 0) (snap_columns s)) = t"
    by (simp add: s_def t_def synthetic_snapshot_sel filter_concat comp_def first_columns length_concat sum_list_triv
        del: filter_map)
qed

section \<open>Properties\<close>

text \<open>The validator accepts a generated snapshot exactly when the source kind, alias, database and schema of
  its configuration are filled in and the ordinals fit in 32 bits (or there is no table), before and after the change
  of column types; the change counts one column per table, up to the number asked for, and there are as many tables
  and columns as configured (at least one column per table).\<close>

theorem synthetic_snapshots_valid:
  "(validate_schema_snapshot (synthetic_schema_snapshot config) = Ok () \<longleftrightarrow>
      \<not> blank (syn_source_kind config) \<and> \<not> blank (syn_connection_alias config) \<and> \<not> blank (syn_database_name config)
      \<and> \<not> blank (syn_schema_name config) \<and> (syn_table_count config = 0 \<or> syn_columns_per_table config \<le> u32_MAX))
   \<and> (validate_schema_snapshot (fst (change_first_column_types k d (synthetic_schema_snapshot config))) = Ok () \<longleftrightarrow>
      validate_schema_snapshot (synthetic_schema_snapshot config) = Ok ())
   \<and> snd (change_first_column_types k d (synthetic_schema_snapshot config)) = min k (syn_table_count config)
   \<and> length (snap_tables (synthetic_schema_snapshot config)) = syn_table_count config
   \<and> length (snap_columns (synthetic_schema_snapshot config)) = syn_table_count config * max (syn_columns_per_table config) 1"
proof -
  have "snd (change_first_column_types k d (synthetic_schema_snapshot config)) = min k (syn_table_count config)"
    by (simp add: change_first_column_types_def split_beta Let_def change_columns_count synthetic_sizes)
  then show ?thesis
    by (simp only: validate_schema_snapshot_Ok_iff change_keeps_well_formed synthetic_well_formed synthetic_sizes
        simp_thms)
qed

end
