(* ===== verification/Sqlite_Read.thy ===== *)
theory Sqlite_Read
  imports Sqlite_Sql Certification
begin

text \<open>
  The reading half of \<open>adapters/sqlite_catalog.rs\<close>: the rows of the SQLite catalog are decoded, checked and
  collected in a raw catalog. The engine is a parameter: it answers a statement with rows of values, each of
  which may be an error. The errors of the adapter are those of \<open>adapters/sqlite.rs\<close>.
\<close>

section \<open>Errors\<close>

datatype 'e SqliteAdapterError =
    StorageError 'e
  | ParseError string string
  | MappingError string string
  | CertificationFailed CertificationError

type_synonym ('e, 'a) sq_result = "('e SqliteAdapterError, 'a) result"

definition mapping_error :: "string \<Rightarrow> string \<Rightarrow> 'e SqliteAdapterError" where
  "mapping_error subject message = MappingError subject message"

fun sqlite_error_to_string :: "('e \<Rightarrow> string) \<Rightarrow> 'e SqliteAdapterError \<Rightarrow> string" where
  "sqlite_error_to_string show_err (StorageError err) = ''SQLite adapter storage error: '' @ show_err err"
| "sqlite_error_to_string show_err (ParseError object message) =
     ''failed to parse SQLite '' @ object @ '': '' @ message"
| "sqlite_error_to_string show_err (MappingError subject message) =
     ''inconsistent SQLite metadata for '' @ subject @ '': '' @ message"
| "sqlite_error_to_string show_err (CertificationFailed err) =
     ''SQLite certification failed: '' @ certification_error_to_string err"

section \<open>The engine\<close>

datatype SqlValue = SqlNull | SqlInteger int | SqlReal | SqlText string | SqlBlob

text \<open>What the authorizer of a prepared statement is told: the innermost view or trigger and the action.\<close>

datatype PrepareAction =
    PaRead string string
  | PaUpdate string string
  | PaInsert string
  | PaDelete string
  | PaOther

record 'e SqliteConnection =
  sq_query :: "string \<Rightarrow> ('e, ('e, SqlValue list) result list) result"
  sq_prepare :: "string \<Rightarrow> (string option \<times> PrepareAction) list \<times> ('e, unit) result"
  sq_begin :: "('e, unit) result"
  sq_commit :: "('e, unit) result"
  sq_bad_value :: "nat \<Rightarrow> SqlValue list \<Rightarrow> 'e"
  sq_version :: string

definition cell :: "SqlValue list \<Rightarrow> nat \<Rightarrow> SqlValue option" where
  "cell row i = (if i < length row then Some (row ! i) else None)"

definition get_text :: "'e SqliteConnection \<Rightarrow> nat \<Rightarrow> SqlValue list \<Rightarrow> ('e, string) result" where
  "get_text conn i row = (case cell row i of Some (SqlText t) \<Rightarrow> Ok t | _ \<Rightarrow> Err (sq_bad_value conn i row))"

definition get_optional_text :: "'e SqliteConnection \<Rightarrow> nat \<Rightarrow> SqlValue list \<Rightarrow> ('e, string option) result" where
  "get_optional_text conn i row =
     (case cell row i of Some (SqlText t) \<Rightarrow> Ok (Some t) | Some SqlNull \<Rightarrow> Ok None | _ \<Rightarrow> Err (sq_bad_value conn i row))"

definition get_integer :: "'e SqliteConnection \<Rightarrow> nat \<Rightarrow> SqlValue list \<Rightarrow> ('e, int) result" where
  "get_integer conn i row = (case cell row i of Some (SqlInteger n) \<Rightarrow> Ok n | _ \<Rightarrow> Err (sq_bad_value conn i row))"

text \<open>A loop over the rows of a statement, and the collection of all rows.\<close>

definition fold_rows ::
  "'e SqliteConnection \<Rightarrow> string \<Rightarrow> (SqlValue list \<Rightarrow> ('e, 'r) result) \<Rightarrow> ('r \<Rightarrow> 's \<Rightarrow> ('e, 's) sq_result) \<Rightarrow> 's
    \<Rightarrow> ('e, 's) sq_result" where
  "fold_rows conn sql decode body init =
     try_with (map_err StorageError (sq_query conn sql)) (\<lambda>rows.
       try_fold (\<lambda>row s. try_with (map_err StorageError (try_with row decode)) (\<lambda>r. body r s)) rows init)"

definition collect_rows ::
  "'e SqliteConnection \<Rightarrow> string \<Rightarrow> (SqlValue list \<Rightarrow> ('e, 'r) result) \<Rightarrow> ('e, 'r list) sq_result" where
  "collect_rows conn sql decode =
     try_with (map_err StorageError (sq_query conn sql)) (\<lambda>rows.
       map_err StorageError (collect_results (map (\<lambda>row. try_with row decode) rows)))"

section \<open>Identifiers and quoting\<close>

definition fold_identifier :: "string \<Rightarrow> string" where
  "fold_identifier v = to_ascii_lowercase v"

definition same_identifier :: "string \<Rightarrow> string \<Rightarrow> bool" where
  "same_identifier left right = eq_ignore_ascii_case left right"

definition quote_string :: "string \<Rightarrow> string" where
  "quote_string v = [CHR 0x27] @ replace_str [CHR 0x27] [CHR 0x27, CHR 0x27] v @ [CHR 0x27]"

definition quote_identifier :: "string \<Rightarrow> string" where
  "quote_identifier v = [CHR 0x22] @ replace_str [CHR 0x22] [CHR 0x22, CHR 0x22] v @ [CHR 0x22]"

definition MAIN_CATALOG :: string where "MAIN_CATALOG = ''main''"
definition MAIN_SCHEMA :: string where "MAIN_SCHEMA = ''main''"
definition SQLITE_SOURCE :: string where "SQLITE_SOURCE = ''sqlite''"
definition MAX_SCHEMA_SQL_BYTES :: nat where "MAX_SCHEMA_SQL_BYTES = 1048576"

definition require_bounded_sql :: "string \<Rightarrow> string \<Rightarrow> string \<Rightarrow> ('e, unit) sq_result" where
  "require_bounded_sql object_type object_name sql =
     (if length sql > MAX_SCHEMA_SQL_BYTES
      then Err (mapping_error (object_type @ '' '' @ object_name)
        (''schema definition exceeds '' @ show_nat MAX_SCHEMA_SQL_BYTES @ '' bytes''))
      else Ok ())"

definition normalize_pragma_token :: "string \<Rightarrow> string" where
  "normalize_pragma_token v = replace_str '' '' ''_'' (to_ascii_lowercase (trim v))"

section \<open>Raw catalog\<close>

datatype RawRelationKind = TableRelation TableKind | ViewRelation

fun is_table :: "RawRelationKind \<Rightarrow> bool" where
  "is_table (TableRelation _) = True"
| "is_table ViewRelation = False"

record RawColumn =
  rc_cid :: int
  rc_name :: string
  rc_data_type :: string
  rc_not_null :: bool
  rc_default_value :: "string option"
  rc_primary_key_position :: nat
  rc_hidden :: int

record RawRelation =
  rr_name :: string
  rr_kind :: RawRelationKind
  rr_declared_column_count :: nat
  rr_without_rowid :: bool
  rr_strict :: bool
  rr_sql :: "string option"
  rr_columns :: "RawColumn list"
  rr_parsed_table :: "ParsedTableDefinition option"

record RawIndexTerm =
  rt_sequence :: nat
  rt_cid :: int
  rt_column_name :: "string option"
  rt_descending :: bool
  rt_collation :: "string option"
  rt_key :: bool

record RawIndex =
  ri_table_name :: string
  ri_name :: string
  ri_unique :: bool
  ri_origin :: string
  ri_partial :: bool
  ri_sql :: "string option"
  ri_parsed :: "ParsedIndexDefinition option"
  ri_terms :: "RawIndexTerm list"

record RawForeignKeyPart =
  rp_sequence :: nat
  rp_referenced_table :: string
  rp_source_column :: string
  rp_referenced_column :: "string option"

record RawForeignKey =
  rf_id :: int
  rf_parts :: "RawForeignKeyPart list"
  rf_on_update :: string
  rf_on_delete :: string
  rf_match_name :: string

record RawTrigger =
  rg_name :: string
  rg_owner_name :: string
  rg_sql :: string
  rg_parsed :: ParsedTriggerDefinition

record RawSchemaEntry =
  rse_object_type :: string
  rse_name :: string
  rse_owner_name :: string
  rse_sql :: "string option"

record RawSqliteCatalog =
  rcat_sqlite_version :: string
  rcat_schema_version :: int
  rcat_database_names :: "string list"
  rcat_relations :: "RawRelation list"
  rcat_indexes :: "RawIndex list"
  rcat_foreign_keys :: "(string, RawForeignKey list) btree"
  rcat_triggers :: "RawTrigger list"

type_synonym schema_entries = "(string \<times> string, RawSchemaEntry) btree"

section \<open>Schema entries, databases, relations\<close>

definition decode_schema_entry :: "'e SqliteConnection \<Rightarrow> SqlValue list \<Rightarrow> ('e, RawSchemaEntry) result" where
  "decode_schema_entry conn row =
     try_with (get_text conn 0 row) (\<lambda>object_type.
     try_with (get_text conn 1 row) (\<lambda>name.
     try_with (get_text conn 2 row) (\<lambda>owner_name.
     try_with (get_optional_text conn 3 row) (\<lambda>sql.
       Ok \<lparr>rse_object_type = object_type, rse_name = name, rse_owner_name = owner_name, rse_sql = sql\<rparr>))))"

definition read_schema_entries :: "'e SqliteConnection \<Rightarrow> ('e, schema_entries) sq_result" where
  "read_schema_entries conn =
     fold_rows conn ''SELECT type, name, tbl_name, sql FROM main.sqlite_schema ORDER BY type, name''
       (decode_schema_entry conn)
       (\<lambda>entry entries.
         try_with (case rse_sql entry of
                     None \<Rightarrow> Ok ()
                   | Some sql \<Rightarrow> require_bounded_sql (rse_object_type entry) (rse_name entry) sql) (\<lambda>_.
           Ok (bt_insert (rse_object_type entry, rse_name entry) entry entries)))
       []"

definition read_database_names :: "'e SqliteConnection \<Rightarrow> ('e, string list) sq_result" where
  "read_database_names conn =
     try_with (collect_rows conn ''PRAGMA database_list'' (get_text conn 1)) (\<lambda>names.
       if names \<noteq> [MAIN_CATALOG]
       then Err (mapping_error ''database scope''
         (''certified SQLite introspection expected only the main database, found '' @ join_with '', '' names))
       else Ok names)"

definition read_schema_version :: "'e SqliteConnection \<Rightarrow> ('e, int) sq_result" where
  "read_schema_version conn =
     map_err StorageError
       (try_with (sq_query conn ''PRAGMA main.schema_version'') (\<lambda>rows.
          case rows of [] \<Rightarrow> Err (sq_bad_value conn 0 []) | row # _ \<Rightarrow> try_with row (get_integer conn 0)))"

type_synonym table_list_row = "string \<times> string \<times> string \<times> int \<times> int \<times> int"

definition decode_table_list :: "'e SqliteConnection \<Rightarrow> SqlValue list \<Rightarrow> ('e, table_list_row) result" where
  "decode_table_list conn row =
     try_with (get_text conn 0 row) (\<lambda>schema.
     try_with (get_text conn 1 row) (\<lambda>name.
     try_with (get_text conn 2 row) (\<lambda>relation_type.
     try_with (get_integer conn 3 row) (\<lambda>ncol.
     try_with (get_integer conn 4 row) (\<lambda>without_rowid.
     try_with (get_integer conn 5 row) (\<lambda>strict.
       Ok (schema, name, relation_type, ncol, without_rowid, strict)))))))"

definition relation_kind :: "string \<Rightarrow> string \<Rightarrow> ('e, RawRelationKind) sq_result" where
  "relation_kind name relation_type =
     (if relation_type = ''table'' then Ok (TableRelation BaseTable)
      else if relation_type = ''virtual'' then Ok (TableRelation Virtual)
      else if relation_type = ''shadow'' then Ok (TableRelation Shadow)
      else if relation_type = ''view'' then Ok ViewRelation
      else Err (mapping_error (''relation '' @ name)
        (''unsupported PRAGMA table_list relation type '' @ [CHR 0x27] @ relation_type @ [CHR 0x27])))"

text \<open>One row of the relation list; the state holds the relations and their folded names.\<close>

definition read_relation ::
  "schema_entries \<Rightarrow> table_list_row \<Rightarrow> RawRelation list \<times> string bset
    \<Rightarrow> ('e, RawRelation list \<times> string bset) sq_result" where
  "read_relation schema_entries row st =
     (let (schema, name, relation_type, ncol, without_rowid, strict) = row; (relations, folded_names) = st
      in if schema \<noteq> MAIN_SCHEMA \<or> starts_with name ''sqlite_'' then Ok (relations, folded_names)
         else if ncol < 0
         then Err (mapping_error (''relation '' @ name) ''PRAGMA table_list returned a negative column count'')
         else if bs_contains folded_names (fold_identifier name)
         then Err (mapping_error (''relation '' @ name) ''two relations collide under SQLite identifier comparison'')
         else
           try_with (relation_kind name relation_type) (\<lambda>kind.
             (let schema_type = (if kind = ViewRelation then ''view'' else ''table'');
                  sql = Option.bind (bt_get schema_entries (schema_type, name)) rse_sql
              in if sql = None \<and> kind \<noteq> TableRelation Shadow
                 then Err (mapping_error (''relation '' @ name) ''sqlite_schema did not provide a definition'')
                 else if ncol > int u32_MAX
                 then Err (mapping_error ''relation column count'' ''column count exceeds u32'')
                 else Ok (relations @ [\<lparr>rr_name = name, rr_kind = kind, rr_declared_column_count = nat ncol,
                        rr_without_rowid = (without_rowid \<noteq> 0), rr_strict = (strict \<noteq> 0), rr_sql = sql,
                        rr_columns = [], rr_parsed_table = None\<rparr>],
                      bs_insert (fold_identifier name) folded_names))))"

definition read_relations :: "'e SqliteConnection \<Rightarrow> schema_entries \<Rightarrow> ('e, RawRelation list) sq_result" where
  "read_relations conn schema_entries =
     try_with (fold_rows conn ''PRAGMA main.table_list'' (decode_table_list conn) (read_relation schema_entries) ([], []))
       (\<lambda>(relations, _). Ok (sort_key rr_name relations))"

section \<open>Columns\<close>

definition u32_or_max :: "int \<Rightarrow> nat" where
  "u32_or_max n = (if 0 \<le> n \<and> n \<le> int u32_MAX then nat n else u32_MAX)"

definition decode_column :: "'e SqliteConnection \<Rightarrow> SqlValue list \<Rightarrow> ('e, RawColumn) result" where
  "decode_column conn row =
     try_with (get_integer conn 0 row) (\<lambda>cid.
     try_with (get_text conn 1 row) (\<lambda>name.
     try_with (get_text conn 2 row) (\<lambda>data_type.
     try_with (get_integer conn 3 row) (\<lambda>not_null.
     try_with (get_optional_text conn 4 row) (\<lambda>default_value.
     try_with (get_integer conn 5 row) (\<lambda>pk.
     try_with (get_integer conn 6 row) (\<lambda>hidden.
       Ok \<lparr>rc_cid = cid, rc_name = name, rc_data_type = data_type, rc_not_null = (not_null \<noteq> 0),
            rc_default_value = default_value, rc_primary_key_position = u32_or_max pk, rc_hidden = hidden\<rparr>)))))))"

definition check_column :: "string \<Rightarrow> nat \<times> RawColumn \<Rightarrow> unit \<Rightarrow> ('e, unit) sq_result" where
  "check_column relation_name entry u =
     (let (ordinal, column) = entry;
          subject = ''column '' @ relation_name @ ''.'' @ rc_name column
      in if rc_cid column < 0 \<or> rc_cid column \<noteq> int ordinal
         then Err (mapping_error subject ''table_xinfo returned a non-contiguous column ordinal'')
         else if rc_primary_key_position column = u32_MAX
         then Err (mapping_error subject ''primary-key ordinal exceeds the supported range'')
         else if \<not> (0 \<le> rc_hidden column \<and> rc_hidden column \<le> 3)
         then Err (mapping_error subject (''unknown table_xinfo hidden code '' @ show_int (rc_hidden column)))
         else Ok ())"

definition read_relation_columns :: "'e SqliteConnection \<Rightarrow> string \<Rightarrow> ('e, RawColumn list) sq_result" where
  "read_relation_columns conn relation_name =
     try_with (collect_rows conn (''PRAGMA main.table_xinfo('' @ quote_string relation_name @ '')'') (decode_column conn))
       (\<lambda>rows.
         (let columns = sort_key rc_cid rows
          in try_with (try_fold (check_column relation_name) (enumerate 0 columns) ()) (\<lambda>_. Ok columns)))"

definition parse_relation_table ::
  "sql_parser \<Rightarrow> (Expr \<Rightarrow> string) \<Rightarrow> RawRelation \<Rightarrow> ('e, ParsedTableDefinition option) sq_result" where
  "parse_relation_table parser show_expr relation =
     (case rr_kind relation of
        ViewRelation \<Rightarrow> Ok None
      | TableRelation kind \<Rightarrow>
          if kind = Virtual \<or> kind = Shadow \<and> rr_sql relation = None then Ok None
          else
            try_with (ok_or (mapping_error (''table '' @ rr_name relation)
                ''sqlite_schema did not provide CREATE TABLE SQL'') (rr_sql relation)) (\<lambda>sql.
            try_with (map_err (ParseError (''table '' @ rr_name relation)) (parse_table_definition parser show_expr sql)) (\<lambda>parsed.
              if \<not> same_identifier (ptd_name parsed) (rr_name relation)
              then Err (mapping_error (''table '' @ rr_name relation)
                (''parsed table name '' @ [CHR 0x27] @ ptd_name parsed @ [CHR 0x27] @ '' does not match catalog name''))
              else if ptd_strict parsed \<noteq> rr_strict relation \<or> ptd_without_rowid parsed \<noteq> rr_without_rowid relation
              then Err (mapping_error (''table '' @ rr_name relation)
                ''parsed STRICT/WITHOUT ROWID flags disagree with PRAGMA table_list'')
              else Ok (Some parsed))))"

section \<open>Indexes\<close>

type_synonym index_xinfo_row = "int \<times> int \<times> string option \<times> bool \<times> string option \<times> bool"

definition decode_index_term :: "'e SqliteConnection \<Rightarrow> SqlValue list \<Rightarrow> ('e, index_xinfo_row) result" where
  "decode_index_term conn row =
     try_with (get_integer conn 0 row) (\<lambda>seq.
     try_with (get_integer conn 1 row) (\<lambda>cid.
     try_with (get_optional_text conn 2 row) (\<lambda>column_name.
     try_with (get_integer conn 3 row) (\<lambda>descending.
     try_with (get_optional_text conn 4 row) (\<lambda>collation.
     try_with (get_integer conn 5 row) (\<lambda>key.
       Ok (seq, cid, column_name, descending \<noteq> 0, collation, key \<noteq> 0)))))))"

definition read_index_term ::
  "string \<Rightarrow> index_xinfo_row \<Rightarrow> RawIndexTerm list \<Rightarrow> ('e, RawIndexTerm list) sq_result" where
  "read_index_term index_name row terms =
     (let (seq, cid, column_name, descending, collation, key) = row;
          subject = ''index '' @ index_name
      in if seq < 0 then Err (mapping_error subject ''index_xinfo returned a negative term sequence'')
         else if cid \<ge> 0 \<and> column_name = None
         then Err (mapping_error subject ''index_xinfo omitted the name of a direct column term'')
         else if cid < -2
         then Err (mapping_error subject (''index_xinfo returned unknown column code '' @ show_int cid))
         else if seq > int u32_MAX then Err (mapping_error subject ''index term sequence exceeds u32'')
         else Ok (terms @ [\<lparr>rt_sequence = nat seq, rt_cid = cid, rt_column_name = column_name,
                rt_descending = descending, rt_collation = collation, rt_key = key\<rparr>]))"

text \<open>The check that sequence numbers count from zero without a gap.\<close>

definition contiguous :: "('a \<Rightarrow> nat) \<Rightarrow> 'a list \<Rightarrow> bool" where
  "contiguous seq xs = list_all (\<lambda>(expected, x). seq x = expected) (enumerate 0 xs)"

definition read_index_terms :: "'e SqliteConnection \<Rightarrow> string \<Rightarrow> ('e, RawIndexTerm list) sq_result" where
  "read_index_terms conn index_name =
     try_with (fold_rows conn (''PRAGMA main.index_xinfo('' @ quote_string index_name @ '')'') (decode_index_term conn)
       (read_index_term index_name) []) (\<lambda>found.
       (let terms = sort_key rt_sequence found
        in if contiguous rt_sequence terms then Ok terms
           else Err (mapping_error (''index '' @ index_name) ''index_xinfo returned non-contiguous term sequences'')))"

type_synonym index_list_row = "string \<times> bool \<times> string \<times> bool"

definition decode_index_list :: "'e SqliteConnection \<Rightarrow> SqlValue list \<Rightarrow> ('e, index_list_row) result" where
  "decode_index_list conn row =
     try_with (get_text conn 1 row) (\<lambda>name.
     try_with (get_integer conn 2 row) (\<lambda>unique.
     try_with (get_text conn 3 row) (\<lambda>origin.
     try_with (get_integer conn 4 row) (\<lambda>partial.
       Ok (name, unique \<noteq> 0, origin, partial \<noteq> 0)))))"

definition parse_index ::
  "sql_parser \<Rightarrow> (Expr \<Rightarrow> string) \<Rightarrow> string \<Rightarrow> string option \<Rightarrow> index_list_row
    \<Rightarrow> ('e, ParsedIndexDefinition option) sq_result" where
  "parse_index parser show_expr table_name sql row =
     (let (name, unique, origin, partial) = row
      in case sql of
           Some sql \<Rightarrow>
             try_with (map_err (ParseError (''index '' @ name)) (parse_index_definition parser show_expr sql)) (\<lambda>parsed.
               if \<not> same_identifier (pid_name parsed) name \<or> \<not> same_identifier (pid_table_name parsed) table_name
                  \<or> pid_unique parsed \<noteq> unique \<or> (pid_predicate parsed \<noteq> None) \<noteq> partial
               then Err (mapping_error (''index '' @ name)
                 ''parsed CREATE INDEX identity or flags disagree with PRAGMA index_list'')
               else Ok (Some parsed))
         | None \<Rightarrow>
             if origin = ''c''
             then Err (mapping_error (''index '' @ name) ''explicit index has no sqlite_schema definition'')
             else Ok None)"

definition read_index ::
  "'e SqliteConnection \<Rightarrow> sql_parser \<Rightarrow> (Expr \<Rightarrow> string) \<Rightarrow> schema_entries \<Rightarrow> string \<Rightarrow> index_list_row
    \<Rightarrow> RawIndex list \<Rightarrow> ('e, RawIndex list) sq_result" where
  "read_index conn parser show_expr schema_entries table_name row indexes =
     (let (name, unique, origin, partial) = row
      in if origin \<notin> {''c'', ''u'', ''pk''}
         then Err (mapping_error (''index '' @ name)
           (''unknown PRAGMA index_list origin '' @ [CHR 0x27] @ origin @ [CHR 0x27]))
         else
           (let sql = Option.bind (bt_get schema_entries (''index'', name)) rse_sql
            in try_with (parse_index parser show_expr table_name sql row) (\<lambda>parsed.
               try_with (read_index_terms conn name) (\<lambda>terms.
                 (let key_term_count = length (filter rt_key terms)
                  in if (case parsed of None \<Rightarrow> False | Some definition \<Rightarrow> length (pid_terms definition) \<noteq> key_term_count)
                     then Err (mapping_error (''index '' @ name)
                       (''CREATE INDEX has '' @ show_nat (case parsed of None \<Rightarrow> 0 | Some definition \<Rightarrow> length (pid_terms definition))
                        @ '' key term(s), but index_xinfo returned '' @ show_nat key_term_count))
                     else Ok (indexes @ [\<lparr>ri_table_name = table_name, ri_name = name, ri_unique = unique,
                       ri_origin = origin, ri_partial = partial, ri_sql = sql, ri_parsed = parsed, ri_terms = terms\<rparr>]))))))"

definition read_indexes ::
  "'e SqliteConnection \<Rightarrow> sql_parser \<Rightarrow> (Expr \<Rightarrow> string) \<Rightarrow> schema_entries \<Rightarrow> string \<Rightarrow> ('e, RawIndex list) sq_result" where
  "read_indexes conn parser show_expr schema_entries table_name =
     try_with (fold_rows conn (''PRAGMA main.index_list('' @ quote_string table_name @ '')'') (decode_index_list conn)
       (read_index conn parser show_expr schema_entries table_name) []) (\<lambda>indexes. Ok (sort_key ri_name indexes))"

section \<open>Foreign keys\<close>

record foreign_key_row =
  fkr_id :: int
  fkr_sequence :: int
  fkr_referenced_table :: string
  fkr_source_column :: string
  fkr_referenced_column :: "string option"
  fkr_on_update :: string
  fkr_on_delete :: string
  fkr_match_name :: string

definition decode_foreign_key :: "'e SqliteConnection \<Rightarrow> SqlValue list \<Rightarrow> ('e, foreign_key_row) result" where
  "decode_foreign_key conn row =
     try_with (get_integer conn 0 row) (\<lambda>id.
     try_with (get_integer conn 1 row) (\<lambda>seq.
     try_with (get_text conn 2 row) (\<lambda>referenced_table.
     try_with (get_text conn 3 row) (\<lambda>source_column.
     try_with (get_optional_text conn 4 row) (\<lambda>referenced_column.
     try_with (get_text conn 5 row) (\<lambda>on_update.
     try_with (get_text conn 6 row) (\<lambda>on_delete.
     try_with (get_text conn 7 row) (\<lambda>match_name.
       Ok \<lparr>fkr_id = id, fkr_sequence = seq, fkr_referenced_table = referenced_table,
            fkr_source_column = source_column, fkr_referenced_column = referenced_column,
            fkr_on_update = on_update, fkr_on_delete = on_delete, fkr_match_name = match_name\<rparr>))))))))"

definition new_foreign_key :: "foreign_key_row \<Rightarrow> RawForeignKey" where
  "new_foreign_key row =
     \<lparr>rf_id = fkr_id row, rf_parts = [], rf_on_update = normalize_pragma_token (fkr_on_update row),
       rf_on_delete = normalize_pragma_token (fkr_on_delete row),
       rf_match_name = normalize_pragma_token (fkr_match_name row)\<rparr>"

definition foreign_key_part :: "foreign_key_row \<Rightarrow> RawForeignKeyPart" where
  "foreign_key_part row =
     \<lparr>rp_sequence = nat (fkr_sequence row), rp_referenced_table = fkr_referenced_table row,
       rp_source_column = fkr_source_column row,
       rp_referenced_column = (case fkr_referenced_column row of
          Some name \<Rightarrow> if name = [] then None else Some name | None \<Rightarrow> None)\<rparr>"

definition group_foreign_key ::
  "string \<Rightarrow> foreign_key_row \<Rightarrow> (int, RawForeignKey) btree \<Rightarrow> ('e, (int, RawForeignKey) btree) sq_result" where
  "group_foreign_key table_name row grouped =
     (if fkr_id row < 0 \<or> fkr_sequence row < 0
      then Err (mapping_error (''foreign key on '' @ table_name) ''foreign_key_list returned a negative id or sequence'')
      else
        (let subject = ''foreign key '' @ table_name @ ''.'' @ show_int (fkr_id row);
             entry = (case bt_get grouped (fkr_id row) of Some entry \<Rightarrow> entry | None \<Rightarrow> new_foreign_key row)
         in if rf_on_update entry \<noteq> normalize_pragma_token (fkr_on_update row)
               \<or> rf_on_delete entry \<noteq> normalize_pragma_token (fkr_on_delete row)
               \<or> rf_match_name entry \<noteq> normalize_pragma_token (fkr_match_name row)
            then Err (mapping_error subject ''foreign_key_list returned inconsistent actions for one composite key'')
            else if fkr_sequence row > int u32_MAX
            then Err (mapping_error subject ''foreign-key sequence exceeds u32'')
            else Ok (bt_insert (fkr_id row) (entry\<lparr>rf_parts := rf_parts entry @ [foreign_key_part row]\<rparr>) grouped)))"

definition order_foreign_key :: "string \<Rightarrow> RawForeignKey \<Rightarrow> ('e, RawForeignKey) sq_result" where
  "order_foreign_key table_name foreign_key =
     (let parts = sort_key rp_sequence (rf_parts foreign_key)
      in if contiguous rp_sequence parts then Ok (foreign_key\<lparr>rf_parts := parts\<rparr>)
         else Err (mapping_error (''foreign key '' @ table_name @ ''.'' @ show_int (rf_id foreign_key))
           ''foreign_key_list returned non-contiguous column sequences''))"

definition read_foreign_keys :: "'e SqliteConnection \<Rightarrow> string \<Rightarrow> ('e, RawForeignKey list) sq_result" where
  "read_foreign_keys conn table_name =
     try_with (fold_rows conn (''PRAGMA main.foreign_key_list('' @ quote_string table_name @ '')'') (decode_foreign_key conn)
       (group_foreign_key table_name) []) (\<lambda>grouped.
       collect_results (map (order_foreign_key table_name) (sort_key rf_id (bt_values grouped))))"

section \<open>Triggers\<close>

definition read_trigger ::
  "sql_parser \<Rightarrow> (Expr \<Rightarrow> string) \<Rightarrow> RawSchemaEntry \<Rightarrow> ('e, RawTrigger) sq_result" where
  "read_trigger parser show_expr entry =
     try_with (ok_or (mapping_error (''trigger '' @ rse_name entry) ''sqlite_schema did not provide CREATE TRIGGER SQL'')
       (rse_sql entry)) (\<lambda>sql.
     try_with (map_err (ParseError (''trigger '' @ rse_name entry)) (parse_trigger_definition parser show_expr sql)) (\<lambda>parsed.
       if \<not> same_identifier (ptr_name parsed) (rse_name entry)
          \<or> \<not> same_identifier (ptr_owner_name parsed) (rse_owner_name entry)
       then Err (mapping_error (''trigger '' @ rse_name entry) ''parsed trigger identity disagrees with sqlite_schema'')
       else Ok \<lparr>rg_name = rse_name entry, rg_owner_name = rse_owner_name entry, rg_sql = sql, rg_parsed = parsed\<rparr>))"

definition read_triggers ::
  "sql_parser \<Rightarrow> (Expr \<Rightarrow> string) \<Rightarrow> schema_entries \<Rightarrow> ('e, RawTrigger list) sq_result" where
  "read_triggers parser show_expr schema_entries =
     try_with (collect_results (map (read_trigger parser show_expr)
       (filter (\<lambda>entry. rse_object_type entry = ''trigger'' \<and> \<not> starts_with (rse_name entry) ''sqlite_'')
         (bt_values schema_entries)))) (\<lambda>triggers.
       Ok (sort_key rg_name triggers))"

section \<open>The catalog\<close>

text \<open>The columns of a relation, as many as its list entry declares.\<close>

definition read_declared_columns ::
  "'e SqliteConnection \<Rightarrow> string \<Rightarrow> RawRelation \<Rightarrow> ('e, RawRelation) sq_result" where
  "read_declared_columns conn label relation =
     try_with (read_relation_columns conn (rr_name relation)) (\<lambda>columns.
       if length columns \<noteq> rr_declared_column_count relation
       then Err (mapping_error (label @ '' '' @ rr_name relation)
         (''PRAGMA table_list reports '' @ show_nat (rr_declared_column_count relation)
          @ '' column(s), but table_xinfo returned '' @ show_nat (length columns)))
       else Ok (relation\<lparr>rr_columns := columns\<rparr>))"

text \<open>The two loops update the relations in place: the relations before the current one are finished.\<close>

type_synonym read_state = "RawRelation list \<times> RawIndex list \<times> (string, RawForeignKey list) btree"

definition read_table ::
  "'e SqliteConnection \<Rightarrow> sql_parser \<Rightarrow> (Expr \<Rightarrow> string) \<Rightarrow> schema_entries \<Rightarrow> RawRelation \<Rightarrow> read_state
    \<Rightarrow> ('e, read_state) sq_result" where
  "read_table conn parser show_expr schema_entries relation st =
     (let (finished, indexes, foreign_keys) = st
      in if \<not> is_table (rr_kind relation) then Ok (finished @ [relation], indexes, foreign_keys)
         else
           try_with (read_declared_columns conn ''table'' relation) (\<lambda>relation.
           try_with (parse_relation_table parser show_expr relation) (\<lambda>parsed.
           try_with (read_indexes conn parser show_expr schema_entries (rr_name relation)) (\<lambda>found.
           try_with (read_foreign_keys conn (rr_name relation)) (\<lambda>keys.
             Ok (finished @ [relation\<lparr>rr_parsed_table := parsed\<rparr>], indexes @ found,
                 bt_insert (rr_name relation) keys foreign_keys))))))"

definition read_view ::
  "'e SqliteConnection \<Rightarrow> RawRelation \<Rightarrow> RawRelation list \<Rightarrow> ('e, RawRelation list) sq_result" where
  "read_view conn relation finished =
     (if rr_kind relation \<noteq> ViewRelation then Ok (finished @ [relation])
      else try_with (read_declared_columns conn ''view'' relation) (\<lambda>relation. Ok (finished @ [relation])))"

definition read_catalog ::
  "'e SqliteConnection \<Rightarrow> sql_parser \<Rightarrow> (Expr \<Rightarrow> string) \<Rightarrow> ('e, RawSqliteCatalog) sq_result" where
  "read_catalog conn parser show_expr =
     try_with (read_schema_entries conn) (\<lambda>schema_entries.
     try_with (read_database_names conn) (\<lambda>database_names.
     try_with (read_schema_version conn) (\<lambda>schema_version.
     try_with (read_relations conn schema_entries) (\<lambda>relations.
     try_with (try_fold (read_table conn parser show_expr schema_entries) relations ([], [], [])) (\<lambda>(relations, indexes, foreign_keys).
     try_with (try_fold (read_view conn) relations []) (\<lambda>relations.
     try_with (read_triggers parser show_expr schema_entries) (\<lambda>triggers.
       Ok \<lparr>rcat_sqlite_version = sq_version conn, rcat_schema_version = schema_version,
            rcat_database_names = database_names, rcat_relations = relations, rcat_indexes = indexes,
            rcat_foreign_keys = foreign_keys, rcat_triggers = triggers\<rparr>)))))))"

end
