(* ===== verification/Sqlite_Map.thy ===== *)
theory Sqlite_Map
  imports Sqlite_Read Analysis
begin

text \<open>
  The mapping half of \<open>adapters/sqlite_catalog.rs\<close>: a raw catalog becomes a canonical snapshot with the counts of
  what was found. Which objects an expression, a view or a trigger uses is learned from the accesses the
  engine reports while it prepares a statement. The collections the Rust code fills in place are passed on
  and returned.
\<close>

section \<open>Keys and lookups\<close>

record 'e SqliteSnapshotMapper =
  sm_conn :: "'e SqliteConnection"
  sm_snapshot_source_kind :: string
  sm_object_source_kind :: string
  sm_connection_alias :: string
  sm_notes :: "string list"

type_synonym relation_keys = "(string, ObjectKey) btree"
type_synonym column_keys = "(string \<times> string, ObjectKey) btree"
type_synonym primary_key_columns = "(string, ObjectKey list) btree"

definition mapper_key :: "'e SqliteSnapshotMapper \<Rightarrow> ObjectKind \<Rightarrow> string \<Rightarrow> string option \<Rightarrow> ObjectKey" where
  "mapper_key m object_kind object_name sub_object =
     \<lparr>ok_source_kind = sm_object_source_kind m, ok_connection_alias = sm_connection_alias m,
       ok_database = MAIN_CATALOG, ok_schema = MAIN_SCHEMA, ok_object_kind = object_kind,
       ok_object_name = object_name, ok_sub_object = sub_object\<rparr>"

definition lookup_key :: "relation_keys \<Rightarrow> string \<Rightarrow> string \<Rightarrow> ('e, ObjectKey) sq_result" where
  "lookup_key keys name object_type =
     ok_or (mapping_error (object_type @ '' '' @ name)
       ''catalog relationship points outside the selected metadata scope'')
     (bt_get keys (fold_identifier name))"

definition resolve_named_columns :: "string \<Rightarrow> string list \<Rightarrow> column_keys \<Rightarrow> ('e, ObjectKey list) sq_result" where
  "resolve_named_columns relation_name column_names column_keys =
     collect_results (map (\<lambda>column_name.
       ok_or (mapping_error (''column '' @ relation_name @ ''.'' @ column_name)
         ''schema relationship references a column absent from table_xinfo'')
       (bt_get column_keys (fold_identifier relation_name, fold_identifier column_name))) column_names)"

text \<open>\<open>retain\<close> with a set of what was seen: the first element with each key stays.\<close>

fun retain_first :: "('a \<Rightarrow> 'k) \<Rightarrow> 'k list \<Rightarrow> 'a list \<Rightarrow> 'a list" where
  "retain_first f seen [] = []"
| "retain_first f seen (x # xs) =
     (if f x \<in> set seen then retain_first f seen xs else x # retain_first f (f x # seen) xs)"

definition deduplicate_keys :: "ObjectKey list \<Rightarrow> ObjectKey list" where
  "deduplicate_keys keys = sort_key key_to_string (retain_first key_to_string [] keys)"

definition deduplicate_metadata_relationships :: "MetadataRelationship list \<Rightarrow> MetadataRelationship list" where
  "deduplicate_metadata_relationships relationships =
     retain_first (\<lambda>r. (rel_kind r, key_to_string (rel_from_key r), key_to_string (rel_to_key r), rel_ordinal r))
       [] relationships"

definition push_relationship :: "MetadataRelationship \<Rightarrow> CanonicalMetadata \<Rightarrow> CanonicalMetadata" where
  "push_relationship r metadata = metadata\<lparr>md_relationships := md_relationships metadata @ [r]\<rparr>"

definition push_annotation :: "ObjectAnnotation \<Rightarrow> CanonicalMetadata \<Rightarrow> CanonicalMetadata" where
  "push_annotation a metadata = metadata\<lparr>md_annotations := md_annotations metadata @ [a]\<rparr>"

definition push_annotation_if_needed ::
  "ObjectKey \<Rightarrow> string option \<Rightarrow> Properties \<Rightarrow> CanonicalMetadata \<Rightarrow> CanonicalMetadata" where
  "push_annotation_if_needed object_key defn props metadata =
     (if defn \<noteq> None \<or> props \<noteq> []
      then push_annotation \<lparr>an_object_key = object_key, an_definition = defn, an_properties = props\<rparr> metadata
      else metadata)"

definition depends_on :: "ObjectKey \<Rightarrow> Properties \<Rightarrow> ObjectKey \<Rightarrow> MetadataRelationship" where
  "depends_on from props to =
     \<lparr>rel_kind = DependsOn, rel_from_key = from, rel_to_key = to, rel_ordinal = None, rel_properties = props\<rparr>"

section \<open>Accesses\<close>

datatype AccessorFilter = AnyAccessor | ExactAccessor string

fun accessor_matches :: "AccessorFilter \<Rightarrow> string option \<Rightarrow> bool" where
  "accessor_matches AnyAccessor accessor = True"
| "accessor_matches (ExactAccessor expected) accessor =
     (case accessor of None \<Rightarrow> False | Some v \<Rightarrow> same_identifier v expected)"

record RawAccess =
  ra_relation_name :: string
  ra_column_name :: "string option"

fun access_of :: "PrepareAction \<Rightarrow> RawAccess option" where
  "access_of (PaRead table_name column_name) =
     Some \<lparr>ra_relation_name = table_name, ra_column_name = (if column_name = [] then None else Some column_name)\<rparr>"
| "access_of (PaUpdate table_name column_name) =
     Some \<lparr>ra_relation_name = table_name, ra_column_name = (if column_name = [] then None else Some column_name)\<rparr>"
| "access_of (PaInsert table_name) = Some \<lparr>ra_relation_name = table_name, ra_column_name = None\<rparr>"
| "access_of (PaDelete table_name) = Some \<lparr>ra_relation_name = table_name, ra_column_name = None\<rparr>"
| "access_of PaOther = None"

definition capture_prepare_accesses ::
  "'e SqliteConnection \<Rightarrow> string \<Rightarrow> AccessorFilter \<Rightarrow> ('e, RawAccess list) sq_result" where
  "capture_prepare_accesses conn sql accessor_filter =
     (let (calls, prepare_result) = sq_prepare conn sql
      in try_with (map_err StorageError prepare_result) (\<lambda>_.
           Ok (List.map_filter (\<lambda>(accessor, action).
             if accessor_matches accessor_filter accessor then access_of action else None) calls)))"

definition is_rowid_alias :: "string \<Rightarrow> bool" where
  "is_rowid_alias name = (to_ascii_lowercase name \<in> {''rowid'', ''oid'', ''_rowid_''})"

definition relation_key :: "relation_keys \<Rightarrow> relation_keys \<Rightarrow> string \<Rightarrow> ObjectKey option" where
  "relation_key table_keys view_keys folded =
     (case bt_get table_keys folded of Some key \<Rightarrow> Some key | None \<Rightarrow> bt_get view_keys folded)"

definition map_access ::
  "relation_keys \<Rightarrow> relation_keys \<Rightarrow> column_keys \<Rightarrow> RawAccess \<Rightarrow> ObjectKey list \<Rightarrow> ('e, ObjectKey list) sq_result" where
  "map_access table_keys view_keys column_keys access keys =
     (let relation_folded = fold_identifier (ra_relation_name access)
      in case relation_key table_keys view_keys relation_folded of
           None \<Rightarrow>
             if starts_with (ra_relation_name access) ''sqlite_'' then Ok keys
             else Err (mapping_error (''dependency relation '' @ ra_relation_name access)
               ''SQLite authorizer reported a relation outside the selected catalog inventory'')
         | Some relation \<Rightarrow>
             (case ra_column_name access of
                None \<Rightarrow> Ok (keys @ [relation])
              | Some column_name \<Rightarrow>
                  if is_rowid_alias column_name then Ok (keys @ [relation])
                  else
                    try_with (ok_or (mapping_error
                        (''dependency column '' @ ra_relation_name access @ ''.'' @ column_name)
                        ''SQLite authorizer reported a column absent from table_xinfo'')
                      (bt_get column_keys (relation_folded, fold_identifier column_name))) (\<lambda>column_key.
                      Ok (keys @ [relation, column_key]))))"

definition map_accesses ::
  "RawAccess list \<Rightarrow> relation_keys \<Rightarrow> relation_keys \<Rightarrow> column_keys \<Rightarrow> ('e, ObjectKey list) sq_result" where
  "map_accesses accesses table_keys view_keys column_keys =
     try_with (try_fold (map_access table_keys view_keys column_keys) accesses []) (\<lambda>keys. Ok (deduplicate_keys keys))"

definition view_dependencies ::
  "'e SqliteSnapshotMapper \<Rightarrow> RawRelation \<Rightarrow> relation_keys \<Rightarrow> relation_keys \<Rightarrow> column_keys
    \<Rightarrow> ('e, ObjectKey list) sq_result" where
  "view_dependencies m view table_keys view_keys column_keys =
     (let projection =
            (if rr_columns view = [] then ''1''
             else join_with '', '' (map (\<lambda>column. quote_identifier (rc_name column)) (rr_columns view)));
          sql = ''EXPLAIN SELECT '' @ projection @ '' FROM '' @ quote_identifier (rr_name view) @ '' LIMIT 0''
      in try_with (capture_prepare_accesses (sm_conn m) sql (ExactAccessor (rr_name view))) (\<lambda>accesses.
           map_accesses accesses table_keys view_keys column_keys))"

definition expression_dependencies ::
  "'e SqliteSnapshotMapper \<Rightarrow> string \<Rightarrow> string list \<Rightarrow> relation_keys \<Rightarrow> relation_keys \<Rightarrow> column_keys
    \<Rightarrow> ('e, ObjectKey list) sq_result" where
  "expression_dependencies m relation_name expressions table_keys view_keys column_keys =
     (if expressions = [] then Ok []
      else
        (let projection = join_with '', '' (map (\<lambda>expression. ''('' @ expression @ '')'') expressions);
             sql = ''EXPLAIN SELECT '' @ projection @ '' FROM '' @ quote_identifier relation_name @ '' LIMIT 0''
         in try_with (capture_prepare_accesses (sm_conn m) sql AnyAccessor) (\<lambda>accesses.
              map_accesses accesses table_keys view_keys column_keys)))"

text \<open>The columns of the relation itself among the dependencies.\<close>

definition own_column :: "string \<Rightarrow> ObjectKey \<Rightarrow> bool" where
  "own_column relation_name key = (ok_object_kind key = Column \<and> same_identifier (ok_object_name key) relation_name)"

section \<open>Relations and columns\<close>

definition map_relation ::
  "'e SqliteSnapshotMapper \<Rightarrow> RawRelation \<Rightarrow> TableObject list \<times> relation_keys \<times> relation_keys
    \<Rightarrow> TableObject list \<times> relation_keys \<times> relation_keys" where
  "map_relation m relation st =
     (let (tables, table_keys, view_keys) = st
      in case rr_kind relation of
           TableRelation kind \<Rightarrow>
             (let table_key = mapper_key m Table (rr_name relation) None
              in (tables @ [\<lparr>tbl_key = table_key, tbl_schema_key = mapper_key m Schema MAIN_SCHEMA None,
                      tbl_name = rr_name relation, tbl_kind = kind\<rparr>],
                  bt_insert (fold_identifier (rr_name relation)) table_key table_keys, view_keys))
         | ViewRelation \<Rightarrow>
             (tables, table_keys,
              bt_insert (fold_identifier (rr_name relation)) (mapper_key m View (rr_name relation) None) view_keys))"

record ColumnMapState =
  cst_columns :: "ColumnObject list"
  cst_metadata :: CanonicalMetadata
  cst_column_keys :: column_keys
  cst_primary_key_columns :: primary_key_columns

definition parsed_column_map :: "RawRelation \<Rightarrow> (string, ParsedColumnDefinition) btree" where
  "parsed_column_map relation =
     (case rr_parsed_table relation of
        None \<Rightarrow> []
      | Some parsed \<Rightarrow> fold (\<lambda>column. bt_insert (fold_identifier (pcd_name column)) column) (ptd_columns parsed) [])"

definition is_generated :: "RawColumn \<Rightarrow> bool" where
  "is_generated column = (rc_hidden column = 2 \<or> rc_hidden column = 3)"

definition primary_key_is_not_null :: "RawRelation \<Rightarrow> RawColumn \<Rightarrow> bool" where
  "primary_key_is_not_null relation column =
     (let pk_count = length (filter (\<lambda>column. rc_primary_key_position column > 0) (rr_columns relation));
          integer_primary_key_alias =
            (pk_count = 1 \<and> rc_primary_key_position column = 1
             \<and> eq_ignore_ascii_case (rc_data_type column) ''INTEGER'' \<and> \<not> rr_without_rowid relation)
      in rc_primary_key_position column > 0
         \<and> (rr_without_rowid relation \<or> rr_strict relation \<or> integer_primary_key_alias))"

definition column_properties :: "RawColumn \<Rightarrow> ParsedColumnDefinition option \<Rightarrow> Properties" where
  "column_properties column parsed_column =
     (let props = bt_insert ''declared_not_null'' (Boolean (rc_not_null column)) [];
          props = bt_insert ''sqlite_hidden_code'' (Integer (rc_hidden column)) props
      in case parsed_column of
           None \<Rightarrow> props
         | Some parsed \<Rightarrow>
             (let props = (case pcd_generated_storage parsed of
                             None \<Rightarrow> props | Some storage \<Rightarrow> insert_string ''generated_storage'' storage props)
              in case pcd_collation parsed of
                   None \<Rightarrow> props | Some collation \<Rightarrow> insert_string ''collation'' collation props))"

definition map_table_column ::
  "'e SqliteSnapshotMapper \<Rightarrow> RawRelation \<Rightarrow> ObjectKey \<Rightarrow> RawColumn \<Rightarrow> ColumnMapState \<times> (nat \<times> ObjectKey) list
    \<Rightarrow> ('e, ColumnMapState \<times> (nat \<times> ObjectKey) list) sq_result" where
  "map_table_column m relation table_key column acc =
     (let (st, ordered_primary_key) = acc;
          subject = ''column '' @ rr_name relation @ ''.'' @ rc_name column;
          column_key = mapper_key m Column (rr_name relation) (Some (rc_name column));
          parsed_column = bt_get (parsed_column_map relation) (fold_identifier (rc_name column))
      in if is_generated column \<and> Option.bind parsed_column pcd_generated_expression = None
         then Err (mapping_error subject
           ''table_xinfo marks the column generated, but CREATE TABLE has no generation expression'')
         else if rc_cid column < 0 \<or> rc_cid column > int u32_MAX
         then Err (mapping_error subject ''column ordinal exceeds u32'')
         else Ok (st\<lparr>cst_columns := cst_columns st @ [\<lparr>col_key = column_key, col_table_key = table_key,
                  col_name = rc_name column, col_ordinal_position = min (nat (rc_cid column) + 1) u32_MAX,
                  col_data_type = rc_data_type column,
                  col_is_nullable = (\<not> rc_not_null column \<and> \<not> primary_key_is_not_null relation column),
                  col_default_value = rc_default_value column, col_is_generated = is_generated column\<rparr>],
                cst_column_keys := bt_insert (fold_identifier (rr_name relation), fold_identifier (rc_name column))
                  column_key (cst_column_keys st),
                cst_metadata := push_annotation \<lparr>an_object_key = column_key,
                  an_definition = Option.bind parsed_column pcd_generated_expression,
                  an_properties = column_properties column parsed_column\<rparr> (cst_metadata st)\<rparr>,
              if rc_primary_key_position column > 0
              then ordered_primary_key @ [(rc_primary_key_position column, column_key)]
              else ordered_primary_key))"

definition table_annotation :: "ObjectKey \<Rightarrow> RawRelation \<Rightarrow> ObjectAnnotation" where
  "table_annotation table_key relation =
     \<lparr>an_object_key = table_key, an_definition = rr_sql relation,
       an_properties =
         insert_string ''sqlite_relation_type''
           (case rr_kind relation of
              TableRelation Virtual \<Rightarrow> ''virtual'' | TableRelation Shadow \<Rightarrow> ''shadow'' | _ \<Rightarrow> ''table'')
           (bt_insert ''without_rowid'' (Boolean (rr_without_rowid relation))
             (bt_insert ''strict'' (Boolean (rr_strict relation)) []))\<rparr>"

definition map_view_column ::
  "'e SqliteSnapshotMapper \<Rightarrow> RawRelation \<Rightarrow> ObjectKey \<Rightarrow> RawColumn \<Rightarrow> ColumnMapState \<Rightarrow> ColumnMapState" where
  "map_view_column m relation owner_key column st =
     (let column_key = mapper_key m ViewColumn (rr_name relation) (Some (rc_name column));
          props = bt_insert ''ordinal_position'' (Unsigned ((if rc_cid column < 0 then 0 else nat (rc_cid column)) + 1)) [];
          props = insert_string ''data_type'' (rc_data_type column) props;
          props = bt_insert ''nullable'' (Boolean (\<not> rc_not_null column)) props;
          metadata = cst_metadata st
      in st\<lparr>cst_column_keys := bt_insert (fold_identifier (rr_name relation), fold_identifier (rc_name column))
              column_key (cst_column_keys st),
            cst_metadata := metadata\<lparr>md_objects := md_objects metadata @ [\<lparr>mo_key = column_key,
              mo_parent_key = Some owner_key, mo_name = rc_name column, mo_extension_kind = None,
              mo_definition = None, mo_properties = props\<rparr>]\<rparr>\<rparr>)"

definition map_relation_columns ::
  "'e SqliteSnapshotMapper \<Rightarrow> relation_keys \<Rightarrow> relation_keys \<Rightarrow> RawRelation \<Rightarrow> ColumnMapState \<Rightarrow> ('e, ColumnMapState) sq_result" where
  "map_relation_columns m table_keys view_keys relation st =
     (case rr_kind relation of
        TableRelation _ \<Rightarrow>
          try_with (lookup_key table_keys (rr_name relation) ''table'') (\<lambda>table_key.
          try_with (try_fold (map_table_column m relation table_key) (rr_columns relation) (st, []))
            (\<lambda>(st, ordered_primary_key).
              Ok (st\<lparr>cst_primary_key_columns := bt_insert (fold_identifier (rr_name relation))
                      (map snd (sort_key fst ordered_primary_key)) (cst_primary_key_columns st),
                    cst_metadata := push_annotation (table_annotation table_key relation) (cst_metadata st)\<rparr>)))
      | ViewRelation \<Rightarrow>
          try_with (lookup_key view_keys (rr_name relation) ''view'') (\<lambda>owner_key.
            Ok (fold (map_view_column m relation owner_key) (rr_columns relation) st)))"

section \<open>Generated columns\<close>

definition map_generated_column ::
  "'e SqliteSnapshotMapper \<Rightarrow> relation_keys \<Rightarrow> column_keys \<Rightarrow> RawRelation \<Rightarrow> ParsedColumnDefinition \<Rightarrow> CanonicalMetadata
    \<Rightarrow> ('e, CanonicalMetadata) sq_result" where
  "map_generated_column m table_keys column_keys relation column metadata =
     (case pcd_generated_expression column of
        None \<Rightarrow> Ok metadata
      | Some expression \<Rightarrow>
          try_with (ok_or (mapping_error (''generated column '' @ rr_name relation @ ''.'' @ pcd_name column)
              ''generated column is absent from table_xinfo'')
            (bt_get column_keys (fold_identifier (rr_name relation), fold_identifier (pcd_name column)))) (\<lambda>generated_key.
          try_with (expression_dependencies m (rr_name relation) [expression] table_keys [] column_keys) (\<lambda>dependencies.
            Ok (fold (\<lambda>dependency. push_relationship (depends_on generated_key [] dependency))
              (filter (own_column (rr_name relation)) dependencies) metadata))))"

definition map_generated_dependencies ::
  "'e SqliteSnapshotMapper \<Rightarrow> RawRelation list \<Rightarrow> relation_keys \<Rightarrow> column_keys \<Rightarrow> CanonicalMetadata
    \<Rightarrow> ('e, CanonicalMetadata) sq_result" where
  "map_generated_dependencies m relations table_keys column_keys metadata =
     try_fold (\<lambda>relation metadata.
         case rr_parsed_table relation of
           None \<Rightarrow> Ok metadata
         | Some parsed \<Rightarrow>
             try_fold (map_generated_column m table_keys column_keys relation) (ptd_columns parsed) metadata)
       (filter (\<lambda>relation. is_table (rr_kind relation)) relations) metadata"

section \<open>Constraints\<close>

text \<open>The first use of a name keeps it, later uses get a running number.\<close>

type_synonym name_uses = "(string, nat) btree"

definition allocate :: "string option \<Rightarrow> string \<Rightarrow> name_uses \<Rightarrow> (string \<times> string option) \<times> name_uses" where
  "allocate declared fallback uses =
     (let base = (case declared of None \<Rightarrow> fallback | Some name \<Rightarrow> name);
          uses = bt_add (fold_identifier base) 1 uses;
          n = (case bt_get uses (fold_identifier base) of None \<Rightarrow> 0 | Some n \<Rightarrow> n)
      in (if n = 1 then (base, None) else (base @ ''#'' @ show_nat n, declared), uses))"

definition preserve_declared_name :: "string option \<Rightarrow> Properties \<Rightarrow> Properties" where
  "preserve_declared_name declared_name props =
     (case declared_name of None \<Rightarrow> props | Some name \<Rightarrow> insert_string ''declared_name'' name props)"

definition same_key_sequence :: "ObjectKey list \<Rightarrow> ObjectKey list \<Rightarrow> bool" where
  "same_key_sequence left right =
     (length left = length right
      \<and> list_all (\<lambda>(l, r).
          case (ok_sub_object l, ok_sub_object r) of
            (Some a, Some b) \<Rightarrow> same_identifier a b | _ \<Rightarrow> False) (zip left right))"

definition same_identifier_sequence :: "string list \<Rightarrow> string list \<Rightarrow> bool" where
  "same_identifier_sequence left right =
     (length left = length right \<and> list_all (\<lambda>(l, r). same_identifier l r) (zip left right))"

definition direct_index_column_names :: "RawIndex \<Rightarrow> ('e, string list) sq_result" where
  "direct_index_column_names index =
     collect_results (map (\<lambda>term.
       if rt_cid term < 0
       then Err (mapping_error (''implicit index '' @ ri_name index)
         ''UNIQUE/PRIMARY KEY backing index contains a non-column key term'')
       else ok_or (mapping_error (''index '' @ ri_name index) ''index_xinfo omitted a direct column name'')
         (rt_column_name term)) (filter rt_key (ri_terms index)))"

record ResolvedForeignKey =
  rfk_source_columns :: "ObjectKey list"
  rfk_referenced_table :: ObjectKey
  rfk_referenced_columns :: "ObjectKey list"

text \<open>The referenced columns: those named, or the primary key of the target where none is named.\<close>

definition resolve_referenced_columns ::
  "string \<Rightarrow> string \<Rightarrow> RawForeignKey \<Rightarrow> column_keys \<Rightarrow> primary_key_columns \<Rightarrow> ('e, ObjectKey list) sq_result" where
  "resolve_referenced_columns source_table referenced_table_name raw column_keys primary_key_columns =
     (let subject = ''foreign key '' @ source_table @ ''.'' @ show_int (rf_id raw)
      in if list_all (\<lambda>part. rp_referenced_column part = None) (rf_parts raw) then
           ok_or (mapping_error subject
               ''implicit referenced columns do not resolve to a target primary key of equal cardinality'')
             (case bt_get primary_key_columns (fold_identifier referenced_table_name) of
                None \<Rightarrow> None
              | Some columns \<Rightarrow> if length columns = length (rf_parts raw) then Some columns else None)
         else if list_ex (\<lambda>part. rp_referenced_column part = None) (rf_parts raw)
         then Err (mapping_error subject ''foreign_key_list mixed explicit and implicit referenced columns'')
         else resolve_named_columns referenced_table_name (List.map_filter rp_referenced_column (rf_parts raw)) column_keys)"

definition resolve_raw_foreign_key ::
  "string \<Rightarrow> RawForeignKey \<Rightarrow> relation_keys \<Rightarrow> column_keys \<Rightarrow> primary_key_columns \<Rightarrow> ('e, ResolvedForeignKey) sq_result" where
  "resolve_raw_foreign_key source_table raw table_keys column_keys primary_key_columns =
     (let subject = ''foreign key '' @ source_table @ ''.'' @ show_int (rf_id raw)
      in case rf_parts raw of
           [] \<Rightarrow> Err (mapping_error subject ''foreign key has no column parts'')
         | part # _ \<Rightarrow>
             (let referenced_table_name = rp_referenced_table part
              in if list_ex (\<lambda>part. \<not> same_identifier (rp_referenced_table part) referenced_table_name) (rf_parts raw)
                 then Err (mapping_error subject ''foreign_key_list returned multiple target tables for one key'')
                 else
                   try_with (resolve_named_columns source_table (map rp_source_column (rf_parts raw)) column_keys) (\<lambda>source_columns.
                   try_with (lookup_key table_keys referenced_table_name ''referenced table'') (\<lambda>referenced_table.
                   try_with (resolve_referenced_columns source_table referenced_table_name raw column_keys primary_key_columns)
                     (\<lambda>referenced_columns.
                       Ok \<lparr>rfk_source_columns = source_columns, rfk_referenced_table = referenced_table,
                            rfk_referenced_columns = referenced_columns\<rparr>)))))"

fun metadata_string :: "MetadataValue \<Rightarrow> string option" where
  "metadata_string (String v) = Some v"
| "metadata_string _ = None"

definition action_matches :: "ParsedConstraint \<Rightarrow> string \<times> string \<times> string \<Rightarrow> bool" where
  "action_matches parsed entry =
     (let (property, actual, default) = entry
      in (case Option.bind (bt_get (pc_properties parsed) property) metadata_string of
            None \<Rightarrow> default | Some v \<Rightarrow> v) = actual)"

definition parsed_foreign_key_matches :: "ParsedConstraint \<Rightarrow> ResolvedForeignKey \<Rightarrow> RawForeignKey \<Rightarrow> bool" where
  "parsed_foreign_key_matches parsed mapped raw =
     (let source_names = List.map_filter ok_sub_object (rfk_source_columns mapped);
          referenced_names = List.map_filter ok_sub_object (rfk_referenced_columns mapped);
          parsed_referenced_names =
            (if pc_referenced_columns parsed = [] then referenced_names else pc_referenced_columns parsed);
          table_matches =
            (case pc_referenced_table parsed of
               None \<Rightarrow> False | Some name \<Rightarrow> same_identifier name (ok_object_name (rfk_referenced_table mapped)))
      in table_matches \<and> same_identifier_sequence (pc_columns parsed) source_names
         \<and> same_identifier_sequence parsed_referenced_names referenced_names
         \<and> list_all (action_matches parsed)
             [(''on_update'', rf_on_update raw, ''no_action''), (''on_delete'', rf_on_delete raw, ''no_action''),
              (''match'', rf_match_name raw, ''none'')])"

record ConstraintMapState =
  cns_names :: name_uses
  cns_constraints :: "ConstraintObject list"
  cns_metadata :: CanonicalMetadata
  cns_check_dependency_count :: nat

text \<open>The end of the four blocks that emit a constraint: its name, its properties and the object.\<close>

definition emit_constraint ::
  "'e SqliteSnapshotMapper \<Rightarrow> string \<Rightarrow> ObjectKey \<Rightarrow> ConstraintKind \<Rightarrow> string option \<Rightarrow> string \<Rightarrow> Properties
    \<Rightarrow> ObjectKey list \<Rightarrow> ObjectKey option \<Rightarrow> ObjectKey list \<Rightarrow> string option \<Rightarrow> ConstraintMapState \<Rightarrow> ConstraintMapState" where
  "emit_constraint m relation_name table_key kind declared fallback props columns referenced_table referenced_columns expr st =
     (let ((name, declared_name), uses) = allocate declared fallback (cns_names st);
          key = mapper_key m (constraint_object_kind kind) relation_name (Some name)
      in st\<lparr>cns_names := uses,
            cns_constraints := cns_constraints st @ [\<lparr>con_key = key, con_table_key = table_key, con_name = name,
              con_kind = kind, con_columns = columns, con_referenced_table_key = referenced_table,
              con_referenced_columns = referenced_columns, con_expression = expr\<rparr>],
            cns_metadata := push_annotation_if_needed key None (preserve_declared_name declared_name props)
              (cns_metadata st)\<rparr>)"

definition parsed_constraints :: "RawRelation \<Rightarrow> ParsedConstraintKind \<Rightarrow> ParsedConstraint list" where
  "parsed_constraints relation kind =
     (case rr_parsed_table relation of
        None \<Rightarrow> []
      | Some parsed \<Rightarrow> filter (\<lambda>constraint. pc_kind constraint = kind) (ptd_constraints parsed))"

definition parsed_name :: "ParsedConstraint option \<Rightarrow> string option" where
  "parsed_name parsed = Option.bind parsed pc_name"

definition parsed_properties :: "ParsedConstraint option \<Rightarrow> Properties" where
  "parsed_properties parsed = (case parsed of None \<Rightarrow> [] | Some constraint \<Rightarrow> pc_properties constraint)"

definition check_primary_key :: "RawRelation \<Rightarrow> ObjectKey list \<Rightarrow> column_keys \<Rightarrow> ('e, unit) sq_result" where
  "check_primary_key relation raw_primary column_keys =
     (let subject = ''primary key on '' @ rr_name relation;
          parsed_primary = parsed_constraints relation ParsedPrimaryKey
      in if length parsed_primary > 1
         then Err (mapping_error (''table '' @ rr_name relation) ''CREATE TABLE contains more than one PRIMARY KEY'')
         else if rr_parsed_table relation = None then Ok ()
         else
           (case (parsed_primary, raw_primary) of
              (parsed # _, _ # _) \<Rightarrow>
                try_with (resolve_named_columns (rr_name relation) (pc_columns parsed) column_keys) (\<lambda>parsed_columns.
                  if \<not> same_key_sequence parsed_columns raw_primary
                  then Err (mapping_error subject ''CREATE TABLE columns disagree with table_xinfo primary-key ordinals'')
                  else Ok ())
            | ([], []) \<Rightarrow> Ok ()
            | _ \<Rightarrow> Err (mapping_error subject ''CREATE TABLE and table_xinfo disagree about primary-key presence'')))"

definition map_primary_key ::
  "'e SqliteSnapshotMapper \<Rightarrow> RawRelation \<Rightarrow> ObjectKey \<Rightarrow> ObjectKey list \<Rightarrow> ConstraintMapState \<Rightarrow> ConstraintMapState" where
  "map_primary_key m relation table_key raw_primary st =
     (if raw_primary = [] then st
      else
        (let parsed = (case parsed_constraints relation ParsedPrimaryKey of [] \<Rightarrow> None | c # _ \<Rightarrow> Some c)
         in emit_constraint m (rr_name relation) table_key ConstraintKind.PrimaryKey (parsed_name parsed)
              (''pk_'' @ rr_name relation) (parsed_properties parsed) raw_primary None [] None st))"

text \<open>The first parsed constraint that was not matched before and that fits.\<close>

definition match_parsed ::
  "'e SqliteAdapterError \<Rightarrow> RawRelation \<Rightarrow> (ParsedConstraint \<Rightarrow> bool) \<Rightarrow> ParsedConstraint list \<Rightarrow> nat bset
    \<Rightarrow> ('e, ParsedConstraint option \<times> nat bset) sq_result" where
  "match_parsed err relation fits candidates matched =
     (if rr_parsed_table relation = None then Ok (None, matched)
      else
        (case find (\<lambda>(index, constraint). \<not> bs_contains matched index \<and> fits constraint) (enumerate 0 candidates) of
           None \<Rightarrow> Err err
         | Some (index, parsed) \<Rightarrow> Ok (Some parsed, bs_insert index matched)))"

definition map_unique ::
  "'e SqliteSnapshotMapper \<Rightarrow> RawRelation \<Rightarrow> ObjectKey \<Rightarrow> column_keys \<Rightarrow> nat \<times> RawIndex \<Rightarrow> ConstraintMapState \<times> nat bset
    \<Rightarrow> ('e, ConstraintMapState \<times> nat bset) sq_result" where
  "map_unique m relation table_key column_keys entry acc =
     (let (ordinal, raw_index) = entry; (st, matched) = acc
      in try_with (direct_index_column_names raw_index) (\<lambda>raw_columns.
         try_with (match_parsed
             (mapping_error (''unique index '' @ ri_name raw_index)
               ''index_xinfo columns do not match any parsed UNIQUE constraint'')
             relation (\<lambda>constraint. same_identifier_sequence (pc_columns constraint) raw_columns)
             (parsed_constraints relation ParsedUnique) matched) (\<lambda>(parsed, matched).
         try_with (resolve_named_columns (rr_name relation) raw_columns column_keys) (\<lambda>columns.
           Ok (emit_constraint m (rr_name relation) table_key Unique (parsed_name parsed)
                 (''uq_'' @ rr_name relation @ ''_'' @ show_nat (ordinal + 1))
                 (insert_string ''backing_index'' (ri_name raw_index) (parsed_properties parsed))
                 columns None [] None st, matched)))))"

definition map_check ::
  "'e SqliteSnapshotMapper \<Rightarrow> RawRelation \<Rightarrow> ObjectKey \<Rightarrow> relation_keys \<Rightarrow> column_keys \<Rightarrow> nat \<times> ParsedConstraint
    \<Rightarrow> ConstraintMapState \<Rightarrow> ('e, ConstraintMapState) sq_result" where
  "map_check m relation table_key table_keys column_keys entry st =
     (let (ordinal, parsed) = entry
      in try_with (ok_or (mapping_error (''check constraint on '' @ rr_name relation)
             ''parsed CHECK constraint has no expression'') (pc_expression parsed)) (\<lambda>expr.
         try_with (expression_dependencies m (rr_name relation) [expr] table_keys [] column_keys) (\<lambda>dependencies.
           (let columns = filter (own_column (rr_name relation)) dependencies
            in Ok (emit_constraint m (rr_name relation) table_key Check (pc_name parsed)
                 (''ck_'' @ rr_name relation @ ''_'' @ show_nat (ordinal + 1))
                 (pc_properties parsed) columns None [] (Some expr)
                 (st\<lparr>cns_check_dependency_count := cns_check_dependency_count st + length columns\<rparr>))))))"

definition map_foreign_key ::
  "'e SqliteSnapshotMapper \<Rightarrow> RawRelation \<Rightarrow> ObjectKey \<Rightarrow> relation_keys \<Rightarrow> column_keys \<Rightarrow> primary_key_columns
    \<Rightarrow> RawForeignKey \<Rightarrow> ConstraintMapState \<times> nat bset \<Rightarrow> ('e, ConstraintMapState \<times> nat bset) sq_result" where
  "map_foreign_key m relation table_key table_keys column_keys primary_key_columns raw acc =
     (let (st, matched) = acc
      in try_with (resolve_raw_foreign_key (rr_name relation) raw table_keys column_keys primary_key_columns) (\<lambda>mapped.
         try_with (match_parsed
             (mapping_error (''foreign key '' @ rr_name relation @ ''.'' @ show_int (rf_id raw))
               ''foreign_key_list does not match any parsed FOREIGN KEY constraint'')
             relation (\<lambda>parsed. parsed_foreign_key_matches parsed mapped raw)
             (parsed_constraints relation ParsedForeignKey) matched) (\<lambda>(parsed, matched).
           Ok (emit_constraint m (rr_name relation) table_key ConstraintKind.ForeignKey (parsed_name parsed)
                 (''fk_'' @ rr_name relation @ ''_'' @ show_int (rf_id raw))
                 (insert_string ''match'' (rf_match_name raw)
                   (insert_string ''on_delete'' (rf_on_delete raw)
                     (insert_string ''on_update'' (rf_on_update raw) (parsed_properties parsed))))
                 (rfk_source_columns mapped) (Some (rfk_referenced_table mapped)) (rfk_referenced_columns mapped)
                 None st, matched))))"

definition unique_indexes :: "RawRelation \<Rightarrow> RawIndex list \<Rightarrow> RawIndex list" where
  "unique_indexes relation raw_indexes =
     filter (\<lambda>index. ri_origin index = ''u'')
       (filter (\<lambda>index. same_identifier (ri_table_name index) (rr_name relation)) raw_indexes)"

definition map_constraints ::
  "'e SqliteSnapshotMapper \<Rightarrow> RawIndex list \<Rightarrow> (string, RawForeignKey list) btree \<Rightarrow> relation_keys \<Rightarrow> column_keys
    \<Rightarrow> primary_key_columns \<Rightarrow> RawRelation \<Rightarrow> ConstraintMapState \<Rightarrow> ('e, ConstraintMapState) sq_result" where
  "map_constraints m raw_indexes all_foreign_keys table_keys column_keys primary_key_columns relation acc =
     try_with (lookup_key table_keys (rr_name relation) ''table'') (\<lambda>table_key.
       (let raw_foreign_keys = (case bt_get all_foreign_keys (rr_name relation) of None \<Rightarrow> [] | Some keys \<Rightarrow> keys);
            raw_primary = (case bt_get primary_key_columns (fold_identifier (rr_name relation)) of
                             None \<Rightarrow> [] | Some columns \<Rightarrow> columns);
            raw_unique = unique_indexes relation raw_indexes;
            parsed_unique = parsed_constraints relation ParsedUnique;
            parsed_foreign_keys = parsed_constraints relation ParsedForeignKey
        in try_with (check_primary_key relation raw_primary column_keys) (\<lambda>_.
             (let st = map_primary_key m relation table_key raw_primary (acc\<lparr>cns_names := []\<rparr>)
              in if rr_parsed_table relation \<noteq> None \<and> length parsed_unique \<noteq> length raw_unique
                 then Err (mapping_error (''unique constraints on '' @ rr_name relation)
                   (''CREATE TABLE has '' @ show_nat (length parsed_unique)
                    @ '' UNIQUE constraint(s), but index_list reports '' @ show_nat (length raw_unique)))
                 else
                   try_with (try_fold (map_unique m relation table_key column_keys) (enumerate 0 raw_unique) (st, [])) (\<lambda>(st, _).
                   try_with (try_fold (map_check m relation table_key table_keys column_keys)
                       (enumerate 0 (parsed_constraints relation ParsedCheck)) st) (\<lambda>st.
                     if rr_parsed_table relation \<noteq> None \<and> length parsed_foreign_keys \<noteq> length raw_foreign_keys
                     then Err (mapping_error (''foreign keys on '' @ rr_name relation)
                       (''CREATE TABLE has '' @ show_nat (length parsed_foreign_keys)
                        @ '' FOREIGN KEY constraint(s), but foreign_key_list reports '' @ show_nat (length raw_foreign_keys)))
                     else
                       try_with (try_fold (map_foreign_key m relation table_key table_keys column_keys primary_key_columns)
                           raw_foreign_keys (st, [])) (\<lambda>(st, _). Ok st)))))))"

section \<open>Indexes\<close>

record TermMapState =
  tst_columns :: "ObjectKey list"
  tst_expression_terms :: "string list"
  tst_probe_expressions :: "string list"
  tst_direct_column_count :: nat

definition parsed_term :: "RawIndex \<Rightarrow> nat \<Rightarrow> ParsedIndexTerm option" where
  "parsed_term raw ordinal =
     (case ri_parsed raw of
        None \<Rightarrow> None
      | Some index \<Rightarrow> if ordinal < length (pid_terms index) then Some (pid_terms index ! ordinal) else None)"

definition push_expression :: "string \<Rightarrow> TermMapState \<Rightarrow> TermMapState" where
  "push_expression expression st =
     st\<lparr>tst_expression_terms := tst_expression_terms st @ [expression],
        tst_probe_expressions := tst_probe_expressions st @ [expression]\<rparr>"

definition map_index_term ::
  "RawIndex \<Rightarrow> column_keys \<Rightarrow> nat \<times> RawIndexTerm \<Rightarrow> TermMapState \<Rightarrow> ('e, TermMapState) sq_result" where
  "map_index_term raw column_keys entry st =
     (let (ordinal, term) = entry;
          parsed = parsed_term raw ordinal;
          subject = ''index '' @ ri_name raw
      in try_with
           (if rt_cid term \<ge> 0 then
              try_with (ok_or (mapping_error subject ''direct index term has no column name'') (rt_column_name term)) (\<lambda>column_name.
                if (case Option.bind parsed pit_column_name of
                      None \<Rightarrow> False | Some named \<Rightarrow> \<not> same_identifier named column_name)
                then Err (mapping_error subject ''CREATE INDEX term disagrees with index_xinfo column'')
                else
                  try_with (resolve_named_columns (ri_table_name raw) [column_name] column_keys) (\<lambda>columns.
                    Ok (st\<lparr>tst_columns := tst_columns st @ columns,
                          tst_direct_column_count := tst_direct_column_count st + 1\<rparr>)))
            else if rt_cid term = -2 then
              try_with (ok_or (mapping_error subject ''expression index term has no parsed CREATE INDEX expression'')
                  (map_option pit_expression parsed)) (\<lambda>expression. Ok (push_expression expression st))
            else
              Ok (push_expression (case parsed of None \<Rightarrow> ''rowid'' | Some t \<Rightarrow> pit_expression t) st))
           (\<lambda>st.
             case parsed of
               None \<Rightarrow> Ok st
             | Some t \<Rightarrow>
                 if (pit_order t = Some ''DESC'') \<noteq> rt_descending term
                 then Err (mapping_error (subject @ '' term '' @ show_nat (ordinal + 1))
                   ''CREATE INDEX ordering disagrees with index_xinfo'')
                 else Ok st))"

definition map_auxiliary_term ::
  "RawIndex \<Rightarrow> ObjectKey \<Rightarrow> column_keys \<Rightarrow> RawIndexTerm \<Rightarrow> string list \<times> CanonicalMetadata
    \<Rightarrow> ('e, string list \<times> CanonicalMetadata) sq_result" where
  "map_auxiliary_term raw index_key column_keys term acc =
     (let (auxiliary_columns, metadata) = acc; subject = ''index '' @ ri_name raw
      in try_with (ok_or (mapping_error subject ''auxiliary index term has no column name'') (rt_column_name term)) (\<lambda>column_name.
         try_with (resolve_named_columns (ri_table_name raw) [column_name] column_keys) (\<lambda>columns.
         try_with (ok_or (mapping_error subject ''auxiliary index column did not resolve'')
             (if columns = [] then None else Some (last columns))) (\<lambda>column_key.
           Ok (auxiliary_columns @ [column_name],
               push_relationship \<lparr>rel_kind = IncludesColumn, rel_from_key = index_key, rel_to_key = column_key,
                 rel_ordinal = Some (min (rt_sequence term + 1) u32_MAX),
                 rel_properties = insert_string ''role'' ''sqlite_auxiliary'' []\<rparr> metadata)))))"

definition index_properties :: "RawIndex \<Rightarrow> string list \<Rightarrow> Properties" where
  "index_properties raw auxiliary_columns =
     (let key_terms = filter rt_key (ri_terms raw);
          props = insert_string ''origin'' (ri_origin raw) [];
          props = bt_insert ''partial'' (Boolean (ri_partial raw)) props;
          props = bt_insert ''term_collations'' (StringList (map (\<lambda>term.
            case rt_collation term of None \<Rightarrow> [] | Some c \<Rightarrow> c) key_terms)) props;
          props = bt_insert ''term_orders'' (StringList (map (\<lambda>term.
            if rt_descending term then ''DESC'' else ''ASC'') key_terms)) props;
          props = (case ri_parsed raw of
                     None \<Rightarrow> props
                   | Some parsed \<Rightarrow> bt_insert ''term_nulls'' (StringList (map (\<lambda>term.
                       case pit_nulls term of None \<Rightarrow> [] | Some n \<Rightarrow> n) (pid_terms parsed))) props)
      in if auxiliary_columns = [] then props
         else bt_insert ''auxiliary_columns'' (StringList auxiliary_columns) props)"

record IndexMapState =
  ist_indexes :: "IndexObject list"
  ist_direct_column_count :: nat
  ist_metadata :: CanonicalMetadata

definition map_index ::
  "'e SqliteSnapshotMapper \<Rightarrow> relation_keys \<Rightarrow> column_keys \<Rightarrow> RawIndex \<Rightarrow> IndexMapState \<Rightarrow> ('e, IndexMapState) sq_result" where
  "map_index m table_keys column_keys raw st =
     try_with (lookup_key table_keys (ri_table_name raw) ''index table'') (\<lambda>table_key.
       (let index_key = mapper_key m Index (ri_table_name raw) (Some (ri_name raw));
            predicate = Option.bind (ri_parsed raw) pid_predicate
        in try_with (try_fold (map_index_term raw column_keys) (enumerate 0 (filter rt_key (ri_terms raw)))
               \<lparr>tst_columns = [], tst_expression_terms = [], tst_probe_expressions = [],
                 tst_direct_column_count = ist_direct_column_count st\<rparr>) (\<lambda>terms.
             (let probe_expressions = tst_probe_expressions terms @ (case predicate of None \<Rightarrow> [] | Some p \<Rightarrow> [p])
              in try_with (expression_dependencies m (ri_table_name raw) probe_expressions table_keys [] column_keys) (\<lambda>dependencies.
                 try_with (try_fold (map_auxiliary_term raw index_key column_keys)
                     (filter (\<lambda>term. \<not> rt_key term \<and> rt_cid term \<ge> 0) (ri_terms raw))
                     ([], fold (\<lambda>dependency. push_relationship (depends_on index_key [] dependency)) dependencies
                            (ist_metadata st))) (\<lambda>(auxiliary_columns, metadata).
                   Ok (st\<lparr>ist_indexes := ist_indexes st @ [\<lparr>idx_key = index_key, idx_table_key = table_key,
                            idx_name = ri_name raw, idx_columns = tst_columns terms, idx_is_unique = ri_unique raw,
                            idx_is_primary = (ri_origin raw = ''pk''), idx_predicate = predicate,
                            idx_expression = (if tst_expression_terms terms = [] then None
                                              else Some (join_with '', '' (tst_expression_terms terms)))\<rparr>],
                          ist_direct_column_count := tst_direct_column_count terms,
                          ist_metadata := push_annotation_if_needed index_key (ri_sql raw)
                            (index_properties raw auxiliary_columns) metadata\<rparr>)))))))"

definition map_indexes ::
  "'e SqliteSnapshotMapper \<Rightarrow> RawIndex list \<Rightarrow> relation_keys \<Rightarrow> column_keys \<Rightarrow> CanonicalMetadata \<Rightarrow> ('e, IndexMapState) sq_result" where
  "map_indexes m raw_indexes table_keys column_keys metadata =
     try_fold (map_index m table_keys column_keys) raw_indexes
       \<lparr>ist_indexes = [], ist_direct_column_count = 0, ist_metadata = metadata\<rparr>"

definition direct_index_columns :: "RawIndex list \<Rightarrow> nat" where
  "direct_index_columns indexes =
     length (filter (\<lambda>term. rt_key term \<and> rt_cid term \<ge> 0) (concat (map ri_terms indexes)))"

section \<open>Views and triggers\<close>

record ViewMapState =
  vst_views :: "ViewObject list"
  vst_metadata :: CanonicalMetadata
  vst_dependency_count :: nat

definition map_view ::
  "'e SqliteSnapshotMapper \<Rightarrow> relation_keys \<Rightarrow> relation_keys \<Rightarrow> column_keys \<Rightarrow> RawRelation \<Rightarrow> ViewMapState
    \<Rightarrow> ('e, ViewMapState) sq_result" where
  "map_view m table_keys view_keys column_keys relation st =
     try_with (lookup_key view_keys (rr_name relation) ''view'') (\<lambda>owner_key.
     try_with (view_dependencies m relation table_keys view_keys column_keys) (\<lambda>discovered.
       (let dependencies = filter (\<lambda>dependency. ok_object_kind dependency \<noteq> ViewColumn) discovered;
            metadata = fold (\<lambda>dependency. push_relationship (depends_on owner_key [] dependency))
              (filter (\<lambda>dependency. ok_object_kind dependency = ViewColumn) discovered) (vst_metadata st)
        in Ok (st\<lparr>vst_views := vst_views st @ [\<lparr>view_key = owner_key,
                    view_schema_key = mapper_key m Schema MAIN_SCHEMA None, view_name = rr_name relation,
                    view_definition = rr_sql relation, view_depends_on = dependencies\<rparr>],
                  vst_metadata := metadata,
                  vst_dependency_count := vst_dependency_count st + length dependencies\<rparr>))))"

definition trigger_probe_sql :: "RawTrigger \<Rightarrow> RawRelation \<Rightarrow> ('e, string) sq_result" where
  "trigger_probe_sql trigger owner =
     (let owner_name = quote_identifier (rr_name owner);
          event = ptr_event (rg_parsed trigger);
          subject = ''trigger '' @ rg_name trigger
      in if event = ''INSERT'' then Ok (''EXPLAIN INSERT INTO '' @ owner_name @ '' DEFAULT VALUES'')
         else if event = ''DELETE'' then Ok (''EXPLAIN DELETE FROM '' @ owner_name @ '' WHERE 0'')
         else if event = ''UPDATE'' then
           try_with (ok_or (mapping_error subject
               ''cannot prepare an UPDATE event for an owner with no writable columns'')
             (case ptr_update_columns (rg_parsed trigger) of
                column # _ \<Rightarrow> Some column
              | [] \<Rightarrow> map_option rc_name (find (\<lambda>column. \<not> is_generated column) (rr_columns owner)))) (\<lambda>column_name.
             if \<not> list_ex (\<lambda>column. same_identifier (rc_name column) column_name) (rr_columns owner)
             then Err (mapping_error subject
               (''UPDATE OF column '' @ [CHR 0x27] @ column_name @ [CHR 0x27] @ '' is not present on the owner''))
             else Ok (''EXPLAIN UPDATE '' @ owner_name @ '' SET '' @ quote_identifier column_name @ '' = ''
                    @ quote_identifier column_name @ '' WHERE 0''))
         else Err (mapping_error subject (''unsupported parsed trigger event '' @ [CHR 0x27] @ event @ [CHR 0x27])))"

definition update_column_keys :: "RawTrigger \<Rightarrow> column_keys \<Rightarrow> ('e, ObjectKey list) sq_result" where
  "update_column_keys raw column_keys =
     collect_results (map (\<lambda>update_column.
       ok_or (mapping_error (''trigger '' @ rg_name raw)
         (''UPDATE OF column '' @ [CHR 0x27] @ update_column @ [CHR 0x27] @ '' is not present on trigger owner''))
       (bt_get column_keys (fold_identifier (rg_owner_name raw), fold_identifier update_column)))
       (ptr_update_columns (rg_parsed raw)))"

definition trigger_properties :: "ParsedTriggerDefinition \<Rightarrow> Properties" where
  "trigger_properties parsed =
     (let props = (if ptr_update_columns parsed = [] then []
                   else bt_insert ''update_columns'' (StringList (ptr_update_columns parsed)) [])
      in case ptr_when_expression parsed of
           None \<Rightarrow> props | Some expression \<Rightarrow> insert_string ''when_expression'' expression props)"

definition relation_by_name :: "RawRelation list \<Rightarrow> (string, RawRelation) btree" where
  "relation_by_name relations =
     fold (\<lambda>relation. bt_insert (fold_identifier (rr_name relation)) relation) relations []"

definition map_trigger ::
  "'e SqliteSnapshotMapper \<Rightarrow> RawRelation list \<Rightarrow> relation_keys \<Rightarrow> relation_keys \<Rightarrow> column_keys \<Rightarrow> RawTrigger
    \<Rightarrow> TriggerObject list \<times> CanonicalMetadata \<Rightarrow> ('e, TriggerObject list \<times> CanonicalMetadata) sq_result" where
  "map_trigger m relations table_keys view_keys column_keys raw acc =
     (let (triggers, metadata) = acc;
          subject = ''trigger '' @ rg_name raw;
          trigger_key = mapper_key m Trigger (rg_owner_name raw) (Some (rg_name raw))
      in try_with (ok_or (mapping_error subject ''trigger owner is absent from the selected relation inventory'')
             (relation_key table_keys view_keys (fold_identifier (rg_owner_name raw)))) (\<lambda>owner.
         try_with (ok_or (mapping_error subject ''trigger owner metadata is unavailable'')
             (bt_get (relation_by_name relations) (fold_identifier (rg_owner_name raw)))) (\<lambda>owner_relation.
         try_with (trigger_probe_sql raw owner_relation) (\<lambda>probe_sql.
         try_with (capture_prepare_accesses (sm_conn m) probe_sql (ExactAccessor (rg_name raw))) (\<lambda>accesses.
         try_with (map_accesses accesses table_keys view_keys column_keys) (\<lambda>accessed.
         try_with (update_column_keys raw column_keys) (\<lambda>update_columns.
           (let metadata = fold (\<lambda>dependency. push_relationship
                  (depends_on trigger_key (insert_string ''access'' ''trigger_prepare'' []) dependency))
                  (deduplicate_keys (accessed @ update_columns)) metadata
            in Ok (triggers @ [\<lparr>trg_key = trigger_key, trg_table_key = owner, trg_name = rg_name raw,
                     trg_timing = Some (ptr_timing (rg_parsed raw)), trg_events = [ptr_event (rg_parsed raw)],
                     trg_definition = Some (rg_sql raw), trg_executes_routine_key = None\<rparr>],
                   push_annotation_if_needed trigger_key None (trigger_properties (rg_parsed raw)) metadata)))))))))"

section \<open>Counts\<close>

definition set_object_count :: "ObjectCategory \<Rightarrow> nat \<Rightarrow> string \<Rightarrow> DiscoveryCounts \<Rightarrow> DiscoveryCounts" where
  "set_object_count category n evidence counts =
     counts\<lparr>dis_objects := bt_insert category \<lparr>dsc_count = n, dsc_evidence = evidence\<rparr> (dis_objects counts)\<rparr>"

definition set_relationship_count :: "RelationshipCategory \<Rightarrow> nat \<Rightarrow> string \<Rightarrow> DiscoveryCounts \<Rightarrow> DiscoveryCounts" where
  "set_relationship_count category n evidence counts =
     counts\<lparr>dis_relationships := bt_insert category \<lparr>dsc_count = n, dsc_evidence = evidence\<rparr> (dis_relationships counts)\<rparr>"

text \<open>The evidence of each count: where the code read it, and one sentence for the categories SQLite does not have.\<close>

definition NO_OBJECTS :: string where
  "NO_OBJECTS = ''SQLite selected schema has no persisted object in this vendor category''"

definition NO_RELATIONSHIPS :: string where
  "NO_RELATIONSHIPS = ''SQLite selected schema has no relationship in this vendor category''"

fun object_evidence :: "ObjectCategory \<Rightarrow> string" where
  "object_evidence CatDatabase =
     ''PRAGMA database_list within the certified main-only scope''"
| "object_evidence CatSchema =
     ''SQLite main catalog maps to one canonical main schema''"
| "object_evidence CatTable =
     ''PRAGMA main.table_list table/virtual/shadow rows excluding sqlite_*''"
| "object_evidence CatColumn =
     ''Sum of PRAGMA main.table_xinfo rows for selected tables''"
| "object_evidence CatViewColumn =
     ''Sum of PRAGMA main.table_xinfo rows for selected views''"
| "object_evidence CatPrimaryKey =
     ''Distinct selected tables with table_xinfo pk ordinals''"
| "object_evidence CatForeignKey =
     ''Distinct ids returned by PRAGMA main.foreign_key_list per table''"
| "object_evidence CatUniqueConstraint =
     ''PRAGMA main.index_list rows with origin='' @ [CHR 0x27] @ ''u'' @ [CHR 0x27]"
| "object_evidence CatCheckConstraint =
     ''CHECK clauses parsed from every persisted CREATE TABLE definition''"
| "object_evidence CatIndex =
     ''All PRAGMA main.index_list rows for selected tables''"
| "object_evidence CatView =
     ''PRAGMA main.table_list rows with type='' @ [CHR 0x27] @ ''view'' @ [CHR 0x27] @ '' excluding sqlite_*''"
| "object_evidence CatTrigger =
     ''sqlite_schema trigger rows excluding sqlite_*''"
| "object_evidence _ = NO_OBJECTS"

fun relationship_evidence :: "RelationshipCategory \<Rightarrow> string" where
  "relationship_evidence DatabaseHasSchema =
     ''Canonical SQLite main catalog-to-schema mapping''"
| "relationship_evidence SchemaHasTable =
     ''Selected PRAGMA table_list table/virtual/shadow rows''"
| "relationship_evidence TableHasColumn =
     ''PRAGMA table_xinfo rows whose owner is a selected table''"
| "relationship_evidence TableHasConstraint =
     ''Reconciled table_xinfo, foreign_key_list, index_list origin, and parsed CHECK inventory''"
| "relationship_evidence ConstraintColumn =
     ''PK/UQ catalog ordinals plus prepare-authorizer CHECK column reads''"
| "relationship_evidence ForeignKeyColumnPair =
     ''Rows returned by PRAGMA foreign_key_list''"
| "relationship_evidence TableHasIndex =
     ''PRAGMA index_list rows attached to selected tables''"
| "relationship_evidence IndexColumn =
     ''PRAGMA index_xinfo key terms with non-negative column ids''"
| "relationship_evidence SchemaHasView =
     ''Selected PRAGMA table_list view rows''"
| "relationship_evidence ViewDependency =
     ''SQLite prepare authorizer reads while selecting every output column from each view''"
| "relationship_evidence TriggerTarget =
     ''sqlite_schema trigger tbl_name ownership''"
| "relationship_evidence MetadataParent =
     ''PRAGMA table_xinfo output columns parented by selected views''"
| "relationship_evidence CatMetadataRelationship =
     ''Deduplicated SQLite authorizer expression/trigger dependencies and index auxiliary terms''"
| "relationship_evidence _ = NO_RELATIONSHIPS"

declare object_evidence.simps [simp del] and relationship_evidence.simps [simp del]

definition no_counts :: DiscoveryCounts where
  "no_counts =
     \<lparr>dis_objects = fold (\<lambda>category. bt_insert category \<lparr>dsc_count = 0,
        dsc_evidence = NO_OBJECTS\<rparr>) object_categories [],
      dis_relationships = fold (\<lambda>category. bt_insert category \<lparr>dsc_count = 0,
        dsc_evidence = NO_RELATIONSHIPS\<rparr>) relationship_categories []\<rparr>"

definition table_relations :: "RawSqliteCatalog \<Rightarrow> RawRelation list" where
  "table_relations raw = filter (\<lambda>relation. is_table (rr_kind relation)) (rcat_relations raw)"

definition view_relations :: "RawSqliteCatalog \<Rightarrow> RawRelation list" where
  "view_relations raw = filter (\<lambda>relation. rr_kind relation = ViewRelation) (rcat_relations raw)"

definition in_primary_key :: "RawColumn \<Rightarrow> bool" where
  "in_primary_key column = (rc_primary_key_position column > 0)"

definition unique_backing :: "RawSqliteCatalog \<Rightarrow> RawIndex list" where
  "unique_backing raw = filter (\<lambda>index. ri_origin index = ''u'') (rcat_indexes raw)"

definition parsed_checks :: "RawSqliteCatalog \<Rightarrow> ParsedConstraint list" where
  "parsed_checks raw =
     filter (\<lambda>constraint. pc_kind constraint = ParsedCheck)
       (concat (map ptd_constraints (List.map_filter rr_parsed_table (rcat_relations raw))))"

definition discovery_counts :: "RawSqliteCatalog \<Rightarrow> nat \<Rightarrow> nat \<Rightarrow> nat \<Rightarrow> DiscoveryCounts" where
  "discovery_counts raw check_dependency_count view_dependency_count metadata_relationship_count =
     (let tables = length (table_relations raw);
          views = length (view_relations raw);
          columns = sum_list (map (\<lambda>relation. length (rr_columns relation)) (rcat_relations raw));
          table_columns = sum_list (map (\<lambda>relation. length (rr_columns relation)) (table_relations raw));
          view_columns = columns - table_columns;
          primary_keys = length (filter (\<lambda>relation.
            is_table (rr_kind relation) \<and> list_ex in_primary_key (rr_columns relation)) (rcat_relations raw));
          primary_key_columns = length (filter in_primary_key (concat (map rr_columns (table_relations raw))));
          foreign_keys = sum_list (map length (bt_values (rcat_foreign_keys raw)));
          foreign_key_pairs = sum_list (map (\<lambda>key. length (rf_parts key)) (concat (bt_values (rcat_foreign_keys raw))));
          unique_constraints = length (unique_backing raw);
          unique_columns = length (filter rt_key (concat (map ri_terms (unique_backing raw))));
          check_constraints = length (parsed_checks raw);
          index_columns = direct_index_columns (rcat_indexes raw);
          objects =
            [(CatDatabase, length (rcat_database_names raw)),
             (CatSchema, 1),
             (CatTable, tables),
             (CatColumn, table_columns),
             (CatViewColumn, view_columns),
             (CatPrimaryKey, primary_keys),
             (CatForeignKey, foreign_keys),
             (CatUniqueConstraint, unique_constraints),
             (CatCheckConstraint, check_constraints),
             (CatIndex, length (rcat_indexes raw)),
             (CatView, views),
             (CatTrigger, length (rcat_triggers raw))];
          relationships =
            [(DatabaseHasSchema, 1),
             (SchemaHasTable, tables),
             (TableHasColumn, table_columns),
             (TableHasConstraint, primary_keys + foreign_keys + unique_constraints + check_constraints),
             (ConstraintColumn, primary_key_columns + unique_columns + check_dependency_count),
             (ForeignKeyColumnPair, foreign_key_pairs),
             (TableHasIndex, length (rcat_indexes raw)),
             (IndexColumn, index_columns),
             (SchemaHasView, views),
             (ViewDependency, view_dependency_count),
             (TriggerTarget, length (rcat_triggers raw)),
             (MetadataParent, view_columns),
             (CatMetadataRelationship, metadata_relationship_count)];
          counts = fold (\<lambda>(category, n). set_object_count category n (object_evidence category)) objects no_counts
      in fold (\<lambda>(category, n). set_relationship_count category n (relationship_evidence category)) relationships counts)"

section \<open>The snapshot\<close>

definition capability_checks_of :: "RawSqliteCatalog \<Rightarrow> CapabilityCheck list" where
  "capability_checks_of raw =
     [\<lparr>chk_name = ''catalog_scope'', chk_evidence = ''PRAGMA database_list returned ['' @ join_with '', '' (rcat_database_names raw)
         @ '']; selected main schema at schema_version '' @ show_int (rcat_schema_version raw)\<rparr>,
      \<lparr>chk_name = ''metadata_only'', chk_evidence = ''Inventory came from sqlite_schema/table_list/table_xinfo/index_list/index_xinfo/foreign_key_list; dependency probes only prepared EXPLAIN statements and never stepped them''\<rparr>,
      \<lparr>chk_name = ''routines_absent'', chk_evidence = ''SQLite has no persisted schema routine catalog; connection-local functions are outside the selected database schema''\<rparr>,
      \<lparr>chk_name = ''sql_grammar'', chk_evidence = ''Every persisted CREATE TABLE, CREATE INDEX, and CREATE TRIGGER definition requiring semantic mapping was parsed with sqlite3-parser 0.17.0''\<rparr>,
      \<lparr>chk_name = ''system_scope'', chk_evidence = ''SQLite-owned names beginning with sqlite_ were excluded consistently from inventory and count probes''\<rparr>]"

definition sqlite_capabilities :: "'e SqliteSnapshotMapper \<Rightarrow> AdapterCapabilities" where
  "sqlite_capabilities m =
     \<lparr>cap_source_kind = sm_snapshot_source_kind m, cap_metadata_only = True, cap_schemas = True, cap_tables = True,
       cap_columns = True, cap_constraints = True, cap_indexes = True, cap_views = Supported, cap_triggers = Supported,
       cap_routines = Supported, cap_dependencies = Supported, cap_limitations = [], cap_notes = sm_notes m\<rparr>"

definition map_catalog ::
  "string \<Rightarrow> 'e SqliteSnapshotMapper \<Rightarrow> RawSqliteCatalog \<Rightarrow> ('e, CatalogDiscovery) sq_result" where
  "map_catalog pkg_version m raw =
     (let database_key = mapper_key m Database MAIN_CATALOG None;
          schema_key = mapper_key m Schema MAIN_SCHEMA None;
          (tables, table_keys, view_keys) = fold (map_relation m) (rcat_relations raw) ([], [], [])
      in try_with (try_fold (map_relation_columns m table_keys view_keys) (rcat_relations raw)
             \<lparr>cst_columns = [], cst_metadata = default_metadata, cst_column_keys = [], cst_primary_key_columns = []\<rparr>) (\<lambda>cols.
           (let column_keys = cst_column_keys cols
            in try_with (map_generated_dependencies m (rcat_relations raw) table_keys column_keys (cst_metadata cols)) (\<lambda>metadata.
               try_with (try_fold (map_constraints m (rcat_indexes raw) (rcat_foreign_keys raw) table_keys column_keys
                     (cst_primary_key_columns cols)) (table_relations raw)
                   \<lparr>cns_names = [], cns_constraints = [], cns_metadata = metadata, cns_check_dependency_count = 0\<rparr>) (\<lambda>cons.
               try_with (map_indexes m (rcat_indexes raw) table_keys column_keys (cns_metadata cons)) (\<lambda>idx.
                 if ist_direct_column_count idx \<noteq> direct_index_columns (rcat_indexes raw)
                 then Err (mapping_error ''index column reconciliation''
                   (''index_xinfo discovered '' @ show_nat (direct_index_columns (rcat_indexes raw))
                    @ '' direct key column(s), but mapper emitted '' @ show_nat (ist_direct_column_count idx)))
                 else
                   try_with (try_fold (map_view m table_keys view_keys column_keys) (view_relations raw)
                       \<lparr>vst_views = [], vst_metadata = ist_metadata idx, vst_dependency_count = 0\<rparr>) (\<lambda>views.
                   try_with (try_fold (map_trigger m (rcat_relations raw) table_keys view_keys column_keys) (rcat_triggers raw)
                       ([], vst_metadata views)) (\<lambda>(triggers, metadata).
                     (let metadata = metadata\<lparr>md_relationships :=
                            deduplicate_metadata_relationships (md_relationships metadata)\<rparr>;
                          schema = \<lparr>snap_source_kind = sm_snapshot_source_kind m,
                            snap_connection_alias = sm_connection_alias m,
                            snap_database = \<lparr>db_key = database_key, db_name = MAIN_CATALOG\<rparr>,
                            snap_schemas = [\<lparr>sch_key = schema_key, sch_database_key = database_key, sch_name = MAIN_SCHEMA\<rparr>],
                            snap_tables = tables, snap_columns = cst_columns cols,
                            snap_constraints = cns_constraints cons, snap_indexes = ist_indexes idx,
                            snap_views = vst_views views, snap_triggers = triggers, snap_routines = [],
                            snap_capabilities = sqlite_capabilities m\<rparr>
                      in Ok \<lparr>cdi_snapshot = \<lparr>can_schema = schema, can_metadata = metadata\<rparr>,
                             cdi_adapter = \<lparr>adp_name = ''database-memory-sqlite'', adp_version = pkg_version\<rparr>,
                             cdi_server = \<lparr>srv_product = ''SQLite'', srv_version = rcat_sqlite_version raw\<rparr>,
                             cdi_scope = \<lparr>sco_catalogs = [MAIN_CATALOG], sco_schemas = [MAIN_SCHEMA]\<rparr>,
                             cdi_discovered_counts = discovery_counts raw (cns_check_dependency_count cons)
                               (vst_dependency_count views) (length (md_relationships metadata)),
                             cdi_capability_checks = capability_checks_of raw\<rparr>)))))))))"

end
