(* ===== verification/Sqlite_Adapter.thy ===== *)
theory Sqlite_Adapter
  imports Sqlite_Map Rust_Path
begin

text \<open>
  The entry points of the SQLite adapter: \<open>adapters/sqlite.rs\<close> and the first part of \<open>adapters/sqlite_catalog.rs\<close>.
  The driver that opens a file is a parameter, as is the version of the package.
\<close>

section \<open>Discovery on a connection\<close>

record surroundings =
  sur_parser :: sql_parser
  sur_show_expr :: "Expr \<Rightarrow> string"
  sur_pkg_version :: string

definition discover_sqlite_connection ::
  "surroundings \<Rightarrow> 'e SqliteConnection \<Rightarrow> string \<Rightarrow> string \<Rightarrow> string \<Rightarrow> string list \<Rightarrow> ('e, CatalogDiscovery) sq_result" where
  "discover_sqlite_connection sur conn snapshot_source_kind object_source_kind connection_alias notes =
     try_with (map_err StorageError (sq_begin conn)) (\<lambda>_.
     try_with (read_catalog conn (sur_parser sur) (sur_show_expr sur)) (\<lambda>raw.
     try_with (map_catalog (sur_pkg_version sur)
         \<lparr>sm_conn = conn, sm_snapshot_source_kind = snapshot_source_kind, sm_object_source_kind = object_source_kind,
           sm_connection_alias = connection_alias, sm_notes = notes\<rparr> raw) (\<lambda>discovery.
     try_with (map_err StorageError (sq_commit conn)) (\<lambda>_. Ok discovery))))"

definition certify_discovery :: "CatalogDiscovery \<Rightarrow> (CertificationError, CertifiedSchemaSnapshot) result" where
  "certify_discovery discovery = certify discovery"

definition FILE_NOTE :: string where
  "FILE_NOTE = ''SQLite file opened read-only; only sqlite_schema and PRAGMA metadata were read.''"

definition DDL_NOTE :: string where
  "DDL_NOTE = ''SQLite DDL source applies migration files to an isolated in-memory database, then reads catalog metadata only.''"

definition introspect_sqlite_ddl_connection ::
  "surroundings \<Rightarrow> 'e SqliteConnection \<Rightarrow> string \<Rightarrow> ('e, SchemaSnapshot) sq_result" where
  "introspect_sqlite_ddl_connection sur conn connection_alias =
     try_with (discover_sqlite_connection sur conn ''ddl-sqlite'' ''sqlite'' connection_alias [DDL_NOTE]) (\<lambda>discovery.
       Ok (can_schema (cdi_snapshot discovery)))"

definition introspect_sqlite_ddl_connection_complete ::
  "surroundings \<Rightarrow> 'e SqliteConnection \<Rightarrow> string \<Rightarrow> ('e, CertifiedSchemaSnapshot) sq_result" where
  "introspect_sqlite_ddl_connection_complete sur conn connection_alias =
     try_with (discover_sqlite_connection sur conn ''ddl-sqlite'' ''sqlite'' connection_alias [DDL_NOTE]) (\<lambda>discovery.
       map_err CertificationFailed (certify_discovery discovery))"

section \<open>Failures\<close>

record 'e SqliteDriver =
  drv_open :: "path \<Rightarrow> ('e, 'e SqliteConnection) result"
  drv_busy_timeout :: "nat \<Rightarrow> ('e, unit) result"
  drv_query_only :: "('e, unit) result"
  drv_interrupted :: "'e \<Rightarrow> bool"
  drv_show_error :: "'e \<Rightarrow> string"

definition MAX_INTROSPECTION_TIMEOUT_MS :: nat where "MAX_INTROSPECTION_TIMEOUT_MS = 86400000"

definition validate_sqlite_scope :: "IntrospectionRequest \<Rightarrow> unit attempt" where
  "validate_sqlite_scope request =
     (let catalogs_are_valid = (irq_requested_catalogs request = [] \<or> irq_requested_catalogs request = [MAIN_CATALOG]);
          schemas_are_valid = (irq_requested_schemas request = [] \<or> irq_requested_schemas request = [MAIN_SCHEMA])
      in if catalogs_are_valid \<and> schemas_are_valid then
           if irq_timeout_ms request \<le> MAX_INTROSPECTION_TIMEOUT_MS then Some (Ok ())
           else fail_with (redacted InvalidConfiguration Configuration SQLITE_SOURCE (irq_connection_alias request)
             (''SQLite introspection timeout exceeds the '' @ show_nat MAX_INTROSPECTION_TIMEOUT_MS @ '' ms safety limit'')
             ''choose a timeout between 1 ms and 86400000 ms'' False None)
         else fail_with (redacted InvalidConfiguration Configuration SQLITE_SOURCE (irq_connection_alias request)
           ''SQLite certified introspection supports the main catalog/schema only''
           (''request catalog '' @ [CHR 0x27] @ ''main'' @ [CHR 0x27] @ '' and schema '' @ [CHR 0x27] @ ''main'' @ [CHR 0x27])
           False None))"

fun failure_class :: "'e SqliteAdapterError \<Rightarrow> AnalysisFailureCode \<times> AnalysisStage \<times> string" where
  "failure_class (StorageError _) =
     (MetadataQueryFailed, Discovery, ''verify that the SQLite file is readable and retry'')"
| "failure_class (ParseError _ _) =
     (UnsupportedMetadata, Mapping, ''use a supported SQLite schema construct or upgrade the adapter parser'')"
| "failure_class (MappingError _ _) =
     (MetadataMappingFailed, Mapping, ''repair the inconsistent schema metadata and retry'')"
| "failure_class (CertificationFailed _) =
     (ValidationFailed, Validation, ''inspect the completeness evidence and repair the adapter mapping'')"

fun interrupted :: "'e SqliteDriver \<Rightarrow> 'e SqliteAdapterError \<Rightarrow> bool" where
  "interrupted drv (StorageError err) = drv_interrupted drv err"
| "interrupted drv _ = False"

definition sqlite_failure ::
  "'e SqliteDriver \<Rightarrow> IntrospectionRequest \<Rightarrow> CancellationToken \<Rightarrow> 'e SqliteAdapterError \<Rightarrow> AnalysisFailure option" where
  "sqlite_failure drv request token err =
     (if interrupted drv err then
        (if is_cancelled token
         then redacted Cancelled Discovery SQLITE_SOURCE (irq_connection_alias request)
           ''SQLite metadata introspection was cancelled'' ''start a new analysis when the result is still needed'' True None
         else redacted Timeout Discovery SQLITE_SOURCE (irq_connection_alias request)
           ''SQLite metadata introspection exceeded its configured timeout''
           ''increase the bounded timeout or reduce schema complexity, then retry'' True None)
      else
        (let (code, stage, remediation) = failure_class err
         in redacted code stage SQLITE_SOURCE (irq_connection_alias request)
              (sqlite_error_to_string (drv_show_error drv) err) remediation False None))"

definition sqlite_open_failure :: "'e SqliteDriver \<Rightarrow> IntrospectionRequest \<Rightarrow> 'e \<Rightarrow> AnalysisFailure option" where
  "sqlite_open_failure drv request err =
     redacted ConnectionFailed ConnectionStage SQLITE_SOURCE (irq_connection_alias request) (drv_show_error drv err)
       ''verify that the SQLite file exists and is readable, then retry'' True None"

definition sqlite_capability_failure :: "'e SqliteDriver \<Rightarrow> IntrospectionRequest \<Rightarrow> 'e \<Rightarrow> AnalysisFailure option" where
  "sqlite_capability_failure drv request err =
     redacted PermissionDenied CapabilityProbe SQLITE_SOURCE (irq_connection_alias request) (drv_show_error drv err)
       ''allow read-only query_only metadata access and retry'' False None"

section \<open>Discovery on a file\<close>

definition attempt_of :: "('e \<Rightarrow> AnalysisFailure option) \<Rightarrow> ('e, 'a) result \<Rightarrow> 'a attempt" where
  "attempt_of f r = (case r of Inl err \<Rightarrow> fail_with (f err) | Inr x \<Rightarrow> Some (Ok x))"

text \<open>The adapter looks at the token three times: on entry, when the connection is open (where another
  thread may have cancelled meanwhile), and to tell a cancellation from a timeout.\<close>

definition discover_sqlite_path ::
  "surroundings \<Rightarrow> 'e SqliteDriver \<Rightarrow> path \<Rightarrow> bool \<Rightarrow> IntrospectionRequest \<Rightarrow> (Checkpoint \<Rightarrow> bool) \<Rightarrow> CancellationToken
    \<Rightarrow> CatalogDiscovery attempt \<times> CancellationToken" where
  "discover_sqlite_path sur drv p while_connecting request others token =
     (let alias = irq_connection_alias request;
          entered = interleave others BeforeDiscovery token;
          connected = (if while_connecting then cancel entered else entered);
          after = interleave others AfterDiscovery connected
      in (attempt_with (checkpoint entered SQLITE_SOURCE alias Configuration) (\<lambda>_.
          attempt_with (validate_sqlite_scope request) (\<lambda>_.
          attempt_with (attempt_of (sqlite_open_failure drv request) (drv_open drv p)) (\<lambda>conn.
          attempt_with (checkpoint connected SQLITE_SOURCE alias ConnectionStage) (\<lambda>_.
          attempt_with (attempt_of (sqlite_failure drv request after)
            (map_err StorageError (drv_busy_timeout drv (irq_timeout_ms request)))) (\<lambda>_.
          attempt_with (attempt_of (sqlite_capability_failure drv request) (drv_query_only drv)) (\<lambda>_.
            attempt_of (sqlite_failure drv request after)
              (discover_sqlite_connection sur conn SQLITE_SOURCE SQLITE_SOURCE alias [FILE_NOTE]))))))),
          after))"

definition sqlite_path_adapter :: "surroundings \<Rightarrow> 'e SqliteDriver \<Rightarrow> path \<Rightarrow> bool \<Rightarrow> CatalogIntrospector" where
  "sqlite_path_adapter sur drv p while_connecting =
     \<lparr>cai_source_kind = SQLITE_SOURCE, cai_discover = discover_sqlite_path sur drv p while_connecting\<rparr>"

definition analyze_sqlite_path_scoped_with_cancellation ::
  "surroundings \<Rightarrow> 'e SqliteDriver \<Rightarrow> path \<Rightarrow> string \<Rightarrow> string list \<Rightarrow> string list \<Rightarrow> nat
    \<Rightarrow> bool \<Rightarrow> (Checkpoint \<Rightarrow> bool) \<Rightarrow> CancellationToken \<Rightarrow> AnalysisOutcome option" where
  "analyze_sqlite_path_scoped_with_cancellation sur drv p connection_alias catalogs schemas timeout_ms
      while_connecting others token =
     analyze_with_cancellation (sqlite_path_adapter sur drv p while_connecting)
       \<lparr>irq_connection_alias = connection_alias, irq_requested_catalogs = catalogs, irq_requested_schemas = schemas,
         irq_timeout_ms = timeout_ms\<rparr> others token"

definition analyze_sqlite_path_with_cancellation ::
  "surroundings \<Rightarrow> 'e SqliteDriver \<Rightarrow> path \<Rightarrow> string \<Rightarrow> bool \<Rightarrow> (Checkpoint \<Rightarrow> bool) \<Rightarrow> CancellationToken
    \<Rightarrow> AnalysisOutcome option" where
  "analyze_sqlite_path_with_cancellation sur drv p connection_alias while_connecting others token =
     analyze_sqlite_path_scoped_with_cancellation sur drv p connection_alias [MAIN_CATALOG] [MAIN_SCHEMA] 30000
       while_connecting others token"

text \<open>With a token of its own the analysis cannot be cancelled.\<close>

definition analyze_sqlite_path :: "surroundings \<Rightarrow> 'e SqliteDriver \<Rightarrow> path \<Rightarrow> string \<Rightarrow> AnalysisOutcome option" where
  "analyze_sqlite_path sur drv p connection_alias =
     analyze_sqlite_path_with_cancellation sur drv p connection_alias False (\<lambda>_. False) new_token"

definition introspect_sqlite_complete_scoped_with_cancellation ::
  "surroundings \<Rightarrow> 'e SqliteDriver \<Rightarrow> path \<Rightarrow> string \<Rightarrow> string list \<Rightarrow> string list \<Rightarrow> nat
    \<Rightarrow> bool \<Rightarrow> (Checkpoint \<Rightarrow> bool) \<Rightarrow> CancellationToken \<Rightarrow> AnalysisOutcome option" where
  "introspect_sqlite_complete_scoped_with_cancellation sur drv p connection_alias catalogs schemas timeout_ms
      while_connecting others token =
     analyze_sqlite_path_scoped_with_cancellation sur drv p connection_alias catalogs schemas timeout_ms
       while_connecting others token"

definition introspect_sqlite_complete_scoped ::
  "surroundings \<Rightarrow> 'e SqliteDriver \<Rightarrow> path \<Rightarrow> string \<Rightarrow> string list \<Rightarrow> string list \<Rightarrow> nat \<Rightarrow> AnalysisOutcome option" where
  "introspect_sqlite_complete_scoped sur drv p connection_alias catalogs schemas timeout_ms =
     introspect_sqlite_complete_scoped_with_cancellation sur drv p connection_alias catalogs schemas timeout_ms
       False (\<lambda>_. False) new_token"

definition introspect_sqlite_complete :: "surroundings \<Rightarrow> 'e SqliteDriver \<Rightarrow> path \<Rightarrow> string \<Rightarrow> AnalysisOutcome option" where
  "introspect_sqlite_complete sur drv p connection_alias = analyze_sqlite_path sur drv p connection_alias"

definition introspect_sqlite_complete_with_cancellation ::
  "surroundings \<Rightarrow> 'e SqliteDriver \<Rightarrow> path \<Rightarrow> string \<Rightarrow> bool \<Rightarrow> (Checkpoint \<Rightarrow> bool) \<Rightarrow> CancellationToken
    \<Rightarrow> AnalysisOutcome option" where
  "introspect_sqlite_complete_with_cancellation sur drv p connection_alias while_connecting others token =
     analyze_sqlite_path_with_cancellation sur drv p connection_alias while_connecting others token"

definition introspect_sqlite :: "surroundings \<Rightarrow> 'e SqliteDriver \<Rightarrow> path \<Rightarrow> string \<Rightarrow> ('e, SchemaSnapshot) sq_result" where
  "introspect_sqlite sur drv p connection_alias =
     try_with (map_err StorageError (drv_open drv p)) (\<lambda>conn.
     try_with (map_err StorageError (drv_query_only drv)) (\<lambda>_.
     try_with (discover_sqlite_connection sur conn ''sqlite'' ''sqlite'' connection_alias [FILE_NOTE]) (\<lambda>discovery.
       Ok (can_schema (cdi_snapshot discovery)))))"

section \<open>The service on this adapter\<close>

interpretation sqlite: one_way_discovery "discover_sqlite_path sur drv p while_connecting"
  for sur drv p while_connecting
  by unfold_locales (auto simp: discover_sqlite_path_def Let_def is_cancelled_def cancel_def interleave_def)

end
