(* ===== verification/Sqlite_Counts.thy ===== *)
theory Sqlite_Counts
  imports Sqlite_Adapter
begin

text \<open>
  What the SQLite adapter counts in the catalog is what it emits: the discovered counts of a discovery agree with
  the objects and relationships of its snapshot in every category.
\<close>

section \<open>What a read catalog satisfies\<close>

definition folded_names :: "RawRelation list \<Rightarrow> string list" where
  "folded_names relations = map (\<lambda>relation. fold_identifier (rr_name relation)) relations"

definition consistent_catalog :: "RawSqliteCatalog \<Rightarrow> bool" where
  "consistent_catalog raw =
     (rcat_database_names raw = [MAIN_CATALOG]
      \<and> distinct (folded_names (rcat_relations raw))
      \<and> (\<forall>relation\<in>set (rcat_relations raw). \<not> is_table (rr_kind relation) \<longrightarrow> rr_parsed_table relation = None)
      \<and> (\<forall>index\<in>set (rcat_indexes raw). ri_table_name index \<in> rr_name ` set (table_relations raw))
      \<and> bt_inv (rcat_foreign_keys raw)
      \<and> set (bt_keys (rcat_foreign_keys raw)) = rr_name ` set (table_relations raw))"

lemma fold_rows_inv:
  assumes "fold_rows conn sql decode body init = Ok s" and "P init"
    and "\<And>r s s'. body r s = Ok s' \<Longrightarrow> P s \<Longrightarrow> P s'"
  shows "P s"
proof -
  obtain rows where "try_fold (\<lambda>row s. try_with (map_err StorageError (try_with row decode)) (\<lambda>r. body r s)) rows init = Ok s"
    using assms(1) by (auto simp: fold_rows_def try_with_Ok_iff)
  then show ?thesis
    by (rule try_fold_inv[where P = P]) (use assms(2,3) in \<open>auto simp: try_with_Ok_iff\<close>)
qed

lemma sort_key_folded_names: "mset (folded_names (sort_key f relations)) = mset (folded_names relations)"
  by (simp add: folded_names_def)

lemma read_relation_step:
  assumes "read_relation entries row (relations, names) = Ok (relations', names')"
    and "distinct (folded_names relations)"
    and "\<forall>n. bs_contains names n \<longleftrightarrow> n \<in> set (folded_names relations)"
    and "\<forall>relation\<in>set relations. rr_parsed_table relation = None"
  shows "distinct (folded_names relations') \<and> (\<forall>n. bs_contains names' n \<longleftrightarrow> n \<in> set (folded_names relations'))
    \<and> (\<forall>relation\<in>set relations'. rr_parsed_table relation = None)"
  using assms
  by (auto simp: read_relation_def Let_def try_with_Ok_iff folded_names_def split: prod.splits if_splits)

lemma read_relations_Ok:
  assumes "read_relations conn entries = Ok relations"
  shows "distinct (folded_names relations) \<and> (\<forall>relation\<in>set relations. rr_parsed_table relation = None)"
proof -
  let ?P = "\<lambda>(relations, names). distinct (folded_names relations)
    \<and> (\<forall>n. bs_contains names n \<longleftrightarrow> n \<in> set (folded_names relations)) \<and> (\<forall>relation\<in>set relations. rr_parsed_table relation = None)"
  obtain found names where rows: "fold_rows conn ''PRAGMA main.table_list'' (decode_table_list conn) (read_relation entries) ([], [])
      = Ok (found, names)" and found: "relations = sort_key rr_name found"
    using assms by (auto simp: read_relations_def try_with_Ok_iff split: prod.splits)
  have "?P (found, names)"
    by (rule fold_rows_inv[OF rows]) (auto simp: folded_names_def dest: read_relation_step)
  then show ?thesis
    using mset_eq_imp_distinct_iff[OF sort_key_folded_names[of rr_name found]] by (simp add: found)
qed

lemma read_indexes_table:
  assumes "read_indexes conn parser show_expr entries name = Ok indexes" and "index \<in> set indexes"
  shows "ri_table_name index = name"
proof -
  obtain found where rows: "fold_rows conn (''PRAGMA main.index_list('' @ quote_string name @ '')'') (decode_index_list conn)
      (read_index conn parser show_expr entries name) [] = Ok found" and "indexes = sort_key ri_name found"
    using assms(1) by (auto simp: read_indexes_def try_with_Ok_iff)
  moreover have "\<forall>index\<in>set found. ri_table_name index = name"
    by (rule fold_rows_inv[OF rows])
      (auto simp: read_index_def Let_def try_with_Ok_iff split: prod.splits if_splits option.splits)
  ultimately show ?thesis using assms(2) by simp
qed

text \<open>Reading the columns keeps names and kinds, and a view stays without a parsed table.\<close>

definition table_names :: "RawRelation list \<Rightarrow> string set" where
  "table_names relations = rr_name ` set (filter (\<lambda>relation. is_table (rr_kind relation)) relations)"

lemma table_names_append: "table_names (xs @ ys) = table_names xs \<union> table_names ys"
  by (auto simp: table_names_def)

lemma read_declared_columns_Ok:
  assumes "read_declared_columns conn label relation = Ok relation'"
  shows "rr_name relation' = rr_name relation \<and> rr_kind relation' = rr_kind relation
    \<and> rr_parsed_table relation' = rr_parsed_table relation"
  using assms by (auto simp: read_declared_columns_def try_with_Ok_iff split: if_splits)

lemma read_table_Ok:
  assumes "read_table conn parser show_expr entries relation (finished, indexes, keys) = Ok (finished', indexes', keys')"
  shows "\<exists>r found fks. finished' = finished @ [r] \<and> rr_name r = rr_name relation \<and> rr_kind r = rr_kind relation
    \<and> (\<not> is_table (rr_kind r) \<longrightarrow> r = relation) \<and> indexes' = indexes @ found
    \<and> (\<forall>index\<in>set found. ri_table_name index = rr_name r \<and> is_table (rr_kind r))
    \<and> (if is_table (rr_kind r) then keys' = bt_insert (rr_name r) fks keys else keys' = keys)"
proof (cases "is_table (rr_kind relation)")
  case True
  then obtain r p found fks where r: "read_declared_columns conn ''table'' relation = Ok r"
    and found: "read_indexes conn parser show_expr entries (rr_name r) = Ok found"
    and "finished' = finished @ [r\<lparr>rr_parsed_table := p\<rparr>]" "indexes' = indexes @ found" "keys' = bt_insert (rr_name r) fks keys"
    using assms by (auto simp: read_table_def try_with_Ok_iff)
  then show ?thesis
    using read_declared_columns_Ok[OF r] read_indexes_table[OF found] True
    by (intro exI[of _ "r\<lparr>rr_parsed_table := p\<rparr>"] exI[of _ found] exI[of _ fks]) simp
qed (use assms in \<open>auto simp: read_table_def\<close>)

definition read_state_ok :: "read_state \<Rightarrow> bool" where
  "read_state_ok st =
     (let (finished, indexes, keys) = st
      in (\<forall>relation\<in>set finished. \<not> is_table (rr_kind relation) \<longrightarrow> rr_parsed_table relation = None)
         \<and> (\<forall>index\<in>set indexes. ri_table_name index \<in> table_names finished)
         \<and> bt_inv keys \<and> set (bt_keys keys) = table_names finished)"

lemma read_table_keeps:
  assumes "read_table conn parser show_expr entries relation st = Ok st'" and "read_state_ok st"
    and "rr_parsed_table relation = None"
  shows "read_state_ok st'"
proof -
  obtain f i k f' i' k' where st: "st = (f, i, k)" "st' = (f', i', k')" by (metis prod_cases3)
  obtain r found fks where "f' = f @ [r]" "rr_kind r = rr_kind relation" "\<not> is_table (rr_kind r) \<longrightarrow> r = relation"
    "i' = i @ found" "\<forall>index\<in>set found. ri_table_name index = rr_name r \<and> is_table (rr_kind r)"
    "if is_table (rr_kind r) then k' = bt_insert (rr_name r) fks k else k' = k"
    using read_table_Ok[OF assms(1)[unfolded st]] by blast
  then show ?thesis
    using assms(2,3) unfolding st read_state_ok_def Let_def prod.case table_names_append
    by (auto simp: table_names_def bt_inv_insert bt.set_keys_insert split: if_splits)
qed

lemma read_table_shape:
  assumes "read_table conn parser show_expr entries relation st = Ok st'"
  shows "map (\<lambda>r. (rr_name r, rr_kind r)) (fst st') = map (\<lambda>r. (rr_name r, rr_kind r)) (fst st) @ [(rr_name relation, rr_kind relation)]"
  using read_table_Ok[of conn parser show_expr entries relation "fst st" "fst (snd st)" "snd (snd st)"
      "fst st'" "fst (snd st')" "snd (snd st')"] assms by auto

lemma read_view_Ok:
  assumes "read_view conn relation finished = Ok finished'"
  shows "\<exists>r. finished' = finished @ [r] \<and> rr_name r = rr_name relation \<and> rr_kind r = rr_kind relation
    \<and> rr_parsed_table r = rr_parsed_table relation"
  using assms by (auto simp: read_view_def try_with_Ok_iff split: if_splits dest!: read_declared_columns_Ok)

lemma table_names_shape:
  "table_names relations = fst ` {(n, k) \<in> set (map (\<lambda>r. (rr_name r, rr_kind r)) relations). is_table k}"
  by (force simp: table_names_def)

lemma read_catalog_consistent:
  assumes "read_catalog conn parser show_expr = Ok raw"
  shows "consistent_catalog raw"
proof -
  let ?shape = "map (\<lambda>r. (rr_name r, rr_kind r))"
  obtain entries names relations tables indexes keys where
    names: "read_database_names conn = Ok names" and rels: "read_relations conn entries = Ok relations"
    and tabs: "try_fold (read_table conn parser show_expr entries) relations ([], [], []) = Ok (tables, indexes, keys)"
    and views: "try_fold (read_view conn) tables [] = Ok (rcat_relations raw)"
    and raw: "rcat_database_names raw = names" "rcat_indexes raw = indexes" "rcat_foreign_keys raw = keys"
    using assms by (auto simp: read_catalog_def try_with_Ok_iff split: prod.splits)
  note rel = read_relations_Ok[OF rels]
  have tables: "read_state_ok (tables, indexes, keys)"
  proof (rule try_fold_inv[OF tabs])
    show "read_state_ok ([], [], [])" by (simp add: read_state_ok_def table_names_def bt_keys_def)
  qed (use rel read_table_keeps in blast)
  have "?shape tables = concat (map (\<lambda>r. [(rr_name r, rr_kind r)]) relations)"
    using try_fold_concat[OF tabs, of "\<lambda>st. ?shape (fst st)"] read_table_shape by fastforce
  moreover have "?shape (rcat_relations raw) = concat (map (\<lambda>r. [(rr_name r, rr_kind r)]) tables)"
    using try_fold_concat[OF views, of ?shape "\<lambda>r. [(rr_name r, rr_kind r)]"] read_view_Ok by fastforce
  ultimately have shape: "?shape (rcat_relations raw) = ?shape tables" "?shape tables = ?shape relations"
    by (simp_all only: concat_map_single)
  have "map fst (?shape (rcat_relations raw)) = map fst (?shape relations)" using shape by simp
  then have "folded_names (rcat_relations raw) = folded_names relations"
    by (simp add: folded_names_def comp_def) (metis (no_types, lifting) map_map comp_def map_eq_conv)
  moreover have "table_names (rcat_relations raw) = table_names tables"
    unfolding table_names_shape using shape by simp
  moreover have "\<forall>relation\<in>set (rcat_relations raw). \<not> is_table (rr_kind relation) \<longrightarrow> rr_parsed_table relation = None"
    by (rule try_fold_inv[OF views])
      (use tables read_view_Ok in \<open>fastforce simp: read_state_ok_def\<close>)+
  moreover have "names = [MAIN_CATALOG]"
    using names by (auto simp: read_database_names_def try_with_Ok_iff split: if_splits)
  moreover have "table_names (rcat_relations raw) = rr_name ` set (table_relations raw)"
    by (simp add: table_names_def table_relations_def)
  ultimately show ?thesis
    using rel tables by (simp add: consistent_catalog_def raw read_state_ok_def)
qed

section \<open>What the mapper emits\<close>

subsection \<open>Relations and columns\<close>

definition table_object :: "'e SqliteSnapshotMapper \<Rightarrow> RawRelation \<Rightarrow> TableObject" where
  "table_object m relation =
     \<lparr>tbl_key = mapper_key m Table (rr_name relation) None, tbl_schema_key = mapper_key m Schema MAIN_SCHEMA None,
       tbl_name = rr_name relation, tbl_kind = (case rr_kind relation of TableRelation kind \<Rightarrow> kind | ViewRelation \<Rightarrow> BaseTable)\<rparr>"

definition insert_relation_key ::
  "'e SqliteSnapshotMapper \<Rightarrow> ObjectKind \<Rightarrow> RawRelation \<Rightarrow> relation_keys \<Rightarrow> relation_keys" where
  "insert_relation_key m kind relation =
     bt_insert (fold_identifier (rr_name relation)) (mapper_key m kind (rr_name relation) None)"

lemma not_table_iff: "\<not> is_table k \<longleftrightarrow> k = ViewRelation"
  by (cases k) simp_all

lemma fold_map_relation:
  "fold (map_relation m) relations (tables, table_keys, view_keys) =
     (tables @ map (table_object m) (filter (\<lambda>r. is_table (rr_kind r)) relations),
      fold (insert_relation_key m Table) (filter (\<lambda>r. is_table (rr_kind r)) relations) table_keys,
      fold (insert_relation_key m View) (filter (\<lambda>r. rr_kind r = ViewRelation) relations) view_keys)"
proof (induction relations arbitrary: tables table_keys view_keys)
  case (Cons r relations)
  then show ?case
    by (cases "rr_kind r") (simp_all add: map_relation_def Let_def table_object_def insert_relation_key_def)
qed simp

lemma map_table_columns_Ok:
  assumes "try_fold (map_table_column m relation table_key) columns (st, primary) = Ok (st', primary')"
  shows "length (cst_columns st') = length (cst_columns st) + length columns
    \<and> length primary' = length primary + length (filter in_primary_key columns)
    \<and> cst_primary_key_columns st' = cst_primary_key_columns st
    \<and> md_objects (cst_metadata st') = md_objects (cst_metadata st)"
  using assms
proof (induction columns arbitrary: st primary)
  case (Cons c columns)
  obtain t p where t: "map_table_column m relation table_key c (st, primary) = Ok (t, p)"
    and rest: "try_fold (map_table_column m relation table_key) columns (t, p) = Ok (st', primary')"
    using Cons.prems by (auto simp: try_with_Ok_iff)
  have "length (cst_columns t) = Suc (length (cst_columns st))
      \<and> length p = length primary + (if in_primary_key c then 1 else 0)
      \<and> cst_primary_key_columns t = cst_primary_key_columns st \<and> md_objects (cst_metadata t) = md_objects (cst_metadata st)"
    using t by (auto simp: map_table_column_def Let_def in_primary_key_def push_annotation_def split: if_splits)
  with Cons.IH[OF rest] show ?case by simp
qed simp

definition view_column_objects :: "nat \<Rightarrow> MetadataObject list \<Rightarrow> bool" where
  "view_column_objects n objects =
     (length objects = n
      \<and> list_all (\<lambda>object. ok_object_kind (mo_key object) = ViewColumn \<and> mo_parent_key object \<noteq> None) objects)"

lemma view_column_objects_append:
  "view_column_objects a xs \<Longrightarrow> view_column_objects b ys \<Longrightarrow> view_column_objects (a + b) (xs @ ys)"
  by (simp add: view_column_objects_def)

lemma map_view_columns:
  "cst_columns (fold (map_view_column m relation owner) columns st) = cst_columns st
   \<and> cst_primary_key_columns (fold (map_view_column m relation owner) columns st) = cst_primary_key_columns st
   \<and> (\<exists>objects. md_objects (cst_metadata (fold (map_view_column m relation owner) columns st)) =
        md_objects (cst_metadata st) @ objects \<and> view_column_objects (length columns) objects)"
proof (induction columns arbitrary: st)
  case (Cons c columns)
  obtain object where "md_objects (cst_metadata (map_view_column m relation owner c st)) = md_objects (cst_metadata st) @ [object]"
    and object: "view_column_objects 1 [object]"
    by (simp add: map_view_column_def Let_def mapper_key_def view_column_objects_def)
  moreover have "cst_columns (map_view_column m relation owner c st) = cst_columns st"
    "cst_primary_key_columns (map_view_column m relation owner c st) = cst_primary_key_columns st"
    by (simp_all add: map_view_column_def Let_def)
  ultimately show ?case
    using Cons.IH[of "map_view_column m relation owner c st"] view_column_objects_append[OF object] by fastforce
qed (simp add: view_column_objects_def)

definition table_width :: "RawRelation \<Rightarrow> nat" where
  "table_width relation = (if is_table (rr_kind relation) then length (rr_columns relation) else 0)"

definition view_width :: "RawRelation \<Rightarrow> nat" where
  "view_width relation = (if is_table (rr_kind relation) then 0 else length (rr_columns relation))"

definition key_width :: "RawRelation \<Rightarrow> nat" where
  "key_width relation = length (filter in_primary_key (rr_columns relation))"

lemma map_relation_columns_Ok:
  assumes "map_relation_columns m table_keys view_keys relation st = Ok st'"
  shows "length (cst_columns st') = length (cst_columns st) + table_width relation
    \<and> (\<exists>objects. md_objects (cst_metadata st') = md_objects (cst_metadata st) @ objects
        \<and> view_column_objects (view_width relation) objects)
    \<and> (if is_table (rr_kind relation)
       then \<exists>primary. cst_primary_key_columns st' =
           bt_insert (fold_identifier (rr_name relation)) primary (cst_primary_key_columns st)
         \<and> length primary = key_width relation
       else cst_primary_key_columns st' = cst_primary_key_columns st)"
proof (cases "rr_kind relation")
  case (TableRelation kind)
  then obtain table_key t primary where run:
    "try_fold (map_table_column m relation table_key) (rr_columns relation) (st, []) = Ok (t, primary)"
    and "st' = t\<lparr>cst_primary_key_columns := bt_insert (fold_identifier (rr_name relation))
        (map snd (sort_key fst primary)) (cst_primary_key_columns t),
        cst_metadata := push_annotation (table_annotation table_key relation) (cst_metadata t)\<rparr>"
    using assms by (auto simp: map_relation_columns_def try_with_Ok_iff split: prod.splits)
  then show ?thesis
    using map_table_columns_Ok[OF run] TableRelation
    by (auto simp: table_width_def view_width_def key_width_def push_annotation_def view_column_objects_def)
next
  case ViewRelation
  then obtain owner where "st' = fold (map_view_column m relation owner) (rr_columns relation) st"
    using assms by (auto simp: map_relation_columns_def try_with_Ok_iff)
  then show ?thesis
    using map_view_columns[of m relation owner "rr_columns relation" st] ViewRelation
    by (simp add: table_width_def view_width_def)
qed

lemma map_columns_Ok:
  assumes "try_fold (map_relation_columns m table_keys view_keys) relations st = Ok st'"
    and "distinct (folded_names relations)"
  shows "length (cst_columns st') = length (cst_columns st) + sum_list (map table_width relations)
    \<and> (\<exists>objects. md_objects (cst_metadata st') = md_objects (cst_metadata st) @ objects
        \<and> view_column_objects (sum_list (map view_width relations)) objects)
    \<and> (\<forall>n. n \<notin> set (folded_names relations) \<longrightarrow>
        bt_get (cst_primary_key_columns st') n = bt_get (cst_primary_key_columns st) n)
    \<and> (\<forall>relation\<in>set relations. is_table (rr_kind relation) \<longrightarrow>
        (\<exists>primary. bt_get (cst_primary_key_columns st') (fold_identifier (rr_name relation)) = Some primary
          \<and> length primary = key_width relation))"
  using assms
proof (induction relations arbitrary: st)
  case (Cons r relations)
  obtain t where t: "map_relation_columns m table_keys view_keys r st = Ok t"
    and rest: "try_fold (map_relation_columns m table_keys view_keys) relations t = Ok st'"
    using Cons.prems by (auto simp: try_with_Ok_iff)
  have fresh: "fold_identifier (rr_name r) \<notin> set (folded_names relations)" "distinct (folded_names relations)"
    using Cons.prems(2) by (auto simp: folded_names_def)
  note step = map_relation_columns_Ok[OF t] and IH = Cons.IH[OF rest fresh(2)]
  have keep: "bt_get (cst_primary_key_columns st') n = bt_get (cst_primary_key_columns st) n"
    if "n \<notin> set (folded_names (r # relations))" for n
    using that step IH by (auto simp: folded_names_def bt.get_insert split: if_splits)
  have "\<exists>primary. bt_get (cst_primary_key_columns st') (fold_identifier (rr_name r)) = Some primary \<and> length primary = key_width r"
    if "is_table (rr_kind r)"
    using that step IH fresh(1) by (auto simp: bt.get_insert)
  moreover obtain o1 o2 where "md_objects (cst_metadata st') = md_objects (cst_metadata st) @ o1 @ o2"
    "view_column_objects (view_width r) o1" "view_column_objects (sum_list (map view_width relations)) o2"
    using step IH by auto
  ultimately show ?case
    using step IH keep view_column_objects_append[of _ o1 _ o2] by (auto intro!: exI[of _ "o1 @ o2"])
qed (simp add: view_column_objects_def)

subsection \<open>Constraints\<close>

text \<open>What a constraint adds to the counts: its kind and, except for a check, its number of columns.\<close>

definition con_shape :: "ConstraintObject \<Rightarrow> ConstraintKind \<times> nat" where
  "con_shape c = (con_kind c, if con_kind c = Check then 0 else length (con_columns c))"

definition check_columns :: "ConstraintObject list \<Rightarrow> nat" where
  "check_columns cs = sum_list (map (\<lambda>c. if con_kind c = Check then length (con_columns c) else 0) cs)"

definition cns_ok :: "MetadataObject list \<Rightarrow> ConstraintMapState \<Rightarrow> bool" where
  "cns_ok objects st =
     (cns_check_dependency_count st = check_columns (cns_constraints st) \<and> md_objects (cns_metadata st) = objects)"

lemma md_objects_push [simp]:
  "md_objects (push_annotation a md) = md_objects md"
  "md_objects (push_annotation_if_needed k d p md) = md_objects md"
  "md_objects (push_relationship r md) = md_objects md"
  by (simp_all add: push_annotation_def push_annotation_if_needed_def push_relationship_def)

lemma md_objects_push_all [simp]: "md_objects (fold (\<lambda>x. push_relationship (f x)) xs md) = md_objects md"
  by (induction xs arbitrary: md) simp_all

lemma emit_constraint_shape [simp]:
  "map con_shape (cns_constraints (emit_constraint m n tk kind d f p columns rt rc e st)) =
     map con_shape (cns_constraints st) @ [(kind, if kind = Check then 0 else length columns)]"
  by (simp add: emit_constraint_def con_shape_def Let_def split: prod.splits)

lemma emit_constraint_ok:
  "kind \<noteq> Check \<Longrightarrow> cns_ok objects (emit_constraint m n tk kind d f p columns rt rc e st) \<longleftrightarrow> cns_ok objects st"
  "cns_ok objects (emit_constraint m n tk Check d f p columns rt rc e
     (st\<lparr>cns_check_dependency_count := cns_check_dependency_count st + length columns\<rparr>)) \<longleftrightarrow> cns_ok objects st"
  by (simp_all add: emit_constraint_def cns_ok_def check_columns_def Let_def split: prod.splits)

lemma resolve_named_columns_length:
  "resolve_named_columns n names keys = Ok columns \<Longrightarrow> length columns = length names"
  by (auto simp: resolve_named_columns_def collect_results_Ok_iff dest: map_eq_imp_length_eq)

lemma direct_index_column_names_length:
  "direct_index_column_names index = Ok names \<Longrightarrow> length names = length (filter rt_key (ri_terms index))"
  by (auto simp: direct_index_column_names_def collect_results_Ok_iff dest: map_eq_imp_length_eq)

lemma resolve_raw_foreign_key_length:
  "resolve_raw_foreign_key n raw tk ck pk = Ok mapped \<Longrightarrow> length (rfk_source_columns mapped) = length (rf_parts raw)"
  by (auto simp: resolve_raw_foreign_key_def Let_def try_with_Ok_iff
      dest!: resolve_named_columns_length split: list.splits if_splits)

lemma map_unique_Ok:
  assumes "map_unique m r tk ck entry acc = Ok acc'"
  shows "map con_shape (cns_constraints (fst acc')) = map con_shape (cns_constraints (fst acc))
      @ [(Unique, length (filter rt_key (ri_terms (snd entry))))]
    \<and> (cns_ok objects (fst acc') \<longleftrightarrow> cns_ok objects (fst acc))"
proof -
  obtain ordinal index st matched where e: "entry = (ordinal, index)" "acc = (st, matched)" by fastforce
  then show ?thesis
    using assms
    by (auto simp: map_unique_def try_with_Ok_iff emit_constraint_ok
        dest!: resolve_named_columns_length direct_index_column_names_length)
qed

lemma map_check_Ok:
  assumes "map_check m r tk tks ck entry st = Ok st'"
  shows "map con_shape (cns_constraints st') = map con_shape (cns_constraints st) @ [(Check, 0)]
    \<and> (cns_ok objects st' \<longleftrightarrow> cns_ok objects st)"
  using assms by (auto simp: map_check_def Let_def try_with_Ok_iff emit_constraint_ok split: prod.splits)

lemma map_foreign_key_Ok:
  assumes "map_foreign_key m r tk tks ck pk raw acc = Ok acc'"
  shows "map con_shape (cns_constraints (fst acc')) = map con_shape (cns_constraints (fst acc))
      @ [(ConstraintKind.ForeignKey, length (rf_parts raw))]
    \<and> (cns_ok objects (fst acc') \<longleftrightarrow> cns_ok objects (fst acc))"
proof -
  obtain st matched where "acc = (st, matched)" by fastforce
  then show ?thesis
    using assms by (auto simp: map_foreign_key_def try_with_Ok_iff emit_constraint_ok dest!: resolve_raw_foreign_key_length)
qed

definition constraint_shapes ::
  "RawIndex list \<Rightarrow> (string, RawForeignKey list) btree \<Rightarrow> RawRelation \<Rightarrow> (ConstraintKind \<times> nat) list" where
  "constraint_shapes indexes foreign_keys relation =
     (if key_width relation = 0 then [] else [(ConstraintKind.PrimaryKey, key_width relation)])
     @ map (\<lambda>index. (Unique, length (filter rt_key (ri_terms index)))) (unique_indexes relation indexes)
     @ map (\<lambda>_. (Check, 0)) (parsed_constraints relation ParsedCheck)
     @ map (\<lambda>raw. (ConstraintKind.ForeignKey, length (rf_parts raw)))
         (case bt_get foreign_keys (rr_name relation) of None \<Rightarrow> [] | Some keys \<Rightarrow> keys)"

lemma map_primary_key_Ok:
  "map con_shape (cns_constraints (map_primary_key m r tk primary (st\<lparr>cns_names := []\<rparr>))) = map con_shape (cns_constraints st)
     @ (if primary = [] then [] else [(ConstraintKind.PrimaryKey, length primary)])"
  "cns_ok objects (map_primary_key m r tk primary (st\<lparr>cns_names := []\<rparr>)) \<longleftrightarrow> cns_ok objects st"
  by (simp_all add: map_primary_key_def Let_def emit_constraint_ok) (simp_all add: cns_ok_def)

lemma map_constraints_Ok:
  assumes "map_constraints m indexes fks tks ck pk relation acc = Ok st"
    and "\<exists>primary. bt_get pk (fold_identifier (rr_name relation)) = Some primary \<and> length primary = key_width relation"
  shows "map con_shape (cns_constraints st) = map con_shape (cns_constraints acc) @ constraint_shapes indexes fks relation
    \<and> (cns_ok objects acc \<longrightarrow> cns_ok objects st)"
proof -
  let ?raw = "case bt_get fks (rr_name relation) of None \<Rightarrow> [] | Some keys \<Rightarrow> keys"
  let ?shape = "\<lambda>st. map con_shape (cns_constraints st)"
  obtain primary where pk: "bt_get pk (fold_identifier (rr_name relation)) = Some primary" "length primary = key_width relation"
    using assms(2) by blast
  obtain tk st1 m1 st2 m2 where
    u: "try_fold (map_unique m relation tk ck) (enumerate 0 (unique_indexes relation indexes))
      (map_primary_key m relation tk primary (acc\<lparr>cns_names := []\<rparr>), []) = Ok (st1, m1)"
    and c: "try_fold (map_check m relation tk tks ck) (enumerate 0 (parsed_constraints relation ParsedCheck)) st1 = Ok st2"
    and f: "try_fold (map_foreign_key m relation tk tks ck pk) ?raw (st2, []) = Ok (st, m2)"
    using assms(1) unfolding map_constraints_def Let_def
    by (auto simp: try_with_Ok_iff pk split: if_splits prod.splits)
  have "?shape st1 = ?shape acc @ (if primary = [] then [] else [(ConstraintKind.PrimaryKey, length primary)])
      @ map (\<lambda>index. (Unique, length (filter rt_key (ri_terms index)))) (unique_indexes relation indexes)"
    using try_fold_concat[OF u, of "\<lambda>acc. ?shape (fst acc)"
        "\<lambda>entry. [(Unique, length (filter rt_key (ri_terms (snd entry))))]", OF map_unique_Ok[of m relation tk ck, THEN conjunct1]]
    by (simp add: map_primary_key_Ok concat_map_single map_snd_enumerate[where f = "\<lambda>i. (Unique, length (filter rt_key (ri_terms i)))"])
  moreover have "?shape st2 = ?shape st1 @ map (\<lambda>_. (Check, 0)) (parsed_constraints relation ParsedCheck)"
    using try_fold_concat[OF c, of ?shape "\<lambda>_. [(Check, 0)]", OF map_check_Ok[of m relation tk tks ck, THEN conjunct1]]
    by (simp add: concat_map_single map_snd_enumerate[where f = "\<lambda>_. (Check, 0)"])
  moreover have "?shape st = ?shape st2 @ map (\<lambda>raw. (ConstraintKind.ForeignKey, length (rf_parts raw))) ?raw"
    using try_fold_concat[OF f, of "\<lambda>acc. ?shape (fst acc)" "\<lambda>raw. [(ConstraintKind.ForeignKey, length (rf_parts raw))]",
      OF map_foreign_key_Ok[of m relation tk tks ck pk, THEN conjunct1]] by (simp add: concat_map_single)
  moreover have "cns_ok objects st" if "cns_ok objects acc"
  proof -
    have "cns_ok objects (fst (st1, m1))"
      by (rule try_fold_inv[OF u]) (simp add: that map_primary_key_Ok, metis map_unique_Ok)
    then have "cns_ok objects st2"
      by (intro try_fold_inv[OF c, of "cns_ok objects"]) (simp, metis map_check_Ok)
    then have "cns_ok objects (fst (st, m2))"
      by (intro try_fold_inv[OF f, of "\<lambda>acc. cns_ok objects (fst acc)"]) (simp, metis map_foreign_key_Ok)
    then show ?thesis by simp
  qed
  ultimately show ?thesis by (auto simp: constraint_shapes_def pk(2)[symmetric])
qed

text \<open>The four constraint loops over all tables of the catalog.\<close>

lemma map_all_constraints_Ok:
  assumes "try_fold (map_constraints m indexes fks tks ck pk) tables st = Ok st'"
    and "\<forall>relation\<in>set tables. \<exists>primary.
      bt_get pk (fold_identifier (rr_name relation)) = Some primary \<and> length primary = key_width relation"
  shows "map con_shape (cns_constraints st') =
      map con_shape (cns_constraints st) @ concat (map (constraint_shapes indexes fks) tables)
    \<and> (cns_ok objects st \<longrightarrow> cns_ok objects st')"
proof
  show "map con_shape (cns_constraints st') =
      map con_shape (cns_constraints st) @ concat (map (constraint_shapes indexes fks) tables)"
    by (rule try_fold_concat[OF assms(1)]) (use assms(2) in \<open>blast dest: map_constraints_Ok[THEN conjunct1]\<close>)
  show "cns_ok objects st \<longrightarrow> cns_ok objects st'"
    by (rule impI, rule try_fold_inv[OF assms(1)]) (assumption, use assms(2) map_constraints_Ok in blast)
qed

lemma map_generated_dependencies_Ok:
  assumes "map_generated_dependencies m relations tks ck metadata = Ok metadata'"
  shows "md_objects metadata' = md_objects metadata"
proof -
  have column: "md_objects md' = md_objects md"
    if "map_generated_column m tks ck relation column md = Ok md'" for relation column md md'
    using that by (auto simp: map_generated_column_def try_with_Ok_iff split: option.splits)
  have relation: "md_objects md' = md_objects md"
    if "try_fold (map_generated_column m tks ck relation) columns md = Ok md'" for relation columns md md'
    by (rule try_fold_inv[OF that]) (use column in auto)
  show ?thesis
    by (rule try_fold_inv[OF assms[unfolded map_generated_dependencies_def]])
      (auto split: option.splits dest: relation)
qed

subsection \<open>Indexes, views and triggers\<close>

lemma map_index_term_Ok:
  assumes "map_index_term raw ck entry st = Ok st'"
  shows "length (tst_columns st') + tst_direct_column_count st = length (tst_columns st) + tst_direct_column_count st'"
proof -
  obtain ordinal t where "entry = (ordinal, t)" by fastforce
  then show ?thesis
    using assms
    by (auto simp: map_index_term_def Let_def try_with_Ok_iff push_expression_def
        dest!: resolve_named_columns_length split: if_splits option.splits)
qed

lemma map_auxiliary_term_Ok:
  assumes "map_auxiliary_term raw key ck t acc = Ok acc'"
  shows "md_objects (snd acc') = md_objects (snd acc)"
  using assms by (auto simp: map_auxiliary_term_def Let_def try_with_Ok_iff split: prod.splits)

definition ist_ok :: "MetadataObject list \<Rightarrow> IndexMapState \<Rightarrow> bool" where
  "ist_ok objects st =
     (sum_list (map (\<lambda>index. length (idx_columns index)) (ist_indexes st)) = ist_direct_column_count st
      \<and> md_objects (ist_metadata st) = objects)"

lemma map_index_Ok:
  fixes m :: "'e SqliteSnapshotMapper"
  assumes "map_index m tks ck raw st = Ok st'"
  shows "length (ist_indexes st') = length (ist_indexes st) + 1 \<and> (ist_ok objects st \<longrightarrow> ist_ok objects st')"
proof -
  let ?zero = "\<lparr>tst_columns = [], tst_expression_terms = [], tst_probe_expressions = [],
    tst_direct_column_count = ist_direct_column_count st\<rparr>"
  let ?key = "mapper_key m Index (ri_table_name raw) (Some (ri_name raw))"
  obtain terms dependencies auxiliary metadata where
    terms: "try_fold (map_index_term raw ck) (enumerate 0 (filter rt_key (ri_terms raw))) ?zero = (Ok terms :: ('e, _) sq_result)"
    and aux: "try_fold (map_auxiliary_term raw ?key ck) (filter (\<lambda>t. \<not> rt_key t \<and> rt_cid t \<ge> 0) (ri_terms raw))
      ([], fold (\<lambda>dependency. push_relationship (depends_on ?key [] dependency)) dependencies (ist_metadata st))
      = (Ok (auxiliary, metadata) :: ('e, _) sq_result)"
    and st': "length (ist_indexes st') = length (ist_indexes st) + 1" "map (\<lambda>index. length (idx_columns index)) (ist_indexes st') =
        map (\<lambda>index. length (idx_columns index)) (ist_indexes st) @ [length (tst_columns terms)]"
      "ist_direct_column_count st' = tst_direct_column_count terms" "md_objects (ist_metadata st') = md_objects metadata"
    using assms unfolding map_index_def Let_def by (auto simp: try_with_Ok_iff split: prod.splits)
  have "length (tst_columns terms) + ist_direct_column_count st = tst_direct_column_count terms"
    using try_fold_inv[OF terms, of "\<lambda>t. length (tst_columns t) + ist_direct_column_count st = tst_direct_column_count t"]
      map_index_term_Ok by fastforce
  moreover have "md_objects (snd (auxiliary, metadata)) = md_objects (ist_metadata st)"
    by (rule try_fold_inv[OF aux]) (simp, metis map_auxiliary_term_Ok)
  ultimately show ?thesis using st' by (auto simp: ist_ok_def)
qed

lemma map_indexes_Ok:
  assumes "map_indexes m raw tks ck metadata = Ok st"
  shows "length (ist_indexes st) = length raw \<and> ist_ok (md_objects metadata) st"
proof
  show "length (ist_indexes st) = length raw"
    using try_fold_sum[OF assms[unfolded map_indexes_def], of "\<lambda>st. length (ist_indexes st)" "\<lambda>_. 1"] map_index_Ok
    by (fastforce simp: sum_list_triv)
  show "ist_ok (md_objects metadata) st"
    by (rule try_fold_inv[OF assms[unfolded map_indexes_def]]) (simp add: ist_ok_def, metis map_index_Ok)
qed

definition ordered_keys :: "ObjectKey list \<Rightarrow> bool" where
  "ordered_keys keys = (sorted_wrt (<) (map key_to_string keys))"

definition vst_ok :: "MetadataObject list \<Rightarrow> ViewMapState \<Rightarrow> bool" where
  "vst_ok objects st =
     (sum_list (map (\<lambda>v. length (view_depends_on v)) (vst_views st)) = vst_dependency_count st
      \<and> list_all (\<lambda>v. ordered_keys (view_depends_on v)) (vst_views st)
      \<and> md_objects (vst_metadata st) = objects)"

lemma retain_first_keys:
  "distinct (map f (retain_first f seen xs)) \<and> set (map f (retain_first f seen xs)) \<inter> set seen = {}"
  by (induction f seen xs rule: retain_first.induct) auto

lemma sorted_deduplicate_keys: "ordered_keys (deduplicate_keys keys)"
proof -
  have "sorted (map key_to_string (deduplicate_keys keys))" by (simp add: deduplicate_keys_def)
  moreover have "distinct (map key_to_string (deduplicate_keys keys))"
    using retain_first_keys[of key_to_string "[]" keys] unfolding deduplicate_keys_def
    by (simp add: distinct_map)
  ultimately show ?thesis by (simp add: ordered_keys_def strict_sorted_iff)
qed

lemma sorted_keys_filter: "ordered_keys keys \<Longrightarrow> ordered_keys (filter P keys)"
  unfolding ordered_keys_def by (induction keys) (auto simp: sorted_wrt_map)

lemma map_view_Ok:
  assumes "map_view m tks vks ck relation st = Ok st'"
  shows "length (vst_views st') = length (vst_views st) + 1 \<and> (vst_ok objects st \<longrightarrow> vst_ok objects st')"
  using assms
  by (auto simp: map_view_def view_dependencies_def map_accesses_def Let_def try_with_Ok_iff vst_ok_def
      intro!: sorted_keys_filter sorted_deduplicate_keys)

lemma map_trigger_Ok:
  assumes "map_trigger m relations tks vks ck raw acc = Ok acc'"
  shows "\<exists>trigger. fst acc' = fst acc @ [trigger] \<and> trg_executes_routine_key trigger = None
    \<and> md_objects (snd acc') = md_objects (snd acc)"
  using assms by (auto simp: map_trigger_def Let_def try_with_Ok_iff split: prod.splits)

lemma map_triggers_Ok:
  assumes "try_fold (map_trigger m relations tks vks ck) raw ([], metadata) = Ok (triggers, metadata')"
  shows "length triggers = length raw \<and> list_all (\<lambda>t. trg_executes_routine_key t = None) triggers
    \<and> md_objects metadata' = md_objects metadata"
proof (intro conjI)
  show "length triggers = length raw"
    using try_fold_sum[OF assms, of "\<lambda>acc. length (fst acc)" "\<lambda>_. 1"] map_trigger_Ok by (fastforce simp: sum_list_triv)
  have "list_all (\<lambda>t. trg_executes_routine_key t = None) (fst (triggers, metadata'))"
    by (rule try_fold_inv[OF assms]) (simp, fastforce dest: map_trigger_Ok)
  then show "list_all (\<lambda>t. trg_executes_routine_key t = None) triggers" by simp
  have "md_objects (snd (triggers, metadata')) = md_objects metadata"
    by (rule try_fold_inv[OF assms]) (simp, metis map_trigger_Ok)
  then show "md_objects metadata' = md_objects metadata" by simp
qed

section \<open>Sums over the catalog\<close>

lemma same_identifier_iff: "same_identifier a b \<longleftrightarrow> fold_identifier a = fold_identifier b"
  by (simp add: same_identifier_def fold_identifier_def eq_ignore_ascii_case_def)

lemma table_relations_distinct:
  assumes "consistent_catalog raw"
  shows "distinct (map (\<lambda>r. fold_identifier (rr_name r)) (table_relations raw))" "distinct (map rr_name (table_relations raw))"
proof -
  show "distinct (map (\<lambda>r. fold_identifier (rr_name r)) (table_relations raw))"
    using assms by (auto simp: consistent_catalog_def folded_names_def table_relations_def distinct_map
        intro: inj_on_subset)
  then show "distinct (map rr_name (table_relations raw))"
    by (auto simp: distinct_map inj_on_def)
qed

lemma unique_indexes_sum:
  fixes w :: "RawIndex \<Rightarrow> nat"
  assumes "consistent_catalog raw"
  shows "sum_list (map (\<lambda>r. sum_list (map w (unique_indexes r (rcat_indexes raw)))) (table_relations raw))
    = sum_list (map w (unique_backing raw))"
proof -
  have "unique_indexes r (rcat_indexes raw) =
      filter (\<lambda>i. fold_identifier (ri_table_name i) = fold_identifier (rr_name r)) (unique_backing raw)" for r
    by (auto simp: unique_indexes_def unique_backing_def same_identifier_iff intro!: filter_cong)
  moreover have "\<forall>i\<in>set (unique_backing raw).
      fold_identifier (ri_table_name i) \<in> (\<lambda>r. fold_identifier (rr_name r)) ` set (table_relations raw)"
    using assms by (fastforce simp: consistent_catalog_def unique_backing_def)
  ultimately show ?thesis
    using sum_list_matching[OF table_relations_distinct(1)[OF assms]] by simp
qed

lemma foreign_keys_sum:
  fixes w :: "RawForeignKey \<Rightarrow> nat"
  assumes "consistent_catalog raw"
  shows "sum_list (map (\<lambda>r. sum_list (map w
      (case bt_get (rcat_foreign_keys raw) (rr_name r) of None \<Rightarrow> [] | Some keys \<Rightarrow> keys))) (table_relations raw))
    = sum_list (map w (concat (bt_values (rcat_foreign_keys raw))))"
proof -
  have "bt_inv (rcat_foreign_keys raw)" "set (map rr_name (table_relations raw)) = set (bt_keys (rcat_foreign_keys raw))"
    using assms by (simp_all add: consistent_catalog_def)
  from sum_list_bt_values[OF this(1) table_relations_distinct(2)[OF assms] this(2), of "\<lambda>ks. sum_list (map w ks)" "[]"]
  show ?thesis by (simp add: sum_list_concat_map comp_def)
qed

lemma parsed_checks_sum:
  assumes "consistent_catalog raw"
  shows "sum_list (map (\<lambda>r. length (parsed_constraints r ParsedCheck)) (table_relations raw)) = length (parsed_checks raw)"
proof -
  have "sum_list (map (\<lambda>r. length (parsed_constraints r ParsedCheck)) (filter (\<lambda>r. is_table (rr_kind r)) rs)) =
      length (filter (\<lambda>c. pc_kind c = ParsedCheck) (concat (map ptd_constraints (List.map_filter rr_parsed_table rs))))"
    if "\<forall>r\<in>set rs. \<not> is_table (rr_kind r) \<longrightarrow> rr_parsed_table r = None" for rs
    using that by (induction rs) (auto simp: parsed_constraints_def map_filter_simps split: option.splits)
  then show ?thesis
    using assms by (simp add: table_relations_def parsed_checks_def consistent_catalog_def)
qed

lemma width_sums:
  "sum_list (map table_width (rcat_relations raw)) = sum_list (map (\<lambda>r. length (rr_columns r)) (table_relations raw))"
  "sum_list (map (\<lambda>r. length (rr_columns r)) (rcat_relations raw))
     = sum_list (map table_width (rcat_relations raw)) + sum_list (map view_width (rcat_relations raw))"
proof -
  show "sum_list (map table_width (rcat_relations raw)) = sum_list (map (\<lambda>r. length (rr_columns r)) (table_relations raw))"
    unfolding table_relations_def by (induction "rcat_relations raw") (auto simp: table_width_def sum_list_map_filter' intro!: arg_cong[of _ _ sum_list])
  have "(\<lambda>r. length (rr_columns r)) = (\<lambda>r. table_width r + view_width r)" by (auto simp: table_width_def view_width_def)
  then show "sum_list (map (\<lambda>r. length (rr_columns r)) (rcat_relations raw))
      = sum_list (map table_width (rcat_relations raw)) + sum_list (map view_width (rcat_relations raw))"
    by (simp add: sum_list_addf)
qed

subsection \<open>Constraints by kind\<close>

definition catalog_shapes :: "RawSqliteCatalog \<Rightarrow> (ConstraintKind \<times> nat) list" where
  "catalog_shapes raw = concat (map (constraint_shapes (rcat_indexes raw) (rcat_foreign_keys raw)) (table_relations raw))"

lemma constraint_shapes_sum:
  fixes w :: "ConstraintKind \<times> nat \<Rightarrow> nat"
  shows "sum_list (map w (constraint_shapes indexes fks r)) =
    (if key_width r = 0 then 0 else w (ConstraintKind.PrimaryKey, key_width r))
    + (sum_list (map (\<lambda>i. w (Unique, length (filter rt_key (ri_terms i)))) (unique_indexes r indexes))
    + (length (parsed_constraints r ParsedCheck) * w (Check, 0)
    + sum_list (map (\<lambda>k. w (ConstraintKind.ForeignKey, length (rf_parts k)))
        (case bt_get fks (rr_name r) of None \<Rightarrow> [] | Some keys \<Rightarrow> keys))))"
  by (simp add: constraint_shapes_def comp_def sum_list_triv)

lemma catalog_shapes_sum:
  fixes w :: "ConstraintKind \<times> nat \<Rightarrow> nat"
  assumes "consistent_catalog raw"
  shows "sum_list (map w (catalog_shapes raw)) =
    sum_list (map (\<lambda>r. if key_width r = 0 then 0 else w (ConstraintKind.PrimaryKey, key_width r)) (table_relations raw))
    + sum_list (map (\<lambda>i. w (Unique, length (filter rt_key (ri_terms i)))) (unique_backing raw))
    + length (parsed_checks raw) * w (Check, 0)
    + sum_list (map (\<lambda>k. w (ConstraintKind.ForeignKey, length (rf_parts k))) (concat (bt_values (rcat_foreign_keys raw))))"
  unfolding catalog_shapes_def sum_list_concat_map
  by (simp add: comp_def constraint_shapes_sum sum_list_addf sum_list_mult_const parsed_checks_sum[OF assms]
      unique_indexes_sum[OF assms] foreign_keys_sum[OF assms, unfolded sum_list_concat_map] sum_list_concat_map)

lemma key_width_0: "key_width r = 0 \<longleftrightarrow> \<not> list_ex in_primary_key (rr_columns r)"
  by (simp add: key_width_def filter_empty_conv list_ex_iff)

lemma key_width_sum:
  "sum_list (map key_width tables) = sum_list (map (\<lambda>r. length (filter in_primary_key (rr_columns r))) tables)"
  by (simp add: key_width_def[abs_def])

lemma primary_keys_sum:
  fixes n :: nat
  shows "sum_list (map (\<lambda>r. if key_width r = 0 then 0 else n) (table_relations raw)) =
     n * length (filter (\<lambda>r. is_table (rr_kind r) \<and> list_ex in_primary_key (rr_columns r)) (rcat_relations raw))"
proof -
  have "sum_list (map (\<lambda>r. if key_width r = 0 then 0 else n) (filter (\<lambda>r. is_table (rr_kind r)) rs)) =
      n * length (filter (\<lambda>r. is_table (rr_kind r) \<and> list_ex in_primary_key (rr_columns r)) rs)" for rs
    by (induction rs) (auto simp: key_width_0)
  then show ?thesis by (simp add: table_relations_def)
qed

lemma sum_con_shape: "sum_list (map (\<lambda>x. w (con_shape x)) cs) = sum_list (map w (map con_shape cs))"
  for w :: "ConstraintKind \<times> nat \<Rightarrow> nat"
  by (simp add: comp_def)

lemma con_category_count:
  "count_list (map (\<lambda>x. constraint_category (con_kind x)) cs) cat =
     sum_list (map (\<lambda>s. if constraint_category (fst s) = cat then 1 else 0) (map con_shape cs))"
  by (simp add: count_list_sum con_shape_def comp_def)

lemma constraint_column_counts_sum:
  "constraint_column_counts cs =
     (sum_list (map (\<lambda>s. if fst s = ConstraintKind.ForeignKey then 0 else snd s) (map con_shape cs)) + check_columns cs,
      sum_list (map (\<lambda>s. if fst s = ConstraintKind.ForeignKey then snd s else 0) (map con_shape cs)))"
proof -
  have "fold (\<lambda>x (a, b). if con_kind x = ConstraintKind.ForeignKey then (a, b + length (con_columns x))
        else (a + length (con_columns x), b)) cs (a, b) =
      (a + sum_list (map (\<lambda>x. if con_kind x = ConstraintKind.ForeignKey then 0 else length (con_columns x)) cs),
       b + sum_list (map (\<lambda>x. if con_kind x = ConstraintKind.ForeignKey then length (con_columns x) else 0) cs))" for a b
    by (induction cs arbitrary: a b) auto
  moreover have "sum_list (map (\<lambda>x. if con_kind x = ConstraintKind.ForeignKey then 0 else length (con_columns x)) cs) =
      sum_list (map (\<lambda>s. if fst s = ConstraintKind.ForeignKey then 0 else snd s) (map con_shape cs)) + check_columns cs"
    by (induction cs) (auto simp: con_shape_def check_columns_def)
  moreover have "sum_list (map (\<lambda>x. if con_kind x = ConstraintKind.ForeignKey then length (con_columns x) else 0) cs) =
      sum_list (map (\<lambda>s. if fst s = ConstraintKind.ForeignKey then snd s else 0) (map con_shape cs))"
    by (induction cs) (auto simp: con_shape_def)
  ultimately show ?thesis by (simp add: constraint_column_counts_def)
qed

text \<open>The constraints of each kind and their columns, from the catalog.\<close>

lemma constraint_counts:
  assumes "consistent_catalog raw" and "map con_shape cs = catalog_shapes raw"
  shows
    "count_list (map (\<lambda>x. constraint_category (con_kind x)) cs) cat =
       (if cat = CatPrimaryKey then length (filter (\<lambda>r. is_table (rr_kind r) \<and> list_ex in_primary_key (rr_columns r)) (rcat_relations raw))
        else if cat = CatUniqueConstraint then length (unique_backing raw)
        else if cat = CatCheckConstraint then length (parsed_checks raw)
        else if cat = CatForeignKey then sum_list (map length (bt_values (rcat_foreign_keys raw))) else 0)" (is ?categories)
    "length cs = length (filter (\<lambda>r. is_table (rr_kind r) \<and> list_ex in_primary_key (rr_columns r)) (rcat_relations raw))
       + sum_list (map length (bt_values (rcat_foreign_keys raw))) + length (unique_backing raw) + length (parsed_checks raw)"
       (is ?length)
    "constraint_column_counts cs =
       (length (filter in_primary_key (concat (map rr_columns (table_relations raw))))
          + length (filter rt_key (concat (map ri_terms (unique_backing raw)))) + check_columns cs,
        sum_list (map (\<lambda>key. length (rf_parts key)) (concat (bt_values (rcat_foreign_keys raw)))))" (is ?columns)
proof -
  note sums = catalog_shapes_sum[OF assms(1)] primary_keys_sum key_width_sum sum_list_triv length_filter_concat
    length_concat comp_def
  show ?categories
    unfolding con_category_count assms(2) catalog_shapes_sum[OF assms(1)] fst_conv constraint_category.simps primary_keys_sum
    by (cases cat) (simp_all add: sums)
  have "length cs = sum_list (map (\<lambda>_. 1) (catalog_shapes raw))"
    using arg_cong[OF assms(2), of length] by (simp add: sum_list_triv)
  then show ?length unfolding catalog_shapes_sum[OF assms(1)] primary_keys_sum by (simp add: sums)
  show ?columns
    unfolding constraint_column_counts_sum assms(2) catalog_shapes_sum[OF assms(1)] by (simp add: sums key_width_sum cong: if_cong)
qed

section \<open>Discovered and emitted\<close>

lemma map_catalog_Ok:
  fixes m :: "'e SqliteSnapshotMapper"
  assumes "map_catalog version m raw = Ok d" and "consistent_catalog raw"
  defines "s \<equiv> can_schema (cdi_snapshot d)" and "md \<equiv> can_metadata (cdi_snapshot d)"
  shows "length (snap_schemas s) = 1 \<and> length (snap_tables s) = length (table_relations raw)
    \<and> length (snap_columns s) = sum_list (map table_width (rcat_relations raw))
    \<and> map con_shape (snap_constraints s) = catalog_shapes raw
    \<and> length (snap_indexes s) = length (rcat_indexes raw)
    \<and> sum_list (map (\<lambda>index. length (idx_columns index)) (snap_indexes s)) = direct_index_columns (rcat_indexes raw)
    \<and> length (snap_views s) = length (view_relations raw) \<and> list_all (\<lambda>v. ordered_keys (view_depends_on v)) (snap_views s)
    \<and> length (snap_triggers s) = length (rcat_triggers raw)
    \<and> list_all (\<lambda>t. trg_executes_routine_key t = None) (snap_triggers s) \<and> snap_routines s = []
    \<and> view_column_objects (sum_list (map view_width (rcat_relations raw))) (md_objects md)
    \<and> cdi_discovered_counts d = discovery_counts raw (check_columns (snap_constraints s))
        (sum_list (map (\<lambda>v. length (view_depends_on v)) (snap_views s))) (length (md_relationships md))"
proof -
  let ?cols0 = "\<lparr>cst_columns = [], cst_metadata = default_metadata, cst_column_keys = [], cst_primary_key_columns = []\<rparr>"
  let ?tables = "map (table_object m) (table_relations raw)"
  obtain tks vks cols md1 cons idx views trg md2 where
    cols: "try_fold (map_relation_columns m tks vks) (rcat_relations raw) ?cols0 = Ok cols"
    and gen: "map_generated_dependencies m (rcat_relations raw) tks (cst_column_keys cols) (cst_metadata cols) = Ok md1"
    and cons: "try_fold (map_constraints m (rcat_indexes raw) (rcat_foreign_keys raw) tks (cst_column_keys cols)
        (cst_primary_key_columns cols)) (table_relations raw)
        \<lparr>cns_names = [], cns_constraints = [], cns_metadata = md1, cns_check_dependency_count = 0\<rparr> = Ok cons"
    and idx: "map_indexes m (rcat_indexes raw) tks (cst_column_keys cols) (cns_metadata cons) = Ok idx"
    and direct: "ist_direct_column_count idx = direct_index_columns (rcat_indexes raw)"
    and views: "try_fold (map_view m tks vks (cst_column_keys cols)) (view_relations raw)
        \<lparr>vst_views = [], vst_metadata = ist_metadata idx, vst_dependency_count = 0\<rparr> = Ok views"
    and trg: "try_fold (map_trigger m (rcat_relations raw) tks vks (cst_column_keys cols)) (rcat_triggers raw)
        ([], vst_metadata views) = Ok (trg, md2)"
    and s: "length (snap_schemas s) = 1" "snap_tables s = ?tables" "snap_columns s = cst_columns cols"
      "snap_constraints s = cns_constraints cons" "snap_indexes s = ist_indexes idx" "snap_views s = vst_views views"
      "snap_triggers s = trg" "snap_routines s = []" "md_objects md = md_objects md2"
      "cdi_discovered_counts d = discovery_counts raw (cns_check_dependency_count cons) (vst_dependency_count views)
        (length (md_relationships md))"
    using assms(1) unfolding map_catalog_def Let_def fold_map_relation prod.case s_def md_def
    by (auto simp: try_with_Ok_iff table_relations_def split: prod.splits if_splits)
  have "distinct (folded_names (rcat_relations raw))" using assms(2) by (simp add: consistent_catalog_def)
  note columns = map_columns_Ok[OF cols this]
  have "\<forall>r\<in>set (table_relations raw). \<exists>primary.
      bt_get (cst_primary_key_columns cols) (fold_identifier (rr_name r)) = Some primary \<and> length primary = key_width r"
    using columns by (simp add: table_relations_def)
  note constraints = map_all_constraints_Ok[OF cons this, of "md_objects md1"]
  have shapes: "map con_shape (cns_constraints cons) = catalog_shapes raw" and ok: "cns_ok (md_objects md1) cons"
    using constraints by (simp_all add: catalog_shapes_def cns_ok_def check_columns_def)
  have "length (vst_views views) = length (view_relations raw)"
    using try_fold_sum[OF views, of "\<lambda>st. length (vst_views st)" "\<lambda>_. 1"] map_view_Ok by (fastforce simp: sum_list_triv)
  moreover have "vst_ok (md_objects (ist_metadata idx)) views"
    by (rule try_fold_inv[OF views]) (simp add: vst_ok_def, metis map_view_Ok)
  ultimately show ?thesis
    using columns shapes ok map_generated_dependencies_Ok[OF gen] map_indexes_Ok[OF idx] map_triggers_Ok[OF trg] direct
    by (auto simp: s cns_ok_def ist_ok_def vst_ok_def default_metadata_def)
qed

lemma constraint_column_counts_sorted [simp]: "constraint_column_counts (sort_key g cs) = constraint_column_counts cs"
  by (simp add: constraint_column_counts_sum check_columns_def comp_def sorted_sums)

lemma sort_dedup_sorted_keys: "ordered_keys keys \<Longrightarrow> sort_dedup_keys keys = keys"
  unfolding ordered_keys_def sort_dedup_keys_def
  by (simp add: strict_sorted_iff sort_key_id_if_sorted distinct_map remdups_adj_distinct)

text \<open>Normalization keeps the counts of a snapshot whose view dependencies are in order.\<close>

lemma normalized_object_counts:
  "emitted_of (emitted_object_counts (normalize_canonical_snapshot c)) cat = emitted_of (emitted_object_counts c) cat"
  by (simp add: emitted_object_counts_def normalize_canonical_snapshot_def normalize_schema_def normalize_metadata_def
      Let_def emitted_of_fold_add emitted_of_fold_zero sorted_sums)

lemma normalized_relationship_counts:
  assumes "list_all (\<lambda>v. ordered_keys (view_depends_on v)) (snap_views (can_schema c))"
    and "snap_routines (can_schema c) = []"
  shows "emitted_of (emitted_relationship_counts (normalize_canonical_snapshot c)) cat = emitted_of (emitted_relationship_counts c) cat"
proof -
  have "map (\<lambda>v. length (view_depends_on (normalize_view v))) (snap_views (can_schema c))
      = map (\<lambda>v. length (view_depends_on v)) (snap_views (can_schema c))"
    using assms(1) by (intro map_cong) (auto simp: list_all_iff normalize_view_def sort_dedup_sorted_keys)
  note views = arg_cong[OF this, of sum_list]
  have "trg_executes_routine_key (normalize_trigger t) = trg_executes_routine_key t" for t
    by (simp add: normalize_trigger_def)
  then show ?thesis
    using views by (simp add: emitted_relationship_counts_def normalize_canonical_snapshot_def normalize_schema_def
        normalize_metadata_def Let_def case_prod_unfold filter_map comp_def assms(2) sorted_sums)
qed

lemma view_column_counts:
  assumes "view_column_objects n objects"
  shows "count_list (map (\<lambda>x. object_category_from_kind (ok_object_kind (mo_key x))) objects) cat
      = (if cat = CatViewColumn then n else 0)"
    and "length (filter (\<lambda>x. mo_parent_key x \<noteq> None) objects) = n"
proof -
  have "map (\<lambda>x. object_category_from_kind (ok_object_kind (mo_key x))) objects = map (\<lambda>_. CatViewColumn) objects"
    using assms by (auto simp: view_column_objects_def list_all_iff)
  then show "count_list (map (\<lambda>x. object_category_from_kind (ok_object_kind (mo_key x))) objects) cat
      = (if cat = CatViewColumn then n else 0)"
    using assms unfolding \<open>map _ objects = _\<close> by (simp add: count_list_const view_column_objects_def)
  show "length (filter (\<lambda>x. mo_parent_key x \<noteq> None) objects) = n"
    using assms by (auto simp: view_column_objects_def list_all_iff filter_id_conv[THEN iffD2])
qed

definition discovered_of :: "('c, DiscoveredCount) btree \<Rightarrow> 'c \<Rightarrow> nat" where
  "discovered_of counts c = (case bt_get counts c of None \<Rightarrow> 0 | Some d \<Rightarrow> dsc_count d)"

lemma discovered_of_insert [simp]:
  "discovered_of (bt_insert c d m) c' = (if c' = c then dsc_count d else discovered_of m c')"
  by (simp add: discovered_of_def bt.get_insert)

lemma discovered_of_zero: "discovered_of (fold (\<lambda>c. bt_insert c \<lparr>dsc_count = 0, dsc_evidence = e\<rparr>) cs []) c = 0"
proof -
  have "discovered_of m c = 0 \<Longrightarrow> discovered_of (fold (\<lambda>c. bt_insert c \<lparr>dsc_count = 0, dsc_evidence = e\<rparr>) cs m) c = 0" for m
    by (induction cs arbitrary: m) auto
  then show ?thesis by (simp add: discovered_of_def bt_get_def)
qed

lemma fold_set_object_count:
  "fold (\<lambda>(c, n). set_object_count c n (e c)) xs m =
     m\<lparr>dis_objects := fold (\<lambda>(c, n). bt_insert c \<lparr>dsc_count = n, dsc_evidence = e c\<rparr>) xs (dis_objects m)\<rparr>"
  by (induction xs arbitrary: m) (auto simp: set_object_count_def)

lemma fold_set_relationship_count:
  "fold (\<lambda>(c, n). set_relationship_count c n (e c)) xs m =
     m\<lparr>dis_relationships := fold (\<lambda>(c, n). bt_insert c \<lparr>dsc_count = n, dsc_evidence = e c\<rparr>) xs (dis_relationships m)\<rparr>"
  by (induction xs arbitrary: m) (auto simp: set_relationship_count_def)

lemmas fold_set_counts = fold_set_object_count fold_set_relationship_count

lemma discovered_of_fold:
  "discovered_of (fold (\<lambda>(c, n). bt_insert c \<lparr>dsc_count = n, dsc_evidence = e c\<rparr>) xs m) cat =
     (case map_of (rev xs) cat of None \<Rightarrow> discovered_of m cat | Some n \<Rightarrow> n)"
  by (induction xs arbitrary: m) (auto simp: map_add_def split: option.splits)

lemma discovered_objects:
  "discovered_of (dis_objects (discovery_counts raw a b c)) cat =
     (case cat of CatDatabase \<Rightarrow> length (rcat_database_names raw) | CatSchema \<Rightarrow> 1
      | CatTable \<Rightarrow> length (table_relations raw)
      | CatColumn \<Rightarrow> sum_list (map table_width (rcat_relations raw))
      | CatViewColumn \<Rightarrow> sum_list (map view_width (rcat_relations raw))
      | CatPrimaryKey \<Rightarrow> length (filter (\<lambda>r. is_table (rr_kind r) \<and> list_ex in_primary_key (rr_columns r)) (rcat_relations raw))
      | CatForeignKey \<Rightarrow> sum_list (map length (bt_values (rcat_foreign_keys raw)))
      | CatUniqueConstraint \<Rightarrow> length (unique_backing raw) | CatCheckConstraint \<Rightarrow> length (parsed_checks raw)
      | CatIndex \<Rightarrow> length (rcat_indexes raw) | CatView \<Rightarrow> length (view_relations raw)
      | CatTrigger \<Rightarrow> length (rcat_triggers raw) | _ \<Rightarrow> 0)"
  unfolding discovery_counts_def Let_def fold_set_counts DiscoveryCounts.simps
    discovered_of_fold no_counts_def discovered_of_zero width_sums
  by (cases cat) simp_all

lemma discovered_relationships:
  "discovered_of (dis_relationships (discovery_counts raw checks views rels)) cat =
     (let primary_keys = length (filter (\<lambda>r. is_table (rr_kind r) \<and> list_ex in_primary_key (rr_columns r)) (rcat_relations raw));
          foreign_keys = sum_list (map length (bt_values (rcat_foreign_keys raw)))
      in case cat of DatabaseHasSchema \<Rightarrow> 1 | SchemaHasTable \<Rightarrow> length (table_relations raw)
      | TableHasColumn \<Rightarrow> sum_list (map table_width (rcat_relations raw))
      | TableHasConstraint \<Rightarrow> primary_keys + foreign_keys + length (unique_backing raw) + length (parsed_checks raw)
      | ConstraintColumn \<Rightarrow> length (filter in_primary_key (concat (map rr_columns (table_relations raw))))
          + length (filter rt_key (concat (map ri_terms (unique_backing raw)))) + checks
      | ForeignKeyColumnPair \<Rightarrow> sum_list (map (\<lambda>key. length (rf_parts key)) (concat (bt_values (rcat_foreign_keys raw))))
      | TableHasIndex \<Rightarrow> length (rcat_indexes raw) | IndexColumn \<Rightarrow> direct_index_columns (rcat_indexes raw)
      | SchemaHasView \<Rightarrow> length (view_relations raw) | ViewDependency \<Rightarrow> views
      | TriggerTarget \<Rightarrow> length (rcat_triggers raw)
      | MetadataParent \<Rightarrow> sum_list (map view_width (rcat_relations raw))
      | CatMetadataRelationship \<Rightarrow> rels | _ \<Rightarrow> 0)"
  unfolding discovery_counts_def Let_def fold_set_counts DiscoveryCounts.simps
    discovered_of_fold no_counts_def discovered_of_zero width_sums
  by (cases cat) simp_all

lemma map_catalog_objects:
  assumes "map_catalog version m raw = Ok d" and "consistent_catalog raw"
  shows "discovered_of (dis_objects (cdi_discovered_counts d)) cat = emitted_of (emitted_object_counts (cdi_snapshot d)) cat"
proof -
  note Ok = map_catalog_Ok[OF assms]
  have "rcat_database_names raw = [MAIN_CATALOG]" using assms(2) by (simp add: consistent_catalog_def)
  moreover have "map con_shape (snap_constraints (can_schema (cdi_snapshot d))) = catalog_shapes raw" using Ok by blast
  note constraints = constraint_counts(1)[OF assms(2) this]
  have "view_column_objects (sum_list (map view_width (rcat_relations raw))) (md_objects (can_metadata (cdi_snapshot d)))"
    using Ok by blast
  note view_columns = view_column_counts(1)[OF this]
  have "emitted_of (emitted_object_counts (cdi_snapshot d)) cat =
      (let s = can_schema (cdi_snapshot d)
       in (case cat of CatDatabase \<Rightarrow> 1 | CatSchema \<Rightarrow> length (snap_schemas s) | CatTable \<Rightarrow> length (snap_tables s)
           | CatColumn \<Rightarrow> length (snap_columns s) | CatIndex \<Rightarrow> length (snap_indexes s) | CatView \<Rightarrow> length (snap_views s)
           | CatTrigger \<Rightarrow> length (snap_triggers s) | CatRoutine \<Rightarrow> length (snap_routines s) | _ \<Rightarrow> 0)
         + count_list (map (\<lambda>x. constraint_category (con_kind x)) (snap_constraints s)) cat
         + count_list (map (\<lambda>x. object_category_from_kind (ok_object_kind (mo_key x))) (md_objects (can_metadata (cdi_snapshot d)))) cat)"
    unfolding emitted_object_counts_def Let_def
    by (cases cat) (simp_all add: emitted_of_fold_add emitted_of_fold_zero set_object_categories)
  ultimately show ?thesis
    using Ok constraints view_columns by (cases cat) (simp_all add: discovered_objects Let_def)
qed

lemma map_catalog_relationships:
  assumes "map_catalog version m raw = Ok d" and "consistent_catalog raw"
  shows "discovered_of (dis_relationships (cdi_discovered_counts d)) cat = emitted_of (emitted_relationship_counts (cdi_snapshot d)) cat"
proof -
  note Ok = map_catalog_Ok[OF assms]
  have "map con_shape (snap_constraints (can_schema (cdi_snapshot d))) = catalog_shapes raw" using Ok by blast
  note constraints = constraint_counts(2,3)[OF assms(2) this]
  have "view_column_objects (sum_list (map view_width (rcat_relations raw))) (md_objects (can_metadata (cdi_snapshot d)))"
    using Ok by blast
  note view_columns = view_column_counts(2)[OF this]
  have "filter (\<lambda>t. trg_executes_routine_key t \<noteq> None) (snap_triggers (can_schema (cdi_snapshot d))) = []"
    using Ok by (auto simp: list_all_iff filter_empty_conv)
  moreover have "emitted_of (emitted_relationship_counts (cdi_snapshot d)) cat =
      (let s = can_schema (cdi_snapshot d); md = can_metadata (cdi_snapshot d)
       in case cat of DatabaseHasSchema \<Rightarrow> length (snap_schemas s) | SchemaHasTable \<Rightarrow> length (snap_tables s)
           | TableHasColumn \<Rightarrow> length (snap_columns s) | TableHasConstraint \<Rightarrow> length (snap_constraints s)
           | TableHasIndex \<Rightarrow> length (snap_indexes s)
           | IndexColumn \<Rightarrow> sum_list (map (\<lambda>index. length (idx_columns index)) (snap_indexes s))
           | SchemaHasView \<Rightarrow> length (snap_views s)
           | ViewDependency \<Rightarrow> sum_list (map (\<lambda>v. length (view_depends_on v)) (snap_views s))
           | TriggerTarget \<Rightarrow> length (snap_triggers s)
           | TriggerRoutine \<Rightarrow> length (filter (\<lambda>t. trg_executes_routine_key t \<noteq> None) (snap_triggers s))
           | SchemaHasRoutine \<Rightarrow> length (snap_routines s)
           | RoutineDependency \<Rightarrow> sum_list (map (\<lambda>r. length (rtn_depends_on r)) (snap_routines s))
           | ConstraintColumn \<Rightarrow> fst (constraint_column_counts (snap_constraints s))
           | ForeignKeyColumnPair \<Rightarrow> snd (constraint_column_counts (snap_constraints s))
           | MetadataParent \<Rightarrow> length (filter (\<lambda>x. mo_parent_key x \<noteq> None) (md_objects md))
           | CatMetadataRelationship \<Rightarrow> length (md_relationships md))"
    unfolding emitted_relationship_counts_def Let_def case_prod_unfold
    by (cases cat) (simp_all add: emitted_of_fold_zero set_relationship_categories)
  ultimately show ?thesis
    using Ok constraints view_columns by (cases cat) (simp_all add: discovered_relationships Let_def)
qed

subsection \<open>Evidence\<close>

text \<open>The evidence texts are printable and begin with a letter.\<close>

fun letter_text :: "string \<Rightarrow> bool" where
  "letter_text [] = False"
| "letter_text (c # cs) = (c \<in> {CHR ''A'', CHR ''C'', CHR ''D'', CHR ''E'', CHR ''I'', CHR ''P'', CHR ''R'', CHR ''S'', CHR ''s''})"

lemma letter_text_not_blank: "letter_text s \<Longrightarrow> \<not> blank s"
  by (rule not_blank) (cases s; auto simp: white_space_def)+

lemma object_evidence_text: "proof_text (object_evidence cat)"
proof -
  have "list_all (\<lambda>c. letter_text (object_evidence c) \<and> \<not> has_control (object_evidence c)) object_categories"
    by code_simp
  then have "\<not> blank (object_evidence cat)" "\<not> has_control (object_evidence cat)"
    by (simp_all add: list_all_iff set_object_categories letter_text_not_blank)
  moreover have "length (object_evidence cat) \<le> MAX_PROOF_TEXT_BYTES"
    by (cases cat) (simp_all add: object_evidence.simps NO_OBJECTS_def MAX_PROOF_TEXT_BYTES_def)
  ultimately show ?thesis by (simp add: proof_text_def)
qed

lemma relationship_evidence_text: "proof_text (relationship_evidence cat)"
proof -
  have "list_all (\<lambda>c. letter_text (relationship_evidence c) \<and> \<not> has_control (relationship_evidence c)) relationship_categories"
    by code_simp
  then have "\<not> blank (relationship_evidence cat)" "\<not> has_control (relationship_evidence cat)"
    by (simp_all add: list_all_iff set_relationship_categories letter_text_not_blank)
  moreover have "length (relationship_evidence cat) \<le> MAX_PROOF_TEXT_BYTES"
    by (cases cat) (simp_all add: relationship_evidence.simps NO_RELATIONSHIPS_def MAX_PROOF_TEXT_BYTES_def)
  ultimately show ?thesis by (simp add: proof_text_def)
qed

text \<open>Every category has a count with a proof text for evidence.\<close>

definition evident :: "('c, DiscoveredCount) btree \<Rightarrow> 'c \<Rightarrow> bool" where
  "evident counts c = (case bt_get counts c of None \<Rightarrow> False | Some d \<Rightarrow> proof_text (dsc_evidence d))"

lemma evident_insert: "evident (bt_insert c d m) c' = (if c' = c then proof_text (dsc_evidence d) else evident m c')"
  by (simp add: evident_def bt.get_insert)

lemma evident_fold:
  assumes "\<And>x. x \<in> set xs \<Longrightarrow> proof_text (dsc_evidence (d x))" and "evident m c \<or> c \<in> f ` set xs"
  shows "evident (fold (\<lambda>x. bt_insert (f x) (d x)) xs m) c"
  using assms by (induction xs arbitrary: m) (auto simp: evident_insert)

lemma no_counts_evident: "evident (dis_objects no_counts) c" "evident (dis_relationships no_counts) r"
proof -
  have "proof_text NO_OBJECTS" using object_evidence_text[of CatEvent] by (simp add: object_evidence.simps)
  then show "evident (dis_objects no_counts) c"
    unfolding no_counts_def DiscoveryCounts.simps
    by (intro evident_fold[where f = "\<lambda>x. x"]) (simp_all add: set_object_categories)
  have "proof_text NO_RELATIONSHIPS" using relationship_evidence_text[of TriggerRoutine] by (simp add: relationship_evidence.simps)
  then show "evident (dis_relationships no_counts) r"
    unfolding no_counts_def DiscoveryCounts.simps
    by (intro evident_fold[where f = "\<lambda>x. x"]) (simp_all add: set_relationship_categories)
qed

lemma evident_fold_counts:
  assumes "\<And>c. proof_text (e c)" and "evident m c"
  shows "evident (fold (\<lambda>(c, n). bt_insert c \<lparr>dsc_count = n, dsc_evidence = e c\<rparr>) xs m) c"
  using assms(2) by (induction xs arbitrary: m) (auto simp: evident_insert assms(1))

lemma set_counts_evident:
  "evident (dis_objects (fold (\<lambda>(c, n). set_relationship_count c n (relationship_evidence c)) ys
     (fold (\<lambda>(c, n). set_object_count c n (object_evidence c)) xs no_counts))) c"
  "evident (dis_relationships (fold (\<lambda>(c, n). set_relationship_count c n (relationship_evidence c)) ys
     (fold (\<lambda>(c, n). set_object_count c n (object_evidence c)) xs no_counts))) r"
  by (simp_all add: fold_set_counts evident_fold_counts object_evidence_text relationship_evidence_text no_counts_evident)

lemma discovery_counts_evident:
  "evident (dis_objects (discovery_counts raw a b n)) c" "evident (dis_relationships (discovery_counts raw a b n)) r"
  unfolding discovery_counts_def Let_def by (rule set_counts_evident)+

lemma agrees_evident:
  "discovery_agrees emitted counts c \<longleftrightarrow> evident counts c \<and> discovered_of counts c = emitted_of emitted c"
  by (auto simp: discovery_agrees_def evident_def discovered_of_def split: option.splits)

lemma discover_Ok:
  assumes "discover_sqlite_connection sur conn kind object_kind alias notes = Ok d"
  shows "\<exists>raw m. read_catalog conn (sur_parser sur) (sur_show_expr sur) = Ok raw
    \<and> map_catalog (sur_pkg_version sur) m raw = Ok d \<and> consistent_catalog raw
    \<and> m = \<lparr>sm_conn = conn, sm_snapshot_source_kind = kind, sm_object_source_kind = object_kind,
           sm_connection_alias = alias, sm_notes = notes\<rparr>"
  using assms by (auto simp: discover_sqlite_connection_def try_with_Ok_iff dest: read_catalog_consistent)

lemma discover_agrees:
  fixes conn :: "'e SqliteConnection"
  assumes "discover_sqlite_connection sur conn kind object_kind alias notes = Ok d"
  defines "s \<equiv> normalize_canonical_snapshot (cdi_snapshot d)"
  shows "discovery_agrees (emitted_object_counts s) (dis_objects (cdi_discovered_counts d)) c"
    and "discovery_agrees (emitted_relationship_counts s) (dis_relationships (cdi_discovered_counts d)) r"
proof -
  obtain raw and m :: "'e SqliteSnapshotMapper" where m: "map_catalog (sur_pkg_version sur) m raw = Ok d" and raw: "consistent_catalog raw"
    using discover_Ok[OF assms(1)] by blast
  note Ok = map_catalog_Ok[OF m raw]
  have "evident (dis_objects (cdi_discovered_counts d)) c" "evident (dis_relationships (cdi_discovered_counts d)) r"
    using Ok discovery_counts_evident by metis+
  moreover have "list_all (\<lambda>v. ordered_keys (view_depends_on v)) (snap_views (can_schema (cdi_snapshot d)))"
    "snap_routines (can_schema (cdi_snapshot d)) = []"
    using Ok by blast+
  ultimately show "discovery_agrees (emitted_object_counts s) (dis_objects (cdi_discovered_counts d)) c"
    and "discovery_agrees (emitted_relationship_counts s) (dis_relationships (cdi_discovered_counts d)) r"
    by (simp_all add: s_def agrees_evident normalized_object_counts normalized_relationship_counts
        map_catalog_objects[OF m raw] map_catalog_relationships[OF m raw])
qed

end
