(* ===== verification/Sqlite_Certified.thy ===== *)
theory Sqlite_Certified
  imports Sqlite_Counts
begin

text \<open>
  What the certificate of a SQLite discovery rests on: the counts agree, the texts are proof texts, the scope and the
  capabilities are complete, so the well-formedness of the mapped snapshot decides. Also the names the adapter
  gives to constraints, and what it refuses.
\<close>

section \<open>Certification of a SQLite discovery\<close>

lemma map_catalog_frame:
  assumes "map_catalog v m raw = Ok d"
  shows "adp_name (cdi_adapter d) = ''database-memory-sqlite'' \<and> adp_version (cdi_adapter d) = v
    \<and> srv_product (cdi_server d) = ''SQLite'' \<and> srv_version (cdi_server d) = rcat_sqlite_version raw
    \<and> cdi_scope d = \<lparr>sco_catalogs = [''main''], sco_schemas = [''main'']\<rparr> \<and> cdi_capability_checks d = capability_checks_of raw
    \<and> snap_capabilities (can_schema (cdi_snapshot d)) = sqlite_capabilities m
    \<and> snap_source_kind (can_schema (cdi_snapshot d)) = sm_snapshot_source_kind m"
  using assms unfolding map_catalog_def Let_def
  by (auto simp: try_with_Ok_iff MAIN_CATALOG_def MAIN_SCHEMA_def split: prod.splits if_splits)


lemma proof_text_ascii:
  "letter_text s \<Longrightarrow> list_all printable s \<Longrightarrow> length s \<le> 1024 \<Longrightarrow> proof_text s"
  by (simp add: proof_text_def letter_text_not_blank printable_no_control MAX_PROOF_TEXT_BYTES_def)

lemma capability_checks_wf:
  assumes "- (2 ^ 63) \<le> rcat_schema_version raw" and "rcat_schema_version raw < 2 ^ 63"
    and "rcat_database_names raw = [MAIN_CATALOG]"
  shows "wf_checks (sort_capability_checks (capability_checks_of raw))"
proof -
  have "list_all printable ''PRAGMA database_list returned [main]; selected main schema at schema_version ''" by code_simp
  moreover have "chk_evidence (capability_checks_of raw ! 0) =
      ''PRAGMA database_list returned [main]; selected main schema at schema_version '' @ show_int (rcat_schema_version raw)"
    by (simp add: capability_checks_of_def assms(3) MAIN_CATALOG_def)
  ultimately have scope: "proof_text (chk_evidence (capability_checks_of raw ! 0))"
    using show_int_i64[OF assms(1,2)] by (intro proof_text_ascii) simp_all
  have others: "list_all (\<lambda>c. letter_text (chk_evidence c) \<and> \<not> has_control (chk_evidence c) \<and> length (chk_evidence c) \<le> 1024)
      (tl (capability_checks_of raw))"
    unfolding capability_checks_of_def list.sel by code_simp
  have rest: "proof_text (chk_evidence c)" if "c \<in> set (tl (capability_checks_of raw))" for c
    using others that by (auto simp: list_all_iff proof_text_def letter_text_not_blank MAX_PROOF_TEXT_BYTES_def)
  have names: "map chk_name (capability_checks_of raw) = [''catalog_scope'', ''metadata_only'', ''routines_absent'', ''sql_grammar'', ''system_scope'']"
    by (simp add: capability_checks_of_def)
  then have sorted: "sort_capability_checks (capability_checks_of raw) = capability_checks_of raw"
    unfolding sort_capability_checks_def by (intro sort_key_id_if_sorted) (simp add: capability_checks_of_def)
  have "list_all (\<lambda>n. \<not> blank n \<and> \<not> has_control n)
      [''catalog_scope'', ''metadata_only'', ''routines_absent'', ''sql_grammar'', ''system_scope'']" by code_simp
  then have "list_all (\<lambda>c. proof_text (chk_name c)) (capability_checks_of raw)"
    by (simp add: capability_checks_of_def proof_text_def MAX_PROOF_TEXT_BYTES_def)
  moreover have "capability_checks_of raw = capability_checks_of raw ! 0 # tl (capability_checks_of raw)"
    by (simp add: capability_checks_of_def)
  then have "\<forall>c\<in>set (capability_checks_of raw). proof_text (chk_evidence c)"
    using scope rest by (metis set_ConsD)
  ultimately show ?thesis
    unfolding wf_checks_def sorted using names by (simp add: list_all_iff) (simp add: capability_checks_of_def)
qed


lemma discovery_certified_iff:
  fixes conn :: "'e SqliteConnection"
  assumes "discover_sqlite_connection sur conn kind object_kind alias notes = Ok d"
    and "proof_text (sur_pkg_version sur)" and "proof_text (sq_version conn)"
    and "\<And>v. read_schema_version conn = Ok v \<Longrightarrow> - (2 ^ 63) \<le> v \<and> v < 2 ^ 63"
  shows "certify d = Ok c \<longleftrightarrow>
    c = certificate_for (cdi_snapshot d) (cdi_adapter d) (cdi_server d) (cdi_scope d) (cdi_discovered_counts d) (cdi_capability_checks d)
    \<and> well_formed_canonical (normalize_canonical_snapshot (cdi_snapshot d))"
proof -
  obtain raw and m :: "'e SqliteSnapshotMapper" where raw: "read_catalog conn (sur_parser sur) (sur_show_expr sur) = Ok raw"
    and m: "map_catalog (sur_pkg_version sur) m raw = Ok d" and ok: "consistent_catalog raw"
    using discover_Ok[OF assms(1)] by blast
  note frame = map_catalog_frame[OF m]
  have "rcat_sqlite_version raw = sq_version conn" "read_schema_version conn = Ok (rcat_schema_version raw)"
    using raw by (auto simp: read_catalog_def try_with_Ok_iff split: prod.splits)
  moreover have "rcat_database_names raw = [MAIN_CATALOG]" using ok by (simp add: consistent_catalog_def)
  ultimately have checks: "wf_checks (sort_capability_checks (cdi_capability_checks d))" and version: "srv_version (cdi_server d) = sq_version conn"
    using frame assms(4) by (simp_all add: capability_checks_wf)
  have "list_all (\<lambda>t. \<not> blank t \<and> \<not> has_control t) [''database-memory-sqlite'', ''SQLite'', ''main'']" by code_simp
  then have texts: "proof_text ''database-memory-sqlite''" "proof_text ''SQLite''" "scope_text ''main''"
    by (simp_all add: proof_text_def scope_text_def MAX_PROOF_TEXT_BYTES_def MAX_SCOPE_VALUE_BYTES_def)
  have "full_capabilities (can_schema (normalize_canonical_snapshot (cdi_snapshot d)))"
    using frame by (simp add: full_capabilities_def normalize_canonical_snapshot_def normalize_schema_def
        normalize_capabilities_def sqlite_capabilities_def sort_dedup_strings_def Let_def)
  then show ?thesis
    unfolding certify_def certify_Ok_iff complete_certificate_def certificate_for_def Let_def
    using frame version checks texts assms(2,3) discover_agrees[OF assms(1)]
    by (auto simp: normalize_idem reconciled_discovered set_object_categories distinct_object_categories
        set_relationship_categories distinct_relationship_categories normalize_scope_def wf_scope_def sort_dedup_strings_def)
qed

section \<open>Names of constraints\<close>

definition base_name :: "string option \<times> string \<Rightarrow> string" where
  "base_name request = (case fst request of None \<Rightarrow> snd request | Some name \<Rightarrow> name)"

definition uses_of :: "name_uses \<Rightarrow> string \<Rightarrow> nat" where
  "uses_of uses base = (case bt_get uses (fold_identifier base) of None \<Rightarrow> 0 | Some n \<Rightarrow> n)"

text \<open>A name is a base or a base with a number between two and its uses.\<close>

definition issued :: "name_uses \<Rightarrow> string \<Rightarrow> bool" where
  "issued uses name =
     (\<exists>base. CHR ''#'' \<notin> set base
       \<and> (name = base \<and> 1 \<le> uses_of uses base \<or> (\<exists>k. name = base @ ''#'' @ show_nat k \<and> 2 \<le> k \<and> k \<le> uses_of uses base)))"

lemma numbered_inject:
  assumes "a @ ''#'' @ show_nat i = b @ ''#'' @ show_nat j" and "CHR ''#'' \<notin> set a" and "CHR ''#'' \<notin> set b"
  shows "a = b \<and> i = j"
proof -
  have "takeWhile (\<lambda>c. c \<noteq> CHR ''#'') (x @ ''#'' @ y) = x" if "CHR ''#'' \<notin> set x" for x y
    using that by (induction x) auto
  from this[OF assms(2)] this[OF assms(3)] assms(1) have "a = b" by metis
  with assms(1) show ?thesis by (auto dest: show_nat_inject)
qed

lemma allocate_fresh:
  assumes "allocate declared fallback uses = ((name, d), uses')" and "CHR ''#'' \<notin> set (base_name (declared, fallback))"
  shows "\<not> issued uses name" and "issued uses' name" and "issued uses n \<Longrightarrow> issued uses' n"
proof -
  let ?base = "base_name (declared, fallback)"
  have uses': "uses_of uses' b = uses_of uses b + (if fold_identifier b = fold_identifier ?base then 1 else 0)" for b
    using assms(1) by (auto simp: allocate_def base_name_def uses_of_def Let_def bt_add_def bt.get_insert split: if_splits option.splits)
  have name: "name = (if uses_of uses ?base = 0 then ?base else ?base @ ''#'' @ show_nat (uses_of uses ?base + 1))"
    using assms(1) by (auto simp: allocate_def base_name_def uses_of_def Let_def bt_add_def bt.get_insert split: if_splits option.splits)
  show "\<not> issued uses name"
    using assms(2) unfolding issued_def name
    by (auto dest!: numbered_inject[unfolded append.simps] split: if_splits)
  show "issued uses' name"
    unfolding issued_def name using assms(2) uses'[of ?base] by (intro exI[of _ ?base]) auto
  show "issued uses n \<Longrightarrow> issued uses' n"
    unfolding issued_def using uses' by (metis le_add1 le_trans)
qed

text \<open>What the four constraint loops keep: the names given since the first \<open>n\<close> constraints are distinct and issued.\<close>

definition names_ok :: "nat \<Rightarrow> ConstraintMapState \<Rightarrow> bool" where
  "names_ok n st =
     (let names = map con_name (drop n (cns_constraints st))
      in n \<le> length (cns_constraints st) \<and> distinct names \<and> (\<forall>name\<in>set names. issued (cns_names st) name))"

definition plain :: "string \<Rightarrow> bool" where
  "plain name = (CHR ''#'' \<notin> set name)"

definition plain_names :: "RawRelation \<Rightarrow> bool" where
  "plain_names relation =
     (plain (rr_name relation)
      \<and> (case rr_parsed_table relation of
           None \<Rightarrow> True
         | Some parsed \<Rightarrow> list_all (\<lambda>c. case pc_name c of None \<Rightarrow> True | Some name \<Rightarrow> plain name) (ptd_constraints parsed)))"

lemma names_ok_count [simp]: "names_ok n (st\<lparr>cns_check_dependency_count := k\<rparr>) = names_ok n st"
  by (simp add: names_ok_def)

lemma emit_constraint_names:
  assumes "names_ok n st" and "plain (base_name (declared, fallback))"
  shows "names_ok n (emit_constraint m r tk kind declared fallback p columns rt rc e st)"
proof -
  obtain name d uses' where step: "allocate declared fallback (cns_names st) = ((name, d), uses')" by (metis surj_pair)
  note fresh = allocate_fresh[OF step assms(2)[unfolded plain_def]]
  show ?thesis
    using assms(1) fresh by (auto simp: names_ok_def emit_constraint_def Let_def step)
qed

lemma show_nat_plain: "plain (show_nat n)"
  using show_nat_digits[of "CHR ''#''" n] by (auto simp: plain_def)

lemma fallback_plain:
  assumes "plain r"
  shows "plain (''pk_'' @ r)" "plain (''uq_'' @ r @ ''_'' @ show_nat n)" "plain (''ck_'' @ r @ ''_'' @ show_nat n)"
    "plain (''fk_'' @ r @ ''_'' @ show_int i)"
  using assms show_nat_plain by (auto simp: plain_def show_int_def)

lemma plain_parsed:
  assumes "plain_names relation" and "c \<in> set (parsed_constraints relation kind)" and "plain fallback"
  shows "plain (base_name (pc_name c, fallback))"
  using assms by (auto simp: plain_names_def parsed_constraints_def list_all_iff base_name_def split: option.splits)

lemma match_parsed_plain:
  assumes "match_parsed err relation fits (parsed_constraints relation kind) matched = Ok (parsed, matched')"
    and "plain_names relation" and "plain fallback"
  shows "plain (base_name (parsed_name parsed, fallback))"
proof (cases parsed)
  case None
  then show ?thesis using assms(3) by (simp add: parsed_name_def base_name_def)
next
  case (Some c)
  then obtain i where "find (\<lambda>(i, c). \<not> bs_contains matched i \<and> fits c) (enumerate 0 (parsed_constraints relation kind)) = Some (i, c)"
    using assms(1) by (auto simp: match_parsed_def split: if_splits option.splits)
  then have "(i, c) \<in> set (enumerate 0 (parsed_constraints relation kind))" by (metis (no_types, lifting) find_Some_iff nth_mem)
  then have "c \<in> set (parsed_constraints relation kind)" by (auto simp: enumerate_eq_zip dest: set_zip_rightD)
  with Some plain_parsed[OF assms(2) _ assms(3)] show ?thesis by (simp add: parsed_name_def)
qed

lemma map_primary_key_names:
  assumes "names_ok n st" and "plain_names relation"
  shows "names_ok n (map_primary_key m relation tk primary st)"
proof -
  have "plain (rr_name relation)" using assms(2) by (simp add: plain_names_def)
  note fallback = fallback_plain(1)[OF this]
  show ?thesis
  proof (cases "parsed_constraints relation ParsedPrimaryKey")
    case Nil
    then show ?thesis using assms fallback
      by (simp add: map_primary_key_def parsed_name_def base_name_def emit_constraint_names)
  next
    case (Cons c cs)
    then have "plain (base_name (pc_name c, ''pk_'' @ rr_name relation))"
      using plain_parsed[OF assms(2) _ fallback, of c ParsedPrimaryKey] by simp
    then show ?thesis using assms Cons by (simp add: map_primary_key_def parsed_name_def emit_constraint_names)
  qed
qed

lemma map_unique_names:
  assumes "map_unique m relation tk ck entry acc = Ok acc'" and "names_ok n (fst acc)" and "plain_names relation"
  shows "names_ok n (fst acc')"
proof -
  obtain ordinal index st matched where e: "entry = (ordinal, index)" "acc = (st, matched)" by fastforce
  have "plain (rr_name relation)" using assms(3) by (simp add: plain_names_def)
  then show ?thesis
    using assms by (auto simp: e map_unique_def try_with_Ok_iff intro!: emit_constraint_names
        dest!: match_parsed_plain[OF _ assms(3) fallback_plain(2)])
qed

lemma map_check_names:
  assumes "map_check m relation tk tks ck entry st = Ok st'" and "names_ok n st" and "plain_names relation"
    and "snd entry \<in> set (parsed_constraints relation ParsedCheck)"
  shows "names_ok n st'"
proof -
  obtain ordinal c where e: "entry = (ordinal, c)" by fastforce
  have "plain (rr_name relation)" using assms(3) by (simp add: plain_names_def)
  from plain_parsed[OF assms(3) _ fallback_plain(3)[OF this], of c ParsedCheck] assms show ?thesis
    by (auto simp: e map_check_def Let_def try_with_Ok_iff intro!: emit_constraint_names)
qed

lemma map_foreign_key_names:
  assumes "map_foreign_key m relation tk tks ck pk raw acc = Ok acc'" and "names_ok n (fst acc)" and "plain_names relation"
  shows "names_ok n (fst acc')"
proof -
  obtain st matched where e: "acc = (st, matched)" by fastforce
  have "plain (rr_name relation)" using assms(3) by (simp add: plain_names_def)
  then show ?thesis
    using assms by (auto simp: e map_foreign_key_def try_with_Ok_iff intro!: emit_constraint_names
        dest!: match_parsed_plain[OF _ assms(3) fallback_plain(4)])
qed

lemma map_constraints_names:
  assumes "map_constraints m indexes fks tks ck pk relation acc = Ok st" and "plain_names relation"
  shows "distinct (map con_name (drop (length (cns_constraints acc)) (cns_constraints st)))"
proof -
  let ?n = "length (cns_constraints acc)"
  let ?primary = "case bt_get pk (fold_identifier (rr_name relation)) of None \<Rightarrow> [] | Some columns \<Rightarrow> columns"
  obtain tk st1 m1 st2 m2 where
    u: "try_fold (map_unique m relation tk ck) (enumerate 0 (unique_indexes relation indexes))
      (map_primary_key m relation tk ?primary (acc\<lparr>cns_names := []\<rparr>), []) = Ok (st1, m1)"
    and c: "try_fold (map_check m relation tk tks ck) (enumerate 0 (parsed_constraints relation ParsedCheck)) st1 = Ok st2"
    and f: "try_fold (map_foreign_key m relation tk tks ck pk)
      (case bt_get fks (rr_name relation) of None \<Rightarrow> [] | Some keys \<Rightarrow> keys) (st2, []) = Ok (st, m2)"
    using assms(1) unfolding map_constraints_def Let_def by (auto simp: try_with_Ok_iff split: if_splits prod.splits)
  have "names_ok ?n (acc\<lparr>cns_names := []\<rparr>)" by (simp add: names_ok_def)
  then have "names_ok ?n (fst (st1, m1))"
    by (intro try_fold_inv[OF u, of "\<lambda>acc. names_ok ?n (fst acc)"])
      (simp add: map_primary_key_names assms(2), rule map_unique_names[OF _ _ assms(2)])
  then have "names_ok ?n st2"
    by (intro try_fold_inv[OF c, of "names_ok ?n"])
      (simp, erule map_check_names[OF _ _ assms(2)], auto simp: enumerate_eq_zip dest: set_zip_rightD)
  then have "names_ok ?n (fst (st, m2))"
    by (intro try_fold_inv[OF f, of "\<lambda>acc. names_ok ?n (fst acc)"]) (simp, rule map_foreign_key_names[OF _ _ assms(2)])
  then show ?thesis by (simp add: names_ok_def Let_def)
qed

section \<open>Written MATCH clauses\<close>

lemma pragma_token_lower: "c \<in> set (normalize_pragma_token t) \<Longrightarrow> \<not> ascii_upper c"
  using replace_str_set[of c "'' ''" "''_''" "to_ascii_lowercase (trim t)"] to_ascii_lowercase_lower[of c "trim t"]
  by (auto simp: normalize_pragma_token_def ascii_upper_def)

text \<open>A foreign key that is written with a MATCH name in capitals never fits what the engine reports, whose
  tokens are lower case.\<close>

lemma written_match_refused:
  assumes "bt_get (pc_properties parsed) ''match'' = Some (String name)" and "list_ex ascii_upper name"
    and "rf_match_name raw = normalize_pragma_token reported"
  shows "\<not> parsed_foreign_key_matches parsed mapped raw"
proof -
  have "name \<noteq> rf_match_name raw" using assms(2,3) pragma_token_lower by (auto simp: list_ex_iff)
  then show ?thesis using assms(1) by (simp add: parsed_foreign_key_matches_def Let_def action_matches_def)
qed

text \<open>The running number can repeat a declared name: a table that declares \<open>a#2\<close> and twice \<open>a\<close>.\<close>

lemma running_number_collides:
  "let ((n1, _), u1) = allocate (Some ''a#2'') ''x'' []; ((n2, _), u2) = allocate (Some ''a'') ''x'' u1;
       ((n3, _), u3) = allocate (Some ''a'') ''x'' u2
   in [n1, n2, n3] = [''a#2'', ''a'', ''a#2'']"
  by code_simp

section \<open>A sample database\<close>

text \<open>A database with one virtual table of one column, as the engine reports it.\<close>

definition sample_rows :: "string \<Rightarrow> SqlValue list list" where
  "sample_rows sql =
     (if starts_with sql ''PRAGMA database_list'' then [[SqlInteger 0, SqlText ''main'']]
      else if starts_with sql ''PRAGMA main.schema_version'' then [[SqlInteger 3]]
      else if starts_with sql ''PRAGMA main.table_list''
      then [[SqlText ''main'', SqlText ''d'', SqlText ''virtual'', SqlInteger 1, SqlInteger 0, SqlInteger 0],
            [SqlText ''main'', SqlText ''sqlite_schema'', SqlText ''table'', SqlInteger 5, SqlInteger 0, SqlInteger 0]]
      else if starts_with sql ''SELECT type, name, tbl_name, sql''
      then [[SqlText ''table'', SqlText ''d'', SqlText ''d'', SqlText ''x'']]
      else if starts_with sql ''PRAGMA main.table_xinfo''
      then [[SqlInteger 0, SqlText ''c'', SqlText ''INTEGER'', SqlInteger 0, SqlNull, SqlInteger 1, SqlInteger 0]]
      else [])"

definition sample_connection :: "unit SqliteConnection" where
  "sample_connection =
     \<lparr>sq_query = \<lambda>sql. Ok (map Ok (sample_rows sql)), sq_prepare = \<lambda>_. ([], Ok ()),
       sq_begin = Ok (), sq_commit = Ok (), sq_bad_value = \<lambda>_ _. (), sq_version = ''3''\<rparr>"

definition sample_surroundings :: surroundings where
  "sample_surroundings = \<lparr>sur_parser = \<lambda>_. [], sur_show_expr = \<lambda>_. [], sur_pkg_version = ''1''\<rparr>"

lemma sample_rows_simps:
  "sample_rows ''PRAGMA database_list'' = [[SqlInteger 0, SqlText ''main'']]"
  "sample_rows ''PRAGMA main.schema_version'' = [[SqlInteger 3]]"
  "sample_rows ''PRAGMA main.table_list''
     = [[SqlText ''main'', SqlText ''d'', SqlText ''virtual'', SqlInteger 1, SqlInteger 0, SqlInteger 0],
        [SqlText ''main'', SqlText ''sqlite_schema'', SqlText ''table'', SqlInteger 5, SqlInteger 0, SqlInteger 0]]"
  "sample_rows ''SELECT type, name, tbl_name, sql FROM main.sqlite_schema ORDER BY type, name''
     = [[SqlText ''table'', SqlText ''d'', SqlText ''d'', SqlText ''x'']]"
  "sample_rows (''PRAGMA main.table_xinfo('' @ name) =
     [[SqlInteger 0, SqlText ''c'', SqlText ''INTEGER'', SqlInteger 0, SqlNull, SqlInteger 1, SqlInteger 0]]"
  "sample_rows (''PRAGMA main.index_list('' @ name) = []"
  "sample_rows (''PRAGMA main.foreign_key_list('' @ name) = []"
  by (simp_all add: sample_rows_def starts_with_def)

lemmas sample_engine = sample_connection_def fold_rows_def collect_rows_def get_text_def get_optional_text_def
  get_integer_def cell_def sample_rows_simps sample_rows_simps(5-7)[unfolded append.simps]

definition sample_entries :: schema_entries where
  "sample_entries = [((''table'', ''d''),
     \<lparr>rse_object_type = ''table'', rse_name = ''d'', rse_owner_name = ''d'', rse_sql = Some ''x''\<rparr>)]"

definition sample_relation :: RawRelation where
  "sample_relation = \<lparr>rr_name = ''d'', rr_kind = TableRelation Virtual, rr_declared_column_count = 1,
     rr_without_rowid = False, rr_strict = False, rr_sql = Some ''x'', rr_columns = [], rr_parsed_table = None\<rparr>"

definition sample_raw_column :: RawColumn where
  "sample_raw_column = \<lparr>rc_cid = 0, rc_name = ''c'', rc_data_type = ''INTEGER'', rc_not_null = False,
     rc_default_value = None, rc_primary_key_position = 1, rc_hidden = 0\<rparr>"

lemma sample_entries_read: "read_schema_entries sample_connection = Ok sample_entries"
  by (simp add: sample_engine read_schema_entries_def decode_schema_entry_def require_bounded_sql_def
      MAX_SCHEMA_SQL_BYTES_def sample_entries_def)

lemma sample_relations_read: "read_relations sample_connection sample_entries = Ok [sample_relation]"
  by (simp add: sample_engine read_relations_def decode_table_list_def read_relation_def MAIN_SCHEMA_def starts_with_def 
      relation_kind_def sample_entries_def sample_relation_def bt_get_def u32_MAX_def)

lemma sample_raw_columns_read: "read_relation_columns sample_connection ''d'' = Ok [sample_raw_column]"
  by (simp add: sample_engine read_relation_columns_def decode_column_def check_column_def u32_or_max_def u32_MAX_def sample_raw_column_def)


definition sample_catalog :: RawSqliteCatalog where
  "sample_catalog = \<lparr>rcat_sqlite_version = ''3'', rcat_schema_version = 3, rcat_database_names = [MAIN_CATALOG],
     rcat_relations = [sample_relation\<lparr>rr_columns := [sample_raw_column]\<rparr>], rcat_indexes = [],
     rcat_foreign_keys = [(''d'', [])], rcat_triggers = []\<rparr>"

lemma sample_names: "rr_name sample_relation = ''d''" "rr_kind sample_relation = TableRelation Virtual"
  "rr_declared_column_count sample_relation = 1" "rr_parsed_table sample_relation = None"
  by (simp_all add: sample_relation_def)

lemma sample_table_read:
  "read_table sample_connection p e sample_entries sample_relation ([], [], []) =
     Ok ([sample_relation\<lparr>rr_columns := [sample_raw_column]\<rparr>], [], [(''d'', [])])"
proof -
  have "read_indexes sample_connection p e sample_entries ''d'' = Ok []" "read_foreign_keys sample_connection ''d'' = Ok []"
    by (simp_all add: sample_engine read_indexes_def read_foreign_keys_def bt_values_def)
  moreover have "sample_relation\<lparr>rr_columns := cs, rr_parsed_table := None\<rparr> = sample_relation\<lparr>rr_columns := cs\<rparr>" for cs
    by (simp add: sample_relation_def)
  ultimately show ?thesis
    by (simp add: read_table_def sample_names read_declared_columns_def sample_raw_columns_read parse_relation_table_def)
qed

lemma sample_catalog_read: "read_catalog sample_connection p e = Ok sample_catalog"
proof -
  have "read_database_names sample_connection = Ok [MAIN_CATALOG]"
    by (simp add: sample_engine read_database_names_def MAIN_CATALOG_def)
  moreover have "read_schema_version sample_connection = Ok 3"
    by (simp add: sample_engine read_schema_version_def)
  moreover have "read_view sample_connection (sample_relation\<lparr>rr_columns := [sample_raw_column]\<rparr>) [] =
      Ok [sample_relation\<lparr>rr_columns := [sample_raw_column]\<rparr>]"
    by (simp add: read_view_def sample_names)
  moreover have "read_triggers p e sample_entries = (Ok [] :: (unit, _) sq_result)"
    by (simp add: read_triggers_def sample_entries_def bt_values_def)
  ultimately show ?thesis
    by (simp add: read_catalog_def sample_entries_read sample_relations_read sample_table_read sample_catalog_def)
      (simp add: sample_connection_def)
qed

lemma sample_mapped:
  fixes m :: "unit SqliteSnapshotMapper"
  shows "\<exists>d. map_catalog v m sample_catalog = Ok d"
proof -
  let ?r = "sample_relation\<lparr>rr_columns := [sample_raw_column]\<rparr>"
  have "rr_kind ?r = TableRelation Virtual" "rr_name ?r = ''d''" "rr_columns ?r = [sample_raw_column]" "rr_parsed_table ?r = None"
    by (simp_all add: sample_names)
  then show ?thesis
    by (simp add: map_catalog_def Let_def sample_catalog_def map_relation_def map_relation_columns_def lookup_key_def
        bt_get_def map_table_column_def parsed_column_map_def is_generated_def sample_raw_column_def u32_MAX_def
        map_generated_dependencies_def table_relations_def view_relations_def map_constraints_def check_primary_key_def
        parsed_constraints_def map_primary_key_def unique_indexes_def map_indexes_def direct_index_columns_def)
qed

lemma sample_discovered:
  "\<exists>d. discover_sqlite_connection sample_surroundings sample_connection kind okind alias notes = Ok d"
proof -
  obtain d where "map_catalog (sur_pkg_version sample_surroundings) \<lparr>sm_conn = sample_connection, sm_snapshot_source_kind = kind,
      sm_object_source_kind = okind, sm_connection_alias = alias, sm_notes = notes\<rparr> sample_catalog = Ok d"
    using sample_mapped by blast
  then show ?thesis
    by (simp add: discover_sqlite_connection_def sample_catalog_read) (simp add: sample_connection_def)
qed

text \<open>A table with two checks of one name.\<close>

definition sample_check :: ParsedConstraint where
  "sample_check = \<lparr>pc_name = Some ''a'', pc_kind = ParsedCheck, pc_columns = [], pc_referenced_table = None,
     pc_referenced_columns = [], pc_expression = Some ''1'', pc_properties = []\<rparr>"

definition sample_checked :: RawRelation where
  "sample_checked = sample_relation\<lparr>rr_parsed_table := Some \<lparr>ptd_name = ''d'', ptd_strict = False,
     ptd_without_rowid = False, ptd_columns = [], ptd_constraints = [sample_check, sample_check]\<rparr>\<rparr>"

definition sample_mapper :: "unit SqliteSnapshotMapper" where
  "sample_mapper = \<lparr>sm_conn = sample_connection, sm_snapshot_source_kind = ''sqlite'', sm_object_source_kind = ''sqlite'',
     sm_connection_alias = ''db'', sm_notes = []\<rparr>"

definition sample_table_key :: ObjectKey where
  "sample_table_key = mapper_key sample_mapper Table ''d'' None"

definition no_constraints :: ConstraintMapState where
  "no_constraints = \<lparr>cns_names = [], cns_constraints = [], cns_metadata = default_metadata, cns_check_dependency_count = 0\<rparr>"

lemma sample_constraints:
  "\<exists>st. map_constraints sample_mapper [] [] [(''d'', sample_table_key)] [] [] sample_checked no_constraints = Ok st
    \<and> map con_name (cns_constraints st) = [''a'', ''a#2'']"
proof -
  have "fold_identifier ''d'' = ''d''" by code_simp
  moreover have "char_of (50::nat) = CHR ''2''" by code_simp
  ultimately show ?thesis
    by (simp add: map_constraints_def Let_def sample_checked_def sample_names lookup_key_def bt_get_def check_primary_key_def
      parsed_constraints_def map_primary_key_def unique_indexes_def sample_check_def map_check_def expression_dependencies_def
      capture_prepare_accesses_def sample_mapper_def sample_connection_def map_accesses_def deduplicate_keys_def
      emit_constraint_def allocate_def no_constraints_def bt_add_def show_nat.simps)
qed

section \<open>Properties\<close>

text \<open>C12: what the SQLite adapter counts is what it emits. For every object category and every relationship category
  the count a discovery declares, taken from the catalog rows, has a printable evidence text and equals the number
  of objects or relationships of that category in the normalized snapshot, whatever the engine returned.\<close>

theorem sqlite_counts_agree:
  assumes "discover_sqlite_connection sur conn kind object_kind alias notes = Ok d"
  shows "discovery_agrees (emitted_object_counts (normalize_canonical_snapshot (cdi_snapshot d)))
      (dis_objects (cdi_discovered_counts d)) c
    \<and> discovery_agrees (emitted_relationship_counts (normalize_canonical_snapshot (cdi_snapshot d)))
      (dis_relationships (cdi_discovered_counts d)) r"
  using discover_agrees[OF assms] by blast

theorem sqlite_counts_agree_witness:
  "\<exists>d. discover_sqlite_connection sample_surroundings sample_connection ''sqlite'' ''sqlite'' ''db'' [] = Ok d
    \<and> discovery_agrees (emitted_object_counts (normalize_canonical_snapshot (cdi_snapshot d)))
        (dis_objects (cdi_discovered_counts d)) CatColumn
    \<and> discovery_agrees (emitted_relationship_counts (normalize_canonical_snapshot (cdi_snapshot d)))
        (dis_relationships (cdi_discovered_counts d)) ConstraintColumn"
  using sample_discovered[of "''sqlite''" "''sqlite''" "''db''" "[]"] sqlite_counts_agree by blast

text \<open>C13: certification of a SQLite discovery fails only on an ill-formed snapshot. When the package and engine versions are
  proof texts and the schema version is a 64-bit integer, the adapter's scope, capabilities, capability checks and
  counts always pass: the discovery is certified exactly when its normalized snapshot is well formed, and then with
  the certificate built from it.\<close>

theorem sqlite_certification_exact:
  assumes "discover_sqlite_connection sur conn kind object_kind alias notes = Ok d"
    and "proof_text (sur_pkg_version sur)" and "proof_text (sq_version conn)"
    and "\<And>v. read_schema_version conn = Ok v \<Longrightarrow> - (2 ^ 63) \<le> v \<and> v < 2 ^ 63"
  shows "certify_discovery d = Ok c \<longleftrightarrow>
    c = certificate_for (cdi_snapshot d) (cdi_adapter d) (cdi_server d) (cdi_scope d) (cdi_discovered_counts d) (cdi_capability_checks d)
    \<and> well_formed_canonical (normalize_canonical_snapshot (cdi_snapshot d))"
  unfolding certify_discovery_def using discovery_certified_iff[OF assms] .

theorem sqlite_certification_exact_witness:
  "\<exists>d. discover_sqlite_connection sample_surroundings sample_connection ''sqlite'' ''sqlite'' ''db'' [] = Ok d
    \<and> (certify_discovery d = Ok (certificate_for (cdi_snapshot d) (cdi_adapter d) (cdi_server d) (cdi_scope d)
          (cdi_discovered_counts d) (cdi_capability_checks d))
       \<longleftrightarrow> well_formed_canonical (normalize_canonical_snapshot (cdi_snapshot d)))"
proof -
  obtain d where d: "discover_sqlite_connection sample_surroundings sample_connection ''sqlite'' ''sqlite'' ''db'' [] = Ok d"
    using sample_discovered by blast
  have "list_all (\<lambda>t. \<not> blank t \<and> \<not> has_control t) [''1'', ''3'']" by code_simp
  then have "proof_text (sur_pkg_version sample_surroundings)" "proof_text (sq_version sample_connection)"
    by (simp_all add: sample_surroundings_def sample_connection_def proof_text_def MAX_PROOF_TEXT_BYTES_def)
  moreover have "- (2 ^ 63) \<le> v \<and> v < 2 ^ 63" if "read_schema_version sample_connection = Ok v" for v
    using that by (simp add: sample_engine read_schema_version_def)
  ultimately show ?thesis using d sqlite_certification_exact[OF d] by blast
qed



end
