(* ===== verification/Spec2Isabelle.thy ===== *)
theory Spec2Isabelle
  imports Cli_Main Bench_Support Sqlite_Certified
begin

text \<open>
  A verification library of the database-memory workspace (Rust, under \<open>src/crates/\<close>): a program that reads the
  schema of a database, certifies that the reading is complete, stores it as a graph in a SQLite file and
  answers questions about it, on a command line and as an MCP server. Below, \<open>core\<close>, \<open>cli\<close> and \<open>mcp\<close> are
  the directories \<open>crates/database-memory-core/src\<close>, \<open>crates/database-memory-cli/src\<close> and
  \<open>crates/database-memory-mcp/src\<close>.

  \<^bold>\<open>The program.\<close> An adapter (\<open>core/adapters\<close>) turns the catalog of a database into a canonical snapshot with
  counts of what the catalog holds. Certification normalizes and validates the snapshot and compares the counts;
  only a complete certificate is indexed. Indexing (\<open>core/interface_contract.rs\<close>) checks a request, runs the
  adapter and lets the graph builder project the certificate to nodes and edges in one transaction of the graph
  store. The readers (impact analysis, relationship trace, graph query, schema diff, the listings of the
  interface contract and the table descriptions of the clients) work on the stored rows. Paths named by MCP
  clients pass a path policy, texts that leave the program in errors pass a redaction.

  \<^bold>\<open>Which theory models which part.\<close>
  \<^item> Rust_Prelude, Btree, Rust_Path: what the source uses of the language and its library: results and early
    return, text functions over the UTF-8 bytes of a text, saturating and checked arithmetic on 64 bits, ordered maps
    and sets, paths with their components. A text is the list of its bytes, an unsigned number is a natural
    number with the bound written out where the code can reach it.
  \<^item> Object_Model (\<open>core/lib.rs\<close>) and Canonical (\<open>core/canonical.rs\<close>): object kinds and keys with printer and
    parser, the records of a snapshot, capabilities, metadata, normalization.
  \<^item> Issue_Collector, Snapshot_Validation, Canonical_Validation, Certification (\<open>core\<close> files of these names): the
    validators, issue by issue, and the certificate; each is proved equal to a declarative well-formedness.
  \<^item> Json_Values: JSON values and the interface to the serialisation of the records.
  \<^item> Graph_Store (\<open>core/graph_store.rs\<close>): a connection with its working and its durable database, migration,
    transactions, every write and read. Graph_Builder (\<open>core/graph_builder.rs\<close>): the projection.
  \<^item> Search_Spec, Impact_Analysis, Relationship_Trace, Graph_Query, Schema_Diff (\<open>core\<close> files of these names):
    what a search promises, and the four searches and comparisons of the code with all their bounds.
  \<^item> Redaction (\<open>core/redact.rs\<close>) and Analysis (\<open>core/analysis_outcome.rs\<close>, \<open>core/introspection.rs\<close>,
    \<open>core/config.rs\<close>): outcomes, failures and their bounded texts, cancellation checkpoints, configuration.
  \<^item> Sqlite_Sql, Ddl_Source (\<open>core/adapters/sqlite_sql.rs\<close>, \<open>core/ddl/sqlite.rs\<close>): the reading of schema
    statements and the guarded execution of DDL files.
  \<^item> Sqlite_Read, Sqlite_Map, Sqlite_Adapter, Sqlite_Counts, Sqlite_Certified (\<open>core/adapters/sqlite.rs\<close>,
    \<open>core/adapters/sqlite_catalog.rs\<close>): the adapter for SQLite, from catalog rows to a certificate.
  \<^item> Interface_Contract (\<open>core/interface_contract.rs\<close>): requests, indexing, listings and descriptions.
  \<^item> Bench_Support (\<open>core/bench_support.rs\<close>): the synthetic schemas of the benchmarks, which the validator accepts
    exactly when the texts of their configuration are filled in and the ordinals fit in 32 bits.
  \<^item> Path_Policy (\<open>mcp/path_policy.rs\<close>): the roots a client may name.
  \<^item> Cli_Args (\<open>cli/args.rs\<close>): the argument loops of the command line. Table_Lookup, Cli_Metadata,
    Table_Descriptions (\<open>cli/metadata.rs\<close>): lookup and description of tables, the inventory, searches, output.
    Cli_Main (\<open>cli/main.rs\<close>): every command, its text and its errors, and the exit of the process.
  \<^item> Mcp_Types, Mcp_Tools, Mcp_Server, Mcp_Listing (\<open>mcp/types.rs\<close>, \<open>mcp/tools.rs\<close>, \<open>mcp/lib.rs\<close>): the requests and results,
    every tool, the path guard and the replies of the MCP server. The functions of \<open>mcp/tools.rs\<close> that read the parts of a
    table have the text of those in \<open>cli/metadata.rs\<close> and are the ones of Table_Lookup.
  This theory composes them: what an index run leaves in the store, and what the clients then see of it.

  \<^bold>\<open>How state and operations correspond.\<close> A Rust struct is a record, an enum a datatype, a function one
  definition of the same name (a loop or a match of a long function is a definition of its own). Names that
  clash with the library or with each other carry a prefix or suffix. A fallible function returns an error or a
  value, \<open>?\<close> is \<open>try_with\<close>, a loop with \<open>?\<close> is \<open>try_fold\<close>. Where the code may panic the result is an option and
  None is the panic. A function on the store takes the connection and, when it writes, returns the new one.

  \<^bold>\<open>What is shown.\<close>
  \<^item> Validation and certification accept exactly the well-formed snapshots and complete certificates; the
    discovered counts of a certificate are the numbers of keys of the snapshot; normalization forgets the order.
  \<^item> A failed transaction leaves the durable database as it was, every reachable state of the store has unique
    keys and no dangling reference, a migration is all or nothing, pages partition the matches.
  \<^item> A successful certified insert replaces the rows of one snapshot by its projection and touches nothing else; an
    index run succeeds only with an acceptable request and a complete certificate; its objects are then
    listed page by page.
  \<^item> Impact analysis, query traversal and trace return exactly the objects within the depth at their
    shortest distance, or exactly the simple paths; with a limit they return only such results and miss
    none unless they say so. The diff returns exactly the differences.
  \<^item> Every page of the inventory, which the code computes through an index of the certificate, shows what the description
    of a table reads from nodes and edges of the graph.
  \<^item> The reply and the effect of an MCP tool depend only on files below the allowed roots. What its index tool stores its
    table listing returns page by page and its description tool describes; both clients describe a table alike and
    all three resolve a snapshot alike.
  \<^item> The counts of the SQLite adapter agree in every category, its discovery is certified exactly when the
    mapped snapshot is well formed, its constraint names are distinct.
  \<^item> Printed object keys are injective and parse back, with one exception, which is proved; DDL text runs only after its
    filter and under the authorizer; accepted paths are below an allowed root; connection strings
    lose their passwords, with the exception that the redaction may panic, which is proved; failure texts are bounded.

  \<^bold>\<open>Interfaces.\<close> The locales state what a client may rely on: \<open>ordered_map\<close> (maps of the standard library),
  \<open>issue_collector\<close> (three validators), \<open>transaction_body\<close> (plain and certified insert), \<open>bounded_edges\<close> (the
  edges of impact, trace and query), \<open>one_way_discovery\<close> (cancellation of a discovery), \<open>argument_loop\<close> (four
  loops of the command line), \<open>table_part\<close> (columns, constraints and indexes of a table). Each is
  interpreted on the definitions of the model.

  \<^bold>\<open>Loops.\<close> No loop has fuel. The searches decrease the nodes not yet visited and the queue, the trace the paths still
  possible within the depth and the queue, the redactions and replacements the text that is left; all other loops
  are folds. So every definition is total, and a result is a result of the code.

  \<^bold>\<open>Parameters.\<close> Code that is not in the repository is an argument of the definitions: the faults of the SQLite
  engine at each statement and the rows of its pragmas, the SQL parser, JSON text and the derived
  encoders and decoders, TOML, the file system and the canonicalisation of paths, the clock, the environment, other
  threads that cancel, Unicode lower-casing. What is assumed of them stands in the statements.

  \<^bold>\<open>Not modelled.\<close>
  \<^item> The adapters for PostgreSQL, YugabyteDB, MySQL, SQL Server, Oracle and ODBC: they send SQL to external
    servers and decode the rows, so what they return is decided by the catalogs of those servers; they are parameters of
    Interface_Contract.
  \<^item> \<open>mcp/main.rs\<close> and the routing of calls: the transport of the protocol library.
\<close>

section \<open>From a request to the stored graph\<close>

lemma analyze_Complete:
  assumes "analyze_complete_source ad request = Some (CompleteOutcome c)"
  shows "request_complaint request = Some None
    \<and> (cir_source request \<in> {''mysql'', ''mariadb''} \<longrightarrow> snap_source_kind (can_schema (cert_snapshot c)) = cir_source request)"
proof -
  obtain outcome where "validate_index_request request = Some None"
    and run: "enforce_requested_product request outcome = Some (CompleteOutcome c)"
    using assms by (auto simp: analyze_complete_source_def outcome_failed_def bind_eq_Some_conv split: option.splits)
  then have "request_complaint request = Some None"
    by (cases "request_complaint request")
      (auto simp: validate_index_request_def bind_eq_Some_conv split: option.splits prod.splits)
  moreover have "cir_source request \<in> {''mysql'', ''mariadb''} \<longrightarrow> snap_source_kind (can_schema (cert_snapshot c)) = cir_source request"
    using run by (cases outcome) (auto simp: enforce_requested_product_def outcome_failed_def Let_def split: if_splits)
  ultimately show ?thesis ..
qed

lemma sample_indexed:
  "index_complete_source (sample_adapters sample_projectable) (sample_serde sample_projectable) sample_request 0 ''c'' sample_store
    = Some (Ok (index_result sample_request 0 ''c'' ''sqlite:app'' sample_projectable),
        sample_store\<lparr>cn_db := certified_into (sample_serde sample_projectable) ''sqlite:app'' 0 sample_projectable empty_db\<rparr>)"
proof -
  have "insert_certified_schema_snapshot_graph (sample_serde sample_projectable) ''sqlite:app'' 0 sample_projectable sample_store =
      (Ok (), sample_store\<lparr>cn_db := certified_into (sample_serde sample_projectable) ''sqlite:app'' 0 sample_projectable empty_db\<rparr>)"
    using certified_quiet[OF sample_store_quiet sample_projectable_complete
        sample_payload_accepted[OF sample_projectable_complete], of "''sqlite:app''" 0]
    by (simp add: sample_projectable sample_store_def sample_conn_def)
  then show ?thesis
    by (simp add: index_complete_source_def sample_analysis) (simp add: sample_request_def new_index_request_def Let_def)
qed

text \<open>C6: what indexing does. An index run that ends in an error leaves the durable database as it was,
  whatever failed. A run that succeeds had an acceptable request and a complete certificate, of the requested
  product where the request demands one; the durable rows of the snapshot are then its projection, as many
  objects and relationships as the result reports, and the rows of other snapshots are untouched.\<close>

theorem indexing_outcome:
  assumes "index_complete_source ad sj request t cache store = Some (r, store')" and "conn_inv store"
  shows "case r of
      Inl err \<Rightarrow> durable store' = durable store
    | Inr res \<Rightarrow>
        (\<exists>c sk. sk = cir_source request @ '':'' @ cir_alias request
          \<and> analyze_complete_source ad request = Some (CompleteOutcome c) \<and> complete_certificate c
          \<and> request_complaint request = Some None
          \<and> (cir_source request \<in> {''mysql'', ''mariadb''} \<longrightarrow> ixr_analyzed_source res = cir_source request)
          \<and> res = index_result request t cache sk c
          \<and> filter (\<lambda>x. gn_snapshot_key x = sk) (gd_nodes (durable store')) = nodes_of sj sk c
          \<and> filter (\<lambda>x. ge_snapshot_key x = sk) (gd_edges (durable store')) = edges_of sj sk c
          \<and> length (nodes_of sj sk c) = ixr_objects_indexed res
          \<and> length (edges_of sj sk c) = ixr_relationships_indexed res
          \<and> filter (\<lambda>x. gn_snapshot_key x \<noteq> sk) (gd_nodes (durable store')) =
              filter (\<lambda>x. gn_snapshot_key x \<noteq> sk) (gd_nodes (durable store))
          \<and> filter (\<lambda>x. ge_snapshot_key x \<noteq> sk) (gd_edges (durable store')) =
              filter (\<lambda>x. ge_snapshot_key x \<noteq> sk) (gd_edges (durable store)))"
  using assms(1)
proof (rule index_cases)
  fix c
  assume an: "analyze_complete_source ad request = Some (CompleteOutcome c)"
    and run: "insert_certified_schema_snapshot_graph sj (index_key request) t c store = (Ok (), store')"
    and r: "r = Ok (index_result request t cache (index_key request) c)"
  have c: "complete_certificate c" "projectable sj (index_key request) c" using certified_Ok[OF run assms(2)] by blast+
  show ?thesis
    unfolding r sum.case
    by (intro exI[of _ c] exI[of _ "index_key request"] conjI)
      (use an c analyze_Complete[OF an] certified_effect[OF run assms(2)] projected_lengths[OF c]
        in \<open>simp_all add: index_result_def Let_def\<close>)
qed (simp_all add: certified_error_atomic)

theorem indexing_outcome_witness:
  "\<exists>store'. index_complete_source (sample_adapters sample_projectable) (sample_serde sample_projectable) sample_request 0 ''c'' sample_store
      = Some (Ok (index_result sample_request 0 ''c'' ''sqlite:app'' sample_projectable), store')
    \<and> filter (\<lambda>x. gn_snapshot_key x = ''sqlite:app'') (gd_nodes (durable store')) =
        nodes_of (sample_serde sample_projectable) ''sqlite:app'' sample_projectable"
proof -
  have "conn_inv sample_store" using sample_store_quiet by (simp add: quiet_def)
  from indexing_outcome[OF sample_indexed this] have
    "\<exists>c. analyze_complete_source (sample_adapters sample_projectable) sample_request = Some (CompleteOutcome c)
      \<and> filter (\<lambda>x. gn_snapshot_key x = ''sqlite:app'') (gd_nodes (durable
          (sample_store\<lparr>cn_db := certified_into (sample_serde sample_projectable) ''sqlite:app'' 0 sample_projectable empty_db\<rparr>)))
        = nodes_of (sample_serde sample_projectable) ''sqlite:app'' c"
    by (auto simp: sample_request_def new_index_request_def)
  then show ?thesis using sample_indexed by (auto simp: sample_analysis)
qed

section \<open>From the stored graph to the clients\<close>

text \<open>C33: which indexed objects the clients can see. Of a complete certificate with readable keys every
  projected object has a summary exactly when no metadata object is a primary key, a unique or check
  constraint, an index, a routine or a trigger: these pass validation as metadata objects but are projected
  under the label MetadataObject, which the lookup refuses.\<close>

theorem indexed_objects_visible:
  assumes "complete_certificate c" and "readable_keys c"
  shows "(\<forall>n\<in>set (nodes_of sj sk c). \<exists>s. object_summary n = Ok s) \<longleftrightarrow>
    (\<forall>object\<in>set (md_objects (can_metadata (cert_snapshot c))).
       ok_object_kind (mo_key object) \<notin> {ObjectKind.PrimaryKey, UniqueConstraint, CheckConstraint, Index, Routine, Trigger})"
  unfolding summaries_iff[OF assms] unlabelled_def by (rule refl)

lemma sample_keys:
  "canonical_keys (cert_snapshot sample_projectable) =
     [sample_object_key Database ''main'' None, sample_object_key Schema ''main'' None, sample_object_key Routine ''users'' None]"
  "md_objects (can_metadata (cert_snapshot sample_projectable)) = []"
  by (simp_all add: canonical_keys_def schema_keys_def sample_projectable_def sample_certificate_def certificate_for_def
      normalize_canonical_snapshot_def normalize_schema_def canonical_from_schema_def sample_routine_only_def
      sample_routine_view_def sample_schema_def sample_routine_def Let_def normalize_metadata_def
      normalize_routine_def default_metadata_def)

lemma sample_keys_readable: "readable_keys sample_projectable"
proof -
  have "parse_object_key (key_to_string (sample_object_key kind name None)) = Ok (sample_object_key kind name None)"
    if "name = ''main'' \<or> name = ''users''" for kind name
    by (rule parse_key_to_string)
      (use that in \<open>auto simp: sample_object_key_def nonempty_key_def key_parts_def\<close>)
  then show ?thesis by (simp add: readable_keys_def sample_keys)
qed

theorem indexed_objects_visible_witness:
  "list_all (\<lambda>n. \<exists>s. object_summary n = Ok s)
     (nodes_of (sample_serde sample_projectable) ''sqlite:app'' sample_projectable)"
  using indexed_objects_visible[OF sample_projectable_complete sample_keys_readable]
  by (simp add: sample_keys list_all_iff)



end
